(* ===== verification/Prelude.thy ===== *)
theory Prelude
  imports Main "HOL-Library.Char_ord" "HOL-Library.Sublist" "HOL-Library.Word"
    "HOL-Library.Code_Target_Nat" "HOL-Library.Code_Target_Int"
begin

text \<open>
  Shared vocabulary of the development.  A Rust \<open>str\<close> is modelled by its UTF-8 bytes, a
  \<open>string\<close> of HOL (a list of 8-bit characters): \<open>len()\<close> is \<open>length\<close>, the ASCII predicates are
  exact because every byte of a multi-byte character is at least 0x80, and the Unicode
  predicates used by the code (\<open>is_whitespace\<close>, \<open>is_control\<close>, \<open>trim\<close>) are written on the byte
  patterns of the characters concerned.  A \<open>Result<T, E>\<close> is \<open>'e + 'a\<close> with \<open>Inl\<close> the error.
  The theory holds the byte classes, the searching, splitting and joining of strings, decimal
  printing and parsing, and the lemmas that the components share.
\<close>

named_theorems result_simps
named_theorems byte_class_defs
named_theorems split_simps

section \<open>Results and the question-mark operator\<close>

definition and_then :: "'e + 'a \<Rightarrow> ('a \<Rightarrow> 'e + 'b) \<Rightarrow> 'e + 'b" where
  "and_then m k = (case m of Inl e \<Rightarrow> Inl e | Inr x \<Rightarrow> k x)"

definition require :: "bool \<Rightarrow> 'e \<Rightarrow> 'e + unit" where
  "require b e = (if b then Inr () else Inl e)"

definition ok_or :: "'a option \<Rightarrow> 'e \<Rightarrow> 'e + 'a" where
  "ok_or x e = (case x of None \<Rightarrow> Inl e | Some v \<Rightarrow> Inr v)"

definition is_ok :: "'e + 'a \<Rightarrow> bool" where
  "is_ok r = (case r of Inl _ \<Rightarrow> False | Inr _ \<Rightarrow> True)"

fun for_each :: "('a \<Rightarrow> 'e + unit) \<Rightarrow> 'a list \<Rightarrow> 'e + unit" where
  "for_each f [] = Inr ()"
| "for_each f (x # xs) = and_then (f x) (\<lambda>_. for_each f xs)"

fun map_result :: "('a \<Rightarrow> 'e + 'b) \<Rightarrow> 'a list \<Rightarrow> 'e + 'b list" where
  "map_result f [] = Inr []"
| "map_result f (x # xs) = and_then (f x) (\<lambda>y. and_then (map_result f xs) (\<lambda>ys. Inr (y # ys)))"

lemma and_then_simps [simp]:
  "and_then (Inl e) k = Inl e" "and_then (Inr x) k = k x"
  by (simp_all add: and_then_def)

lemma and_then_Inr_iff [result_simps]:
  "and_then m k = Inr y \<longleftrightarrow> (\<exists>x. m = Inr x \<and> k x = Inr y)"
  by (cases m) auto

lemma and_then_Inl_iff:
  "and_then m k = Inl e \<longleftrightarrow> m = Inl e \<or> (\<exists>x. m = Inr x \<and> k x = Inl e)"
  by (cases m) auto

lemma require_simps [simp]:
  "require True e = Inr ()" "require False e = Inl e"
  by (simp_all add: require_def)

lemma require_Inr_iff [result_simps]: "require b e = Inr u \<longleftrightarrow> b"
  by (simp add: require_def)

lemma require_Inl_iff: "require b e = Inl e' \<longleftrightarrow> \<not> b \<and> e' = e"
  by (auto simp: require_def)

lemma ok_or_simps [simp]: "ok_or None e = Inl e" "ok_or (Some v) e = Inr v"
  by (simp_all add: ok_or_def)

lemma ok_or_Inr_iff [result_simps]: "ok_or x e = Inr v \<longleftrightarrow> x = Some v"
  by (cases x) auto

lemma is_ok_simps [simp]: "is_ok (Inl e) = False" "is_ok (Inr x) = True"
  by (simp_all add: is_ok_def)

lemma is_ok_iff: "is_ok r \<longleftrightarrow> (\<exists>x. r = Inr x)"
  by (cases r) auto

lemma is_ok_unit [result_simps]: "is_ok (r :: 'e + unit) \<longleftrightarrow> r = Inr ()"
  by (cases r) auto

lemma for_each_Inr_iff [result_simps]:
  "for_each f xs = Inr u \<longleftrightarrow> (\<forall>x\<in>set xs. f x = Inr ())"
  by (induction xs) (auto simp: result_simps)

lemma map_result_Inr_iff:
  "map_result f xs = Inr ys \<longleftrightarrow> list_all2 (\<lambda>x y. f x = Inr y) xs ys"
  by (induction xs arbitrary: ys) (auto simp: result_simps list_all2_Cons1)

lemma map_result_mem:
  "map_result f xs = Inr ys \<Longrightarrow> y \<in> set ys \<Longrightarrow> \<exists>x\<in>set xs. f x = Inr y"
  by (induction xs arbitrary: ys) (auto simp: result_simps)

section \<open>Byte classes\<close>

definition is_lower :: "char \<Rightarrow> bool" where
  [byte_class_defs]: "is_lower c \<longleftrightarrow> CHR ''a'' \<le> c \<and> c \<le> CHR ''z''"

definition is_upper :: "char \<Rightarrow> bool" where
  [byte_class_defs]: "is_upper c \<longleftrightarrow> CHR ''A'' \<le> c \<and> c \<le> CHR ''Z''"

definition is_digit :: "char \<Rightarrow> bool" where
  [byte_class_defs]: "is_digit c \<longleftrightarrow> CHR ''0'' \<le> c \<and> c \<le> CHR ''9''"

definition is_alpha :: "char \<Rightarrow> bool" where
  [byte_class_defs]: "is_alpha c \<longleftrightarrow> is_lower c \<or> is_upper c"

definition is_alnum :: "char \<Rightarrow> bool" where
  [byte_class_defs]: "is_alnum c \<longleftrightarrow> is_alpha c \<or> is_digit c"

definition is_lower_digit :: "char \<Rightarrow> bool" where
  [byte_class_defs]: "is_lower_digit c \<longleftrightarrow> is_lower c \<or> is_digit c"

definition is_hexdigit :: "char \<Rightarrow> bool" where
  [byte_class_defs]: "is_hexdigit c \<longleftrightarrow>
     is_digit c \<or> (CHR ''a'' \<le> c \<and> c \<le> CHR ''f'') \<or> (CHR ''A'' \<le> c \<and> c \<le> CHR ''F'')"

definition is_lower_hex :: "char \<Rightarrow> bool" where
  [byte_class_defs]: "is_lower_hex c \<longleftrightarrow> is_hexdigit c \<and> \<not> is_upper c"

definition to_lower :: "char \<Rightarrow> char" where
  "to_lower c = (if is_upper c then char_of (of_char c + 32 :: nat) else c)"

definition to_upper :: "char \<Rightarrow> char" where
  "to_upper c = (if is_lower c then char_of (of_char c - 32 :: nat) else c)"

definition ascii_lowercase :: "string \<Rightarrow> string" where
  "ascii_lowercase s = map to_lower s"

text \<open>\<open>str::to_lowercase\<close> as far as the result is compared with ASCII words: of the characters outside ASCII
  only the Kelvin sign (U+212A) becomes an ASCII letter, and U+0130 becomes an \<open>i\<close> with a combining
  mark after it, which no such word has.\<close>

fun fold_kelvin :: "string \<Rightarrow> string" where
  "fold_kelvin (a # b # c # s) =
     (if a = CHR 0xE2 \<and> b = CHR 0x84 \<and> c = CHR 0xAA then CHR ''k'' # fold_kelvin s else a # fold_kelvin (b # c # s))"
| "fold_kelvin s = s"

definition lower_word :: "string \<Rightarrow> string" where
  "lower_word s = ascii_lowercase (fold_kelvin s)"

definition ascii_uppercase :: "string \<Rightarrow> string" where
  "ascii_uppercase s = map to_upper s"

lemma lower_digit_separators:
  "is_lower_digit c \<Longrightarrow> c \<noteq> CHR ''/'' \<and> c \<noteq> CHR ''.'' \<and> c \<noteq> CHR ''-'' \<and> c \<noteq> CHR ''_'' \<and>
     c \<noteq> CHR '':'' \<and> c \<noteq> CHR ''@'' \<and> c \<noteq> CHR 0x00 \<and> c \<noteq> CHR 0x5C"
  by (auto simp: byte_class_defs)

lemma lower_hex_lower_digit: "is_lower_hex c \<Longrightarrow> is_lower_digit c"
  by (auto simp: byte_class_defs less_eq_char_def)

lemma char_class_disjoint:
  "is_digit c \<Longrightarrow> \<not> is_lower c" "is_digit c \<Longrightarrow> \<not> is_upper c" "is_lower c \<Longrightarrow> \<not> is_upper c"
  by (auto simp: byte_class_defs less_eq_char_def)

section \<open>Searching and slicing\<close>

fun find_idx :: "('a \<Rightarrow> bool) \<Rightarrow> 'a list \<Rightarrow> nat option" where
  "find_idx P [] = None"
| "find_idx P (x # xs) = (if P x then Some 0 else map_option Suc (find_idx P xs))"

fun rfind_idx :: "('a \<Rightarrow> bool) \<Rightarrow> 'a list \<Rightarrow> nat option" where
  "rfind_idx P [] = None"
| "rfind_idx P (x # xs) =
     (case rfind_idx P xs of Some i \<Rightarrow> Some (Suc i) | None \<Rightarrow> if P x then Some 0 else None)"

definition strip_prefix :: "string \<Rightarrow> string \<Rightarrow> string option" where
  "strip_prefix p s = (if prefix p s then Some (drop (length p) s) else None)"

definition strip_suffix :: "string \<Rightarrow> string \<Rightarrow> string option" where
  "strip_suffix p s = (if suffix p s then Some (take (length s - length p) s) else None)"

definition ends_with :: "string \<Rightarrow> string \<Rightarrow> bool" where
  "ends_with p s \<longleftrightarrow> suffix p s"

lemma find_idx_None_iff: "find_idx P xs = None \<longleftrightarrow> (\<forall>x\<in>set xs. \<not> P x)"
  by (induction xs) auto

lemma find_idx_SomeD:
  "find_idx P xs = Some i \<Longrightarrow> i < length xs \<and> P (xs ! i) \<and> (\<forall>x\<in>set (take i xs). \<not> P x)"
  by (induction xs arbitrary: i) (auto split: if_splits)

lemma rfind_idx_None_iff: "rfind_idx P xs = None \<longleftrightarrow> (\<forall>x\<in>set xs. \<not> P x)"
  by (induction xs) (auto split: option.splits)

lemma rfind_idx_SomeD:
  "rfind_idx P xs = Some i \<Longrightarrow> i < length xs \<and> P (xs ! i) \<and> (\<forall>x\<in>set (drop (Suc i) xs). \<not> P x)"
proof (induction xs arbitrary: i)
  case (Cons a xs)
  show ?case
  proof (cases "rfind_idx P xs")
    case None
    then have "\<forall>x\<in>set xs. \<not> P x" by (simp only: rfind_idx_None_iff)
    then show ?thesis using Cons.prems None by (simp split: if_splits)
  next
    case (Some j)
    then show ?thesis using Cons.prems Cons.IH[OF Some] by auto
  qed
qed simp

lemma find_idx_split:
  assumes "find_idx P xs = Some i"
  shows "xs = take i xs @ xs ! i # drop (Suc i) xs"
  using find_idx_SomeD[OF assms] by (simp add: id_take_nth_drop)

lemma rfind_idx_split:
  assumes "rfind_idx P xs = Some i"
  shows "xs = take i xs @ xs ! i # drop (Suc i) xs"
  using rfind_idx_SomeD[OF assms] by (simp add: id_take_nth_drop)

lemma find_idx_append_sep:
  "\<forall>x\<in>set xs. \<not> P x \<Longrightarrow> P y \<Longrightarrow> find_idx P (xs @ y # ys) = Some (length xs)"
  by (induction xs) auto

lemma rfind_idx_append_sep:
  "\<forall>x\<in>set ys. \<not> P x \<Longrightarrow> P y \<Longrightarrow> rfind_idx P (xs @ y # ys) = Some (length xs)"
proof (induction xs)
  case Nil
  then have "rfind_idx P ys = None" by (simp add: rfind_idx_None_iff)
  then show ?case using Nil by simp
next
  case (Cons x xs)
  then show ?case by simp
qed

lemma rfind_idx_append:
  "rfind_idx P (a @ b) =
     (case rfind_idx P b of Some j \<Rightarrow> Some (length a + j) | None \<Rightarrow> rfind_idx P a)"
  by (induction a) (auto split: option.splits)

lemma strip_prefix_Some_iff: "strip_prefix p s = Some r \<longleftrightarrow> s = p @ r"
  by (auto simp: strip_prefix_def prefix_def)

lemma strip_prefix_None_iff: "strip_prefix p s = None \<longleftrightarrow> \<not> prefix p s"
  by (simp add: strip_prefix_def)

lemma strip_suffix_Some_iff: "strip_suffix p s = Some r \<longleftrightarrow> s = r @ p"
  by (auto simp: strip_suffix_def suffix_def)

lemma strip_prefix_append [simp]: "strip_prefix p (p @ r) = Some r"
  by (simp add: strip_prefix_Some_iff)

lemma unique_separator:
  assumes "x \<notin> set a" "x \<notin> set a'" "a @ x # b = a' @ x # b'"
  shows "a = a' \<and> b = b'"
  using assms
proof (induction a arbitrary: a')
  case Nil
  then show ?case by (cases a') auto
next
  case (Cons y a)
  then show ?case by (cases a') auto
qed

section \<open>Splitting and joining\<close>

fun split_on :: "'a \<Rightarrow> 'a list \<Rightarrow> 'a list list" where
  "split_on d [] = [[]]"
| "split_on d (c # cs) =
     (if c = d then [] # split_on d cs
      else (case split_on d cs of [] \<Rightarrow> [[c]] | p # ps \<Rightarrow> (c # p) # ps))"

fun join_with :: "'a list \<Rightarrow> 'a list list \<Rightarrow> 'a list" where
  "join_with sep [] = []"
| "join_with sep [p] = p"
| "join_with sep (p # q # ps) = p @ sep @ join_with sep (q # ps)"

lemma split_on_not_Nil [simp]: "split_on d s \<noteq> []"
  by (cases "(d, s)" rule: split_on.cases) (auto split: list.splits)

lemma split_on_no_sep: "d \<notin> set s \<Longrightarrow> split_on d s = [s]"
  by (induction s) auto

lemma split_on_append_sep: "split_on d (a @ d # b) = split_on d a @ split_on d b"
  by (induction a) (auto split: list.splits)

lemma split_on_parts: "p \<in> set (split_on d s) \<Longrightarrow> d \<notin> set p \<and> set p \<subseteq> set s"
  by (induction s arbitrary: p) (fastforce split: if_splits list.splits)+

lemma split_on_chars: "c \<in> set s \<Longrightarrow> c \<noteq> d \<Longrightarrow> \<exists>p\<in>set (split_on d s). c \<in> set p"
  by (induction s) (auto split: list.splits)

lemma join_split [simp]: "join_with [d] (split_on d s) = s"
proof (induction s)
  case (Cons c cs)
  show ?case
  proof (cases "split_on d cs")
    case (Cons p ps)
    then show ?thesis using Cons.IH by (cases ps) (auto split: list.splits)
  qed simp
qed simp

lemma join_with_append:
  "ps \<noteq> [] \<Longrightarrow> qs \<noteq> [] \<Longrightarrow> join_with sep (ps @ qs) = join_with sep ps @ sep @ join_with sep qs"
proof (induction ps rule: induct_list012)
  case (2 p)
  then show ?case by (cases qs) auto
qed simp_all

lemma split_on_join:
  "ps \<noteq> [] \<Longrightarrow> \<forall>p\<in>set ps. d \<notin> set p \<Longrightarrow> split_on d (join_with [d] ps) = ps"
proof (induction ps rule: induct_list012)
  case (3 p q ps)
  then show ?case by (simp add: split_on_append_sep split_on_no_sep)
qed (auto simp: split_on_no_sep)

section \<open>Decimal numbers\<close>

definition digit_char :: "nat \<Rightarrow> char" where
  "digit_char n = char_of (48 + n)"

definition digit_val :: "char \<Rightarrow> nat" where
  "digit_val c = of_char c - 48"

fun show_nat :: "nat \<Rightarrow> string" where
  "show_nat n = (if n < 10 then [digit_char n] else show_nat (n div 10) @ [digit_char (n mod 10)])"

declare show_nat.simps [simp del]

definition digits_val :: "string \<Rightarrow> nat" where
  "digits_val s = foldl (\<lambda>a c. 10 * a + digit_val c) 0 s"

text \<open>\<open>str::parse\<close> for an unsigned type whose largest value is \<open>mx\<close>: one optional \<open>+\<close>, then at
  least one digit, and no overflow.\<close>

definition parse_uint :: "nat \<Rightarrow> string \<Rightarrow> nat option" where
  "parse_uint mx s =
     (let d = (case s of c # cs \<Rightarrow> if c = CHR ''+'' then cs else s | [] \<Rightarrow> [])
      in if d \<noteq> [] \<and> list_all is_digit d \<and> digits_val d \<le> mx then Some (digits_val d) else None)"

text \<open>\<open>str::parse::<i64>\<close>.\<close>

definition parse_i64 :: "string \<Rightarrow> int option" where
  "parse_i64 s =
     (case s of
        [] \<Rightarrow> None
      | c # cs \<Rightarrow>
          if c = CHR ''-'' then
            (if cs \<noteq> [] \<and> list_all is_digit cs \<and> digits_val cs \<le> 9223372036854775808
             then Some (- int (digits_val cs)) else None)
          else map_option int (parse_uint 9223372036854775807 s))"

lemma digit_char_val [simp]: "n < 10 \<Longrightarrow> digit_val (digit_char n) = n"
  by (simp add: digit_char_def digit_val_def)

lemma digit_char_digit [simp]: "n < 10 \<Longrightarrow> is_digit (digit_char n)"
  by (simp add: digit_char_def is_digit_def less_eq_char_def)

lemma digit_char_inj: "m < 10 \<Longrightarrow> n < 10 \<Longrightarrow> digit_char m = digit_char n \<longleftrightarrow> m = n"
  by (metis digit_char_val)

lemma show_nat_not_Nil [simp]: "show_nat n \<noteq> []"
  by (subst show_nat.simps) simp

lemma show_nat_digits [simp]: "list_all is_digit (show_nat n)"
proof (induction n rule: show_nat.induct)
  case (1 n)
  then show ?case by (subst show_nat.simps) simp
qed

lemma digits_val_snoc: "digits_val (s @ [c]) = 10 * digits_val s + digit_val c"
  by (simp add: digits_val_def)

lemma digits_val_show_nat [simp]: "digits_val (show_nat n) = n"
proof (induction n rule: show_nat.induct)
  case (1 n)
  show ?case
  proof (cases "n < 10")
    case True
    then show ?thesis by (subst show_nat.simps) (simp add: digits_val_def)
  next
    case False
    then show ?thesis using 1 by (subst show_nat.simps) (simp add: digits_val_snoc)
  qed
qed

lemma show_nat_inj [simp]: "show_nat m = show_nat n \<longleftrightarrow> m = n"
  by (metis digits_val_show_nat)

lemma digit_not_sign: "is_digit c \<Longrightarrow> c \<noteq> CHR ''+'' \<and> c \<noteq> CHR ''-''"
  by (auto simp: byte_class_defs)

lemma parse_uint_digits:
  assumes "list_all is_digit s" "s \<noteq> []"
  shows "parse_uint mx s = (if digits_val s \<le> mx then Some (digits_val s) else None)"
  using assms by (cases s) (auto simp: parse_uint_def dest: digit_not_sign)

lemma parse_uint_show_nat [simp]: "parse_uint mx (show_nat n) = (if n \<le> mx then Some n else None)"
  by (simp add: parse_uint_digits)

lemma parse_uint_bound: "parse_uint mx s = Some n \<Longrightarrow> n \<le> mx"
  by (auto simp: parse_uint_def Let_def split: if_splits list.splits)

section \<open>Unicode white space and control characters on UTF-8 bytes\<close>

text \<open>A byte that continues a character.\<close>

definition utf8_continues :: "char \<Rightarrow> bool" where
  "utf8_continues c \<longleftrightarrow> CHR 0x80 \<le> c \<and> c \<le> CHR 0xBF"

fun ws_len :: "string \<Rightarrow> nat" where
  "ws_len [] = 0"
| "ws_len (a # s) =
     (if (CHR 0x09 \<le> a \<and> a \<le> CHR 0x0D) \<or> a = CHR '' '' then 1
      else (case s of
              [] \<Rightarrow> 0
            | b # t \<Rightarrow>
                if a = CHR 0xC2 \<and> (b = CHR 0x85 \<or> b = CHR 0xA0) then 2
                else (case t of
                        [] \<Rightarrow> 0
                      | c # _ \<Rightarrow>
                          if (a = CHR 0xE1 \<and> b = CHR 0x9A \<and> c = CHR 0x80) \<or>
                             (a = CHR 0xE2 \<and> b = CHR 0x80 \<and>
                                ((CHR 0x80 \<le> c \<and> c \<le> CHR 0x8A) \<or>
                                 c \<in> {CHR 0xA8, CHR 0xA9, CHR 0xAF})) \<or>
                             (a = CHR 0xE2 \<and> b = CHR 0x81 \<and> c = CHR 0x9F) \<or>
                             (a = CHR 0xE3 \<and> b = CHR 0x80 \<and> c = CHR 0x80)
                          then 3 else 0)))"

fun ctl_at :: "string \<Rightarrow> bool" where
  "ctl_at [] = False"
| "ctl_at (a # s) =
     (a \<le> CHR 0x1F \<or> a = CHR 0x7F \<or>
      (case s of [] \<Rightarrow> False | b # _ \<Rightarrow> a = CHR 0xC2 \<and> CHR 0x80 \<le> b \<and> b \<le> CHR 0x9F))"

fun any_ws_or_control :: "string \<Rightarrow> bool" where
  "any_ws_or_control [] = False"
| "any_ws_or_control (c # cs) = (ws_len (c # cs) > 0 \<or> ctl_at (c # cs) \<or> any_ws_or_control cs)"

function trim_start :: "string \<Rightarrow> string" where
  "trim_start s = (if ws_len s = 0 then s else trim_start (drop (ws_len s) s))"
  by pat_completeness auto
termination
proof (relation "measure length")
  fix s :: string
  assume "ws_len s \<noteq> 0"
  then have "s \<noteq> []" by auto
  then show "(drop (ws_len s) s, s) \<in> measure length" using \<open>ws_len s \<noteq> 0\<close> by simp
qed simp

declare trim_start.simps [simp del]

text \<open>The number of bytes of the longest white-space character that ends the string.\<close>

definition ws_len_end :: "string \<Rightarrow> nat" where
  "ws_len_end s =
     (let l = length s in
      if l \<ge> 1 \<and> ws_len (drop (l - 1) s) = 1 then 1
      else if l \<ge> 2 \<and> ws_len (drop (l - 2) s) = 2 then 2
      else if l \<ge> 3 \<and> ws_len (drop (l - 3) s) = 3 then 3
      else 0)"

function trim_end :: "string \<Rightarrow> string" where
  "trim_end s = (if ws_len_end s = 0 then s else trim_end (take (length s - ws_len_end s) s))"
  by pat_completeness auto
termination
proof (relation "measure length")
  fix s :: string
  assume a: "ws_len_end s \<noteq> 0"
  then have "length s > 0" by (auto simp: ws_len_end_def Let_def split: if_splits)
  then show "(take (length s - ws_len_end s) s, s) \<in> measure length" using a by simp
qed simp

declare trim_end.simps [simp del]

definition trim :: "string \<Rightarrow> string" where
  "trim s = trim_end (trim_start s)"

lemma trim_id: "ws_len s = 0 \<Longrightarrow> ws_len_end s = 0 \<Longrightarrow> trim s = s"
  by (simp add: trim_def trim_start.simps[of s] trim_end.simps[of s])

lemma trim_start_ws_len: "ws_len (trim_start s) = 0"
  by (induction s rule: trim_start.induct) (subst trim_start.simps, simp)

lemma trim_end_ws_len: "ws_len_end (trim_end s) = 0"
  by (induction s rule: trim_end.induct) (subst trim_end.simps, simp)

definition is_graph :: "char \<Rightarrow> bool" where
  [byte_class_defs]: "is_graph c \<longleftrightarrow> CHR ''!'' \<le> c \<and> c \<le> CHR ''~''"

lemma graph_bytes:
  assumes "is_graph a"
  shows "\<not> a \<le> CHR 0x0D" "\<not> a \<le> CHR 0x1F" "a \<noteq> CHR '' ''" "a \<noteq> CHR 0x7F"
    "a \<noteq> CHR 0xC2" "a \<noteq> CHR 0xE1" "a \<noteq> CHR 0xE2" "a \<noteq> CHR 0xE3"
  using assms by (auto simp: is_graph_def less_eq_char_def)

lemma graph_not_ws: "list_all is_graph s \<Longrightarrow> \<not> any_ws_or_control s"
proof (induction s)
  case (Cons a s)
  then have g: "is_graph a" by simp
  have "ws_len (a # s) = 0" using graph_bytes[OF g] by (simp split: list.split)
  moreover have "\<not> ctl_at (a # s)" using graph_bytes[OF g] by (simp split: list.split)
  ultimately show ?case using Cons by simp
qed simp

lemma alnum_graph: "is_alnum c \<Longrightarrow> is_graph c"
  by (auto simp: byte_class_defs less_eq_char_def)

lemma lower_digit_alnum: "is_lower_digit c \<Longrightarrow> is_alnum c"
  by (auto simp: byte_class_defs)

lemma ws_len_graph: "list_all is_graph s \<Longrightarrow> ws_len s = 0"
proof (cases s)
  case (Cons a t)
  assume "list_all is_graph s"
  then have "is_graph a" using Cons by simp
  then show ?thesis unfolding Cons using graph_bytes[of a] by (simp split: list.split)
qed simp

lemma trim_graph [simp]: "list_all is_graph s \<Longrightarrow> trim s = s"
proof (rule trim_id)
  assume g: "list_all is_graph s"
  then show "ws_len s = 0" by (rule ws_len_graph)
  have "ws_len (drop n s) = 0" for n
    using g by (intro ws_len_graph) (auto simp: list_all_iff dest: in_set_dropD)
  then show "ws_len_end s = 0" by (simp add: ws_len_end_def Let_def)
qed

definition split_once :: "char \<Rightarrow> string \<Rightarrow> (string \<times> string) option" where
  "split_once d s = (case find_idx (\<lambda>c. c = d) s of Some i \<Rightarrow> Some (take i s, drop (i + 1) s) | None \<Rightarrow> None)"

lemma split_once_append: "d \<notin> set a \<Longrightarrow> split_once d (a @ d # b) = Some (a, b)"
proof -
  assume "d \<notin> set a"
  then have "find_idx (\<lambda>c. c = d) (a @ d # b) = Some (length a)" by (intro find_idx_append_sep) auto
  then show ?thesis by (simp add: split_once_def)
qed

lemma split_once_None: "split_once d s = None \<longleftrightarrow> d \<notin> set s"
proof -
  have "split_once d s = None \<longleftrightarrow> find_idx (\<lambda>c. c = d) s = None"
    by (simp add: split_once_def split: option.split)
  then show ?thesis unfolding find_idx_None_iff by auto
qed

lemma digit_graph: "is_digit c \<Longrightarrow> is_graph c \<and> c \<noteq> CHR '','' \<and> c \<noteq> CHR ''-''"
  by (auto simp: byte_class_defs less_eq_char_def)

lemma show_nat_graph [simp]: "list_all is_graph (show_nat n)"
  by (rule list.pred_mono_strong[OF show_nat_digits]) (simp add: digit_graph)

lemma show_nat_chars: "c \<in> set (show_nat n) \<Longrightarrow> is_digit c"
  using show_nat_digits[of n] by (simp add: list_all_iff)

end
