(* ===== verification/Names.thy ===== *)
theory Names
  imports Prelude
begin

text \<open>
  Canonical names: \<open>services/name.rs\<close> (service names, the single validator of every boundary)
  and \<open>services/resource.rs\<close> (resource identifiers and passwords).  The locale
  \<open>name_policy\<close> is the contract that the rest of the program relies on when it puts an accepted
  name into a path, a container name or a composite key; it is interpreted for each validator.
\<close>

section \<open>The contract of a name validator\<close>

locale name_policy =
  fixes accepts :: "string \<Rightarrow> bool" and legal :: "char \<Rightarrow> bool" and bound :: nat
  assumes nonempty: "accepts s \<Longrightarrow> s \<noteq> []"
    and bounded: "accepts s \<Longrightarrow> length s \<le> bound"
    and chars_legal: "accepts s \<Longrightarrow> c \<in> set s \<Longrightarrow> legal c"
    and separators_illegal: "\<not> legal (CHR ''/'') \<and> \<not> legal (CHR 0x5C) \<and> \<not> legal (CHR 0x00) \<and> \<not> legal (CHR ''.'')"
begin

lemma one_path_component: "accepts s \<Longrightarrow> split_on (CHR ''/'') s = [s]"
  using chars_legal separators_illegal by (intro split_on_no_sep) blast

lemma child_of_directory:
  "accepts s \<Longrightarrow> split_on (CHR ''/'') (dir @ CHR ''/'' # s) = split_on (CHR ''/'') dir @ [s]"
  using one_path_component by (simp add: split_on_append_sep)

lemma not_dot_component: "accepts s \<Longrightarrow> s \<noteq> ''.'' \<and> s \<noteq> ''..''"
  using chars_legal separators_illegal by fastforce

lemma separator_unambiguous:
  assumes "accepts a" "accepts a'" "\<not> legal x" "a @ x # b = a' @ x # b'"
  shows "a = a' \<and> b = b'"
  using assms chars_legal by (intro unique_separator[of x]) auto

lemma file_name_inj:
  assumes "accepts a" "accepts a'" "a @ ''.'' @ ext = a' @ ''.'' @ ext'"
  shows "a = a' \<and> ext = ext'"
  using separator_unambiguous[of a a' "CHR ''.''" ext ext'] assms separators_illegal by simp

end

section \<open>Service names\<close>

datatype service_name = ServiceName (service_name_str: string)

datatype service_name_error =
    EmptyOrTooLong nat
  | InvalidChars string
  | LeadingOrTrailingHyphen string
  | ConsecutiveHyphens string
  | ReservedPrefix string
  | AllNumeric

definition name_char :: "char \<Rightarrow> bool" where
  "name_char c \<longleftrightarrow> is_lower c \<or> is_digit c \<or> c = CHR ''-''"

definition validate_service_name :: "string \<Rightarrow> service_name_error + unit" where
  "validate_service_name name =
     (if name = [] \<or> length name > 63 then Inl (EmptyOrTooLong (length name))
      else if \<not> list_all name_char name then Inl (InvalidChars name)
      else if prefix ''-'' name \<or> ends_with ''-'' name then Inl (LeadingOrTrailingHyphen name)
      else if sublist ''--'' name then Inl (ConsecutiveHyphens name)
      else if prefix ''__'' name then Inl (ReservedPrefix name)
      else if list_all is_digit name then Inl AllNumeric
      else Inr ())"

definition service_name_parse :: "string \<Rightarrow> service_name_error + service_name" where
  "service_name_parse input = and_then (validate_service_name input) (\<lambda>_. Inr (ServiceName input))"

definition container_name :: "service_name \<Rightarrow> string" where
  "container_name n = ''slip-service-'' @ service_name_str n"

text \<open>The grammar the validator implements: labels of \<open>[a-z0-9]\<close> separated by single hyphens,
  1 to 63 bytes, not all digits.\<close>

definition dns_name_spec :: "string \<Rightarrow> bool" where
  "dns_name_spec s \<longleftrightarrow>
     list_all (\<lambda>p. p \<noteq> [] \<and> list_all is_lower_digit p) (split_on (CHR ''-'') s)
       \<and> length s \<le> 63 \<and> \<not> list_all is_digit s"

lemma split_on_tl_empty_part:
  "[] \<in> set (tl (split_on d s)) \<Longrightarrow> suffix [d] s \<or> sublist [d, d] s"
proof (induction s)
  case (Cons c cs)
  show ?case
  proof (cases "c = d \<and> (cs = [] \<or> hd cs = d)")
    case True
    then consider "cs = []" "c = d" | ds where "cs = d # ds" "c = d" by (cases cs) auto
    then show ?thesis
    proof cases
      case (2 ds)
      then have "prefix [d, d] (c # cs)" by simp
      then show ?thesis by blast
    qed simp
  next
    case False
    have "[] \<in> set (tl (split_on d cs))"
    proof (cases "c = d")
      case True
      then have "[] \<in> set (split_on d cs)" using Cons.prems by simp
      moreover have "hd (split_on d cs) \<noteq> []" using True False by (cases cs) (auto split: list.splits)
      ultimately show ?thesis by (cases "split_on d cs") auto
    next
      case False
      then show ?thesis using Cons.prems by (auto split: list.splits)
    qed
    then show ?thesis using Cons.IH by (auto simp: suffix_Cons sublist_Cons_right)
  qed
qed simp

lemma split_on_empty_part:
  "[] \<in> set (split_on d s) \<longleftrightarrow> s = [] \<or> prefix [d] s \<or> suffix [d] s \<or> sublist [d, d] s"
proof
  assume e: "[] \<in> set (split_on d s)"
  show "s = [] \<or> prefix [d] s \<or> suffix [d] s \<or> sublist [d, d] s"
  proof (cases "hd (split_on d s) = []")
    case True
    then show ?thesis by (cases s) (auto split: list.splits if_splits)
  next
    case False
    then have "[] \<in> set (tl (split_on d s))" using e by (cases "split_on d s") auto
    from split_on_tl_empty_part[OF this] show ?thesis by simp
  qed
next
  assume "s = [] \<or> prefix [d] s \<or> suffix [d] s \<or> sublist [d, d] s"
  then consider "s = []" | r where "s = d # r" | r where "s = r @ [d]" | a b where "s = a @ [d, d] @ b"
    by (auto simp: prefix_def suffix_def sublist_def)
  then show "[] \<in> set (split_on d s)"
    by cases (simp_all add: split_on_append_sep)
qed

lemma split_on_list_all_chars:
  "(\<forall>p\<in>set (split_on d s). list_all P p) \<longleftrightarrow> list_all (\<lambda>c. P c \<or> c = d) s"
proof -
  have "list_all P p" if "list_all (\<lambda>c. P c \<or> c = d) s" "p \<in> set (split_on d s)" for p
    using that split_on_parts[of p d s] by (auto simp: list_all_iff)
  moreover have "P c \<or> c = d" if "\<forall>p\<in>set (split_on d s). list_all P p" "c \<in> set s" for c
    using that split_on_chars[of c s d] by (auto simp: list_all_iff)
  ultimately show ?thesis by (auto simp: list_all_iff)
qed

lemma name_char_alt: "name_char c \<longleftrightarrow> is_lower_digit c \<or> c = CHR ''-''"
  by (auto simp: name_char_def is_lower_digit_def)

lemma underscore_not_name_char: "prefix ''__'' s \<Longrightarrow> \<not> list_all name_char s"
  by (auto simp: prefix_def name_char_def byte_class_defs)

text \<open>The service-name validator accepts exactly the names of the grammar: hyphen-separated
  non-empty labels of \<open>[a-z0-9]\<close>, 1 to 63 bytes, not all digits.\<close>

theorem validate_service_name_spec:
  "validate_service_name s = Inr () \<longleftrightarrow> dns_name_spec s"
proof -
  have "list_all (\<lambda>p. p \<noteq> [] \<and> list_all is_lower_digit p) (split_on (CHR ''-'') s) \<longleftrightarrow>
      [] \<notin> set (split_on (CHR ''-'') s) \<and> (\<forall>p\<in>set (split_on (CHR ''-'') s). list_all is_lower_digit p)"
    unfolding list_all_iff by blast
  also have "\<dots> \<longleftrightarrow> s \<noteq> [] \<and> \<not> prefix ''-'' s \<and> \<not> ends_with ''-'' s \<and> \<not> sublist ''--'' s
      \<and> list_all name_char s"
    unfolding split_on_empty_part split_on_list_all_chars ends_with_def name_char_alt[abs_def] by blast
  finally show ?thesis
    unfolding dns_name_spec_def validate_service_name_def
    using underscore_not_name_char[of s] by (auto simp: not_le)
qed

text \<open>The reserved-prefix branch of the service-name validator is dead: an underscore is
  rejected as an invalid character first, so no input ever yields that error.\<close>

theorem reserved_prefix_unreachable:
  "validate_service_name s \<noteq> Inl (ReservedPrefix t)"
  using underscore_not_name_char[of s] by (simp add: validate_service_name_def)

interpretation service_names: name_policy
  "\<lambda>s. validate_service_name s = Inr ()" name_char 63
proof
  fix s c
  assume "validate_service_name s = Inr ()"
  then show "s \<noteq> []" "length s \<le> 63" "c \<in> set s \<Longrightarrow> name_char c"
    by (auto simp: validate_service_name_def list_all_iff split: if_splits)
next
  show "\<not> name_char CHR ''/'' \<and> \<not> name_char CHR 0x5C \<and> \<not> name_char CHR 0x00 \<and> \<not> name_char CHR ''.''"
    by (simp add: name_char_def byte_class_defs)
qed

lemma container_name_inj: "container_name m = container_name n \<longleftrightarrow> m = n"
  by (cases m; cases n) (simp add: container_name_def)

lemma service_name_parse_roundtrip:
  "service_name_parse s = Inr n \<longleftrightarrow> validate_service_name s = Inr () \<and> n = ServiceName s"
  by (auto simp: service_name_parse_def result_simps)

section \<open>Resource identifiers\<close>

text \<open>Each \<open>ServiceError::Internal\<close> message of \<open>resource.rs\<close> is one constructor.\<close>

datatype resource_error =
    ResIdLength nat | ResIdPrefix | ResIdSuffixLength nat | ResIdHex
  | ResPasswordLength nat | ResPasswordHex
  | ResComponentEmpty string | ResComponentLength string nat | ResComponentNul string

definition id_prefix :: string where "id_prefix = ''slip_''"
definition id_hex_len :: nat where "id_hex_len = 48"
definition id_total_len :: nat where "id_total_len = length id_prefix + id_hex_len"
definition password_hex_len :: nat where "password_hex_len = 64"

lemmas resource_consts = id_prefix_def id_hex_len_def id_total_len_def password_hex_len_def

definition role_comment :: "string \<Rightarrow> string" where
  "role_comment resource_id = ''slip:resource:'' @ resource_id"

definition validate_resource_id :: "string \<Rightarrow> resource_error + unit" where
  "validate_resource_id i =
     (if length i \<noteq> id_total_len then Inl (ResIdLength (length i))
      else and_then (ok_or (strip_prefix id_prefix i) ResIdPrefix) (\<lambda>hex_part.
        if length hex_part \<noteq> id_hex_len then Inl (ResIdSuffixLength (length hex_part))
        else if \<not> list_all is_lower_hex hex_part then Inl ResIdHex
        else Inr ()))"

definition validate_resource_password :: "string \<Rightarrow> resource_error + unit" where
  "validate_resource_password p =
     (if length p \<noteq> password_hex_len then Inl (ResPasswordLength (length p))
      else if \<not> list_all is_lower_hex p then Inl ResPasswordHex
      else Inr ())"

record resource_credentials =
  rc_id :: string
  rc_password :: string

definition resource_credentials_new ::
  "string \<Rightarrow> string \<Rightarrow> resource_error + resource_credentials" where
  "resource_credentials_new i p =
     and_then (validate_resource_id i) (\<lambda>_.
     and_then (validate_resource_password p) (\<lambda>_.
       Inr \<lparr>rc_id = i, rc_password = p\<rparr>))"

definition validate_resource_component :: "string \<Rightarrow> string \<Rightarrow> resource_error + unit" where
  "validate_resource_component s name =
     (if s = [] then Inl (ResComponentEmpty name)
      else if length s > 256 then Inl (ResComponentLength name (length s))
      else if CHR 0x00 \<in> set s then Inl (ResComponentNul name)
      else Inr ())"

text \<open>The bytes fed to the hasher, in the order of the \<open>update\<close> calls.  SHA-256 and
  \<open>hex::encode\<close> are the crates \<open>sha2\<close> and \<open>hex\<close>, parameters here.\<close>

definition resource_preimage :: "string \<Rightarrow> string \<Rightarrow> string \<Rightarrow> string \<Rightarrow> string" where
  "resource_preimage installation_id instance_id app alias =
     ''slip-resource-id-v1'' @ CHR 0x00 # installation_id @ CHR 0x00 # instance_id @
       CHR 0x00 # app @ CHR 0x00 # alias"

definition compute_resource_id ::
  "(string \<Rightarrow> string) \<Rightarrow> (string \<Rightarrow> string) \<Rightarrow> string \<Rightarrow> string \<Rightarrow> string \<Rightarrow> string \<Rightarrow> string" where
  "compute_resource_id sha256 hex_encode installation_id instance_id app alias =
     id_prefix @ hex_encode (take 24 (sha256 (resource_preimage installation_id instance_id app alias)))"

lemma validate_resource_id_iff:
  "validate_resource_id i = Inr () \<longleftrightarrow>
     (\<exists>h. i = id_prefix @ h \<and> length h = id_hex_len \<and> list_all is_lower_hex h)"
  by (auto simp: validate_resource_id_def result_simps strip_prefix_Some_iff id_total_len_def
      split: if_splits)

text \<open>A computed resource identifier always passes the validator (it is safe to interpolate
  into SQL), for any hash of 32 bytes and any hex encoder that yields two lower-case hex digits a
  byte; and the hashed bytes determine the tuple for NUL-free components, so two different
  bindings never share a pre-image.\<close>

theorem compute_resource_id_valid:
  assumes "\<And>x. length (sha256 x) = 32"
    and "\<And>x. length (hex_encode x) = 2 * length x \<and> list_all is_lower_hex (hex_encode x)"
    and "validate_resource_component app ''app'' = Inr ()"
    and "CHR 0x00 \<notin> set installation" "CHR 0x00 \<notin> set inst"
    and "validate_resource_component app' ''app'' = Inr ()"
    and "CHR 0x00 \<notin> set installation'" "CHR 0x00 \<notin> set inst'"
  shows "validate_resource_id (compute_resource_id sha256 hex_encode installation inst app alias) = Inr ()
    \<and> (resource_preimage installation inst app alias = resource_preimage installation' inst' app' alias'
         \<longrightarrow> (installation, inst, app, alias) = (installation', inst', app', alias'))"
proof
  show "validate_resource_id (compute_resource_id sha256 hex_encode installation inst app alias) = Inr ()"
    using assms(1,2) by (auto simp: validate_resource_id_iff compute_resource_id_def id_hex_len_def)
  have nul: "CHR 0x00 \<notin> set app" "CHR 0x00 \<notin> set app'"
    using assms(3,6) by (auto simp: validate_resource_component_def split: if_splits)
  show "resource_preimage installation inst app alias = resource_preimage installation' inst' app' alias'
         \<longrightarrow> (installation, inst, app, alias) = (installation', inst', app', alias')"
  proof
    assume eq: "resource_preimage installation inst app alias =
      resource_preimage installation' inst' app' alias'"
    then have 1: "installation = installation' \<and> inst @ CHR 0x00 # app @ CHR 0x00 # alias =
        inst' @ CHR 0x00 # app' @ CHR 0x00 # alias'"
      unfolding resource_preimage_def by (intro unique_separator[OF assms(4,7)]) simp
    then have 2: "inst = inst' \<and> app @ CHR 0x00 # alias = app' @ CHR 0x00 # alias'"
      by (intro unique_separator[OF assms(5,8)]) simp
    then have "app = app' \<and> alias = alias'"
      by (intro unique_separator[OF nul]) simp
    then show "(installation, inst, app, alias) = (installation', inst', app', alias')"
      using 1 2 by simp
  qed
qed

theorem compute_resource_id_valid_witness:
  "validate_resource_id (compute_resource_id (\<lambda>_. replicate 32 (CHR ''x''))
      (\<lambda>x. replicate (2 * length x) (CHR ''a'')) ''i'' ''s'' ''web'' ''db'') = Inr ()"
  using compute_resource_id_valid[of "\<lambda>_. replicate 32 (CHR ''x'')"
      "\<lambda>x. replicate (2 * length x) (CHR ''a'')" "''web''" "''i''" "''s''" "''web''" "''i''" "''s''" "''db''" "''db''"]
  by (simp add: validate_resource_component_def list_all_iff byte_class_defs)

interpretation resource_ids: name_policy
  "\<lambda>s. validate_resource_id s = Inr ()" "\<lambda>c. is_lower_digit c \<or> c = CHR ''_''" 53
proof
  fix s c
  assume "validate_resource_id s = Inr ()"
  then obtain h where h: "s = id_prefix @ h" "length h = id_hex_len" "list_all is_lower_hex h"
    unfolding validate_resource_id_iff by blast
  then show "s \<noteq> []" "length s \<le> 53" by (simp_all add: resource_consts)
  have "list_all (\<lambda>c. is_lower_digit c \<or> c = CHR ''_'') id_prefix"
    by (simp add: id_prefix_def byte_class_defs)
  moreover have "list_all (\<lambda>c. is_lower_digit c \<or> c = CHR ''_'') h"
    using h(3) by (rule list.pred_mono_strong) (simp add: lower_hex_lower_digit)
  ultimately show "c \<in> set s \<Longrightarrow> is_lower_digit c \<or> c = CHR ''_''"
    unfolding h(1) list_all_iff by auto
next
  show "\<not> (is_lower_digit CHR ''/'' \<or> CHR ''/'' = CHR ''_'') \<and> \<not> (is_lower_digit CHR 0x5C \<or> CHR 0x5C = CHR ''_'') \<and>
    \<not> (is_lower_digit CHR 0x00 \<or> CHR 0x00 = CHR ''_'') \<and> \<not> (is_lower_digit CHR ''.'' \<or> CHR ''.'' = CHR ''_'')"
    by (simp add: byte_class_defs)
qed

end
