(* ===== verification/ImageRef.thy ===== *)
theory ImageRef
  imports Names
begin

text \<open>
  \<open>services/image_ref.rs\<close>: image digests and the digest-pinned references that managed services
  are deployed from.  Every \<open>ServiceError::Internal\<close> message is one constructor of the error type;
  the lengths that the messages print are arguments.
\<close>

datatype image_ref_error =
    DigestPrefix | DigestLength nat | DigestHex
  | RefEmpty | RefWhitespace | RefAtCount nat | RefNoAt | RefRepoEmpty
  | TagEmptyPart | TagLatest | TagLength nat | TagFirst | TagChar
  | RegRepoLength nat | Unqualified | RegistryEmpty | RegistryLength nat | RepoPathEmpty | RepoPathLength nat
  | PortEmpty | HostEmpty | LabelEmpty | LabelLength nat | LabelEnds | LabelChar
  | PortLength nat | PortDigits | PortParse | PortRange nat
  | RepoEmptyComponents | ComponentEmpty | ComponentLength nat | ComponentEnds
  | ComponentUpper | ComponentChar | ComponentSeparators

section \<open>Digests\<close>

datatype image_digest = ImageDigest (digest_hex: string)

definition digest_parse_hex :: "string \<Rightarrow> image_ref_error + image_digest" where
  "digest_parse_hex hex =
     (if length hex \<noteq> 64 then Inl (DigestLength (length hex))
      else if \<not> list_all is_lower_hex hex then Inl DigestHex
      else Inr (ImageDigest hex))"

definition digest_parse :: "string \<Rightarrow> image_ref_error + image_digest" where
  "digest_parse s = and_then (ok_or (strip_prefix ''sha256:'' s) DigestPrefix) digest_parse_hex"

definition digest_as_str :: "image_digest \<Rightarrow> string" where
  "digest_as_str d = ''sha256:'' @ digest_hex d"

section \<open>The grammar of references\<close>

definition split_repo_tag :: "string \<Rightarrow> image_ref_error + string \<times> string option" where
  "split_repo_tag rrt =
     (let last_slash = rfind_idx (\<lambda>c. c = CHR ''/'') rrt;
          after_slash = (case last_slash of Some i \<Rightarrow> drop (i + 1) rrt | None \<Rightarrow> rrt)
      in (case rfind_idx (\<lambda>c. c = CHR '':'') after_slash of
            Some colon \<Rightarrow>
              (let tag = drop (colon + 1) after_slash;
                   repo_end = (case last_slash of Some i \<Rightarrow> i + 1 | None \<Rightarrow> 0) + colon
               in if tag = [] then Inl TagEmptyPart else Inr (take repo_end rrt, Some tag))
          | None \<Rightarrow> Inr (rrt, None)))"

definition tag_char :: "char \<Rightarrow> bool" where
  "tag_char c \<longleftrightarrow> is_alnum c \<or> c = CHR ''_'' \<or> c = CHR ''.'' \<or> c = CHR ''-''"

definition validate_image_tag :: "string \<Rightarrow> image_ref_error + unit" where
  "validate_image_tag tag =
     (if tag = [] \<or> length tag > 128 then Inl (TagLength (length tag))
      else if \<not> (is_alnum (hd tag) \<or> hd tag = CHR ''_'') then Inl TagFirst
      else if \<not> list_all tag_char (tl tag) then Inl TagChar
      else Inr ())"

definition validate_host_label :: "string \<Rightarrow> image_ref_error + unit" where
  "validate_host_label label =
     (if label = [] then Inl LabelEmpty
      else if length label > 63 then Inl (LabelLength (length label))
      else if \<not> (is_lower_digit (hd label) \<and> is_lower_digit (last label)) then Inl LabelEnds
      else if \<not> list_all name_char label then Inl LabelChar
      else Inr ())"

definition validate_port :: "string \<Rightarrow> image_ref_error + unit" where
  "validate_port port =
     (if port = [] \<or> length port > 5 then Inl (PortLength (length port))
      else if \<not> list_all is_digit port then Inl PortDigits
      else and_then (ok_or (parse_uint 4294967295 port) PortParse) (\<lambda>n.
        if n = 0 \<or> n > 65535 then Inl (PortRange n) else Inr ()))"

definition validate_registry :: "string \<Rightarrow> image_ref_error + unit" where
  "validate_registry registry =
     and_then
       (case rfind_idx (\<lambda>c. c = CHR '':'') registry of
          Some colon \<Rightarrow>
            (let after = drop (colon + 1) registry in
             if after = [] then Inl PortEmpty
             else if list_all is_digit after then Inr (take colon registry, Some after)
             else Inr (registry, None))
        | None \<Rightarrow> Inr (registry, None))
       (\<lambda>(host, port).
          if host = [] then Inl HostEmpty
          else and_then (for_each validate_host_label (split_on (CHR ''.'') host)) (\<lambda>_.
            case port of Some p \<Rightarrow> validate_port p | None \<Rightarrow> Inr ()))"

definition is_sep :: "char \<Rightarrow> bool" where
  "is_sep c \<longleftrightarrow> c = CHR ''.'' \<or> c = CHR ''_'' \<or> c = CHR ''-''"

fun check_component_chars :: "bool \<Rightarrow> string \<Rightarrow> image_ref_error + unit" where
  "check_component_chars prev_sep [] = Inr ()"
| "check_component_chars prev_sep (c # cs) =
     (if is_upper c then Inl ComponentUpper
      else if \<not> (is_lower c \<or> is_digit c \<or> is_sep c) then Inl ComponentChar
      else if is_sep c \<and> prev_sep then Inl ComponentSeparators
      else check_component_chars (is_sep c) cs)"

definition validate_repo_component :: "string \<Rightarrow> image_ref_error + unit" where
  "validate_repo_component component =
     (if component = [] then Inl ComponentEmpty
      else if length component > 128 then Inl (ComponentLength (length component))
      else if \<not> (is_lower_digit (hd component) \<and> is_lower_digit (last component)) then Inl ComponentEnds
      else check_component_chars False component)"

definition validate_repository :: "string \<Rightarrow> image_ref_error + unit" where
  "validate_repository repo =
     (if repo = [] then Inl RepoEmptyComponents
      else if prefix ''/'' repo \<or> ends_with ''/'' repo \<or> sublist ''//'' repo then Inl RepoEmptyComponents
      else for_each validate_repo_component (split_on (CHR ''/'') repo))"

definition validate_registry_repo :: "string \<Rightarrow> image_ref_error + unit" where
  "validate_registry_repo rr =
     (if length rr > 512 then Inl (RegRepoLength (length rr))
      else and_then (ok_or (find_idx (\<lambda>c. c = CHR ''/'') rr) Unqualified) (\<lambda>first_slash.
        let registry = take first_slash rr; repo = drop (first_slash + 1) rr in
        if registry = [] then Inl RegistryEmpty
        else if length registry > 255 then Inl (RegistryLength (length registry))
        else if repo = [] then Inl RepoPathEmpty
        else if length repo > 255 then Inl (RepoPathLength (length repo))
        else and_then (validate_registry registry) (\<lambda>_. validate_repository repo)))"

section \<open>Pinned references\<close>

record pinned_image_ref =
  pin_full :: string
  pin_registry_repo_tag :: string
  pin_registry_repo :: string
  pin_tag :: "string option"
  pin_digest :: image_digest

definition count_char :: "char \<Rightarrow> string \<Rightarrow> nat" where
  "count_char c s = length (filter (\<lambda>d. d = c) s)"

definition pinned_parse :: "string \<Rightarrow> image_ref_error + pinned_image_ref" where
  "pinned_parse s =
     (if s = [] then Inl RefEmpty
      else if any_ws_or_control s then Inl RefWhitespace
      else if count_char (CHR ''@'') s \<noteq> 1 then Inl (RefAtCount (count_char (CHR ''@'') s))
      else and_then (ok_or (find_idx (\<lambda>c. c = CHR ''@'') s) RefNoAt) (\<lambda>at.
        let rrt = take at s; digest_str = drop (at + 1) s in
        and_then (digest_parse digest_str) (\<lambda>digest.
        if rrt = [] then Inl RefRepoEmpty
        else and_then (split_repo_tag rrt) (\<lambda>(rr, tag).
          and_then
            (case tag of
               Some t \<Rightarrow> if t = ''latest'' then Inl TagLatest else validate_image_tag t
             | None \<Rightarrow> Inr ())
            (\<lambda>_. and_then (validate_registry_repo rr) (\<lambda>_.
               Inr \<lparr>pin_full = s, pin_registry_repo_tag = rrt, pin_registry_repo = rr,
                    pin_tag = tag, pin_digest = digest\<rparr>))))))"

definition repo_digest :: "pinned_image_ref \<Rightarrow> string" where
  "repo_digest r = pin_registry_repo r @ ''@'' @ digest_as_str (pin_digest r)"

section \<open>Lemmas on the grammar\<close>

lemma digest_parse_Inr_iff:
  "digest_parse s = Inr d \<longleftrightarrow>
     s = digest_as_str d \<and> length (digest_hex d) = 64 \<and> list_all is_lower_hex (digest_hex d)"
  by (cases d) (auto simp: digest_parse_def digest_parse_hex_def digest_as_str_def result_simps
      strip_prefix_Some_iff split: if_splits)

lemma split_repo_tag_Inr:
  assumes "split_repo_tag rrt = Inr (rr, tag)"
  shows "rrt = rr @ (case tag of None \<Rightarrow> [] | Some t \<Rightarrow> CHR '':'' # t)"
proof -
  let ?ls = "rfind_idx (\<lambda>c. c = CHR ''/'') rrt"
  define k where "k = (case ?ls of Some i \<Rightarrow> i + 1 | None \<Rightarrow> 0)"
  have as: "(case ?ls of Some i \<Rightarrow> drop (i + 1) rrt | None \<Rightarrow> rrt) = drop k rrt"
    by (simp add: k_def split: option.split)
  note parts = assms[unfolded split_repo_tag_def Let_def, folded k_def, unfolded as]
  show ?thesis
  proof (cases "rfind_idx (\<lambda>c. c = CHR '':'') (drop k rrt)")
    case None
    then show ?thesis using parts by auto
  next
    case (Some colon)
    note r = rfind_idx_SomeD[OF Some]
    then have lt: "k + colon < length rrt" by (simp add: less_diff_conv add.commute)
    with r have c: "rrt ! (k + colon) = CHR '':''" "k + colon < length rrt" by simp_all
    from parts[unfolded Some option.case]
    have "rr = take (k + colon) rrt" "tag = Some (drop (colon + 1) (drop k rrt))"
      by (simp_all split: if_split_asm)
    moreover have "rrt = take (k + colon) rrt @ CHR '':'' # drop (colon + 1) (drop k rrt)"
      using id_take_nth_drop[OF c(2)] c(1) by (simp add: add.commute)
    ultimately show ?thesis by simp
  qed
qed

lemma split_repo_tag_tagged:
  assumes "CHR ''/'' \<notin> set t" "CHR '':'' \<notin> set t" "t \<noteq> []"
  shows "split_repo_tag (rr @ CHR '':'' # t) = Inr (rr, Some t)"
proof -
  have f: "rfind_idx (\<lambda>c. c = CHR '':'') (a @ CHR '':'' # t) = Some (length a)" for a
    using assms by (intro rfind_idx_append_sep) auto
  have n: "rfind_idx (\<lambda>c. c = CHR ''/'') (CHR '':'' # t) = None"
    unfolding rfind_idx_None_iff using assms by auto
  show ?thesis
  proof (cases "rfind_idx (\<lambda>c. c = CHR ''/'') rr")
    case None
    then show ?thesis using n f[of rr] assms
      by (simp add: split_repo_tag_def rfind_idx_append)
  next
    case (Some i)
    then obtain a b where rr: "rr = a @ CHR ''/'' # b" "i = length a"
      using rfind_idx_split[OF Some] rfind_idx_SomeD[OF Some]
      by (metis length_take less_imp_le_nat min.absorb2)
    have ls: "rfind_idx (\<lambda>c. c = CHR ''/'') (rr @ CHR '':'' # t) = Some (length a)"
      unfolding rfind_idx_append n option.case using Some rr by simp
    show ?thesis
      unfolding split_repo_tag_def ls option.case Let_def
      using f[of b] assms(3) by (simp add: rr(1))
  qed
qed

lemma split_repo_tag_untagged:
  assumes "CHR '':'' \<notin> set repo"
  shows "split_repo_tag (registry @ CHR ''/'' # repo) = Inr (registry @ CHR ''/'' # repo, None)"
proof -
  obtain i where i: "rfind_idx (\<lambda>c. c = CHR ''/'') (registry @ CHR ''/'' # repo) = Some i"
    and "i \<ge> length registry"
    by (cases "rfind_idx (\<lambda>c. c = CHR ''/'') repo") (auto simp: rfind_idx_append)
  then have "set (drop (i + 1) (registry @ CHR ''/'' # repo)) \<subseteq> set repo"
    by (auto simp: Suc_diff_le dest: in_set_dropD)
  then have "rfind_idx (\<lambda>c. c = CHR '':'') (drop (i + 1) (registry @ CHR ''/'' # repo)) = None"
    using assms by (auto simp: rfind_idx_None_iff)
  then show ?thesis using i by (simp add: split_repo_tag_def)
qed

lemma validate_image_tag_chars:
  "validate_image_tag t = Inr () \<Longrightarrow> t \<noteq> [] \<and> length t \<le> 128 \<and> list_all tag_char t"
  by (cases t) (auto simp: validate_image_tag_def tag_char_def split: if_splits)

lemma tag_char_props: "tag_char c \<Longrightarrow> is_graph c \<and> c \<notin> {CHR ''/'', CHR '':'', CHR ''@''}"
  by (auto simp: tag_char_def byte_class_defs less_eq_char_def)

lemma validate_host_label_chars: "validate_host_label l = Inr () \<Longrightarrow> list_all name_char l"
  by (auto simp: validate_host_label_def split: if_splits)

definition registry_char :: "char \<Rightarrow> bool" where
  "registry_char c \<longleftrightarrow> name_char c \<or> c = CHR ''.'' \<or> c = CHR '':''"

definition repo_char :: "char \<Rightarrow> bool" where
  "repo_char c \<longleftrightarrow> is_lower c \<or> is_digit c \<or> is_sep c \<or> c = CHR ''/''"

lemma host_chars:
  "for_each validate_host_label (split_on (CHR ''.'') host) = Inr () \<Longrightarrow> list_all registry_char host"
proof -
  assume "for_each validate_host_label (split_on (CHR ''.'') host) = Inr ()"
  then have "\<forall>p\<in>set (split_on (CHR ''.'') host). list_all name_char p"
    by (auto simp: result_simps dest: validate_host_label_chars)
  then show ?thesis unfolding split_on_list_all_chars
    by (rule list.pred_mono_strong) (auto simp: registry_char_def)
qed

lemma validate_registry_chars:
  assumes "validate_registry r = Inr ()"
  shows "list_all registry_char r"
proof (cases "rfind_idx (\<lambda>c. c = CHR '':'') r")
  case None
  then show ?thesis using assms
    by (auto simp: validate_registry_def result_simps split: if_splits intro: host_chars)
next
  case (Some colon)
  show ?thesis
  proof (cases "list_all is_digit (drop (colon + 1) r)")
    case True
    have "list_all registry_char (drop (Suc colon) r)"
      using True by (auto simp: list_all_iff registry_char_def name_char_def)
    moreover have "list_all registry_char (take colon r)"
      using assms Some True
      by (auto simp: validate_registry_def result_simps Let_def split: if_splits intro: host_chars)
    moreover have "registry_char (r ! colon)" using rfind_idx_SomeD[OF Some] by (simp add: registry_char_def)
    ultimately show ?thesis
      by (subst rfind_idx_split[OF Some]) simp
  next
    case False
    then show ?thesis using assms Some
      by (auto simp: validate_registry_def result_simps Let_def split: if_splits intro: host_chars)
  qed
qed

lemma check_component_chars_Inr:
  "check_component_chars b cs = Inr () \<Longrightarrow> list_all (\<lambda>c. is_lower c \<or> is_digit c \<or> is_sep c) cs"
  by (induction cs arbitrary: b) (auto split: if_splits)

lemma validate_repository_chars:
  assumes "validate_repository r = Inr ()"
  shows "list_all repo_char r"
proof -
  have "\<forall>p\<in>set (split_on (CHR ''/'') r). validate_repo_component p = Inr ()"
    using assms by (auto simp: validate_repository_def result_simps split: if_splits)
  then have "\<forall>p\<in>set (split_on (CHR ''/'') r). list_all (\<lambda>c. is_lower c \<or> is_digit c \<or> is_sep c) p"
    by (auto simp: validate_repo_component_def split: if_splits dest: check_component_chars_Inr)
  then show ?thesis unfolding split_on_list_all_chars
    by (rule list.pred_mono_strong) (auto simp: repo_char_def)
qed

lemma validate_registry_repo_Inr:
  assumes "validate_registry_repo rr = Inr ()"
  obtains registry repo where "rr = registry @ CHR ''/'' # repo"
    "validate_registry registry = Inr ()" "validate_repository repo = Inr ()"
    "registry \<noteq> []" "length registry \<le> 255" "repo \<noteq> []" "length repo \<le> 255" "length rr \<le> 512"
proof -
  from assms obtain i where i: "find_idx (\<lambda>c. c = CHR ''/'') rr = Some i"
    by (auto simp: validate_registry_repo_def result_simps split: if_splits)
  have "rr = take i rr @ CHR ''/'' # drop (i + 1) rr"
    using find_idx_split[OF i] find_idx_SomeD[OF i] by simp
  with i assms that[of "take i rr" "drop (i + 1) rr"] show ?thesis
    by (auto simp: validate_registry_repo_def result_simps Let_def not_less split: if_splits)
qed

lemma registry_repo_props:
  "registry_char c \<Longrightarrow> is_graph c \<and> c \<notin> {CHR ''/'', CHR ''@''}"
  "repo_char c \<Longrightarrow> is_graph c \<and> c \<notin> {CHR '':'', CHR ''@''}"
  by (auto simp: registry_char_def repo_char_def is_sep_def name_char_def byte_class_defs less_eq_char_def)

lemma registry_repo_chars:
  assumes "validate_registry_repo rr = Inr ()"
  shows "list_all is_graph rr \<and> CHR ''@'' \<notin> set rr \<and> split_repo_tag rr = Inr (rr, None) \<and> rr \<noteq> []"
proof -
  obtain registry repo where r: "rr = registry @ CHR ''/'' # repo"
    "validate_registry registry = Inr ()" "validate_repository repo = Inr ()"
    using validate_registry_repo_Inr[OF assms] by metis
  have c: "\<forall>c\<in>set registry. registry_char c" "\<forall>c\<in>set repo. repo_char c"
    using validate_registry_chars[OF r(2)] validate_repository_chars[OF r(3)]
    by (simp_all add: list_all_iff)
  have "CHR '':'' \<notin> set repo" using c registry_repo_props by blast
  moreover have "list_all is_graph rr \<and> CHR ''@'' \<notin> set rr"
    using c registry_repo_props unfolding r(1) list_all_iff by (auto simp: is_graph_def)
  ultimately show ?thesis using split_repo_tag_untagged r(1) by auto
qed

section \<open>The documented grammar\<close>

text \<open>The grammar in the header of \<open>image_ref.rs\<close>, stated without the validators: words of lower-case letters
  and digits; components are words with one separator between any two (the header also allows \<open>__\<close>,
  which the code refuses); hosts and repositories are lists of labels and components.  The length
  limits are those of the code.\<close>

definition ref_word :: "string \<Rightarrow> bool" where
  "ref_word w \<longleftrightarrow> w \<noteq> [] \<and> list_all is_lower_digit w"

inductive ref_component :: "string \<Rightarrow> bool" where
  ref_one_word: "ref_word w \<Longrightarrow> ref_component w"
| ref_more_words: "ref_word w \<Longrightarrow> c \<in> {CHR ''.'', CHR ''_'', CHR ''-''} \<Longrightarrow> ref_component t \<Longrightarrow> ref_component (w @ c # t)"

definition ref_label :: "string \<Rightarrow> bool" where
  "ref_label l \<longleftrightarrow> l \<noteq> [] \<and> length l \<le> 63 \<and> is_lower_digit (hd l) \<and> is_lower_digit (last l) \<and>
     set l \<subseteq> insert (CHR ''-'') {c. is_lower_digit c}"

definition ref_port :: "string \<Rightarrow> bool" where
  "ref_port p \<longleftrightarrow> p \<noteq> [] \<and> length p \<le> 5 \<and> list_all is_digit p \<and> digits_val p \<in> {1..65535}"

definition ref_tag :: "string \<Rightarrow> bool" where
  "ref_tag t \<longleftrightarrow> (\<exists>c s. t = c # s \<and> (is_alnum c \<or> c = CHR ''_'') \<and> length s \<le> 127 \<and>
     set s \<subseteq> {CHR ''.'', CHR ''_'', CHR ''-''} \<union> {d. is_alnum d})"

inductive ref_registry :: "string \<Rightarrow> bool" where
  ref_host: "ls \<noteq> [] \<Longrightarrow> list_all ref_label ls \<Longrightarrow> ref_registry (join_with ''.'' ls)"
| ref_host_port: "ls \<noteq> [] \<Longrightarrow> list_all ref_label ls \<Longrightarrow> ref_port p \<Longrightarrow>
     ref_registry (join_with ''.'' ls @ CHR '':'' # p)"

definition ref_repository :: "string \<Rightarrow> bool" where
  "ref_repository r \<longleftrightarrow> (\<exists>cs. cs \<noteq> [] \<and> r = join_with ''/'' cs \<and> list_all (\<lambda>c. ref_component c \<and> length c \<le> 128) cs)"

definition qualified_name :: "string \<Rightarrow> bool" where
  "qualified_name rr \<longleftrightarrow> (\<exists>registry repo. rr = registry @ CHR ''/'' # repo \<and> ref_registry registry \<and>
     ref_repository repo \<and> length registry \<le> 255 \<and> length repo \<le> 255)"

section \<open>The validators decide the grammar\<close>

lemma check_word: "list_all is_lower_digit w \<Longrightarrow> w \<noteq> [] \<Longrightarrow> check_component_chars b (w @ s) = check_component_chars False s"
proof (induction w arbitrary: b)
  case (Cons a w)
  then have "is_lower a \<or> is_digit a" "\<not> is_sep a" "\<not> is_upper a"
    by (auto simp: is_sep_def byte_class_defs less_eq_char_def)
  then have "check_component_chars b (a # w @ s) = check_component_chars False (w @ s)" by auto
  then show ?case using Cons by (cases w) auto
qed simp

lemma component_sound:
  "ref_component c \<Longrightarrow> c \<noteq> [] \<and> is_lower_digit (hd c) \<and> is_lower_digit (last c) \<and>
     check_component_chars False c = Inr () \<and> check_component_chars True c = Inr ()"
proof (induction rule: ref_component.induct)
  case (ref_one_word w)
  then show ?case using check_word[of w _ "[]"] by (auto simp: ref_word_def list_all_iff)
next
  case (ref_more_words w c t)
  then have w: "list_all is_lower_digit w" "w \<noteq> []" by (simp_all add: ref_word_def)
  have "check_component_chars False (c # t) = Inr ()"
    using ref_more_words by (auto simp: is_sep_def byte_class_defs less_eq_char_def)
  then show ?case using check_word[OF w, of _ "c # t"] w ref_more_words.IH by (cases w) auto
qed

lemma component_complete:
  "c \<noteq> [] \<Longrightarrow> is_lower_digit (hd c) \<Longrightarrow> is_lower_digit (last c) \<Longrightarrow> check_component_chars False c = Inr () \<Longrightarrow> ref_component c"
proof (induction "length c" arbitrary: c rule: less_induct)
  case less
  let ?w = "takeWhile is_lower_digit c" and ?r = "dropWhile is_lower_digit c"
  have w: "list_all is_lower_digit ?w" "?w \<noteq> []"
    using less.prems(1,2) by (cases c; auto simp: list_all_iff dest: set_takeWhileD)+
  have c: "c = ?w @ ?r" by simp
  show ?case
  proof (cases ?r)
    case Nil
    then have "c = ?w" using c by (metis append_Nil2)
    then show ?thesis using w ref_one_word unfolding ref_word_def by metis
  next
    case (Cons s t)
    have "\<not> is_lower_digit s" using hd_dropWhile[of is_lower_digit c] Cons by auto
    moreover have last: "last c = last (s # t)" using c Cons by (metis last_appendR list.discI)
    ultimately have t: "t \<noteq> []" using less.prems(3) by auto
    have "check_component_chars False (s # t) = Inr ()"
      using less.prems(4) check_word[OF w, of False ?r] Cons c by metis
    then have chk: "is_sep s" "check_component_chars True t = Inr ()"
      using \<open>\<not> is_lower_digit s\<close> by (auto simp: is_lower_digit_def split: if_splits)
    then obtain d u where d: "t = d # u" using t by (cases t) auto
    then have hd: "is_lower_digit d" "check_component_chars False t = Inr ()"
      using chk by (auto simp: is_lower_digit_def is_sep_def split: if_splits)
    have "length c = length ?w + length ?r" using c by (metis length_append)
    then have "length t < length c" using Cons by simp
    from less.hyps[OF this t] have "ref_component t" using hd d last t less.prems(3) by simp
    then have "ref_component (?w @ s # t)"
      using ref_more_words[of ?w s t] w chk(1) by (auto simp: ref_word_def is_sep_def)
    then show ?thesis using c Cons by metis
  qed
qed

lemma validate_component_iff:
  "validate_repo_component c = Inr () \<longleftrightarrow> ref_component c \<and> length c \<le> 128"
  using component_sound[of c] component_complete[of c] by (auto simp: validate_repo_component_def)

lemma validate_label_iff: "validate_host_label l = Inr () \<longleftrightarrow> ref_label l"
  by (auto simp: validate_host_label_def ref_label_def list_all_iff name_char_def is_lower_digit_def)

lemma validate_port_iff: "validate_port p = Inr () \<longleftrightarrow> ref_port p"
  by (auto simp: validate_port_def ref_port_def parse_uint_digits result_simps split: if_splits)

lemma validate_tag_iff: "validate_image_tag t = Inr () \<longleftrightarrow> ref_tag t"
  by (cases t) (auto simp: validate_image_tag_def ref_tag_def tag_char_def list_all_iff)

text \<open>The tests for empty components say nothing that the components do not say.\<close>

lemma empty_component:
  "prefix ''/'' r \<or> ends_with ''/'' r \<or> sublist ''//'' r \<Longrightarrow> [] \<in> set (split_on (CHR ''/'') r)"
proof -
  have mid: "[] \<in> set (split_on (CHR ''/'') (a @ CHR ''/'' # CHR ''/'' # b))" for a b
    using split_on_append_sep[of "CHR ''/''" "[]" b] by (simp add: split_on_append_sep)
  have pre: "[] \<in> set (split_on (CHR ''/'') (CHR ''/'' # b))" for b
    using split_on_append_sep[of "CHR ''/''" "[]" b] by simp
  have suf: "[] \<in> set (split_on (CHR ''/'') (a @ ''/''))" for a
    using split_on_append_sep[of "CHR ''/''" a "[]"] by simp
  show "prefix ''/'' r \<or> ends_with ''/'' r \<or> sublist ''//'' r \<Longrightarrow> ?thesis"
    using mid pre suf by (auto simp: prefix_def ends_with_def suffix_def sublist_def)
qed

lemma validate_repository_split:
  "validate_repository r = Inr () \<longleftrightarrow> list_all (\<lambda>c. ref_component c \<and> length c \<le> 128) (split_on (CHR ''/'') r)"
proof -
  have "\<not> ref_component []" by (auto elim: ref_component.cases simp: ref_word_def)
  then show ?thesis using empty_component[of r]
    by (cases "r = []") (auto simp: validate_repository_def result_simps validate_component_iff list_all_iff)
qed

lemma component_slashless: "ref_component c \<Longrightarrow> CHR ''/'' \<notin> set c"
  by (induction rule: ref_component.induct) (auto simp: ref_word_def list_all_iff byte_class_defs less_eq_char_def)

lemma validate_repository_iff: "validate_repository r = Inr () \<longleftrightarrow> ref_repository r"
proof
  assume "validate_repository r = Inr ()"
  then show "ref_repository r" unfolding validate_repository_split ref_repository_def
    by (intro exI[of _ "split_on (CHR ''/'') r"]) simp
next
  assume "ref_repository r"
  then obtain cs where cs: "cs \<noteq> []" "r = join_with ''/'' cs" "list_all (\<lambda>c. ref_component c \<and> length c \<le> 128) cs"
    by (auto simp: ref_repository_def)
  then have "split_on (CHR ''/'') r = cs"
    using component_slashless by (auto simp: list_all_iff intro!: split_on_join)
  then show "validate_repository r = Inr ()" unfolding validate_repository_split using cs(3) by simp
qed

lemma label_chars: "ref_label l \<Longrightarrow> c \<in> set l \<Longrightarrow> c \<notin> {CHR ''.'', CHR '':'', CHR ''/''}"
  by (auto simp: ref_label_def byte_class_defs less_eq_char_def)

lemma host_split:
  assumes "ls \<noteq> []" "list_all ref_label ls"
  shows "split_on (CHR ''.'') (join_with ''.'' ls) = ls" "join_with ''.'' ls \<noteq> []"
    "c \<in> set (join_with ''.'' ls) \<Longrightarrow> c \<notin> {CHR '':'', CHR ''/''}"
proof -
  show s: "split_on (CHR ''.'') (join_with ''.'' ls) = ls"
    using assms label_chars by (intro split_on_join) (auto simp: list_all_iff)
  show "join_with ''.'' ls \<noteq> []"
  proof
    assume "join_with ''.'' ls = []"
    then have "ls = [[]]" using s by simp
    then show False using assms(2) by (simp add: ref_label_def)
  qed
  show "c \<in> set (join_with ''.'' ls) \<Longrightarrow> c \<notin> {CHR '':'', CHR ''/''}"
    using split_on_chars[of c "join_with ''.'' ls" "CHR ''.''"] s assms(2) label_chars
    by (cases "c = CHR ''.''") (auto simp: list_all_iff)
qed

lemma validate_registry_iff: "r \<noteq> [] \<Longrightarrow> validate_registry r = Inr () \<longleftrightarrow> ref_registry r"
proof
  assume v: "validate_registry r = Inr ()"
  have host: "ref_registry h"
    if "for_each validate_host_label (split_on (CHR ''.'') h) = Inr ()" for h
    using that ref_host[of "split_on (CHR ''.'') h"]
    by (auto simp: result_simps validate_label_iff list_all_iff)
  show "ref_registry r"
  proof (cases "rfind_idx (\<lambda>c. c = CHR '':'') r")
    case None
    then show ?thesis using v host by (auto simp: validate_registry_def result_simps split: if_splits)
  next
    case (Some i)
    let ?p = "drop (Suc i) r"
    have r: "r = take i r @ CHR '':'' # ?p" using rfind_idx_split[OF Some] rfind_idx_SomeD[OF Some] by simp
    show ?thesis
    proof (cases "list_all is_digit ?p")
      case True
      then have "for_each validate_host_label (split_on (CHR ''.'') (take i r)) = Inr ()" "validate_port ?p = Inr ()"
        using v Some by (auto simp: validate_registry_def result_simps Let_def split: if_splits)
      then show ?thesis using ref_host_port[of "split_on (CHR ''.'') (take i r)" ?p]
        by (subst r) (auto simp: result_simps validate_label_iff validate_port_iff list_all_iff)
    next
      case False
      then show ?thesis using v Some host
        by (auto simp: validate_registry_def result_simps Let_def split: if_splits)
    qed
  qed
next
  assume "ref_registry r"
  then show "validate_registry r = Inr ()"
  proof cases
    case (ref_host ls)
    then have "rfind_idx (\<lambda>c. c = CHR '':'') r = None" "r \<noteq> []" "split_on (CHR ''.'') r = ls"
      using host_split[of ls] by (auto simp: rfind_idx_None_iff)
    then show ?thesis using ref_host(3)
      by (auto simp: validate_registry_def result_simps validate_label_iff list_all_iff)
  next
    case (ref_host_port ls p)
    have "\<forall>c\<in>set p. c \<noteq> CHR '':''"
      using ref_host_port(4) by (auto simp: ref_port_def list_all_iff byte_class_defs less_eq_char_def)
    then have "rfind_idx (\<lambda>c. c = CHR '':'') r = Some (length (join_with ''.'' ls))"
      unfolding ref_host_port(1) by (intro rfind_idx_append_sep) simp_all
    moreover have "p \<noteq> [] \<and> list_all is_digit p" using ref_host_port(4) by (simp add: ref_port_def)
    ultimately show ?thesis using ref_host_port host_split[of ls]
      by (auto simp: validate_registry_def result_simps validate_label_iff validate_port_iff list_all_iff)
  qed
qed

lemma registry_name_chars: "ref_registry r \<Longrightarrow> r \<noteq> [] \<and> CHR ''/'' \<notin> set r"
proof (induction rule: ref_registry.induct)
  case (ref_host ls)
  then show ?case using host_split[of ls] by auto
next
  case (ref_host_port ls p)
  have "CHR ''/'' \<notin> set p" using ref_host_port(3)
    by (auto simp: ref_port_def list_all_iff byte_class_defs less_eq_char_def)
  then show ?case using ref_host_port host_split[of ls] by auto
qed

lemma validate_registry_repo_iff: "validate_registry_repo rr = Inr () \<longleftrightarrow> qualified_name rr"
proof
  assume "validate_registry_repo rr = Inr ()"
  from validate_registry_repo_Inr[OF this] show "qualified_name rr"
    unfolding qualified_name_def by (metis validate_registry_iff validate_repository_iff)
next
  assume "qualified_name rr"
  then obtain g p where r: "rr = g @ CHR ''/'' # p" "ref_registry g" "ref_repository p" "length g \<le> 255" "length p \<le> 255"
    unfolding qualified_name_def by blast
  note g = registry_name_chars[OF r(2)]
  have "validate_repository p = Inr ()" using r(3) by (simp add: validate_repository_iff)
  then have p: "validate_repository p = Inr ()" "p \<noteq> []" by (auto simp: validate_repository_def)
  have "find_idx (\<lambda>c. c = CHR ''/'') rr = Some (length g)"
    unfolding r(1) using g by (intro find_idx_append_sep) auto
  then show "validate_registry_repo rr = Inr ()"
    using r g p validate_registry_iff[of g] by (simp add: validate_registry_repo_def Let_def result_simps)
qed

section \<open>What the parser accepts\<close>

definition tag_part :: "string option \<Rightarrow> string" where
  "tag_part tag = (case tag of None \<Rightarrow> [] | Some t \<Rightarrow> CHR '':'' # t)"

text \<open>A well-formed reference: the pieces follow the grammar and the full string is their canonical
  rendering.\<close>

definition wf_pinned :: "pinned_image_ref \<Rightarrow> bool" where
  "wf_pinned r \<longleftrightarrow>
     qualified_name (pin_registry_repo r) \<and>
     (case pin_tag r of None \<Rightarrow> True | Some t \<Rightarrow> ref_tag t \<and> t \<noteq> ''latest'') \<and>
     length (digest_hex (pin_digest r)) = 64 \<and> list_all is_lower_hex (digest_hex (pin_digest r)) \<and>
     pin_registry_repo_tag r = pin_registry_repo r @ tag_part (pin_tag r) \<and>
     pin_full r = pin_registry_repo_tag r @ CHR ''@'' # digest_as_str (pin_digest r)"

lemmas wf_pinned_checks = wf_pinned_def[folded validate_registry_repo_iff validate_tag_iff]

lemma wf_tag_part:
  assumes "wf_pinned r"
  shows "list_all is_graph (pin_registry_repo_tag r)" "CHR ''@'' \<notin> set (pin_registry_repo_tag r)"
    "split_repo_tag (pin_registry_repo_tag r) = Inr (pin_registry_repo r, pin_tag r)"
proof -
  from assms have rr: "list_all is_graph (pin_registry_repo r)" "CHR ''@'' \<notin> set (pin_registry_repo r)"
      "split_repo_tag (pin_registry_repo r) = Inr (pin_registry_repo r, None)"
    and eq: "pin_registry_repo_tag r = pin_registry_repo r @ tag_part (pin_tag r)"
    using registry_repo_chars by (simp_all add: wf_pinned_checks)
  have "list_all is_graph (pin_registry_repo_tag r) \<and> CHR ''@'' \<notin> set (pin_registry_repo_tag r) \<and>
    split_repo_tag (pin_registry_repo_tag r) = Inr (pin_registry_repo r, pin_tag r)"
  proof (cases "pin_tag r")
    case None
    then show ?thesis
      using rr eq by (simp add: tag_part_def)
  next
    case (Some t)
    then have t: "t \<noteq> []" "list_all tag_char t"
      using assms validate_image_tag_chars by (auto simp: wf_pinned_checks)
    then have g: "list_all is_graph t" "CHR ''/'' \<notin> set t" "CHR '':'' \<notin> set t" "CHR ''@'' \<notin> set t"
      using tag_char_props by (auto simp: list_all_iff)
    have "is_graph (CHR '':'')" by (simp add: is_graph_def)
    then show ?thesis
      using Some rr eq g t split_repo_tag_tagged by (simp add: tag_part_def)
  qed
  then show "list_all is_graph (pin_registry_repo_tag r)" "CHR ''@'' \<notin> set (pin_registry_repo_tag r)"
    "split_repo_tag (pin_registry_repo_tag r) = Inr (pin_registry_repo r, pin_tag r)"
    by blast+
qed

lemma digest_str_chars:
  assumes "list_all is_lower_hex (digest_hex d)"
  shows "list_all is_graph (digest_as_str d)" "CHR ''@'' \<notin> set (digest_as_str d)"
proof -
  have "\<forall>c\<in>set (digest_hex d). is_graph c \<and> c \<noteq> CHR ''@''"
    using assms alnum_graph lower_digit_alnum lower_hex_lower_digit lower_digit_separators
    unfolding list_all_iff by blast
  moreover have "list_all (\<lambda>c. is_graph c \<and> c \<noteq> CHR ''@'') ''sha256:''" by (simp add: is_graph_def)
  ultimately show "list_all is_graph (digest_as_str d)" "CHR ''@'' \<notin> set (digest_as_str d)"
    unfolding digest_as_str_def list_all_iff set_append by blast+
qed

lemma pinned_parse_complete:
  assumes "wf_pinned r"
  shows "pinned_parse (pin_full r) = Inr r"
proof -
  let ?rrt = "pin_registry_repo_tag r"
  note wf = assms[unfolded wf_pinned_checks] and tp = wf_tag_part[OF assms]
  from wf have ds: "list_all is_graph (digest_as_str (pin_digest r))" "CHR ''@'' \<notin> set (digest_as_str (pin_digest r))"
    using digest_str_chars by blast+
  have full: "pin_full r = ?rrt @ CHR ''@'' # digest_as_str (pin_digest r)" using wf by blast
  have ne: "?rrt \<noteq> []" using wf registry_repo_chars by auto
  have at: "find_idx (\<lambda>c. c = CHR ''@'') (pin_full r) = Some (length ?rrt)"
    unfolding full using tp(2) by (intro find_idx_append_sep) auto
  have no_at: "filter (\<lambda>d. d = CHR ''@'') s = []" if "CHR ''@'' \<notin> set s" for s
    using that by (induction s) auto
  have cnt: "count_char (CHR ''@'') (pin_full r) = 1"
    unfolding full count_char_def using tp(2) ds(2) by (simp add: no_at)
  have "is_graph (CHR ''@'')" by (simp add: is_graph_def)
  then have ws: "\<not> any_ws_or_control (pin_full r)"
    unfolding full using tp(1) ds(1) by (intro graph_not_ws) simp
  have dp: "digest_parse (digest_as_str (pin_digest r)) = Inr (pin_digest r)"
    using wf by (simp add: digest_parse_Inr_iff)
  have tagok: "(case pin_tag r of
               Some t \<Rightarrow> if t = ''latest'' then Inl TagLatest else validate_image_tag t
             | None \<Rightarrow> Inr ()) = Inr ()" using wf by (auto split: option.splits)
  show ?thesis
    unfolding pinned_parse_def at ok_or_simps and_then_simps Let_def
    using cnt ws dp tagok tp(3) ne wf by (simp add: full)
qed

lemma pinned_parse_sound:
  assumes "pinned_parse s = Inr r"
  shows "wf_pinned r \<and> pin_full r = s"
proof -
  from assms obtain at where at: "find_idx (\<lambda>c. c = CHR ''@'') s = Some at"
    by (auto simp: pinned_parse_def result_simps split: if_splits)
  with assms obtain d rr tag where
    d: "digest_parse (drop (at + 1) s) = Inr d" and
    sp: "split_repo_tag (take at s) = Inr (rr, tag)" and
    tg: "(case tag of Some t \<Rightarrow> if t = ''latest'' then Inl TagLatest else validate_image_tag t
             | None \<Rightarrow> Inr ()) = Inr ()" and
    rr: "validate_registry_repo rr = Inr ()" and
    r: "r = \<lparr>pin_full = s, pin_registry_repo_tag = take at s, pin_registry_repo = rr,
                    pin_tag = tag, pin_digest = d\<rparr>"
    by (auto simp: pinned_parse_def result_simps Let_def split: if_splits)
  have "s = take at s @ CHR ''@'' # drop (at + 1) s"
    using find_idx_split[OF at] find_idx_SomeD[OF at] by simp
  then show ?thesis
    using d tg rr split_repo_tag_Inr[OF sp]
    by (auto simp: r wf_pinned_checks digest_parse_Inr_iff tag_part_def split: option.splits if_splits)
qed

text \<open>C37. The pinned-reference parser is a bijection between the strings it accepts and the
  well-formed references: it returns \<open>r\<close> exactly when the pieces of \<open>r\<close> follow the grammar and the
  input is the canonical rendering of \<open>r\<close>. The grammar is that of the header of the file (host labels
  and an optional port, repository components, a tag other than \<open>latest\<close>, a digest of 64 lower-case
  hex digits) with the length limits of the code, except that a component has one separator between
  two words: \<open>__\<close> and other adjacent separators, which the header allows, are refused.\<close>

theorem pinned_parse_iff:
  "(pinned_parse s = Inr r \<longleftrightarrow> wf_pinned r \<and> pin_full r = s) \<and>
   \<not> is_ok (pinned_parse (''docker.io/library/post__gres@sha256:'' @ replicate 64 (CHR ''a'')))"
proof
  show "pinned_parse s = Inr r \<longleftrightarrow> wf_pinned r \<and> pin_full r = s"
    using pinned_parse_sound pinned_parse_complete by blast
qed code_simp

text \<open>The repo-digest of an accepted reference (the form compared with an inspected image)
  parses again, to the same registry, repository and digest with the tag dropped, and is its own
  repo-digest.\<close>

theorem repo_digest_reparses:
  assumes "pinned_parse s = Inr r"
  shows "\<exists>r'. pinned_parse (repo_digest r) = Inr r' \<and> pin_tag r' = None \<and>
    pin_digest r' = pin_digest r \<and> pin_registry_repo r' = pin_registry_repo r \<and>
    repo_digest r' = repo_digest r"
proof -
  let ?r' = "\<lparr>pin_full = repo_digest r, pin_registry_repo_tag = pin_registry_repo r,
     pin_registry_repo = pin_registry_repo r, pin_tag = None, pin_digest = pin_digest r\<rparr>"
  have "wf_pinned ?r'"
    using pinned_parse_sound[OF assms] by (simp add: wf_pinned_def tag_part_def repo_digest_def)
  from pinned_parse_complete[OF this] show ?thesis
    by (intro exI[of _ ?r']) (simp add: repo_digest_def)
qed

definition sample_ref :: string where
  "sample_ref = ''docker.io/library/postgres:18@sha256:'' @ replicate 64 (CHR ''a'')"

lemma sample_ref_parses: "is_ok (pinned_parse sample_ref)"
  by code_simp

theorem repo_digest_reparses_witness:
  "\<exists>r r'. pinned_parse sample_ref = Inr r \<and> pinned_parse (repo_digest r) = Inr r'
     \<and> pin_tag r' = None \<and> pin_digest r' = pin_digest r"
proof -
  obtain r where r: "pinned_parse sample_ref = Inr r" using sample_ref_parses by (auto simp: is_ok_iff)
  from repo_digest_reparses[OF r] r show ?thesis by blast
qed

end
