(* ===== verification/Json.thy ===== *)
theory Json
  imports Prelude "HOL-Library.List_Lexorder"
begin

text \<open>
  JSON values as \<open>serde_json::Value\<close>: an object is the list of its entries, kept in key order as
  the crate's default map does, with the accessors the program uses.
\<close>

datatype json = JNull | JBool bool | JNum string | JStr string | JArr "json list" | JObj "(string \<times> json) list"

fun obj_put :: "string \<Rightarrow> json \<Rightarrow> (string \<times> json) list \<Rightarrow> (string \<times> json) list" where
  "obj_put k v [] = [(k, v)]"
| "obj_put k v ((k', v') # m) =
     (if k = k' then (k, v) # m else if k < k' then (k, v) # (k', v') # m else (k', v') # obj_put k v m)"

definition obj_del :: "string \<Rightarrow> (string \<times> json) list \<Rightarrow> (string \<times> json) list" where
  "obj_del k m = filter (\<lambda>e. fst e \<noteq> k) m"

definition jobj :: "(string \<times> json) list \<Rightarrow> json" where
  "jobj kvs = JObj (foldl (\<lambda>m kv. obj_put (fst kv) (snd kv) m) [] kvs)"

fun jget :: "string \<Rightarrow> json \<Rightarrow> json option" where
  "jget k (JObj m) = map_of m k"
| "jget k _ = None"

fun jstr :: "json \<Rightarrow> string option" where
  "jstr (JStr s) = Some s"
| "jstr _ = None"

fun jarr :: "json \<Rightarrow> json list option" where
  "jarr (JArr xs) = Some xs"
| "jarr _ = None"

fun jput :: "string \<Rightarrow> json \<Rightarrow> json \<Rightarrow> json" where
  "jput k v (JObj m) = JObj (obj_put k v m)"
| "jput k v j = j"

fun jdel :: "string \<Rightarrow> json \<Rightarrow> json" where
  "jdel k (JObj m) = JObj (obj_del k m)"
| "jdel k j = j"

definition is_jobj :: "json \<Rightarrow> bool" where
  "is_jobj j = (case j of JObj _ \<Rightarrow> True | _ \<Rightarrow> False)"

text \<open>\<open>Value::pointer\<close> along object keys.\<close>

fun jpointer :: "string list \<Rightarrow> json \<Rightarrow> json option" where
  "jpointer [] j = Some j"
| "jpointer (k # ks) j = (case jget k j of Some v \<Rightarrow> jpointer ks v | None \<Rightarrow> None)"

lemma map_of_obj_put [simp]: "map_of (obj_put k v m) = (map_of m)(k \<mapsto> v)"
  by (induction k v m rule: obj_put.induct) (auto simp: fun_eq_iff)

lemma jget_jobj: "jget k (jobj kvs) = map_of (rev kvs) k"
proof -
  have "map_of (foldl (\<lambda>m kv. obj_put (fst kv) (snd kv) m) m0 xs) = map_of m0 ++ map_of (rev xs)" for m0 xs
    by (induction xs arbitrary: m0) (auto simp: map_add_def fun_eq_iff split: option.splits)
  then show ?thesis by (simp add: jobj_def)
qed

lemma map_of_obj_del: "map_of (obj_del k m) l = (if l = k then None else map_of m l)"
  by (induction m) (auto simp: obj_del_def)

lemma obj_del_fresh: "k \<notin> fst ` set m \<Longrightarrow> obj_del k m = m"
  unfolding obj_del_def by (induction m) auto

lemma obj_del_put: "k \<notin> fst ` set m \<Longrightarrow> obj_del k (obj_put k v m) = m"
proof (induction k v m rule: obj_put.induct)
  case (2 k v k' v' m)
  then have "obj_del k m = m" by (intro obj_del_fresh) auto
  then show ?case using 2 by (auto simp: obj_del_def)
qed (simp add: obj_del_def)

lemma jget_jput: "is_jobj j \<Longrightarrow> jget l (jput k v j) = (if l = k then Some v else jget l j)"
  by (cases j) (auto simp: is_jobj_def)

lemma jget_none_keys: "jget k (JObj m) = None \<longleftrightarrow> k \<notin> fst ` set m"
  by (simp add: map_of_eq_None_iff)

lemma jdel_jput: "jget k j = None \<Longrightarrow> jdel k (jput k v j) = j"
  by (cases j) (simp_all add: map_of_eq_None_iff obj_del_put)

end
