(* ===== verification/Needs.thy ===== *)
theory Needs
  imports Names
begin

text \<open>
  \<open>needs.rs\<close>: the \<open>[needs.<alias>]\<close> bindings of an app and the environment variables they
  inject.  A \<open>BTreeMap\<close> is the list of its entries in iteration order, the \<open>[env]\<close> table a map.
\<close>

datatype need_type = Postgres | S3 | Kv

record need = need_kind :: need_type

datatype need_error =
    InvalidAlias string nat
  | UnknownType string
  | EnvConflict string string
  | EnvCollision string string string
  | CanonicalTypeMismatch string string string

definition max_alias_len :: nat where "max_alias_len = 32"
definition canonical_pg_env :: string where "canonical_pg_env = ''DATABASE_URL''"
definition canonical_kv_env :: string where "canonical_kv_env = ''REDIS_URL''"
definition canonical_s3_env :: "string list" where
  "canonical_s3_env = [''S3_ENDPOINT'', ''S3_REGION'', ''S3_BUCKET'', ''S3_ACCESS_KEY_ID'', ''S3_SECRET_ACCESS_KEY'']"
definition canonical_pg_aliases :: "string list" where "canonical_pg_aliases = [''db'']"
definition canonical_s3_aliases :: "string list" where "canonical_s3_aliases = [''storage'']"
definition canonical_kv_aliases :: "string list" where "canonical_kv_aliases = [''cache'']"

lemmas need_consts = canonical_pg_env_def canonical_kv_env_def canonical_s3_env_def
  canonical_pg_aliases_def canonical_s3_aliases_def canonical_kv_aliases_def

fun need_type_parse :: "string \<Rightarrow> need_error + need_type" where
  "need_type_parse s =
     (if s = ''postgres'' then Inr Postgres
      else if s = ''s3'' then Inr S3
      else if s = ''kv'' then Inr Kv
      else Inl (UnknownType s))"

fun need_type_str :: "need_type \<Rightarrow> string" where
  "need_type_str Postgres = ''postgres''"
| "need_type_str S3 = ''s3''"
| "need_type_str Kv = ''kv''"

definition prefixed :: "string \<Rightarrow> string \<Rightarrow> string" where
  "prefixed alias base = ascii_uppercase alias @ ''_'' @ base"

definition env_keys :: "need \<Rightarrow> string \<Rightarrow> string list" where
  "env_keys n alias =
     (case need_kind n of
        Postgres \<Rightarrow> if List.member canonical_pg_aliases alias then [canonical_pg_env]
                    else [prefixed alias ''DATABASE_URL'']
      | Kv \<Rightarrow> if List.member canonical_kv_aliases alias then [canonical_kv_env]
              else [prefixed alias ''REDIS_URL'']
      | S3 \<Rightarrow> if List.member canonical_s3_aliases alias then canonical_s3_env
              else map (prefixed alias) canonical_s3_env)"

definition alias_char :: "char \<Rightarrow> bool" where
  "alias_char c \<longleftrightarrow> is_lower c \<or> is_digit c \<or> c = CHR ''_''"

definition validate_alias :: "string \<Rightarrow> need_error + unit" where
  "validate_alias alias =
     (if alias = [] then Inl (InvalidAlias alias max_alias_len)
      else if length alias > max_alias_len then Inl (InvalidAlias alias max_alias_len)
      else if \<not> is_lower (hd alias) then Inl (InvalidAlias alias max_alias_len)
      else if \<not> list_all alias_char (tl alias) then Inl (InvalidAlias alias max_alias_len)
      else Inr ())"

definition check_canonical_type :: "string \<Rightarrow> need_type \<Rightarrow> need_error + unit" where
  "check_canonical_type alias kind =
     (let expected = (if List.member canonical_pg_aliases alias then Some ''postgres''
                      else if List.member canonical_s3_aliases alias then Some ''s3''
                      else if List.member canonical_kv_aliases alias then Some ''kv''
                      else None)
      in (case expected of
            Some e \<Rightarrow> if need_type_str kind \<noteq> e then Inl (CanonicalTypeMismatch alias e (need_type_str kind))
                      else Inr ()
          | None \<Rightarrow> Inr ()))"

fun check_vars ::
  "(string \<rightharpoonup> string) \<Rightarrow> string \<Rightarrow> (string \<rightharpoonup> string) \<Rightarrow> string list \<Rightarrow> need_error + (string \<rightharpoonup> string)" where
  "check_vars env alias seen [] = Inr seen"
| "check_vars env alias seen (var # vars) =
     (if env var \<noteq> None then Inl (EnvConflict alias var)
      else (case seen var of
              Some other \<Rightarrow> Inl (EnvCollision other alias var)
            | None \<Rightarrow> check_vars env alias (seen(var \<mapsto> alias)) vars))"

fun validate_needs_from ::
  "(string \<rightharpoonup> string) \<Rightarrow> (string \<rightharpoonup> string) \<Rightarrow> (string \<times> need) list \<Rightarrow> need_error + unit" where
  "validate_needs_from env seen [] = Inr ()"
| "validate_needs_from env seen ((alias, n) # rest) =
     and_then (validate_alias alias) (\<lambda>_.
     and_then (check_canonical_type alias (need_kind n)) (\<lambda>_.
     and_then (check_vars env alias seen (env_keys n alias)) (\<lambda>seen'.
       validate_needs_from env seen' rest)))"

definition validate_needs :: "(string \<times> need) list \<Rightarrow> (string \<rightharpoonup> string) \<Rightarrow> need_error + unit" where
  "validate_needs needs env = validate_needs_from env Map.empty needs"

section \<open>Aliases and keys\<close>

lemma need_type_roundtrip: "need_type_parse (need_type_str t) = Inr t"
  by (cases t) simp_all

lemma validate_alias_Inr:
  "validate_alias a = Inr () \<Longrightarrow> a \<noteq> [] \<and> length a \<le> 32 \<and> list_all alias_char a"
  by (cases a) (auto simp: validate_alias_def max_alias_len_def alias_char_def split: if_splits)

interpretation need_aliases: name_policy "\<lambda>s. validate_alias s = Inr ()" alias_char 32
proof
  fix s c
  assume "validate_alias s = Inr ()"
  from validate_alias_Inr[OF this]
  show "s \<noteq> []" "length s \<le> 32" "c \<in> set s \<Longrightarrow> alias_char c" by (auto simp: list_all_iff)
next
  show "\<not> alias_char CHR ''/'' \<and> \<not> alias_char CHR 0x5C \<and> \<not> alias_char CHR 0x00 \<and> \<not> alias_char CHR ''.''"
    by (simp add: alias_char_def byte_class_defs)
qed

lemma check_vars_Inr_iff:
  "check_vars env al seen vars = Inr seen' \<longleftrightarrow>
     distinct vars \<and> (\<forall>v\<in>set vars. env v = None \<and> seen v = None) \<and>
     seen' = foldl (\<lambda>m v. m(v \<mapsto> al)) seen vars"
proof (induction env al seen vars rule: check_vars.induct)
  case (2 env al seen var vars)
  show ?case
  proof (cases "env var = None \<and> seen var = None")
    case True
    then have "(\<forall>v\<in>set vars. env v = None \<and> (seen(var \<mapsto> al)) v = None) \<longleftrightarrow>
        (\<forall>v\<in>set vars. env v = None \<and> seen v = None) \<and> var \<notin> set vars"
      by auto
    moreover have "check_vars env al seen (var # vars) = check_vars env al (seen(var \<mapsto> al)) vars"
      using True by simp
    ultimately show ?thesis using 2 True by (simp del: fun_upd_apply) blast
  next
    case False
    then show ?thesis by (auto split: option.split)
  qed
qed auto

lemma seen_after: "foldl (\<lambda>m v. m(v \<mapsto> al)) seen vars x = (if x \<in> set vars then Some al else seen x)"
  by (induction vars arbitrary: seen) auto

text \<open>All the variables that a needs table injects.\<close>

definition injected :: "(string \<times> need) list \<Rightarrow> string list" where
  "injected needs = concat (map (\<lambda>x. env_keys (snd x) (fst x)) needs)"

definition need_ok :: "string \<times> need \<Rightarrow> bool" where
  "need_ok x \<longleftrightarrow> validate_alias (fst x) = Inr () \<and> check_canonical_type (fst x) (need_kind (snd x)) = Inr ()"

lemma validate_needs_from_Inr_iff:
  "validate_needs_from env seen needs = Inr () \<longleftrightarrow>
     list_all need_ok needs \<and> distinct (injected needs) \<and>
     (\<forall>v\<in>set (injected needs). env v = None \<and> seen v = None)"
proof (induction needs arbitrary: seen)
  case (Cons x needs)
  obtain a n where x: "x = (a, n)" by (cases x)
  let ?seen = "foldl (\<lambda>m v. m(v \<mapsto> a)) seen (env_keys n a)"
  have "validate_needs_from env seen (x # needs) = Inr () \<longleftrightarrow>
      need_ok x \<and> distinct (env_keys n a) \<and> (\<forall>v\<in>set (env_keys n a). env v = None \<and> seen v = None) \<and>
      validate_needs_from env ?seen needs = Inr ()"
    unfolding x by (auto simp: result_simps check_vars_Inr_iff need_ok_def)
  also have "\<dots> \<longleftrightarrow> need_ok x \<and> distinct (env_keys n a) \<and>
      (\<forall>v\<in>set (env_keys n a). env v = None \<and> seen v = None) \<and>
      list_all need_ok needs \<and> distinct (injected needs) \<and>
      (\<forall>v\<in>set (injected needs). env v = None \<and> seen v = None \<and> v \<notin> set (env_keys n a))"
    unfolding Cons.IH seen_after by auto
  finally show ?case by (auto simp: x injected_def)
qed (simp add: injected_def)

lemma needs_validated:
  "validate_needs needs env = Inr () \<longleftrightarrow>
     list_all need_ok needs \<and> distinct (injected needs) \<and> list_all (\<lambda>v. env v = None) (injected needs)"
  unfolding validate_needs_def validate_needs_from_Inr_iff by (auto simp: list_all_iff)

text \<open>Validation of a needs table succeeds exactly when every alias is well-formed and
  paired with its canonical type, the variables injected by all needs are pairwise distinct, and
  none of them is already set in the \<open>env\<close> table.\<close>

theorem validate_needs_spec:
  "validate_needs needs env = Inr () \<longleftrightarrow>
     list_all need_ok needs \<and> distinct (injected needs) \<and> list_all (\<lambda>v. env v = None) (injected needs)"
  by (rule needs_validated)

section \<open>Two needs never collide\<close>

lemma lower_upper_id: "alias_char c \<Longrightarrow> to_lower (to_upper c) = c"
proof (cases "is_lower c")
  case True
  then have b: "97 \<le> (of_char c :: nat)" "of_char c \<le> (122 :: nat)"
    by (simp_all add: is_lower_def less_eq_char_def)
  have m: "of_char (to_upper c) = (of_char c - 32 :: nat)"
    using True b by (simp add: to_upper_def)
  moreover have "65 \<le> (of_char c - 32 :: nat)" "of_char c - 32 \<le> (90 :: nat)" using b by linarith+
  ultimately have "is_upper (to_upper c)" by (simp add: is_upper_def less_eq_char_def)
  then have "to_lower (to_upper c) = char_of ((of_char c - 32) + 32 :: nat)" using m by (simp add: to_lower_def)
  also have "(of_char c - 32) + 32 = (of_char c :: nat)" using b by simp
  finally show ?thesis by simp
next
  case False
  assume "alias_char c"
  then have "\<not> is_upper c" using False by (auto simp: alias_char_def byte_class_defs less_eq_char_def)
  then show ?thesis using False by (simp add: to_upper_def to_lower_def)
qed

lemma to_upper_inj: "alias_char c \<Longrightarrow> alias_char d \<Longrightarrow> to_upper c = to_upper d \<Longrightarrow> c = d"
  by (metis lower_upper_id)

lemma uppercase_inj:
  assumes "list_all alias_char a" "list_all alias_char b" "ascii_uppercase a = ascii_uppercase b"
  shows "a = b"
  using assms unfolding ascii_uppercase_def
proof (induction a arbitrary: b)
  case (Cons x a)
  then obtain y b' where b: "b = y # b'" by (cases b) auto
  then show ?case using Cons to_upper_inj by auto
qed simp

text \<open>The suffix of an injected variable tells whether it is prefixed and with which base.\<close>

definition need_bases :: "string list" where
  "need_bases = canonical_pg_env # canonical_kv_env # canonical_s3_env"

lemma bases_table:
  "list_all (\<lambda>b. list_all (\<lambda>b'. (prefix (rev b @ ''_'') (rev b' @ ''_'') \<longrightarrow> b = b') \<and>
     \<not> suffix (''_'' @ b') b) need_bases) need_bases"
  by code_simp

lemma bases_not_suffix:
  assumes "b \<in> set need_bases" "b' \<in> set need_bases" "x @ ''_'' @ b = y @ ''_'' @ b'"
  shows "b = b' \<and> x = y"
proof -
  have eq: "(rev b @ ''_'') @ rev x = (rev b' @ ''_'') @ rev y"
    using arg_cong[OF assms(3), of rev] by simp
  then have "prefix (rev b @ ''_'') (rev b' @ ''_'') \<or> prefix (rev b' @ ''_'') (rev b @ ''_'')"
    by (metis prefixI prefix_same_cases)
  then have "b = b'" using bases_table assms(1,2) unfolding list_all_iff by blast
  then show ?thesis using assms(3) by simp
qed

lemma base_not_prefixed: "b \<in> set need_bases \<Longrightarrow> b' \<in> set need_bases \<Longrightarrow> b \<noteq> x @ ''_'' @ b'"
  using bases_table unfolding list_all_iff suffix_def by blast

fun canonical_keys :: "need_type \<Rightarrow> string list" where
  "canonical_keys Postgres = [canonical_pg_env]"
| "canonical_keys S3 = canonical_s3_env"
| "canonical_keys Kv = [canonical_kv_env]"

fun canonical_alias :: "need_type \<Rightarrow> string" where
  "canonical_alias Postgres = ''db''"
| "canonical_alias S3 = ''storage''"
| "canonical_alias Kv = ''cache''"

lemma canonical_keys_disjoint: "k \<noteq> k' \<Longrightarrow> v \<in> set (canonical_keys k) \<Longrightarrow> v \<notin> set (canonical_keys k')"
proof -
  have "list_all (\<lambda>(k, k'). k \<noteq> k' \<longrightarrow> list_all (\<lambda>v. \<not> List.member (canonical_keys k') v) (canonical_keys k))
      (List.product [Postgres, S3, Kv] [Postgres, S3, Kv])" by code_simp
  moreover have "k \<in> {Postgres, S3, Kv}" "k' \<in> {Postgres, S3, Kv}" by (cases k; cases k'; simp)+
  ultimately show "k \<noteq> k' \<Longrightarrow> v \<in> set (canonical_keys k) \<Longrightarrow> v \<notin> set (canonical_keys k')"
    unfolding list_all_iff by fastforce
qed

lemma env_keys_cases:
  assumes "v \<in> set (env_keys n a)"
  obtains (canonical) "v \<in> set need_bases" "a = canonical_alias (need_kind n)"
    "v \<in> set (canonical_keys (need_kind n))"
  | (prefixed) b where "b \<in> set need_bases" "v = ascii_uppercase a @ ''_'' @ b"
  using assms
  by (cases "need_kind n")
    (auto simp: env_keys_def prefixed_def need_bases_def canonical_pg_env_def canonical_kv_env_def
      canonical_pg_aliases_def canonical_s3_aliases_def canonical_kv_aliases_def split: if_splits)

lemma env_keys_disjoint:
  assumes "validate_alias a = Inr ()" "validate_alias b = Inr ()" "a \<noteq> b"
    "v \<in> set (env_keys m a)" "v \<in> set (env_keys n b)"
  shows False
proof -
  from assms(4) show False
  proof (cases rule: env_keys_cases)
    case canonical
    note c = canonical
    from assms(5) show False
    proof (cases rule: env_keys_cases)
      case canonical
      then have "need_kind m \<noteq> need_kind n" using c(2) assms(3) by auto
      then show False using canonical_keys_disjoint c(3) canonical(3) by blast
    next
      case (prefixed b')
      then show False using c base_not_prefixed by blast
    qed
  next
    case (prefixed b')
    note p = prefixed
    from assms(5) show False
    proof (cases rule: env_keys_cases)
      case canonical
      then show False using p base_not_prefixed by blast
    next
      case (prefixed b'')
      then have "ascii_uppercase a = ascii_uppercase b" using p bases_not_suffix by metis
      then show False
        using uppercase_inj validate_alias_Inr[OF assms(1)] validate_alias_Inr[OF assms(2)] assms(3) by simp
    qed
  qed
qed

lemma env_keys_distinct: "distinct (env_keys n a)"
  by (cases "need_kind n") (auto simp: env_keys_def prefixed_def need_consts)

lemma injected_distinct:
  assumes "list_all need_ok needs" "distinct (map fst needs)"
  shows "distinct (injected needs)"
  using assms
proof (induction needs)
  case (Cons x needs)
  have "v \<notin> set (env_keys (snd y) (fst y))" if "v \<in> set (env_keys (snd x) (fst x))" "y \<in> set needs" for v y
  proof
    assume "v \<in> set (env_keys (snd y) (fst y))"
    moreover have "validate_alias (fst x) = Inr ()" "validate_alias (fst y) = Inr ()" "fst x \<noteq> fst y"
      using Cons.prems that(2) by (auto simp: list_all_iff need_ok_def)
    ultimately show False using env_keys_disjoint that(1) by blast
  qed
  then show ?case using Cons by (auto simp: injected_def env_keys_distinct)
qed (simp add: injected_def)

text \<open>The \<open>EnvCollision\<close> error cannot occur: a needs table has distinct aliases (it is a
  map), and distinct well-formed aliases inject disjoint sets of variables, so for a table whose
  aliases and types are accepted the only possible failure is a conflict with the \<open>env\<close> table.\<close>

theorem needs_never_collide:
  assumes "distinct (map fst needs)" and "list_all need_ok needs"
  shows "validate_needs needs env = Inr () \<longleftrightarrow> list_all (\<lambda>v. env v = None) (injected needs)"
  using needs_validated injected_distinct[OF assms(2,1)] assms(2) by blast

theorem needs_never_collide_witness:
  "validate_needs [(''db'', \<lparr>need_kind = Postgres\<rparr>), (''s3'', \<lparr>need_kind = S3\<rparr>)] Map.empty = Inr ()"
proof -
  let ?n = "[(''db'', \<lparr>need_kind = Postgres\<rparr>), (''s3'', \<lparr>need_kind = S3\<rparr>)]"
  have "list_all need_ok ?n" by code_simp
  then show ?thesis using needs_never_collide[of ?n Map.empty] by (simp add: list_all_iff)
qed

end
