(* ===== verification/StatusExpect.thy ===== *)
theory StatusExpect
  imports Prelude "HOL-Library.Product_Lexorder"
begin

text \<open>
  \<open>status_expectation.rs\<close>: the accepted HTTP status codes of a health check, as a canonical list
  of inclusive ranges.  A \<open>u16\<close> is a \<open>nat\<close> that the parser keeps below 65536, with the
  saturating successor of \<open>merge\<close> written out.
\<close>

datatype status_parse_error =
    StatusEmpty string | StatusOutOfRange string | StatusReversed string
  | StatusNonNumeric string | StatusTrailingGarbage string

type_synonym range = "nat \<times> nat"

datatype status_expectation = StatusExpectation (ranges: "range list")

definition parse_code :: "string \<Rightarrow> unit + nat" where
  "parse_code s = ok_or (parse_uint 65535 s) ()"

definition succ_u16 :: "nat \<Rightarrow> nat" where
  "succ_u16 n = (if n + 1 \<le> 65535 then n + 1 else 65535)"

text \<open>The loop of \<open>merge\<close>; the output vector is kept in reverse so that its last element is the
  head.\<close>

fun merge_into :: "range list \<Rightarrow> range list \<Rightarrow> range list" where
  "merge_into out [] = rev out"
| "merge_into [] (r # rs) = merge_into [r] rs"
| "merge_into (l # out) (r # rs) =
     (if fst r \<le> succ_u16 (snd l) then
        (if snd r > snd l then merge_into ((fst l, snd r) # out) rs else merge_into (l # out) rs)
      else merge_into (r # l # out) rs)"

definition merge_ranges :: "range list \<Rightarrow> status_expectation" where
  "merge_ranges rs = StatusExpectation (merge_into [] (sort rs))"

definition valid_code :: "nat \<Rightarrow> bool" where
  "valid_code c \<longleftrightarrow> 100 \<le> c \<and> c \<le> 599"

definition parse_item :: "string \<Rightarrow> string \<Rightarrow> status_parse_error + range" where
  "parse_item raw item =
     (let (lo_str, hi_str) = (case split_once (CHR ''-'') item of
                                Some (lo, hi) \<Rightarrow> (trim lo, trim hi)
                              | None \<Rightarrow> (trim item, trim item))
      in if lo_str = [] \<or> hi_str = [] then Inl (StatusTrailingGarbage raw)
         else (case parse_code lo_str of
                 Inl _ \<Rightarrow> Inl (StatusNonNumeric raw)
               | Inr lo \<Rightarrow>
                   (case (if lo_str = hi_str then Inr lo else parse_code hi_str) of
                      Inl _ \<Rightarrow> Inl (StatusNonNumeric raw)
                    | Inr hi \<Rightarrow>
                        if \<not> valid_code lo \<or> \<not> valid_code hi then Inl (StatusOutOfRange raw)
                        else if lo > hi then Inl (StatusReversed raw)
                        else Inr (lo, hi))))"

fun parse_items :: "string \<Rightarrow> range list \<Rightarrow> string list \<Rightarrow> status_parse_error + range list" where
  "parse_items raw acc [] = Inr acc"
| "parse_items raw acc (item # items) =
     (if trim item = [] then parse_items raw acc items
      else and_then (parse_item raw (trim item)) (\<lambda>r. parse_items raw (acc @ [r]) items))"

definition status_parse :: "string \<Rightarrow> status_parse_error + status_expectation" where
  "status_parse s =
     and_then (parse_items s [] (split_on (CHR '','') s)) (\<lambda>rs.
       if rs = [] then Inl (StatusEmpty s) else Inr (merge_ranges rs))"

definition status_accepts :: "status_expectation \<Rightarrow> nat \<Rightarrow> bool" where
  "status_accepts e code \<longleftrightarrow> list_ex (\<lambda>r. fst r \<le> code \<and> code \<le> snd r) (ranges e)"

definition render_range :: "range \<Rightarrow> string" where
  "render_range r = (if fst r = snd r then show_nat (fst r)
                     else show_nat (fst r) @ ''-'' @ show_nat (snd r))"

definition status_canonical :: "status_expectation \<Rightarrow> string" where
  "status_canonical e = join_with '','' (map render_range (ranges e))"

definition default_expectation :: status_expectation where
  "default_expectation = StatusExpectation [(200, 399)]"

section \<open>Merging\<close>

definition range_set :: "range list \<Rightarrow> nat set" where
  "range_set rs = (\<Union>r\<in>set rs. {fst r..snd r})"

text \<open>Sorted, disjoint and non-adjacent ranges of valid codes.\<close>

definition gap_sorted :: "range list \<Rightarrow> bool" where
  "gap_sorted rs \<longleftrightarrow> sorted_wrt (\<lambda>a b. snd a + 1 < fst b) rs \<and> (\<forall>r\<in>set rs. fst r \<le> snd r)"

lemma merge_into_spec:
  assumes "gap_sorted (rev out)" "\<forall>r\<in>set rs. fst r \<le> snd r \<and> snd r \<le> 65534"
    "\<forall>r\<in>set out. snd r \<le> 65534" "sorted (map fst rs)"
    "\<forall>l\<in>set out. \<forall>r\<in>set rs. fst l \<le> fst r"
  shows "gap_sorted (merge_into out rs) \<and> range_set (merge_into out rs) = range_set out \<union> range_set rs"
  using assms
proof (induction out rs rule: merge_into.induct)
  case (1 out)
  then show ?case by (simp add: range_set_def)
next
  case (2 r rs)
  have "gap_sorted (rev [r])" using 2(3) by (simp add: gap_sorted_def)
  then have "gap_sorted (merge_into [r] rs) \<and> range_set (merge_into [r] rs) = range_set [r] \<union> range_set rs"
    using 2 by (intro 2(1)) (auto simp: sorted_wrt_map)
  then show ?case by (auto simp: range_set_def)
next
  case (3 l out r rs)
  have ord: "fst l \<le> fst r" "fst r \<le> snd r" "snd l \<le> 65534" "fst l \<le> snd l"
    using "3.prems" by (auto simp: gap_sorted_def)
  then have s: "succ_u16 (snd l) = snd l + 1" by (simp add: succ_u16_def)
  consider (ext) "fst r \<le> snd l + 1" "snd r > snd l" | (skip) "fst r \<le> snd l + 1" "snd r \<le> snd l"
    | (new) "fst r > snd l + 1" by linarith
  then show ?case
  proof cases
    case ext
    have "gap_sorted (rev ((fst l, snd r) # out))"
      using "3.prems"(1) ord ext by (auto simp: gap_sorted_def sorted_wrt_append)
    then have "gap_sorted (merge_into ((fst l, snd r) # out) rs) \<and>
        range_set (merge_into ((fst l, snd r) # out) rs) = range_set ((fst l, snd r) # out) \<union> range_set rs"
      using "3.prems" ord ext s by (intro "3.IH"(1)) auto
    moreover have "{fst l..snd r} = {fst l..snd l} \<union> {fst r..snd r}" using ord ext by auto
    ultimately show ?thesis using ext s by (auto simp: range_set_def)
  next
    case skip
    have "gap_sorted (merge_into (l # out) rs) \<and>
        range_set (merge_into (l # out) rs) = range_set (l # out) \<union> range_set rs"
      using "3.prems" skip s by (intro "3.IH"(2)) auto
    moreover have "{fst r..snd r} \<subseteq> {fst l..snd l}" using ord skip by auto
    ultimately show ?thesis using skip s by (auto simp: range_set_def)
  next
    case new
    have "gap_sorted (rev (r # l # out))"
      using "3.prems"(1) ord new by (auto simp: gap_sorted_def sorted_wrt_append)
    then have "gap_sorted (merge_into (r # l # out) rs) \<and>
        range_set (merge_into (r # l # out) rs) = range_set (r # l # out) \<union> range_set rs"
      using "3.prems" new s by (intro "3.IH"(3)) (auto simp: sorted_wrt_map)
    then show ?thesis using new s by (auto simp: range_set_def)
  qed
qed

lemma status_accepts_iff: "status_accepts e c \<longleftrightarrow> c \<in> range_set (ranges e)"
  by (auto simp: status_accepts_def range_set_def list_ex_iff)

definition code_range :: "range \<Rightarrow> bool" where
  "code_range r \<longleftrightarrow> valid_code (fst r) \<and> valid_code (snd r) \<and> fst r \<le> snd r"

lemma merge_ranges_spec:
  assumes "list_all code_range rs"
  shows "gap_sorted (ranges (merge_ranges rs)) \<and> range_set (ranges (merge_ranges rs)) = range_set rs"
proof -
  have "sorted (map fst (sort rs))"
    unfolding sorted_wrt_map
    by (rule sorted_wrt_mono_rel[OF _ sorted_sort[of rs]]) (auto simp: less_eq_prod_def)
  moreover have "\<forall>r\<in>set (sort rs). fst r \<le> snd r \<and> snd r \<le> 65534"
    using assms by (auto simp: list_all_iff code_range_def valid_code_def)
  ultimately show ?thesis
    using merge_into_spec[of "[]" "sort rs"]
    by (simp add: merge_ranges_def gap_sorted_def range_set_def)
qed

text \<open>Merging is the identity on canonical lists.\<close>

lemma merge_into_canonical:
  "gap_sorted (rev out @ rs) \<Longrightarrow> \<forall>r\<in>set (out @ rs). snd r \<le> 65534 \<Longrightarrow> merge_into out rs = rev out @ rs"
proof (induction out rs rule: merge_into.induct)
  case (3 l out r rs)
  then have "snd l + 1 < fst r" by (auto simp: gap_sorted_def sorted_wrt_append)
  moreover have "succ_u16 (snd l) = snd l + 1" using 3 by (simp add: succ_u16_def)
  ultimately show ?case using 3 by simp
qed simp_all

lemma gap_sorted_sorted: "gap_sorted rs \<Longrightarrow> sorted rs"
proof -
  assume g: "gap_sorted rs"
  have "a \<le> b" if "a \<in> set rs" "snd a + 1 < fst b" for a b :: range
    using g that by (auto simp: gap_sorted_def less_eq_prod_def)
  moreover have "sorted_wrt (\<lambda>a b. snd a + 1 < fst b) rs" using g by (simp add: gap_sorted_def)
  ultimately show "sorted rs" by (rule sorted_wrt_mono_rel)
qed

lemma merge_ranges_canonical:
  assumes "gap_sorted rs" "list_all code_range rs"
  shows "merge_ranges rs = StatusExpectation rs"
proof -
  have "sort rs = rs" using gap_sorted_sorted[OF assms(1)] by (simp add: sorted_sort_id)
  moreover have "\<forall>r\<in>set rs. snd r \<le> 65534"
    using assms(2) by (auto simp: list_all_iff code_range_def valid_code_def)
  ultimately show ?thesis using merge_into_canonical[of "[]" rs] assms(1) by (simp add: merge_ranges_def)
qed

section \<open>Parsing\<close>

lemma parse_item_Inr: "parse_item raw item = Inr r \<Longrightarrow> code_range r"
  by (auto simp: parse_item_def code_range_def Let_def split: if_splits prod.splits sum.splits)

lemma parse_items_Inr:
  "parse_items raw acc items = Inr rs \<Longrightarrow> list_all code_range acc \<Longrightarrow> list_all code_range rs"
  by (induction items arbitrary: acc) (auto simp: result_simps dest: parse_item_Inr split: if_splits)

definition wf_expectation :: "status_expectation \<Rightarrow> bool" where
  "wf_expectation e \<longleftrightarrow> ranges e \<noteq> [] \<and> gap_sorted (ranges e) \<and> list_all code_range (ranges e)"

lemma range_set_empty: "list_all code_range rs \<Longrightarrow> range_set rs = {} \<longleftrightarrow> rs = []"
  by (cases rs) (auto simp: range_set_def code_range_def)

lemma range_set_codes:
  assumes "list_all code_range rs" "gap_sorted qs" "range_set qs = range_set rs"
  shows "list_all code_range qs"
  unfolding list_all_iff
proof
  fix q assume q: "q \<in> set qs"
  then have le: "fst q \<le> snd q" using assms(2) by (auto simp: gap_sorted_def)
  then have "{fst q, snd q} \<subseteq> range_set qs" using q by (auto simp: range_set_def)
  then have "{fst q, snd q} \<subseteq> range_set rs" using assms(3) by simp
  then have "valid_code (fst q) \<and> valid_code (snd q)"
    using assms(1) by (fastforce simp: range_set_def list_all_iff code_range_def valid_code_def)
  then show "code_range q" using le by (simp add: code_range_def)
qed

lemma status_parse_Inr:
  assumes "status_parse s = Inr e"
  obtains rs where "parse_items s [] (split_on (CHR '','') s) = Inr rs" "rs \<noteq> []" "e = merge_ranges rs"
    "list_all code_range rs"
  using assms parse_items_Inr[of s "[]"] by (auto simp: status_parse_def result_simps split: if_splits)

lemma status_parse_wf: "status_parse s = Inr e \<Longrightarrow> wf_expectation e"
proof -
  assume "status_parse s = Inr e"
  then obtain rs where rs: "rs \<noteq> []" "e = merge_ranges rs" "list_all code_range rs"
    by (rule status_parse_Inr)
  note m = merge_ranges_spec[OF rs(3)]
  moreover have "list_all code_range (ranges e)" using m range_set_codes rs by blast
  moreover have "ranges e \<noteq> []" using m rs(1,2) range_set_empty[OF rs(3)] by (metis UN_empty empty_set range_set_def)
  ultimately show ?thesis using rs(2) by (simp add: wf_expectation_def)
qed

lemma render_range_graph:
  "list_all is_graph (render_range r)" "CHR '','' \<notin> set (render_range r)" "render_range r \<noteq> []"
proof -
  have "is_graph (CHR ''-'')" by (simp add: is_graph_def)
  then show "list_all is_graph (render_range r)" by (simp add: render_range_def)
  show "CHR '','' \<notin> set (render_range r)"
    using digit_graph by (auto simp: render_range_def dest!: show_nat_chars)
qed (simp add: render_range_def)

lemma parse_code_show: "n \<le> 65535 \<Longrightarrow> parse_code (show_nat n) = Inr n"
  by (simp add: parse_code_def)

lemma parse_item_render:
  assumes "code_range r"
  shows "parse_item raw (render_range r) = Inr r"
proof -
  obtain lo hi where r: "r = (lo, hi)" by (cases r)
  have no_dash: "CHR ''-'' \<notin> set (show_nat n)" for n using digit_graph by (auto dest!: show_nat_chars)
  have b: "lo \<le> 65535" "hi \<le> 65535" "valid_code lo" "valid_code hi" "lo \<le> hi"
    using assms by (simp_all add: r code_range_def valid_code_def)
  show ?thesis
  proof (cases "lo = hi")
    case True
    have "split_once (CHR ''-'') (show_nat lo) = None" using no_dash by (simp add: split_once_None)
    then show ?thesis using True b by (simp add: r render_range_def parse_item_def parse_code_show)
  next
    case False
    have "split_once (CHR ''-'') (show_nat lo @ CHR ''-'' # show_nat hi) = Some (show_nat lo, show_nat hi)"
      using no_dash by (rule split_once_append)
    then show ?thesis using False b by (simp add: r render_range_def parse_item_def parse_code_show)
  qed
qed

lemma parse_items_render:
  "list_all code_range rs \<Longrightarrow> parse_items raw acc (map render_range rs) = Inr (acc @ rs)"
  by (induction rs arbitrary: acc) (simp_all add: render_range_graph parse_item_render)

text \<open>Every parsed expectation is canonical (non-empty, sorted, disjoint, non-adjacent ranges of
  codes 100 to 599), and accepts exactly the codes that one of the ranges written in the input
  covers.\<close>

theorem status_parse_accepts:
  assumes "status_parse s = Inr e"
  shows "wf_expectation e \<and> (\<exists>rs. parse_items s [] (split_on (CHR '','') s) = Inr rs \<and>
    (\<forall>c. status_accepts e c \<longleftrightarrow> list_ex (\<lambda>r. fst r \<le> c \<and> c \<le> snd r) rs))"
proof -
  obtain rs where rs: "parse_items s [] (split_on (CHR '','') s) = Inr rs" "e = merge_ranges rs"
    "list_all code_range rs" using status_parse_Inr[OF assms] by metis
  have "status_accepts e c \<longleftrightarrow> list_ex (\<lambda>r. fst r \<le> c \<and> c \<le> snd r) rs" for c
    unfolding status_accepts_iff using merge_ranges_spec[OF rs(3)] rs(2)
    by (auto simp: range_set_def list_ex_iff)
  then show ?thesis using rs(1) status_parse_wf[OF assms] by blast
qed

definition sample_status :: string where
  "sample_status = ''503, 200 - 299,300-399''"

theorem status_parse_accepts_witness:
  "\<exists>e. status_parse sample_status = Inr e \<and> wf_expectation e \<and> status_accepts e 350"
proof -
  have p: "status_parse sample_status = Inr (StatusExpectation [(200, 399), (503, 503)])" by code_simp
  show ?thesis using status_parse_accepts[OF p] p by (auto simp: status_accepts_def)
qed

text \<open>Printing and parsing are inverse: the canonical string of any canonical expectation
  parses back to it, so re-serialising a configuration never drifts.\<close>

theorem status_roundtrip:
  assumes "wf_expectation e"
  shows "status_parse (status_canonical e) = Inr e"
proof -
  have "split_on (CHR '','') (status_canonical e) = map render_range (ranges e)"
    unfolding status_canonical_def
  proof (rule split_on_join)
    show "map render_range (ranges e) \<noteq> []" using assms by (simp add: wf_expectation_def)
    show "\<forall>p\<in>set (map render_range (ranges e)). CHR '','' \<notin> set p" using render_range_graph(2) by simp
  qed
  then have "parse_items (status_canonical e) [] (split_on (CHR '','') (status_canonical e)) = Inr (ranges e)"
    using assms parse_items_render[of "ranges e" "status_canonical e" "[]"] by (simp add: wf_expectation_def)
  moreover have "ranges e \<noteq> []" "merge_ranges (ranges e) = e"
    using assms merge_ranges_canonical[of "ranges e"] by (simp_all add: wf_expectation_def)
  ultimately show ?thesis unfolding status_parse_def by simp
qed

theorem status_roundtrip_witness:
  "status_parse (status_canonical (StatusExpectation [(200, 299), (503, 503)]))
     = Inr (StatusExpectation [(200, 299), (503, 503)])"
proof -
  have "wf_expectation (StatusExpectation [(200, 299), (503, 503)])" by code_simp
  then show ?thesis by (rule status_roundtrip)
qed

lemma default_expectation_parse: "status_parse ''200-399'' = Inr default_expectation"
  by code_simp

end
