(* ===== verification/Config.thy ===== *)
theory Config
  imports Json Needs StatusExpect "HOL-Library.AList"
begin

text \<open>
  \<open>config.rs\<close> and \<open>repo_config.rs\<close>: the daemon and app configuration, the repo-side
  configuration, and the checks and rewrites applied when they are loaded.  TOML parsing and the
  file system are outside the model: the loader takes the parse result of each file.  A hash map
  is an association list, a \<open>Duration\<close> a number of nanoseconds, a \<open>u16\<close> port a \<open>nat\<close>.  The floating
  point \<open>s\<close> suffix of the duration grammar is a parameter (\<open>f64\<close> parsing).  \<open>to_lowercase\<close> is
  modelled on ASCII letters (host names).
\<close>

section \<open>TLS strategies and hosts\<close>

datatype tls_strategy = TlsInternal | TlsAcme | TlsCloudflareDns01 | TlsTailscale

fun tls_str :: "tls_strategy \<Rightarrow> string" where
  "tls_str TlsInternal = ''internal''"
| "tls_str TlsAcme = ''acme''"
| "tls_str TlsCloudflareDns01 = ''cloudflare-dns01''"
| "tls_str TlsTailscale = ''tailscale''"

definition tls_parse :: "string \<Rightarrow> string + tls_strategy" where
  "tls_parse s =
     (if s = ''internal'' then Inr TlsInternal
      else if s = ''acme'' then Inr TlsAcme
      else if s = ''cloudflare-dns01'' then Inr TlsCloudflareDns01
      else if s = ''tailscale'' then Inr TlsTailscale
      else Inl s)"

definition non_public_tlds :: "string list" where
  "non_public_tlds = [''.test'', ''.example'', ''.invalid'', ''.localhost'', ''.internal'', ''.local'',
     ''.lan'', ''.home'', ''.home.arpa'', ''.corp'']"

definition is_ts_net_host :: "string \<Rightarrow> bool" where
  "is_ts_net_host host =
     (let h = (case strip_prefix ''*.'' host of Some r \<Rightarrow> r | None \<Rightarrow> host)
      in ends_with ''.ts.net'' h \<or> h = ''ts.net'')"

lemma tls_roundtrip: "tls_parse (tls_str t) = Inr t"
  by (cases t) (simp_all add: tls_parse_def)

section \<open>Durations\<close>

type_synonym duration = nat

definition secs :: "nat \<Rightarrow> duration" where "secs n = n * 1000000000"
definition millis :: "nat \<Rightarrow> duration" where "millis n = n * 1000000"

text \<open>The outcome of parsing and converting an \<open>f64\<close> number of seconds: not a number, a value
  that \<open>Duration::from_secs_f64\<close> panics on, or a duration.\<close>

datatype f64_secs = F64Invalid | F64Panics | F64Secs duration

datatype parse_outcome = DurOk duration | DurErr string | DurPanic

definition u64_max :: nat where "u64_max = 18446744073709551615"

text \<open>Unchecked \<open>u64\<close> multiplication of a release build.\<close>

definition mul_u64 :: "nat \<Rightarrow> nat \<Rightarrow> nat" where
  "mul_u64 a b = (a * b) mod 18446744073709551616"

definition parse_duration :: "(string \<Rightarrow> f64_secs) \<Rightarrow> string \<Rightarrow> parse_outcome" where
  "parse_duration f64 s0 =
     (let s = trim s0 in
      case strip_suffix ''ms'' s of
        Some rest \<Rightarrow> (case parse_uint u64_max (trim rest) of Some n \<Rightarrow> DurOk (millis n) | None \<Rightarrow> DurErr s)
      | None \<Rightarrow>
      (case strip_suffix ''s'' s of
        Some rest \<Rightarrow> (case f64 (trim rest) of F64Invalid \<Rightarrow> DurErr s | F64Panics \<Rightarrow> DurPanic | F64Secs d \<Rightarrow> DurOk d)
      | None \<Rightarrow>
      (case strip_suffix ''m'' s of
        Some rest \<Rightarrow> (case parse_uint u64_max (trim rest) of Some n \<Rightarrow> DurOk (secs (mul_u64 n 60)) | None \<Rightarrow> DurErr s)
      | None \<Rightarrow>
      (case strip_suffix ''h'' s of
        Some rest \<Rightarrow> (case parse_uint u64_max (trim rest) of Some n \<Rightarrow> DurOk (secs (mul_u64 n 3600)) | None \<Rightarrow> DurErr s)
      | None \<Rightarrow> DurErr s))))"

definition format_duration :: "duration \<Rightarrow> string" where
  "format_duration d =
     (if d mod 1000000000 = 0 then show_nat (d div 1000000000) @ ''s''
      else show_nat (d div 1000000) @ ''ms'')"

section \<open>Server configuration\<close>

record server_preview_config =
  sp_domain :: string
  sp_max_per_app :: "nat option"
  sp_default_ttl :: "string option"
  sp_max_memory :: "string option"
  sp_max_cpus :: "string option"

record server_deploy_config =
  sd_timeout :: duration
  sd_preview_timeout :: duration
  sd_domain :: "string option"
  sd_tls :: tls_strategy

definition default_server_deploy :: server_deploy_config where
  "default_server_deploy = \<lparr>sd_timeout = secs 600, sd_preview_timeout = secs 600, sd_domain = None, sd_tls = TlsAcme\<rparr>"

text \<open>A value of the DNS provider table: a string, or another TOML value as its JSON rendering.\<close>

datatype toml_value = TomlString string | TomlOther json

record caddy_tls_config =
  ct_email :: string
  ct_dns_provider :: string
  ct_dns_provider_config :: "(string \<times> toml_value) list option"
  ct_propagation_delay :: string
  ct_staging :: bool

record caddy_config =
  cc_admin_api :: string
  cc_acme_email :: "string option"
  cc_acme_ca :: "string option"
  cc_tls :: "caddy_tls_config option"
  cc_reconcile_interval :: duration

record registry_entry =
  rg_url :: string
  rg_username :: "string option"
  rg_token :: "string option"

record slip_config =
  sc_caddy :: caddy_config
  sc_auth_secret :: string
  sc_registries :: "(string \<times> registry_entry) list"
  sc_preview :: "server_preview_config option"
  sc_deploy :: "server_deploy_config option"

section \<open>App configuration\<close>

record app_info =
  ai_name :: string
  ai_image :: string
  ai_secret :: "string option"

record route_entry =
  re_hostname :: string
  re_port :: "nat option"
  re_tls :: "tls_strategy option"

record routing_config =
  rt_domain :: "string option"
  rt_port :: "nat option"
  rt_routes :: "route_entry list"
  rt_tls :: "tls_strategy option"

record health_config =
  hc_path :: "string option"
  hc_interval :: duration
  hc_timeout :: duration
  hc_retries :: nat
  hc_start_period :: duration
  hc_expect_status :: "status_expectation option"

record deploy_config =
  dc_strategy :: string
  dc_drain_timeout :: duration
  dc_timeout :: "duration option"

record resource_config =
  rs_memory :: "string option"
  rs_cpus :: "string option"

record app_preview_config =
  ap_domain :: "string option"
  ap_max :: "nat option"

record volume_config =
  vc_host_path :: string
  vc_mount_path :: string
  vc_read_only :: bool

type_synonym env_table = "(string \<times> string) list"

record app_config =
  ac_app :: app_info
  ac_routing :: routing_config
  ac_health :: health_config
  ac_deploy :: deploy_config
  ac_env :: env_table
  ac_env_file :: "string option"
  ac_resources :: resource_config
  ac_network :: string
  ac_preview :: "app_preview_config option"
  ac_volumes :: "volume_config list"
  ac_needs :: "(string \<times> need) list"

definition default_health :: health_config where
  "default_health = \<lparr>hc_path = None, hc_interval = secs 2, hc_timeout = secs 5, hc_retries = 5,
     hc_start_period = secs 10, hc_expect_status = None\<rparr>"

definition default_deploy :: deploy_config where
  "default_deploy = \<lparr>dc_strategy = ''blue-green'', dc_drain_timeout = secs 30, dc_timeout = None\<rparr>"

definition default_routing :: routing_config where
  "default_routing = \<lparr>rt_domain = None, rt_port = None, rt_routes = [], rt_tls = None\<rparr>"

definition effective_routes :: "routing_config \<Rightarrow> route_entry list" where
  "effective_routes r =
     (if rt_routes r \<noteq> [] then rt_routes r
      else (case rt_domain r of
              Some domain \<Rightarrow> [\<lparr>re_hostname = domain, re_port = rt_port r, re_tls = rt_tls r\<rparr>]
            | None \<Rightarrow> []))"

datatype config_error =
    CfgReadFile string | CfgParse string | CfgWriteFile string | CfgDeleteFile string
  | CfgMissingEnvVar string string
  | CfgNameMismatch string string
  | CfgInvalidStrategy string
  | CfgVolumeMissingHostPath string
  | CfgMergeNoHostnames nat
  | CfgMergeCount nat nat
  | CfgRegistryPath string | CfgRegistryEmpty string
  | CfgAcmeTsNet tls_strategy string | CfgAcmeNoEmail tls_strategy | CfgTailscaleHost string
  | CfgReconcileInterval duration
  | CfgLiteralSecret string
  | CfgEnvExport nat | CfgEnvNoEquals nat | CfgEnvEmptyKey nat
  | CfgNeeds string need_error
  | CfgIndexParse

section \<open>Registry URLs\<close>

definition drop_trailing :: "char \<Rightarrow> string \<Rightarrow> string" where
  "drop_trailing c s = rev (dropWhile (\<lambda>d. d = c) (rev s))"

definition normalize_registry_url :: "string \<Rightarrow> config_error + string" where
  "normalize_registry_url url =
     (let stripped = (case strip_prefix ''http://'' url of
                        Some r \<Rightarrow> r
                      | None \<Rightarrow> (case strip_prefix ''https://'' url of Some r \<Rightarrow> r | None \<Rightarrow> url));
          trimmed = drop_trailing (CHR ''/'') stripped
      in if List.member trimmed (CHR ''/'') then Inl (CfgRegistryPath url)
         else if trimmed = [] then Inl (CfgRegistryEmpty url)
         else Inr (ascii_lowercase trimmed))"

lemma to_lower_slash: "to_lower c = CHR ''/'' \<longleftrightarrow> c = CHR ''/''"
proof
  assume a: "to_lower c = CHR ''/''"
  show "c = CHR ''/''"
  proof (cases "is_upper c")
    case True
    then have b: "65 \<le> (of_char c :: nat)" "of_char c \<le> (90 :: nat)"
      by (simp_all add: is_upper_def less_eq_char_def)
    have "(of_char (to_lower c) :: nat) = of_char c + 32" using True b by (simp add: to_lower_def)
    moreover have "(of_char (to_lower c) :: nat) = 47" using a by simp
    ultimately show ?thesis using b by linarith
  qed (use a in \<open>simp add: to_lower_def\<close>)
qed (simp add: to_lower_def is_upper_def)

lemma to_lower_idem: "to_lower (to_lower c) = to_lower c"
proof (cases "is_upper c")
  case True
  then have b: "65 \<le> (of_char c :: nat)" "of_char c \<le> (90 :: nat)"
    by (simp_all add: is_upper_def less_eq_char_def)
  then have "(of_char (to_lower c) :: nat) = of_char c + 32" using True by (simp add: to_lower_def)
  then have "\<not> is_upper (to_lower c)" using b by (simp add: is_upper_def less_eq_char_def)
  then show ?thesis by (simp add: to_lower_def[of "to_lower c"])
qed (simp add: to_lower_def)

lemma ascii_lowercase_idem [simp]: "ascii_lowercase (ascii_lowercase s) = ascii_lowercase s"
  by (simp add: ascii_lowercase_def to_lower_idem)

lemma drop_trailing_no_trailing: "\<not> suffix [c] s \<Longrightarrow> drop_trailing c s = s"
  by (cases s rule: rev_cases) (auto simp: drop_trailing_def)

lemma normalize_facts:
  assumes "normalize_registry_url url = Inr u"
  shows "CHR ''/'' \<notin> set u \<and> u \<noteq> [] \<and> ascii_lowercase u = u \<and> normalize_registry_url u = Inr u"
proof -
  from assms obtain t where t: "CHR ''/'' \<notin> set t" "t \<noteq> []" "u = ascii_lowercase t"
    by (auto simp: normalize_registry_url_def Let_def split: if_splits option.splits)
  have "CHR ''/'' \<notin> to_lower ` set t" using t(1) by (metis imageE to_lower_slash)
  then have ns: "CHR ''/'' \<notin> set u" "u \<noteq> []" using t(2,3) by (simp_all add: ascii_lowercase_def)
  then have "strip_prefix ''http://'' u = None" "strip_prefix ''https://'' u = None"
    by (auto simp: strip_prefix_None_iff prefix_def)
  moreover have "drop_trailing (CHR ''/'') u = u"
    using ns by (intro drop_trailing_no_trailing) (auto simp: suffix_def)
  ultimately show ?thesis using ns t(3)
    by (simp add: normalize_registry_url_def)
qed

lemma normalize_idem: "normalize_registry_url url = Inr u \<Longrightarrow> normalize_registry_url u = Inr u"
  using normalize_facts by blast

text \<open>Registry URL normalisation yields a host without any slash and in lower case, and is
  idempotent: a URL, its scheme and trailing-slash variants that normalise at all keep their
  normal form when normalised again (on write to the store, on load, on lookup).\<close>

theorem normalize_registry_url_idem:
  assumes "normalize_registry_url url = Inr u"
  shows "CHR ''/'' \<notin> set u \<and> u \<noteq> [] \<and> ascii_lowercase u = u \<and> normalize_registry_url u = Inr u"
  using assms by (rule normalize_facts)

theorem normalize_registry_url_idem_witness:
  "normalize_registry_url ''ghcr.io'' = Inr ''ghcr.io''"
proof -
  have "normalize_registry_url ''https://GHCR.io/'' = Inr ''ghcr.io''" by code_simp
  from normalize_registry_url_idem[OF this] show ?thesis by simp
qed

section \<open>Environment placeholders\<close>

text \<open>A match of the pattern dollar, open brace, one or more characters other than a closing
  brace, closing brace, at the start of the string; the result is the captured name.\<close>

definition placeholder_at :: "string \<Rightarrow> string option" where
  "placeholder_at s =
     (case strip_prefix ''${'' s of
        Some r \<Rightarrow> (let name = takeWhile (\<lambda>c. c \<noteq> CHR ''}'') r in
                   if name \<noteq> [] \<and> length name < length r then Some name else None)
      | None \<Rightarrow> None)"

function captures :: "string \<Rightarrow> string list" where
  "captures s =
     (case s of
        [] \<Rightarrow> []
      | c # cs \<Rightarrow> (case placeholder_at s of
                    Some name \<Rightarrow> name # captures (drop (length name + 3) s)
                  | None \<Rightarrow> captures cs))"
  by pat_completeness auto
termination by (relation "measure length") auto

declare captures.simps [simp del]

definition placeholder :: "string \<Rightarrow> string" where
  "placeholder name = ''${'' @ name @ ''}''"

text \<open>\<open>str::replace\<close> for a non-empty pattern.\<close>

function replace_all :: "string \<Rightarrow> string \<Rightarrow> string \<Rightarrow> string" where
  "replace_all pat rep s =
     (case s of
        [] \<Rightarrow> []
      | c # cs \<Rightarrow> (if pat \<noteq> [] \<and> prefix pat s then rep @ replace_all pat rep (drop (length pat) s)
                   else c # replace_all pat rep cs))"
  by pat_completeness auto
termination by (relation "measure (\<lambda>(p, r, s). length s)") (auto simp: prefix_def)

declare replace_all.simps [simp del]

type_synonym process_env = "string \<rightharpoonup> string"

fun resolve_each :: "process_env \<Rightarrow> string \<Rightarrow> string list \<Rightarrow> string \<Rightarrow> config_error + string" where
  "resolve_each env input [] result = Inr result"
| "resolve_each env input (name # names) result =
     (if name = [] then Inl (CfgMissingEnvVar [] input)
      else (case env name of
              None \<Rightarrow> Inl (CfgMissingEnvVar name input)
            | Some v \<Rightarrow> resolve_each env input names (replace_all (placeholder name) v result)))"

definition resolve_env_vars :: "process_env \<Rightarrow> string \<Rightarrow> config_error + string" where
  "resolve_env_vars env input = resolve_each env input (captures input) input"

fun resolve_each_warn :: "process_env \<Rightarrow> string list \<Rightarrow> string \<Rightarrow> string list \<Rightarrow> string \<times> string list" where
  "resolve_each_warn env [] result unresolved = (result, unresolved)"
| "resolve_each_warn env (name # names) result unresolved =
     (if name = [] then resolve_each_warn env names result (unresolved @ [[]])
      else (case env name of
              Some v \<Rightarrow> resolve_each_warn env names (replace_all (placeholder name) v result) unresolved
            | None \<Rightarrow> resolve_each_warn env names result (unresolved @ [name])))"

definition resolve_env_vars_warn :: "process_env \<Rightarrow> string \<Rightarrow> string \<times> string list" where
  "resolve_env_vars_warn env input = resolve_each_warn env (captures input) input []"

lemma resolve_each_warn_unresolved:
  "snd (resolve_each_warn env names result un) =
     un @ filter (\<lambda>n. n = [] \<or> env n = None) names"
  by (induction names arbitrary: result un) (auto split: option.splits)

lemma resolve_each_agree:
  "resolve_each env input names result = Inr r \<longleftrightarrow>
     resolve_each_warn env names result [] = (r, [])"
proof (induction names arbitrary: result)
  case (Cons n names)
  have "snd (resolve_each_warn env names result [n]) \<noteq> []" for n result
    by (simp add: resolve_each_warn_unresolved)
  then have "resolve_each_warn env names result [n] \<noteq> (r, [])" for n result
    by (metis snd_conv)
  then show ?case using Cons by (auto split: option.splits)
qed auto

text \<open>Strict and warn-mode resolution agree: strict resolution succeeds with \<open>r\<close> exactly when
  warn-mode resolution yields \<open>r\<close> with nothing unresolved, and otherwise its error names the first
  variable that warn mode reports; warn mode reports exactly the referenced names that are unset.\<close>

theorem resolve_strict_warn:
  "snd (resolve_env_vars_warn env input) = filter (\<lambda>n. n = [] \<or> env n = None) (captures input) \<and>
   (case resolve_env_vars env input of
      Inr r \<Rightarrow> resolve_env_vars_warn env input = (r, [])
    | Inl e \<Rightarrow> \<exists>n ns. snd (resolve_env_vars_warn env input) = n # ns \<and> e = CfgMissingEnvVar n input)"
proof (rule conjI)
  show un: "snd (resolve_env_vars_warn env input) = filter (\<lambda>n. n = [] \<or> env n = None) (captures input)"
    by (simp add: resolve_env_vars_warn_def resolve_each_warn_unresolved)
  have first: "resolve_each env input names res = Inl e \<Longrightarrow>
      \<exists>n ns. filter (\<lambda>n. n = [] \<or> env n = None) names = n # ns \<and> e = CfgMissingEnvVar n input" for names res e
    by (induction names arbitrary: res) (auto split: if_splits option.splits)
  show "case resolve_env_vars env input of
      Inr r \<Rightarrow> resolve_env_vars_warn env input = (r, [])
    | Inl e \<Rightarrow> \<exists>n ns. snd (resolve_env_vars_warn env input) = n # ns \<and> e = CfgMissingEnvVar n input"
  proof (cases "resolve_env_vars env input")
    case (Inl e)
    then show ?thesis using first[of "captures input" input e] unfolding un by (simp add: resolve_env_vars_def)
  next
    case (Inr r)
    then have "resolve_each_warn env (captures input) input [] = (r, [])"
      by (simp add: resolve_env_vars_def resolve_each_agree)
    then show ?thesis unfolding Inr by (simp add: resolve_env_vars_warn_def)
  qed
qed

end
