(* ===== verification/Merge.thy ===== *)
theory Merge
  imports Config
begin

text \<open>
  \<open>merge.rs\<close> and the repo-side configuration of \<open>repo_config.rs\<close>: combining what the image
  declares (kind, health path, ports, mount points) with what the server configures (host names,
  host paths, resource overrides, needs).
\<close>

section \<open>Repo configuration\<close>

record repo_volume =
  rv_mount_path :: string
  rv_read_only :: bool

record repo_app_info =
  ra_name :: string
  ra_kind :: string
  ra_manifest :: "string option"
  ra_image :: "string option"

record repo_health_config =
  rh_path :: "string option"
  rh_container :: "string option"
  rh_interval :: "duration option"
  rh_timeout :: "duration option"
  rh_retries :: "nat option"
  rh_start_period :: "duration option"
  rh_expect_status :: "status_expectation option"

record repo_route_entry =
  rr_port :: "nat option"
  rr_container :: "string option"
  rr_kind :: string

record repo_routing_config =
  rrc_port :: "nat option"
  rrc_container :: "string option"
  rrc_kind :: string
  rrc_routes :: "repo_route_entry list"
  rrc_domain :: "string option"

record preview_database_config =
  pd_strategy :: string
  pd_provider :: "string option"
  pd_project_id :: "string option"
  pd_branch_from :: "string option"

record preview_hooks =
  ph_migrate :: "string option"
  ph_seed :: "string option"

record preview_config =
  pc_enabled :: bool
  pc_ttl :: "duration option"
  pc_max :: "nat option"
  pc_resources :: "resource_config option"
  pc_database :: "preview_database_config option"
  pc_hooks :: "preview_hooks option"

record repo_deploy_config =
  rd_strategy :: "string option"
  rd_drain_timeout :: "duration option"
  rd_timeout :: "duration option"

record repo_config =
  rc_app :: repo_app_info
  rc_health :: repo_health_config
  rc_routing :: repo_routing_config
  rc_default_resources :: "resource_config option"
  rc_preview :: "preview_config option"
  rc_volumes :: "repo_volume list"
  rc_env :: env_table
  rc_deploy :: "repo_deploy_config option"
  rc_needs :: "(string \<times> need) list"

definition repo_effective_routes :: "repo_routing_config \<Rightarrow> repo_route_entry list" where
  "repo_effective_routes r =
     (if rrc_routes r \<noteq> [] then rrc_routes r
      else if rrc_port r \<noteq> None
      then [\<lparr>rr_port = rrc_port r, rr_container = rrc_container r, rr_kind = rrc_kind r\<rparr>]
      else [])"

section \<open>The merge\<close>

record merged_route =
  mr_hostname :: string
  mr_port :: nat
  mr_container :: "string option"
  mr_kind :: string

record merged_volume =
  mv_host_path :: string
  mv_mount_path :: string
  mv_read_only :: bool

record merged_config =
  mc_app :: app_config
  mc_kind :: string
  mc_manifest :: "string option"
  mc_health_container :: "string option"
  mc_routing_container :: "string option"
  mc_routes :: "merged_route list"
  mc_preview :: "preview_config option"
  mc_volumes :: "merged_volume list"

definition merge_health :: "health_config \<Rightarrow> repo_health_config \<Rightarrow> health_config" where
  "merge_health h r =
     h\<lparr>hc_path := (if hc_path h = None then rh_path r else hc_path h),
       hc_expect_status := (if hc_expect_status h = None then rh_expect_status r else hc_expect_status h)\<rparr>"

definition merge_resources :: "resource_config \<Rightarrow> resource_config option \<Rightarrow> resource_config" where
  "merge_resources s d =
     (case d of
        None \<Rightarrow> s
      | Some defaults \<Rightarrow>
          s\<lparr>rs_memory := (if rs_memory s = None then rs_memory defaults else rs_memory s),
            rs_cpus := (if rs_cpus s = None then rs_cpus defaults else rs_cpus s)\<rparr>)"

text \<open>\<open>collect\<close> into a hash map keeps the last entry of a repeated key.\<close>

definition server_volume_map :: "volume_config list \<Rightarrow> string \<rightharpoonup> volume_config" where
  "server_volume_map vs = map_of (rev (map (\<lambda>v. (vc_mount_path v, v)) vs))"

definition merge_repo_volume ::
  "(string \<rightharpoonup> volume_config) \<Rightarrow> repo_volume \<Rightarrow> config_error + merged_volume" where
  "merge_repo_volume server rv =
     (case server (rv_mount_path rv) of
        Some sv \<Rightarrow> Inr \<lparr>mv_host_path = vc_host_path sv, mv_mount_path = rv_mount_path rv,
                       mv_read_only = (if vc_read_only sv then True else rv_read_only rv)\<rparr>
      | None \<Rightarrow> Inl (CfgVolumeMissingHostPath (rv_mount_path rv)))"

definition merge_volumes :: "volume_config list \<Rightarrow> repo_volume list \<Rightarrow> config_error + merged_volume list" where
  "merge_volumes server repo =
     and_then (map_result (merge_repo_volume (server_volume_map server)) repo) (\<lambda>ms.
       Inr (ms @ map (\<lambda>v. \<lparr>mv_host_path = vc_host_path v, mv_mount_path = vc_mount_path v,
                            mv_read_only = vc_read_only v\<rparr>)
                  (filter (\<lambda>v. \<not> List.member (map rv_mount_path repo) (vc_mount_path v)) server)))"

definition merge_routes :: "route_entry list \<Rightarrow> repo_route_entry list \<Rightarrow> config_error + merged_route list" where
  "merge_routes server repo =
     (if server = [] \<and> repo = [] then Inr []
      else if server \<noteq> [] \<and> repo = [] then
        Inr (map (\<lambda>sr. \<lparr>mr_hostname = re_hostname sr, mr_port = case_option 0 id (re_port sr),
                        mr_container = None, mr_kind = ''http''\<rparr>) server)
      else if server = [] \<and> repo \<noteq> [] then Inl (CfgMergeNoHostnames (length repo))
      else if length server \<noteq> length repo then Inl (CfgMergeCount (length server) (length repo))
      else Inr (map (\<lambda>(sr, rr).
             \<lparr>mr_hostname = re_hostname sr,
              mr_port = (case rr_port rr of Some p \<Rightarrow> p | None \<Rightarrow> case_option 0 id (re_port sr)),
              mr_container = rr_container rr, mr_kind = rr_kind rr\<rparr>) (zip server repo)))"

definition merge_config :: "app_config \<Rightarrow> repo_config \<Rightarrow> config_error + merged_config" where
  "merge_config server repo =
     (let merged = server\<lparr>ac_health := merge_health (ac_health server) (rc_health repo),
                          ac_resources := merge_resources (ac_resources server) (rc_default_resources repo)\<rparr>
      in and_then (merge_volumes (ac_volumes server) (rc_volumes repo)) (\<lambda>vols.
         and_then (merge_routes (effective_routes (ac_routing server)) (repo_effective_routes (rc_routing repo)))
           (\<lambda>routes.
             Inr \<lparr>mc_app = merged\<lparr>ac_needs := ac_needs server\<rparr>,
                  mc_kind = ra_kind (rc_app repo), mc_manifest = ra_manifest (rc_app repo),
                  mc_health_container = rh_container (rc_health repo),
                  mc_routing_container = rrc_container (rc_routing repo),
                  mc_routes = routes, mc_preview = rc_preview repo, mc_volumes = vols\<rparr>)))"

section \<open>Properties\<close>

lemma merge_volumes_mounts:
  assumes "merge_volumes server repo = Inr vs"
  shows "set (map mv_mount_path vs) = set (map vc_mount_path server)"
    and "v \<in> set vs \<Longrightarrow> \<exists>s\<in>set server. vc_mount_path s = mv_mount_path v \<and> vc_host_path s = mv_host_path v
           \<and> (\<not> vc_read_only s \<or> mv_read_only v)"
proof -
  obtain ms where ms: "map_result (merge_repo_volume (server_volume_map server)) repo = Inr ms"
    and vs: "vs = ms @ map (\<lambda>v. \<lparr>mv_host_path = vc_host_path v, mv_mount_path = vc_mount_path v,
                            mv_read_only = vc_read_only v\<rparr>)
                  (filter (\<lambda>v. \<not> List.member (map rv_mount_path repo) (vc_mount_path v)) server)"
    using assms by (auto simp: merge_volumes_def result_simps)
  have from_server: "\<exists>s\<in>set server. vc_mount_path s = p \<and> s = sv" if "server_volume_map server p = Some sv" for p sv
    using that map_of_SomeD by (fastforce simp: server_volume_map_def)
  have each: "\<exists>s\<in>set server. vc_mount_path s = mv_mount_path m \<and> vc_host_path s = mv_host_path m
           \<and> (\<not> vc_read_only s \<or> mv_read_only m)" if "m \<in> set ms" for m
    using map_result_mem[OF ms that] from_server
    by (fastforce simp: merge_repo_volume_def split: option.splits)
  have mounts: "map mv_mount_path ms = map rv_mount_path repo"
    using ms unfolding map_result_Inr_iff
    by (induction rule: list_all2_induct) (auto simp: merge_repo_volume_def split: option.splits)
  show "v \<in> set vs \<Longrightarrow> \<exists>s\<in>set server. vc_mount_path s = mv_mount_path v \<and> vc_host_path s = mv_host_path v
           \<and> (\<not> vc_read_only s \<or> mv_read_only v)"
    using each unfolding vs by auto
  have "set (map mv_mount_path ms) \<subseteq> set (map vc_mount_path server)" using each by force
  moreover have "set (map rv_mount_path repo) = set (map mv_mount_path ms)" using mounts by simp
  ultimately show "set (map mv_mount_path vs) = set (map vc_mount_path server)"
    unfolding vs by (auto simp: image_iff)
qed

lemma merge_routes_hostnames:
  "merge_routes server repo = Inr rs \<Longrightarrow> map mr_hostname rs = map re_hostname server"
proof -
  assume "merge_routes server repo = Inr rs"
  moreover have "map (\<lambda>p. re_hostname (fst p)) (zip server repo) = map re_hostname server"
    if "length server = length repo"
    using that by (induction server repo rule: list_induct2) auto
  ultimately show ?thesis
    by (auto simp: merge_routes_def case_prod_beta comp_def split: if_splits)
qed

text \<open>A merge that succeeds keeps the server authoritative: the identity, routing, deploy,
  environment, needs and explicitly set resources and health settings are the server's; the
  mounts are exactly the server's mount points, each backed by a host path the server configured
  for that very mount point and never less restricted than there; and the routes are the
  server's host names in order.\<close>

theorem merge_config_server_wins:
  assumes "merge_config server repo = Inr m"
  shows "ac_app (mc_app m) = ac_app server \<and> ac_routing (mc_app m) = ac_routing server
    \<and> ac_deploy (mc_app m) = ac_deploy server \<and> ac_env (mc_app m) = ac_env server
    \<and> ac_needs (mc_app m) = ac_needs server
    \<and> rs_memory (ac_resources (mc_app m)) \<in> {rs_memory (ac_resources server)} \<union>
        (if rs_memory (ac_resources server) = None then {None, Option.bind (rc_default_resources repo) rs_memory} else {})
    \<and> hc_path (ac_health (mc_app m)) =
        (case hc_path (ac_health server) of Some p \<Rightarrow> Some p | None \<Rightarrow> rh_path (rc_health repo))
    \<and> set (map mv_mount_path (mc_volumes m)) = set (map vc_mount_path (ac_volumes server))
    \<and> list_all (\<lambda>v. list_ex (\<lambda>s. vc_mount_path s = mv_mount_path v \<and> vc_host_path s = mv_host_path v
        \<and> (\<not> vc_read_only s \<or> mv_read_only v)) (ac_volumes server)) (mc_volumes m)
    \<and> map mr_hostname (mc_routes m) = map re_hostname (effective_routes (ac_routing server))"
proof -
  obtain vols routes where v: "merge_volumes (ac_volumes server) (rc_volumes repo) = Inr vols"
    and r: "merge_routes (effective_routes (ac_routing server)) (repo_effective_routes (rc_routing repo)) = Inr routes"
    and m: "m = \<lparr>mc_app = server\<lparr>ac_health := merge_health (ac_health server) (rc_health repo),
                  ac_resources := merge_resources (ac_resources server) (rc_default_resources repo),
                  ac_needs := ac_needs server\<rparr>,
                  mc_kind = ra_kind (rc_app repo), mc_manifest = ra_manifest (rc_app repo),
                  mc_health_container = rh_container (rc_health repo),
                  mc_routing_container = rrc_container (rc_routing repo),
                  mc_routes = routes, mc_preview = rc_preview repo, mc_volumes = vols\<rparr>"
    using assms unfolding merge_config_def Let_def and_then_Inr_iff by blast
  have "rs_memory (merge_resources (ac_resources server) (rc_default_resources repo)) \<in> {rs_memory (ac_resources server)} \<union>
        (if rs_memory (ac_resources server) = None then {None, Option.bind (rc_default_resources repo) rs_memory} else {})"
    by (simp add: merge_resources_def split: option.split)
  moreover have "hc_path (merge_health (ac_health server) (rc_health repo)) =
        (case hc_path (ac_health server) of Some p \<Rightarrow> Some p | None \<Rightarrow> rh_path (rc_health repo))"
    by (simp add: merge_health_def split: option.split)
  ultimately show ?thesis
    using merge_volumes_mounts[OF v] merge_routes_hostnames[OF r]
    unfolding m list_all_iff list_ex_iff by simp
qed

definition sample_server_app :: app_config where
  "sample_server_app =
     \<lparr>ac_app = \<lparr>ai_name = ''web'', ai_image = ''ghcr.io/me/web'', ai_secret = None\<rparr>,
      ac_routing = \<lparr>rt_domain = Some ''web.example.org'', rt_port = Some 80, rt_routes = [], rt_tls = None\<rparr>,
      ac_health = default_health, ac_deploy = default_deploy, ac_env = [], ac_env_file = None,
      ac_resources = \<lparr>rs_memory = None, rs_cpus = None\<rparr>, ac_network = ''slip'', ac_preview = None,
      ac_volumes = [\<lparr>vc_host_path = ''/srv/web'', vc_mount_path = ''/data'', vc_read_only = False\<rparr>],
      ac_needs = []\<rparr>"

definition sample_repo :: repo_config where
  "sample_repo =
     \<lparr>rc_app = \<lparr>ra_name = ''web'', ra_kind = ''container'', ra_manifest = None, ra_image = None\<rparr>,
      rc_health = \<lparr>rh_path = Some ''/healthz'', rh_container = None, rh_interval = None, rh_timeout = None,
        rh_retries = None, rh_start_period = None, rh_expect_status = None\<rparr>,
      rc_routing = \<lparr>rrc_port = Some 8080, rrc_container = None, rrc_kind = ''http'', rrc_routes = [], rrc_domain = None\<rparr>,
      rc_default_resources = Some \<lparr>rs_memory = Some ''512m'', rs_cpus = None\<rparr>,
      rc_preview = None, rc_volumes = [\<lparr>rv_mount_path = ''/data'', rv_read_only = True\<rparr>],
      rc_env = [], rc_deploy = None, rc_needs = []\<rparr>"

theorem merge_config_server_wins_witness:
  "\<exists>m. merge_config sample_server_app sample_repo = Inr m \<and>
     map mr_hostname (mc_routes m) = [''web.example.org''] \<and> ac_needs (mc_app m) = []"
proof -
  have "is_ok (merge_config sample_server_app sample_repo)" by code_simp
  then obtain m where m: "merge_config sample_server_app sample_repo = Inr m" by (auto simp: is_ok_iff)
  have "ac_needs sample_server_app = []" "map re_hostname (effective_routes (ac_routing sample_server_app)) = [''web.example.org'']"
    by code_simp+
  then show ?thesis using merge_config_server_wins[OF m] m by metis
qed

end
