(* ===== verification/Validate.thy ===== *)
theory Validate
  imports Merge
begin

text \<open>
  \<open>validate.rs\<close>: the accumulating validation of a repo configuration, of volumes before and after
  the merge, of pod manifests and of image references.  YAML and TOML parsing are outside the
  model: a manifest is the parsed \<open>yaml\<close> value, a TOML file its parse result.
\<close>

section \<open>Results\<close>

datatype app_name_problem = NameEmpty | NameStart string | NameEnd string | NameChar string | NameLength string

datatype volume_problem =
    MountNotAbsolute string | MountDuplicate string
  | HostNotAbsolute string | HostRoot string | HostBlocked string string | MergedDuplicate string

datatype validation_error =
    VTomlParse nat nat
  | VManifestNotFound string
  | VManifestParse
  | VManifestMissingField string
  | VManifestInvalidKind string string
  | VContainerNotFound string string
  | VMissingManifest
  | VInvalidAppName app_name_problem
  | VPreviewInconsistent
  | VInvalidImageRef string string
  | VVolume volume_problem
  | VInvalidKind string
  | VNeeds need_error

datatype validation_warning =
    WManifestIgnoredContainer | WManifestIgnoredWorker | WPortIgnoredWorker | WRootHealthPath
  | WRoutesAndFlat | WRouteEmpty nat | WPreviewNoPort | WLatestTag string | WNoTag string

record validation_result =
  vr_errors :: "validation_error list"
  vr_warnings :: "validation_warning list"

definition vr_new :: validation_result where
  "vr_new = \<lparr>vr_errors = [], vr_warnings = []\<rparr>"

definition add_error :: "validation_error \<Rightarrow> validation_result \<Rightarrow> validation_result" where
  "add_error e r = r\<lparr>vr_errors := vr_errors r @ [e]\<rparr>"

definition add_warning :: "validation_warning \<Rightarrow> validation_result \<Rightarrow> validation_result" where
  "add_warning w r = r\<lparr>vr_warnings := vr_warnings r @ [w]\<rparr>"

definition is_valid :: "validation_result \<Rightarrow> bool" where
  "is_valid r \<longleftrightarrow> vr_errors r = []"

definition vr_merge :: "validation_result \<Rightarrow> validation_result \<Rightarrow> validation_result" where
  "vr_merge r other = \<lparr>vr_errors = vr_errors r @ vr_errors other, vr_warnings = vr_warnings r @ vr_warnings other\<rparr>"

lemmas vr_defs = vr_new_def add_error_def add_warning_def is_valid_def vr_merge_def

section \<open>Repo configuration\<close>

definition validate_app_name :: "string \<Rightarrow> validation_result \<Rightarrow> validation_result" where
  "validate_app_name name r =
     (if name = [] then add_error (VInvalidAppName NameEmpty) r
      else if \<not> is_lower (hd name) \<and> \<not> is_digit (hd name) then add_error (VInvalidAppName (NameStart name)) r
      else if \<not> is_lower (last name) \<and> \<not> is_digit (last name) then add_error (VInvalidAppName (NameEnd name)) r
      else if \<not> list_all name_char name then add_error (VInvalidAppName (NameChar name)) r
      else if length name > 63 then add_error (VInvalidAppName (NameLength name)) r
      else r)"

fun check_route_entries :: "nat \<Rightarrow> repo_route_entry list \<Rightarrow> validation_result \<Rightarrow> validation_result" where
  "check_route_entries i [] r = r"
| "check_route_entries i (e # es) r =
     check_route_entries (i + 1) es
       (if rr_port e = None \<and> rr_container e = None then add_warning (WRouteEmpty i) r else r)"

definition validate_routing_config :: "repo_routing_config \<Rightarrow> validation_result \<Rightarrow> validation_result" where
  "validate_routing_config rt r =
     (if rrc_routes rt \<noteq> [] then
        check_route_entries 0 (rrc_routes rt)
          (if rrc_port rt \<noteq> None \<or> rrc_container rt \<noteq> None then add_warning WRoutesAndFlat r else r)
      else r)"

definition validate_preview_config ::
  "preview_config \<Rightarrow> repo_routing_config \<Rightarrow> validation_result \<Rightarrow> validation_result" where
  "validate_preview_config p rt r =
     (let r1 = (case pc_database p of
                  Some db \<Rightarrow> if pd_strategy db = ''branch'' \<and> pd_provider db = None
                             then add_error VPreviewInconsistent r else r
                | None \<Rightarrow> r)
      in if pc_enabled p \<and> rrc_port rt = None then add_warning WPreviewNoPort r1 else r1)"

fun validate_volumes_from :: "string list \<Rightarrow> repo_volume list \<Rightarrow> validation_result \<Rightarrow> validation_result" where
  "validate_volumes_from seen [] r = r"
| "validate_volumes_from seen (v # vs) r =
     (let p = rv_mount_path v;
          r1 = (if \<not> prefix ''/'' p then add_error (VVolume (MountNotAbsolute p)) r else r);
          r2 = (if List.member seen p then add_error (VVolume (MountDuplicate p)) r1 else r1)
      in validate_volumes_from (List.insert p seen) vs r2)"

definition validate_volumes :: "repo_volume list \<Rightarrow> validation_result" where
  "validate_volumes vs = validate_volumes_from [] vs vr_new"

definition validate_kind ::
  "(string \<Rightarrow> bool) \<Rightarrow> repo_config \<Rightarrow> validation_result \<Rightarrow> validation_result" where
  "validate_kind exists cfg r =
     (let kind = lower_word (ra_kind (rc_app cfg)); manifest = ra_manifest (rc_app cfg) in
      if kind = ''pod'' then
        (case manifest of
           None \<Rightarrow> add_error VMissingManifest r
         | Some m \<Rightarrow> if \<not> exists m then add_error (VManifestNotFound m) r else r)
      else if kind = ''container'' then
        (if manifest \<noteq> None then add_warning WManifestIgnoredContainer r else r)
      else if kind = ''worker'' then
        (let r1 = (if manifest \<noteq> None then add_warning WManifestIgnoredWorker r else r)
         in if rrc_port (rc_routing cfg) \<noteq> None then add_warning WPortIgnoredWorker r1 else r1)
      else add_error (VInvalidKind (ra_kind (rc_app cfg))) r)"

text \<open>The first argument says which manifest paths exist below the base directory.\<close>

definition validate_repo_config :: "(string \<Rightarrow> bool) \<Rightarrow> repo_config \<Rightarrow> validation_result" where
  "validate_repo_config exists cfg =
     (let r0 = validate_app_name (ra_name (rc_app cfg)) vr_new;
          r1 = validate_kind exists cfg r0;
          r2 = validate_routing_config (rc_routing cfg) r1;
          r3 = (case rc_preview cfg of Some p \<Rightarrow> validate_preview_config p (rc_routing cfg) r2 | None \<Rightarrow> r2);
          r4 = (if rc_volumes cfg \<noteq> [] then vr_merge r3 (validate_volumes (rc_volumes cfg)) else r3);
          r5 = (if rc_needs cfg \<noteq> [] then
                  (case validate_needs (rc_needs cfg) (map_of (rc_env cfg)) of
                     Inr _ \<Rightarrow> r4 | Inl e \<Rightarrow> add_error (VNeeds e) r4)
                else r4)
      in if rh_path (rc_health cfg) = Some ''/'' then add_warning WRootHealthPath r5 else r5)"

section \<open>Merged volumes\<close>

definition blocked_path_prefixes :: "string list" where
  "blocked_path_prefixes = [''/'', ''/etc'', ''/proc'', ''/sys'', ''/dev'', ''/boot'', ''/root'', ''/var/run'',
     ''/run'', ''/var/lib/docker'', ''/var/lib/containers'', ''/var/run/docker.sock'', ''/run/docker.sock'']"

fun check_blocked :: "string \<Rightarrow> string \<Rightarrow> string list \<Rightarrow> validation_result \<Rightarrow> validation_result" where
  "check_blocked host normalized [] r = r"
| "check_blocked host normalized (b # bs) r =
     check_blocked host normalized bs
       (if b \<noteq> ''/'' \<and> (normalized = b \<or> prefix (b @ ''/'') normalized)
        then add_error (VVolume (HostBlocked host b)) r else r)"

fun validate_merged_from :: "string list \<Rightarrow> merged_volume list \<Rightarrow> validation_result \<Rightarrow> validation_result" where
  "validate_merged_from seen [] r = r"
| "validate_merged_from seen (v # vs) r =
     (let host = mv_host_path v;
          r1 = (if \<not> prefix ''/'' host then add_error (VVolume (HostNotAbsolute host)) r else r);
          normalized = drop_trailing (CHR ''/'') host
      in if normalized = [] then validate_merged_from seen vs (add_error (VVolume (HostRoot host)) r1)
         else let r2 = check_blocked host normalized blocked_path_prefixes r1;
                  p = mv_mount_path v;
                  r3 = (if List.member seen p then add_error (VVolume (MergedDuplicate p)) r2 else r2)
              in validate_merged_from (List.insert p seen) vs r3)"

definition validate_merged_volumes :: "merged_volume list \<Rightarrow> validation_result" where
  "validate_merged_volumes vs = validate_merged_from [] vs vr_new"

section \<open>Pod manifests\<close>

datatype yaml = YNull | YBool bool | YNum string | YStr string | YSeq "yaml list" | YMap "(yaml \<times> yaml) list"

fun yaml_get :: "string \<Rightarrow> yaml \<Rightarrow> yaml option" where
  "yaml_get k (YMap kvs) = map_of kvs (YStr k)"
| "yaml_get k _ = None"

fun yaml_str :: "yaml \<Rightarrow> string option" where
  "yaml_str (YStr s) = Some s"
| "yaml_str _ = None"

fun yaml_seq :: "yaml \<Rightarrow> yaml list option" where
  "yaml_seq (YSeq xs) = Some xs"
| "yaml_seq _ = None"

definition manifest_containers :: "yaml \<Rightarrow> yaml list option" where
  "manifest_containers doc =
     Option.bind (yaml_get ''spec'' doc) (\<lambda>s. Option.bind (yaml_get ''containers'' s) yaml_seq)"

definition container_names :: "yaml \<Rightarrow> string list" where
  "container_names doc =
     List.map_filter (\<lambda>c. Option.bind (yaml_get ''name'' c) yaml_str)
       (case manifest_containers doc of Some cs \<Rightarrow> cs | None \<Rightarrow> [])"

definition check_container_ref ::
  "string list \<Rightarrow> string option \<Rightarrow> string \<Rightarrow> validation_result \<Rightarrow> validation_result" where
  "check_container_ref names ref ctx r =
     (case ref of
        Some c \<Rightarrow> if \<not> List.member names c then add_error (VContainerNotFound c ctx) r else r
      | None \<Rightarrow> r)"

definition validate_pod_manifest :: "yaml option \<Rightarrow> repo_config \<Rightarrow> validation_result" where
  "validate_pod_manifest parsed cfg =
     (case parsed of
        None \<Rightarrow> add_error VManifestParse vr_new
      | Some doc \<Rightarrow>
          (let r1 = (if yaml_get ''apiVersion'' doc = None then add_error (VManifestMissingField ''apiVersion'') vr_new
                     else vr_new);
               r2 = (case yaml_get ''kind'' doc of
                       Some k \<Rightarrow> (case yaml_str k of
                                    Some ks \<Rightarrow> if ks \<noteq> ''Pod'' then add_error (VManifestInvalidKind ''Pod'' ks) r1 else r1
                                  | None \<Rightarrow> add_error (VManifestMissingField ''kind (must be a string)'') r1)
                     | None \<Rightarrow> add_error (VManifestMissingField ''kind'') r1);
               r3 = (if Option.bind (yaml_get ''metadata'' doc) (yaml_get ''name'') = None
                     then add_error (VManifestMissingField ''metadata.name'') r2 else r2);
               r4 = (case manifest_containers doc of
                       None \<Rightarrow> add_error (VManifestMissingField ''spec.containers'') r3
                     | Some cs \<Rightarrow> if cs = [] then add_error (VManifestMissingField ''spec.containers (must be non-empty)'') r3
                                  else r3);
               names = container_names doc;
               r5 = check_container_ref names (rrc_container (rc_routing cfg)) '' (referenced in routing.container)'' r4
           in check_container_ref names (rh_container (rc_health cfg)) '' (referenced in health.container)'' r5))"

section \<open>Image references of a manifest\<close>

definition validate_single_image_ref :: "string \<Rightarrow> validation_result \<Rightarrow> validation_result" where
  "validate_single_image_ref img r =
     (if img = [] then add_error (VInvalidImageRef img ''image reference cannot be empty'') r
      else let image_without_digest = hd (split_on (CHR ''@'') img);
               image_without_tag = hd (split_on (CHR '':'') image_without_digest);
               name_part = last (split_on (CHR ''/'') image_without_tag)
           in if name_part = [] then
                add_error (VInvalidImageRef img ''image reference must include an image name'') r
              else let has_digest = List.member img (CHR ''@'');
                       has_tag = List.member image_without_digest (CHR '':'')
                   in if sublist '':latest'' img \<or> ends_with '':'' img then add_warning (WLatestTag img) r
                      else if \<not> has_tag \<and> \<not> has_digest then add_warning (WNoTag img) r
                      else r)"

fun check_container_images :: "yaml list \<Rightarrow> validation_result \<Rightarrow> validation_result" where
  "check_container_images [] r = r"
| "check_container_images (c # cs) r =
     check_container_images cs
       (case yaml_get ''image'' c of
          Some v \<Rightarrow> (case yaml_str v of
                       Some img \<Rightarrow> validate_single_image_ref img r
                     | None \<Rightarrow> add_error (VInvalidImageRef ''non-string'' ''image must be a string'') r)
        | None \<Rightarrow> r)"

definition validate_image_refs :: "yaml option \<Rightarrow> validation_result" where
  "validate_image_refs parsed =
     (case parsed of
        None \<Rightarrow> add_error VManifestParse vr_new
      | Some doc \<Rightarrow>
          (case yaml_get ''spec'' doc of
             None \<Rightarrow> vr_new
           | Some spec \<Rightarrow>
               foldl (\<lambda>r key. case Option.bind (yaml_get key spec) yaml_seq of
                                Some cs \<Rightarrow> check_container_images cs r | None \<Rightarrow> r)
                 vr_new [''containers'', ''initContainers'']))"

text \<open>The parse result of \<open>slip.toml\<close> (or the location of its error), the manifests below the base
  directory that can be read with their parse results, and strict mode.\<close>

definition parse_and_validate ::
  "(nat \<times> nat) + repo_config \<Rightarrow> (string \<rightharpoonup> yaml option) \<Rightarrow> bool \<Rightarrow> repo_config option \<times> validation_result" where
  "parse_and_validate parsed files strict =
     (case parsed of
        Inl (line, col) \<Rightarrow> (None, add_error (VTomlParse line col) vr_new)
      | Inr cfg \<Rightarrow>
          (let r = vr_merge vr_new (validate_repo_config (\<lambda>m. files m \<noteq> None) cfg) in
           if ascii_lowercase (ra_kind (rc_app cfg)) = ''pod'' then
             (case ra_manifest (rc_app cfg) of
                Some m \<Rightarrow>
                  (case files m of
                     Some y \<Rightarrow>
                       (let r1 = vr_merge r (validate_pod_manifest y cfg)
                        in (Some cfg, if strict \<and> is_valid r1 then vr_merge r1 (validate_image_refs y) else r1))
                   | None \<Rightarrow> (Some cfg, r))
              | None \<Rightarrow> (Some cfg, r))
           else (Some cfg, r)))"

section \<open>What validation guarantees\<close>

lemma is_valid_simps [simp]:
  "is_valid vr_new" "\<not> is_valid (add_error e r)" "is_valid (add_warning w r) = is_valid r"
  "is_valid (vr_merge r r') \<longleftrightarrow> is_valid r \<and> is_valid r'"
  by (simp_all add: vr_defs)

lemma check_route_entries_valid [simp]: "is_valid (check_route_entries i es r) = is_valid r"
  by (induction es arbitrary: i r) simp_all

lemma validate_routing_valid [simp]: "is_valid (validate_routing_config rt r) = is_valid r"
  by (simp add: validate_routing_config_def)

definition app_name_ok :: "string \<Rightarrow> bool" where
  "app_name_ok name \<longleftrightarrow> name \<noteq> [] \<and> is_lower_digit (hd name) \<and> is_lower_digit (last name)
     \<and> list_all name_char name \<and> length name \<le> 63"

lemma validate_app_name_valid [simp]:
  "is_valid (validate_app_name name r) \<longleftrightarrow> is_valid r \<and> app_name_ok name"
  by (auto simp: validate_app_name_def app_name_ok_def is_lower_digit_def)

interpretation repo_app_names: name_policy "\<lambda>s. is_valid (validate_app_name s vr_new)" name_char 63
proof
  fix s c
  assume "is_valid (validate_app_name s vr_new)"
  then show "s \<noteq> []" "length s \<le> 63" "c \<in> set s \<Longrightarrow> name_char c"
    by (auto simp: app_name_ok_def list_all_iff)
next
  show "\<not> name_char CHR ''/'' \<and> \<not> name_char CHR 0x5C \<and> \<not> name_char CHR 0x00 \<and> \<not> name_char CHR ''.''"
    by (rule service_names.separators_illegal)
qed

definition preview_db_ok :: "preview_database_config option \<Rightarrow> bool" where
  "preview_db_ok d = (case d of Some db \<Rightarrow> pd_strategy db \<noteq> ''branch'' \<or> pd_provider db \<noteq> None | None \<Rightarrow> True)"

lemma validate_preview_valid [simp]:
  "is_valid (validate_preview_config p rt r) \<longleftrightarrow> is_valid r \<and>
     preview_db_ok (pc_database p)"
  by (auto simp: validate_preview_config_def preview_db_ok_def Let_def split: option.splits)

lemma validate_volumes_from_valid:
  "is_valid (validate_volumes_from seen vs r) \<longleftrightarrow>
     is_valid r \<and> list_all (\<lambda>v. prefix ''/'' (rv_mount_path v)) vs \<and> distinct (map rv_mount_path vs)
       \<and> set (map rv_mount_path vs) \<inter> set seen = {}"
  by (induction seen vs r rule: validate_volumes_from.induct) (auto simp: Let_def)

definition kind_ok :: "(string \<Rightarrow> bool) \<Rightarrow> repo_config \<Rightarrow> bool" where
  "kind_ok exists cfg \<longleftrightarrow>
     (let kind = lower_word (ra_kind (rc_app cfg)) in
      kind = ''container'' \<or> kind = ''worker'' \<or>
      (kind = ''pod'' \<and> (case ra_manifest (rc_app cfg) of Some m \<Rightarrow> exists m | None \<Rightarrow> False)))"

lemma validate_kind_valid [simp]:
  "is_valid (validate_kind exists cfg r) \<longleftrightarrow> is_valid r \<and> kind_ok exists cfg"
  by (auto simp: validate_kind_def kind_ok_def Let_def split: option.splits)

text \<open>C38. A repo configuration is valid exactly when its name is a DNS label, its kind is known (a
  pod having an existing manifest), a branch preview database names a provider, its mount points
  are absolute and distinct, and its needs are acceptable for its own environment; warnings never
  make it invalid.\<close>

theorem validate_repo_config_iff:
  "is_valid (validate_repo_config exists cfg) \<longleftrightarrow>
     app_name_ok (ra_name (rc_app cfg)) \<and> kind_ok exists cfg
     \<and> preview_db_ok (Option.bind (rc_preview cfg) pc_database)
     \<and> list_all (\<lambda>v. prefix ''/'' (rv_mount_path v)) (rc_volumes cfg) \<and> distinct (map rv_mount_path (rc_volumes cfg))
     \<and> validate_needs (rc_needs cfg) (map_of (rc_env cfg)) = Inr ()"
proof -
  have n: "validate_needs [] env = Inr ()" for env by (simp add: validate_needs_def)
  have v: "is_valid (validate_volumes vs) \<longleftrightarrow>
      list_all (\<lambda>v. prefix ''/'' (rv_mount_path v)) vs \<and> distinct (map rv_mount_path vs)" for vs
    by (simp add: validate_volumes_def validate_volumes_from_valid)
  have s: "is_valid (case x of Inr _ \<Rightarrow> r | Inl e \<Rightarrow> add_error (VNeeds e) r) \<longleftrightarrow> is_valid r \<and> x = Inr ()"
    for x :: "need_error + unit" and r by (auto split: sum.split)
  have w: "is_valid (if b then add_warning x r else r) = is_valid r" for b x r by simp
  show ?thesis
    unfolding validate_repo_config_def Let_def w
    by (cases "rc_preview cfg") (auto simp: s v n preview_db_ok_def)
qed

section \<open>The host-path blocklist\<close>

definition blocked_by :: "string \<Rightarrow> string \<Rightarrow> bool" where
  "blocked_by b normalized \<longleftrightarrow> b \<noteq> ''/'' \<and> (normalized = b \<or> prefix (b @ ''/'') normalized)"

lemma check_blocked_valid:
  "is_valid (check_blocked host n bs r) \<longleftrightarrow> is_valid r \<and> list_all (\<lambda>b. \<not> blocked_by b n) bs"
  by (induction bs arbitrary: r) (auto simp: blocked_by_def)

definition host_path_ok :: "string \<Rightarrow> bool" where
  "host_path_ok host \<longleftrightarrow> prefix ''/'' host \<and> drop_trailing (CHR ''/'') host \<noteq> [] \<and>
     list_all (\<lambda>b. \<not> blocked_by b (drop_trailing (CHR ''/'') host)) blocked_path_prefixes"

lemma validate_merged_from_valid:
  "is_valid (validate_merged_from seen vs r) \<longleftrightarrow>
     is_valid r \<and> list_all (\<lambda>v. host_path_ok (mv_host_path v)) vs \<and> distinct (map mv_mount_path vs)
       \<and> set (map mv_mount_path vs) \<inter> set seen = {}"
  by (induction seen vs r rule: validate_merged_from.induct)
    (auto simp: Let_def check_blocked_valid host_path_ok_def)

text \<open>Components of a path, and the directory it denotes once the dot components are resolved.\<close>

definition path_components :: "string \<Rightarrow> string list" where
  "path_components p = filter (\<lambda>c. c \<noteq> []) (split_on (CHR ''/'') p)"

fun resolve_dots :: "string list \<Rightarrow> string list \<Rightarrow> string list" where
  "resolve_dots acc [] = rev acc"
| "resolve_dots acc (c # cs) =
     (if c = ''.'' then resolve_dots acc cs
      else if c = ''..'' then resolve_dots (tl acc) cs
      else resolve_dots (c # acc) cs)"

definition denotes :: "string \<Rightarrow> string list" where
  "denotes p = resolve_dots [] (path_components p)"

text \<open>A path without empty or dot components, apart from trailing slashes.\<close>

definition plain_path :: "string \<Rightarrow> bool" where
  "plain_path p \<longleftrightarrow>
     (case split_on (CHR ''/'') (drop_trailing (CHR ''/'') p) of
        [] \<Rightarrow> False
      | c # cs \<Rightarrow> c = [] \<and> list_all (\<lambda>d. d \<noteq> [] \<and> d \<noteq> ''.'' \<and> d \<noteq> ''..'') cs)"

lemma resolve_dots_plain:
  "list_all (\<lambda>d. d \<noteq> ''.'' \<and> d \<noteq> ''..'') cs \<Longrightarrow> resolve_dots acc cs = rev acc @ cs"
  by (induction cs arbitrary: acc) auto

lemma drop_trailing_decomp: "\<exists>k. s = drop_trailing c s @ replicate k c"
proof -
  have "\<exists>k. t = replicate k c @ dropWhile (\<lambda>d. d = c) t" for t :: string
  proof (induction t)
    case (Cons x t)
    then obtain k where k: "t = replicate k c @ dropWhile (\<lambda>d. d = c) t" by blast
    show ?case
    proof (cases "x = c")
      case True
      then have "x # t = replicate (Suc k) c @ dropWhile (\<lambda>d. d = c) (x # t)" using k by simp
      then show ?thesis by blast
    qed (intro exI[of _ 0], simp)
  qed simp
  from this[of "rev s"] obtain k where "rev s = replicate k c @ dropWhile (\<lambda>d. d = c) (rev s)" by blast
  then have "s = rev (dropWhile (\<lambda>d. d = c) (rev s)) @ replicate k c"
    by (metis rev_append rev_replicate rev_rev_ident)
  then show ?thesis unfolding drop_trailing_def by blast
qed

lemma path_components_trailing: "path_components (s @ replicate k (CHR ''/'')) = path_components s"
proof (induction k)
  case (Suc k)
  have "split_on (CHR ''/'') (t @ [CHR ''/'']) = split_on (CHR ''/'') t @ [[]]" for t
    using split_on_append_sep[of "CHR ''/''" t "[]"] by simp
  then have "path_components (t @ [CHR ''/'']) = path_components t" for t by (simp add: path_components_def)
  from this[of "s @ replicate k (CHR ''/'')"] show ?case using Suc
    by (simp add: replicate_append_same[symmetric])
qed simp

lemma plain_path_denotes:
  assumes "plain_path p"
  shows "drop_trailing (CHR ''/'') p = join_with ''/'' ([] # denotes p)" "denotes p = path_components p"
proof -
  let ?n = "drop_trailing (CHR ''/'') p"
  obtain cs where cs: "split_on (CHR ''/'') ?n = [] # cs" "list_all (\<lambda>d. d \<noteq> [] \<and> d \<noteq> ''.'' \<and> d \<noteq> ''..'') cs"
    using assms unfolding plain_path_def by (auto split: list.splits)
  have "path_components p = path_components ?n"
    using drop_trailing_decomp[of p "CHR ''/''"] path_components_trailing by metis
  also have "\<dots> = cs" using cs by (auto simp: path_components_def list_all_iff)
  finally have pc: "path_components p = cs" .
  have "list_all (\<lambda>d. d \<noteq> ''.'' \<and> d \<noteq> ''..'') cs" using cs(2) by (simp add: list_all_iff)
  then have d: "denotes p = cs" by (simp add: denotes_def pc resolve_dots_plain)
  show "?n = join_with ''/'' ([] # denotes p)" using join_split[of "CHR ''/''" ?n] cs(1) d by simp
  show "denotes p = path_components p" using d pc by simp
qed

lemma blocked_table:
  "list_all (\<lambda>b. b = ''/'' \<or> (b = join_with ''/'' ([] # path_components b) \<and> path_components b \<noteq> [])) blocked_path_prefixes"
  by code_simp

lemma blocked_by_components:
  assumes "b \<in> set blocked_path_prefixes" "b \<noteq> ''/''" "prefix (path_components b) cs"
  shows "blocked_by b (join_with ''/'' ([] # cs))"
proof -
  have b: "b = join_with ''/'' ([] # path_components b)" "path_components b \<noteq> []"
    using blocked_table assms(1,2) unfolding list_all_iff by blast+
  obtain rest where cs: "cs = path_components b @ rest" using assms(3) by (auto simp: prefix_def)
  show ?thesis
  proof (cases "rest = []")
    case True
    then show ?thesis using b(1) cs assms(2) by (simp add: blocked_by_def)
  next
    case False
    then have "join_with ''/'' (([] # path_components b) @ rest) = b @ ''/'' @ join_with ''/'' rest"
      using join_with_append[of "[] # path_components b" rest "''/''"] b(1) by simp
    then show ?thesis using assms(2) unfolding cs blocked_by_def by (simp add: prefix_def)
  qed
qed

text \<open>Validation of the merged volumes is a sound blocklist on plain paths: if it passes, no
  volume whose host path has no dot or empty components denotes the root, a protected
  directory, or anything below one; and no two volumes share a mount point.\<close>

theorem merged_volumes_blocklist:
  assumes "is_valid (validate_merged_volumes vs)"
  shows "distinct (map mv_mount_path vs) \<and>
    list_all (\<lambda>v. \<not> plain_path (mv_host_path v) \<or>
       (denotes (mv_host_path v) \<noteq> [] \<and>
        list_all (\<lambda>b. b = ''/'' \<or> \<not> prefix (path_components b) (denotes (mv_host_path v))) blocked_path_prefixes)) vs"
proof -
  have ok: "list_all (\<lambda>v. host_path_ok (mv_host_path v)) vs" and d: "distinct (map mv_mount_path vs)"
    using assms by (simp_all add: validate_merged_volumes_def validate_merged_from_valid)
  have "denotes p \<noteq> [] \<and> list_all (\<lambda>b. b = ''/'' \<or> \<not> prefix (path_components b) (denotes p)) blocked_path_prefixes"
    if "host_path_ok p" "plain_path p" for p
  proof
    show "denotes p \<noteq> []"
      using that(1) plain_path_denotes(1)[OF that(2)] by (auto simp: host_path_ok_def)
    show "list_all (\<lambda>b. b = ''/'' \<or> \<not> prefix (path_components b) (denotes p)) blocked_path_prefixes"
      using that(1) blocked_by_components unfolding host_path_ok_def plain_path_denotes(1)[OF that(2)] list_all_iff
      by blast
  qed
  then show ?thesis using ok d unfolding list_all_iff by blast
qed

theorem merged_volumes_blocklist_witness:
  "denotes ''/srv/data/'' = [''srv'', ''data''] \<and>
   list_all (\<lambda>b. b = ''/'' \<or> \<not> prefix (path_components b) (denotes ''/srv/data/'')) blocked_path_prefixes"
proof -
  let ?vs = "[\<lparr>mv_host_path = ''/srv/data/'', mv_mount_path = ''/data'', mv_read_only = False\<rparr>]"
  have "is_valid (validate_merged_volumes ?vs)" "plain_path ''/srv/data/''" by code_simp+
  moreover have "denotes ''/srv/data/'' = [''srv'', ''data'']" by code_simp
  ultimately show ?thesis using merged_volumes_blocklist[of ?vs] by simp
qed

text \<open>The blocklist compares the path text, not the directory it denotes: host paths with a
  dot-dot or an empty component that lead into \<open>/etc\<close> pass the validation.\<close>

theorem blocklist_bypass:
  "is_valid (validate_merged_volumes
      [\<lparr>mv_host_path = ''/srv/../etc'', mv_mount_path = ''/a'', mv_read_only = False\<rparr>,
       \<lparr>mv_host_path = ''//etc/shadow'', mv_mount_path = ''/b'', mv_read_only = False\<rparr>])
   \<and> denotes ''/srv/../etc'' = path_components ''/etc'' \<and> denotes ''//etc/shadow'' = path_components ''/etc/shadow''"
  by code_simp

end
