(* ===== verification/Secrets.thy ===== *)
theory Secrets
  imports Config "HOL-Library.List_Lexorder"
begin

text \<open>
  \<open>secrets.rs\<close>, \<open>auth.rs\<close> and \<open>registry.rs\<close>: the per-app secret store with its two reserved
  namespaces (deploy keys and registry credentials), the secret that authenticates a deploy, and
  the credential of an image pull.  The store is its directory tree; whether a write fails or an
  existing file cannot be read is part of the state (the file system's answer).  SHA-256, hex,
  HMAC and the JSON codec of the registry index are parameters.
\<close>

section \<open>The store\<close>

definition deploy_key_name :: string where "deploy_key_name = ''__deploy_key''"
definition registry_namespace :: string where "registry_namespace = ''__registry''"
definition registry_index_name :: string where "registry_index_name = ''__index.json''"

type_synonym secret_dir = "(string \<times> string) list"

record secrets_store =
  st_dirs :: "(string \<times> secret_dir) list"
  st_readonly :: bool
  st_unreadable :: "(string \<times> string) list"

definition secret_key_char :: "char \<Rightarrow> bool" where
  "secret_key_char c \<longleftrightarrow> is_alnum c \<or> c = CHR ''_''"

datatype secret_key_error = KeyEmpty | KeyTooLong nat | KeyChars | KeyStart

definition validate_secret_key :: "string \<Rightarrow> secret_key_error + unit" where
  "validate_secret_key key =
     (if key = [] then Inl KeyEmpty
      else if length key > 256 then Inl (KeyTooLong (length key))
      else if \<not> list_all secret_key_char key then Inl KeyChars
      else if \<not> (is_alpha (hd key) \<or> hd key = CHR ''_'') then Inl KeyStart
      else Inr ())"

definition store_dir :: "secrets_store \<Rightarrow> string \<Rightarrow> secret_dir option" where
  "store_dir s app = map_of (st_dirs s) app"

definition ensure_app_dir :: "secrets_store \<Rightarrow> string \<Rightarrow> secrets_store \<times> (config_error + unit)" where
  "ensure_app_dir s app =
     (case store_dir s app of
        Some _ \<Rightarrow> (s, Inr ())
      | None \<Rightarrow> if st_readonly s then (s, Inl (CfgWriteFile app))
                else (s\<lparr>st_dirs := AList.update app [] (st_dirs s)\<rparr>, Inr ()))"

text \<open>\<open>set\<close>: the temporary file is created, synced and renamed over the target, so either the value
  is replaced or nothing changes; the renamed file is the process's own and readable.\<close>

definition store_set :: "secrets_store \<Rightarrow> string \<Rightarrow> string \<Rightarrow> string \<Rightarrow> secrets_store \<times> (config_error + unit)" where
  "store_set s app key val =
     (let (s1, r) = ensure_app_dir s app in
      case r of
        Inl e \<Rightarrow> (s1, Inl e)
      | Inr _ \<Rightarrow>
          if st_readonly s1 then (s1, Inl (CfgWriteFile key))
          else (let d = (case store_dir s1 app of Some d \<Rightarrow> d | None \<Rightarrow> [])
                in (s1\<lparr>st_dirs := AList.update app (AList.update key val d) (st_dirs s1),
                       st_unreadable := removeAll (app, key) (st_unreadable s1)\<rparr>, Inr ())))"

definition store_get :: "secrets_store \<Rightarrow> string \<Rightarrow> string \<Rightarrow> config_error + string option" where
  "store_get s app key =
     (case Option.bind (store_dir s app) (\<lambda>d. map_of d key) of
        None \<Rightarrow> Inr None
      | Some v \<Rightarrow> if List.member (st_unreadable s) (app, key) then Inl (CfgReadFile key) else Inr (Some v))"

definition visible_key :: "string \<Rightarrow> bool" where
  "visible_key name \<longleftrightarrow> \<not> (prefix ''.'' name \<or> prefix ''__'' name)"

definition store_list :: "secrets_store \<Rightarrow> string \<Rightarrow> string list" where
  "store_list s app =
     (case store_dir s app of
        None \<Rightarrow> []
      | Some d \<Rightarrow> sort (filter visible_key (map fst d)))"

definition store_remove :: "secrets_store \<Rightarrow> string \<Rightarrow> string \<Rightarrow> secrets_store \<times> (config_error + bool)" where
  "store_remove s app key =
     (case store_dir s app of
        None \<Rightarrow> (s, Inr False)
      | Some d \<Rightarrow>
          (case map_of d key of
             None \<Rightarrow> (s, Inr False)
           | Some _ \<Rightarrow> if st_readonly s then (s, Inl (CfgDeleteFile key))
                       else (s\<lparr>st_dirs := AList.update app (AList.delete key d) (st_dirs s)\<rparr>, Inr True)))"

fun get_each :: "secrets_store \<Rightarrow> string \<Rightarrow> string list \<Rightarrow> (string \<times> string) list \<Rightarrow> config_error + (string \<times> string) list" where
  "get_each s app [] acc = Inr acc"
| "get_each s app (k # ks) acc =
     and_then (store_get s app k) (\<lambda>v. case v of
        Some x \<Rightarrow> get_each s app ks (AList.update k x acc)
      | None \<Rightarrow> get_each s app ks acc)"

definition store_get_all :: "secrets_store \<Rightarrow> string \<Rightarrow> config_error + (string \<times> string) list" where
  "store_get_all s app = get_each s app (store_list s app) []"

definition store_remove_all :: "secrets_store \<Rightarrow> string \<Rightarrow> secrets_store \<times> (config_error + unit)" where
  "store_remove_all s app =
     (case store_dir s app of
        None \<Rightarrow> (s, Inr ())
      | Some _ \<Rightarrow> if st_readonly s then (s, Inl (CfgDeleteFile app))
                  else (s\<lparr>st_dirs := AList.delete app (st_dirs s)\<rparr>, Inr ()))"

definition get_deploy_key :: "secrets_store \<Rightarrow> string \<Rightarrow> config_error + string option" where
  "get_deploy_key s app = store_get s app deploy_key_name"

text \<open>The 32 random bytes, hex-encoded, are an argument.\<close>

definition set_deploy_key :: "secrets_store \<Rightarrow> string \<Rightarrow> string \<Rightarrow> secrets_store \<times> (config_error + string)" where
  "set_deploy_key s app random_hex =
     (let (s', r) = store_set s app deploy_key_name random_hex in
      (s', case r of Inl e \<Rightarrow> Inl e | Inr _ \<Rightarrow> Inr random_hex))"

definition remove_deploy_key :: "secrets_store \<Rightarrow> string \<Rightarrow> secrets_store \<times> (config_error + bool)" where
  "remove_deploy_key s app = store_remove s app deploy_key_name"

section \<open>The contract of a secret store\<close>

locale secret_store =
  fixes get :: "'s \<Rightarrow> string \<Rightarrow> string \<Rightarrow> 'e + string option"
    and put :: "'s \<Rightarrow> string \<Rightarrow> string \<Rightarrow> string \<Rightarrow> 's \<times> ('e + unit)"
    and del :: "'s \<Rightarrow> string \<Rightarrow> string \<Rightarrow> 's \<times> ('e + bool)"
  assumes put_get: "put s a k v = (s', Inr ()) \<Longrightarrow>
      get s' b l = (if (b, l) = (a, k) then Inr (Some v) else get s b l)"
    and put_fail: "put s a k v = (s', Inl e) \<Longrightarrow> get s' b l = get s b l"
    and del_get: "del s a k = (s', Inr r) \<Longrightarrow>
      get s' b l = (if (b, l) = (a, k) then Inr None else get s b l)"
    and del_fail: "del s a k = (s', Inl e) \<Longrightarrow> get s' b l = get s b l"
    and del_found: "del s a k = (s', Inr r) \<Longrightarrow> r \<Longrightarrow> get s a k \<noteq> Inr None"
begin

lemma put_put_last: "put s a k v = (s1, Inr ()) \<Longrightarrow> put s1 a k w = (s2, Inr ()) \<Longrightarrow> get s2 a k = Inr (Some w)"
  using put_get by simp

lemma put_other_app: "put s a k v = (s', r) \<Longrightarrow> b \<noteq> a \<Longrightarrow> get s' b l = get s b l"
  using put_get put_fail by (cases r) auto

lemma put_del: "put s a k v = (s1, Inr ()) \<Longrightarrow> del s1 a k = (s2, Inr r) \<Longrightarrow>
    get s2 b l = (if (b, l) = (a, k) then Inr None else get s b l)"
  using put_get del_get by auto

lemma del_idempotent: "del s a k = (s1, Inr r) \<Longrightarrow> del s1 a k = (s2, Inr r') \<Longrightarrow> \<not> r' \<and> get s2 b l = get s1 b l"
  using del_get del_found by (metis (mono_tags))

end

lemma store_dir_update: "store_dir (s\<lparr>st_dirs := AList.update a d (st_dirs s)\<rparr>) b = (if b = a then Some d else store_dir s b)"
  by (simp add: store_dir_def update_conv')

lemma store_get_ensure: "ensure_app_dir s a = (s', r) \<Longrightarrow> store_get s' b l = store_get s b l"
  by (auto simp: ensure_app_dir_def store_get_def store_dir_def update_conv' split: option.splits if_splits)

lemma store_set_get:
  assumes "store_set s a k v = (s', Inr ())"
  shows "store_get s' b l = (if (b, l) = (a, k) then Inr (Some v) else store_get s b l)"
proof -
  obtain s1 r where e: "ensure_app_dir s a = (s1, r)" by (cases "ensure_app_dir s a")
  with assms have ro: "\<not> st_readonly s1" and s': "s' = s1\<lparr>st_dirs := AList.update a (AList.update k v
        (case store_dir s1 a of Some d \<Rightarrow> d | None \<Rightarrow> [])) (st_dirs s1),
      st_unreadable := removeAll (a, k) (st_unreadable s1)\<rparr>"
    by (auto simp: store_set_def Let_def split: sum.splits if_splits)
  have "store_get s' b l = (if (b, l) = (a, k) then Inr (Some v) else store_get s1 b l)"
    unfolding s' store_get_def store_dir_def by (auto simp: update_conv' split: option.splits)
  then show ?thesis using store_get_ensure[OF e] by simp
qed

lemma store_set_fail: "store_set s a k v = (s', Inl e) \<Longrightarrow> store_get s' b l = store_get s b l"
  by (auto simp: store_set_def Let_def split: sum.splits if_splits prod.splits dest: store_get_ensure)

lemma store_remove_get:
  "store_remove s a k = (s', Inr r) \<Longrightarrow> store_get s' b l = (if (b, l) = (a, k) then Inr None else store_get s b l)"
  by (auto simp: store_remove_def store_get_def store_dir_def update_conv' delete_conv'
      split: option.splits if_splits)

interpretation secrets: secret_store store_get store_set store_remove
proof
  fix s s' a k v b l e r
  show "store_set s a k v = (s', Inr ()) \<Longrightarrow> store_get s' b l = (if (b, l) = (a, k) then Inr (Some v) else store_get s b l)"
    by (rule store_set_get)
  show "store_set s a k v = (s', Inl e) \<Longrightarrow> store_get s' b l = store_get s b l"
    by (rule store_set_fail)
  show "store_remove s a k = (s', Inr r) \<Longrightarrow> store_get s' b l = (if (b, l) = (a, k) then Inr None else store_get s b l)"
    by (rule store_remove_get)
  show "store_remove s a k = (s', Inl e) \<Longrightarrow> store_get s' b l = store_get s b l"
    by (auto simp: store_remove_def split: option.splits if_splits)
  show "store_remove s a k = (s', Inr r) \<Longrightarrow> r \<Longrightarrow> store_get s a k \<noteq> Inr None"
    by (auto simp: store_remove_def store_get_def split: option.splits if_splits)
qed

interpretation secret_keys: name_policy "\<lambda>s. validate_secret_key s = Inr ()" secret_key_char 256
proof
  fix s c
  assume "validate_secret_key s = Inr ()"
  then show "s \<noteq> []" "length s \<le> 256" "c \<in> set s \<Longrightarrow> secret_key_char c"
    by (auto simp: validate_secret_key_def list_all_iff split: if_splits)
next
  show "\<not> secret_key_char CHR ''/'' \<and> \<not> secret_key_char CHR 0x5C \<and> \<not> secret_key_char CHR 0x00 \<and> \<not> secret_key_char CHR ''.''"
    by (simp add: secret_key_char_def byte_class_defs)
qed

section \<open>Listing\<close>

definition wf_store :: "secrets_store \<Rightarrow> bool" where
  "wf_store s \<longleftrightarrow> distinct (map fst (st_dirs s)) \<and> list_all (\<lambda>d. distinct (map fst (snd d))) (st_dirs s)"

lemma wf_store_dir: "wf_store s \<Longrightarrow> store_dir s a = Some d \<Longrightarrow> distinct (map fst d)"
  unfolding wf_store_def store_dir_def list_all_iff by (auto dest: map_of_SomeD)

lemma list_all_update:
  "list_all P al \<Longrightarrow> P (k, v) \<Longrightarrow> list_all P (AList.update k v al)"
  by (induction al) auto

lemma wf_update_dir: "wf_store s \<Longrightarrow> distinct (map fst d) \<Longrightarrow> wf_store (s\<lparr>st_dirs := AList.update a d (st_dirs s)\<rparr>)"
  by (simp add: wf_store_def distinct_update list_all_update)

lemma wf_store_unreadable [simp]: "wf_store (s\<lparr>st_unreadable := u\<rparr>) = wf_store s"
  by (simp add: wf_store_def)

lemma wf_store_set: "wf_store s \<Longrightarrow> store_set s a k v = (s', r) \<Longrightarrow> wf_store s'"
proof -
  assume wf: "wf_store s" and st: "store_set s a k v = (s', r)"
  obtain s1 r1 where e: "ensure_app_dir s a = (s1, r1)" by (cases "ensure_app_dir s a")
  have wf1: "wf_store s1" using e wf wf_update_dir[of s "[]" a]
    by (auto simp: ensure_app_dir_def split: option.splits if_splits)
  have d: "distinct (map fst (case store_dir s1 a of Some d \<Rightarrow> d | None \<Rightarrow> []))"
    using wf_store_dir[OF wf1] by (auto split: option.split)
  show ?thesis
  proof (cases "r1 = Inr () \<and> \<not> st_readonly s1")
    case True
    have "wf_store (s1\<lparr>st_dirs := AList.update a (AList.update k v
        (case store_dir s1 a of Some d \<Rightarrow> d | None \<Rightarrow> [])) (st_dirs s1)\<rparr>)"
      using wf1 d by (intro wf_update_dir distinct_update)
    then show ?thesis using st e True
      by (auto simp: store_set_def Let_def wf_store_def)
  next
    case False
    then show ?thesis using st e wf1 by (auto simp: store_set_def Let_def split: sum.splits if_splits)
  qed
qed

definition has_file :: "secrets_store \<Rightarrow> string \<Rightarrow> string \<Rightarrow> bool" where
  "has_file s app key \<longleftrightarrow> (case store_dir s app of Some d \<Rightarrow> map_of d key \<noteq> None | None \<Rightarrow> False)"

lemma store_list_mem: "k \<in> set (store_list s app) \<longleftrightarrow> visible_key k \<and> has_file s app k"
  by (auto simp: store_list_def has_file_def map_of_eq_None_iff split: option.split)

lemma get_each_spec:
  "get_each s app ks acc = Inr m \<Longrightarrow>
     map_of m k = (if k \<in> set ks then (case store_get s app k of Inr (Some v) \<Rightarrow> Some v | _ \<Rightarrow> map_of acc k)
                   else map_of acc k)"
proof (induction ks arbitrary: acc)
  case (Cons x ks)
  then show ?case
  proof (cases "store_get s app x")
    case (Inr v)
    with Cons show ?thesis by (cases v) (auto simp: update_conv' split: option.splits sum.splits)
  qed simp
qed simp

text \<open>Listing and bulk reading expose exactly the ordinary keys: the listed names are those of
  existing files that are neither dot files nor \<open>__\<close>-reserved, sorted, so the deploy key and the
  registry index never appear; and a successful bulk read maps each listed key to its value and
  nothing else.\<close>

theorem secrets_listing:
  assumes "store_get_all s app = Inr m"
  shows "sorted (store_list s app) \<and> deploy_key_name \<notin> set (store_list s app) \<and>
    (\<forall>k. (k \<in> set (store_list s app) \<longleftrightarrow> visible_key k \<and> has_file s app k) \<and>
      Inr (map_of m k) = (if visible_key k then store_get s app k else Inr None))"
proof (intro conjI allI)
  show "sorted (store_list s app)" by (simp add: store_list_def split: option.split)
  show "deploy_key_name \<notin> set (store_list s app)"
    by (simp add: store_list_mem visible_key_def deploy_key_name_def)
  fix k
  show "k \<in> set (store_list s app) \<longleftrightarrow> visible_key k \<and> has_file s app k" by (rule store_list_mem)
  have readable: "\<exists>v. store_get s app x = Inr v" if "x \<in> set ks" "get_each s app ks acc = Inr m" for x ks acc
    using that by (induction ks arbitrary: acc) (auto simp: result_simps split: option.splits)
  have nofile: "\<not> has_file s app k \<Longrightarrow> store_get s app k = Inr None"
    by (auto simp: has_file_def store_get_def split: option.splits)
  have "map_of m k = (if k \<in> set (store_list s app) then (case store_get s app k of Inr (Some v) \<Rightarrow> Some v | _ \<Rightarrow> None)
      else None)"
    using get_each_spec[OF assms[unfolded store_get_all_def], of k] by (auto split: sum.splits option.splits)
  then show "Inr (map_of m k) = (if visible_key k then store_get s app k else Inr None)"
    using readable[of k "store_list s app" "[]"] assms nofile
    by (auto simp: store_get_all_def store_list_mem split: option.splits)
qed

definition sample_store :: secrets_store where
  "sample_store = \<lparr>st_dirs = [(''web'', [(''__deploy_key'', ''k''), (''TOKEN'', ''t'')])], st_readonly = False, st_unreadable = []\<rparr>"

theorem secrets_listing_witness:
  "store_get_all sample_store ''web'' = Inr [(''TOKEN'', ''t'')] \<and> deploy_key_name \<notin> set (store_list sample_store ''web'')"
proof -
  have g: "store_get_all sample_store ''web'' = Inr [(''TOKEN'', ''t'')]" by code_simp
  show ?thesis using secrets_listing[OF g] g by blast
qed

section \<open>Authentication\<close>

text \<open>\<open>hmac key body\<close> are the 32 bytes of the tag; \<open>hex_decode\<close> is the crate's decoder.\<close>

definition verify_signature ::
  "(string \<Rightarrow> string \<Rightarrow> string) \<Rightarrow> (string \<Rightarrow> string option) \<Rightarrow> string \<Rightarrow> string \<Rightarrow> string \<Rightarrow> bool" where
  "verify_signature hmac hex_decode header body secret =
     (case strip_prefix ''sha256='' header of
        None \<Rightarrow> False
      | Some hex_sig \<Rightarrow>
          (case hex_decode hex_sig of
             None \<Rightarrow> False
           | Some sig_bytes \<Rightarrow> hmac secret body = sig_bytes))"

definition compute_signature ::
  "(string \<Rightarrow> string \<Rightarrow> string) \<Rightarrow> (string \<Rightarrow> string) \<Rightarrow> string \<Rightarrow> string \<Rightarrow> string" where
  "compute_signature hmac hex_encode body secret = hex_encode (hmac secret body)"

definition resolve_secret :: "string option \<Rightarrow> string \<Rightarrow> secrets_store \<Rightarrow> string \<Rightarrow> string" where
  "resolve_secret app_secret global_secret store app_name =
     (case get_deploy_key store app_name of
        Inr (Some k) \<Rightarrow> k
      | _ \<Rightarrow> (case app_secret of Some s \<Rightarrow> s | None \<Rightarrow> global_secret))"

text \<open>Webhook authentication: a header is accepted for the resolved secret exactly when it is
  \<open>sha256=\<close> followed by an encoding of the tag of the body, the signature the client computes is
  accepted, and after a key rotation the new deploy key is the secret of that app while every
  other app keeps its own.\<close>

theorem signature_and_rotation:
  assumes "\<And>x. hex_decode (hex_encode x) = Some x"
    and "set_deploy_key store app key = (store', Inr key)"
  shows "(verify_signature hmac hex_decode h body s \<longleftrightarrow>
           (\<exists>x. h = ''sha256='' @ x \<and> hex_decode x = Some (hmac s body)))
    \<and> verify_signature hmac hex_decode (''sha256='' @ compute_signature hmac hex_encode body s) body s
    \<and> resolve_secret app_secret glob store' app = key
    \<and> (other = app \<or> resolve_secret app_secret glob store' other = resolve_secret app_secret glob store other)"
proof -
  have st: "store_set store app deploy_key_name key = (store', Inr ())"
    using assms(2) by (auto simp: set_deploy_key_def split: prod.splits sum.splits)
  have "verify_signature hmac hex_decode h body s \<longleftrightarrow>
           (\<exists>x. h = ''sha256='' @ x \<and> hex_decode x = Some (hmac s body))"
    unfolding verify_signature_def
    by (cases "strip_prefix ''sha256='' h")
      (auto simp: strip_prefix_Some_iff strip_prefix_None_iff prefix_def split: option.splits)
  moreover have "resolve_secret app_secret glob store' app = key"
    using secrets.put_get[OF st] by (simp add: resolve_secret_def get_deploy_key_def)
  moreover have "other = app \<or> resolve_secret app_secret glob store' other = resolve_secret app_secret glob store other"
    using secrets.put_other_app[OF st, of other deploy_key_name]
    by (cases "other = app") (simp_all add: resolve_secret_def get_deploy_key_def)
  moreover have "verify_signature hmac hex_decode (''sha256='' @ compute_signature hmac hex_encode body s) body s"
    unfolding verify_signature_def strip_prefix_append option.case
    by (simp add: compute_signature_def assms(1))
  ultimately show ?thesis by blast
qed

theorem signature_and_rotation_witness:
  "\<exists>store'. set_deploy_key sample_store ''web'' ''new'' = (store', Inr ''new'')
     \<and> resolve_secret None ''global'' store' ''web'' = ''new''"
proof -
  have "snd (set_deploy_key sample_store ''web'' ''new'') = Inr ''new''" by code_simp
  then obtain store' where s: "set_deploy_key sample_store ''web'' ''new'' = (store', Inr ''new'')"
    by (metis prod.collapse)
  from signature_and_rotation[where hex_encode = "\<lambda>x. x" and hex_decode = Some, OF _ s] s
  show ?thesis by blast
qed

section \<open>Registry credentials\<close>

record registry_index_entry =
  ie_url :: string
  ie_username :: "string option"

type_synonym registry_index = "(string \<times> registry_index_entry) list"

text \<open>SHA-256 with hex encoding of the first 8 bytes, and the JSON codec of the index.\<close>

record registry_codec =
  cd_sha256 :: "string \<Rightarrow> string"
  cd_hex :: "string \<Rightarrow> string"
  cd_to_json :: "registry_index \<Rightarrow> string"
  cd_from_json :: "string \<Rightarrow> registry_index option"

definition registry_key :: "registry_codec \<Rightarrow> string \<Rightarrow> string" where
  "registry_key c url = cd_hex c (take 8 (cd_sha256 c url))"

definition read_registry_index :: "registry_codec \<Rightarrow> secrets_store \<Rightarrow> config_error + registry_index" where
  "read_registry_index c s =
     and_then (store_get s registry_namespace registry_index_name) (\<lambda>raw. case raw of
       Some r \<Rightarrow> ok_or (cd_from_json c r) CfgIndexParse
     | None \<Rightarrow> Inr [])"

definition write_registry_index ::
  "registry_codec \<Rightarrow> secrets_store \<Rightarrow> registry_index \<Rightarrow> secrets_store \<times> (config_error + unit)" where
  "write_registry_index c s idx = store_set s registry_namespace registry_index_name (cd_to_json c idx)"

definition set_registry_credential ::
  "registry_codec \<Rightarrow> secrets_store \<Rightarrow> string \<Rightarrow> string option \<Rightarrow> string \<Rightarrow> secrets_store \<times> (config_error + string)" where
  "set_registry_credential c s url username password =
     (case normalize_registry_url url of
        Inl e \<Rightarrow> (s, Inl e)
      | Inr normalized \<Rightarrow>
          (let key = registry_key c normalized;
               (s1, r1) = store_set s registry_namespace key password
           in (case r1 of
                 Inl e \<Rightarrow> (s1, Inl e)
               | Inr _ \<Rightarrow>
                   (case read_registry_index c s1 of
                      Inl e \<Rightarrow> (s1, Inl e)
                    | Inr idx \<Rightarrow>
                        (let (s2, r2) = write_registry_index c s1
                           (AList.update key \<lparr>ie_url = normalized, ie_username = username\<rparr> idx)
                         in (s2, case r2 of Inl e \<Rightarrow> Inl e | Inr _ \<Rightarrow> Inr normalized))))))"

definition get_registry_credential ::
  "registry_codec \<Rightarrow> secrets_store \<Rightarrow> string \<Rightarrow> config_error + (string option \<times> string) option" where
  "get_registry_credential c s url =
     and_then (normalize_registry_url url) (\<lambda>normalized.
       let key = registry_key c normalized in
       and_then (store_get s registry_namespace key) (\<lambda>password.
         Inr (map_option (\<lambda>p.
           ((case read_registry_index c s of
               Inr idx \<Rightarrow> (case map_of idx key of Some e \<Rightarrow> ie_username e | None \<Rightarrow> None)
             | Inl _ \<Rightarrow> None), p)) password)))"

definition remove_registry_credential ::
  "registry_codec \<Rightarrow> secrets_store \<Rightarrow> string \<Rightarrow> secrets_store \<times> (config_error + bool)" where
  "remove_registry_credential c s url =
     (case normalize_registry_url url of
        Inl e \<Rightarrow> (s, Inl e)
      | Inr normalized \<Rightarrow>
          (let key = registry_key c normalized;
               (s1, r) = store_remove s registry_namespace key
           in (case r of
                 Inl e \<Rightarrow> (s1, Inl e)
               | Inr removed \<Rightarrow>
                   (case (if removed then read_registry_index c s1 else Inl CfgIndexParse) of
                      Inl _ \<Rightarrow> (s1, Inr removed)
                    | Inr idx \<Rightarrow>
                        (let (s2, r2) = write_registry_index c s1 (AList.delete key idx)
                         in (s2, case r2 of Inl e \<Rightarrow> Inl e | Inr _ \<Rightarrow> Inr removed))))))"

record registry_list_entry =
  rl_key :: string
  rl_url :: string
  rl_username :: "string option"

definition list_registry_credentials ::
  "registry_codec \<Rightarrow> secrets_store \<Rightarrow> config_error + registry_list_entry list" where
  "list_registry_credentials c s =
     and_then (read_registry_index c s) (\<lambda>idx.
       Inr (sort_key rl_url (map (\<lambda>(k, e). \<lparr>rl_key = k, rl_url = ie_url e, rl_username = ie_username e\<rparr>) idx)))"

definition codec_ok :: "registry_codec \<Rightarrow> bool" where
  "codec_ok c \<longleftrightarrow> (\<forall>i. cd_from_json c (cd_to_json c i) = Some i) \<and> (\<forall>x. list_all is_lower_hex (cd_hex c x))"

lemma registry_key_not_index: "codec_ok c \<Longrightarrow> registry_key c u \<noteq> registry_index_name"
proof
  assume c: "codec_ok c" and e: "registry_key c u = registry_index_name"
  have "list_all is_lower_hex (registry_key c u)" using c by (simp add: codec_ok_def registry_key_def)
  then have "list_all is_lower_hex registry_index_name" using e by simp
  then show False by (simp add: registry_index_name_def byte_class_defs)
qed

lemma set_registry_credential_steps:
  assumes "set_registry_credential c s url user pw = (s', Inr n)" "codec_ok c"
  obtains idx where "normalize_registry_url url = Inr n" "read_registry_index c s = Inr idx"
    "read_registry_index c s' = Inr (AList.update (registry_key c n) \<lparr>ie_url = n, ie_username = user\<rparr> idx)"
    "\<And>k. k \<noteq> registry_index_name \<Longrightarrow> store_get s' registry_namespace k =
       (if k = registry_key c n then Inr (Some pw) else store_get s registry_namespace k)"
proof -
  note sc = assms(1)[unfolded set_registry_credential_def]
  obtain n' where n': "normalize_registry_url url = Inr n'" using sc by (auto split: sum.splits)
  let ?key = "registry_key c n'"
  obtain s1 r1 where st1: "store_set s registry_namespace ?key pw = (s1, r1)"
    by (cases "store_set s registry_namespace ?key pw")
  note sc = sc[unfolded n' sum.case Let_def st1 prod.case]
  obtain u where r1: "r1 = Inr u" using sc by (cases r1) auto
  note sc = sc[unfolded r1 sum.case]
  obtain idx where idx: "read_registry_index c s1 = Inr idx" using sc by (auto split: sum.splits)
  let ?idx = "AList.update ?key \<lparr>ie_url = n', ie_username = user\<rparr> idx"
  obtain s2 r2 where st2: "write_registry_index c s1 ?idx = (s2, r2)"
    by (cases "write_registry_index c s1 ?idx")
  note sc = sc[unfolded idx sum.case st2 prod.case]
  have r2: "r2 = Inr ()" "s2 = s'" "n' = n" using sc by (auto split: sum.splits)
  have st1': "store_set s registry_namespace ?key pw = (s1, Inr ())" using st1 r1 by simp
  have st2': "store_set s1 registry_namespace registry_index_name (cd_to_json c ?idx) = (s', Inr ())"
    using st2 r2 by (simp add: write_registry_index_def)
  have kne: "?key \<noteq> registry_index_name" using registry_key_not_index[OF assms(2)] .
  have "read_registry_index c s1 = read_registry_index c s"
    using secrets.put_get[OF st1'] kne by (simp add: read_registry_index_def)
  moreover have "read_registry_index c s' = Inr ?idx"
    using secrets.put_get[OF st2'] assms(2) by (simp add: read_registry_index_def codec_ok_def)
  moreover have "store_get s' registry_namespace k =
       (if k = ?key then Inr (Some pw) else store_get s registry_namespace k)" if "k \<noteq> registry_index_name" for k
    using secrets.put_get[OF st1'] secrets.put_get[OF st2'] that by simp
  ultimately show ?thesis using that[of idx] n' idx r2(3) by simp
qed

text \<open>A registry login is found again under every spelling of the registry's URL, with its
  user name and password, and leaves the credentials of every other registry (different storage
  key) as they were.\<close>

theorem registry_login_lookup:
  assumes "codec_ok c" and "set_registry_credential c s url user pw = (s', Inr n)"
    and "normalize_registry_url url' = Inr n"
    and "normalize_registry_url other = Inr m" and "registry_key c m \<noteq> registry_key c n"
  shows "get_registry_credential c s' url' = Inr (Some (user, pw)) \<and>
    get_registry_credential c s' other = get_registry_credential c s other"
proof -
  obtain idx where i: "read_registry_index c s = Inr idx"
    "read_registry_index c s' = Inr (AList.update (registry_key c n) \<lparr>ie_url = n, ie_username = user\<rparr> idx)"
    "\<And>k. k \<noteq> registry_index_name \<Longrightarrow> store_get s' registry_namespace k =
       (if k = registry_key c n then Inr (Some pw) else store_get s registry_namespace k)"
    using set_registry_credential_steps[OF assms(2,1)] by metis
  note kn = registry_key_not_index[OF assms(1)]
  show ?thesis
    using i(3)[OF kn[of n]] i(3)[OF kn[of m]] assms(5)
    by (simp add: get_registry_credential_def assms(3,4) i(1,2) update_conv')
qed

text \<open>A concrete codec, for the witness.\<close>

definition enc_str :: "string \<Rightarrow> string" where
  "enc_str s = concat (map (\<lambda>c. [CHR ''c'', c]) s) @ ''e''"

fun dec_str :: "string \<Rightarrow> (string \<times> string) option" where
  "dec_str [] = None"
| "dec_str [a] = (if a = CHR ''e'' then Some ([], []) else None)"
| "dec_str (a # b # r) =
     (if a = CHR ''e'' then Some ([], b # r) else map_option (\<lambda>(v, t). (b # v, t)) (dec_str r))"

definition enc_entry :: "string \<times> registry_index_entry \<Rightarrow> string" where
  "enc_entry e = enc_str (fst e) @ enc_str (ie_url (snd e)) @
     (case ie_username (snd e) of None \<Rightarrow> ''n'' | Some u \<Rightarrow> ''s'' @ enc_str u)"

fun dec_index :: "nat \<Rightarrow> string \<Rightarrow> registry_index option" where
  "dec_index 0 s = (if s = [] then Some [] else None)"
| "dec_index (Suc n) s =
     (if s = [] then Some []
      else case dec_str s of None \<Rightarrow> None | Some (k, r1) \<Rightarrow>
        (case dec_str r1 of None \<Rightarrow> None | Some (u, r2) \<Rightarrow>
          (case r2 of [] \<Rightarrow> None
           | t # r3 \<Rightarrow>
              if t = CHR ''n'' then map_option (\<lambda>i. (k, \<lparr>ie_url = u, ie_username = None\<rparr>) # i) (dec_index n r3)
              else (case dec_str r3 of None \<Rightarrow> None | Some (w, r4) \<Rightarrow>
                map_option (\<lambda>i. (k, \<lparr>ie_url = u, ie_username = Some w\<rparr>) # i) (dec_index n r4)))))"

lemma dec_enc_str: "dec_str (enc_str s @ t) = Some (s, t)"
proof (induction s)
  case Nil
  then show ?case by (cases t) (simp_all add: enc_str_def)
qed (simp add: enc_str_def)

lemma enc_entry_length: "length (enc_entry e) \<ge> 1"
  by (simp add: enc_entry_def enc_str_def)

lemma dec_enc_index: "length i \<le> n \<Longrightarrow> dec_index n (concat (map enc_entry i)) = Some i"
proof (induction i arbitrary: n)
  case Nil
  then show ?case by (cases n) simp_all
next
  case (Cons e i)
  then obtain m where n: "n = Suc m" "length i \<le> m" by (cases n) auto
  obtain k x where e: "e = (k, x)" by (cases e)
  have ne: "concat (map enc_entry (e # i)) \<noteq> []" using enc_entry_length[of e] by auto
  have "dec_index n (concat (map enc_entry (e # i))) = Some ((k, \<lparr>ie_url = ie_url x, ie_username = ie_username x\<rparr>) # i)"
    using ne Cons.IH[OF n(2)] unfolding n(1) dec_index.simps
    by (cases "ie_username x") (simp_all add: e enc_entry_def[of "(k, x)"] dec_enc_str)
  then show ?case using e by simp
qed

definition sample_codec :: registry_codec where
  "sample_codec = \<lparr>cd_sha256 = (\<lambda>x. x), cd_hex = map (\<lambda>c. if is_lower_hex c then c else CHR ''0''),
     cd_to_json = (\<lambda>i. concat (map enc_entry i)), cd_from_json = (\<lambda>s. dec_index (length s) s)\<rparr>"

lemma sample_codec_ok: "codec_ok sample_codec"
proof -
  have "length i \<le> length (concat (map enc_entry i))" for i
  proof (induction i)
    case (Cons e i)
    then show ?case using enc_entry_length[of e] by simp
  qed simp
  moreover have "list_all is_lower_hex (map (\<lambda>c. if is_lower_hex c then c else CHR ''0'') x)" for x
    by (induction x) (auto simp: byte_class_defs)
  ultimately show ?thesis by (simp add: codec_ok_def sample_codec_def dec_enc_index)
qed

theorem registry_login_lookup_witness:
  "\<exists>s'. set_registry_credential sample_codec sample_store ''https://GHCR.io/'' (Some ''me'') ''pw'' = (s', Inr ''ghcr.io'')
     \<and> get_registry_credential sample_codec s' ''ghcr.io'' = Inr (Some (Some ''me'', ''pw''))"
proof -
  have "snd (set_registry_credential sample_codec sample_store ''https://GHCR.io/'' (Some ''me'') ''pw'') = Inr ''ghcr.io''"
    by code_simp
  then obtain s' where s: "set_registry_credential sample_codec sample_store ''https://GHCR.io/'' (Some ''me'') ''pw'' = (s', Inr ''ghcr.io'')"
    by (metis prod.collapse)
  have n: "normalize_registry_url ''ghcr.io'' = Inr ''ghcr.io''" "normalize_registry_url ''abc'' = Inr ''abc''"
    "registry_key sample_codec ''abc'' \<noteq> registry_key sample_codec ''ghcr.io''" by code_simp+
  show ?thesis using registry_login_lookup[OF sample_codec_ok s n] s by blast
qed

end
