(* ===== verification/Registry.thy ===== *)
theory Registry
  imports Secrets
begin

text \<open>
  \<open>registry.rs\<close>: the table of registries a deploy authenticates with (stored logins before TOML
  tokens) and the credential chosen for an image reference by its host.  Hosts are lowered on ASCII
  letters, as in \<open>Config\<close>.
\<close>

datatype registry_cred_source = FromToml | FromStore

record resolved_registry =
  res_url :: string
  res_username :: "string option"
  res_password :: string
  res_source :: registry_cred_source

fun store_registries ::
  "registry_codec \<Rightarrow> secrets_store \<Rightarrow> registry_list_entry list \<Rightarrow> resolved_registry list \<Rightarrow> string list
     \<Rightarrow> resolved_registry list \<times> string list" where
  "store_registries c s [] out seen = (out, seen)"
| "store_registries c s (e # es) out seen =
     (case get_registry_credential c s (rl_url e) of
        Inr (Some (username, password)) \<Rightarrow>
          store_registries c s es
            (out @ [\<lparr>res_url = rl_url e, res_username = username, res_password = password, res_source = FromStore\<rparr>])
            (List.insert (rl_url e) seen)
      | _ \<Rightarrow> store_registries c s es out seen)"

fun toml_registries ::
  "registry_entry list \<Rightarrow> resolved_registry list \<Rightarrow> string list \<Rightarrow> resolved_registry list" where
  "toml_registries [] out seen = out"
| "toml_registries (e # es) out seen =
     (if List.member seen (rg_url e) then toml_registries es out seen
      else (case rg_token e of
              Some token \<Rightarrow>
                toml_registries es
                  (out @ [\<lparr>res_url = rg_url e, res_username = rg_username e, res_password = token, res_source = FromToml\<rparr>])
                  (List.insert (rg_url e) seen)
            | None \<Rightarrow> toml_registries es out seen))"

definition merged_registry_table ::
  "registry_codec \<Rightarrow> slip_config \<Rightarrow> secrets_store \<Rightarrow> resolved_registry list" where
  "merged_registry_table c config s =
     (let (out, seen) = (case list_registry_credentials c s of
                           Inr entries \<Rightarrow> store_registries c s entries [] []
                         | Inl _ \<Rightarrow> ([], []))
      in toml_registries (map snd (sc_registries config)) out seen)"

definition normalize_image_ref :: "string \<Rightarrow> string \<times> string" where
  "normalize_image_ref image_ref =
     (let without_digest = (case rfind_idx (\<lambda>c. c = CHR ''@'') image_ref of
                              Some at \<Rightarrow> take at image_ref | None \<Rightarrow> image_ref);
          without_tag = (case rfind_idx (\<lambda>c. c = CHR '':'') without_digest of
                           Some colon \<Rightarrow>
                             (let is_tag = (case rfind_idx (\<lambda>c. c = CHR ''/'') without_digest of
                                              Some slash \<Rightarrow> colon > slash | None \<Rightarrow> True)
                              in if is_tag then take colon without_digest else without_digest)
                         | None \<Rightarrow> without_digest)
      in if List.member without_tag (CHR ''/'') then
           (let first_seg = hd (split_on (CHR ''/'') without_tag);
                is_host = List.member first_seg (CHR ''.'') \<or> List.member first_seg (CHR '':'') \<or> first_seg = ''localhost''
            in if is_host then
                 (let host = ascii_lowercase first_seg
                  in (host, host @ drop (length first_seg) without_tag))
               else (''docker.io'', ''docker.io/'' @ without_tag))
         else (''docker.io'', ''docker.io/library/'' @ without_tag))"

fun find_registry :: "string \<Rightarrow> resolved_registry list \<Rightarrow> (string \<times> string) option" where
  "find_registry host [] = None"
| "find_registry host (r # rs) =
     (if res_url r = host
      then Some (case res_username r of Some u \<Rightarrow> u | None \<Rightarrow> ''slip'', res_password r)
      else find_registry host rs)"

definition resolve_registry_credential :: "string \<Rightarrow> resolved_registry list \<Rightarrow> (string \<times> string) option" where
  "resolve_registry_credential image_ref registries = find_registry (fst (normalize_image_ref image_ref)) registries"

section \<open>Precedence\<close>

lemma store_registries_spec:
  "store_registries c s es out seen = (out', seen') \<Longrightarrow> (\<forall>u. u \<in> set seen \<longleftrightarrow> u \<in> res_url ` set out) \<Longrightarrow>
     (\<exists>new. out' = out @ new \<and> (\<forall>r\<in>set new. res_source r = FromStore \<and>
        get_registry_credential c s (res_url r) = Inr (Some (res_username r, res_password r))))
     \<and> (\<forall>u. u \<in> set seen' \<longleftrightarrow> u \<in> res_url ` set out')
     \<and> (\<forall>e\<in>set es. \<forall>x. get_registry_credential c s (rl_url e) = Inr (Some x) \<longrightarrow> rl_url e \<in> set seen')
     \<and> set seen \<subseteq> set seen'"
proof (induction es arbitrary: out seen)
  case (Cons e es)
  show ?case
  proof (cases "\<exists>u p. get_registry_credential c s (rl_url e) = Inr (Some (u, p))")
    case True
    then obtain u p where g: "get_registry_credential c s (rl_url e) = Inr (Some (u, p))" by blast
    let ?r = "\<lparr>res_url = rl_url e, res_username = u, res_password = p, res_source = FromStore\<rparr>"
    from g Cons.prems(1) have st: "store_registries c s es (out @ [?r]) (List.insert (rl_url e) seen) = (out', seen')"
      by simp
    have "\<forall>u. u \<in> set (List.insert (rl_url e) seen) \<longleftrightarrow> u \<in> res_url ` set (out @ [?r])"
      using Cons.prems(2) by auto
    from Cons.IH[OF st this] show ?thesis using g by fastforce
  next
    case False
    then have "store_registries c s es out seen = (out', seen')"
      using Cons.prems(1) by (auto split: sum.splits option.splits)
    from Cons.IH[OF this Cons.prems(2)] False show ?thesis by fastforce
  qed
qed auto

lemma toml_registries_prefix: "\<exists>new. toml_registries es out seen = out @ new \<and> (\<forall>r\<in>set new. res_url r \<notin> set seen
    \<and> res_source r = FromToml \<and> (\<exists>e\<in>set es. rg_url e = res_url r \<and> rg_token e = Some (res_password r)))"
proof (induction es out seen rule: toml_registries.induct)
  case (2 e es out seen)
  then show ?case by (cases "List.member seen (rg_url e)"; cases "rg_token e") fastforce+
qed simp

lemma find_registry_append:
  "find_registry h (a @ b) = (case find_registry h a of Some x \<Rightarrow> Some x | None \<Rightarrow> find_registry h b)"
  by (induction a) auto

lemma find_registry_None_iff: "find_registry h rs = None \<longleftrightarrow> h \<notin> res_url ` set rs"
  by (induction rs) auto

lemma find_registry_mem:
  "find_registry h rs = Some (u, p) \<Longrightarrow> \<exists>r\<in>set rs. res_url r = h \<and> res_password r = p
     \<and> u = (case res_username r of Some x \<Rightarrow> x | None \<Rightarrow> ''slip'')"
  by (induction rs) (auto split: if_splits option.splits)

text \<open>The credential used for a pull belongs to the image's own registry host, and a stored
  login for that host wins over a TOML token: whenever a login for the host is listed and
  readable, the password sent is the stored one.\<close>

theorem pull_credential_precedence:
  assumes "list_registry_credentials c s = Inr entries" and "e \<in> set entries"
    and "rl_url e = fst (normalize_image_ref img_ref)"
    and "get_registry_credential c s (rl_url e) = Inr (Some (user, pw))"
  shows "resolve_registry_credential img_ref (merged_registry_table c config s)
    = Some (case user of Some u \<Rightarrow> u | None \<Rightarrow> ''slip'', pw)"
proof -
  obtain out seen where st: "store_registries c s entries [] [] = (out, seen)"
    by (cases "store_registries c s entries [] []")
  have "\<forall>u. u \<in> set [] \<longleftrightarrow> u \<in> res_url ` set []" by simp
  from store_registries_spec[OF st this] have o: "\<forall>r\<in>set out. res_source r = FromStore \<and>
        get_registry_credential c s (res_url r) = Inr (Some (res_username r, res_password r))"
    and seen: "\<forall>u. u \<in> set seen \<longleftrightarrow> u \<in> res_url ` set out" "rl_url e \<in> set seen"
    using assms(2,4) by auto
  obtain new where t: "toml_registries (map snd (sc_registries config)) out seen = out @ new"
    using toml_registries_prefix by blast
  have "find_registry (rl_url e) out \<noteq> None" using seen by (simp add: find_registry_None_iff)
  then obtain u p where f: "find_registry (rl_url e) out = Some (u, p)" by auto
  from find_registry_mem[OF f] o assms(4) have "(u, p) = (case user of Some u \<Rightarrow> u | None \<Rightarrow> ''slip'', pw)" by auto
  then show ?thesis
    using f by (simp add: resolve_registry_credential_def merged_registry_table_def assms(1) st t
        find_registry_append assms(3)[symmetric])
qed

definition sample_login_store :: secrets_store where
  "sample_login_store = fst (set_registry_credential sample_codec sample_store ''ghcr.io'' (Some ''me'') ''stored'')"

definition sample_toml_config :: slip_config where
  "sample_toml_config = \<lparr>sc_caddy = \<lparr>cc_admin_api = [], cc_acme_email = None, cc_acme_ca = None, cc_tls = None,
       cc_reconcile_interval = secs 45\<rparr>, sc_auth_secret = [],
     sc_registries = [(''ghcr'', \<lparr>rg_url = ''ghcr.io'', rg_username = None, rg_token = Some ''toml''\<rparr>)],
     sc_preview = None, sc_deploy = None\<rparr>"

theorem pull_credential_precedence_witness:
  "resolve_registry_credential ''GHCR.io/me/web:v1'' (merged_registry_table sample_codec sample_toml_config sample_login_store)
     = Some (''me'', ''stored'')"
proof -
  let ?e = "\<lparr>rl_key = registry_key sample_codec ''ghcr.io'', rl_url = ''ghcr.io'', rl_username = Some ''me''\<rparr>"
  have l: "list_registry_credentials sample_codec sample_login_store = Inr [?e]" by code_simp
  have m: "?e \<in> set [?e]" by simp
  have h: "rl_url ?e = fst (normalize_image_ref ''GHCR.io/me/web:v1'')" by code_simp
  have g: "get_registry_credential sample_codec sample_login_store (rl_url ?e) = Inr (Some (Some ''me'', ''stored''))"
    by code_simp
  from pull_credential_precedence[OF l m h g] show ?thesis by simp
qed

end
