(* ===== verification/Health.thy ===== *)
theory Health
  imports Config
begin

text \<open>
  \<open>health.rs\<close>: the polling health check that gates a traffic switch.  The answers of the probed
  endpoint are an argument (attempt number to outcome); the checker returns its result together
  with the sleeps and requests it performed.
\<close>

datatype probe_result = ProbeResponse nat | ProbeFailed | ProbeTimedOut

datatype health_event = SleepFor duration | ProbeUrl string

datatype health_error =
    UnexpectedStatus string nat string nat
  | Unhealthy nat string

definition status_matches :: "nat \<Rightarrow> status_expectation option \<Rightarrow> bool" where
  "status_matches status expected =
     (case expected of
        Some e \<Rightarrow> status_accepts e status
      | None \<Rightarrow> status_accepts default_expectation status)"

fun check_loop ::
  "(nat \<Rightarrow> probe_result) \<Rightarrow> health_config \<Rightarrow> status_expectation \<Rightarrow> string \<Rightarrow> nat \<Rightarrow> nat \<Rightarrow> nat option
     \<Rightarrow> health_event list \<times> (health_error + unit)" where
  "check_loop probe cfg expectation url attempt 0 last_status =
     ([], Inl (case last_status of
                 Some actual \<Rightarrow> UnexpectedStatus (status_canonical expectation) actual url (hc_retries cfg)
               | None \<Rightarrow> Unhealthy (hc_retries cfg) url))"
| "check_loop probe cfg expectation url attempt (Suc n) last_status =
     (let (success, last') =
            (case probe attempt of
               ProbeResponse status \<Rightarrow> (status_matches status (Some expectation), Some status)
             | ProbeFailed \<Rightarrow> (False, last_status)
             | ProbeTimedOut \<Rightarrow> (False, last_status))
      in if success then ([ProbeUrl url], Inr ())
         else let (evs, r) = check_loop probe cfg expectation url (attempt + 1) n last'
              in (ProbeUrl url # (if attempt < hc_retries cfg then [SleepFor (hc_interval cfg)] else []) @ evs, r))"

definition health_check ::
  "(nat \<Rightarrow> probe_result) \<Rightarrow> nat \<Rightarrow> health_config \<Rightarrow> health_event list \<times> (health_error + unit)" where
  "health_check probe host_port cfg =
     (case hc_path cfg of
        None \<Rightarrow> ([SleepFor (hc_start_period cfg)], Inr ())
      | Some path \<Rightarrow>
          (let url = ''http://127.0.0.1:'' @ show_nat host_port @ path;
               expectation = (case hc_expect_status cfg of Some e \<Rightarrow> e | None \<Rightarrow> default_expectation);
               (evs, r) = check_loop probe cfg expectation url 1 (hc_retries cfg) None
           in (SleepFor (hc_start_period cfg) # evs, r)))"

section \<open>Behaviour\<close>

definition accepted :: "(nat \<Rightarrow> probe_result) \<Rightarrow> status_expectation \<Rightarrow> nat \<Rightarrow> bool" where
  "accepted probe e k = (case probe k of ProbeResponse s \<Rightarrow> status_accepts e s | _ \<Rightarrow> False)"

definition responses :: "(nat \<Rightarrow> probe_result) \<Rightarrow> nat list \<Rightarrow> nat list" where
  "responses probe ks = List.map_filter (\<lambda>k. case probe k of ProbeResponse s \<Rightarrow> Some s | _ \<Rightarrow> None) ks"

definition probe_count :: "health_event list \<Rightarrow> nat" where
  "probe_count evs = length (filter (\<lambda>e. case e of ProbeUrl _ \<Rightarrow> True | SleepFor _ \<Rightarrow> False) evs)"

definition final_error :: "health_config \<Rightarrow> status_expectation \<Rightarrow> string \<Rightarrow> nat option \<Rightarrow> nat list \<Rightarrow> health_error" where
  "final_error cfg e url prev rs =
     (case (if rs = [] then prev else Some (last rs)) of
        Some actual \<Rightarrow> UnexpectedStatus (status_canonical e) actual url (hc_retries cfg)
      | None \<Rightarrow> Unhealthy (hc_retries cfg) url)"

lemma probe_count_simps [simp]:
  "probe_count [] = 0" "probe_count (ProbeUrl u # evs) = Suc (probe_count evs)"
  "probe_count (SleepFor d # evs) = probe_count evs"
  by (simp_all add: probe_count_def)

lemma responses_Cons: "responses probe (k # ks) =
    (case probe k of ProbeResponse s \<Rightarrow> s # responses probe ks | _ \<Rightarrow> responses probe ks)"
  by (simp add: responses_def map_filter_simps split: probe_result.split)

lemma find_upt_lower: "find P [a..<b] = Some k \<Longrightarrow> a \<le> k"
proof -
  assume "find P [a..<b] = Some k"
  then have "k \<in> set [a..<b]" unfolding find_Some_iff by (metis nth_mem)
  then show ?thesis by simp
qed

lemma check_loop_spec:
  "(case find (accepted probe e) [a..<a + n] of
      Some k \<Rightarrow> snd (check_loop probe cfg e url a n prev) = Inr () \<and>
                probe_count (fst (check_loop probe cfg e url a n prev)) = k - a + 1
    | None \<Rightarrow> snd (check_loop probe cfg e url a n prev) =
                Inl (final_error cfg e url prev (responses probe [a..<a + n])) \<and>
              probe_count (fst (check_loop probe cfg e url a n prev)) = n)"
proof (induction n arbitrary: a prev)
  case 0
  then show ?case by (simp add: final_error_def responses_def map_filter_simps)
next
  case (Suc n)
  have up: "[a..<a + Suc n] = a # [a + 1..<(a + 1) + n]" by (simp add: upt_conv_Cons)
  show ?case
  proof (cases "accepted probe e a")
    case True
    then show ?thesis unfolding up
      by (auto simp: accepted_def status_matches_def split: probe_result.splits)
  next
    case False
    let ?prev = "case probe a of ProbeResponse s \<Rightarrow> Some s | _ \<Rightarrow> prev"
    have step: "check_loop probe cfg e url a (Suc n) prev =
        (let (evs, r) = check_loop probe cfg e url (a + 1) n ?prev
         in (ProbeUrl url # (if a < hc_retries cfg then [SleepFor (hc_interval cfg)] else []) @ evs, r))"
      using False by (auto simp: accepted_def status_matches_def split: probe_result.splits)
    have fe: "final_error cfg e url prev (responses probe (a # ks)) = final_error cfg e url ?prev (responses probe ks)" for ks
      by (auto simp: final_error_def responses_Cons split: probe_result.splits)
    note k = find_upt_lower[of "accepted probe e" "a + 1" "(a + 1) + n"]
    show ?thesis
      using Suc.IH[of "a + 1" ?prev] False k
      unfolding up step fe by (auto simp: case_prod_beta Let_def Suc_diff_le simp del: upt_Suc split: option.splits)
  qed
qed

text \<open>The health check returns Ok exactly at the first attempt, among the configured number of
  retries, whose response status is accepted, after exactly that many requests; otherwise it
  fails after exactly \<open>retries\<close> requests, with the last observed status if any response was ever
  received and as unhealthy if none was.\<close>

theorem health_check_spec:
  assumes "hc_path cfg = Some path"
    and "e = (case hc_expect_status cfg of Some x \<Rightarrow> x | None \<Rightarrow> default_expectation)"
    and "url = ''http://127.0.0.1:'' @ show_nat port @ path"
  shows "case find (accepted probe e) [1..<1 + hc_retries cfg] of
      Some k \<Rightarrow> snd (health_check probe port cfg) = Inr () \<and> probe_count (fst (health_check probe port cfg)) = k
    | None \<Rightarrow> snd (health_check probe port cfg) =
                Inl (final_error cfg e url None (responses probe [1..<1 + hc_retries cfg])) \<and>
              probe_count (fst (health_check probe port cfg)) = hc_retries cfg"
proof -
  have hc: "snd (health_check probe port cfg) = snd (check_loop probe cfg e url 1 (hc_retries cfg) None)"
    "probe_count (fst (health_check probe port cfg)) = probe_count (fst (check_loop probe cfg e url 1 (hc_retries cfg) None))"
    by (simp_all add: health_check_def assms case_prod_beta Let_def)
  note k = find_upt_lower[of "accepted probe e" 1 "1 + hc_retries cfg"]
  show ?thesis
    using check_loop_spec[where probe = probe and e = e and a = 1 and n = "hc_retries cfg" and cfg = cfg
        and url = url and prev = None] k
    unfolding hc by (auto simp del: upt_Suc split: option.splits)
qed

definition sample_health :: health_config where
  "sample_health = default_health\<lparr>hc_path := Some ''/healthz'', hc_retries := 3\<rparr>"

theorem health_check_spec_witness:
  "snd (health_check (\<lambda>k. if k < 3 then ProbeFailed else ProbeResponse 204) 8080 sample_health) = Inr () \<and>
   snd (health_check (\<lambda>k. if k < 3 then ProbeResponse 500 else ProbeTimedOut) 8080 sample_health) =
     Inl (UnexpectedStatus ''200-399'' 500 ''http://127.0.0.1:8080/healthz'' 3)"
proof -
  have p: "hc_path sample_health = Some ''/healthz''" "hc_retries sample_health = 3"
    "default_expectation = (case hc_expect_status sample_health of Some x \<Rightarrow> x | None \<Rightarrow> default_expectation)"
    "''http://127.0.0.1:8080/healthz'' = ''http://127.0.0.1:'' @ show_nat 8080 @ ''/healthz''"
    by code_simp+
  have f: "find (accepted (\<lambda>k. if k < 3 then ProbeFailed else ProbeResponse 204) default_expectation) [1..<1 + hc_retries sample_health] = Some 3"
    "find (accepted (\<lambda>k. if k < 3 then ProbeResponse 500 else ProbeTimedOut) default_expectation) [1..<1 + hc_retries sample_health] = None"
    "final_error sample_health default_expectation ''http://127.0.0.1:8080/healthz'' None
       (responses (\<lambda>k. if k < 3 then ProbeResponse 500 else ProbeTimedOut) [1..<1 + hc_retries sample_health]) =
     UnexpectedStatus ''200-399'' 500 ''http://127.0.0.1:8080/healthz'' 3"
    by code_simp+
  note h = health_check_spec[OF p(1,3,4)]
  show ?thesis
    using h[of "\<lambda>k. if k < 3 then ProbeFailed else ProbeResponse 204"]
      h[of "\<lambda>k. if k < 3 then ProbeResponse 500 else ProbeTimedOut"]
    unfolding f by simp
qed

end
