(* ===== verification/Caddy.thy ===== *)
theory Caddy
  imports Config
begin

text \<open>
  \<open>caddy.rs\<close>: the client of Caddy's admin API, which registers the routes and the TLS automation
  policies that slip owns.  Caddy itself is outside the program: its admin API is the record
  \<open>caddy_ops\<close> of operations on an abstract server state, whose documented effect is stated in
  \<open>CaddyTable\<close>.  A body that fails to parse is the default value the code falls back to.  IPv6
  parsing is a parameter.
\<close>

section \<open>Addresses and host classification\<close>

datatype ip_addr = V4 "32 word" | V6 "128 word"

definition parse_octet :: "string \<Rightarrow> nat option" where
  "parse_octet s =
     (if s \<noteq> [] \<and> length s \<le> 3 \<and> list_all is_digit s \<and> (length s = 1 \<or> hd s \<noteq> CHR ''0'') \<and> digits_val s \<le> 255
      then Some (digits_val s) else None)"

definition parse_ipv4 :: "string \<Rightarrow> ip_addr option" where
  "parse_ipv4 s =
     (case map parse_octet (split_on (CHR ''.'') s) of
        [Some a, Some b, Some c, Some d] \<Rightarrow> Some (V4 (of_nat (((a * 256 + b) * 256 + c) * 256 + d)))
      | _ \<Rightarrow> None)"

definition parse_ip :: "(string \<Rightarrow> 128 word option) \<Rightarrow> string \<Rightarrow> ip_addr option" where
  "parse_ip parse_v6 s =
     (case parse_ipv4 s of Some ip \<Rightarrow> Some ip | None \<Rightarrow> map_option V6 (parse_v6 s))"

definition is_cgnat_v4 :: "32 word \<Rightarrow> bool" where
  "is_cgnat_v4 n \<longleftrightarrow> and n 0xffc00000 = 0x64400000"

definition is_ula_v6 :: "128 word \<Rightarrow> bool" where
  "is_ula_v6 n \<longleftrightarrow> and n 0xfe000000000000000000000000000000 = 0xfc000000000000000000000000000000"

definition is_link_local_v6 :: "128 word \<Rightarrow> bool" where
  "is_link_local_v6 n \<longleftrightarrow> and n 0xffc00000000000000000000000000000 = 0xfe800000000000000000000000000000"

text \<open>The standard library's predicates on \<open>Ipv4Addr\<close>.\<close>

definition v4_loopback :: "32 word \<Rightarrow> bool" where "v4_loopback n \<longleftrightarrow> and n 0xff000000 = 0x7f000000"
definition v4_link_local :: "32 word \<Rightarrow> bool" where "v4_link_local n \<longleftrightarrow> and n 0xffff0000 = 0xa9fe0000"
definition v4_private :: "32 word \<Rightarrow> bool" where
  "v4_private n \<longleftrightarrow> and n 0xff000000 = 0x0a000000 \<or> and n 0xfff00000 = 0xac100000 \<or> and n 0xffff0000 = 0xc0a80000"

fun is_private_or_cgnat :: "ip_addr \<Rightarrow> bool" where
  "is_private_or_cgnat (V4 n) = (v4_loopback n \<or> v4_link_local n \<or> v4_private n \<or> is_cgnat_v4 n)"
| "is_private_or_cgnat (V6 n) = (n = 1 \<or> n = 0 \<or> is_ula_v6 n \<or> is_link_local_v6 n)"

datatype tls_classification = NonPublic | Public

definition classify_host_tls :: "(string \<Rightarrow> 128 word option) \<Rightarrow> string \<Rightarrow> tls_classification" where
  "classify_host_tls v6 host =
     (if is_ts_net_host host then Public
      else if list_ex (\<lambda>tld. ends_with tld host) non_public_tlds then NonPublic
      else (case parse_ip v6 host of
              Some ip \<Rightarrow> if is_private_or_cgnat ip then NonPublic else Public
            | None \<Rightarrow> Public))"

datatype route_tls_decision = ApplyTls tls_strategy | LeaveDefault

definition resolve_route_tls ::
  "(string \<Rightarrow> 128 word option) \<Rightarrow> string \<Rightarrow> tls_strategy option \<Rightarrow> route_tls_decision" where
  "resolve_route_tls v6 host explicit =
     (case explicit of
        Some s \<Rightarrow> ApplyTls s
      | None \<Rightarrow> (case classify_host_tls v6 host of
                   NonPublic \<Rightarrow> ApplyTls TlsInternal
                 | Public \<Rightarrow> LeaveDefault))"

record cert_probe =
  cp_fingerprint :: string
  cp_not_after :: "string option"

definition cert_renewed :: "cert_probe option \<Rightarrow> cert_probe option \<Rightarrow> bool" where
  "cert_renewed before after =
     (case (before, after) of
        (None, Some _) \<Rightarrow> True
      | (Some b, Some a) \<Rightarrow>
          cp_fingerprint b \<noteq> cp_fingerprint a \<or>
          (case (cp_not_after b, cp_not_after a) of
             (Some bn, Some an) \<Rightarrow> an > bn
           | (None, Some _) \<Rightarrow> True
           | _ \<Rightarrow> False)
      | _ \<Rightarrow> False)"

section \<open>TLS policies\<close>

definition default_acme_ca :: string where
  "default_acme_ca = ''https://acme-v02.api.letsencrypt.org/directory''"

definition staging_acme_ca :: string where
  "staging_acme_ca = ''https://acme-staging-v02.api.letsencrypt.org/directory''"

fun toml_to_json :: "toml_value \<Rightarrow> json" where
  "toml_to_json (TomlString s) = JStr s"
| "toml_to_json (TomlOther j) = j"

definition with_email :: "string option \<Rightarrow> json \<Rightarrow> json" where
  "with_email email issuer = (case email of Some e \<Rightarrow> jput ''email'' (JStr e) issuer | None \<Rightarrow> issuer)"

text \<open>\<open>None\<close> is the panic of \<open>expect\<close> when the DNS strategy has no configuration.\<close>

definition build_tls_policy ::
  "string list \<Rightarrow> tls_strategy \<Rightarrow> caddy_tls_config option \<Rightarrow> string option \<Rightarrow> string option \<Rightarrow> json option" where
  "build_tls_policy subjects strategy dns_config acme_email ca_url =
     (let subj = JArr (map JStr subjects) in
      case strategy of
        TlsInternal \<Rightarrow>
          Some (jobj [(''subjects'', subj), (''issuers'', JArr [jobj [(''module'', JStr ''internal'')]])])
      | TlsAcme \<Rightarrow>
          (let ca = (case ca_url of Some u \<Rightarrow> u | None \<Rightarrow> default_acme_ca);
               issuer = with_email acme_email (jobj [(''module'', JStr ''acme''), (''ca'', JStr ca)])
           in Some (jobj [(''subjects'', subj), (''issuers'', JArr [issuer])]))
      | TlsCloudflareDns01 \<Rightarrow>
          (case dns_config of
             None \<Rightarrow> None
           | Some dns \<Rightarrow>
               (let ca = (case ca_url of Some u \<Rightarrow> u
                          | None \<Rightarrow> if ct_staging dns then staging_acme_ca else default_acme_ca);
                    provider = foldl (\<lambda>p kv. jput (fst kv) (toml_to_json (snd kv)) p)
                                 (jobj [(''name'', JStr (ct_dns_provider dns))])
                                 (case ct_dns_provider_config dns of Some t \<Rightarrow> t | None \<Rightarrow> []);
                    issuer = with_email acme_email
                      (jobj [(''module'', JStr ''acme''), (''ca'', JStr ca),
                        (''challenges'', jobj [(''dns'',
                           jobj [(''provider'', provider), (''propagation_delay'', JStr (ct_propagation_delay dns))])])])
                in Some (jobj [(''subjects'', subj), (''issuers'', JArr [issuer])])))
      | TlsTailscale \<Rightarrow>
          Some (jobj [(''subjects'', subj), (''get_certificate'', JArr [jobj [(''via'', JStr ''tailscale'')]])]))"

definition star_replaced :: "string \<Rightarrow> string" where
  "star_replaced s = concat (map (\<lambda>c. if c = CHR ''*'' then ''star'' else [c]) s)"

text \<open>One \<open>-\<close> per other character: the continuation bytes of a multi-byte character add none.\<close>

definition policy_id_bytes :: "char \<Rightarrow> string" where
  "policy_id_bytes c =
     (if is_alnum c \<or> c = CHR ''-'' \<or> c = CHR ''.'' then [c]
      else if CHR 0x80 \<le> c \<and> c \<le> CHR 0xBF then [] else ''-'')"

definition tls_policy_id :: "string \<Rightarrow> string" where
  "tls_policy_id subject = ''slip-tls-'' @ concat (map policy_id_bytes (star_replaced subject))"

definition is_wildcard_match :: "string \<Rightarrow> string \<Rightarrow> bool" where
  "is_wildcard_match wildcard domain =
     (case strip_prefix ''*.'' wildcard of
        Some sfx \<Rightarrow> ends_with sfx domain \<and> length domain > length sfx \<and>
                    ends_with ''.'' (take (length domain - length sfx) domain)
      | None \<Rightarrow> False)"

section \<open>The admin API\<close>

datatype http_result = HttpTransport | HttpStatus nat

definition is_success :: "nat \<Rightarrow> bool" where
  "is_success s \<longleftrightarrow> 200 \<le> s \<and> s < 300"

record 'c caddy_ops =
  op_patch_id :: "string \<Rightarrow> json \<Rightarrow> 'c \<Rightarrow> 'c \<times> http_result"
  op_post_route :: "json \<Rightarrow> 'c \<Rightarrow> 'c \<times> http_result"
  op_delete_id :: "string \<Rightarrow> 'c \<Rightarrow> 'c \<times> http_result"
  op_get_policies :: "'c \<Rightarrow> http_result \<times> json list"
  op_put_policies :: "'c \<Rightarrow> 'c \<times> http_result"
  op_post_policy :: "json \<Rightarrow> 'c \<Rightarrow> 'c \<times> http_result"
  op_get_config :: "'c \<Rightarrow> http_result \<times> json"
  op_load :: "json \<Rightarrow> 'c \<Rightarrow> 'c \<times> http_result"
  op_get_modules :: "'c \<Rightarrow> http_result \<times> json option"

datatype caddy_error =
    CaddyHttp
  | CaddyBootstrapFailed nat
  | CaddyRouteUpdateFailed nat
  | CaddyTlsConfigFailed nat
  | CaddyTlsPolicyConflict string string
  | CaddyListenerConflict string string
  | CaddyPanic

record route =
  route_hostname :: string
  route_port :: nat

section \<open>Routes\<close>

definition route_id :: "string \<Rightarrow> nat \<Rightarrow> string" where
  "route_id app i = ''slip-'' @ app @ ''-'' @ show_nat i"

definition proxy_route :: "string \<Rightarrow> string \<Rightarrow> string \<Rightarrow> json" where
  "proxy_route rid host dial =
     jobj [(''@id'', JStr rid),
       (''match'', JArr [jobj [(''host'', JArr [JStr host])]]),
       (''handle'', JArr [jobj [(''handler'', JStr ''subroute''),
          (''routes'', JArr [jobj [(''handle'', JArr [jobj [(''handler'', JStr ''reverse_proxy''),
             (''upstreams'', JArr [jobj [(''dial'', JStr dial)]])]])]])]]),
       (''terminal'', JBool True)]"

definition route_body :: "string \<Rightarrow> nat \<Rightarrow> route \<Rightarrow> json" where
  "route_body app i r = proxy_route (route_id app i) (route_hostname r) (''localhost:'' @ show_nat (route_port r))"

text \<open>PATCH by id, falling back to POST when the answer is not a success.\<close>

definition put_route :: "'c caddy_ops \<Rightarrow> string \<Rightarrow> json \<Rightarrow> 'c \<Rightarrow> 'c \<times> (caddy_error + unit)" where
  "put_route ops rid body c =
     (let (c1, h1) = op_patch_id ops rid body c in
      case h1 of
        HttpTransport \<Rightarrow> (c1, Inl CaddyHttp)
      | HttpStatus s1 \<Rightarrow>
          if is_success s1 then (c1, Inr ())
          else (let (c2, h2) = op_post_route ops body c1 in
                case h2 of
                  HttpTransport \<Rightarrow> (c2, Inl CaddyHttp)
                | HttpStatus s2 \<Rightarrow> if is_success s2 then (c2, Inr ()) else (c2, Inl (CaddyRouteUpdateFailed s2))))"

fun set_routes_from ::
  "'c caddy_ops \<Rightarrow> string \<Rightarrow> nat \<Rightarrow> route list \<Rightarrow> 'c \<Rightarrow> 'c \<times> (caddy_error + unit)" where
  "set_routes_from ops app i [] c = (c, Inr ())"
| "set_routes_from ops app i (r # rs) c =
     (let (c1, x) = put_route ops (route_id app i) (route_body app i r) c in
      case x of Inl e \<Rightarrow> (c1, Inl e) | Inr _ \<Rightarrow> set_routes_from ops app (i + 1) rs c1)"

definition set_routes :: "'c caddy_ops \<Rightarrow> string \<Rightarrow> route list \<Rightarrow> 'c \<Rightarrow> 'c \<times> (caddy_error + unit)" where
  "set_routes ops app rs c = set_routes_from ops app 0 rs c"

definition set_route :: "'c caddy_ops \<Rightarrow> string \<Rightarrow> string \<Rightarrow> nat \<Rightarrow> 'c \<Rightarrow> 'c \<times> (caddy_error + unit)" where
  "set_route ops app domain port c = set_routes ops app [\<lparr>route_hostname = domain, route_port = port\<rparr>] c"

fun remove_routes_from :: "'c caddy_ops \<Rightarrow> string \<Rightarrow> nat list \<Rightarrow> 'c \<Rightarrow> 'c \<times> (caddy_error + unit)" where
  "remove_routes_from ops app [] c = (c, Inr ())"
| "remove_routes_from ops app (i # is) c =
     (let (c1, h) = op_delete_id ops (route_id app i) c in
      case h of
        HttpTransport \<Rightarrow> (c1, Inl CaddyHttp)
      | HttpStatus s \<Rightarrow> if is_success s \<or> s = 404 then remove_routes_from ops app is c1
                         else (c1, Inl (CaddyRouteUpdateFailed s)))"

definition remove_routes :: "'c caddy_ops \<Rightarrow> string \<Rightarrow> nat \<Rightarrow> 'c \<Rightarrow> 'c \<times> (caddy_error + unit)" where
  "remove_routes ops app count c = remove_routes_from ops app [0..<count] c"

definition remove_route :: "'c caddy_ops \<Rightarrow> string \<Rightarrow> 'c \<Rightarrow> 'c \<times> (caddy_error + unit)" where
  "remove_route ops app c = remove_routes ops app 1 c"

record route_info =
  ri_app :: string
  ri_domain :: string
  ri_port :: nat

fun caddy_reconcile :: "'c caddy_ops \<Rightarrow> route_info list \<Rightarrow> 'c \<Rightarrow> 'c \<times> (caddy_error + unit)" where
  "caddy_reconcile ops [] c = (c, Inr ())"
| "caddy_reconcile ops (r # rs) c =
     (let (c1, x) = set_routes ops (ri_app r) [\<lparr>route_hostname = ri_domain r, route_port = ri_port r\<rparr>] c in
      case x of Inl e \<Rightarrow> (c1, Inl e) | Inr _ \<Rightarrow> caddy_reconcile ops rs c1)"

section \<open>The TLS policy upsert\<close>

definition json_id :: "json \<Rightarrow> string option" where
  "json_id j = Option.bind (jget ''@id'' j) jstr"

definition policy_subjects :: "json \<Rightarrow> string list" where
  "policy_subjects j =
     (case Option.bind (jget ''subjects'' j) jarr of Some xs \<Rightarrow> List.map_filter jstr xs | None \<Rightarrow> [])"

definition append_tls_policy :: "'c caddy_ops \<Rightarrow> string \<Rightarrow> json \<Rightarrow> 'c \<Rightarrow> 'c \<times> (caddy_error + unit)" where
  "append_tls_policy ops pid policy c =
     (let (c1, h) = op_post_policy ops (jput ''@id'' (JStr pid) policy) c in
      case h of
        HttpTransport \<Rightarrow> (c1, Inl CaddyHttp)
      | HttpStatus s \<Rightarrow> if is_success s then (c1, Inr ()) else (c1, Inl (CaddyTlsConfigFailed s)))"

definition patch_tls_policy_in_place :: "'c caddy_ops \<Rightarrow> string \<Rightarrow> json \<Rightarrow> 'c \<Rightarrow> 'c \<times> (caddy_error + unit)" where
  "patch_tls_policy_in_place ops pid policy c =
     (let (c1, h) = op_patch_id ops pid (jput ''@id'' (JStr pid) policy) c in
      case h of
        HttpTransport \<Rightarrow> (c1, Inl CaddyHttp)
      | HttpStatus s \<Rightarrow>
          if is_success s then (c1, Inr ())
          else if s = 404 then append_tls_policy ops pid policy c1
          else (c1, Inl (CaddyTlsConfigFailed s)))"

text \<open>The scan: the first policy with the owned id ends it; before that, a policy that covers one
  of the subjects is remembered as foreign.\<close>

fun partition_policies :: "string \<Rightarrow> string list \<Rightarrow> json list \<Rightarrow> bool \<Rightarrow> json option \<times> bool" where
  "partition_policies pid subjects [] foreign = (None, foreign)"
| "partition_policies pid subjects (p # ps) foreign =
     (if json_id p = Some pid then (Some p, foreign)
      else partition_policies pid subjects ps
             (foreign \<or> list_ex (\<lambda>s. List.member subjects s) (policy_subjects p)))"

definition upsert_tls_policy :: "'c caddy_ops \<Rightarrow> string list \<Rightarrow> json \<Rightarrow> 'c \<Rightarrow> 'c \<times> (caddy_error + unit)" where
  "upsert_tls_policy ops subjects policy c =
     (let primary = (case subjects of s # _ \<Rightarrow> s | [] \<Rightarrow> ''unknown'');
          pid = tls_policy_id primary;
          (h, body) = op_get_policies ops c
      in case h of
           HttpTransport \<Rightarrow> (c, Inl CaddyHttp)
         | HttpStatus s \<Rightarrow>
             (let policies = (if is_success s then body else []) in
              case partition_policies pid subjects policies False of
                (Some existing, _) \<Rightarrow>
                  if jdel ''@id'' existing = policy then (c, Inr ())
                  else patch_tls_policy_in_place ops pid policy c
              | (None, foreign) \<Rightarrow>
                  if foreign then (c, Inl (CaddyTlsPolicyConflict primary pid))
                  else if policies = [] then
                    (let (c1, h1) = op_put_policies ops c in
                     case h1 of
                       HttpTransport \<Rightarrow> (c1, Inl CaddyHttp)
                     | HttpStatus s1 \<Rightarrow>
                         if \<not> is_success s1 \<and> s1 \<noteq> 409 then (c1, Inl (CaddyTlsConfigFailed s1))
                         else append_tls_policy ops pid policy c1)
                  else append_tls_policy ops pid policy c))"

section \<open>Bootstrap, the deploy webhook and wildcard TLS\<close>

definition slip_listener :: string where "slip_listener = '':443''"

definition slip_server_block :: json where
  "slip_server_block = jobj [(''listen'', JArr [JStr slip_listener]), (''routes'', JArr [])]"

definition claims_listener :: "json \<Rightarrow> bool" where
  "claims_listener server =
     (case Option.bind (jget ''listen'' server) jarr of
        Some ls \<Rightarrow> list_ex (\<lambda>l. jstr l = Some slip_listener) ls
      | None \<Rightarrow> False)"

definition listener_conflict :: "json \<Rightarrow> string option" where
  "listener_conflict config =
     (case jpointer [''apps'', ''http'', ''servers''] config of
        Some (JObj servers) \<Rightarrow>
          map_option fst (List.find (\<lambda>e. fst e \<noteq> ''slip'' \<and> claims_listener (snd e)) servers)
      | _ \<Rightarrow> None)"

text \<open>\<open>entry(k).or_insert({})\<close> followed by the replacement of a value that is no object.\<close>

definition object_at :: "string \<Rightarrow> json \<Rightarrow> json" where
  "object_at k j = (case jget k j of Some v \<Rightarrow> if is_jobj v then v else JObj [] | None \<Rightarrow> JObj [])"

definition bootstrap_config :: "json \<Rightarrow> json" where
  "bootstrap_config config =
     (let root = (if is_jobj config then config else JObj []);
          apps = object_at ''apps'' root;
          http = object_at ''http'' apps;
          servers = object_at ''servers'' http
      in jput ''apps'' (jput ''http'' (jput ''servers'' (jput ''slip'' slip_server_block servers) http) apps) root)"

definition bootstrap :: "'c caddy_ops \<Rightarrow> 'c \<Rightarrow> 'c \<times> (caddy_error + unit)" where
  "bootstrap ops c =
     (let (h, body) = op_get_config ops c in
      case h of
        HttpTransport \<Rightarrow> (c, Inl CaddyHttp)
      | HttpStatus s \<Rightarrow>
          (let config = (if is_success s then body else JNull) in
           if jpointer [''apps'', ''http'', ''servers'', ''slip''] config \<noteq> None then (c, Inr ())
           else (case listener_conflict config of
                   Some name \<Rightarrow> (c, Inl (CaddyListenerConflict name slip_listener))
                 | None \<Rightarrow>
                     (let (c1, h1) = op_load ops (bootstrap_config config) c in
                      case h1 of
                        HttpTransport \<Rightarrow> (c1, Inl CaddyHttp)
                      | HttpStatus s1 \<Rightarrow>
                          if is_success s1 then (c1, Inr ()) else (c1, Inl (CaddyBootstrapFailed s1))))))"

definition deploy_route_id :: string where "deploy_route_id = ''slip-deploy-webhook''"

definition bootstrap_deploy ::
  "'c caddy_ops \<Rightarrow> string option \<Rightarrow> tls_strategy \<Rightarrow> string \<Rightarrow> string option \<Rightarrow> caddy_tls_config option \<Rightarrow>
     string option \<Rightarrow> 'c \<Rightarrow> 'c \<times> (caddy_error + unit)" where
  "bootstrap_deploy ops domain strategy upstream_addr acme_email dns_config ca_url c =
     (case domain of
        None \<Rightarrow> (c, Inr ())
      | Some d \<Rightarrow>
          (let (c1, x) = put_route ops deploy_route_id (proxy_route deploy_route_id d upstream_addr) c in
           case x of
             Inl e \<Rightarrow> (c1, Inl e)
           | Inr _ \<Rightarrow>
               (case build_tls_policy [d] strategy dns_config acme_email ca_url of
                  None \<Rightarrow> (c1, Inl CaddyPanic)
                | Some policy \<Rightarrow> upsert_tls_policy ops [d] policy c1)))"

definition configure_tls :: "'c caddy_ops \<Rightarrow> string \<Rightarrow> caddy_tls_config \<Rightarrow> 'c \<Rightarrow> 'c \<times> (caddy_error + unit)" where
  "configure_tls ops preview_domain tls c =
     (let subjects = [''*.'' @ preview_domain] in
      case build_tls_policy subjects TlsCloudflareDns01 (Some tls) (Some (ct_email tls)) None of
        None \<Rightarrow> (c, Inl CaddyPanic)
      | Some policy \<Rightarrow> upsert_tls_policy ops subjects policy c)"

definition policy_issuer :: "json \<Rightarrow> string" where
  "policy_issuer p =
     (case Option.bind (jget ''issuers'' p) jarr of
        Some (first # _) \<Rightarrow>
          (case Option.bind (jget ''module'' first) jstr of Some m \<Rightarrow> m | None \<Rightarrow> ''unknown'')
      | _ \<Rightarrow> ''unknown'')"

definition policy_covers :: "string \<Rightarrow> json \<Rightarrow> bool" where
  "policy_covers domain p = list_ex (\<lambda>s. domain = s \<or> is_wildcard_match s domain) (policy_subjects p)"

definition get_tls_issuer :: "'c caddy_ops \<Rightarrow> string \<Rightarrow> 'c \<Rightarrow> caddy_error + string option" where
  "get_tls_issuer ops domain c =
     (let (h, body) = op_get_policies ops c in
      case h of
        HttpTransport \<Rightarrow> Inl CaddyHttp
      | HttpStatus s \<Rightarrow>
          if \<not> is_success s then Inr None
          else Inr (map_option policy_issuer (List.find (policy_covers domain) body)))"

definition list_modules :: "'c caddy_ops \<Rightarrow> 'c \<Rightarrow> caddy_error + json" where
  "list_modules ops c =
     (case op_get_modules ops c of
        (HttpStatus s, Some j) \<Rightarrow> if is_success s then Inr j else Inl CaddyHttp
      | _ \<Rightarrow> Inl CaddyHttp)"

datatype check_status = CheckPass | CheckWarn | CheckFail | CheckSkipped

definition parse_caddy_modules :: "string \<Rightarrow> string option \<Rightarrow> check_status" where
  "parse_caddy_modules modules_output required_provider =
     (case required_provider of
        None \<Rightarrow> CheckSkipped
      | Some p \<Rightarrow> if p = [] then CheckSkipped
                  else if sublist (''dns.providers.'' @ p) modules_output then CheckPass else CheckFail)"

text \<open>The binary fallback: no binary, a failing run, or the standard output of a successful one.\<close>

datatype binary_output = NoBinary | BinaryFailed | BinaryOk string

definition has_dns_provider :: "'c caddy_ops \<Rightarrow> binary_output \<Rightarrow> string \<Rightarrow> 'c \<Rightarrow> bool" where
  "has_dns_provider ops binary name c =
     (case list_modules ops c of
        Inr modules \<Rightarrow>
          (case Option.bind (jget ''dns.providers'' modules) jarr of
             Some ps \<Rightarrow> list_ex (\<lambda>p. jstr p = Some name) ps
           | None \<Rightarrow> False)
      | Inl _ \<Rightarrow>
          (case binary of
             BinaryOk out \<Rightarrow> parse_caddy_modules out (Some name) = CheckPass
           | _ \<Rightarrow> False))"

end
