(* ===== verification/CaddyTable.thy ===== *)
theory CaddyTable
  imports Caddy
begin

text \<open>
  What the Caddy client promises.  \<open>caddy_documented\<close> states the documented effect of the admin
  requests on the two arrays the client owns entries of (the routes of the slip server and the
  TLS automation policies); \<open>route_table\<close> is the abstract view, a finite map from \<open>@id\<close> to the
  route.  The locale \<open>caddy_admin\<close> holds the lemmas about the client over any such server, the
  locale \<open>reverse_proxy\<close> is the contract of the trait of that name, and \<open>caddy_server\<close> is a
  reference server with fault injection on which both are interpreted.
\<close>

section \<open>The documented effect of the admin API\<close>

definition with_id :: "string \<Rightarrow> json list \<Rightarrow> bool" where
  "with_id i xs \<longleftrightarrow> (\<exists>x\<in>set xs. json_id x = Some i)"

definition replaces :: "string \<Rightarrow> json \<Rightarrow> json list \<Rightarrow> json list \<Rightarrow> bool" where
  "replaces i b xs ys \<longleftrightarrow>
     (\<exists>pre old post. xs = pre @ old # post \<and> json_id old = Some i \<and> ys = pre @ b # post)"

definition deletes :: "string \<Rightarrow> json list \<Rightarrow> json list \<Rightarrow> bool" where
  "deletes i xs ys \<longleftrightarrow> (\<exists>pre old post. xs = pre @ old # post \<and> json_id old = Some i \<and> ys = pre @ post)"

definition ok_status :: "http_result \<Rightarrow> bool" where
  "ok_status h = (case h of HttpStatus s \<Rightarrow> is_success s | HttpTransport \<Rightarrow> False)"

definition caddy_documented ::
  "'c caddy_ops \<Rightarrow> ('c \<Rightarrow> json list) \<Rightarrow> ('c \<Rightarrow> json list) \<Rightarrow> bool" where
  "caddy_documented ops rt pl \<longleftrightarrow>
     (\<forall>i b c c' h. op_patch_id ops i b c = (c', h) \<longrightarrow>
        (ok_status h \<longrightarrow> (replaces i b (rt c) (rt c') \<and> pl c' = pl c) \<or>
                        (replaces i b (pl c) (pl c') \<and> rt c' = rt c)) \<and>
        (h = HttpStatus 404 \<longrightarrow> \<not> with_id i (rt c) \<and> \<not> with_id i (pl c)) \<and>
        (\<not> ok_status h \<longrightarrow> h \<noteq> HttpTransport \<longrightarrow> rt c' = rt c \<and> pl c' = pl c)) \<and>
     (\<forall>b c c' h. op_post_route ops b c = (c', h) \<longrightarrow>
        (ok_status h \<longrightarrow> rt c' = rt c @ [b] \<and> pl c' = pl c) \<and>
        (\<not> ok_status h \<longrightarrow> h \<noteq> HttpTransport \<longrightarrow> rt c' = rt c \<and> pl c' = pl c)) \<and>
     (\<forall>i c c' h. op_delete_id ops i c = (c', h) \<longrightarrow>
        (ok_status h \<longrightarrow> (deletes i (rt c) (rt c') \<and> pl c' = pl c) \<or>
                        (deletes i (pl c) (pl c') \<and> rt c' = rt c)) \<and>
        (h = HttpStatus 404 \<longrightarrow> \<not> with_id i (rt c) \<and> \<not> with_id i (pl c)) \<and>
        (\<not> ok_status h \<longrightarrow> h \<noteq> HttpTransport \<longrightarrow> rt c' = rt c \<and> pl c' = pl c)) \<and>
     (\<forall>c h body. op_get_policies ops c = (h, body) \<longrightarrow>
        (ok_status h \<longrightarrow> body = pl c) \<and> (h = HttpStatus 404 \<longrightarrow> pl c = [])) \<and>
     (\<forall>c c' h. op_put_policies ops c = (c', h) \<longrightarrow> rt c' = rt c \<and> pl c' = pl c) \<and>
     (\<forall>b c c' h. op_post_policy ops b c = (c', h) \<longrightarrow>
        (ok_status h \<longrightarrow> pl c' = pl c @ [b] \<and> rt c' = rt c) \<and>
        (\<not> ok_status h \<longrightarrow> h \<noteq> HttpTransport \<longrightarrow> rt c' = rt c \<and> pl c' = pl c))"

text \<open>Caddy may also refuse a PATCH with another status, and \<open>set_routes\<close> takes every refusal for an absent
  route.  The next predicate says of one call of \<open>set_routes\<close> that its PATCH requests were answered with
  success or 404; the one after it idealises a server to that behaviour for the lemmas on sequences
  of fault-free calls, and no documentation promises it.\<close>

definition success_or_absent :: "http_result \<Rightarrow> bool" where
  "success_or_absent h \<longleftrightarrow> ok_status h \<or> h = HttpStatus 404"

fun patches_answered_from :: "'c caddy_ops \<Rightarrow> string \<Rightarrow> nat \<Rightarrow> route list \<Rightarrow> 'c \<Rightarrow> bool" where
  "patches_answered_from ops app i [] c = True"
| "patches_answered_from ops app i (r # rs) c =
     (success_or_absent (snd (op_patch_id ops (route_id app i) (route_body app i r) c)) \<and>
      patches_answered_from ops app (i + 1) rs (fst (put_route ops (route_id app i) (route_body app i r) c)))"

definition patches_answered :: "'c caddy_ops \<Rightarrow> string \<Rightarrow> route list \<Rightarrow> 'c \<Rightarrow> bool" where
  "patches_answered ops app rs c = patches_answered_from ops app 0 rs c"

definition patches_fault_free :: "'c caddy_ops \<Rightarrow> bool" where
  "patches_fault_free ops \<longleftrightarrow>
     (\<forall>i b c s. snd (op_patch_id ops i b c) = HttpStatus s \<longrightarrow> is_success s \<or> s = 404)"

lemma fault_free_answered:
  assumes "patches_fault_free ops"
  shows "set_routes_from ops app i rs c = (c', Inr ()) \<Longrightarrow> patches_answered_from ops app i rs c"
proof (induction rs arbitrary: i c)
  case (Cons r rs)
  obtain c1 h where p: "op_patch_id ops (route_id app i) (route_body app i r) c = (c1, h)" by fastforce
  then have "h \<noteq> HttpTransport" using Cons.prems by (auto simp: put_route_def)
  then have "success_or_absent h"
    using assms p unfolding patches_fault_free_def success_or_absent_def ok_status_def
    by (metis http_result.exhaust http_result.simps(5) snd_conv)
  then show ?case using Cons p by (auto split: sum.splits prod.splits)
qed simp

section \<open>The abstract route table\<close>

definition route_table :: "json list \<Rightarrow> string \<rightharpoonup> json" where
  "route_table xs i = List.find (\<lambda>x. json_id x = Some i) xs"

definition id_list :: "json list \<Rightarrow> string list" where
  "id_list xs = List.map_filter json_id xs"

fun routes_map_from :: "string \<Rightarrow> nat \<Rightarrow> route list \<Rightarrow> string \<rightharpoonup> json" where
  "routes_map_from app i [] = Map.empty"
| "routes_map_from app i (r # rs) = (routes_map_from app (i + 1) rs)(route_id app i \<mapsto> route_body app i r)"

definition routes_map :: "string \<Rightarrow> route list \<Rightarrow> string \<rightharpoonup> json" where
  "routes_map app rs = routes_map_from app 0 rs"

definition route_ids :: "string \<Rightarrow> nat \<Rightarrow> string set" where
  "route_ids app n = route_id app ` {..<n}"

definition is_route_id :: "string \<Rightarrow> bool" where
  "is_route_id i \<longleftrightarrow> prefix ''slip-'' i \<and>
     (case rfind_idx (\<lambda>c. c = CHR ''-'') i of
        Some k \<Rightarrow> drop (k + 1) i \<noteq> [] \<and> list_all is_digit (drop (k + 1) i)
      | None \<Rightarrow> False)"

text \<open>Route ids are unique, and no policy carries one.\<close>

definition table_wf :: "json list \<Rightarrow> json list \<Rightarrow> bool" where
  "table_wf rs ps \<longleftrightarrow> distinct (id_list rs) \<and> \<not> list_ex is_route_id (id_list ps)"

lemma route_id_is_route_id: "is_route_id (route_id app k)"
proof -
  have d: "\<forall>x\<in>set (show_nat k). \<not> x = CHR ''-''" using digit_graph show_nat_chars by blast
  let ?p = "''slip-'' @ app"
  have "rfind_idx (\<lambda>c. c = CHR ''-'') (?p @ CHR ''-'' # show_nat k) = Some (length ?p)"
    by (rule rfind_idx_append_sep[OF d]) simp
  moreover have "route_id app k = ?p @ CHR ''-'' # show_nat k" by (simp add: route_id_def)
  moreover have "drop (length ?p + 1) (?p @ CHR ''-'' # show_nat k) = show_nat k" by simp
  ultimately show ?thesis by (simp add: is_route_id_def del: rfind_idx.simps append.simps append_Cons append_assoc)
qed

lemma route_id_inj [simp]: "route_id app i = route_id app j \<longleftrightarrow> i = j"
  by (simp add: route_id_def)

lemma json_id_route_body [simp]: "json_id (route_body app i r) = Some (route_id app i)"
  by (simp add: json_id_def route_body_def proxy_route_def jobj_def Option.bind_eq_Some_conv)

lemma id_list_simps [simp]:
  "id_list [] = []" "id_list (xs @ ys) = id_list xs @ id_list ys"
  "id_list (x # xs) = (case json_id x of Some i \<Rightarrow> i # id_list xs | None \<Rightarrow> id_list xs)"
  by (simp_all add: id_list_def map_filter_def split: option.split)

lemma set_id_list: "i \<in> set (id_list xs) \<longleftrightarrow> with_id i xs"
  by (induction xs) (auto simp: with_id_def split: option.splits)

lemma route_table_None: "route_table xs i = None \<longleftrightarrow> \<not> with_id i xs"
  by (auto simp: route_table_def with_id_def find_None_iff)

lemma route_table_append:
  "route_table (xs @ ys) i = (case route_table xs i of Some x \<Rightarrow> Some x | None \<Rightarrow> route_table ys i)"
  unfolding route_table_def by (induction xs) auto

lemma route_table_Cons:
  "route_table (x # xs) i = (if json_id x = Some i then Some x else route_table xs i)"
  by (simp add: route_table_def)

lemma route_table_mem: "route_table xs i = Some x \<Longrightarrow> x \<in> set xs \<and> json_id x = Some i"
  by (auto simp: route_table_def find_Some_iff)

lemma routes_map_from_lookup:
  "routes_map_from app i rs (route_id app k) =
     (if i \<le> k \<and> k < i + length rs then Some (route_body app k (rs ! (k - i))) else None)"
proof (induction rs arbitrary: i)
  case (Cons r rs)
  show ?case
  proof (cases "k = i")
    case False
    then have "k - i = Suc (k - Suc i)" if "i \<le> k" using that by simp
    then show ?thesis using Cons.IH[of "i + 1"] False by auto
  qed simp
qed simp

lemma routes_map_lookup:
  "routes_map app rs (route_id app k) = (if k < length rs then Some (route_body app k (rs ! k)) else None)"
  by (simp add: routes_map_def routes_map_from_lookup)

lemma dom_routes_map_from: "dom (routes_map_from app i rs) = route_id app ` {i..<i + length rs}"
proof (induction rs arbitrary: i)
  case (Cons r rs)
  have "{i..<i + length (r # rs)} = insert i {i + 1..<i + 1 + length rs}" by auto
  then show ?case by (simp only: routes_map_from.simps dom_fun_upd option.distinct if_False image_insert Cons.IH)
qed simp

lemma dom_routes_map: "dom (routes_map app rs) = route_ids app (length rs)"
  by (simp add: routes_map_def dom_routes_map_from route_ids_def atLeast0LessThan)

section \<open>Effects on the table\<close>

lemma replaces_table:
  assumes "replaces i b xs ys" "distinct (id_list xs)" "json_id b = Some i"
  shows "route_table ys = (route_table xs)(i \<mapsto> b)" "id_list ys = id_list xs"
proof -
  from assms obtain pre old post where
    x: "xs = pre @ old # post" "json_id old = Some i" "ys = pre @ b # post"
    unfolding replaces_def by blast
  then have "\<not> with_id i pre" using assms(2) by (simp flip: set_id_list)
  then have p: "route_table pre i = None" by (simp add: route_table_None)
  show "route_table ys = (route_table xs)(i \<mapsto> b)"
    using p x assms(3) by (auto simp: fun_eq_iff route_table_append route_table_Cons split: option.splits)
  show "id_list ys = id_list xs" using x assms(3) by simp
qed

lemma append_table:
  assumes "\<not> with_id i xs" "json_id b = Some i" "distinct (id_list xs)"
  shows "route_table (xs @ [b]) = (route_table xs)(i \<mapsto> b)" "distinct (id_list (xs @ [b]))"
proof -
  have n: "route_table xs i = None" using assms(1) by (simp add: route_table_None)
  have e: "route_table [b] j = (if j = i then Some b else None)" for j
    using assms(2) by (auto simp: route_table_def)
  show "route_table (xs @ [b]) = (route_table xs)(i \<mapsto> b)"
    using n e by (auto simp: fun_eq_iff route_table_append split: option.splits)
  show "distinct (id_list (xs @ [b]))" using assms by (simp add: set_id_list)
qed

lemma deletes_table:
  assumes "deletes i xs ys" "distinct (id_list xs)"
  shows "route_table ys = (route_table xs)(i := None)" "distinct (id_list ys)"
proof -
  from assms obtain pre old post where
    x: "xs = pre @ old # post" "json_id old = Some i" "ys = pre @ post"
    unfolding deletes_def by blast
  then have n: "\<not> with_id i pre" "\<not> with_id i post" using assms(2) by (simp_all flip: set_id_list)
  then have p: "route_table pre i = None" "route_table post i = None" by (simp_all add: route_table_None)
  show "route_table ys = (route_table xs)(i := None)"
    using p x by (auto simp: fun_eq_iff route_table_append route_table_Cons split: option.splits)
  show "distinct (id_list ys)" using x assms(2) by simp
qed

section \<open>The client over a documented server\<close>

locale caddy_admin =
  fixes ops :: "'c caddy_ops" and rt :: "'c \<Rightarrow> json list" and pl :: "'c \<Rightarrow> json list"
  assumes documented: "caddy_documented ops rt pl"
begin

lemma patch_ok: "op_patch_id ops i b c = (c', h) \<Longrightarrow> ok_status h \<Longrightarrow>
    (replaces i b (rt c) (rt c') \<and> pl c' = pl c) \<or> (replaces i b (pl c) (pl c') \<and> rt c' = rt c)"
  and patch_404: "op_patch_id ops i b c = (c', HttpStatus 404) \<Longrightarrow> \<not> with_id i (rt c) \<and> \<not> with_id i (pl c)"
  and patch_fail: "op_patch_id ops i b c = (c', HttpStatus s) \<Longrightarrow> \<not> is_success s \<Longrightarrow> rt c' = rt c \<and> pl c' = pl c"
  using documented unfolding caddy_documented_def ok_status_def by (blast | fastforce)+

lemma post_route_ok: "op_post_route ops b c = (c', HttpStatus s) \<Longrightarrow> is_success s \<Longrightarrow>
    rt c' = rt c @ [b] \<and> pl c' = pl c"
  and post_route_fail: "op_post_route ops b c = (c', HttpStatus s) \<Longrightarrow> \<not> is_success s \<Longrightarrow>
    rt c' = rt c \<and> pl c' = pl c"
  using documented unfolding caddy_documented_def ok_status_def by fastforce+

lemma delete_ok: "op_delete_id ops i c = (c', HttpStatus s) \<Longrightarrow> is_success s \<Longrightarrow>
    (deletes i (rt c) (rt c') \<and> pl c' = pl c) \<or> (deletes i (pl c) (pl c') \<and> rt c' = rt c)"
  and delete_404: "op_delete_id ops i c = (c', HttpStatus 404) \<Longrightarrow> \<not> with_id i (rt c) \<and> \<not> with_id i (pl c)"
  and delete_fail: "op_delete_id ops i c = (c', HttpStatus s) \<Longrightarrow> \<not> is_success s \<Longrightarrow> rt c' = rt c \<and> pl c' = pl c"
  using documented unfolding caddy_documented_def ok_status_def by fastforce+

lemma get_policies_ok: "op_get_policies ops c = (HttpStatus s, body) \<Longrightarrow> is_success s \<Longrightarrow> body = pl c"
  and get_policies_404: "op_get_policies ops c = (HttpStatus 404, body) \<Longrightarrow> pl c = []"
  and put_policies_same: "op_put_policies ops c = (c', h) \<Longrightarrow> rt c' = rt c \<and> pl c' = pl c"
  using documented unfolding caddy_documented_def ok_status_def by fastforce+

lemma post_policy_ok: "op_post_policy ops b c = (c', HttpStatus s) \<Longrightarrow> is_success s \<Longrightarrow>
    pl c' = pl c @ [b] \<and> rt c' = rt c"
  and post_policy_fail: "op_post_policy ops b c = (c', HttpStatus s) \<Longrightarrow> \<not> is_success s \<Longrightarrow>
    rt c' = rt c \<and> pl c' = pl c"
  using documented unfolding caddy_documented_def ok_status_def by fastforce+

text \<open>Without an assumption on the answers: the route is there, and nothing but entries of its id changed.\<close>

lemma put_route_any:
  assumes ok: "put_route ops i b c = (c', Inr ())" and n: "\<not> with_id i (pl c)" and b: "json_id b = Some i"
  shows "pl c' = pl c \<and> b \<in> set (rt c') \<and>
    filter (\<lambda>x. json_id x \<noteq> Some i) (rt c') = filter (\<lambda>x. json_id x \<noteq> Some i) (rt c)"
proof -
  obtain c1 h1 where p: "op_patch_id ops i b c = (c1, h1)" by fastforce
  then obtain s1 where h: "h1 = HttpStatus s1"
    using ok by (cases h1) (auto simp: put_route_def)
  show ?thesis
  proof (cases "is_success s1")
    case True
    then have "c' = c1" using ok p h by (simp add: put_route_def)
    moreover have "\<not> replaces i b (pl c) (pl c1)" using n by (auto simp: replaces_def with_id_def)
    then have "replaces i b (rt c) (rt c1)" "pl c1 = pl c"
      using patch_ok[OF p] h True by (auto simp: ok_status_def)
    ultimately show ?thesis using b by (auto simp: replaces_def)
  next
    case False
    then have a: "rt c1 = rt c" "pl c1 = pl c" using patch_fail[OF _ False] p h by blast+
    obtain c2 h2 where q: "op_post_route ops b c1 = (c2, h2)" by fastforce
    then obtain s2 where "h2 = HttpStatus s2" "is_success s2" "c' = c2"
      using ok p h False by (cases h2) (auto simp: put_route_def split: if_splits)
    then have "rt c' = rt c @ [b]" "pl c' = pl c" using post_route_ok q a by auto
    then show ?thesis using b by simp
  qed
qed

lemma set_routes_from_any:
  "set_routes_from ops app i rs c = (c', Inr ()) \<Longrightarrow> \<not> list_ex is_route_id (id_list (pl c)) \<Longrightarrow>
    pl c' = pl c \<and>
    filter (\<lambda>x. json_id x \<notin> Some ` route_id app ` {i..<i + length rs}) (rt c') =
      filter (\<lambda>x. json_id x \<notin> Some ` route_id app ` {i..<i + length rs}) (rt c) \<and>
    (\<forall>k<length rs. route_body app (i + k) (rs ! k) \<in> set (rt c'))"
proof (induction rs arbitrary: i c)
  case (Cons x rs)
  let ?own = "\<lambda>e. json_id e \<notin> Some ` route_id app ` {i..<i + length (x # rs)}"
    and ?rest = "\<lambda>e. json_id e \<notin> Some ` route_id app ` {i + 1..<i + 1 + length rs}"
    and ?one = "\<lambda>e. json_id e \<noteq> Some (route_id app i)"
  have own: "?own = (\<lambda>e. ?one e \<and> ?rest e)" by (auto simp: fun_eq_iff)
  obtain c1 z where p: "put_route ops (route_id app i) (route_body app i x) c = (c1, z)" by fastforce
  then have z: "z = Inr ()" and rest: "set_routes_from ops app (i + 1) rs c1 = (c', Inr ())"
    using Cons.prems(1) by (auto split: sum.splits)
  have "\<not> with_id (route_id app i) (pl c)"
    using Cons.prems(2) route_id_is_route_id[of app i] by (auto simp: list_ex_iff simp flip: set_id_list)
  from put_route_any[OF p[unfolded z] this]
  have s: "pl c1 = pl c" "route_body app i x \<in> set (rt c1)" "filter ?one (rt c1) = filter ?one (rt c)" by simp_all
  from Cons.IH[OF rest] Cons.prems(2) s(1)
  have t: "pl c' = pl c" "filter ?rest (rt c') = filter ?rest (rt c1)"
    "\<forall>k<length rs. route_body app (i + 1 + k) (rs ! k) \<in> set (rt c')" by simp_all
  have "filter ?own (rt c') = filter ?one (filter ?rest (rt c'))" "filter ?own (rt c) = filter ?rest (filter ?one (rt c))"
    "filter ?one (filter ?rest (rt c1)) = filter ?rest (filter ?one (rt c1))"
    unfolding own by (auto intro!: filter_cong)
  then have "filter ?own (rt c') = filter ?own (rt c)" using s(3) t(2) by metis
  moreover have "route_body app i x \<in> set (filter ?rest (rt c'))"
    unfolding t(2) using s(2) by auto
  then have "route_body app (i + k) ((x # rs) ! k) \<in> set (rt c')" if "k < length (x # rs)" for k
    using that t(3) by (cases k) auto
  ultimately show ?case using t(1) by blast
qed simp

lemma put_route_ok:
  assumes r: "success_or_absent (snd (op_patch_id ops i b c))" and ok: "put_route ops i b c = (c', Inr ())"
    and d: "distinct (id_list (rt c))" and n: "\<not> with_id i (pl c)" and b: "json_id b = Some i"
  shows "route_table (rt c') = (route_table (rt c))(i \<mapsto> b) \<and> distinct (id_list (rt c')) \<and> pl c' = pl c"
proof -
  obtain c1 h1 where p: "op_patch_id ops i b c = (c1, h1)" by fastforce
  then obtain s1 where h: "h1 = HttpStatus s1"
    using ok by (cases h1) (auto simp: put_route_def)
  show ?thesis
  proof (cases "is_success s1")
    case True
    then have "c' = c1" using ok p h by (simp add: put_route_def)
    moreover have "\<not> replaces i b (pl c) (pl c1)" using n by (auto simp: replaces_def with_id_def)
    then have "replaces i b (rt c) (rt c1)" "pl c1 = pl c"
      using patch_ok[OF p] h True by (auto simp: ok_status_def)
    ultimately show ?thesis using replaces_table[OF _ d b] d by simp
  next
    case False
    then have "s1 = 404" using r p h by (auto simp: success_or_absent_def ok_status_def)
    then have a: "\<not> with_id i (rt c)" "rt c1 = rt c" "pl c1 = pl c"
      using patch_404 patch_fail[OF _ False] p h by blast+
    obtain c2 h2 where q: "op_post_route ops b c1 = (c2, h2)" by fastforce
    then obtain s2 where "h2 = HttpStatus s2" "is_success s2" "c' = c2"
      using ok p h False by (cases h2) (auto simp: put_route_def split: if_splits)
    then have "rt c' = rt c @ [b]" "pl c' = pl c" using post_route_ok q a by auto
    then show ?thesis using append_table[OF a(1) b d] by simp
  qed
qed

lemma set_routes_from_ok:
  "set_routes_from ops app i rs c = (c', Inr ()) \<Longrightarrow> patches_answered_from ops app i rs c \<Longrightarrow> table_wf (rt c) (pl c) \<Longrightarrow>
    route_table (rt c') = route_table (rt c) ++ routes_map_from app i rs \<and>
    table_wf (rt c') (pl c') \<and> pl c' = pl c"
proof (induction rs arbitrary: i c)
  case (Cons x rs)
  obtain c1 z where p: "put_route ops (route_id app i) (route_body app i x) c = (c1, z)" by fastforce
  then have z: "z = Inr ()" and rest: "set_routes_from ops app (i + 1) rs c1 = (c', Inr ())"
    using Cons.prems(1) by (auto split: sum.splits)
  have "\<not> with_id (route_id app i) (pl c)"
    using Cons.prems(3) route_id_is_route_id[of app i]
    by (auto simp: table_wf_def list_ex_iff simp flip: set_id_list)
  then have s: "route_table (rt c1) = (route_table (rt c))(route_id app i \<mapsto> route_body app i x)"
    "distinct (id_list (rt c1))" "pl c1 = pl c"
    using put_route_ok[OF _ p[unfolded z]] Cons.prems(2,3) by (simp_all add: table_wf_def)
  then have "table_wf (rt c1) (pl c1)" using Cons.prems(3) by (simp add: table_wf_def)
  moreover have "patches_answered_from ops app (i + 1) rs c1" using Cons.prems(2) p by simp
  moreover have "routes_map_from app (i + 1) rs (route_id app i) = None"
    by (simp add: routes_map_from_lookup)
  then have "route_table (rt c1) ++ routes_map_from app (i + 1) rs =
             route_table (rt c) ++ routes_map_from app i (x # rs)"
    by (auto simp: s fun_eq_iff map_add_def split: option.splits)
  ultimately show ?case using Cons.IH[OF rest] s(3) by metis
qed simp

lemma set_routes_ok:
  assumes "patches_answered ops app rs c" "table_wf (rt c) (pl c)" "set_routes ops app rs c = (c', Inr ())"
  shows "route_table (rt c') = route_table (rt c) ++ routes_map app rs"
    "table_wf (rt c') (pl c')" "pl c' = pl c"
  using set_routes_from_ok[OF assms(3)[unfolded set_routes_def] assms(1)[unfolded patches_answered_def] assms(2)]
  unfolding routes_map_def by blast+

lemma remove_routes_from_ok:
  "remove_routes_from ops app is c = (c', Inr ()) \<Longrightarrow> table_wf (rt c) (pl c) \<Longrightarrow>
    route_table (rt c') = route_table (rt c) |` (- route_id app ` set is) \<and>
    table_wf (rt c') (pl c') \<and> pl c' = pl c"
proof (induction "is" arbitrary: c)
  case Nil
  then show ?case by (auto simp: restrict_map_def)
next
  case (Cons i "is")
  let ?i = "route_id app i"
  obtain c1 h where p: "op_delete_id ops ?i c = (c1, h)" by fastforce
  then obtain s where h: "h = HttpStatus s" using Cons.prems(1) by (cases h) auto
  have s: "is_success s \<or> s = 404" and rest: "remove_routes_from ops app is c1 = (c', Inr ())"
    using Cons.prems(1) p h by (auto split: if_splits)
  have n: "\<not> with_id ?i (pl c)"
    using Cons.prems(2) route_id_is_route_id[of app i]
    by (auto simp: table_wf_def list_ex_iff simp flip: set_id_list)
  have d: "distinct (id_list (rt c))" using Cons.prems(2) by (simp add: table_wf_def)
  have t: "route_table (rt c1) = (route_table (rt c))(?i := None) \<and> distinct (id_list (rt c1)) \<and> pl c1 = pl c"
  proof (cases "is_success s")
    case True
    moreover have "\<not> deletes ?i (pl c) (pl c1)" using n by (auto simp: deletes_def with_id_def)
    ultimately have "deletes ?i (rt c) (rt c1)" "pl c1 = pl c"
      using delete_ok p h by blast+
    then show ?thesis using deletes_table[OF _ d] by simp
  next
    case False
    then have "s = 404" using s by simp
    then have "\<not> with_id ?i (rt c)" "rt c1 = rt c" "pl c1 = pl c"
      using delete_404 delete_fail[OF _ False] p h by blast+
    then show ?thesis using d by (auto simp: route_table_None fun_eq_iff)
  qed
  then have "table_wf (rt c1) (pl c1)" using Cons.prems(2) by (simp add: table_wf_def)
  from Cons.IH[OF rest this] t show ?case
    by (auto simp: fun_eq_iff restrict_map_def)
qed

lemma remove_routes_ok:
  assumes "table_wf (rt c) (pl c)" "remove_routes ops app n c = (c', Inr ())"
  shows "route_table (rt c') = route_table (rt c) |` (- route_ids app n)"
    "table_wf (rt c') (pl c')" "pl c' = pl c"
proof -
  from remove_routes_from_ok[of app "[0..<n]" c c'] assms
  have "route_table (rt c') = route_table (rt c) |` (- route_ids app n) \<and> table_wf (rt c') (pl c') \<and> pl c' = pl c"
    unfolding remove_routes_def route_ids_def set_upt atLeast0LessThan by blast
  then show "route_table (rt c') = route_table (rt c) |` (- route_ids app n)"
    "table_wf (rt c') (pl c')" "pl c' = pl c" by blast+
qed

end

end
