(* ===== verification/CaddyProps.thy ===== *)
theory CaddyProps
  imports CaddyTable
begin

text \<open>
  The contract of the \<open>ReverseProxy\<close> trait as a locale over the abstract route table, its
  discharge for the Caddy client over every documented server, the reference server, and the
  properties of the route and TLS policy operations.
\<close>

section \<open>The reverse proxy contract\<close>

fun set_each ::
  "(string \<Rightarrow> route list \<Rightarrow> 'p \<Rightarrow> 'p \<times> (caddy_error + unit)) \<Rightarrow> route_info list \<Rightarrow> 'p \<Rightarrow> 'p \<times> (caddy_error + unit)" where
  "set_each f [] p = (p, Inr ())"
| "set_each f (r # rs) p =
     (let (p1, x) = f (ri_app r) [\<lparr>route_hostname = ri_domain r, route_port = ri_port r\<rparr>] p in
      case x of Inl e \<Rightarrow> (p1, Inl e) | Inr _ \<Rightarrow> set_each f rs p1)"

definition info_route :: "route_info \<Rightarrow> route" where
  "info_route r = \<lparr>route_hostname = ri_domain r, route_port = ri_port r\<rparr>"

lemma caddy_reconcile_set_each: "caddy_reconcile ops rs c = set_each (set_routes ops) rs c"
  by (induction rs arbitrary: c) (auto split: sum.split)

lemma route_id_eq_iff: "route_id a i = route_id b j \<longleftrightarrow> a = b \<and> i = j"
proof
  assume "route_id a i = route_id b j"
  then have e: "a @ CHR ''-'' # show_nat i = b @ CHR ''-'' # show_nat j" by (simp add: route_id_def)
  have n: "CHR ''-'' \<notin> set (show_nat k)" for k using show_nat_chars digit_graph by blast
  have "rev (show_nat i) @ CHR ''-'' # rev a = rev (show_nat j) @ CHR ''-'' # rev b"
    using arg_cong[OF e, of rev] by simp
  then have "rev (show_nat i) = rev (show_nat j) \<and> rev a = rev b"
    by (intro unique_separator) (simp_all add: n)
  then show "a = b \<and> i = j" by simp
qed simp

lemma other_app_ids: "a \<noteq> b \<Longrightarrow> route_id b k \<notin> route_ids a n"
  by (auto simp: route_ids_def route_id_eq_iff)

lemma map_add_other: "i \<notin> dom m \<Longrightarrow> (t ++ m) i = t i"
  by (auto simp: map_add_def dom_def split: option.split)

locale reverse_proxy =
  fixes set_rts :: "string \<Rightarrow> route list \<Rightarrow> 'p \<Rightarrow> 'p \<times> (caddy_error + unit)"
    and rm_rts :: "string \<Rightarrow> nat \<Rightarrow> 'p \<Rightarrow> 'p \<times> (caddy_error + unit)"
    and table :: "'p \<Rightarrow> string \<rightharpoonup> json"
    and wf :: "'p \<Rightarrow> bool"
  assumes set_table: "wf p \<Longrightarrow> set_rts app rs p = (p', Inr ()) \<Longrightarrow> table p' = table p ++ routes_map app rs"
    and set_wf: "wf p \<Longrightarrow> set_rts app rs p = (p', Inr ()) \<Longrightarrow> wf p'"
    and rm_table: "wf p \<Longrightarrow> rm_rts app n p = (p', Inr ()) \<Longrightarrow> table p' = table p |` (- route_ids app n)"
    and rm_wf: "wf p \<Longrightarrow> rm_rts app n p = (p', Inr ()) \<Longrightarrow> wf p'"
begin

lemma set_serves:
  "wf p \<Longrightarrow> set_rts app rs p = (p', Inr ()) \<Longrightarrow> k < length rs \<Longrightarrow>
     table p' (route_id app k) = Some (route_body app k (rs ! k))"
  by (simp add: set_table map_add_find_right routes_map_lookup)

lemma set_keeps_others:
  "wf p \<Longrightarrow> set_rts app rs p = (p', Inr ()) \<Longrightarrow> i \<notin> route_ids app (length rs) \<Longrightarrow> table p' i = table p i"
  by (simp add: set_table map_add_other dom_routes_map)

lemma stale_route_survives:
  assumes "wf p" "set_rts app rs p = (p1, Inr ())" "set_rts app rs' p1 = (p2, Inr ())"
    and k: "length rs' \<le> k" "k < length rs"
  shows "table p2 (route_id app k) = Some (route_body app k (rs ! k))"
proof -
  have "route_id app k \<notin> route_ids app (length rs')" using k by (auto simp: route_ids_def)
  then have "table p2 (route_id app k) = table p1 (route_id app k)"
    by (rule set_keeps_others[OF set_wf[OF assms(1,2)] assms(3)])
  then show ?thesis using set_serves[OF assms(1,2) k(2)] by simp
qed

lemma set_remove:
  assumes "wf p" "set_rts app rs p = (p1, Inr ())" "rm_rts app n p1 = (p2, Inr ())" "length rs \<le> n"
  shows "table p2 = table p |` (- route_ids app n)"
proof -
  have "route_ids app (length rs) \<subseteq> route_ids app n" using assms(4) by (auto simp: route_ids_def)
  then show ?thesis
    using rm_table[OF set_wf[OF assms(1,2)] assms(3)] set_table[OF assms(1,2)] dom_routes_map[of app rs]
    by (auto simp: fun_eq_iff restrict_map_def map_add_def split: option.splits)
qed

lemma set_each_table:
  "wf p \<Longrightarrow> set_each set_rts infos p = (p', Inr ()) \<Longrightarrow>
     wf p' \<and> table p' = foldl (\<lambda>t r. t ++ routes_map (ri_app r) [info_route r]) (table p) infos"
proof (induction infos arbitrary: p)
  case (Cons r infos)
  obtain p1 x where f: "set_rts (ri_app r) [info_route r] p = (p1, x)" by fastforce
  then have x: "x = Inr ()" and rest: "set_each set_rts infos p1 = (p', Inr ())"
    using Cons.prems(2) by (auto simp: info_route_def split: sum.splits)
  show ?case
    using Cons.IH[OF set_wf[OF Cons.prems(1) f[unfolded x]] rest] set_table[OF Cons.prems(1) f[unfolded x]] by simp
qed simp

end

text \<open>Folding single routes leaves, for each application, the last one at index 0.\<close>

lemma foldl_single_routes:
  "foldl (\<lambda>t r. t ++ routes_map (ri_app r) [info_route r]) t infos i =
     (case List.find (\<lambda>r. route_id (ri_app r) 0 = i) (rev infos) of
        Some r \<Rightarrow> Some (route_body (ri_app r) 0 (info_route r))
      | None \<Rightarrow> t i)"
proof (induction infos rule: rev_induct)
  case (snoc r infos)
  then show ?case by (simp add: routes_map_def map_add_def)
qed simp

section \<open>The Caddy client meets the contract\<close>

locale caddy_reliable = caddy_admin +
  assumes refuses: "patches_fault_free ops"

sublocale caddy_reliable \<subseteq> proxy: reverse_proxy "set_routes ops" "remove_routes ops"
  "\<lambda>c. route_table (rt c)" "\<lambda>c. table_wf (rt c) (pl c)"
proof unfold_locales
  fix app rs p p'
  assume "table_wf (rt p) (pl p)" "set_routes ops app rs p = (p', Inr ())"
  moreover from this(2) have "patches_answered ops app rs p"
    using fault_free_answered[OF refuses] by (simp add: set_routes_def patches_answered_def)
  ultimately show "route_table (rt p') = route_table (rt p) ++ routes_map app rs" "table_wf (rt p') (pl p')"
    using set_routes_ok by blast+
qed (use remove_routes_ok in blast)+

context caddy_reliable
begin

lemmas surplus_survives = proxy.stale_route_survives
lemmas remove_after_set = proxy.set_remove
lemmas reconcile_table = proxy.set_each_table

end

section \<open>The reference server\<close>

text \<open>\<open>sv_faults\<close> scripts the next answers: a 5xx code is answered without effect, 0 is a transport
  failure, anything else is served.\<close>

record caddy_server =
  sv_routes :: "json list"
  sv_policies :: "json list option"
  sv_config :: json
  sv_faults :: "nat list"

definition sv_pl :: "caddy_server \<Rightarrow> json list" where
  "sv_pl c = (case sv_policies c of Some ps \<Rightarrow> ps | None \<Rightarrow> [])"

definition next_fault :: "bool \<Rightarrow> caddy_server \<Rightarrow> http_result option" where
  "next_fault faulty c =
     (case sv_faults c of
        f # _ \<Rightarrow> if faulty \<and> f = 0 then Some HttpTransport
                 else if faulty \<and> 500 \<le> f \<and> f < 600 then Some (HttpStatus f) else None
      | [] \<Rightarrow> None)"

definition tick :: "caddy_server \<Rightarrow> caddy_server" where
  "tick c = c\<lparr>sv_faults := tl (sv_faults c)\<rparr>"

definition served :: "bool \<Rightarrow> (caddy_server \<Rightarrow> caddy_server \<times> http_result) \<Rightarrow> caddy_server \<Rightarrow> caddy_server \<times> http_result" where
  "served faulty f c = (case next_fault faulty c of Some h \<Rightarrow> (tick c, h) | None \<Rightarrow> f (tick c))"

fun replace_first :: "string \<Rightarrow> json \<Rightarrow> json list \<Rightarrow> json list option" where
  "replace_first i b [] = None"
| "replace_first i b (x # xs) = (if json_id x = Some i then Some (b # xs) else map_option ((#) x) (replace_first i b xs))"

fun delete_first :: "string \<Rightarrow> json list \<Rightarrow> json list option" where
  "delete_first i [] = None"
| "delete_first i (x # xs) = (if json_id x = Some i then Some xs else map_option ((#) x) (delete_first i xs))"

definition at_id :: "(json list \<Rightarrow> json list option) \<Rightarrow> caddy_server \<Rightarrow> caddy_server \<times> http_result" where
  "at_id f c =
     (case f (sv_routes c) of
        Some rs \<Rightarrow> (c\<lparr>sv_routes := rs\<rparr>, HttpStatus 200)
      | None \<Rightarrow>
          (case f (sv_pl c) of
             Some ps \<Rightarrow> (c\<lparr>sv_policies := Some ps\<rparr>, HttpStatus 200)
           | None \<Rightarrow> (c, HttpStatus 404)))"

definition server_ops :: "bool \<Rightarrow> caddy_server caddy_ops" where
  "server_ops faulty =
     \<lparr>op_patch_id = \<lambda>i b. served faulty (at_id (replace_first i b)),
      op_post_route = \<lambda>b. served faulty (\<lambda>c. (c\<lparr>sv_routes := sv_routes c @ [b]\<rparr>, HttpStatus 200)),
      op_delete_id = \<lambda>i. served faulty (at_id (delete_first i)),
      op_get_policies = \<lambda>c. (case next_fault faulty c of
          Some h \<Rightarrow> (h, [])
        | None \<Rightarrow> (case sv_policies c of Some ps \<Rightarrow> (HttpStatus 200, ps) | None \<Rightarrow> (HttpStatus 404, []))),
      op_put_policies = served faulty (\<lambda>c. case sv_policies c of
          None \<Rightarrow> (c\<lparr>sv_policies := Some []\<rparr>, HttpStatus 201) | Some _ \<Rightarrow> (c, HttpStatus 409)),
      op_post_policy = \<lambda>b. served faulty (\<lambda>c. case sv_policies c of
          Some ps \<Rightarrow> (c\<lparr>sv_policies := Some (ps @ [b])\<rparr>, HttpStatus 200) | None \<Rightarrow> (c, HttpStatus 400)),
      op_get_config = \<lambda>c. (HttpStatus 200, sv_config c),
      op_load = \<lambda>j. served faulty (\<lambda>c. (c\<lparr>sv_config := j\<rparr>, HttpStatus 200)),
      op_get_modules = \<lambda>c. (HttpStatus 404, None)\<rparr>"

lemma replace_first_Some: "replace_first i b xs = Some ys \<Longrightarrow> replaces i b xs ys"
proof (induction xs arbitrary: ys)
  case (Cons x xs)
  show ?case
  proof (cases "json_id x = Some i")
    case True
    then have "x # xs = [] @ x # xs" "ys = [] @ b # xs" using Cons.prems by auto
    then show ?thesis unfolding replaces_def using True by blast
  next
    case False
    then obtain zs where "ys = x # zs" "replace_first i b xs = Some zs" using Cons.prems by auto
    then show ?thesis using Cons.IH unfolding replaces_def by (metis append_Cons)
  qed
qed simp

lemma replace_first_None: "replace_first i b xs = None \<longleftrightarrow> \<not> with_id i xs"
  by (induction xs) (auto simp: with_id_def)

lemma delete_first_Some: "delete_first i xs = Some ys \<Longrightarrow> deletes i xs ys"
proof (induction xs arbitrary: ys)
  case (Cons x xs)
  show ?case
  proof (cases "json_id x = Some i")
    case True
    then have "x # xs = [] @ x # xs" "ys = [] @ xs" using Cons.prems by auto
    then show ?thesis unfolding deletes_def using True by blast
  next
    case False
    then obtain zs where "ys = x # zs" "delete_first i xs = Some zs" using Cons.prems by auto
    then show ?thesis using Cons.IH unfolding deletes_def by (metis append_Cons)
  qed
qed simp

lemma delete_first_None: "delete_first i xs = None \<longleftrightarrow> \<not> with_id i xs"
  by (induction xs) (auto simp: with_id_def)

lemma at_id_cases:
  assumes "at_id f c = (c', h)"
  obtains rs where "f (sv_routes c) = Some rs" "c' = c\<lparr>sv_routes := rs\<rparr>" "h = HttpStatus 200"
  | ps where "f (sv_pl c) = Some ps" "c' = c\<lparr>sv_policies := Some ps\<rparr>" "h = HttpStatus 200"
  | "f (sv_routes c) = None" "f (sv_pl c) = None" "c' = c" "h = HttpStatus 404"
  using assms by (auto simp: at_id_def split: option.splits)

lemma next_fault_status: "next_fault b c = Some h \<Longrightarrow> \<not> ok_status h \<and> h \<noteq> HttpStatus 404"
  by (auto simp: next_fault_def ok_status_def is_success_def split: list.splits if_splits)

lemma next_fault_plain [simp]: "next_fault False c = None"
  by (simp add: next_fault_def split: list.split)

lemma served_cases:
  assumes "served faulty f c = (c', h)"
  obtains "c' = tick c" "\<not> ok_status h" "h \<noteq> HttpStatus 404" | "f (tick c) = (c', h)"
  using assms next_fault_status by (auto simp: served_def split: option.splits)

lemma tick_views [simp]: "sv_routes (tick c) = sv_routes c" "sv_pl (tick c) = sv_pl c"
  "sv_policies (tick c) = sv_policies c"
  by (simp_all add: tick_def sv_pl_def)

lemma sv_pl_update [simp]: "sv_pl (c\<lparr>sv_routes := rs\<rparr>) = sv_pl c" "sv_pl (c\<lparr>sv_policies := Some ps\<rparr>) = ps"
  by (simp_all add: sv_pl_def)

lemma ok_status_200 [simp]: "ok_status (HttpStatus 200)" "\<not> ok_status (HttpStatus 404)"
  by (simp_all add: ok_status_def is_success_def)

lemma server_patch:
  assumes "op_patch_id (server_ops faulty) i b c = (c', h)"
  shows "(ok_status h \<longrightarrow> (replaces i b (sv_routes c) (sv_routes c') \<and> sv_pl c' = sv_pl c) \<or>
                        (replaces i b (sv_pl c) (sv_pl c') \<and> sv_routes c' = sv_routes c)) \<and>
        (h = HttpStatus 404 \<longrightarrow> \<not> with_id i (sv_routes c) \<and> \<not> with_id i (sv_pl c)) \<and>
        (\<not> ok_status h \<longrightarrow> h \<noteq> HttpTransport \<longrightarrow> sv_routes c' = sv_routes c \<and> sv_pl c' = sv_pl c)"
proof -
  have "served faulty (at_id (replace_first i b)) c = (c', h)" using assms by (simp add: server_ops_def)
  then show ?thesis
  proof (cases rule: served_cases)
    case 2
    then show ?thesis
      by (cases rule: at_id_cases) (auto simp: replace_first_None dest!: replace_first_Some)
  qed auto
qed

lemma server_delete:
  assumes "op_delete_id (server_ops faulty) i c = (c', h)"
  shows "(ok_status h \<longrightarrow> (deletes i (sv_routes c) (sv_routes c') \<and> sv_pl c' = sv_pl c) \<or>
                        (deletes i (sv_pl c) (sv_pl c') \<and> sv_routes c' = sv_routes c)) \<and>
        (h = HttpStatus 404 \<longrightarrow> \<not> with_id i (sv_routes c) \<and> \<not> with_id i (sv_pl c)) \<and>
        (\<not> ok_status h \<longrightarrow> h \<noteq> HttpTransport \<longrightarrow> sv_routes c' = sv_routes c \<and> sv_pl c' = sv_pl c)"
proof -
  have "served faulty (at_id (delete_first i)) c = (c', h)" using assms by (simp add: server_ops_def)
  then show ?thesis
  proof (cases rule: served_cases)
    case 2
    then show ?thesis
      by (cases rule: at_id_cases) (auto simp: delete_first_None dest!: delete_first_Some)
  qed auto
qed

lemma server_get_policies:
  "op_get_policies (server_ops faulty) c = (h, body) \<Longrightarrow>
     (ok_status h \<longrightarrow> body = sv_pl c) \<and> (h = HttpStatus 404 \<longrightarrow> sv_pl c = [])"
  by (auto simp: server_ops_def sv_pl_def split: option.splits dest: next_fault_status)

lemma server_post_policy:
  assumes "op_post_policy (server_ops faulty) b c = (c', h)"
  shows "(ok_status h \<longrightarrow> sv_pl c' = sv_pl c @ [b] \<and> sv_routes c' = sv_routes c) \<and>
        (\<not> ok_status h \<longrightarrow> h \<noteq> HttpTransport \<longrightarrow> sv_routes c' = sv_routes c \<and> sv_pl c' = sv_pl c)"
proof -
  have "served faulty (\<lambda>c. case sv_policies c of
          Some ps \<Rightarrow> (c\<lparr>sv_policies := Some (ps @ [b])\<rparr>, HttpStatus 200) | None \<Rightarrow> (c, HttpStatus 400)) c = (c', h)"
    using assms by (simp add: server_ops_def)
  then show ?thesis
    by (cases rule: served_cases)
      (auto simp: sv_pl_def ok_status_def is_success_def split: option.splits)
qed

lemma server_put_policies:
  assumes "op_put_policies (server_ops faulty) c = (c', h)"
  shows "sv_routes c' = sv_routes c \<and> sv_pl c' = sv_pl c"
proof -
  have "served faulty (\<lambda>c. case sv_policies c of
          None \<Rightarrow> (c\<lparr>sv_policies := Some []\<rparr>, HttpStatus 201) | Some _ \<Rightarrow> (c, HttpStatus 409)) c = (c', h)"
    using assms by (simp add: server_ops_def)
  then show ?thesis by (cases rule: served_cases) (auto simp: sv_pl_def split: option.splits)
qed

lemma server_post_route:
  assumes "op_post_route (server_ops faulty) b c = (c', h)"
  shows "(ok_status h \<longrightarrow> sv_routes c' = sv_routes c @ [b] \<and> sv_pl c' = sv_pl c) \<and>
        (\<not> ok_status h \<longrightarrow> h \<noteq> HttpTransport \<longrightarrow> sv_routes c' = sv_routes c \<and> sv_pl c' = sv_pl c)"
proof -
  have "served faulty (\<lambda>c. (c\<lparr>sv_routes := sv_routes c @ [b]\<rparr>, HttpStatus 200)) c = (c', h)"
    using assms by (simp add: server_ops_def)
  then show ?thesis by (cases rule: served_cases) auto
qed

lemma server_documented: "caddy_documented (server_ops faulty) sv_routes sv_pl"
  unfolding caddy_documented_def
  by (rule conjI, intro allI impI, erule server_patch, rule conjI, intro allI impI, erule server_post_route,
      rule conjI, intro allI impI, erule server_delete, rule conjI, intro allI impI, erule server_get_policies,
      rule conjI, intro allI impI, erule server_put_policies, intro allI impI, erule server_post_policy)

lemma server_fault_free: "patches_fault_free (server_ops False)"
  by (auto simp: patches_fault_free_def server_ops_def served_def at_id_def is_success_def
      split: option.splits)

interpretation faulty_server: caddy_admin "server_ops True" sv_routes sv_pl
  by unfold_locales (rule server_documented)

interpretation plain_server: caddy_reliable "server_ops False" sv_routes sv_pl
  by unfold_locales (rule server_documented, rule server_fault_free)

section \<open>Properties of the route operations\<close>

definition sample_server :: caddy_server where
  "sample_server =
     \<lparr>sv_routes = [route_body ''api'' 0 \<lparr>route_hostname = ''api.x.dev'', route_port = 9000\<rparr>,
                  JObj [(''match'', JArr [])]],
      sv_policies = Some [jobj [(''subjects'', JArr [JStr ''other.x.dev''])]],
      sv_config = JNull, sv_faults = []\<rparr>"

definition two_routes :: "route list" where
  "two_routes = [\<lparr>route_hostname = ''a.x.dev'', route_port = 3000\<rparr>, \<lparr>route_hostname = ''b.x.dev'', route_port = 3001\<rparr>]"

lemma sample_server_wf: "table_wf (sv_routes sample_server) (sv_pl sample_server)"
  by code_simp

text \<open>C39. On a Caddy server that behaves as documented, whose routes have distinct ids and no policy the id of
  a route, a successful \<open>set_routes\<close> leaves the TLS policies, the
  routes of every other application and every other entry of the list as they were, in their order,
  and every requested route is in the list under its own id. When each PATCH of the call was answered
  with success or 404, the call refines the map update on the abstract route table, and ids stay
  unique. Another refusal of a PATCH is taken for an absent route, and then the requested route may
  stand behind the old one of the same id.\<close>

theorem set_routes_installs:
  assumes "caddy_documented ops rt pl" "table_wf (rt c) (pl c)" "set_routes ops app rs c = (c', Inr ())"
  shows "pl c' = pl c \<and>
    (\<forall>b k. b = app \<or> route_table (rt c') (route_id b k) = route_table (rt c) (route_id b k)) \<and>
    filter (\<lambda>x. json_id x \<notin> Some ` route_ids app (length rs)) (rt c') =
      filter (\<lambda>x. json_id x \<notin> Some ` route_ids app (length rs)) (rt c) \<and>
    (\<forall>k<length rs. route_body app k (rs ! k) \<in> set (rt c')) \<and>
    (patches_answered ops app rs c \<longrightarrow>
       route_table (rt c') = route_table (rt c) ++ routes_map app rs \<and> table_wf (rt c') (pl c') \<and>
       (\<forall>k. route_table (rt c') (route_id app k) =
         (if k < length rs then Some (route_body app k (rs ! k)) else route_table (rt c) (route_id app k))))"
proof (intro conjI impI)
  have a: "caddy_admin ops rt pl" using assms(1) by unfold_locales
  let ?other = "\<lambda>x. json_id x \<notin> Some ` route_ids app (length rs)"
  from caddy_admin.set_routes_from_any[OF a assms(3)[unfolded set_routes_def]] assms(2)
  have any: "pl c' = pl c" "filter ?other (rt c') = filter ?other (rt c)"
    "\<forall>k<length rs. route_body app k (rs ! k) \<in> set (rt c')"
    by (simp_all add: table_wf_def route_ids_def atLeast0LessThan)
  then show "pl c' = pl c" "filter ?other (rt c') = filter ?other (rt c)"
    "\<forall>k<length rs. route_body app k (rs ! k) \<in> set (rt c')" by blast+
  have "route_table xs i = route_table (filter ?other xs) i" if "i \<notin> route_ids app (length rs)" for xs i
    using that by (induction xs) (auto simp: route_table_def)
  then show "\<forall>b k. b = app \<or> route_table (rt c') (route_id b k) = route_table (rt c) (route_id b k)"
    using other_app_ids[of app _ _ "length rs"] any(2) by metis
  assume "patches_answered ops app rs c"
  note s = caddy_admin.set_routes_ok[OF a this assms(2,3)]
  show "route_table (rt c') = route_table (rt c) ++ routes_map app rs" "table_wf (rt c') (pl c')" by (rule s)+
  show "\<forall>k. route_table (rt c') (route_id app k) =
      (if k < length rs then Some (route_body app k (rs ! k)) else route_table (rt c) (route_id app k))"
    by (simp add: s(1) map_add_def routes_map_lookup)
qed

lemma set_routes_installs_witness:
  "\<exists>c'. set_routes (server_ops True) ''web'' two_routes sample_server = (c', Inr ()) \<and>
     sv_pl c' = sv_pl sample_server \<and>
     route_table (sv_routes c') (route_id ''web'' 1) = Some (route_body ''web'' 1 (two_routes ! 1))"
proof -
  have "snd (set_routes (server_ops True) ''web'' two_routes sample_server) = Inr ()" by code_simp
  then obtain c' where c: "set_routes (server_ops True) ''web'' two_routes sample_server = (c', Inr ())"
    by (metis prod.collapse)
  have "(1 :: nat) < length two_routes" by (simp add: two_routes_def)
  moreover have "patches_answered (server_ops True) ''web'' two_routes sample_server" by code_simp
  ultimately show ?thesis
    using set_routes_installs[OF server_documented sample_server_wf c] c by auto
qed

text \<open>\<open>set_routes\<close> never removes a route: when an application is updated from \<open>rs\<close> to fewer
  routes, every surplus route of the previous call is still served afterwards.\<close>

theorem surplus_routes_stay:
  assumes "caddy_documented ops rt pl" "patches_fault_free ops" "table_wf (rt c) (pl c)"
    and "set_routes ops app rs c = (c1, Inr ())" "set_routes ops app rs' c1 = (c2, Inr ())"
    and "length rs' \<le> k" "k < length rs"
  shows "route_table (rt c2) (route_id app k) = Some (route_body app k (rs ! k))"
proof -
  have "caddy_reliable ops rt pl" using assms(1,2) by unfold_locales
  from caddy_reliable.surplus_survives[OF this assms(3-7)] show ?thesis .
qed

lemma surplus_routes_stay_witness:
  "\<exists>c1 c2. set_routes (server_ops False) ''web'' (take 1 two_routes) c1 = (c2, Inr ()) \<and>
     route_table (sv_routes c2) (route_id ''web'' 1) = Some (route_body ''web'' 1 (two_routes ! 1))"
proof -
  define c1 where "c1 = fst (set_routes (server_ops False) ''web'' two_routes sample_server)"
  define c2 where "c2 = fst (set_routes (server_ops False) ''web'' (take 1 two_routes) c1)"
  have "snd (set_routes (server_ops False) ''web'' two_routes sample_server) = Inr ()"
    "snd (set_routes (server_ops False) ''web'' (take 1 two_routes)
       (fst (set_routes (server_ops False) ''web'' two_routes sample_server))) = Inr ()" by code_simp+
  then have c: "set_routes (server_ops False) ''web'' two_routes sample_server = (c1, Inr ())"
    "set_routes (server_ops False) ''web'' (take 1 two_routes) c1 = (c2, Inr ())"
    by (simp_all add: c1_def c2_def prod_eq_iff)
  have "length (take 1 two_routes) \<le> 1" "1 < length two_routes" by (simp_all add: two_routes_def)
  from surplus_routes_stay[OF server_documented server_fault_free sample_server_wf c this] c
  show ?thesis by blast
qed

text \<open>Removing at least as many routes as were set erases exactly the application's routes: the
  table is the one before the deployment without them, and a 404 for an absent route is no error.\<close>

theorem remove_routes_clears:
  assumes "caddy_documented ops rt pl" "patches_fault_free ops" "table_wf (rt c) (pl c)"
    and "set_routes ops app rs c = (c1, Inr ())" "remove_routes ops app n c1 = (c2, Inr ())" "length rs \<le> n"
  shows "route_table (rt c2) = route_table (rt c) |` (- route_ids app n)"
proof -
  have "caddy_reliable ops rt pl" using assms(1,2) by unfold_locales
  from caddy_reliable.remove_after_set[OF this assms(3-6)] show ?thesis .
qed

lemma remove_routes_clears_witness:
  "\<exists>c1 c2. remove_routes (server_ops False) ''web'' 5 c1 = (c2, Inr ()) \<and>
     route_table (sv_routes c2) = route_table (sv_routes sample_server) |` (- route_ids ''web'' 5)"
proof -
  define c1 where "c1 = fst (set_routes (server_ops False) ''web'' two_routes sample_server)"
  define c2 where "c2 = fst (remove_routes (server_ops False) ''web'' 5 c1)"
  have "snd (set_routes (server_ops False) ''web'' two_routes sample_server) = Inr ()"
    "snd (remove_routes (server_ops False) ''web'' 5
       (fst (set_routes (server_ops False) ''web'' two_routes sample_server))) = Inr ()" by code_simp+
  then have c: "set_routes (server_ops False) ''web'' two_routes sample_server = (c1, Inr ())"
    "remove_routes (server_ops False) ''web'' 5 c1 = (c2, Inr ())"
    by (simp_all add: c1_def c2_def prod_eq_iff)
  have "length two_routes \<le> 5" by (simp add: two_routes_def)
  from remove_routes_clears[OF server_documented server_fault_free sample_server_wf c this] c show ?thesis by blast
qed

text \<open>A PATCH answered with a server error is taken for an absent route: \<open>set_routes\<close> then appends
  a second route with the same id and reports success, while the old route, which comes first, still
  sends the hostname to the old port.\<close>

theorem set_routes_server_error:
  "(let c0 = \<lparr>sv_routes = [route_body ''web'' 0 \<lparr>route_hostname = ''a.x.dev'', route_port = 3000\<rparr>],
              sv_policies = None, sv_config = JNull, sv_faults = [503]\<rparr>;
        (c1, x) = set_routes (server_ops True) ''web'' [\<lparr>route_hostname = ''a.x.dev'', route_port = 4000\<rparr>] c0
    in x = Inr () \<and>
       id_list (sv_routes c1) = [route_id ''web'' 0, route_id ''web'' 0] \<and>
       route_table (sv_routes c1) (route_id ''web'' 0) =
         Some (route_body ''web'' 0 \<lparr>route_hostname = ''a.x.dev'', route_port = 3000\<rparr>))"
  by code_simp

section \<open>The TLS policy upsert\<close>

definition policies_readable :: "'c caddy_ops \<Rightarrow> bool" where
  "policies_readable ops \<longleftrightarrow> (\<forall>c. \<exists>s body. op_get_policies ops c = (HttpStatus s, body) \<and> (is_success s \<or> s = 404))"

lemma partition_owned:
  "partition_policies pid subjects ps f = (Some p, g) \<Longrightarrow> route_table ps pid = Some p"
  by (induction ps arbitrary: f) (auto simp: route_table_Cons split: if_splits)

lemma partition_none:
  "partition_policies pid subjects ps f = (None, g) \<Longrightarrow>
     \<not> with_id pid ps \<and> (g \<longleftrightarrow> f \<or> (\<exists>p\<in>set ps. \<exists>s\<in>set (policy_subjects p). s \<in> set subjects))"
  by (induction ps arbitrary: f) (auto simp: with_id_def list_ex_iff split: if_splits)

lemma partition_found:
  "route_table ps pid = Some p \<Longrightarrow> \<exists>g. partition_policies pid subjects ps f = (Some p, g)"
  by (induction ps arbitrary: f) (auto simp: route_table_Cons route_table_def split: if_splits)

definition foreign :: "string \<Rightarrow> json list \<Rightarrow> json list" where
  "foreign pid ps = filter (\<lambda>p. json_id p \<noteq> Some pid) ps"

lemma replaces_foreign: "replaces i b xs ys \<Longrightarrow> json_id b = Some i \<Longrightarrow> foreign i ys = foreign i xs"
  by (auto simp: replaces_def foreign_def)

lemma json_id_stamped: "is_jobj p \<Longrightarrow> json_id (jput ''@id'' (JStr i) p) = Some i"
  by (simp add: json_id_def jget_jput)

text \<open>What a successful upsert leaves behind: one owned policy with the desired body.\<close>

definition policy_installed :: "string \<Rightarrow> json \<Rightarrow> json list \<Rightarrow> bool" where
  "policy_installed pid policy ps =
     (case route_table ps pid of Some q \<Rightarrow> jdel ''@id'' q = policy | None \<Rightarrow> False)"

context caddy_admin
begin

lemma append_policy_ok:
  assumes ok: "append_tls_policy ops pid policy c = (c', Inr ())"
    and n: "\<not> with_id pid (pl c)" and d: "distinct (id_list (pl c))"
    and p: "is_jobj policy" "jget ''@id'' policy = None"
  shows "policy_installed pid policy (pl c') \<and> foreign pid (pl c') = foreign pid (pl c) \<and>
    distinct (id_list (pl c')) \<and> rt c' = rt c"
proof -
  let ?b = "jput ''@id'' (JStr pid) policy"
  have b: "json_id ?b = Some pid" using p(1) by (rule json_id_stamped)
  obtain c1 h where q: "op_post_policy ops ?b c = (c1, h)" by fastforce
  then obtain s where "h = HttpStatus s" "is_success s" "c' = c1"
    using ok by (cases h) (auto simp: append_tls_policy_def split: if_splits)
  then have e: "pl c' = pl c @ [?b]" "rt c' = rt c" using post_policy_ok q by auto
  have "route_table (pl c') pid = Some ?b" using append_table(1)[OF n b d] e by simp
  moreover have "jdel ''@id'' ?b = policy" using p(2) by (rule jdel_jput)
  ultimately show ?thesis
    using append_table(2)[OF n b d] e b by (simp add: policy_installed_def foreign_def)
qed

lemma patch_policy_ok:
  assumes ok: "patch_tls_policy_in_place ops pid policy c = (c', Inr ())"
    and r: "\<not> with_id pid (rt c)" and d: "distinct (id_list (pl c))"
    and p: "is_jobj policy" "jget ''@id'' policy = None"
  shows "policy_installed pid policy (pl c') \<and> foreign pid (pl c') = foreign pid (pl c) \<and>
    distinct (id_list (pl c')) \<and> rt c' = rt c"
proof -
  let ?b = "jput ''@id'' (JStr pid) policy"
  have b: "json_id ?b = Some pid" using p(1) by (rule json_id_stamped)
  have j: "jdel ''@id'' ?b = policy" using p(2) by (rule jdel_jput)
  obtain c1 h where q: "op_patch_id ops pid ?b c = (c1, h)" by fastforce
  then obtain s where h: "h = HttpStatus s" using ok by (cases h) (auto simp: patch_tls_policy_in_place_def)
  show ?thesis
  proof (cases "is_success s")
    case True
    then have "c' = c1" using ok q h by (simp add: patch_tls_policy_in_place_def)
    moreover have "\<not> replaces pid ?b (rt c) (rt c1)" using r by (auto simp: replaces_def with_id_def)
    then have e: "replaces pid ?b (pl c) (pl c1)" "rt c1 = rt c"
      using patch_ok[OF q] h True by (auto simp: ok_status_def)
    ultimately show ?thesis
      using replaces_table[OF e(1) d b] replaces_foreign[OF e(1) b] d j by (simp add: policy_installed_def)
  next
    case False
    then have "s = 404" and a: "append_tls_policy ops pid policy c1 = (c', Inr ())"
      using ok q h by (auto simp: patch_tls_policy_in_place_def split: if_splits)
    then have "\<not> with_id pid (pl c)" "rt c1 = rt c" "pl c1 = pl c"
      using patch_404 patch_fail[OF _ False] q h by blast+
    then show ?thesis using append_policy_ok[OF a _ _ p] d by simp
  qed
qed

lemma upsert_ok:
  assumes readable: "policies_readable ops"
    and ok: "upsert_tls_policy ops (s # ss) policy c = (c', Inr ())"
    and r: "\<not> with_id (tls_policy_id s) (rt c)" and d: "distinct (id_list (pl c))"
    and p: "is_jobj policy" "jget ''@id'' policy = None"
  shows "policy_installed (tls_policy_id s) policy (pl c') \<and>
    foreign (tls_policy_id s) (pl c') = foreign (tls_policy_id s) (pl c) \<and>
    distinct (id_list (pl c')) \<and> rt c' = rt c"
proof -
  let ?i = "tls_policy_id s"
  obtain st body where g: "op_get_policies ops c = (HttpStatus st, body)" "is_success st \<or> st = 404"
    using readable unfolding policies_readable_def by blast
  have ps: "(if is_success st then body else []) = pl c"
    using g get_policies_ok[of c st body] get_policies_404[of c body] by auto
  obtain own fg where part: "partition_policies ?i (s # ss) (pl c) False = (own, fg)" by fastforce
  note u = upsert_tls_policy_def[of ops "s # ss" policy c] g(1) ps part
  show ?thesis
  proof (cases own)
    case (Some q)
    then have q: "route_table (pl c) ?i = Some q" using partition_owned part by simp
    show ?thesis
    proof (cases "jdel ''@id'' q = policy")
      case True
      then have "c' = c" using ok Some by (simp add: u)
      then show ?thesis using q True d by (simp add: policy_installed_def)
    next
      case False
      then have "patch_tls_policy_in_place ops ?i policy c = (c', Inr ())" using ok Some by (simp add: u)
      then show ?thesis using patch_policy_ok r d p by blast
    qed
  next
    case None
    then have n: "\<not> with_id ?i (pl c)" using partition_none part by blast
    have fg: "\<not> fg" using ok None by (auto simp: u)
    show ?thesis
    proof (cases "pl c = []")
      case False
      then have "append_tls_policy ops ?i policy c = (c', Inr ())" using ok None fg by (simp add: u)
      then show ?thesis using append_policy_ok n d p by blast
    next
      case True
      obtain c1 h1 where put: "op_put_policies ops c = (c1, h1)" by fastforce
      then have "append_tls_policy ops ?i policy c1 = (c', Inr ())"
        using ok None fg True part by (cases h1) (auto simp: upsert_tls_policy_def g(1) ps split: if_splits)
      then show ?thesis using append_policy_ok[of ?i policy c1 c'] put_policies_same[OF put] n d p by auto
    qed
  qed
qed

lemma upsert_again:
  assumes readable: "policies_readable ops" and "policy_installed (tls_policy_id s) policy (pl c)"
  shows "upsert_tls_policy ops (s # ss) policy c = (c, Inr ())"
proof -
  obtain st body where g: "op_get_policies ops c = (HttpStatus st, body)" "is_success st \<or> st = 404"
    using readable unfolding policies_readable_def by blast
  have ps: "(if is_success st then body else []) = pl c"
    using g get_policies_ok[of c st body] get_policies_404[of c body] by auto
  obtain q where q: "route_table (pl c) (tls_policy_id s) = Some q" "jdel ''@id'' q = policy"
    using assms(2) by (auto simp: policy_installed_def split: option.splits)
  obtain fg where "partition_policies (tls_policy_id s) (s # ss) (pl c) False = (Some q, fg)"
    using partition_found[OF q(1)] by blast
  then show ?thesis by (simp add: upsert_tls_policy_def g(1) ps q(2))
qed

end

lemma jobj_is_jobj [simp]: "is_jobj (jobj kvs)"
  by (simp add: jobj_def is_jobj_def)

lemma server_policies_readable: "policies_readable (server_ops False)"
  by (auto simp: policies_readable_def server_ops_def is_success_def split: option.splits)

text \<open>A successful TLS policy upsert leaves exactly one policy with slip's id for the subject,
  holding the desired body, keeps every policy slip does not own in place and in order, touches no
  route, and repeating it changes nothing.\<close>

theorem upsert_tls_policy_spec:
  assumes "caddy_documented ops rt pl" "policies_readable ops"
    and "upsert_tls_policy ops (s # ss) policy c = (c', Inr ())"
    and "\<not> with_id (tls_policy_id s) (rt c)" "distinct (id_list (pl c))"
    and "is_jobj policy" "jget ''@id'' policy = None"
  shows "policy_installed (tls_policy_id s) policy (pl c') \<and>
    foreign (tls_policy_id s) (pl c') = foreign (tls_policy_id s) (pl c) \<and>
    distinct (id_list (pl c')) \<and> rt c' = rt c \<and>
    upsert_tls_policy ops (s # ss) policy c' = (c', Inr ())"
proof -
  have a: "caddy_admin ops rt pl" using assms(1) by unfold_locales
  show ?thesis
    using caddy_admin.upsert_ok[OF a assms(2-7)] caddy_admin.upsert_again[OF a assms(2)] by blast
qed

definition sample_policy :: json where
  "sample_policy = the (build_tls_policy [''a.x.dev''] TlsInternal None None None)"

lemma upsert_tls_policy_spec_witness:
  "\<exists>c'. upsert_tls_policy (server_ops False) [''a.x.dev''] sample_policy sample_server = (c', Inr ()) \<and>
     policy_installed (tls_policy_id ''a.x.dev'') sample_policy (sv_pl c') \<and>
     foreign (tls_policy_id ''a.x.dev'') (sv_pl c') = sv_pl sample_server"
proof -
  define c' where "c' = fst (upsert_tls_policy (server_ops False) [''a.x.dev''] sample_policy sample_server)"
  have "snd (upsert_tls_policy (server_ops False) [''a.x.dev''] sample_policy sample_server) = Inr ()" by code_simp
  then have c: "upsert_tls_policy (server_ops False) [''a.x.dev''] sample_policy sample_server = (c', Inr ())"
    by (simp add: c'_def prod_eq_iff)
  have r: "\<not> with_id (tls_policy_id ''a.x.dev'') (sv_routes sample_server)"
    unfolding replace_first_None[of _ JNull, symmetric] by code_simp
  have d: "distinct (id_list (sv_pl sample_server))" by code_simp
  have p: "is_jobj sample_policy" by code_simp
  have i: "jget ''@id'' sample_policy = None" by code_simp
  have f: "foreign (tls_policy_id ''a.x.dev'') (sv_pl sample_server) = sv_pl sample_server" by code_simp
  from upsert_tls_policy_spec[OF server_documented server_policies_readable c r d p i] c f show ?thesis by auto
qed

text \<open>A subject already covered by a policy that slip does not own is a conflict: the upsert
  reports it and sends no request that changes the server.\<close>

theorem upsert_conflict_preserves:
  assumes "caddy_documented ops rt pl" "policies_readable ops"
    and "\<not> with_id (tls_policy_id s) (pl c)" "p \<in> set (pl c)" "s \<in> set (policy_subjects p)"
  shows "upsert_tls_policy ops (s # ss) policy c = (c, Inl (CaddyTlsPolicyConflict s (tls_policy_id s)))"
proof -
  have a: "caddy_admin ops rt pl" using assms(1) by unfold_locales
  obtain st body where g: "op_get_policies ops c = (HttpStatus st, body)" "is_success st \<or> st = 404"
    using assms(2) unfolding policies_readable_def by blast
  have ps: "(if is_success st then body else []) = pl c"
    using g caddy_admin.get_policies_ok[OF a, of c st body] caddy_admin.get_policies_404[OF a, of c body] by auto
  obtain own fg where part: "partition_policies (tls_policy_id s) (s # ss) (pl c) False = (own, fg)" by fastforce
  have n: "own = None" using partition_owned part assms(3) by (cases own) (auto simp flip: route_table_None)
  then have fg using partition_none[OF part[unfolded n]] assms(4,5) by auto
  then show ?thesis using part n by (simp add: upsert_tls_policy_def g(1) ps)
qed

lemma upsert_conflict_preserves_witness:
  "upsert_tls_policy (server_ops False) [''other.x.dev''] sample_policy sample_server =
     (sample_server, Inl (CaddyTlsPolicyConflict ''other.x.dev'' (tls_policy_id ''other.x.dev'')))"
proof -
  let ?p = "jobj [(''subjects'', JArr [JStr ''other.x.dev''])]"
  have "\<not> with_id (tls_policy_id ''other.x.dev'') (sv_pl sample_server)"
    unfolding replace_first_None[of _ JNull, symmetric] by code_simp
  moreover have "?p \<in> set (sv_pl sample_server)" by (simp add: sample_server_def sv_pl_def)
  moreover have "''other.x.dev'' \<in> set (policy_subjects ?p)" by code_simp
  ultimately show ?thesis by (rule upsert_conflict_preserves[OF server_documented server_policies_readable])
qed

text \<open>The policy id is not injective in the subject: after the wildcard policy of
  \<open>*.x.dev\<close> is in place, the upsert for the host \<open>star.x.dev\<close> takes it for its own and
  overwrites it, so that no policy covers the wildcard any more.\<close>

theorem tls_policy_id_collision:
  "(let pol = (\<lambda>h. the (build_tls_policy [h] TlsInternal None None None));
        c0 = \<lparr>sv_routes = [], sv_policies = None, sv_config = JNull, sv_faults = []\<rparr>;
        (c1, x1) = upsert_tls_policy (server_ops False) [''*.x.dev''] (pol ''*.x.dev'') c0;
        (c2, x2) = upsert_tls_policy (server_ops False) [''star.x.dev''] (pol ''star.x.dev'') c1
    in x1 = Inr () \<and> x2 = Inr () \<and> length (sv_pl c1) = 1 \<and> length (sv_pl c2) = 1 \<and>
       list_ex (policy_covers ''blog.x.dev'') (sv_pl c1) \<and>
       \<not> list_ex (policy_covers ''blog.x.dev'') (sv_pl c2))"
  by code_simp

section \<open>Bootstrap\<close>

definition config_documented :: "'c caddy_ops \<Rightarrow> ('c \<Rightarrow> json) \<Rightarrow> bool" where
  "config_documented ops cfg \<longleftrightarrow>
     (\<forall>c h body. op_get_config ops c = (h, body) \<longrightarrow> ok_status h \<longrightarrow> body = cfg c) \<and>
     (\<forall>j c c' h. op_load ops j c = (c', h) \<longrightarrow> ok_status h \<longrightarrow> cfg c' = j)"

definition slip_block :: "json \<Rightarrow> json option" where
  "slip_block cfg = jpointer [''apps'', ''http'', ''servers'', ''slip''] cfg"

lemma jget_object_at: "jget k (object_at l j) = (case jget l j of Some v \<Rightarrow> if is_jobj v then jget k v else None | None \<Rightarrow> None)"
  by (simp add: object_at_def split: option.split)

lemma object_at_jobj [simp]: "is_jobj (object_at l j)"
  by (simp add: object_at_def is_jobj_def split: option.split)

lemma jput_jobj [simp]: "is_jobj (jput k v j) = is_jobj j"
  by (cases j) (auto simp: is_jobj_def)

lemma is_jobj_JObj [simp]: "is_jobj (JObj m)"
  by (simp add: is_jobj_def)

lemma bootstrap_config_slip: "slip_block (bootstrap_config cfg) = Some slip_server_block"
  by (simp add: slip_block_def bootstrap_config_def Let_def jget_jput)

lemma jget_no_obj: "\<not> is_jobj v \<Longrightarrow> jget k v = None"
  by (cases v) (auto simp: is_jobj_def)

lemma bootstrap_config_keeps:
  "k \<noteq> ''apps'' \<Longrightarrow> jget k (bootstrap_config cfg) = jget k cfg"
  "k \<noteq> ''http'' \<Longrightarrow> jpointer [''apps'', k] (bootstrap_config cfg) = jpointer [''apps'', k] cfg"
  "k \<noteq> ''servers'' \<Longrightarrow> jpointer [''apps'', ''http'', k] (bootstrap_config cfg) = jpointer [''apps'', ''http'', k] cfg"
  "k \<noteq> ''slip'' \<Longrightarrow> jpointer [''apps'', ''http'', ''servers'', k] (bootstrap_config cfg) =
     jpointer [''apps'', ''http'', ''servers'', k] cfg"
  by (auto simp: bootstrap_config_def Let_def jget_jput jget_object_at jget_no_obj
      split: option.splits)

lemma server_config_documented: "config_documented (server_ops False) sv_config"
  by (auto simp: config_documented_def server_ops_def served_def)

text \<open>When the configuration can be read, \<open>bootstrap\<close> changes nothing if the slip server exists,
  reports a foreign server on its listener without a request, and otherwise loads the configuration
  with the slip server added and every other entry, at each of the four levels, kept.\<close>

theorem bootstrap_spec:
  assumes "config_documented ops cfg" "op_get_config ops c = (HttpStatus s, body)" "is_success s"
    and b: "bootstrap ops c = (c', r)"
  shows "case slip_block (cfg c) of
      Some _ \<Rightarrow> c' = c \<and> r = Inr ()
    | None \<Rightarrow> (case listener_conflict (cfg c) of
        Some n \<Rightarrow> c' = c \<and> r = Inl (CaddyListenerConflict n slip_listener)
      | None \<Rightarrow> \<not> is_ok r \<or> (slip_block (cfg c') = Some slip_server_block \<and>
          (\<forall>k. k = ''apps'' \<or> jget k (cfg c') = jget k (cfg c)) \<and>
          (\<forall>k. k = ''http'' \<or> jpointer [''apps'', k] (cfg c') = jpointer [''apps'', k] (cfg c)) \<and>
          (\<forall>k. k = ''servers'' \<or> jpointer [''apps'', ''http'', k] (cfg c') = jpointer [''apps'', ''http'', k] (cfg c)) \<and>
          (\<forall>k. k = ''slip'' \<or> jpointer [''apps'', ''http'', ''servers'', k] (cfg c') =
                            jpointer [''apps'', ''http'', ''servers'', k] (cfg c))))"
proof -
  have body: "body = cfg c" using assms(1-3) by (auto simp: config_documented_def ok_status_def)
  show ?thesis
  proof (cases "slip_block (cfg c) = None \<and> listener_conflict (cfg c) = None \<and> is_ok r")
    case True
    obtain c1 h1 where l: "op_load ops (bootstrap_config (cfg c)) c = (c1, h1)" by fastforce
    then have "c' = c1" "ok_status h1" using b True assms(2,3) body
      by (auto simp: bootstrap_def slip_block_def ok_status_def split: http_result.splits if_splits)
    then have "cfg c' = bootstrap_config (cfg c)" using assms(1) l by (auto simp: config_documented_def)
    then have e: "cfg c' = bootstrap_config (cfg c)" .
    show ?thesis unfolding e using True bootstrap_config_slip[of "cfg c"] bootstrap_config_keeps[of _ "cfg c"]
      by (simp del: jpointer.simps) blast
  next
    case False
    then show ?thesis using b assms(2,3) body
      by (auto simp: bootstrap_def slip_block_def split: option.splits)
  qed
qed

definition shared_config :: json where
  "shared_config = jobj [(''admin'', jobj [(''listen'', JStr ''localhost:2019'')]),
     (''apps'', jobj [(''http'', jobj [(''servers'', jobj [(''blog'', jobj [(''listen'', JArr [JStr '':8080''])])])])])]"

lemma bootstrap_spec_witness:
  "jget ''admin'' (sv_config (fst (bootstrap (server_ops False) (sample_server\<lparr>sv_config := shared_config\<rparr>)))) =
     jget ''admin'' shared_config"
proof -
  let ?c = "sample_server\<lparr>sv_config := shared_config\<rparr>"
  obtain c' r where b: "bootstrap (server_ops False) ?c = (c', r)" by fastforce
  have "is_ok (snd (bootstrap (server_ops False) ?c))" "slip_block (sv_config ?c) = None"
    "listener_conflict (sv_config ?c) = None" by code_simp+
  moreover have "op_get_config (server_ops False) ?c = (HttpStatus 200, shared_config)"
    by (simp add: server_ops_def)
  moreover have "is_success 200" by code_simp
  ultimately have "\<forall>k. k = ''apps'' \<or> jget k (sv_config c') = jget k shared_config"
    using bootstrap_spec[OF server_config_documented _ _ b] b by (simp del: jpointer.simps)
  from spec[OF this, of "''admin''"] have "jget ''admin'' (sv_config c') = jget ''admin'' shared_config" by simp
  then show ?thesis unfolding b fst_conv .
qed

text \<open>A configuration that cannot be read (any answer but a success) is treated as empty: the
  following load then replaces the whole configuration of Caddy, the admin endpoint and the
  servers of others included, by one that holds only the slip server.\<close>

theorem bootstrap_discards_unread_config:
  assumes "config_documented ops cfg" "op_get_config ops c = (HttpStatus s, body)" "\<not> is_success s"
    and "op_load ops (bootstrap_config JNull) c = (c1, HttpStatus 200)"
  shows "bootstrap ops c = (c1, Inr ()) \<and>
    cfg c1 = jobj [(''apps'', jobj [(''http'', jobj [(''servers'', jobj [(''slip'', slip_server_block)])])])]"
proof -
  have "slip_block JNull = None" "listener_conflict JNull = None" "is_success 200" by code_simp+
  then have "bootstrap ops c = (c1, Inr ())"
    using assms(2-4) by (simp add: bootstrap_def slip_block_def)
  moreover have "cfg c1 = bootstrap_config JNull"
    using assms(1,4) by (auto simp: config_documented_def)
  moreover have "bootstrap_config JNull =
      jobj [(''apps'', jobj [(''http'', jobj [(''servers'', jobj [(''slip'', slip_server_block)])])])]"
    by code_simp
  ultimately show ?thesis by simp
qed

lemma bootstrap_discards_unread_config_witness:
  "(let ops = (server_ops False)\<lparr>op_get_config := \<lambda>c. (HttpStatus 503, JNull)\<rparr>;
        c = sample_server\<lparr>sv_config := shared_config\<rparr>
    in snd (bootstrap ops c) = Inr () \<and> jget ''admin'' (sv_config (fst (bootstrap ops c))) = None)"
proof -
  let ?ops = "(server_ops False)\<lparr>op_get_config := \<lambda>c. (HttpStatus 503, JNull)\<rparr>"
  let ?c = "sample_server\<lparr>sv_config := shared_config\<rparr>"
  have "config_documented ?ops sv_config"
    by (auto simp: config_documented_def server_ops_def served_def ok_status_def is_success_def)
  moreover have "op_get_config ?ops ?c = (HttpStatus 503, JNull)" by simp
  moreover have "\<not> is_success 503" by code_simp
  moreover have "op_load ?ops (bootstrap_config JNull) ?c =
      (tick ?c\<lparr>sv_config := bootstrap_config JNull\<rparr>, HttpStatus 200)"
    by (simp add: server_ops_def served_def)
  ultimately have "bootstrap ?ops ?c = (tick ?c\<lparr>sv_config := bootstrap_config JNull\<rparr>, Inr ()) \<and>
      sv_config (tick ?c\<lparr>sv_config := bootstrap_config JNull\<rparr>) =
        jobj [(''apps'', jobj [(''http'', jobj [(''servers'', jobj [(''slip'', slip_server_block)])])])]"
    by (rule bootstrap_discards_unread_config)
  moreover have "jget ''admin'' (bootstrap_config JNull) = None" by code_simp
  ultimately show ?thesis by (simp add: Let_def)
qed

end
