(* ===== verification/State.thy ===== *)
theory State
  imports CaddyProps
begin

text \<open>
  The runtime state of the deployed applications and previews (\<open>deploy.rs\<close>, \<open>preview.rs\<close>), its
  persistence and the startup verification (\<open>state.rs\<close>).  A hash map is an association list; the
  JSON codec of the persisted records and the container runtime's existence check are parameters.
  Times are nanoseconds since the epoch.
\<close>

section \<open>Runtime and persisted state\<close>

datatype app_status = StNotDeployed | StRunning | StDeploying | StFailed

record route_state =
  rs_hostname :: string
  rs_port :: nat

record app_runtime_state =
  as_status :: app_status
  as_current_tag :: "string option"
  as_previous_tag :: "string option"
  as_current_container_id :: "string option"
  as_previous_container_id :: "string option"
  as_current_port :: "nat option"
  as_current_routes :: "route_state list"
  as_deployed_at :: "int option"
  as_deploy_id :: "string option"
  as_current_pod_name :: "string option"
  as_current_manifest_path :: "string option"
  as_kind :: "string option"
  as_last_applied :: "string option"

definition default_runtime_state :: app_runtime_state where
  "default_runtime_state =
     \<lparr>as_status = StNotDeployed, as_current_tag = None, as_previous_tag = None,
      as_current_container_id = None, as_previous_container_id = None, as_current_port = None,
      as_current_routes = [], as_deployed_at = None, as_deploy_id = None, as_current_pod_name = None,
      as_current_manifest_path = None, as_kind = None, as_last_applied = None\<rparr>"

record persisted_route_state =
  prs_hostname :: string
  prs_port :: nat

record persisted_app_state =
  pa_current_tag :: "string option"
  pa_previous_tag :: "string option"
  pa_current_container_id :: "string option"
  pa_current_port :: "nat option"
  pa_current_routes :: "persisted_route_state list"
  pa_deployed_at :: "int option"
  pa_current_pod_name :: "string option"
  pa_current_manifest_path :: "string option"
  pa_kind :: "string option"
  pa_last_applied :: "string option"

definition persist_route :: "route_state \<Rightarrow> persisted_route_state" where
  "persist_route r = \<lparr>prs_hostname = rs_hostname r, prs_port = rs_port r\<rparr>"

definition restore_route :: "persisted_route_state \<Rightarrow> route_state" where
  "restore_route r = \<lparr>rs_hostname = prs_hostname r, rs_port = prs_port r\<rparr>"

definition persist_app :: "app_runtime_state \<Rightarrow> persisted_app_state" where
  "persist_app s =
     \<lparr>pa_current_tag = as_current_tag s, pa_previous_tag = as_previous_tag s,
      pa_current_container_id = as_current_container_id s, pa_current_port = as_current_port s,
      pa_current_routes = map persist_route (as_current_routes s), pa_deployed_at = as_deployed_at s,
      pa_current_pod_name = as_current_pod_name s, pa_current_manifest_path = as_current_manifest_path s,
      pa_kind = as_kind s, pa_last_applied = as_last_applied s\<rparr>"

definition restore_app :: "persisted_app_state \<Rightarrow> app_runtime_state" where
  "restore_app p =
     \<lparr>as_status = (if pa_current_container_id p \<noteq> None \<or> pa_current_pod_name p \<noteq> None
                   then StRunning else StNotDeployed),
      as_current_tag = pa_current_tag p, as_previous_tag = pa_previous_tag p,
      as_current_container_id = pa_current_container_id p, as_previous_container_id = None,
      as_current_port = pa_current_port p, as_current_routes = map restore_route (pa_current_routes p),
      as_deployed_at = pa_deployed_at p, as_deploy_id = None,
      as_current_pod_name = pa_current_pod_name p, as_current_manifest_path = pa_current_manifest_path p,
      as_kind = pa_kind p, as_last_applied = pa_last_applied p\<rparr>"

record preview_state =
  pv_preview_id :: string
  pv_app :: string
  pv_sha :: string
  pv_status :: app_status
  pv_container_id :: "string option"
  pv_pod_name :: "string option"
  pv_port :: "nat option"
  pv_tag :: "string option"
  pv_deployed_at :: int
  pv_expires_at :: "int option"
  pv_domain :: "string option"
  pv_manifest_path :: "string option"
  pv_deploy_id :: "string option"

record persisted_preview_state =
  pp_preview_id :: string
  pp_app :: string
  pp_sha :: string
  pp_container_id :: "string option"
  pp_pod_name :: "string option"
  pp_port :: "nat option"
  pp_tag :: "string option"
  pp_deployed_at :: int
  pp_expires_at :: "int option"
  pp_domain :: "string option"
  pp_manifest_path :: "string option"

definition persist_preview :: "preview_state \<Rightarrow> persisted_preview_state" where
  "persist_preview s =
     \<lparr>pp_preview_id = pv_preview_id s, pp_app = pv_app s, pp_sha = pv_sha s,
      pp_container_id = pv_container_id s, pp_pod_name = pv_pod_name s, pp_port = pv_port s,
      pp_tag = pv_tag s, pp_deployed_at = pv_deployed_at s, pp_expires_at = pv_expires_at s,
      pp_domain = pv_domain s, pp_manifest_path = pv_manifest_path s\<rparr>"

definition restore_preview :: "persisted_preview_state \<Rightarrow> preview_state" where
  "restore_preview p =
     \<lparr>pv_preview_id = pp_preview_id p, pv_app = pp_app p, pv_sha = pp_sha p,
      pv_status = (if pp_container_id p \<noteq> None \<or> pp_pod_name p \<noteq> None then StRunning else StNotDeployed),
      pv_container_id = pp_container_id p, pv_pod_name = pp_pod_name p, pv_port = pp_port p,
      pv_tag = pp_tag p, pv_deployed_at = pp_deployed_at p, pv_expires_at = pp_expires_at p,
      pv_domain = pp_domain p, pv_manifest_path = pp_manifest_path p, pv_deploy_id = None\<rparr>"

section \<open>The state directory\<close>

text \<open>The directory's entries by file name, with contents of a type \<open>'f\<close> that the codec produces;
  \<open>None\<close> is an entry that cannot be read as text.\<close>

type_synonym 'f state_dir = "(string \<times> 'f option) list"

definition file_ext :: "string \<Rightarrow> string option" where
  "file_ext name =
     (case rfind_idx (\<lambda>c. c = CHR ''.'') name of
        Some k \<Rightarrow> if k = 0 then None else Some (drop (k + 1) name)
      | None \<Rightarrow> None)"

definition file_stem :: "string \<Rightarrow> string" where
  "file_stem name =
     (case rfind_idx (\<lambda>c. c = CHR ''.'') name of
        Some k \<Rightarrow> if k = 0 then name else take k name
      | None \<Rightarrow> name)"

definition json_file :: "string \<Rightarrow> string" where "json_file name = name @ ''.json''"

definition save_app_state ::
  "(persisted_app_state \<Rightarrow> 'f) \<Rightarrow> string \<Rightarrow> app_runtime_state \<Rightarrow> 'f state_dir \<Rightarrow> 'f state_dir" where
  "save_app_state enc app s dir = AList.update (json_file app) (Some (enc (persist_app s))) dir"

definition empty_persisted :: persisted_app_state where
  "empty_persisted = persist_app default_runtime_state"

definition save_last_applied ::
  "(persisted_app_state \<Rightarrow> 'f) \<Rightarrow> ('f \<Rightarrow> persisted_app_state option) \<Rightarrow> string \<Rightarrow> string \<Rightarrow>
     'f state_dir \<Rightarrow> 'f state_dir" where
  "save_last_applied enc dec app response dir =
     (let base = (case map_of dir (json_file app) of
                    Some (Some content) \<Rightarrow> (case dec content of Some p \<Rightarrow> p | None \<Rightarrow> empty_persisted)
                  | _ \<Rightarrow> empty_persisted)
      in AList.update (json_file app) (Some (enc (base\<lparr>pa_last_applied := Some response\<rparr>))) dir)"

definition load_entry ::
  "('f \<Rightarrow> persisted_app_state option) \<Rightarrow> string \<times> 'f option \<Rightarrow> (string \<times> app_runtime_state) option" where
  "load_entry dec e =
     (if file_ext (fst e) \<noteq> Some ''json'' then None
      else (case snd e of
              None \<Rightarrow> None
            | Some content \<Rightarrow> (case dec content of
                None \<Rightarrow> None
              | Some p \<Rightarrow> Some (file_stem (fst e), restore_app p))))"

definition load_app_states ::
  "('f \<Rightarrow> persisted_app_state option) \<Rightarrow> 'f state_dir \<Rightarrow> (string \<times> app_runtime_state) list" where
  "load_app_states dec dir = foldl (\<lambda>m (k, s). AList.update k s m) [] (List.map_filter (load_entry dec) dir)"

section \<open>Startup verification\<close>

text \<open>The runtime's answer: exists or not, or an error.\<close>

definition verify_container :: "(string \<Rightarrow> bool option) \<Rightarrow> app_runtime_state \<Rightarrow> app_runtime_state" where
  "verify_container ex s =
     (if as_current_pod_name s \<noteq> None then s
      else (case as_current_container_id s of
              None \<Rightarrow> s
            | Some c \<Rightarrow> (case ex c of
                Some True \<Rightarrow> s
              | Some False \<Rightarrow> s\<lparr>as_current_container_id := None, as_current_port := None, as_status := StNotDeployed\<rparr>
              | None \<Rightarrow> s)))"

definition verify_containers ::
  "(string \<Rightarrow> bool option) \<Rightarrow> (string \<times> app_runtime_state) list \<Rightarrow> (string \<times> app_runtime_state) list" where
  "verify_containers ex states = map (\<lambda>(k, s). (k, verify_container ex s)) states"

section \<open>Lemmas\<close>

lemma json_file_ext: "app \<noteq> [] \<Longrightarrow> file_ext (json_file app) = Some ''json'' \<and> file_stem (json_file app) = app"
proof -
  assume a: "app \<noteq> []"
  have "rfind_idx (\<lambda>c. c = CHR ''.'') (app @ CHR ''.'' # ''json'') = Some (length app)"
    by (rule rfind_idx_append_sep) auto
  then show ?thesis using a by (simp add: file_ext_def file_stem_def json_file_def)
qed

lemma json_ext_name:
  assumes "file_ext name = Some ''json''"
  shows "name = json_file (file_stem name)"
proof -
  from assms obtain k where k: "rfind_idx (\<lambda>c. c = CHR ''.'') name = Some k" "k \<noteq> 0" "drop (k + 1) name = ''json''"
    by (auto simp: file_ext_def split: option.splits if_splits)
  have "name ! k = CHR ''.''" using rfind_idx_SomeD[OF k(1)] by simp
  then show ?thesis using rfind_idx_split[OF k(1)] k by (simp add: json_file_def file_stem_def)
qed

lemma load_entry_key: "load_entry dec e = Some (app, s) \<Longrightarrow> fst e = json_file app"
  using json_ext_name[of "fst e"] by (auto simp: load_entry_def split: if_splits option.splits)

lemma load_entry_of:
  "app \<noteq> [] \<Longrightarrow> load_entry dec (json_file app, v) =
     (case v of None \<Rightarrow> None | Some c \<Rightarrow> map_option (\<lambda>p. (app, restore_app p)) (dec c))"
  by (auto simp: load_entry_def json_file_ext split: option.split)

lemma map_of_fold_update:
  "map_of (foldl (\<lambda>m (k, s). AList.update k s m) m0 xs) k =
     (case map_of (rev xs) k of Some s \<Rightarrow> Some s | None \<Rightarrow> map_of m0 k)"
proof (induction xs arbitrary: m0)
  case (Cons x xs)
  then show ?case by (cases x) (auto simp: update_conv' map_add_def split: option.splits)
qed simp

lemma map_filter_simps:
  "List.map_filter f [] = []"
  "List.map_filter f (x # xs) = (case f x of Some y \<Rightarrow> y # List.map_filter f xs | None \<Rightarrow> List.map_filter f xs)"
  by (simp_all add: map_filter_def split: option.split)

lemma load_lookup:
  assumes "app \<noteq> []" "distinct (map fst dir)"
  shows "map_of (load_app_states dec dir) app =
    (case map_of dir (json_file app) of Some (Some c) \<Rightarrow> map_option restore_app (dec c) | _ \<Rightarrow> None)"
proof -
  have "map_of (rev (List.map_filter (load_entry dec) dir)) app =
      (case map_of dir (json_file app) of Some (Some c) \<Rightarrow> map_option restore_app (dec c) | _ \<Rightarrow> None)"
    using assms(2)
  proof (induction dir)
    case (Cons e dir)
    obtain name v where e: "e = (name, v)" by fastforce
    show ?case
    proof (cases "name = json_file app")
      case True
      then have "map_of dir (json_file app) = None" using Cons.prems e by (simp add: map_of_eq_None_iff)
      then have n: "map_of (rev (List.map_filter (load_entry dec) dir)) app = None" using Cons by simp
      show ?thesis using True e n load_entry_of[OF assms(1), of dec v]
        by (auto simp: map_filter_simps map_add_def split: option.splits)
    next
      case False
      have "load_entry dec e = Some (k, s) \<Longrightarrow> k \<noteq> app" for k s
        using load_entry_key[of dec e k s] False e by auto
      then show ?thesis using Cons e False
        by (auto simp: map_filter_simps map_add_def split: option.splits)
    qed
  qed (simp add: map_filter_simps)
  then show ?thesis
    unfolding load_app_states_def map_of_fold_update
    by (simp add: option.case_eq_if)
qed

lemma json_file_inj [simp]: "json_file a = json_file b \<longleftrightarrow> a = b"
  by (simp add: json_file_def)

text \<open>The state after a restart: transient fields are cleared and the status is inferred.\<close>

definition restarted :: "app_runtime_state \<Rightarrow> app_runtime_state" where
  "restarted s = s\<lparr>as_status := (if as_current_container_id s \<noteq> None \<or> as_current_pod_name s \<noteq> None
                               then StRunning else StNotDeployed),
                  as_previous_container_id := None, as_deploy_id := None\<rparr>"

lemma restore_persist_route [simp]: "restore_route (persist_route r) = r"
  by (simp add: restore_route_def persist_route_def)

lemma restore_persist_app: "restore_app (persist_app s) = restarted s"
  by (simp add: restore_app_def persist_app_def restarted_def o_def)

text \<open>C40. Saving an application's state and restarting loads exactly that state with the transient
  fields cleared and the status inferred from its container or pod; the states loaded for all
  other applications are unchanged.\<close>

theorem app_state_roundtrip:
  assumes "\<And>p. dec (enc p) = Some p" "app \<noteq> []" "distinct (map fst dir)"
  shows "map_of (load_app_states dec (save_app_state enc app s dir)) app = Some (restarted s) \<and>
    (\<forall>b. b = app \<or> b = [] \<or> map_of (load_app_states dec (save_app_state enc app s dir)) b =
         map_of (load_app_states dec dir) b)"
proof -
  let ?dir = "save_app_state enc app s dir"
  have d: "distinct (map fst ?dir)" using assms(3) by (simp add: save_app_state_def distinct_update)
  have m: "map_of ?dir = (map_of dir)(json_file app \<mapsto> Some (enc (persist_app s)))"
    by (simp add: save_app_state_def update_conv')
  have "map_of (load_app_states dec ?dir) app = Some (restarted s)"
    unfolding load_lookup[OF assms(2) d] by (simp add: m assms(1) restore_persist_app)
  moreover have "b = app \<or> b = [] \<or> map_of (load_app_states dec ?dir) b = map_of (load_app_states dec dir) b" for b
  proof (cases "b = app \<or> b = []")
    case False
    then have b: "b \<noteq> []" "b \<noteq> app" by auto
    have "map_of ?dir (json_file b) = map_of dir (json_file b)" using b(2) by (simp add: m)
    then show ?thesis using load_lookup[OF b(1) d, of dec] load_lookup[OF b(1) assms(3), of dec] by simp
  qed auto
  ultimately show ?thesis by blast
qed

lemma app_state_roundtrip_witness:
  "map_of (load_app_states Some (save_app_state id ''web'' default_runtime_state [(''readme.txt'', None)])) ''web'' =
     Some (restarted default_runtime_state)"
  using app_state_roundtrip[of Some id "''web''" "[(''readme.txt'', None)]" default_runtime_state] by simp

lemma update_values: "snd ` set (AList.update k x m) \<subseteq> insert x (snd ` set m)"
  by (induction m) auto

lemma fold_update_values:
  "y \<in> snd ` set (foldl (\<lambda>m (k, s). AList.update k s m) m0 xs) \<Longrightarrow> y \<in> snd ` set m0 \<union> snd ` set xs"
proof (induction xs arbitrary: m0)
  case (Cons x xs)
  obtain k v where x: "x = (k, v)" by fastforce
  then have "y \<in> snd ` set (AList.update k v m0) \<union> snd ` set xs"
    using Cons.IH[of "AList.update k v m0"] Cons.prems by simp
  then show ?case using update_values[of k v m0] x by auto
qed simp

text \<open>After loading and verification every application is either running or not deployed, and it
  counts as running exactly when it has a pod, or a container that the runtime did not report
  missing.\<close>

theorem startup_running:
  assumes "(app, s) \<in> set (verify_containers ex (load_app_states dec dir))"
  shows "as_status s \<in> {StRunning, StNotDeployed} \<and>
    (as_status s = StRunning \<longleftrightarrow>
       as_current_pod_name s \<noteq> None \<or> (\<exists>c. as_current_container_id s = Some c \<and> ex c \<noteq> Some False))"
proof -
  from assms obtain s0 where s0: "s0 \<in> snd ` set (load_app_states dec dir)" "s = verify_container ex s0"
    unfolding verify_containers_def by force
  have "s0 \<in> snd ` set (List.map_filter (load_entry dec) dir)"
    using fold_update_values[of s0 "[]" "List.map_filter (load_entry dec) dir"] s0(1) unfolding load_app_states_def by simp
  then obtain p where "s0 = restore_app p"
    by (auto simp: map_filter_def load_entry_def split: if_splits option.splits)
  then show ?thesis using s0(2)
    by (auto simp: verify_container_def restore_app_def split: option.splits bool.splits)
qed

definition crashed_app :: persisted_app_state where
  "crashed_app = empty_persisted\<lparr>pa_current_container_id := Some ''c1'', pa_current_port := Some 32768\<rparr>"

lemma startup_running_witness:
  "(let s = verify_container (\<lambda>c. Some (c \<noteq> ''c1'')) (restore_app crashed_app)
    in as_status s = StNotDeployed \<and> as_current_port s = None)"
proof -
  let ?ex = "\<lambda>c. Some (c \<noteq> ''c1'')"
  have "(''web'', verify_container ?ex (restore_app crashed_app)) \<in>
      set (verify_containers ?ex (load_app_states Some [(''web.json'', Some crashed_app)]))"
    by code_simp
  from startup_running[OF this] show ?thesis
    by (auto simp: verify_container_def restore_app_def crashed_app_def empty_persisted_def persist_app_def
        default_runtime_state_def)
qed

end
