(* ===== verification/ConfigLoad.thy ===== *)
theory ConfigLoad
  imports Config
begin

text \<open>
  The loading pipeline of \<open>config.rs\<close>: strategy and TLS checks, placeholder resolution in strict
  or warn mode, registry normalisation, needs validation, and the \<open>EnvironmentFile\<close> parser.
\<close>

section \<open>Checks\<close>

definition validate_deploy_strategy :: "deploy_config \<Rightarrow> config_error + unit" where
  "validate_deploy_strategy d =
     (if dc_strategy d = ''blue-green'' \<or> dc_strategy d = ''recreate'' then Inr ()
      else Inl (CfgInvalidStrategy (dc_strategy d)))"

fun validate_tls_strategy :: "tls_strategy \<Rightarrow> string option \<Rightarrow> string option \<Rightarrow> config_error + unit" where
  "validate_tls_strategy TlsInternal host email = Inr ()"
| "validate_tls_strategy TlsTailscale host email =
     (case host of
        Some h \<Rightarrow> if \<not> is_ts_net_host h then Inl (CfgTailscaleHost h) else Inr ()
      | None \<Rightarrow> Inr ())"
| "validate_tls_strategy s host email =
     (case host of
        Some h \<Rightarrow> if is_ts_net_host h then Inl (CfgAcmeTsNet s h)
                  else if email = None then Inl (CfgAcmeNoEmail s) else Inr ()
      | None \<Rightarrow> if email = None then Inl (CfgAcmeNoEmail s) else Inr ())"

definition resolve_acme_email :: "slip_config \<Rightarrow> string option" where
  "resolve_acme_email cfg =
     (case cc_acme_email (sc_caddy cfg) of
        Some e \<Rightarrow> Some e
      | None \<Rightarrow> map_option ct_email (cc_tls (sc_caddy cfg)))"

definition is_secret_like_key :: "string \<Rightarrow> bool" where
  "is_secret_like_key key =
     (let lower = ascii_lowercase key in
      sublist ''token'' lower \<or> sublist ''key'' lower \<or> sublist ''secret'' lower
        \<or> sublist ''password'' lower \<or> sublist ''api_token'' lower)"

definition check_dns_entry :: "string \<times> toml_value \<Rightarrow> config_error + unit" where
  "check_dns_entry kv =
     (case snd kv of
        TomlString s \<Rightarrow>
          if is_secret_like_key (fst kv) \<and> (\<not> prefix ''{env.'' s \<or> \<not> ends_with ''}'' s)
          then Inl (CfgLiteralSecret (fst kv)) else Inr ()
      | TomlOther _ \<Rightarrow> Inr ())"

section \<open>Daemon configuration\<close>

datatype resolve_mode = Strict | Warn

definition unresolved_warning :: "string \<Rightarrow> string \<Rightarrow> string" where
  "unresolved_warning loc m = loc @ '': unresolved ${'' @ m @ ''}''"

definition resolve_value ::
  "resolve_mode \<Rightarrow> process_env \<Rightarrow> string \<Rightarrow> string \<Rightarrow> config_error + string \<times> string list" where
  "resolve_value mode env loc v =
     (case mode of
        Strict \<Rightarrow> and_then (resolve_env_vars env v) (\<lambda>r. Inr (r, []))
      | Warn \<Rightarrow> (let (r, miss) = resolve_env_vars_warn env v
                 in Inr (r, map (unresolved_warning loc) miss)))"

definition normalize_entry :: "string \<times> registry_entry \<Rightarrow> config_error + string \<times> registry_entry" where
  "normalize_entry e =
     and_then (normalize_registry_url (rg_url (snd e))) (\<lambda>u. Inr (fst e, (snd e)\<lparr>rg_url := u\<rparr>))"

definition resolve_token ::
  "resolve_mode \<Rightarrow> process_env \<Rightarrow> string \<times> registry_entry \<Rightarrow> config_error + (string \<times> registry_entry) \<times> string list" where
  "resolve_token mode env e =
     (case rg_token (snd e) of
        None \<Rightarrow> Inr (e, [])
      | Some token \<Rightarrow>
          and_then (resolve_value mode env (''registries.'' @ rg_url (snd e) @ ''.token'') token)
            (\<lambda>(r, ws). Inr ((fst e, (snd e)\<lparr>rg_token := Some r\<rparr>), ws)))"

definition load_slip_config ::
  "resolve_mode \<Rightarrow> process_env \<Rightarrow> config_error + slip_config \<Rightarrow> config_error + slip_config \<times> string list" where
  "load_slip_config mode env parsed =
     and_then parsed (\<lambda>cfg.
     if cc_reconcile_interval (sc_caddy cfg) < secs 1
     then Inl (CfgReconcileInterval (cc_reconcile_interval (sc_caddy cfg)))
     else and_then
       (case sc_deploy cfg of
          Some d \<Rightarrow> (case sd_domain d of
                       Some domain \<Rightarrow> validate_tls_strategy (sd_tls d) (Some domain) (resolve_acme_email cfg)
                     | None \<Rightarrow> Inr ())
        | None \<Rightarrow> Inr ())
     (\<lambda>_. and_then
       (case cc_tls (sc_caddy cfg) of
          Some t \<Rightarrow> (case ct_dns_provider_config t of
                       Some table \<Rightarrow> for_each check_dns_entry table
                     | None \<Rightarrow> Inr ())
        | None \<Rightarrow> Inr ())
     (\<lambda>_. and_then (resolve_value mode env ''auth.secret'' (sc_auth_secret cfg)) (\<lambda>(secret, ws1).
          and_then (map_result normalize_entry (sc_registries cfg)) (\<lambda>regs.
          and_then (map_result (resolve_token mode env) regs) (\<lambda>regs_ws.
            Inr (cfg\<lparr>sc_auth_secret := secret, sc_registries := map fst regs_ws\<rparr>,
                 ws1 @ concat (map snd regs_ws))))))))"

section \<open>App configuration\<close>

definition resolve_env_entry ::
  "resolve_mode \<Rightarrow> process_env \<Rightarrow> string \<Rightarrow> string \<times> string \<Rightarrow> config_error + (string \<times> string) \<times> string list" where
  "resolve_env_entry mode env app kv =
     and_then (resolve_value mode env (''apps.'' @ app @ ''.env'') (snd kv)) (\<lambda>(r, ws). Inr ((fst kv, r), ws))"

definition check_routing_tls :: "string option \<Rightarrow> routing_config \<Rightarrow> config_error + unit" where
  "check_routing_tls email r =
     (case rt_tls r of
        None \<Rightarrow> Inr ()
      | Some t \<Rightarrow>
          and_then (validate_tls_strategy t None email) (\<lambda>_.
            if t = TlsTailscale then
              for_each (\<lambda>route. if \<not> is_ts_net_host (re_hostname route)
                                then Inl (CfgTailscaleHost (re_hostname route)) else Inr ())
                (effective_routes r)
            else Inr ()))"

definition check_route_tls :: "string option \<Rightarrow> route_entry \<Rightarrow> config_error + unit" where
  "check_route_tls email route =
     (case re_tls route of
        Some t \<Rightarrow> validate_tls_strategy t (Some (re_hostname route)) email
      | None \<Rightarrow> Inr ())"

definition load_app ::
  "resolve_mode \<Rightarrow> process_env \<Rightarrow> string option \<Rightarrow> string \<times> (config_error + app_config)
     \<Rightarrow> config_error + app_config \<times> string list" where
  "load_app mode env email file =
     and_then (snd file) (\<lambda>cfg.
     if ai_name (ac_app cfg) \<noteq> fst file then Inl (CfgNameMismatch (fst file) (ai_name (ac_app cfg)))
     else let app = ai_name (ac_app cfg) in
     and_then (map_result (resolve_env_entry mode env app) (ac_env cfg)) (\<lambda>env_ws.
     and_then (case ai_secret (ac_app cfg) of
                 None \<Rightarrow> Inr (None, [])
               | Some s \<Rightarrow> and_then (resolve_value mode env (''apps.'' @ app @ ''.app.secret'') s)
                             (\<lambda>(r, ws). Inr (Some r, ws)))
     (\<lambda>(secret, ws2).
       let cfg' = cfg\<lparr>ac_env := map fst env_ws, ac_app := (ac_app cfg)\<lparr>ai_secret := secret\<rparr>\<rparr> in
       and_then (validate_deploy_strategy (ac_deploy cfg')) (\<lambda>_.
       and_then (check_routing_tls email (ac_routing cfg')) (\<lambda>_.
       and_then (for_each (check_route_tls email) (rt_routes (ac_routing cfg'))) (\<lambda>_.
       and_then (case validate_needs (ac_needs cfg') (map_of (ac_env cfg')) of
                   Inl e \<Rightarrow> Inl (CfgNeeds app e) | Inr u \<Rightarrow> Inr u) (\<lambda>_.
         Inr (cfg', concat (map snd env_ws) @ ws2))))))))"

fun load_apps ::
  "resolve_mode \<Rightarrow> process_env \<Rightarrow> string option \<Rightarrow> (string \<times> (config_error + app_config)) list
     \<Rightarrow> (string \<times> app_config) list \<Rightarrow> string list \<Rightarrow> config_error + (string \<times> app_config) list \<times> string list" where
  "load_apps mode env email [] apps ws = Inr (apps, ws)"
| "load_apps mode env email (f # fs) apps ws =
     and_then (load_app mode env email f) (\<lambda>(cfg, ws').
       load_apps mode env email fs (AList.update (ai_name (ac_app cfg)) cfg apps) (ws @ ws'))"

text \<open>The acme email of the checks is computed before the daemon configuration is rewritten.\<close>

definition load_config_with_mode ::
  "resolve_mode \<Rightarrow> process_env \<Rightarrow> config_error + slip_config \<Rightarrow> (string \<times> (config_error + app_config)) list
     \<Rightarrow> config_error + slip_config \<times> (string \<times> app_config) list \<times> string list" where
  "load_config_with_mode mode env parsed files =
     and_then (load_slip_config mode env parsed) (\<lambda>(cfg, ws).
     and_then (load_apps mode env (resolve_acme_email cfg) files [] ws) (\<lambda>(apps, ws').
       Inr (cfg, apps, ws')))"

definition load_config ::
  "process_env \<Rightarrow> config_error + slip_config \<Rightarrow> (string \<times> (config_error + app_config)) list
     \<Rightarrow> config_error + slip_config \<times> (string \<times> app_config) list" where
  "load_config env parsed files =
     and_then (load_config_with_mode Strict env parsed files) (\<lambda>(cfg, apps, ws). Inr (cfg, apps))"

section \<open>Environment files\<close>

text \<open>\<open>str::lines\<close>: the parts between newlines, without a final empty part; the carriage return
  that \<open>lines\<close> also removes is white space, trimmed by the caller.\<close>

definition str_lines :: "string \<Rightarrow> string list" where
  "str_lines s = (let ps = split_on (CHR 0x0A) s in if last ps = [] then butlast ps else ps)"

definition unquote :: "string \<Rightarrow> string" where
  "unquote v =
     (if length v \<ge> 2 \<and> ((hd v = CHR 0x22 \<and> last v = CHR 0x22) \<or> (hd v = CHR 0x27 \<and> last v = CHR 0x27))
      then butlast (tl v) else v)"

fun parse_env_lines :: "nat \<Rightarrow> env_table \<Rightarrow> string list \<Rightarrow> config_error + env_table" where
  "parse_env_lines n out [] = Inr out"
| "parse_env_lines n out (line # rest) =
     (let trimmed = trim line in
      if trimmed = [] \<or> prefix ''#'' trimmed then parse_env_lines (n + 1) out rest
      else if prefix ''export '' trimmed then Inl (CfgEnvExport (n + 1))
      else (case find_idx (\<lambda>c. c = CHR ''='') trimmed of
              None \<Rightarrow> Inl (CfgEnvNoEquals (n + 1))
            | Some eq \<Rightarrow>
                let key = trim (take eq trimmed);
                    value = unquote (trim (drop (eq + 1) trimmed))
                in if key = [] then Inl (CfgEnvEmptyKey (n + 1))
                   else parse_env_lines (n + 1) (AList.update key value out) rest))"

definition parse_env_file :: "string option \<Rightarrow> string \<Rightarrow> config_error + env_table" where
  "parse_env_file content path =
     (case content of
        None \<Rightarrow> Inl (CfgReadFile path)
      | Some raw \<Rightarrow> parse_env_lines 0 [] (str_lines raw))"

section \<open>What a successful load guarantees\<close>

definition route_tls_ok :: "string option \<Rightarrow> route_entry \<Rightarrow> bool" where
  "route_tls_ok email r =
     (case re_tls r of
        Some TlsTailscale \<Rightarrow> is_ts_net_host (re_hostname r)
      | Some TlsAcme \<Rightarrow> email \<noteq> None
      | Some TlsCloudflareDns01 \<Rightarrow> email \<noteq> None
      | _ \<Rightarrow> True)"

definition loaded_ok :: "string option \<Rightarrow> string \<times> app_config \<Rightarrow> bool" where
  "loaded_ok email na \<longleftrightarrow>
     (let a = snd na in
      ai_name (ac_app a) = fst na \<and>
      List.member [''blue-green'', ''recreate''] (dc_strategy (ac_deploy a)) \<and>
      list_all (route_tls_ok email) (effective_routes (ac_routing a)) \<and>
      list_all need_ok (ac_needs a) \<and> distinct (injected (ac_needs a)) \<and>
      list_all (\<lambda>v. map_of (ac_env a) v = None) (injected (ac_needs a)))"

lemma routing_tls_ok:
  assumes "check_routing_tls email r = Inr ()" "for_each (check_route_tls email) (rt_routes r) = Inr ()"
  shows "list_all (route_tls_ok email) (effective_routes r)"
  unfolding list_all_iff
proof
  fix x assume x: "x \<in> set (effective_routes r)"
  show "route_tls_ok email x"
  proof (cases "rt_routes r = []")
    case True
    then obtain d where "x = \<lparr>re_hostname = d, re_port = rt_port r, re_tls = rt_tls r\<rparr>" "rt_domain r = Some d"
      using x by (auto simp: effective_routes_def split: option.splits)
    then show ?thesis using assms(1) True
      by (auto simp: check_routing_tls_def route_tls_ok_def result_simps effective_routes_def
          split: option.splits tls_strategy.splits if_splits)
  next
    case False
    then have "check_route_tls email x = Inr ()" using x assms(2) by (simp add: effective_routes_def result_simps)
    then show ?thesis
      by (auto simp: check_route_tls_def route_tls_ok_def split: option.splits tls_strategy.splits if_splits)
  qed
qed

lemma load_app_ok:
  assumes "load_app mode env email file = Inr (a, ws)"
  shows "loaded_ok email (ai_name (ac_app a), a)"
proof -
  obtain cfg where cfg: "snd file = Inr cfg" using assms by (auto simp: load_app_def result_simps)
  show ?thesis
    using assms routing_tls_ok[of email "ac_routing a"] needs_validated[of "ac_needs a" "map_of (ac_env a)"]
    by (auto simp: load_app_def cfg result_simps Let_def loaded_ok_def validate_deploy_strategy_def
        split: if_splits sum.splits option.splits)
qed

lemma load_apps_ok:
  "load_apps mode env email fs apps ws = Inr (apps', ws') \<Longrightarrow> list_all (loaded_ok email) apps \<Longrightarrow>
     distinct (map fst apps) \<Longrightarrow> list_all (loaded_ok email) apps' \<and> distinct (map fst apps')"
proof (induction fs arbitrary: apps ws)
  case (Cons f fs)
  then obtain a w where f: "load_app mode env email f = Inr (a, w)"
    and r: "load_apps mode env email fs (AList.update (ai_name (ac_app a)) a apps) (ws @ w) = Inr (apps', ws')"
    by (auto simp: result_simps)
  have "list_all (loaded_ok email) (AList.update (ai_name (ac_app a)) a apps)"
    using Cons.prems(2) load_app_ok[OF f] by (induction apps) auto
  then show ?case using Cons.IH[OF r] Cons.prems(3) by (simp add: distinct_update)
qed auto

lemma resolve_value_strict: "resolve_value Strict env loc v = Inr (r, ws) \<Longrightarrow> ws = []"
  by (auto simp: resolve_value_def result_simps)

lemma resolve_entry_strict:
  "resolve_env_entry Strict env app kv = Inr (x, ws) \<Longrightarrow> ws = []"
  "resolve_token Strict env e = Inr (y, ws) \<Longrightarrow> ws = []"
  by (auto simp: resolve_env_entry_def resolve_token_def result_simps dest: resolve_value_strict
      split: option.splits)

lemma concat_snd_empty:
  assumes "map_result f xs = Inr ys" "\<And>x y ws. f x = Inr (y, ws) \<Longrightarrow> ws = []"
  shows "concat (map snd ys) = []"
  using assms(1) assms(2) unfolding map_result_Inr_iff
  by (auto simp: list_all2_conv_all_nth in_set_conv_nth) (metis prod.collapse)

lemma load_app_strict: "load_app Strict env email f = Inr (a, ws) \<Longrightarrow> ws = []"
  by (auto simp: load_app_def result_simps Let_def dest: resolve_value_strict
      dest!: concat_snd_empty[OF _ resolve_entry_strict(1)] split: if_splits option.splits)

lemma load_apps_strict: "load_apps Strict env email fs apps ws = Inr (apps', ws') \<Longrightarrow> ws' = ws"
  by (induction fs arbitrary: apps ws) (auto simp: result_simps dest: load_app_strict)

lemma load_slip_ok:
  assumes "load_slip_config mode env parsed = Inr (cfg, ws)"
  shows "secs 1 \<le> cc_reconcile_interval (sc_caddy cfg)"
    and "list_all (\<lambda>e. normalize_registry_url (rg_url (snd e)) = Inr (rg_url (snd e))) (sc_registries cfg)"
    and "mode = Strict \<Longrightarrow> ws = []"
proof -
  from assms obtain c where p: "parsed = Inr c"
    unfolding load_slip_config_def and_then_Inr_iff by blast
  note a = assms[unfolded load_slip_config_def p and_then_simps]
  have c1: "secs 1 \<le> cc_reconcile_interval (sc_caddy c)" using a by (auto split: if_split_asm)
  with a obtain sw where c2: "resolve_value mode env ''auth.secret'' (sc_auth_secret c) = Inr sw"
    and a2: "(case sw of (secret, ws1) \<Rightarrow>
          and_then (map_result normalize_entry (sc_registries c)) (\<lambda>regs.
          and_then (map_result (resolve_token mode env) regs) (\<lambda>regs_ws.
            Inr (c\<lparr>sc_auth_secret := secret, sc_registries := map fst regs_ws\<rparr>,
                 ws1 @ concat (map snd regs_ws))))) = Inr (cfg, ws)"
    unfolding if_not_P[OF leD[OF c1]] and_then_Inr_iff by blast
  obtain secret ws1 where sw: "sw = (secret, ws1)" by (cases sw)
  from a2 obtain regs rw where c34: "map_result normalize_entry (sc_registries c) = Inr regs"
      "map_result (resolve_token mode env) regs = Inr rw"
    and cw: "Inr (c\<lparr>sc_auth_secret := secret, sc_registries := map fst rw\<rparr>, ws1 @ concat (map snd rw)) = (Inr (cfg, ws) :: config_error + _)"
    unfolding sw prod.case and_then_Inr_iff by blast
  then have cfg: "cfg = c\<lparr>sc_auth_secret := secret, sc_registries := map fst rw\<rparr>"
    and ws: "ws = ws1 @ concat (map snd rw)" by simp_all
  note c = c1 c2[unfolded sw] c34
  show "secs 1 \<le> cc_reconcile_interval (sc_caddy cfg)" unfolding cfg using c(1) by simp
  have 1: "normalize_registry_url (rg_url (snd y)) = Inr (rg_url (snd y))" if "y \<in> set regs" for y
  proof -
    obtain x where "normalize_entry x = Inr y"
      using map_result_mem[OF c(3) \<open>y \<in> set regs\<close>] by blast
    then obtain u where "normalize_registry_url (rg_url (snd x)) = Inr u" "rg_url (snd y) = u"
      by (auto simp: normalize_entry_def result_simps)
    then show ?thesis using normalize_idem by blast
  qed
  have 2: "rg_url (snd (fst z)) = rg_url (snd y)" if "resolve_token mode env y = Inr z" for y z
    using that by (auto simp: resolve_token_def result_simps split: option.splits)
  show "list_all (\<lambda>e. normalize_registry_url (rg_url (snd e)) = Inr (rg_url (snd e))) (sc_registries cfg)"
    unfolding list_all_iff
  proof
    fix e assume "e \<in> set (sc_registries cfg)"
    then obtain z where z: "z \<in> set rw" "e = fst z" unfolding cfg by auto
    then obtain y where "y \<in> set regs" "resolve_token mode env y = Inr z"
      using map_result_mem[OF c(4)] by blast
    then show "normalize_registry_url (rg_url (snd e)) = Inr (rg_url (snd e))" using 1 2 z(2) by metis
  qed
  show "ws = []" if "mode = Strict"
  proof -
    have "concat (map snd rw) = []"
      using c(4) unfolding that by (rule concat_snd_empty) (rule resolve_entry_strict(2))
    moreover have "ws1 = []" using c(2) unfolding that by (rule resolve_value_strict)
    ultimately show ?thesis using ws by simp
  qed
qed

text \<open>A successful load establishes the invariant the daemon runs under: the reconcile interval
  is at least one second, every registry URL is in normal form, every app is filed under its own
  name exactly once with a known strategy, TLS strategies that can be honoured (tailscale only on
  \<open>.ts.net\<close> hosts, ACME only with an email) and needs that collide neither with each other nor with
  its environment; strict mode leaves no warning.\<close>

theorem load_config_establishes:
  assumes "load_config_with_mode mode env parsed files = Inr (cfg, apps, ws)"
  shows "secs 1 \<le> cc_reconcile_interval (sc_caddy cfg)
    \<and> list_all (\<lambda>e. normalize_registry_url (rg_url (snd e)) = Inr (rg_url (snd e))) (sc_registries cfg)
    \<and> list_all (loaded_ok (resolve_acme_email cfg)) apps \<and> distinct (map fst apps)
    \<and> (mode \<noteq> Strict \<or> ws = [])"
proof -
  from assms obtain w where s: "load_slip_config mode env parsed = Inr (cfg, w)"
    and a: "load_apps mode env (resolve_acme_email cfg) files [] w = Inr (apps, ws)"
    by (auto simp: load_config_with_mode_def result_simps)
  note so = load_slip_ok[OF s] and ao = load_apps_ok[OF a]
  have "mode \<noteq> Strict \<or> ws = []" using so(3) a load_apps_strict by fastforce
  then show ?thesis using so(1,2) ao by simp
qed

definition sample_slip :: slip_config where
  "sample_slip = \<lparr>sc_caddy = \<lparr>cc_admin_api = ''http://localhost:2019'', cc_acme_email = Some ''ops@example.org'',
       cc_acme_ca = None, cc_tls = None, cc_reconcile_interval = secs 45\<rparr>,
     sc_auth_secret = ''s3cret'',
     sc_registries = [(''ghcr'', \<lparr>rg_url = ''https://GHCR.io/'', rg_username = None, rg_token = Some ''t''\<rparr>)],
     sc_preview = None, sc_deploy = None\<rparr>"

definition sample_app :: "string \<Rightarrow> routing_config \<Rightarrow> app_config" where
  "sample_app name routing =
     \<lparr>ac_app = \<lparr>ai_name = name, ai_image = ''ghcr.io/me/web'', ai_secret = None\<rparr>,
      ac_routing = routing, ac_health = default_health, ac_deploy = default_deploy,
      ac_env = [(''PORT'', ''8080'')], ac_env_file = None,
      ac_resources = \<lparr>rs_memory = None, rs_cpus = None\<rparr>, ac_network = ''slip'',
      ac_preview = None, ac_volumes = [], ac_needs = [(''db'', \<lparr>need_kind = Postgres\<rparr>)]\<rparr>"

theorem load_config_establishes_witness:
  "\<exists>cfg apps. load_config_with_mode Strict Map.empty (Inr sample_slip)
      [(''web'', Inr (sample_app ''web'' default_routing))] = Inr (cfg, apps, [])
    \<and> apps \<noteq> [] \<and> list_all (loaded_ok (resolve_acme_email cfg)) apps"
proof -
  have "case load_config_with_mode Strict Map.empty (Inr sample_slip)
      [(''web'', Inr (sample_app ''web'' default_routing))] of
      Inl _ \<Rightarrow> False | Inr (cfg, apps, ws) \<Rightarrow> apps \<noteq> []" by code_simp
  then obtain cfg apps ws where l: "load_config_with_mode Strict Map.empty (Inr sample_slip)
      [(''web'', Inr (sample_app ''web'' default_routing))] = Inr (cfg, apps, ws)" "apps \<noteq> []"
    by (auto split: sum.splits)
  from load_config_establishes[OF l(1)] l show ?thesis by auto
qed

definition ts_net_acme_routing :: routing_config where
  "ts_net_acme_routing = \<lparr>rt_domain = Some ''box.tail1.ts.net'', rt_port = Some 80, rt_routes = [], rt_tls = Some TlsAcme\<rparr>"

text \<open>The ACME-on-tailnet guard is incomplete: with the single-route shorthand
  (\<open>routing.domain\<close> plus \<open>routing.tls\<close>) the strategy is checked without its host, so an app loads
  with an effective ACME route on a \<open>.ts.net\<close> host that the validator itself rejects.\<close>

theorem acme_on_ts_net_loads:
  "is_ok (load_app Strict Map.empty (Some ''ops@example.org'') (''web'', Inr (sample_app ''web'' ts_net_acme_routing)))
   \<and> list_ex (\<lambda>r. \<not> is_ok (check_route_tls (Some ''ops@example.org'') r)) (effective_routes ts_net_acme_routing)"
  by code_simp

end
