(* ===== verification/Reconcile.thy ===== *)
theory Reconcile
  imports State ConfigLoad
begin

text \<open>
  Reconciliation of Caddy with the runtime state: the startup passes of \<open>state.rs\<close> and the periodic
  loop of \<open>reconcile.rs\<close>, which re-applies the slip server, the deploy webhook, the preview
  wildcard policy, every running application's routes with retries, and the per-application TLS
  policies.  The retry library grants a number of retries (at most three) that depends on timing and
  is an argument; the Tailscale preflight is an oracle on hosts; a panic is \<open>None\<close>.
\<close>

section \<open>Startup\<close>

definition app_route_infos ::
  "(string \<times> app_config) list \<Rightarrow> string \<times> app_runtime_state \<Rightarrow> route_info list" where
  "app_route_infos configs e =
     (let (app, s) = e in
      if as_status s \<noteq> StRunning then []
      else if as_current_routes s \<noteq> [] then
        map (\<lambda>r. \<lparr>ri_app = app, ri_domain = rs_hostname r, ri_port = rs_port r\<rparr>) (as_current_routes s)
      else (case as_current_port s of
              None \<Rightarrow> []
            | Some port \<Rightarrow> (case map_of configs app of
                None \<Rightarrow> []
              | Some cfg \<Rightarrow>
                  [\<lparr>ri_app = app,
                    ri_domain = (case rt_domain (ac_routing cfg) of Some d \<Rightarrow> d | None \<Rightarrow> []),
                    ri_port = port\<rparr>])))"

definition route_infos ::
  "(string \<times> app_runtime_state) list \<Rightarrow> (string \<times> app_config) list \<Rightarrow> route_info list" where
  "route_infos states configs = concat (map (app_route_infos configs) states)"

definition reconcile_routes ::
  "'c caddy_ops \<Rightarrow> (string \<times> app_runtime_state) list \<Rightarrow> (string \<times> app_config) list \<Rightarrow> 'c \<Rightarrow>
     'c \<times> (caddy_error + unit)" where
  "reconcile_routes ops states configs c =
     (let infos = route_infos states configs in
      if infos = [] then (c, Inr ()) else caddy_reconcile ops infos c)"

definition preview_route_name :: "string \<Rightarrow> string \<Rightarrow> string" where
  "preview_route_name app preview_id = app @ ''-preview-'' @ preview_id"

definition preview_route_info :: "preview_state \<Rightarrow> route_info option" where
  "preview_route_info s =
     (if pv_status s \<noteq> StRunning then None
      else (case pv_port s of
              None \<Rightarrow> None
            | Some port \<Rightarrow> (case pv_domain s of
                None \<Rightarrow> None
              | Some d \<Rightarrow> Some \<lparr>ri_app = preview_route_name (pv_app s) (pv_preview_id s), ri_domain = d, ri_port = port\<rparr>)))"

fun set_previews ::
  "'c caddy_ops \<Rightarrow> route_info list \<Rightarrow> caddy_error option \<Rightarrow> 'c \<Rightarrow> 'c \<times> caddy_error option" where
  "set_previews ops [] first_err c = (c, first_err)"
| "set_previews ops (r # rs) first_err c =
     (let (c1, x) = set_routes ops (ri_app r) [info_route r] c in
      case x of
        Inl e \<Rightarrow> set_previews ops rs (case first_err of None \<Rightarrow> Some e | Some f \<Rightarrow> Some f) c1
      | Inr _ \<Rightarrow> set_previews ops rs first_err c1)"

definition reconcile_preview_routes ::
  "'c caddy_ops \<Rightarrow> (string \<times> preview_state) list \<Rightarrow> 'c \<Rightarrow> 'c \<times> (caddy_error + unit)" where
  "reconcile_preview_routes ops previews c =
     (let (c1, e) = set_previews ops (List.map_filter (preview_route_info \<circ> snd) previews) None c
      in (c1, case e of Some x \<Rightarrow> Inl x | None \<Rightarrow> Inr ()))"

section \<open>The periodic loop\<close>

record route_failure =
  rf_app :: string
  rf_route_id :: string
  rf_error :: caddy_error

record reconcile_summary =
  sm_total :: nat
  sm_ok :: nat
  sm_failed :: nat
  sm_failures :: "route_failure list"

text \<open>One attempt and at most \<open>n\<close> retries.\<close>

fun reconcile_route_with_retry ::
  "'c caddy_ops \<Rightarrow> nat \<Rightarrow> route_info \<Rightarrow> 'c \<Rightarrow> 'c \<times> (caddy_error + unit)" where
  "reconcile_route_with_retry ops 0 r c = set_routes ops (ri_app r) [info_route r] c"
| "reconcile_route_with_retry ops (Suc n) r c =
     (let (c1, x) = set_routes ops (ri_app r) [info_route r] c in
      case x of Inr _ \<Rightarrow> (c1, Inr ()) | Inl _ \<Rightarrow> reconcile_route_with_retry ops n r c1)"

fun reconcile_infos ::
  "'c caddy_ops \<Rightarrow> (route_info \<Rightarrow> nat) \<Rightarrow> route_info list \<Rightarrow> reconcile_summary \<Rightarrow> 'c \<Rightarrow> 'c \<times> reconcile_summary" where
  "reconcile_infos ops retries [] sm c = (c, sm)"
| "reconcile_infos ops retries (r # rs) sm c =
     (let (c1, x) = reconcile_route_with_retry ops (min 3 (retries r)) r c in
      case x of
        Inr _ \<Rightarrow> reconcile_infos ops retries rs (sm\<lparr>sm_ok := sm_ok sm + 1\<rparr>) c1
      | Inl e \<Rightarrow> reconcile_infos ops retries rs
          (sm\<lparr>sm_failed := sm_failed sm + 1,
              sm_failures := sm_failures sm @
                [\<lparr>rf_app = ri_app r, rf_route_id = ''slip-'' @ ri_app r @ ''-0'', rf_error = e\<rparr>]\<rparr>) c1)"

definition reconcile_app_routes ::
  "'c caddy_ops \<Rightarrow> (route_info \<Rightarrow> nat) \<Rightarrow> (string \<times> app_runtime_state) list \<Rightarrow>
     (string \<times> app_config) list \<Rightarrow> 'c \<Rightarrow> 'c \<times> reconcile_summary" where
  "reconcile_app_routes ops retries states configs c =
     (let infos = route_infos states configs in
      reconcile_infos ops retries infos
        \<lparr>sm_total = length infos, sm_ok = 0, sm_failed = 0, sm_failures = []\<rparr> c)"

record reconcile_context =
  rx_app_states :: "(string \<times> app_runtime_state) list"
  rx_apps :: "(string \<times> app_config) list"
  rx_preview :: "server_preview_config option"
  rx_caddy_tls :: "caddy_tls_config option"
  rx_deploy :: "server_deploy_config option"
  rx_listen_addr :: string
  rx_acme_email :: "string option"
  rx_acme_ca :: "string option"

text \<open>The answers of the environment to one tick: IPv6 parsing, the \<open>caddy\<close> binary, the Tailscale
  preflight and the retries granted to each route.\<close>

record tick_env =
  te_v6 :: "string \<Rightarrow> 128 word option"
  te_binary :: binary_output
  te_preflight :: "string \<Rightarrow> bool"
  te_retries :: "route_info \<Rightarrow> nat"

definition route_tls_step ::
  "'c caddy_ops \<Rightarrow> tick_env \<Rightarrow> reconcile_context \<Rightarrow> app_config \<Rightarrow> route_entry \<Rightarrow> 'c \<Rightarrow> 'c option" where
  "route_tls_step ops env ctx cfg route c =
     (let host = re_hostname route;
          explicit = (case re_tls route of Some t \<Rightarrow> Some t | None \<Rightarrow> rt_tls (ac_routing cfg))
      in case resolve_route_tls (te_v6 env) host explicit of
           LeaveDefault \<Rightarrow> Some c
         | ApplyTls strategy \<Rightarrow>
             (case build_tls_policy [host] strategy (rx_caddy_tls ctx) (rx_acme_email ctx) (rx_acme_ca ctx) of
                None \<Rightarrow> None
              | Some policy \<Rightarrow>
                  if strategy = TlsCloudflareDns01 \<and> \<not> has_dns_provider ops (te_binary env) ''cloudflare'' c then Some c
                  else if strategy = TlsTailscale \<and> \<not> te_preflight env host then Some c
                  else Some (fst (upsert_tls_policy ops [host] policy c))))"

fun route_tls_steps ::
  "'c caddy_ops \<Rightarrow> tick_env \<Rightarrow> reconcile_context \<Rightarrow> app_config \<Rightarrow> route_entry list \<Rightarrow> 'c \<Rightarrow> 'c option" where
  "route_tls_steps ops env ctx cfg [] c = Some c"
| "route_tls_steps ops env ctx cfg (r # rs) c =
     Option.bind (route_tls_step ops env ctx cfg r c) (route_tls_steps ops env ctx cfg rs)"

fun reconcile_app_tls ::
  "'c caddy_ops \<Rightarrow> tick_env \<Rightarrow> reconcile_context \<Rightarrow> (string \<times> app_runtime_state) list \<Rightarrow> 'c \<Rightarrow> 'c option" where
  "reconcile_app_tls ops env ctx [] c = Some c"
| "reconcile_app_tls ops env ctx ((app, s) # states) c =
     (if as_status s \<noteq> StRunning then reconcile_app_tls ops env ctx states c
      else (case map_of (rx_apps ctx) app of
              None \<Rightarrow> reconcile_app_tls ops env ctx states c
            | Some cfg \<Rightarrow>
                Option.bind (route_tls_steps ops env ctx cfg (effective_routes (ac_routing cfg)) c)
                  (reconcile_app_tls ops env ctx states)))"

text \<open>Steps 1 to 3 of a tick; step 0 ensures the managed services, which are other state.\<close>

definition tick_webhook :: "'c caddy_ops \<Rightarrow> reconcile_context \<Rightarrow> 'c \<Rightarrow> 'c option" where
  "tick_webhook ops ctx c =
     (case rx_deploy ctx of
        None \<Rightarrow> Some c
      | Some d \<Rightarrow>
          (case bootstrap_deploy ops (sd_domain d) (sd_tls d) (rx_listen_addr ctx) (rx_acme_email ctx)
                  (rx_caddy_tls ctx) (rx_acme_ca ctx) c of
             (c1, Inl CaddyPanic) \<Rightarrow> None
           | (c1, _) \<Rightarrow> Some c1))"

definition tick_preview :: "'c caddy_ops \<Rightarrow> reconcile_context \<Rightarrow> 'c \<Rightarrow> 'c" where
  "tick_preview ops ctx c =
     (case (rx_preview ctx, rx_caddy_tls ctx) of
        (Some p, Some tls) \<Rightarrow> fst (configure_tls ops (sp_domain p) tls c)
      | _ \<Rightarrow> c)"

definition reconcile_tick ::
  "'c caddy_ops \<Rightarrow> tick_env \<Rightarrow> reconcile_context \<Rightarrow> 'c \<Rightarrow> ('c \<times> reconcile_summary) option" where
  "reconcile_tick ops env ctx c =
     Option.bind (tick_webhook ops ctx (fst (bootstrap ops c))) (\<lambda>c1.
       (let (c2, summary) = reconcile_app_routes ops (te_retries env) (rx_app_states ctx) (rx_apps ctx)
                              (tick_preview ops ctx c1)
        in Option.bind (reconcile_app_tls ops env ctx (rx_app_states ctx) c2) (\<lambda>c3. Some (c3, summary))))"

section \<open>Lemmas on the route list\<close>

lemma app_route_infos_app: "r \<in> set (app_route_infos configs (app, s)) \<Longrightarrow> ri_app r = app"
  by (auto simp: app_route_infos_def split: if_splits option.splits)

lemma find_app: "List.find P (xs @ ys) = (case List.find P xs of Some x \<Rightarrow> Some x | None \<Rightarrow> List.find P ys)"
  by (induction xs) auto

lemma find_rev_all: "xs \<noteq> [] \<Longrightarrow> (\<And>x. x \<in> set xs \<Longrightarrow> P x) \<Longrightarrow> List.find P (rev xs) = Some (last xs)"
  by (induction xs rule: rev_induct) auto

lemma find_rev_infos:
  assumes "distinct (map fst states)" "(app, s) \<in> set states" "app_route_infos configs (app, s) \<noteq> []"
  shows "List.find (\<lambda>r. ri_app r = app) (rev (route_infos states configs)) =
    Some (last (app_route_infos configs (app, s)))"
  using assms
proof (induction states)
  case (Cons e states)
  obtain a t where e: "e = (a, t)" by fastforce
  show ?case
  proof (cases "a = app")
    case True
    then have t: "t = s" "app \<notin> fst ` set states" using Cons.prems e by (auto simp: image_iff)
    have "List.find (\<lambda>r. ri_app r = app) (rev (route_infos states configs)) = None"
      unfolding find_None_iff using t(2) app_route_infos_app[of _ configs]
      by (force simp: route_infos_def image_iff)
    moreover have "List.find (\<lambda>r. ri_app r = app) (rev (app_route_infos configs (app, s))) =
        Some (last (app_route_infos configs (app, s)))"
      by (rule find_rev_all[OF Cons.prems(3)]) (rule app_route_infos_app)
    ultimately show ?thesis using e True t(1) by (simp add: route_infos_def find_app)
  next
    case False
    then have "List.find (\<lambda>r. ri_app r = app) (rev (route_infos states configs)) =
        Some (last (app_route_infos configs (app, s)))"
      using Cons e by auto
    then show ?thesis by (simp add: route_infos_def find_app)
  qed
qed simp

lemma fold_infos_at:
  assumes "distinct (map fst states)" "(app, s) \<in> set states" "app_route_infos configs (app, s) \<noteq> []"
  shows "foldl (\<lambda>t r. t ++ routes_map (ri_app r) [info_route r]) t (route_infos states configs) (route_id app k) =
    (if k = 0 then Some (route_body app 0 (info_route (last (app_route_infos configs (app, s))))) else t (route_id app k))"
proof (cases "k = 0")
  case True
  have l: "ri_app (last (app_route_infos configs (app, s))) = app"
    by (rule app_route_infos_app[of _ configs app s]) (use assms(3) in simp)
  show ?thesis using find_rev_infos[OF assms] l True
    by (simp add: foldl_single_routes route_id_eq_iff)
next
  case False
  then have "List.find (\<lambda>r. route_id (ri_app r) 0 = route_id app k) (rev (route_infos states configs)) = None"
    by (auto simp: find_None_iff route_id_eq_iff)
  then show ?thesis using False by (simp add: foldl_single_routes)
qed

section \<open>Retries and summaries\<close>

lemma infos_counts:
  "reconcile_infos ops retries rs sm c = (c', sm') \<Longrightarrow>
     sm_ok sm' + sm_failed sm' = sm_ok sm + sm_failed sm + length rs \<and> sm_failed sm \<le> sm_failed sm' \<and>
     sm_total sm' = sm_total sm \<and>
     length (sm_failures sm') + sm_failed sm = length (sm_failures sm) + sm_failed sm' \<and>
     set (map rf_app (sm_failures sm')) \<subseteq> set (map rf_app (sm_failures sm)) \<union> set (map ri_app rs)"
proof (induction rs arbitrary: sm c)
  case (Cons r rs)
  obtain c1 x where q: "reconcile_route_with_retry ops (min 3 (retries r)) r c = (c1, x)" by fastforce
  show ?case
  proof (cases x)
    case (Inl e)
    let ?f = "\<lparr>rf_app = ri_app r, rf_route_id = ''slip-'' @ ri_app r @ ''-0'', rf_error = e\<rparr>"
    have "reconcile_infos ops retries rs
        (sm\<lparr>sm_failed := sm_failed sm + 1, sm_failures := sm_failures sm @ [?f]\<rparr>) c1 = (c', sm')"
      using Cons.prems q Inl by simp
    from Cons.IH[OF this] show ?thesis by auto
  next
    case (Inr u)
    then have "reconcile_infos ops retries rs (sm\<lparr>sm_ok := sm_ok sm + 1\<rparr>) c1 = (c', sm')"
      using Cons.prems q by simp
    from Cons.IH[OF this] show ?thesis by auto
  qed
qed simp

text \<open>A server that answers every PATCH and POST of a route.\<close>

definition answers :: "'c caddy_ops \<Rightarrow> bool" where
  "answers ops \<longleftrightarrow> (\<forall>i b c. snd (op_patch_id ops i b c) \<noteq> HttpTransport \<and> snd (op_post_route ops b c) \<noteq> HttpTransport)"

context caddy_reliable
begin

lemma put_route_err:
  assumes a: "answers ops" and p: "put_route ops i b c = (c', Inl e)"
  shows "rt c' = rt c \<and> pl c' = pl c"
proof -
  obtain c1 h1 where q: "op_patch_id ops i b c = (c1, h1)" by fastforce
  obtain s1 where h: "h1 = HttpStatus s1" using a q unfolding answers_def by (cases h1) (metis snd_conv)+
  obtain c2 h2 where q2: "op_post_route ops b c1 = (c2, h2)" by fastforce
  obtain s2 where h2: "h2 = HttpStatus s2" using a q2 unfolding answers_def by (cases h2) (metis snd_conv)+
  have f: "\<not> is_success s1" using p q h by (auto simp: put_route_def)
  then have "\<not> is_success s2" "c' = c2" using p q h q2 h2 by (auto simp: put_route_def split: if_splits)
  then show ?thesis using patch_fail[of i b c c1 s1] post_route_fail[of b c1 c2 s2] f q h q2 h2 by simp
qed

lemma set_single_err:
  "answers ops \<Longrightarrow> set_routes ops app [r] c = (c', Inl e) \<Longrightarrow> rt c' = rt c \<and> pl c' = pl c"
  using put_route_err by (auto simp: set_routes_def split: sum.splits prod.splits)

lemma retry_table:
  assumes a: "answers ops"
  shows "reconcile_route_with_retry ops n r c = (c', x) \<Longrightarrow> table_wf (rt c) (pl c) \<Longrightarrow>
    table_wf (rt c') (pl c') \<and>
    route_table (rt c') = (if is_ok x then route_table (rt c) ++ routes_map (ri_app r) [info_route r] else route_table (rt c))"
proof (induction n arbitrary: c)
  case 0
  show ?case
  proof (cases x)
    case (Inl e)
    then show ?thesis using 0 set_single_err[OF a, of "ri_app r" "info_route r" c c' e] by simp
  next
    case (Inr u)
    then show ?thesis using 0 proxy.set_table[of c "ri_app r" "[info_route r]" c'] proxy.set_wf[of c "ri_app r" "[info_route r]" c'] by simp
  qed
next
  case (Suc n)
  obtain c1 y where s: "set_routes ops (ri_app r) [info_route r] c = (c1, y)" by fastforce
  show ?case
  proof (cases y)
    case (Inl e)
    then have v: "rt c1 = rt c" "pl c1 = pl c" using set_single_err[OF a] s by blast+
    have "reconcile_route_with_retry ops n r c1 = (c', x)" using Suc.prems(1) s Inl by simp
    then show ?thesis using Suc.IH[of c1] Suc.prems(2) v by simp
  next
    case (Inr u)
    then have "c' = c1" "x = Inr ()" using Suc.prems(1) s by simp_all
    then show ?thesis using proxy.set_table[OF Suc.prems(2), of "ri_app r" "[info_route r]" c1]
      proxy.set_wf[OF Suc.prems(2), of "ri_app r" "[info_route r]" c1] s Inr by simp
  qed
qed

lemma infos_table:
  assumes a: "answers ops"
  shows "reconcile_infos ops retries rs sm c = (c', sm') \<Longrightarrow> table_wf (rt c) (pl c) \<Longrightarrow> sm_failed sm' = sm_failed sm \<Longrightarrow>
    table_wf (rt c') (pl c') \<and>
    route_table (rt c') = foldl (\<lambda>t r. t ++ routes_map (ri_app r) [info_route r]) (route_table (rt c)) rs"
proof (induction rs arbitrary: sm c)
  case (Cons r rs)
  obtain c1 x where q: "reconcile_route_with_retry ops (min 3 (retries r)) r c = (c1, x)" by fastforce
  show ?case
  proof (cases x)
    case (Inl e)
    then have "sm_failed sm + 1 \<le> sm_failed sm'"
      using Cons.prems(1) q infos_counts[of ops retries rs _ c1 c' sm'] by fastforce
    then show ?thesis using Cons.prems(3) by simp
  next
    case (Inr u)
    have t: "table_wf (rt c1) (pl c1)"
      "route_table (rt c1) = route_table (rt c) ++ routes_map (ri_app r) [info_route r]"
      using retry_table[OF a q Cons.prems(2)] Inr by simp_all
    have "reconcile_infos ops retries rs (sm\<lparr>sm_ok := sm_ok sm + 1\<rparr>) c1 = (c', sm')"
      using Cons.prems(1) q Inr by simp
    then show ?thesis using Cons.IH[OF _ t(1)] Cons.prems(3) t(2) by simp
  qed
qed simp

end

section \<open>Properties\<close>

text \<open>A reconcile pass collects every failure and goes on: the routes it counts are exactly those of
  the running applications, each is either restored or recorded as a failure of its application, and
  no other application is reported.\<close>

theorem reconcile_collects:
  "(let (c', sm) = reconcile_app_routes ops retries states configs c
    in sm_total sm = length (route_infos states configs) \<and> sm_ok sm + sm_failed sm = sm_total sm \<and>
       length (sm_failures sm) = sm_failed sm \<and>
       set (map rf_app (sm_failures sm)) \<subseteq> {app. \<exists>s. (app, s) \<in> set states \<and> as_status s = StRunning})"
proof -
  let ?sm = "\<lparr>sm_total = length (route_infos states configs), sm_ok = 0, sm_failed = 0, sm_failures = []\<rparr>"
  obtain c' sm where q: "reconcile_infos ops retries (route_infos states configs) ?sm c = (c', sm)" by fastforce
  have "ri_app r \<in> {app. \<exists>s. (app, s) \<in> set states \<and> as_status s = StRunning}"
    if r: "r \<in> set (route_infos states configs)" for r
  proof -
    from r obtain app s where e: "(app, s) \<in> set states" "r \<in> set (app_route_infos configs (app, s))"
      by (auto simp: route_infos_def)
    then have "as_status s = StRunning" by (auto simp: app_route_infos_def split: if_splits)
    then show ?thesis using e app_route_infos_app by blast
  qed
  then have "set (map rf_app (sm_failures sm)) \<subseteq> {app. \<exists>s. (app, s) \<in> set states \<and> as_status s = StRunning}"
    using infos_counts[OF q] by auto
  then show ?thesis using infos_counts[OF q] q by (auto simp: reconcile_app_routes_def Let_def)
qed

text \<open>A reconcile pass with no failure installs, under index 0 of a running application, only the
  last of its current routes, and leaves the other indices as they were: an application with several
  hostnames does not get its routes back.\<close>

theorem reconcile_restores_last_route:
  assumes "caddy_documented ops rt pl" "patches_fault_free ops" "answers ops" "table_wf (rt c) (pl c)"
    and "reconcile_app_routes ops retries states configs c = (c', sm)" "sm_failed sm = 0"
    and "distinct (map fst states)" "(app, s) \<in> set states" "as_status s = StRunning" "as_current_routes s \<noteq> []"
  shows "route_table (rt c') (route_id app k) =
    (if k = 0 then Some (route_body app 0 \<lparr>route_hostname = rs_hostname (last (as_current_routes s)),
                                          route_port = rs_port (last (as_current_routes s))\<rparr>)
     else route_table (rt c) (route_id app k))"
proof -
  have rel: "caddy_reliable ops rt pl" using assms(1,2) by unfold_locales
  let ?sm = "\<lparr>sm_total = length (route_infos states configs), sm_ok = 0, sm_failed = 0, sm_failures = []\<rparr>"
  have "reconcile_infos ops retries (route_infos states configs) ?sm c = (c', sm)"
    using assms(5) by (simp add: reconcile_app_routes_def Let_def)
  then have t: "route_table (rt c') =
      foldl (\<lambda>t r. t ++ routes_map (ri_app r) [info_route r]) (route_table (rt c)) (route_infos states configs)"
    using caddy_reliable.infos_table[OF rel assms(3) _ assms(4)] assms(6) by simp
  have i: "app_route_infos configs (app, s) =
      map (\<lambda>r. \<lparr>ri_app = app, ri_domain = rs_hostname r, ri_port = rs_port r\<rparr>) (as_current_routes s)"
    using assms(9,10) by (simp add: app_route_infos_def)
  then have "app_route_infos configs (app, s) \<noteq> []" using assms(10) by simp
  from fold_infos_at[OF assms(7,8) this] show ?thesis
    using assms(10) by (simp add: t i last_map info_route_def)
qed

definition two_route_app :: app_runtime_state where
  "two_route_app = default_runtime_state\<lparr>as_status := StRunning, as_current_container_id := Some ''c1'',
     as_current_routes := map (\<lambda>r. \<lparr>rs_hostname = route_hostname r, rs_port = route_port r\<rparr>) two_routes\<rparr>"

lemma server_answers: "answers (server_ops False)"
  by (auto simp: answers_def server_ops_def served_def at_id_def split: option.splits)

lemma reconcile_restores_last_route_witness:
  "(let c = fst (set_routes (server_ops False) ''web'' two_routes sample_server);
        (c', sm) = reconcile_app_routes (server_ops False) (\<lambda>_. 3) [(''web'', two_route_app)] [] c
    in sm_failed sm = 0 \<and>
       route_table (sv_routes c) (route_id ''web'' 0) = Some (route_body ''web'' 0 (two_routes ! 0)) \<and>
       route_table (sv_routes c') (route_id ''web'' 0) = Some (route_body ''web'' 0 (two_routes ! 1)))"
proof -
  define c where "c = fst (set_routes (server_ops False) ''web'' two_routes sample_server)"
  obtain c' sm where q: "reconcile_app_routes (server_ops False) (\<lambda>_. 3) [(''web'', two_route_app)] [] c = (c', sm)"
    by fastforce
  have "sm_failed (snd (reconcile_app_routes (server_ops False) (\<lambda>_. 3) [(''web'', two_route_app)] []
      (fst (set_routes (server_ops False) ''web'' two_routes sample_server)))) = 0" by code_simp
  then have f: "sm_failed sm = 0" using q by (simp add: c_def)
  have "table_wf (sv_routes (fst (set_routes (server_ops False) ''web'' two_routes sample_server)))
      (sv_pl (fst (set_routes (server_ops False) ''web'' two_routes sample_server)))" by code_simp
  then have w: "table_wf (sv_routes c) (sv_pl c)" by (simp add: c_def)
  have "route_table (sv_routes c') (route_id ''web'' 0) = Some (route_body ''web'' 0 (two_routes ! 1))"
    using reconcile_restores_last_route[OF server_documented server_fault_free server_answers w q f,
        of "''web''" two_route_app 0]
    by (simp add: two_route_app_def two_routes_def)
  moreover have "route_table (sv_routes (fst (set_routes (server_ops False) ''web'' two_routes sample_server)))
      (route_id ''web'' 0) = Some (route_body ''web'' 0 (two_routes ! 0))" by code_simp
  ultimately show ?thesis using f q by (simp add: c_def Let_def)
qed

text \<open>A route with the Cloudflare DNS-01 strategy passes the load-time check on an ACME email alone;
  without a \<open>[caddy.tls]\<close> section every reconcile tick then panics in the policy builder as soon
  as an application with such a route runs.\<close>

theorem dns01_without_provider_panics:
  assumes "rx_caddy_tls ctx = None" "(app, s) \<in> set (rx_app_states ctx)" "as_status s = StRunning"
    and "map_of (rx_apps ctx) app = Some cfg" "route \<in> set (effective_routes (ac_routing cfg))"
    and "re_tls route = Some TlsCloudflareDns01" "\<not> is_ts_net_host (re_hostname route)"
  shows "reconcile_tick ops env ctx c = None \<and> check_route_tls (Some email) route = Inr ()"
proof -
  have step: "route_tls_step ops env ctx cfg route d = None" for d
    using assms(1,6) by (simp add: route_tls_step_def resolve_route_tls_def build_tls_policy_def Let_def)
  have "route_tls_steps ops env ctx cfg rs d = None" if "route \<in> set rs" for rs d
    using that
  proof (induction rs arbitrary: d)
    case (Cons r rs)
    then show ?case using step by (cases "route_tls_step ops env ctx cfg r d") auto
  qed simp
  then have steps: "route_tls_steps ops env ctx cfg (effective_routes (ac_routing cfg)) d = None" for d
    using assms(5) by blast
  have "reconcile_app_tls ops env ctx states d = None" if "(app, s) \<in> set states" for states d
    using that
  proof (induction states arbitrary: d)
    case (Cons e states)
    obtain a t where e: "e = (a, t)" by fastforce
    show ?case
    proof (cases "e = (app, s)")
      case True
      then show ?thesis using steps assms(3,4) by simp
    next
      case False
      then have "reconcile_app_tls ops env ctx states d = None" for d using Cons by auto
      then show ?thesis using e by (auto split: option.split simp: bind_eq_None_conv)
    qed
  qed simp
  then have "reconcile_app_tls ops env ctx (rx_app_states ctx) d = None" for d using assms(2) by blast
  moreover have "check_route_tls (Some email) route = Inr ()"
    using assms(6,7) by (simp add: check_route_tls_def)
  ultimately show ?thesis
    by (auto simp: reconcile_tick_def bind_eq_None_conv split: prod.split)
qed

definition dns01_app :: app_config where
  "dns01_app = sample_app ''web'' (default_routing\<lparr>rt_domain := Some ''a.x.dev'', rt_tls := Some TlsCloudflareDns01\<rparr>)"

definition dns01_context :: reconcile_context where
  "dns01_context =
     \<lparr>rx_app_states = [(''web'', default_runtime_state\<lparr>as_status := StRunning, as_current_container_id := Some ''c1''\<rparr>)],
      rx_apps = [(''web'', dns01_app)], rx_preview = None, rx_caddy_tls = None, rx_deploy = None,
      rx_listen_addr = ''127.0.0.1:7890'', rx_acme_email = Some ''ops@x.dev'', rx_acme_ca = None\<rparr>"

definition quiet_env :: tick_env where
  "quiet_env = \<lparr>te_v6 = \<lambda>_. None, te_binary = NoBinary, te_preflight = \<lambda>_. True, te_retries = \<lambda>_. 3\<rparr>"

lemma dns01_without_provider_panics_witness:
  "reconcile_tick (server_ops False) quiet_env dns01_context sample_server = None"
proof -
  let ?r = "\<lparr>re_hostname = ''a.x.dev'', re_port = None, re_tls = Some TlsCloudflareDns01\<rparr>"
  let ?s = "default_runtime_state\<lparr>as_status := StRunning, as_current_container_id := Some ''c1''\<rparr>"
  have "effective_routes (ac_routing dns01_app) = [?r]" by code_simp
  moreover have "\<not> is_ts_net_host ''a.x.dev''" by code_simp
  ultimately show ?thesis
    using dns01_without_provider_panics[of dns01_context "''web''" ?s dns01_app ?r "server_ops False" quiet_env sample_server]
    by (simp add: dns01_context_def)
qed

text \<open>The route name of a preview is not kept apart from application names: restoring the preview
  \<open>pr-1\<close> of \<open>web\<close> overwrites the route of an application named \<open>web-preview-pr-1\<close>.\<close>

theorem preview_route_collision:
  "(let c0 = fst (set_routes (server_ops False) ''web-preview-pr-1''
                    [\<lparr>route_hostname = ''shop.x.dev'', route_port = 3000\<rparr>] sample_server);
        pv = \<lparr>pv_preview_id = ''pr-1'', pv_app = ''web'', pv_sha = ''abc'', pv_status = StRunning,
              pv_container_id = Some ''c9'', pv_pod_name = None, pv_port = Some 4000, pv_tag = None,
              pv_deployed_at = 0, pv_expires_at = None, pv_domain = Some ''pr-1.preview.x.dev'',
              pv_manifest_path = None, pv_deploy_id = None\<rparr>;
        (c1, x) = reconcile_preview_routes (server_ops False) [(''web:pr-1'', pv)] c0
    in x = Inr () \<and>
       route_table (sv_routes c0) (route_id ''web-preview-pr-1'' 0) =
         Some (route_body ''web-preview-pr-1'' 0 \<lparr>route_hostname = ''shop.x.dev'', route_port = 3000\<rparr>) \<and>
       route_table (sv_routes c1) (route_id ''web-preview-pr-1'' 0) =
         Some (route_body ''web-preview-pr-1'' 0 \<lparr>route_hostname = ''pr-1.preview.x.dev'', route_port = 4000\<rparr>))"
  by code_simp

end
