(* ===== verification/Bindings.thy ===== *)
theory Bindings
  imports Secrets Needs Names Validate
begin

text \<open>
  \<open>services/bindings.rs\<close>: the binding records kept in the secrets store under a reserved namespace,
  and their projection to the environment of an application that declares needs.  The hash of the
  application name and the JSON codec of the records are parameters; a pod manifest is its parsed
  YAML, \<open>None\<close> when it does not parse.
\<close>

datatype conflict_reason =
    NeedNotBound | NeedNotReady | PodEnvManaged
  | PinnedServiceGone | ManyServices | SecretKeyTaken | ServiceNotReady | InstanceChanged

datatype binding_error =
    MissingService string
  | BindInvalid
  | BindConflict conflict_reason string
  | BindProvision
  | BindStore

record binding_record =
  br_service :: string
  br_instance :: string
  br_resource_id :: string
  br_password :: string
  br_env :: "(string \<times> string) list option"

type_synonym binding_records = "(string \<times> binding_record) list"

record bindings_codec =
  bc_app_key :: "string \<Rightarrow> string"
  bc_encode :: "binding_records \<Rightarrow> string"
  bc_decode :: "string \<Rightarrow> binding_records option"

definition bindings_namespace :: string where "bindings_namespace = ''__bindings''"

definition record_credentials :: "binding_record \<Rightarrow> binding_error + resource_credentials" where
  "record_credentials r =
     (case resource_credentials_new (br_resource_id r) (br_password r) of Inr c \<Rightarrow> Inr c | Inl _ \<Rightarrow> Inl BindStore)"

definition record_key :: "string \<Rightarrow> need \<Rightarrow> string" where
  "record_key alias need = need_type_str (need_kind need) @ '':'' @ alias"

definition bindings_load :: "bindings_codec \<Rightarrow> secrets_store \<Rightarrow> string \<Rightarrow> binding_error + binding_records" where
  "bindings_load bc s app =
     (case store_get s bindings_namespace (bc_app_key bc app) of
        Inl _ \<Rightarrow> Inl BindStore
      | Inr None \<Rightarrow> Inr []
      | Inr (Some v) \<Rightarrow> (case bc_decode bc v of Some rs \<Rightarrow> Inr rs | None \<Rightarrow> Inl BindStore))"

definition bindings_save ::
  "bindings_codec \<Rightarrow> secrets_store \<Rightarrow> string \<Rightarrow> binding_records \<Rightarrow> secrets_store \<times> (binding_error + unit)" where
  "bindings_save bc s app records =
     (case store_set s bindings_namespace (bc_app_key bc app) (bc_encode bc records) of
        (s1, Inr _) \<Rightarrow> (s1, Inr ()) | (s1, Inl _) \<Rightarrow> (s1, Inl BindStore))"

definition binding_values :: "binding_records \<Rightarrow> string \<times> need \<Rightarrow> binding_error + (string \<times> string) list" where
  "binding_values records entry =
     (let (alias, need) = entry in
      case map_of records (record_key alias need) of
        None \<Rightarrow> Inl (BindConflict NeedNotBound alias)
      | Some r \<Rightarrow>
          and_then (record_credentials r) (\<lambda>_.
            (case br_env r of
               None \<Rightarrow> Inl (BindConflict NeedNotReady alias)
             | Some vals \<Rightarrow>
                 if map fst vals \<noteq> sort (env_keys need alias) then Inl BindStore else Inr vals)))"

definition extend_env :: "(string \<times> string) list \<Rightarrow> (string \<times> string) list \<Rightarrow> (string \<times> string) list" where
  "extend_env m vals = foldl (\<lambda>m (k, v). AList.update k v m) m vals"

fun bindings_env_from ::
  "binding_records \<Rightarrow> (string \<times> need) list \<Rightarrow> (string \<times> string) list \<Rightarrow> binding_error + (string \<times> string) list" where
  "bindings_env_from records [] result = Inr result"
| "bindings_env_from records (n # ns) result =
     and_then (binding_values records n) (\<lambda>vals. bindings_env_from records ns (extend_env result vals))"

definition bindings_env ::
  "bindings_codec \<Rightarrow> secrets_store \<Rightarrow> app_config \<Rightarrow> binding_error + (string \<times> string) list" where
  "bindings_env bc s cfg =
     (if ac_needs cfg = [] then Inr []
      else and_then (bindings_load bc s (ai_name (ac_app cfg))) (\<lambda>records.
             bindings_env_from records (ac_needs cfg) []))"

definition secret_keys :: "secrets_store \<Rightarrow> app_config \<Rightarrow> string list" where
  "secret_keys s cfg =
     remdups (sort (store_list s (ai_name (ac_app cfg)) @ concat (map (\<lambda>(a, n). env_keys n a) (ac_needs cfg))))"

definition reserved_entry :: "string list \<Rightarrow> yaml \<Rightarrow> string option" where
  "reserved_entry reserved entry =
     (case Option.bind (yaml_get ''name'' entry) yaml_str of
        Some k \<Rightarrow> if List.member reserved k then Some k else None
      | None \<Rightarrow> None)"

definition seq_at :: "string \<Rightarrow> yaml \<Rightarrow> yaml list" where
  "seq_at k y = (case Option.bind (yaml_get k y) yaml_seq of Some xs \<Rightarrow> xs | None \<Rightarrow> [])"

definition pod_env_entries :: "yaml \<Rightarrow> yaml list" where
  "pod_env_entries manifest =
     concat (map (\<lambda>kind. concat (map (seq_at ''env'')
         (case yaml_get ''spec'' manifest of Some spec \<Rightarrow> seq_at kind spec | None \<Rightarrow> [])))
       [''containers'', ''initContainers''])"

definition validate_pod_env :: "yaml option \<Rightarrow> app_config \<Rightarrow> binding_error + unit" where
  "validate_pod_env doc cfg =
     (if ac_needs cfg = [] then Inr ()
      else (case doc of
              None \<Rightarrow> Inl BindInvalid
            | Some manifest \<Rightarrow>
                (case List.map_filter
                        (reserved_entry (concat (map (\<lambda>(a, n). env_keys n a) (ac_needs cfg))))
                        (pod_env_entries manifest) of
                   k # _ \<Rightarrow> Inl (BindConflict PodEnvManaged k) | [] \<Rightarrow> Inr ())))"

section \<open>The projected environment\<close>

lemma update_keys: "set (map fst (AList.update k v m)) = insert k (set (map fst m))"
  using dom_update[of k v m] by (simp add: dom_map_of_conv_image_fst)

lemma extend_env_keys: "set (map fst (extend_env m vals)) = set (map fst m) \<union> set (map fst vals)"
proof (induction vals arbitrary: m)
  case (Cons x vals)
  obtain k v where x: "x = (k, v)" by fastforce
  have "extend_env m (x # vals) = extend_env (AList.update k v m) vals" by (simp add: extend_env_def x)
  then show ?case using Cons[of "AList.update k v m"] update_keys[of k v m] x by (simp del: set_map)
qed (simp add: extend_env_def)

lemma binding_values_keys:
  "binding_values records (a, n) = Inr vals \<Longrightarrow> set (map fst vals) = set (env_keys n a)"
  unfolding binding_values_def by (auto simp: result_simps split: option.splits if_splits simp flip: set_map)

lemma bindings_env_from_keys:
  "bindings_env_from records needs result = Inr env \<Longrightarrow>
     set (map fst env) = set (map fst result) \<union> set (injected needs)"
proof (induction needs arbitrary: result)
  case (Cons n needs)
  obtain a k where n: "n = (a, k)" by fastforce
  from Cons.prems obtain vals where v: "binding_values records (a, k) = Inr vals"
    "bindings_env_from records needs (extend_env result vals) = Inr env"
    by (auto simp: n result_simps)
  show ?case
    using Cons.IH[OF v(2)] binding_values_keys[OF v(1)] extend_env_keys[of result vals]
    by (auto simp: n injected_def)
qed (simp add: injected_def)

text \<open>The environment read for an application's bindings defines exactly the variables its
  declared needs inject: a need that was removed contributes nothing although its record is
  retained, and a record with other variables is refused.\<close>

theorem bindings_env_exact:
  assumes "bindings_env bc s cfg = Inr env"
  shows "set (map fst env) = set (injected (ac_needs cfg))"
proof (cases "ac_needs cfg = []")
  case True
  then show ?thesis using assms by (auto simp: bindings_env_def injected_def)
next
  case False
  then obtain records where "bindings_env_from records (ac_needs cfg) [] = Inr env"
    using assms by (auto simp: bindings_env_def result_simps)
  from bindings_env_from_keys[OF this] show ?thesis by simp
qed

definition bound_app :: "string \<Rightarrow> app_config" where
  "bound_app name =
     \<lparr>ac_app = \<lparr>ai_name = name, ai_image = ''ghcr.io/me/web'', ai_secret = None\<rparr>,
      ac_routing = default_routing, ac_health = default_health, ac_deploy = default_deploy,
      ac_env = [], ac_env_file = None, ac_resources = \<lparr>rs_memory = None, rs_cpus = None\<rparr>,
      ac_network = ''slip'', ac_preview = None, ac_volumes = [], ac_needs = [(''db'', \<lparr>need_kind = Postgres\<rparr>)]\<rparr>"

definition sample_record :: binding_record where
  "sample_record = \<lparr>br_service = ''pg'', br_instance = ''i1'', br_resource_id = ''slip_'' @ replicate 48 (CHR ''0''),
     br_password = replicate 64 (CHR ''a''), br_env = Some [(''DATABASE_URL'', ''postgres://db'')]\<rparr>"

definition sample_codec :: bindings_codec where
  "sample_codec = \<lparr>bc_app_key = (\<lambda>a. a), bc_encode = (\<lambda>_. ''records''), bc_decode = (\<lambda>_. Some [(''postgres:db'', sample_record)])\<rparr>"

definition bound_store :: secrets_store where
  "bound_store = fst (bindings_save sample_codec \<lparr>st_dirs = [], st_readonly = False, st_unreadable = []\<rparr> ''web''
     [(''postgres:db'', sample_record)])"

lemma bindings_env_exact_witness:
  "\<exists>env. bindings_env sample_codec bound_store (bound_app ''web'') = Inr env \<and>
     set (map fst env) = set (injected (ac_needs (bound_app ''web'')))"
proof -
  have "bindings_env sample_codec bound_store (bound_app ''web'') = Inr [(''DATABASE_URL'', ''postgres://db'')]"
    by code_simp
  from bindings_env_exact[OF this] this show ?thesis by blast
qed

end
