(* ===== verification/Manifest.thy ===== *)
theory Manifest
  imports Merge Validate
begin

text \<open>
  \<open>manifest.rs\<close>: the deploy-time rendering of a pod manifest, eight transformations of the parsed
  YAML document.  Parsing and printing of YAML are parameters.
\<close>

record render_context =
  rd_app_name :: string
  rd_tag :: string
  rd_primary_image :: string
  rd_pod_suffix :: string
  rd_env_vars :: "string list"
  rd_image_overrides :: "(string \<times> string) list"
  rd_volumes :: "merged_volume list"
  rd_has_workers :: bool

datatype manifest_error =
    InvalidYaml
  | MissingField string
  | NameTooLong string nat

section \<open>Updating YAML\<close>

definition yaml_insert :: "string \<Rightarrow> yaml \<Rightarrow> yaml \<Rightarrow> yaml" where
  "yaml_insert k v y = (case y of YMap kvs \<Rightarrow> YMap (AList.update (YStr k) v kvs) | _ \<Rightarrow> y)"

definition yaml_modify :: "string \<Rightarrow> (yaml \<Rightarrow> yaml) \<Rightarrow> yaml \<Rightarrow> yaml" where
  "yaml_modify k f y = (case yaml_get k y of Some v \<Rightarrow> yaml_insert k (f v) y | None \<Rightarrow> y)"

definition on_seq :: "(yaml list \<Rightarrow> yaml list) \<Rightarrow> yaml \<Rightarrow> yaml" where
  "on_seq f y = (case y of YSeq xs \<Rightarrow> YSeq (f xs) | _ \<Rightarrow> y)"

definition yaml_is_map :: "yaml \<Rightarrow> bool" where
  "yaml_is_map y = (case y of YMap _ \<Rightarrow> True | _ \<Rightarrow> False)"

definition container_lists :: "(yaml list \<Rightarrow> yaml list) \<Rightarrow> yaml \<Rightarrow> yaml" where
  "container_lists f doc =
     yaml_modify ''spec''
       (\<lambda>spec. yaml_modify ''initContainers'' (on_seq f) (yaml_modify ''containers'' (on_seq f) spec)) doc"

definition str_at :: "string \<Rightarrow> yaml \<Rightarrow> string option" where
  "str_at k y = Option.bind (yaml_get k y) yaml_str"

section \<open>The transformations\<close>

definition set_versioned_name :: "string \<Rightarrow> yaml \<Rightarrow> manifest_error + yaml" where
  "set_versioned_name pod_suffix doc =
     (case Option.bind (yaml_get ''metadata'' doc) (yaml_get ''name'') of
        None \<Rightarrow> Inl (MissingField ''metadata.name'')
      | Some name \<Rightarrow>
          (case yaml_str name of
             None \<Rightarrow> Inl (MissingField ''metadata.name (must be a string)'')
           | Some base \<Rightarrow>
               (let versioned = base @ ''-'' @ pod_suffix in
                if length versioned > 63 then Inl (NameTooLong versioned (length versioned))
                else Inr (yaml_modify ''metadata'' (yaml_insert ''name'' (YStr versioned)) doc))))"

definition tag_placeholder :: string where "tag_placeholder = ''${tag}''"

function replace_all :: "string \<Rightarrow> string \<Rightarrow> string \<Rightarrow> string" where
  "replace_all pat rep [] = []"
| "replace_all pat rep (c # cs) =
     (if pat \<noteq> [] \<and> prefix pat (c # cs) then rep @ replace_all pat rep (drop (length pat) (c # cs))
      else c # replace_all pat rep cs)"
  by pat_completeness auto
termination by (relation "measure (\<lambda>(p, r, s). length s)") (auto simp: neq_Nil_conv)

definition resolve_tag_container :: "string \<Rightarrow> yaml \<Rightarrow> yaml" where
  "resolve_tag_container tag c =
     (case str_at ''image'' c of
        Some s \<Rightarrow> if sublist tag_placeholder s then yaml_insert ''image'' (YStr (replace_all tag_placeholder tag s)) c else c
      | None \<Rightarrow> c)"

definition resolve_tag_placeholders :: "string \<Rightarrow> yaml \<Rightarrow> yaml" where
  "resolve_tag_placeholders tag doc = container_lists (map (resolve_tag_container tag)) doc"

definition image_base :: "string \<Rightarrow> string" where
  "image_base img =
     (let slash_pos = (case rfind_idx (\<lambda>c. c = CHR ''/'') img of Some p \<Rightarrow> p + 1 | None \<Rightarrow> 0)
      in case find_idx (\<lambda>c. c = CHR '':'') (drop slash_pos img) of
           Some colon_pos \<Rightarrow> take (slash_pos + colon_pos) img
         | None \<Rightarrow> img)"

fun update_first_primary :: "string \<Rightarrow> string \<Rightarrow> yaml list \<Rightarrow> yaml list" where
  "update_first_primary primary tag [] = []"
| "update_first_primary primary tag (c # cs) =
     (if (case str_at ''image'' c of Some s \<Rightarrow> image_base s = primary | None \<Rightarrow> False)
      then yaml_insert ''image'' (YStr (primary @ '':'' @ tag)) c # cs
      else c # update_first_primary primary tag cs)"

definition update_primary_image :: "string \<Rightarrow> string \<Rightarrow> yaml \<Rightarrow> yaml" where
  "update_primary_image primary tag doc = container_lists (update_first_primary primary tag) doc"

definition override_container :: "(string \<times> string) list \<Rightarrow> yaml \<Rightarrow> yaml" where
  "override_container overrides c =
     (case str_at ''name'' c of
        Some name \<Rightarrow> (case map_of overrides name of
            Some new_image \<Rightarrow> yaml_modify ''image'' (\<lambda>_. YStr new_image) c
          | None \<Rightarrow> c)
      | None \<Rightarrow> c)"

definition apply_sidecar_overrides :: "(string \<times> string) list \<Rightarrow> yaml \<Rightarrow> yaml" where
  "apply_sidecar_overrides overrides doc =
     (if overrides = [] then doc else container_lists (map (override_container overrides)) doc)"

definition zero_host_port :: "yaml \<Rightarrow> yaml" where
  "zero_host_port port = yaml_insert ''hostPort'' (YNum ''0'') port"

definition set_host_ports_zero :: "yaml \<Rightarrow> yaml" where
  "set_host_ports_zero doc = container_lists (map (yaml_modify ''ports'' (on_seq (map zero_host_port)))) doc"

definition parse_pair :: "string \<Rightarrow> string \<times> string" where
  "parse_pair kv = (case split_once (CHR ''='') kv of Some (k, v) \<Rightarrow> (k, v) | None \<Rightarrow> (kv, []))"

definition env_names :: "yaml \<Rightarrow> string list" where
  "env_names c =
     (case Option.bind (yaml_get ''env'' c) yaml_seq of
        Some seq \<Rightarrow> List.map_filter (str_at ''name'') seq
      | None \<Rightarrow> [])"

definition env_entry :: "string \<times> string \<Rightarrow> yaml" where
  "env_entry kv = YMap [(YStr ''name'', YStr (fst kv)), (YStr ''value'', YStr (snd kv))]"

definition ensure_seq :: "string \<Rightarrow> yaml \<Rightarrow> yaml" where
  "ensure_seq k c = (if yaml_get k c = None then yaml_insert k (YSeq []) c else c)"

definition inject_env_container :: "(string \<times> string) list \<Rightarrow> yaml \<Rightarrow> yaml" where
  "inject_env_container parsed c =
     (let existing = env_names c
      in yaml_modify ''env''
           (on_seq (\<lambda>seq. seq @ map env_entry (filter (\<lambda>kv. \<not> List.member existing (fst kv)) parsed)))
           (ensure_seq ''env'' c))"

definition inject_env_vars :: "string list \<Rightarrow> yaml \<Rightarrow> yaml" where
  "inject_env_vars env_vars doc =
     (if env_vars = [] then doc else container_lists (map (inject_env_container (map parse_pair env_vars))) doc)"

definition volume_char :: "char \<Rightarrow> char" where
  "volume_char c = (if is_alnum c \<or> c = CHR ''-'' \<or> c = CHR ''.'' then to_lower c else CHR ''-'')"

fun dedup_hyphens :: "string \<Rightarrow> string \<Rightarrow> string" where
  "dedup_hyphens acc [] = acc"
| "dedup_hyphens acc (c # cs) =
     dedup_hyphens (if c = CHR ''-'' \<and> ends_with ''-'' acc then acc else acc @ [c]) cs"

function trim_name :: "string \<Rightarrow> string" where
  "trim_name s = (if length s > 1 \<and> \<not> is_alnum (last s) then trim_name (butlast s) else s)"
  by pat_completeness auto
termination by (relation "measure length") auto

declare trim_name.simps [simp del]

definition sanitize_volume_name :: "string \<Rightarrow> string \<Rightarrow> string" where
  "sanitize_volume_name app_name mount_path =
     (let deduped = dedup_hyphens [] (map volume_char (dropWhile (\<lambda>c. c = CHR ''/'') mount_path));
          name = ''slip-'' @ app_name @ ''-'' @ deduped
      in if length name \<le> 63 then name else trim_name (take 63 name))"

definition spec_seq :: "string \<Rightarrow> yaml \<Rightarrow> yaml list" where
  "spec_seq k doc =
     (case Option.bind (yaml_get ''spec'' doc) (yaml_get k) of Some (YSeq xs) \<Rightarrow> xs | _ \<Rightarrow> [])"

definition mount_paths :: "yaml \<Rightarrow> string list" where
  "mount_paths c =
     (case Option.bind (yaml_get ''volumeMounts'' c) yaml_seq of
        Some ms \<Rightarrow> List.map_filter (str_at ''mountPath'') ms
      | None \<Rightarrow> [])"

definition volume_entry :: "string \<Rightarrow> merged_volume \<Rightarrow> yaml" where
  "volume_entry name vol =
     YMap [(YStr ''name'', YStr name),
           (YStr ''hostPath'', YMap [(YStr ''path'', YStr (mv_host_path vol)),
                                     (YStr ''type'', YStr ''DirectoryOrCreate'')])]"

definition mount_entry :: "string \<Rightarrow> merged_volume \<Rightarrow> yaml" where
  "mount_entry name vol =
     YMap [(YStr ''name'', YStr name), (YStr ''mountPath'', YStr (mv_mount_path vol)),
           (YStr ''readOnly'', YBool (mv_read_only vol))]"

definition add_mount :: "string \<Rightarrow> merged_volume \<Rightarrow> yaml \<Rightarrow> yaml" where
  "add_mount name vol c =
     yaml_modify ''volumeMounts'' (on_seq (\<lambda>ms. ms @ [mount_entry name vol])) (ensure_seq ''volumeMounts'' c)"

definition inject_volume :: "string list \<Rightarrow> string list \<Rightarrow> string \<Rightarrow> merged_volume \<Rightarrow> yaml \<Rightarrow> yaml" where
  "inject_volume names paths app_name vol doc =
     (let vol_name = sanitize_volume_name app_name (mv_mount_path vol) in
      if List.member names vol_name \<or> List.member paths (mv_mount_path vol) then doc
      else container_lists (map (add_mount vol_name vol))
             (yaml_modify ''spec''
                (\<lambda>spec. yaml_modify ''volumes'' (on_seq (\<lambda>vs. vs @ [volume_entry vol_name vol])) (ensure_seq ''volumes'' spec))
                doc))"

definition inject_volumes :: "render_context \<Rightarrow> yaml \<Rightarrow> yaml" where
  "inject_volumes ctx doc =
     (if rd_volumes ctx = [] then doc
      else (let names = List.map_filter (str_at ''name'') (spec_seq ''volumes'' doc);
                paths = concat (map mount_paths (spec_seq ''containers'' doc @ spec_seq ''initContainers'' doc))
            in foldl (\<lambda>d vol. inject_volume names paths (rd_app_name ctx) vol d) doc (rd_volumes ctx)))"

definition set_restart_policy :: "bool \<Rightarrow> yaml \<Rightarrow> yaml" where
  "set_restart_policy has_workers doc =
     (if has_workers then yaml_modify ''spec'' (yaml_insert ''restartPolicy'' (YStr ''OnFailure'')) doc else doc)"

definition render_doc :: "render_context \<Rightarrow> yaml \<Rightarrow> manifest_error + yaml" where
  "render_doc ctx doc =
     and_then (set_versioned_name (rd_pod_suffix ctx) doc) (\<lambda>d.
       Inr (set_restart_policy (rd_has_workers ctx)
             (inject_volumes ctx
               (inject_env_vars (rd_env_vars ctx)
                 (set_host_ports_zero
                   (apply_sidecar_overrides (rd_image_overrides ctx)
                     (update_primary_image (rd_primary_image ctx) (rd_tag ctx)
                       (resolve_tag_placeholders (rd_tag ctx) d))))))))"

definition render_manifest ::
  "(string \<Rightarrow> yaml option) \<Rightarrow> (yaml \<Rightarrow> string option) \<Rightarrow> string \<Rightarrow> render_context \<Rightarrow> manifest_error + string" where
  "render_manifest parse emit raw ctx =
     and_then (ok_or (parse raw) InvalidYaml) (\<lambda>doc.
     and_then (render_doc ctx doc) (\<lambda>d. ok_or (emit d) InvalidYaml))"

section \<open>Frames of the transformations\<close>

lemma yaml_get_insert:
  "yaml_get k (yaml_insert l v y) = (if k = l \<and> yaml_is_map y then Some v else yaml_get k y)"
  by (cases y) (auto simp: yaml_insert_def yaml_is_map_def update_conv')

lemma yaml_get_is_map: "yaml_get k y = Some v \<Longrightarrow> yaml_is_map y"
  by (cases y) (auto simp: yaml_is_map_def)

lemma yaml_get_modify:
  "yaml_get k (yaml_modify l f y) = (if k = l then map_option f (yaml_get k y) else yaml_get k y)"
  by (auto simp: yaml_modify_def yaml_get_insert dest: yaml_get_is_map split: option.splits)

lemma yaml_get_ensure:
  "yaml_get k (ensure_seq l y) =
     (if k = l \<and> yaml_get l y = None \<and> yaml_is_map y then Some (YSeq []) else yaml_get k y)"
  by (auto simp: ensure_seq_def yaml_get_insert)

lemma spec_seq_lists:
  assumes "f [] = []" "key = ''containers'' \<or> key = ''initContainers''"
  shows "spec_seq key (container_lists f doc) = f (spec_seq key doc)"
proof -
  have key: "''initContainers'' \<noteq> ''containers''" by simp
  have on: "(case map_option (on_seq f) v of Some (YSeq xs) \<Rightarrow> xs | _ \<Rightarrow> []) =
      f (case v of Some (YSeq xs) \<Rightarrow> xs | _ \<Rightarrow> [])" for v
    using assms(1) by (auto simp: on_seq_def split: option.splits yaml.splits)
  show ?thesis using assms(2) key on
    by (cases "yaml_get ''spec'' doc") (auto simp: spec_seq_def container_lists_def yaml_get_modify assms(1))
qed

text \<open>What one step may do to a container: it keeps the entries at all other keys.\<close>

definition keeps_except :: "string list \<Rightarrow> yaml \<Rightarrow> yaml \<Rightarrow> bool" where
  "keeps_except ks c c' \<longleftrightarrow> (\<forall>k. k \<in> set ks \<or> yaml_get k c' = yaml_get k c) \<and> yaml_is_map c' = yaml_is_map c"

lemma is_map_insert [simp]: "yaml_is_map (yaml_insert k v y) = yaml_is_map y"
  by (cases y) (auto simp: yaml_insert_def yaml_is_map_def)

lemma is_map_modify [simp]: "yaml_is_map (yaml_modify k f y) = yaml_is_map y"
  by (simp add: yaml_modify_def split: option.split)

lemma is_map_ensure [simp]: "yaml_is_map (ensure_seq k y) = yaml_is_map y"
  by (simp add: ensure_seq_def)

lemma keeps_get: "keeps_except ks c c' \<Longrightarrow> k \<notin> set ks \<Longrightarrow> yaml_get k c' = yaml_get k c"
  by (auto simp: keeps_except_def)

lemma keeps_is_map: "keeps_except ks c c' \<Longrightarrow> yaml_is_map c' = yaml_is_map c"
  by (simp add: keeps_except_def)

lemma keeps_refl: "keeps_except ks c c" by (simp add: keeps_except_def)

lemma keeps_resolve: "keeps_except [''image''] c (resolve_tag_container tag c)"
  by (auto simp: keeps_except_def resolve_tag_container_def yaml_get_insert split: option.split)

lemma keeps_primary:
  "list_all2 (keeps_except [''image'']) cs (update_first_primary primary tag cs)"
proof (induction primary tag cs rule: update_first_primary.induct)
  case (2 primary tag c cs)
  have "list_all2 (keeps_except [''image'']) cs cs" by (simp add: list.rel_refl keeps_refl)
  moreover have "keeps_except [''image''] c (yaml_insert ''image'' v c)" for v
    by (simp add: keeps_except_def yaml_get_insert)
  ultimately show ?case using 2 keeps_refl by simp
qed simp

lemma keeps_override: "keeps_except [''image''] c (override_container ov c)"
  by (auto simp: keeps_except_def override_container_def yaml_get_modify split: option.split)

lemma keeps_ports: "keeps_except [''ports''] c (yaml_modify ''ports'' f c)"
  by (auto simp: keeps_except_def yaml_get_modify)

lemma keeps_env: "keeps_except [''env''] c (inject_env_container ps c)"
  by (auto simp: keeps_except_def inject_env_container_def Let_def yaml_get_modify yaml_get_ensure)

lemma keeps_mount: "keeps_except [''volumeMounts''] c (add_mount name vol c)"
  by (auto simp: keeps_except_def add_mount_def yaml_get_modify yaml_get_ensure)

lemma keeps_map: "(\<And>c. keeps_except ks c (g c)) \<Longrightarrow> list_all2 (keeps_except ks) cs (map g cs)"
  by (simp add: list_all2_conv_all_nth)

lemma keeps_trans:
  "list_all2 (keeps_except ks) as bs \<Longrightarrow> list_all2 (keeps_except ls) bs cs \<Longrightarrow>
     set ks \<union> set ls \<subseteq> set ms \<Longrightarrow> list_all2 (keeps_except ms) as cs"
  by (rule list_all2_trans[of "keeps_except ks" "keeps_except ls" "keeps_except ms"])
    (fastforce simp: keeps_except_def)+

section \<open>The rendered containers\<close>

definition ports_zero :: "yaml \<Rightarrow> bool" where
  "ports_zero c = (case yaml_get ''ports'' c of
     Some (YSeq ps) \<Rightarrow> list_all (\<lambda>p. \<not> yaml_is_map p \<or> yaml_get ''hostPort'' p = Some (YNum ''0'')) ps
   | _ \<Rightarrow> True)"

text \<open>The environment after injection: what the manifest sets stays in front, unchanged, and only the
  variables it does not set are appended; a container whose \<open>env\<close> is no list gets none.\<close>

definition env_after :: "(string \<times> string) list \<Rightarrow> yaml \<Rightarrow> yaml option" where
  "env_after pairs c =
     (case yaml_get ''env'' c of
        Some (YSeq es) \<Rightarrow>
          Some (YSeq (es @ map env_entry (filter (\<lambda>kv. fst kv \<notin> set (List.map_filter (str_at ''name'') es)) pairs)))
      | Some v \<Rightarrow> Some v
      | None \<Rightarrow> if yaml_is_map c then Some (YSeq (map env_entry pairs)) else None)"

lemma inject_env_after: "yaml_get ''env'' (inject_env_container pairs c) = env_after pairs c"
  by (auto simp: inject_env_container_def Let_def env_after_def env_names_def yaml_get_modify yaml_get_ensure
      on_seq_def split: option.splits yaml.splits)

definition rendered_from :: "render_context \<Rightarrow> yaml \<Rightarrow> yaml \<Rightarrow> bool" where
  "rendered_from ctx c c' \<longleftrightarrow>
     str_at ''name'' c' = str_at ''name'' c \<and> ports_zero c' \<and>
     yaml_get ''env'' c' = (if rd_env_vars ctx = [] then yaml_get ''env'' c else env_after (map parse_pair (rd_env_vars ctx)) c)"

lemma zeroed_ports: "ports_zero (yaml_modify ''ports'' (on_seq (map zero_host_port)) c)"
proof (cases "yaml_get ''ports'' c")
  case (Some v)
  then show ?thesis
    by (cases v) (auto simp: ports_zero_def yaml_get_modify on_seq_def list_all_iff zero_host_port_def yaml_get_insert)
qed (simp add: ports_zero_def yaml_get_modify)

lemma inject_volume_keeps:
  assumes "key = ''containers'' \<or> key = ''initContainers''"
  shows "list_all2 (keeps_except [''volumeMounts'']) (spec_seq key doc)
    (spec_seq key (inject_volume names paths app vol doc))"
proof -
  let ?v = "\<lambda>n. yaml_modify ''spec'' (\<lambda>spec. yaml_modify ''volumes'' (on_seq (\<lambda>vs. vs @ [volume_entry n vol]))
              (ensure_seq ''volumes'' spec)) doc"
  have "key \<noteq> ''volumes''" using assms by auto
  then have "spec_seq key (?v n) = spec_seq key doc" for n
    by (cases "yaml_get ''spec'' doc") (simp_all add: spec_seq_def yaml_get_modify yaml_get_ensure)
  moreover have "list_all2 (keeps_except [''volumeMounts'']) cs cs" for cs
    by (simp add: list.rel_refl keeps_refl)
  ultimately show ?thesis using assms keeps_map[OF keeps_mount]
    by (simp add: inject_volume_def Let_def spec_seq_lists)
qed

lemma inject_volumes_keeps:
  assumes "key = ''containers'' \<or> key = ''initContainers''"
  shows "list_all2 (keeps_except [''volumeMounts'']) (spec_seq key doc) (spec_seq key (inject_volumes ctx doc))"
proof -
  have refl: "list_all2 (keeps_except [''volumeMounts'']) cs cs" for cs
    by (simp add: list.rel_refl keeps_refl)
  have "list_all2 (keeps_except [''volumeMounts'']) (spec_seq key doc)
      (spec_seq key (foldl (\<lambda>d vol. inject_volume names paths app vol d) doc vols))" for names paths app vols
  proof (induction vols arbitrary: doc)
    case (Cons v vols)
    show ?case
      using keeps_trans[OF inject_volume_keeps[OF assms] Cons[of "inject_volume names paths app v doc"]] by simp
  qed (simp add: refl)
  then show ?thesis by (simp add: inject_volumes_def Let_def refl)
qed

text \<open>The four steps before the environment keep everything but images and ports.\<close>

lemma early_steps_keep:
  "list_all2 (\<lambda>c c'. keeps_except [''image'', ''ports''] c c' \<and> ports_zero c') cs
     (map (yaml_modify ''ports'' (on_seq (map zero_host_port)))
       ((if ov = [] then id else map (override_container ov))
         (update_first_primary primary tag (map (resolve_tag_container t) cs))))"
proof -
  let ?c1 = "map (resolve_tag_container t) cs"
  let ?c2 = "update_first_primary primary tag ?c1"
  let ?c3 = "(if ov = [] then id else map (override_container ov)) ?c2"
  have refl: "list_all2 (keeps_except [''image'']) xs xs" for xs
    by (simp add: list.rel_refl keeps_refl)
  have three: "list_all2 (keeps_except [''image'']) ?c2 ?c3" using refl keeps_map[OF keeps_override] by simp
  have two: "list_all2 (keeps_except [''image'']) cs ?c2"
    by (rule keeps_trans[OF keeps_map[OF keeps_resolve] keeps_primary]) simp
  have "list_all2 (keeps_except [''image'']) cs ?c3" by (rule keeps_trans[OF two three]) simp
  then have four: "list_all2 (keeps_except [''image'', ''ports'']) cs (map (yaml_modify ''ports'' (on_seq (map zero_host_port))) ?c3)"
    by (rule keeps_trans[OF _ keeps_map[OF keeps_ports]]) simp
  have "\<forall>c\<in>set (map (yaml_modify ''ports'' (on_seq (map zero_host_port))) xs). ports_zero c" for xs
    by (auto simp: zeroed_ports)
  then show ?thesis using four unfolding list_all2_conv_all_nth by (metis nth_mem)
qed

lemma container_lists_other: "k \<noteq> ''spec'' \<Longrightarrow> yaml_get k (container_lists f doc) = yaml_get k doc"
  by (simp add: container_lists_def yaml_get_modify)

lemma inject_volumes_other: "k \<noteq> ''spec'' \<Longrightarrow> yaml_get k (inject_volumes ctx doc) = yaml_get k doc"
proof -
  assume k: "k \<noteq> ''spec''"
  have one: "yaml_get k (inject_volume names paths app vol d) = yaml_get k d" for names paths app vol d
    unfolding inject_volume_def Let_def using k by (simp add: container_lists_other yaml_get_modify)
  have "yaml_get k (foldl (\<lambda>d vol. inject_volume names paths app vol d) d vols) = yaml_get k d" for names paths app vols d
    by (induction vols arbitrary: d) (simp_all add: one)
  then show ?thesis by (simp add: inject_volumes_def Let_def)
qed

lemma rendered_chain:
  assumes e: "keeps_except [''image'', ''ports''] c c4" "ports_zero c4"
    and five: "c5 = (if rd_env_vars ctx = [] then c4 else inject_env_container (map parse_pair (rd_env_vars ctx)) c4)"
    and six: "keeps_except [''volumeMounts''] c5 c6"
  shows "rendered_from ctx c c6"
proof -
  have k4: "yaml_get ''env'' c4 = yaml_get ''env'' c" "yaml_get ''name'' c4 = yaml_get ''name'' c" "yaml_is_map c4 = yaml_is_map c"
    using keeps_get[OF e(1)] keeps_is_map[OF e(1)] by simp_all
  have k5: "yaml_get ''name'' c5 = yaml_get ''name'' c4" "yaml_get ''ports'' c5 = yaml_get ''ports'' c4"
    using five keeps_get[OF keeps_env[of c4 "map parse_pair (rd_env_vars ctx)"]] by simp_all
  have k6: "yaml_get ''env'' c6 = yaml_get ''env'' c5" "yaml_get ''name'' c6 = yaml_get ''name'' c5"
    "yaml_get ''ports'' c6 = yaml_get ''ports'' c5"
    using keeps_get[OF six] by simp_all
  have "env_after ps c4 = env_after ps c" for ps by (simp add: env_after_def k4)
  then have "yaml_get ''env'' c6 =
      (if rd_env_vars ctx = [] then yaml_get ''env'' c else env_after (map parse_pair (rd_env_vars ctx)) c)"
    using five by (simp add: k6(1) inject_env_after k4(1))
  moreover have "ports_zero c6" using e(2) by (simp add: ports_zero_def k6(3) k5(2))
  ultimately show ?thesis by (simp add: rendered_from_def str_at_def k6(2) k5(1) k4(2))
qed

text \<open>A rendered manifest carries the versioned name of at most 63 bytes, and each of its
  containers, init containers included, keeps its name, has every host port set to zero, and has the
  injected variables appended to its environment only where the manifest does not set them itself.\<close>

theorem render_doc_spec:
  assumes r: "render_doc ctx doc = Inr d" and key: "key = ''containers'' \<or> key = ''initContainers''"
  shows "list_all2 (rendered_from ctx) (spec_seq key doc) (spec_seq key d) \<and>
    (\<exists>base. Option.bind (yaml_get ''metadata'' doc) (str_at ''name'') = Some base \<and>
       Option.bind (yaml_get ''metadata'' d) (str_at ''name'') = Some (base @ ''-'' @ rd_pod_suffix ctx) \<and>
       length (base @ ''-'' @ rd_pod_suffix ctx) \<le> 63)"
proof -
  from r obtain d1 where d1: "set_versioned_name (rd_pod_suffix ctx) doc = Inr d1" by (auto simp: render_doc_def result_simps)
  let ?S = "spec_seq key"
  define early where "early = set_host_ports_zero (apply_sidecar_overrides (rd_image_overrides ctx)
                     (update_primary_image (rd_primary_image ctx) (rd_tag ctx) (resolve_tag_placeholders (rd_tag ctx) d1)))"
  define mid where "mid = inject_env_vars (rd_env_vars ctx) early"
  have d: "d = set_restart_policy (rd_has_workers ctx) (inject_volumes ctx mid)"
    using r d1 by (simp add: render_doc_def early_def mid_def)
  from d1 obtain m n base where b: "yaml_get ''metadata'' doc = Some m" "yaml_get ''name'' m = Some n" "yaml_str n = Some base"
    "length (base @ ''-'' @ rd_pod_suffix ctx) \<le> 63"
    "d1 = yaml_modify ''metadata'' (yaml_insert ''name'' (YStr (base @ ''-'' @ rd_pod_suffix ctx))) doc"
    by (auto simp: set_versioned_name_def Let_def Option.bind_eq_Some_conv split: option.splits if_splits)
  have spec1: "?S d1 = ?S doc" by (simp add: b(5) spec_seq_def yaml_get_modify)
  have "?S early = map (yaml_modify ''ports'' (on_seq (map zero_host_port)))
       ((if rd_image_overrides ctx = [] then id else map (override_container (rd_image_overrides ctx)))
         (update_first_primary (rd_primary_image ctx) (rd_tag ctx) (map (resolve_tag_container (rd_tag ctx)) (?S doc))))"
    by (simp add: early_def set_host_ports_zero_def apply_sidecar_overrides_def update_primary_image_def
        resolve_tag_placeholders_def spec_seq_lists[OF _ key] spec1)
  then have e: "list_all2 (\<lambda>c c'. keeps_except [''image'', ''ports''] c c' \<and> ports_zero c') (?S doc) (?S early)"
    using early_steps_keep by simp
  have f: "?S mid = map (\<lambda>c. if rd_env_vars ctx = [] then c else inject_env_container (map parse_pair (rd_env_vars ctx)) c) (?S early)"
    by (simp add: mid_def inject_env_vars_def spec_seq_lists[OF _ key])
  have "key \<noteq> ''restartPolicy''" using key by auto
  then have "?S d = ?S (inject_volumes ctx mid)"
    by (cases "yaml_get ''spec'' (inject_volumes ctx mid)")
      (simp_all add: d set_restart_policy_def spec_seq_def yaml_get_modify yaml_get_insert)
  then have g: "list_all2 (keeps_except [''volumeMounts'']) (?S mid) (?S d)"
    using inject_volumes_keeps[OF key] by simp
  have "list_all2 (rendered_from ctx) (?S doc) (?S d)"
  proof (rule list_all2_all_nthI)
    show len: "length (?S doc) = length (?S d)" using list_all2_lengthD[OF e] list_all2_lengthD[OF g] f by simp
    fix i assume i: "i < length (?S doc)"
    then have j: "i < length (?S early)" using list_all2_lengthD[OF e] by simp
    have m: "?S mid ! i = (if rd_env_vars ctx = [] then ?S early ! i
        else inject_env_container (map parse_pair (rd_env_vars ctx)) (?S early ! i))" using f j by simp
    have k: "keeps_except [''volumeMounts''] (?S mid ! i) (?S d ! i)"
      using list_all2_nthD2[OF g] len i by simp
    show "rendered_from ctx (?S doc ! i) (?S d ! i)"
      using rendered_chain[OF _ _ m k] list_all2_nthD[OF e i] by simp
  qed
  moreover have "yaml_get ''metadata'' d = yaml_get ''metadata'' d1"
    by (simp add: d set_restart_policy_def yaml_get_modify inject_volumes_other mid_def inject_env_vars_def early_def
        set_host_ports_zero_def apply_sidecar_overrides_def update_primary_image_def resolve_tag_placeholders_def container_lists_other)
  moreover have "yaml_is_map m" using b(2) by (rule yaml_get_is_map)
  ultimately show ?thesis using b
    by (auto simp: str_at_def yaml_get_modify yaml_get_insert)
qed

definition sample_manifest :: yaml where
  "sample_manifest = YMap [(YStr ''metadata'', YMap [(YStr ''name'', YStr ''web'')]),
     (YStr ''spec'', YMap [(YStr ''containers'', YSeq [YMap [(YStr ''name'', YStr ''web''),
        (YStr ''image'', YStr ''ghcr.io/me/web:latest''),
        (YStr ''env'', YSeq [YMap [(YStr ''name'', YStr ''MODE''), (YStr ''value'', YStr ''fast'')]]),
        (YStr ''ports'', YSeq [YMap [(YStr ''containerPort'', YNum ''80''), (YStr ''hostPort'', YNum ''8080'')]])]])])]"

definition sample_render :: render_context where
  "sample_render = \<lparr>rd_app_name = ''web'', rd_tag = ''v2'', rd_primary_image = ''ghcr.io/me/web'', rd_pod_suffix = ''01abcdef'',
     rd_env_vars = [''MODE=slow'', ''KEY=1''], rd_image_overrides = [], rd_volumes = [], rd_has_workers = False\<rparr>"

lemma render_doc_spec_witness:
  "\<exists>d. render_doc sample_render sample_manifest = Inr d \<and>
     list_all2 (rendered_from sample_render) (spec_seq ''containers'' sample_manifest) (spec_seq ''containers'' d)"
proof -
  have "is_ok (render_doc sample_render sample_manifest)" by code_simp
  then obtain d where d: "render_doc sample_render sample_manifest = Inr d" by (auto simp: is_ok_iff)
  from render_doc_spec[OF d, of "''containers''"] d show ?thesis by blast
qed

text \<open>Two server volumes whose mount paths differ only in characters that the sanitiser maps to a
  hyphen get the same volume name, so that the rendered pod declares that name twice.\<close>

theorem volume_name_collision:
  "(let vol = (\<lambda>h m. \<lparr>mv_host_path = h, mv_mount_path = m, mv_read_only = False\<rparr>);
        ctx = sample_render\<lparr>rd_volumes := [vol ''/srv/a'' ''/data/cache'', vol ''/srv/b'' ''/data-cache'']\<rparr>
    in case render_doc ctx sample_manifest of
         Inr d \<Rightarrow> List.map_filter (str_at ''name'') (spec_seq ''volumes'' d) = [''slip-web-data-cache'', ''slip-web-data-cache'']
       | Inl _ \<Rightarrow> False)"
  by code_simp

end
