(* ===== verification/DeployTypes.thy ===== *)
theory DeployTypes
  imports State Bindings Manifest Registry Health ConfigLoad
begin

text \<open>
  The data of the deploy orchestrator (\<open>deploy.rs\<close>): deploy contexts and their failure reasons, the
  container runtime as a record of operations on an abstract runtime state, and the state the
  orchestrator reads and writes.  A database or state-file write that fails is only logged by the
  code and never fails a deploy; the model performs these writes.
\<close>

section \<open>Deploy contexts\<close>

datatype deploy_status =
    DsAccepted | DsPulling | DsConfiguring | DsStarting | DsHealthChecking | DsSwitching
  | DsStoppingOld | DsRemovingRoute | DsRestartingOld | DsCompleted | DsFailed

datatype trigger_source = TrWebhook | TrCli | TrRollback

definition deploy_status_parse :: "string \<Rightarrow> deploy_status" where
  "deploy_status_parse s =
     (if s = ''accepted'' then DsAccepted else if s = ''pulling'' then DsPulling
      else if s = ''configuring'' then DsConfiguring else if s = ''starting'' then DsStarting
      else if s = ''health_checking'' then DsHealthChecking else if s = ''switching'' then DsSwitching
      else if s = ''stopping_old'' then DsStoppingOld else if s = ''removing_route'' then DsRemovingRoute
      else if s = ''restarting_old'' then DsRestartingOld else if s = ''completed'' then DsCompleted
      else DsFailed)"

text \<open>One constructor per message of the code, with the parts that vary.\<close>

datatype deploy_failure =
    DfAppNotFound string
  | DfPull | DfSidecarPull string
  | DfConfigMismatch string string | DfConfigMerge config_error | DfConfigParse | DfConfigExtract
  | DfBinding binding_error
  | DfRoutingMissing | DfUnknownStrategy string
  | DfContainerStart | DfWorkerExited | DfWorkerState | DfContainerExited | DfContainerState
  | DfPortNotSet | DfHealth string | DfPodHealth
  | DfRouteUpdate caddy_error | DfPodRouteUpdate caddy_error
  | DfManifestMissing | DfManifestNotFound string | DfManifestExtract | DfManifestRender manifest_error
  | DfManifestDir | DfManifestWrite | DfPodDeploy
  | DfContainerStop | DfRollbackTier1 | DfRollbackTier2 | DfRollbackFailed
  | DfTimeout string

definition format_health_reason :: "health_error \<Rightarrow> string" where
  "format_health_reason e =
     (case e of
        UnexpectedStatus expected actual url attempts \<Rightarrow>
          ''[health_unexpected_status] health check failed: expected '' @ expected @ '', got '' @
          show_nat actual @ '' at '' @ url @ '' after '' @ show_nat attempts @ '' attempts''
      | Unhealthy retries url \<Rightarrow>
          ''[health_check_failed] health check failed: unhealthy after '' @ show_nat retries @ '' attempts at '' @ url)"

record deploy_context =
  dx_id :: string
  dx_app :: string
  dx_image :: string
  dx_tag :: string
  dx_images :: "(string \<times> string) list"
  dx_status :: deploy_status
  dx_started_at :: int
  dx_finished_at :: "int option"
  dx_error :: "deploy_failure option"
  dx_triggered_by :: trigger_source
  dx_new_container_id :: "string option"
  dx_new_port :: "nat option"
  dx_new_pod_name :: "string option"
  dx_new_manifest_path :: "string option"
  dx_rollback_failed :: bool

definition deploy_context_new ::
  "int \<Rightarrow> string \<Rightarrow> string \<Rightarrow> string \<Rightarrow> string \<Rightarrow> trigger_source \<Rightarrow> deploy_context" where
  "deploy_context_new now i app img tag trig =
     \<lparr>dx_id = i, dx_app = app, dx_image = img, dx_tag = tag, dx_images = [], dx_status = DsAccepted,
      dx_started_at = now, dx_finished_at = None, dx_error = None, dx_triggered_by = trig,
      dx_new_container_id = None, dx_new_port = None, dx_new_pod_name = None,
      dx_new_manifest_path = None, dx_rollback_failed = False\<rparr>"

definition context_fail :: "int \<Rightarrow> deploy_failure \<Rightarrow> deploy_context \<Rightarrow> deploy_context" where
  "context_fail now e ctx = ctx\<lparr>dx_status := DsFailed, dx_finished_at := Some now, dx_error := Some e\<rparr>"

definition resolve_deploy_timeout :: "slip_config \<Rightarrow> deploy_config \<Rightarrow> duration" where
  "resolve_deploy_timeout config app =
     (case dc_timeout app of
        Some d \<Rightarrow> d
      | None \<Rightarrow> (case sc_deploy config of Some sd \<Rightarrow> sd_timeout sd | None \<Rightarrow> secs 600))"

definition resolve_preview_timeout :: "slip_config \<Rightarrow> deploy_config \<Rightarrow> duration" where
  "resolve_preview_timeout config app =
     (case dc_timeout app of
        Some d \<Rightarrow> d
      | None \<Rightarrow> (case sc_deploy config of Some sd \<Rightarrow> sd_preview_timeout sd | None \<Rightarrow> secs 600))"

definition deploy_format_duration :: "duration \<Rightarrow> string" where
  "deploy_format_duration d =
     (let total = d div secs 1 in show_nat (total div 60) @ ''m'' @ show_nat (total mod 60) @ ''s'')"

section \<open>The container runtime\<close>

datatype runtime_error =
    RtConnection | RtPullFailed | RtContainerError | RtNoPortAssigned | RtContainerNotRunning string
  | RtNetworkError | RtUnsupported | RtExecFailed

record create_spec =
  cs_app :: string
  cs_image :: string
  cs_tag :: string
  cs_port :: nat
  cs_env :: "string list"
  cs_network :: string
  cs_resources :: resource_config
  cs_volumes :: "merged_volume list"

record 'r runtime_ops =
  ro_pull :: "string \<Rightarrow> string \<Rightarrow> (string \<times> string) option \<Rightarrow> 'r \<Rightarrow> 'r \<times> (runtime_error + unit)"
  ro_extract :: "string \<Rightarrow> string \<Rightarrow> string \<Rightarrow> 'r \<Rightarrow> 'r \<times> (runtime_error + string option)"
  ro_create_and_start :: "create_spec \<Rightarrow> 'r \<Rightarrow> 'r \<times> (runtime_error + string \<times> nat)"
  ro_stop :: "string \<Rightarrow> 'r \<Rightarrow> 'r \<times> (runtime_error + unit)"
  ro_start :: "string \<Rightarrow> 'r \<Rightarrow> 'r \<times> (runtime_error + unit)"
  ro_inspect_port :: "string \<Rightarrow> nat \<Rightarrow> 'r \<Rightarrow> 'r \<times> (runtime_error + nat)"
  ro_stop_and_remove :: "string \<Rightarrow> 'r \<Rightarrow> 'r \<times> (runtime_error + unit)"
  ro_is_running :: "string \<Rightarrow> 'r \<Rightarrow> 'r \<times> (runtime_error + bool)"
  ro_deploy_pod :: "string \<Rightarrow> string \<Rightarrow> 'r \<Rightarrow> 'r \<times> (runtime_error + unit)"
  ro_teardown_pod :: "string \<Rightarrow> 'r \<Rightarrow> 'r \<times> (runtime_error + unit)"
  ro_pod_port :: "string \<Rightarrow> string \<Rightarrow> nat \<Rightarrow> 'r \<Rightarrow> 'r \<times> (runtime_error + nat)"

section \<open>The orchestrator's environment and world\<close>

text \<open>What a deploy depends on and does not change: the runtime and proxy operations, the answers of
  probed ports (which depend on the state of the runtime), the parsers and codecs, the service
  controller's \<open>bind\<close>, the clock, and the outcome of \<open>try_write\<close> on the state lock and of writing
  the manifest file.  The orchestrator's timestamps are not compared with each other; one run reads
  one value of the clock.\<close>

record ('r, 'p) deploy_env =
  de_runtime :: "'r runtime_ops"
  de_set_routes :: "string \<Rightarrow> route list \<Rightarrow> 'p \<Rightarrow> 'p \<times> (caddy_error + unit)"
  de_remove_route :: "string \<Rightarrow> 'p \<Rightarrow> 'p \<times> (caddy_error + unit)"
  de_probes :: "'r \<Rightarrow> nat \<Rightarrow> nat \<Rightarrow> probe_result"
  de_parse_repo :: "string \<Rightarrow> repo_config option"
  de_parse_yaml :: "string \<Rightarrow> yaml option"
  de_emit_yaml :: "yaml \<Rightarrow> string option"
  de_bind :: "(app_config \<Rightarrow> secrets_store \<Rightarrow> secrets_store \<times> (binding_error + unit)) option"
  de_codec :: bindings_codec
  de_registries :: "resolved_registry list"
  de_env_file :: "string \<Rightarrow> string option"
  de_lock_free :: bool
  de_mkdir_ok :: bool
  de_write_ok :: bool
  de_pod_suffix :: string
  de_storage :: string
  de_now :: int

record ('r, 'p) world =
  w_apps :: "(string \<times> app_config) list"
  w_states :: "(string \<times> app_runtime_state) list"
  w_deploys :: "(string \<times> deploy_context) list"
  w_db :: "(string \<times> deploy_context) list"
  w_dir :: "persisted_app_state state_dir"
  w_secrets :: "secrets_store option"
  w_manifests :: "(string \<times> string) list"
  w_rt :: 'r
  w_px :: 'p
  w_ctx :: deploy_context

text \<open>\<open>Path::join\<close>: an absolute argument replaces the path.\<close>

definition path_join :: "string \<Rightarrow> string \<Rightarrow> string" where
  "path_join p q = (if prefix ''/'' q then q else if p = [] \<or> ends_with ''/'' p then p @ q else p @ ''/'' @ q)"

definition rt_call :: "('r \<Rightarrow> 'r \<times> 'a) \<Rightarrow> ('r, 'p) world \<Rightarrow> 'a \<times> ('r, 'p) world" where
  "rt_call f w = (let (r, x) = f (w_rt w) in (x, w\<lparr>w_rt := r\<rparr>))"

definition px_call :: "('p \<Rightarrow> 'p \<times> 'a) \<Rightarrow> ('r, 'p) world \<Rightarrow> 'a \<times> ('r, 'p) world" where
  "px_call f w = (let (p, x) = f (w_px w) in (x, w\<lparr>w_px := p\<rparr>))"

definition record_deploy :: "('r, 'p) world \<Rightarrow> ('r, 'p) world" where
  "record_deploy w =
     w\<lparr>w_deploys := AList.update (dx_app (w_ctx w)) (w_ctx w) (w_deploys w),
       w_db := AList.update (dx_id (w_ctx w)) (w_ctx w) (w_db w)\<rparr>"

definition set_status :: "deploy_status \<Rightarrow> ('r, 'p) world \<Rightarrow> ('r, 'p) world" where
  "set_status s w = record_deploy (w\<lparr>w_ctx := (w_ctx w)\<lparr>dx_status := s\<rparr>\<rparr>)"

definition modify_state ::
  "string \<Rightarrow> (app_runtime_state \<Rightarrow> app_runtime_state) \<Rightarrow> ('r, 'p) world \<Rightarrow> ('r, 'p) world" where
  "modify_state app f w =
     (case map_of (w_states w) app of
        Some s \<Rightarrow> w\<lparr>w_states := AList.update app (f s) (w_states w)\<rparr>
      | None \<Rightarrow> w)"

definition set_app_failed :: "('r, 'p) deploy_env \<Rightarrow> string \<Rightarrow> ('r, 'p) world \<Rightarrow> ('r, 'p) world" where
  "set_app_failed env app w =
     (if de_lock_free env then modify_state app (\<lambda>s. s\<lparr>as_status := StFailed\<rparr>) w else w)"

text \<open>\<open>ctx.fail\<close>, \<open>record_deploy\<close> and \<open>set_app_failed\<close>: every failing exit of the orchestrator.\<close>

definition fail_deploy ::
  "('r, 'p) deploy_env \<Rightarrow> string \<Rightarrow> deploy_failure \<Rightarrow> ('r, 'p) world \<Rightarrow> ('r, 'p) world" where
  "fail_deploy env app e w =
     set_app_failed env app (record_deploy (w\<lparr>w_ctx := context_fail (de_now env) e (w_ctx w)\<rparr>))"

definition finish_deploy :: "('r, 'p) deploy_env \<Rightarrow> ('r, 'p) world \<Rightarrow> ('r, 'p) world" where
  "finish_deploy env w =
     record_deploy (w\<lparr>w_ctx := (w_ctx w)\<lparr>dx_status := DsCompleted, dx_finished_at := Some (de_now env)\<rparr>\<rparr>)"

definition old_container :: "string \<Rightarrow> ('r, 'p) world \<Rightarrow> string option" where
  "old_container app w = Option.bind (map_of (w_states w) app) as_current_container_id"

definition parse_image_ref :: "string \<Rightarrow> string \<times> string" where
  "parse_image_ref full_ref =
     (case rfind_idx (\<lambda>c. c = CHR ''@'') full_ref of
        Some at \<Rightarrow> (take at full_ref, drop (at + 1) full_ref)
      | None \<Rightarrow> (case rfind_idx (\<lambda>c. c = CHR '':'') full_ref of
          Some colon \<Rightarrow> (take colon full_ref, drop (colon + 1) full_ref)
        | None \<Rightarrow> (full_ref, ''latest'')))"

section \<open>The environment of a container\<close>

definition env_line :: "string \<times> string \<Rightarrow> string" where
  "env_line kv = fst kv @ ''='' @ snd kv"

definition override_env :: "string list \<Rightarrow> string \<times> string \<Rightarrow> string list" where
  "override_env vars kv = filter (\<lambda>v. \<not> prefix (fst kv @ ''='') v) vars @ [env_line kv]"

definition env_file_lines :: "string option \<Rightarrow> string list" where
  "env_file_lines content =
     (case content of
        Some s \<Rightarrow> filter (\<lambda>l. l \<noteq> [] \<and> \<not> prefix ''#'' l) (map trim (str_lines s))
      | None \<Rightarrow> [])"

definition resolve_env_vars_for_app ::
  "(string \<Rightarrow> string option) \<Rightarrow> app_config \<Rightarrow> secrets_store option \<Rightarrow> string \<Rightarrow> string list" where
  "resolve_env_vars_for_app read_file cfg store app =
     (let vars = map env_line (ac_env cfg) @
                 (case ac_env_file cfg of Some path \<Rightarrow> env_file_lines (read_file path) | None \<Rightarrow> [])
      in case store of
           None \<Rightarrow> vars
         | Some s \<Rightarrow> (case store_get_all s app of Inr secrets \<Rightarrow> foldl override_env vars secrets | Inl _ \<Rightarrow> vars))"

end
