(* ===== verification/Deploy.thy ===== *)
theory Deploy
  imports DeployTypes
begin

text \<open>
  The deploy orchestrator of \<open>deploy.rs\<close>: pull, configure, and the blue-green and recreate
  strategies with the rollback of the latter, as functions on the world.  A call to the runtime or
  to the proxy is a step of the world; an early return is the world at that point.
\<close>

section \<open>Shared steps\<close>

definition container_spec ::
  "('r, 'p) world \<Rightarrow> app_config \<Rightarrow> merged_volume list \<Rightarrow> string list \<Rightarrow> string \<Rightarrow> string \<Rightarrow> nat \<Rightarrow> create_spec" where
  "container_spec w cfg vols env_vars app tag port =
     \<lparr>cs_app = app, cs_image = dx_image (w_ctx w), cs_tag = tag, cs_port = port, cs_env = env_vars,
      cs_network = ac_network cfg, cs_resources = ac_resources cfg, cs_volumes = vols\<rparr>"

definition routing_port :: "app_config \<Rightarrow> nat" where
  "routing_port cfg = (case rt_port (ac_routing cfg) of Some p \<Rightarrow> p | None \<Rightarrow> 0)"

definition deploy_volumes :: "merged_config option \<Rightarrow> merged_volume list" where
  "deploy_volumes merged = (case merged of Some m \<Rightarrow> mc_volumes m | None \<Rightarrow> [])"

definition deploy_routes :: "app_config \<Rightarrow> merged_config option \<Rightarrow> nat \<Rightarrow> route list" where
  "deploy_routes cfg merged port =
     (case merged of
        Some m \<Rightarrow> map (\<lambda>r. \<lparr>route_hostname = mr_hostname r, route_port = port\<rparr>) (mc_routes m)
      | None \<Rightarrow> [\<lparr>route_hostname = (case rt_domain (ac_routing cfg) of Some d \<Rightarrow> d | None \<Rightarrow> []), route_port = port\<rparr>])"

definition promoted_routes :: "merged_config option \<Rightarrow> nat \<Rightarrow> route_state list" where
  "promoted_routes merged port =
     (case merged of
        Some m \<Rightarrow> map (\<lambda>r. \<lparr>rs_hostname = mr_hostname r, rs_port = port\<rparr>) (mc_routes m)
      | None \<Rightarrow> [])"

definition promoted_state ::
  "int \<Rightarrow> deploy_context \<Rightarrow> merged_config option \<Rightarrow> bool \<Rightarrow> nat \<Rightarrow> app_runtime_state \<Rightarrow> app_runtime_state" where
  "promoted_state now ctx merged is_worker port s =
     s\<lparr>as_previous_tag := as_current_tag s, as_previous_container_id := as_current_container_id s,
       as_current_tag := Some (dx_tag ctx), as_current_container_id := dx_new_container_id ctx,
       as_current_port := (if is_worker then None else dx_new_port ctx),
       as_current_routes := promoted_routes merged port, as_deployed_at := Some now,
       as_deploy_id := Some (dx_id ctx), as_status := StRunning, as_kind := map_option mc_kind merged\<rparr>"

definition state_or_default :: "string \<Rightarrow> ('r, 'p) world \<Rightarrow> app_runtime_state" where
  "state_or_default app w = (case map_of (w_states w) app of Some s \<Rightarrow> s | None \<Rightarrow> default_runtime_state)"

text \<open>Write the new runtime state and its snapshot on disk.\<close>

definition store_state :: "string \<Rightarrow> app_runtime_state \<Rightarrow> ('r, 'p) world \<Rightarrow> ('r, 'p) world" where
  "store_state app s w =
     w\<lparr>w_states := AList.update app s (w_states w), w_dir := save_app_state id app s (w_dir w)\<rparr>"

definition promote ::
  "('r, 'p) deploy_env \<Rightarrow> string \<Rightarrow> merged_config option \<Rightarrow> bool \<Rightarrow> nat \<Rightarrow> ('r, 'p) world \<Rightarrow> ('r, 'p) world" where
  "promote env app merged is_worker port w =
     store_state app (promoted_state (de_now env) (w_ctx w) merged is_worker port (state_or_default app w)) w"

definition remove_container :: "('r, 'p) deploy_env \<Rightarrow> string option \<Rightarrow> ('r, 'p) world \<Rightarrow> ('r, 'p) world" where
  "remove_container env cid w =
     (case cid of
        None \<Rightarrow> w
      | Some i \<Rightarrow> snd (rt_call (ro_stop_and_remove (de_runtime env) i) w))"

definition set_new_container :: "string \<Rightarrow> nat \<Rightarrow> bool \<Rightarrow> ('r, 'p) world \<Rightarrow> ('r, 'p) world" where
  "set_new_container cid port is_worker w =
     w\<lparr>w_ctx := (w_ctx w)\<lparr>dx_new_container_id := Some cid,
                          dx_new_port := (if is_worker then dx_new_port (w_ctx w) else Some port)\<rparr>\<rparr>"

definition check_health ::
  "('r, 'p) deploy_env \<Rightarrow> nat \<Rightarrow> health_config \<Rightarrow> ('r, 'p) world \<Rightarrow> health_error + unit" where
  "check_health env port cfg w = snd (health_check (de_probes env (w_rt w) port) port cfg)"

section \<open>Blue-green deploy of a container\<close>

text \<open>The check of the started container: a failure reason, or none.\<close>

definition verify_new_container ::
  "('r, 'p) deploy_env \<Rightarrow> app_config \<Rightarrow> string \<Rightarrow> nat \<Rightarrow> bool \<Rightarrow> ('r, 'p) world \<Rightarrow>
     (deploy_failure + unit) \<times> ('r, 'p) world" where
  "verify_new_container env cfg cid port is_worker w =
     (if is_worker then
        (case rt_call (ro_is_running (de_runtime env) cid) w of
           (Inr True, w1) \<Rightarrow> (Inr (), w1)
         | (Inr False, w1) \<Rightarrow> (Inl DfWorkerExited, w1)
         | (Inl _, w1) \<Rightarrow> (Inl DfWorkerState, w1))
      else
        (case check_health env port (ac_health cfg) w of
           Inl e \<Rightarrow> (Inl (DfHealth (format_health_reason e)), remove_container env (Some cid) w)
         | Inr _ \<Rightarrow>
             (case rt_call (ro_is_running (de_runtime env) cid) w of
                (Inr True, w1) \<Rightarrow> (Inr (), w1)
              | (Inr False, w1) \<Rightarrow> (Inl DfContainerExited, w1)
              | (Inl _, w1) \<Rightarrow> (Inl DfContainerState, w1))))"

text \<open>The switch of traffic: routes and state.  \<open>Inl\<close> is a failed route update; a run that is interrupted
  while the old container drains is in the world of \<open>Inr\<close>, which also names the old container.\<close>

definition switch_traffic ::
  "('r, 'p) deploy_env \<Rightarrow> app_config \<Rightarrow> merged_config option \<Rightarrow> string \<Rightarrow> nat \<Rightarrow> bool \<Rightarrow>
     ('r, 'p) world \<Rightarrow> (caddy_error \<times> ('r, 'p) world + ('r, 'p) world)" where
  "switch_traffic env cfg merged app port is_worker w =
     (let (x, w1) = (if is_worker then (Inr (), w) else px_call (de_set_routes env app (deploy_routes cfg merged port)) w)
      in case x of
           Inl e \<Rightarrow> Inl (e, w1)
         | Inr _ \<Rightarrow> Inr (promote env app merged is_worker port w1))"

definition switch_container ::
  "('r, 'p) deploy_env \<Rightarrow> app_config \<Rightarrow> merged_config option \<Rightarrow> string \<Rightarrow> string \<Rightarrow> nat \<Rightarrow> bool \<Rightarrow>
     ('r, 'p) world \<Rightarrow> ('r, 'p) world" where
  "switch_container env cfg merged app cid port is_worker w0 =
     (let w = set_status DsSwitching w0; old = old_container app w
      in case switch_traffic env cfg merged app port is_worker w of
           Inl (e, w1) \<Rightarrow> fail_deploy env app (DfRouteUpdate e) (remove_container env (Some cid) w1)
         | Inr w1 \<Rightarrow> finish_deploy env (remove_container env old w1))"

text \<open>Start the new container; \<open>Inl\<close> is the early exit.  A run that is interrupted while the health
  check waits is in the world this step returns.\<close>

definition start_container ::
  "('r, 'p) deploy_env \<Rightarrow> app_config \<Rightarrow> merged_config option \<Rightarrow> string list \<Rightarrow> string \<Rightarrow> bool \<Rightarrow>
     ('r, 'p) world \<Rightarrow> (('r, 'p) world + string \<times> nat \<times> ('r, 'p) world)" where
  "start_container env cfg merged env_vars app is_worker w0 =
     (let w = set_status DsStarting w0;
          spec = container_spec w cfg (deploy_volumes merged) env_vars app (dx_tag (w_ctx w))
                   (if is_worker then 0 else routing_port cfg);
          (x, w1) = rt_call (ro_create_and_start (de_runtime env) spec) w
      in case x of
           Inl _ \<Rightarrow> Inl w1
         | Inr (cid, p) \<Rightarrow> Inr (cid, p, set_status DsHealthChecking (set_new_container cid p is_worker w1)))"

definition blue_green_container ::
  "('r, 'p) deploy_env \<Rightarrow> app_config \<Rightarrow> merged_config option \<Rightarrow> string list \<Rightarrow> string \<Rightarrow> bool \<Rightarrow>
     ('r, 'p) world \<Rightarrow> ('r, 'p) world" where
  "blue_green_container env cfg merged env_vars app is_worker w0 =
     (case start_container env cfg merged env_vars app is_worker w0 of
        Inl w1 \<Rightarrow> fail_deploy env app DfContainerStart w1
      | Inr (cid, p, w2) \<Rightarrow>
          (let port = (if is_worker then 0 else p);
               (v, w3) = verify_new_container env cfg cid port is_worker w2
           in case v of
                Inl e \<Rightarrow> fail_deploy env app e w3
              | Inr _ \<Rightarrow> switch_container env cfg merged app cid port is_worker w3))"

section \<open>Recreate deploy of a container\<close>

definition is_routeless :: "app_config \<Rightarrow> bool" where
  "is_routeless cfg \<longleftrightarrow> rt_domain (ac_routing cfg) = None \<and> rt_routes (ac_routing cfg) = []"

definition restore_routes ::
  "('r, 'p) deploy_env \<Rightarrow> app_config \<Rightarrow> string \<Rightarrow> nat \<Rightarrow> ('r, 'p) world \<Rightarrow> ('r, 'p) world" where
  "restore_routes env cfg app port w =
     (if is_routeless cfg then w
      else snd (px_call (de_set_routes env app
             (map (\<lambda>r. \<lparr>route_hostname = re_hostname r, route_port = port\<rparr>) (effective_routes (ac_routing cfg)))) w))"

definition rollback_failed ::
  "('r, 'p) deploy_env \<Rightarrow> string \<Rightarrow> ('r, 'p) world \<Rightarrow> ('r, 'p) world" where
  "rollback_failed env app w =
     fail_deploy env app DfRollbackFailed (w\<lparr>w_ctx := (w_ctx w)\<lparr>dx_rollback_failed := True\<rparr>\<rparr>)"

text \<open>Tier 2: a fresh container from the previous tag.\<close>

definition rollback_tier2 ::
  "('r, 'p) deploy_env \<Rightarrow> app_config \<Rightarrow> merged_volume list \<Rightarrow> string list \<Rightarrow> string \<Rightarrow> string option \<Rightarrow>
     ('r, 'p) world \<Rightarrow> ('r, 'p) world" where
  "rollback_tier2 env cfg vols env_vars app old_tag w =
     (case old_tag of
        None \<Rightarrow> rollback_failed env app w
      | Some prev \<Rightarrow>
          (case rt_call (ro_create_and_start (de_runtime env)
                  (container_spec w cfg vols env_vars app prev (routing_port cfg))) w of
             (Inl _, w1) \<Rightarrow> rollback_failed env app w1
           | (Inr (fid, fport), w1) \<Rightarrow>
               if hc_path (ac_health cfg) = None \<or> is_ok (check_health env fport (ac_health cfg) w1) then
                 fail_deploy env app DfRollbackTier2
                   (modify_state app
                     (\<lambda>s. s\<lparr>as_current_container_id := Some fid, as_current_port := Some fport,
                             as_current_tag := Some prev\<rparr>)
                     (restore_routes env cfg app fport w1))
               else rollback_failed env app (remove_container env (Some fid) w1)))"

text \<open>Tier 1: restart the old container and find its port again.\<close>

definition rollback_recreate ::
  "('r, 'p) deploy_env \<Rightarrow> app_config \<Rightarrow> merged_volume list \<Rightarrow> string list \<Rightarrow> string \<Rightarrow> string option \<Rightarrow>
     string option \<Rightarrow> ('r, 'p) world \<Rightarrow> ('r, 'p) world" where
  "rollback_recreate env cfg vols env_vars app old old_tag w0 =
     (let old_port = Option.bind (map_of (w_states w0) app) as_current_port in
      case old of
        None \<Rightarrow> rollback_tier2 env cfg vols env_vars app old_tag w0
      | Some old_id \<Rightarrow>
          (let (x, w) = rt_call (ro_start (de_runtime env) old_id) (set_status DsRestartingOld w0) in
           case x of
             Inl _ \<Rightarrow> rollback_tier2 env cfg vols env_vars app old_tag w
           | Inr _ \<Rightarrow>
               (let (y, w1) = rt_call (ro_inspect_port (de_runtime env) old_id (routing_port cfg)) w;
                    port = (case y of Inr p \<Rightarrow> p | Inl _ \<Rightarrow> (case old_port of Some p \<Rightarrow> p | None \<Rightarrow> 0))
                in fail_deploy env app DfRollbackTier1 (restore_routes env cfg app port w1))))"

text \<open>The verdict on the new container; an unanswered state check counts as running for HTTP.\<close>

definition recreate_healthy ::
  "('r, 'p) deploy_env \<Rightarrow> app_config \<Rightarrow> string \<Rightarrow> nat \<Rightarrow> bool \<Rightarrow> ('r, 'p) world \<Rightarrow> bool \<times> ('r, 'p) world" where
  "recreate_healthy env cfg cid port is_worker w =
     (let (x, w1) = rt_call (ro_is_running (de_runtime env) cid) w in
      if is_worker then (x = Inr True, w1)
      else (is_ok (check_health env port (ac_health cfg) w) \<and> x \<noteq> Inr False, w1))"

text \<open>Steps 1 and 2: stop the old container and remove its route; \<open>Inl\<close> is the early exit.\<close>

definition recreate_stop ::
  "('r, 'p) deploy_env \<Rightarrow> string \<Rightarrow> string option \<Rightarrow> ('r, 'p) world \<Rightarrow> ('r, 'p) world + ('r, 'p) world" where
  "recreate_stop env app old w0 =
     (let (x, w) = (case old of
                      None \<Rightarrow> (Inr (), w0)
                    | Some old_id \<Rightarrow> rt_call (ro_stop (de_runtime env) old_id) (set_status DsStoppingOld w0))
      in case x of
           Inl _ \<Rightarrow> Inl (fail_deploy env app DfContainerStop w)
         | Inr _ \<Rightarrow> Inr (snd (px_call (de_remove_route env app) (set_status DsRemovingRoute w))))"

text \<open>Steps 5 to 7: routes, state, and the removal of the old container.\<close>

definition recreate_switch ::
  "('r, 'p) deploy_env \<Rightarrow> app_config \<Rightarrow> merged_config option \<Rightarrow> string list \<Rightarrow> string \<Rightarrow> string option \<Rightarrow>
     string option \<Rightarrow> string \<Rightarrow> nat \<Rightarrow> bool \<Rightarrow> ('r, 'p) world \<Rightarrow> ('r, 'p) world" where
  "recreate_switch env cfg merged env_vars app old old_tag cid port is_worker w0 =
     (case switch_traffic env cfg merged app port is_worker (set_status DsSwitching w0) of
        Inl (_, w1) \<Rightarrow> rollback_recreate env cfg (deploy_volumes merged) env_vars app old old_tag
                         (remove_container env (Some cid) w1)
      | Inr w1 \<Rightarrow> finish_deploy env (remove_container env old w1))"

definition recreate_container ::
  "('r, 'p) deploy_env \<Rightarrow> app_config \<Rightarrow> merged_config option \<Rightarrow> string list \<Rightarrow> string \<Rightarrow> bool \<Rightarrow>
     ('r, 'p) world \<Rightarrow> ('r, 'p) world" where
  "recreate_container env cfg merged env_vars app is_worker w0 =
     (let old = old_container app w0;
          old_tag = Option.bind (map_of (w_states w0) app) as_current_tag;
          rollback = rollback_recreate env cfg (deploy_volumes merged) env_vars app old old_tag
      in case recreate_stop env app old w0 of
           Inl w \<Rightarrow> w
         | Inr w1 \<Rightarrow>
             (case start_container env cfg merged env_vars app is_worker w1 of
                Inl w2 \<Rightarrow> rollback w2
              | Inr (cid, p, w2) \<Rightarrow>
                  (let (healthy, w3) = recreate_healthy env cfg cid p is_worker w2
                   in if healthy then recreate_switch env cfg merged env_vars app old old_tag cid p is_worker w3
                      else rollback (remove_container env (Some cid) w3))))"

end
