(* ===== verification/DeployPod.thy ===== *)
theory DeployPod
  imports Deploy
begin

text \<open>
  The blue-green deploy of a pod (\<open>deploy.rs\<close>): the manifest is taken from the image, checked,
  rendered and written, the pod is started beside the old one, each of its HTTP containers is
  checked, and traffic, state and the old pod follow.
\<close>

section \<open>Preparing the pod\<close>

text \<open>\<open>OpenOptions::create_new\<close>: an existing file is not overwritten.\<close>

definition write_manifest ::
  "('r, 'p) deploy_env \<Rightarrow> string \<Rightarrow> string \<Rightarrow> ('r, 'p) world \<Rightarrow> (deploy_failure + unit) \<times> ('r, 'p) world" where
  "write_manifest env path content w =
     (if \<not> de_mkdir_ok env then (Inl DfManifestDir, w)
      else if de_write_ok env \<and> map_of (w_manifests w) path = None
      then (Inr (), w\<lparr>w_manifests := (path, content) # w_manifests w\<rparr>)
      else (Inl DfManifestWrite, w))"

definition pod_render_context ::
  "('r, 'p) deploy_env \<Rightarrow> app_config \<Rightarrow> merged_config \<Rightarrow> string list \<Rightarrow> string \<Rightarrow> deploy_context \<Rightarrow> render_context" where
  "pod_render_context env cfg m env_vars app ctx =
     \<lparr>rd_app_name = app, rd_tag = dx_tag ctx, rd_primary_image = ai_image (ac_app cfg),
      rd_pod_suffix = de_pod_suffix env, rd_env_vars = env_vars, rd_image_overrides = dx_images ctx,
      rd_volumes = mc_volumes m, rd_has_workers = list_ex (\<lambda>r. mr_kind r = ''worker'') (mc_routes m)\<rparr>"

definition manifest_file :: "('r, 'p) deploy_env \<Rightarrow> string \<Rightarrow> deploy_context \<Rightarrow> string" where
  "manifest_file env app ctx =
     path_join (path_join (de_storage env) ''manifests'') (app @ ''-'' @ dx_id ctx @ ''.yaml'')"

text \<open>Extract, check, render and write the manifest: its path, or the failure.\<close>

definition prepare_manifest ::
  "('r, 'p) deploy_env \<Rightarrow> app_config \<Rightarrow> merged_config \<Rightarrow> string list \<Rightarrow> string \<Rightarrow> ('r, 'p) world \<Rightarrow>
     (deploy_failure + string) \<times> ('r, 'p) world" where
  "prepare_manifest env cfg m env_vars app w =
     (case mc_manifest m of
        None \<Rightarrow> (Inl DfManifestMissing, w)
      | Some in_image \<Rightarrow>
          (let (x, w1) = rt_call (ro_extract (de_runtime env) (dx_image (w_ctx w)) (dx_tag (w_ctx w)) in_image) w
           in case x of
                Inl _ \<Rightarrow> (Inl DfManifestExtract, w1)
              | Inr None \<Rightarrow> (Inl (DfManifestNotFound in_image), w1)
              | Inr (Some raw) \<Rightarrow>
                  (case validate_pod_env (de_parse_yaml env raw) cfg of
                     Inl e \<Rightarrow> (Inl (DfBinding e), w1)
                   | Inr _ \<Rightarrow>
                       (case render_manifest (de_parse_yaml env) (de_emit_yaml env) raw
                               (pod_render_context env cfg m env_vars app (w_ctx w1)) of
                          Inl e \<Rightarrow> (Inl (DfManifestRender e), w1)
                        | Inr rendered \<Rightarrow>
                            (let path = manifest_file env app (w_ctx w1);
                                 (y, w2) = write_manifest env path rendered w1
                             in case y of Inl e \<Rightarrow> (Inl e, w2) | Inr _ \<Rightarrow> (Inr path, w2))))))"

definition pod_name :: "('r, 'p) deploy_env \<Rightarrow> string \<Rightarrow> string" where
  "pod_name env app = app @ ''-'' @ de_pod_suffix env"

section \<open>Checking the containers\<close>

record pod_checks =
  pk_ports :: "(string \<times> nat) list"
  pk_failed :: bool
  pk_error :: "health_error option"

definition route_container :: "merged_route \<Rightarrow> string" where
  "route_container r = (case mr_container r of Some c \<Rightarrow> c | None \<Rightarrow> ''web'')"

definition check_pod_route ::
  "('r, 'p) deploy_env \<Rightarrow> app_config \<Rightarrow> string \<Rightarrow> merged_route \<Rightarrow> pod_checks \<times> ('r, 'p) world \<Rightarrow>
     pod_checks \<times> ('r, 'p) world" where
  "check_pod_route env cfg pod r acc =
     (let (k, w) = acc in
      if mr_kind r = ''worker''
      then (k, snd (rt_call (ro_is_running (de_runtime env) (pod @ ''-'' @ route_container r)) w))
      else (let (x, w1) = rt_call (ro_pod_port (de_runtime env) pod (route_container r) (mr_port r)) w
            in case x of
                 Inl _ \<Rightarrow> (k\<lparr>pk_failed := True\<rparr>, w1)
               | Inr host_port \<Rightarrow>
                   (case check_health env host_port (ac_health cfg) w1 of
                      Inl e \<Rightarrow> (k\<lparr>pk_error := Some e, pk_failed := True\<rparr>, w1)
                    | Inr _ \<Rightarrow> (k\<lparr>pk_ports := pk_ports k @ [(mr_hostname r, host_port)]\<rparr>, w1))))"

definition check_pod ::
  "('r, 'p) deploy_env \<Rightarrow> app_config \<Rightarrow> string \<Rightarrow> merged_route list \<Rightarrow> ('r, 'p) world \<Rightarrow>
     pod_checks \<times> ('r, 'p) world" where
  "check_pod env cfg pod rs w =
     fold (check_pod_route env cfg pod) rs (\<lparr>pk_ports = [], pk_failed = False, pk_error = None\<rparr>, w)"

definition pod_failure :: "pod_checks \<Rightarrow> deploy_failure" where
  "pod_failure k = (case pk_error k of Some e \<Rightarrow> DfHealth (format_health_reason e) | None \<Rightarrow> DfPodHealth)"

section \<open>The switch\<close>

definition promoted_pod ::
  "int \<Rightarrow> deploy_context \<Rightarrow> merged_config \<Rightarrow> string \<Rightarrow> string \<Rightarrow> (string \<times> nat) list \<Rightarrow>
     app_runtime_state \<Rightarrow> app_runtime_state" where
  "promoted_pod now ctx m pod path ports s =
     s\<lparr>as_previous_tag := as_current_tag s, as_current_tag := Some (dx_tag ctx),
       as_current_pod_name := Some pod, as_current_manifest_path := Some path,
       as_current_port := (case ports of [] \<Rightarrow> None | p # _ \<Rightarrow> Some (snd p)),
       as_current_routes := map (\<lambda>(h, p). \<lparr>rs_hostname = h, rs_port = p\<rparr>) ports,
       as_deployed_at := Some now, as_deploy_id := Some (dx_id ctx), as_status := StRunning,
       as_kind := Some (mc_kind m)\<rparr>"

definition promote_pod ::
  "('r, 'p) deploy_env \<Rightarrow> string \<Rightarrow> merged_config \<Rightarrow> string \<Rightarrow> string \<Rightarrow> (string \<times> nat) list \<Rightarrow>
     ('r, 'p) world \<Rightarrow> ('r, 'p) world" where
  "promote_pod env app m pod path ports w =
     store_state app (promoted_pod (de_now env) (w_ctx w) m pod path ports (state_or_default app w)) w"

definition current_manifest :: "string \<Rightarrow> ('r, 'p) world \<Rightarrow> string option" where
  "current_manifest app w = Option.bind (map_of (w_states w) app) as_current_manifest_path"

definition teardown ::
  "('r, 'p) deploy_env \<Rightarrow> string option \<Rightarrow> ('r, 'p) world \<Rightarrow> ('r, 'p) world" where
  "teardown env path w =
     (case path of None \<Rightarrow> w | Some p \<Rightarrow> snd (rt_call (ro_teardown_pod (de_runtime env) p) w))"

definition switch_pod ::
  "('r, 'p) deploy_env \<Rightarrow> merged_config \<Rightarrow> string \<Rightarrow> string \<Rightarrow> string \<Rightarrow> (string \<times> nat) list \<Rightarrow>
     ('r, 'p) world \<Rightarrow> ('r, 'p) world" where
  "switch_pod env m app pod path ports w0 =
     (let port = (case ports of [] \<Rightarrow> None | p # _ \<Rightarrow> Some (snd p));
          w = set_status DsSwitching (w0\<lparr>w_ctx := (w_ctx w0)\<lparr>dx_new_port := port\<rparr>\<rparr>);
          old = current_manifest app w;
          (x, w1) = (if ports = [] then (Inr (), w)
                     else px_call (de_set_routes env app
                            (map (\<lambda>(h, p). \<lparr>route_hostname = h, route_port = p\<rparr>) ports)) w)
      in case x of
           Inl e \<Rightarrow> fail_deploy env app (DfPodRouteUpdate e) (teardown env (Some path) w1)
         | Inr _ \<Rightarrow> finish_deploy env (teardown env old (promote_pod env app m pod path ports w1)))"

text \<open>An application-level worker: the manifest to tear down is read after the state was replaced.\<close>

definition switch_worker_pod ::
  "('r, 'p) deploy_env \<Rightarrow> merged_config \<Rightarrow> string \<Rightarrow> string \<Rightarrow> string \<Rightarrow> ('r, 'p) world \<Rightarrow> ('r, 'p) world" where
  "switch_worker_pod env m app pod path w =
     (let w1 = promote_pod env app m pod path [] w
      in finish_deploy env (teardown env (current_manifest app w1) w1))"

definition start_pod ::
  "('r, 'p) deploy_env \<Rightarrow> app_config \<Rightarrow> merged_config \<Rightarrow> string list \<Rightarrow> string \<Rightarrow> ('r, 'p) world \<Rightarrow>
     (deploy_failure + string) \<times> ('r, 'p) world" where
  "start_pod env cfg m env_vars app w0 =
     (let (x, w) = prepare_manifest env cfg m env_vars app (set_status DsStarting w0) in
      case x of
        Inl e \<Rightarrow> (Inl e, w)
      | Inr path \<Rightarrow>
          (let (y, w1) = rt_call (ro_deploy_pod (de_runtime env) path (pod_name env app)) w in
           case y of
             Inl _ \<Rightarrow> (Inl DfPodDeploy, w1)
           | Inr _ \<Rightarrow>
               (Inr path, set_status DsHealthChecking
                  (w1\<lparr>w_ctx := (w_ctx w1)\<lparr>dx_new_pod_name := Some (pod_name env app),
                                         dx_new_manifest_path := Some path\<rparr>\<rparr>))))"

definition blue_green_pod ::
  "('r, 'p) deploy_env \<Rightarrow> app_config \<Rightarrow> merged_config \<Rightarrow> string list \<Rightarrow> string \<Rightarrow> bool \<Rightarrow>
     ('r, 'p) world \<Rightarrow> ('r, 'p) world" where
  "blue_green_pod env cfg m env_vars app is_worker w0 =
     (let pod = pod_name env app;
          (x, w) = start_pod env cfg m env_vars app w0
      in case x of
           Inl e \<Rightarrow> fail_deploy env app e w
         | Inr path \<Rightarrow>
             if is_worker then switch_worker_pod env m app pod path w
             else (let (k, w1) = check_pod env cfg pod (mc_routes m) w in
                   if pk_failed k then fail_deploy env app (pod_failure k) (teardown env (Some path) w1)
                   else switch_pod env m app pod path (pk_ports k) w1))"

end
