(* ===== verification/DeployRun.thy ===== *)
theory DeployRun
  imports DeployPod
begin

text \<open>
  \<open>execute_deploy_inner\<close> and \<open>execute_deploy\<close> of \<open>deploy.rs\<close>: pull, configuration, bindings, the routing
  guard, the dispatch on the strategy, and the handler of the timeout.
\<close>

section \<open>Pull\<close>

definition pull_ref ::
  "('r, 'p) deploy_env \<Rightarrow> string \<Rightarrow> string \<Rightarrow> string \<Rightarrow> ('r, 'p) world \<Rightarrow> (runtime_error + unit) \<times> ('r, 'p) world" where
  "pull_ref env img tag full_ref w =
     rt_call (ro_pull (de_runtime env) img tag (resolve_registry_credential full_ref (de_registries env))) w"

fun pull_sidecars ::
  "('r, 'p) deploy_env \<Rightarrow> (string \<times> string) list \<Rightarrow> ('r, 'p) world \<Rightarrow> (deploy_failure + unit) \<times> ('r, 'p) world" where
  "pull_sidecars env [] w = (Inr (), w)"
| "pull_sidecars env ((container, full_ref) # rest) w =
     (let (img, tag) = parse_image_ref full_ref;
          (x, w1) = pull_ref env img tag full_ref w
      in case x of
           Inl _ \<Rightarrow> (Inl (DfSidecarPull container), w1)
         | Inr _ \<Rightarrow> pull_sidecars env rest w1)"

definition pull_images :: "('r, 'p) deploy_env \<Rightarrow> ('r, 'p) world \<Rightarrow> (deploy_failure + unit) \<times> ('r, 'p) world" where
  "pull_images env w =
     (let ctx = w_ctx w;
          (x, w1) = pull_ref env (dx_image ctx) (dx_tag ctx) (dx_image ctx) w
      in case x of
           Inl _ \<Rightarrow> (Inl DfPull, w1)
         | Inr _ \<Rightarrow> pull_sidecars env (dx_images ctx) w1)"

section \<open>Configuration\<close>

definition repo_config_path :: string where "repo_config_path = ''/slip/slip.toml''"

definition merge_image_config ::
  "('r, 'p) deploy_env \<Rightarrow> string \<Rightarrow> app_config \<Rightarrow> ('r, 'p) world \<Rightarrow>
     (deploy_failure + merged_config option) \<times> ('r, 'p) world" where
  "merge_image_config env app cfg w =
     (let (x, w1) = rt_call (ro_extract (de_runtime env) (dx_image (w_ctx w)) (dx_tag (w_ctx w)) repo_config_path) w
      in (case x of
            Inr (Some bytes) \<Rightarrow>
              (case de_parse_repo env bytes of
                 None \<Rightarrow> Inl DfConfigParse
               | Some repo \<Rightarrow>
                   if ra_name (rc_app repo) \<noteq> app then Inl (DfConfigMismatch (ra_name (rc_app repo)) app)
                   else (case merge_config cfg repo of
                           Inr m \<Rightarrow> Inr (Some m)
                         | Inl e \<Rightarrow> Inl (DfConfigMerge e)))
          | Inr None \<Rightarrow> Inr None
          | Inl e \<Rightarrow> if e = RtUnsupported then Inr None else Inl DfConfigExtract,
          w1))"

definition bind_services ::
  "('r, 'p) deploy_env \<Rightarrow> app_config \<Rightarrow> ('r, 'p) world \<Rightarrow>
     (binding_error + (string \<times> string) list) \<times> ('r, 'p) world" where
  "bind_services env cfg w =
     (case ac_needs cfg of
        [] \<Rightarrow> (Inr [], w)
      | (_, need) # _ \<Rightarrow>
          (case de_bind env of
             None \<Rightarrow> (Inl (MissingService (need_type_str (need_kind need))), w)
           | Some bind \<Rightarrow>
               (case w_secrets w of
                  None \<Rightarrow> (Inl BindStore, w)
                | Some store \<Rightarrow>
                    (let (store1, r) = bind cfg store
                     in (and_then r (\<lambda>_. bindings_env (de_codec env) store1 cfg), w\<lparr>w_secrets := Some store1\<rparr>)))))"

definition routable :: "routing_config \<Rightarrow> bool" where
  "routable r \<longleftrightarrow>
     rt_routes r \<noteq> [] \<or>
     ((case rt_domain r of Some d \<Rightarrow> d \<noteq> [] | None \<Rightarrow> False) \<and>
      (case rt_port r of Some p \<Rightarrow> p > 0 | None \<Rightarrow> False))"

section \<open>Dispatch\<close>

definition container_env ::
  "('r, 'p) deploy_env \<Rightarrow> app_config \<Rightarrow> string \<Rightarrow> (string \<times> string) list \<Rightarrow> ('r, 'p) world \<Rightarrow> string list" where
  "container_env env cfg app binding_env w =
     foldl override_env (resolve_env_vars_for_app (de_env_file env) cfg (w_secrets w) app) binding_env"

definition has_kind :: "string \<Rightarrow> merged_config option \<Rightarrow> bool" where
  "has_kind k merged = (case merged of Some m \<Rightarrow> mc_kind m = k | None \<Rightarrow> False)"

definition run_strategy ::
  "('r, 'p) deploy_env \<Rightarrow> app_config \<Rightarrow> merged_config option \<Rightarrow> string list \<Rightarrow> string \<Rightarrow> bool \<Rightarrow>
     ('r, 'p) world \<Rightarrow> (deploy_failure + ('r, 'p) world)" where
  "run_strategy env cfg merged env_vars app is_worker w =
     (let strategy = dc_strategy (ac_deploy cfg) in
      if strategy \<noteq> ''blue-green'' \<and> strategy \<noteq> ''recreate'' then Inl (DfUnknownStrategy strategy)
      else Inr (case merged of
          Some m \<Rightarrow>
            if mc_kind m = ''pod'' then blue_green_pod env cfg m env_vars app is_worker w
            else if strategy = ''recreate'' then recreate_container env cfg merged env_vars app is_worker w
            else blue_green_container env cfg merged env_vars app is_worker w
        | None \<Rightarrow>
            if strategy = ''recreate'' then recreate_container env cfg merged env_vars app is_worker w
            else blue_green_container env cfg merged env_vars app is_worker w))"

definition complete_deploy :: "('r, 'p) deploy_env \<Rightarrow> ('r, 'p) world \<Rightarrow> ('r, 'p) world" where
  "complete_deploy env w = (if dx_status (w_ctx w) \<noteq> DsFailed then finish_deploy env w else w)"

text \<open>From the merged configuration to the end of the run.\<close>

definition deploy_configured ::
  "('r, 'p) deploy_env \<Rightarrow> string \<Rightarrow> app_config \<Rightarrow> merged_config option \<Rightarrow> ('r, 'p) world \<Rightarrow> ('r, 'p) world" where
  "deploy_configured env app app_cfg merged w =
     (let cfg = (case merged of Some m \<Rightarrow> mc_app m | None \<Rightarrow> app_cfg);
          is_worker = has_kind ''worker'' merged;
          (x, w1) = bind_services env cfg w
      in case x of
           Inl e \<Rightarrow> fail_deploy env app (DfBinding e) w1
         | Inr binding_env \<Rightarrow>
             if \<not> is_worker \<and> \<not> routable (ac_routing cfg) then fail_deploy env app DfRoutingMissing w1
             else (case run_strategy env cfg merged (container_env env cfg app binding_env w1) app is_worker w1 of
                     Inl e \<Rightarrow> fail_deploy env app e w1
                   | Inr w2 \<Rightarrow> complete_deploy env w2))"

definition execute_deploy_inner :: "('r, 'p) deploy_env \<Rightarrow> ('r, 'p) world \<Rightarrow> ('r, 'p) world" where
  "execute_deploy_inner env w =
     (let app = dx_app (w_ctx w) in
      case map_of (w_apps w) app of
        None \<Rightarrow> fail_deploy env app (DfAppNotFound app) w
      | Some app_cfg \<Rightarrow>
          (let w1 = set_status DsPulling (modify_state app (\<lambda>s. s\<lparr>as_status := StDeploying\<rparr>) w);
               (x, w2) = pull_images env w1
           in case x of
                Inl e \<Rightarrow> fail_deploy env app e w2
              | Inr _ \<Rightarrow>
                  (let (y, w3) = merge_image_config env app app_cfg (set_status DsConfiguring w2)
                   in case y of
                        Inl e \<Rightarrow> fail_deploy env app e w3
                      | Inr merged \<Rightarrow> deploy_configured env app app_cfg merged w3)))"

section \<open>The timeout\<close>

definition deploy_timeout :: "slip_config \<Rightarrow> ('r, 'p) world \<Rightarrow> duration" where
  "deploy_timeout config w =
     (case map_of (w_apps w) (dx_app (w_ctx w)) of
        Some cfg \<Rightarrow> resolve_deploy_timeout config (ac_deploy cfg)
      | None \<Rightarrow> secs 600)"

text \<open>The handler runs in the world in which the inner run was cancelled.\<close>

definition on_timeout :: "('r, 'p) deploy_env \<Rightarrow> duration \<Rightarrow> ('r, 'p) world \<Rightarrow> ('r, 'p) world" where
  "on_timeout env limit w =
     (let w1 = w\<lparr>w_ctx := context_fail (de_now env) (DfTimeout (deploy_format_duration limit)) (w_ctx w)\<rparr>;
          w2 = remove_container env (dx_new_container_id (w_ctx w1)) w1
      in set_app_failed env (dx_app (w_ctx w)) (record_deploy w2))"

text \<open>\<open>tokio::time::timeout\<close>: the inner run ends, or it is cancelled at one of its waits.\<close>

datatype ('r, 'p) deploy_outcome = RunEnded | RunCancelled "('r, 'p) world"

definition execute_deploy ::
  "slip_config \<Rightarrow> ('r, 'p) deploy_env \<Rightarrow> ('r, 'p) deploy_outcome \<Rightarrow> ('r, 'p) world \<Rightarrow> ('r, 'p) world" where
  "execute_deploy config env out w =
     (case out of
        RunEnded \<Rightarrow> execute_deploy_inner env w
      | RunCancelled w' \<Rightarrow> on_timeout env (deploy_timeout config w) w')"

end
