(* ===== verification/DeployFrame.thy ===== *)
theory DeployFrame
  imports DeployRun
begin

text \<open>
  What every step of the orchestrator leaves alone, and how every run ends: the context keeps its
  identity, other applications keep their state, and the run ends in \<open>fail_deploy\<close> or in
  \<open>finish_deploy\<close>.
\<close>

section \<open>The fields a step touches\<close>

text \<open>The identity of a run, and the state of every other application.\<close>

definition same_run :: "string \<Rightarrow> ('r, 'p) world \<Rightarrow> ('r, 'p) world \<Rightarrow> bool" where
  "same_run app w w' \<longleftrightarrow>
     dx_id (w_ctx w') = dx_id (w_ctx w) \<and> dx_app (w_ctx w') = dx_app (w_ctx w) \<and>
     dx_image (w_ctx w') = dx_image (w_ctx w) \<and> dx_tag (w_ctx w') = dx_tag (w_ctx w) \<and>
     dx_images (w_ctx w') = dx_images (w_ctx w) \<and> dx_error (w_ctx w') = dx_error (w_ctx w) \<and>
     w_apps w' = w_apps w \<and>
     (\<forall>a. a \<noteq> app \<longrightarrow> map_of (w_states w') a = map_of (w_states w) a)"

lemma same_run_refl [simp]: "same_run app w w"
  by (simp add: same_run_def)

lemma same_run_trans: "same_run app u v \<Longrightarrow> same_run app v w \<Longrightarrow> same_run app u w"
  by (simp add: same_run_def)

text \<open>A step that touches none of these fields can be removed from the right-hand side.\<close>

lemma same_run_fields [simp]:
  "same_run app u (w\<lparr>w_rt := r\<rparr>) = same_run app u w"
  "same_run app u (w\<lparr>w_px := q\<rparr>) = same_run app u w"
  "same_run app u (w\<lparr>w_secrets := t\<rparr>) = same_run app u w"
  "same_run app u (w\<lparr>w_manifests := f\<rparr>) = same_run app u w"
  "same_run app u (w\<lparr>w_ctx := (w_ctx w)\<lparr>dx_new_port := np\<rparr>\<rparr>) = same_run app u w"
  "same_run app u (w\<lparr>w_ctx := (w_ctx w)\<lparr>dx_rollback_failed := b\<rparr>\<rparr>) = same_run app u w"
  "same_run app u (w\<lparr>w_ctx := (w_ctx w)\<lparr>dx_new_pod_name := pn, dx_new_manifest_path := pm\<rparr>\<rparr>) = same_run app u w"
  by (simp_all add: same_run_def)

lemma rt_call_world: "rt_call f w = (x, w1) \<Longrightarrow> \<exists>r. w1 = w\<lparr>w_rt := r\<rparr>"
  by (auto simp: rt_call_def Let_def split: prod.splits)

lemma px_call_world: "px_call f w = (x, w1) \<Longrightarrow> \<exists>q. w1 = w\<lparr>w_px := q\<rparr>"
  by (auto simp: px_call_def Let_def split: prod.splits)

lemma same_run_rt: "rt_call f w = (x, w1) \<Longrightarrow> same_run app u w1 = same_run app u w"
  by (auto dest: rt_call_world)

lemma same_run_px: "px_call f w = (x, w1) \<Longrightarrow> same_run app u w1 = same_run app u w"
  by (auto dest: px_call_world)

lemma snd_rt_call: "\<exists>r. snd (rt_call f w) = w\<lparr>w_rt := r\<rparr>"
  by (cases "rt_call f w") (auto dest: rt_call_world)

lemma snd_px_call: "\<exists>q. snd (px_call f w) = w\<lparr>w_px := q\<rparr>"
  by (cases "px_call f w") (auto dest: px_call_world)

lemma world_id_rt: "\<exists>r. w = w\<lparr>w_rt := r\<rparr>"
  by (rule exI[of _ "w_rt w"]) simp

lemma remove_container_rt: "\<exists>r. remove_container env c w = w\<lparr>w_rt := r\<rparr>"
  using world_id_rt[of w] by (cases c) (simp_all add: remove_container_def snd_rt_call)

lemma teardown_rt: "\<exists>r. teardown env c w = w\<lparr>w_rt := r\<rparr>"
  using world_id_rt[of w] by (cases c) (simp_all add: teardown_def snd_rt_call)

lemma restore_routes_px: "\<exists>q. restore_routes env cfg app p w = w\<lparr>w_px := q\<rparr>"
  using exI[of "\<lambda>q. w = w\<lparr>w_px := q\<rparr>" "w_px w"] by (simp add: restore_routes_def snd_px_call)

lemma same_run_steps [simp]:
  "same_run app u (snd (rt_call f w)) = same_run app u w"
  "same_run app u (snd (px_call g w)) = same_run app u w"
  "same_run app u (remove_container env c w) = same_run app u w"
  "same_run app u (teardown env c w) = same_run app u w"
  "same_run app u (restore_routes env cfg app p w) = same_run app u w"
  using snd_rt_call[of f w] snd_px_call[of g w] remove_container_rt[of env c w] teardown_rt[of env c w]
    restore_routes_px[of env cfg app p w]
  by auto

lemma same_run_status [simp]: "same_run app u (set_status s w) = same_run app u w"
  by (simp add: same_run_def set_status_def record_deploy_def)

lemma same_run_modify [simp]: "same_run app u (modify_state app f w) = same_run app u w"
  by (simp add: same_run_def modify_state_def update_conv' split: option.split)

lemma same_run_new_container [simp]: "same_run app u (set_new_container c p b w) = same_run app u w"
  by (simp add: same_run_def set_new_container_def)

lemma same_run_promote [simp]:
  "same_run app u (promote env app m b p w) = same_run app u w"
  "same_run app u (promote_pod env app mc pod path ps w) = same_run app u w"
  by (simp_all add: same_run_def promote_def promote_pod_def store_state_def update_conv')

lemma same_run_finish [simp]: "same_run app u (finish_deploy env w) = same_run app u w"
  by (simp add: same_run_def finish_deploy_def record_deploy_def)

section \<open>How a run ends\<close>

definition promoted_to :: "string \<Rightarrow> ('r, 'p) world \<Rightarrow> bool" where
  "promoted_to app w \<longleftrightarrow>
     (\<exists>s. map_of (w_states w) app = Some s \<and> as_status s = StRunning \<and>
        as_current_tag s = Some (dx_tag (w_ctx w)) \<and> as_deploy_id s = Some (dx_id (w_ctx w)) \<and>
        map_of (w_dir w) (json_file app) = Some (Some (persist_app s)))"

inductive ended :: "('r, 'p) deploy_env \<Rightarrow> string \<Rightarrow> ('r, 'p) world \<Rightarrow> ('r, 'p) world \<Rightarrow> bool"
  for env app w0 where
  ended_failed: "same_run app w0 w \<Longrightarrow> ended env app w0 (fail_deploy env app e w)"
| ended_completed: "same_run app w0 w \<Longrightarrow> promoted_to app w \<Longrightarrow> ended env app w0 (finish_deploy env w)"

lemma ended_trans: "same_run app u v \<Longrightarrow> ended env app v w \<Longrightarrow> ended env app u w"
  by (auto elim!: ended.cases intro: ended.intros same_run_trans)

lemma promoted_rt [simp]: "promoted_to app (w\<lparr>w_rt := r\<rparr>) = promoted_to app w"
  by (simp add: promoted_to_def)

lemma promoted_after [simp]:
  "promoted_to app (remove_container env c w) = promoted_to app w"
  "promoted_to app (teardown env c w) = promoted_to app w"
  using remove_container_rt[of env c w] teardown_rt[of env c w] by auto

lemma promoted_promote [simp]:
  "promoted_to app (promote env app m b p w)" "promoted_to app (promote_pod env app mc pod path ps w)"
  by (simp_all add: promoted_to_def promote_def promote_pod_def store_state_def promoted_state_def
      promoted_pod_def save_app_state_def update_conv')

text \<open>The strategies.\<close>

lemma same_run_traffic:
  "switch_traffic env cfg m app p b w = Inl (e, w1) \<Longrightarrow> same_run app u w1 = same_run app u w"
  "switch_traffic env cfg m app p b w = Inr w1 \<Longrightarrow> same_run app u w1 = same_run app u w"
  "switch_traffic env cfg m app p b w = Inr w1 \<Longrightarrow> promoted_to app w1"
  by (auto simp: switch_traffic_def Let_def same_run_px split: prod.splits sum.splits if_splits)

lemma same_run_start:
  "start_container env cfg m vars app b w = Inl w1 \<Longrightarrow> same_run app u w1 = same_run app u w"
  "start_container env cfg m vars app b w = Inr (c, p, w1) \<Longrightarrow> same_run app u w1 = same_run app u w"
  by (auto simp: start_container_def Let_def same_run_rt split: prod.splits sum.splits)

lemma same_run_verify:
  "verify_new_container env cfg c p b w = (x, w1) \<Longrightarrow> same_run app u w1 = same_run app u w"
  by (auto simp: verify_new_container_def same_run_rt split: prod.splits sum.splits if_splits bool.splits)

lemma ended_switch: "same_run app u w \<Longrightarrow> ended env app u (switch_container env cfg m app c p b w)"
  by (auto simp: switch_container_def Let_def same_run_traffic split: sum.splits prod.splits intro!: ended.intros)

lemma ended_blue_green: "same_run app u w \<Longrightarrow> ended env app u (blue_green_container env cfg m vars app b w)"
  unfolding blue_green_container_def Let_def
  by (auto simp: same_run_start same_run_verify split: sum.splits prod.splits intro!: ended_failed ended_switch)

lemma ended_tier2: "same_run app u w \<Longrightarrow> ended env app u (rollback_tier2 env cfg vs vars app t w)"
  by (auto simp: rollback_tier2_def rollback_failed_def same_run_rt split: option.splits sum.splits prod.splits
      intro!: ended_failed)

lemma ended_rollback: "same_run app u w \<Longrightarrow> ended env app u (rollback_recreate env cfg vs vars app old t w)"
  by (auto simp: rollback_recreate_def Let_def same_run_rt split: option.splits sum.splits prod.splits
      intro!: ended_failed ended_tier2)

lemma ended_recreate_switch:
  "same_run app u w \<Longrightarrow> ended env app u (recreate_switch env cfg m vars app old t c p b w)"
  by (auto simp: recreate_switch_def same_run_traffic split: sum.splits prod.splits intro!: ended_completed ended_rollback)

lemma recreate_stopped:
  "recreate_stop env app old w = Inl w1 \<Longrightarrow> same_run app u w \<Longrightarrow> ended env app u w1"
  "recreate_stop env app old w = Inr w1 \<Longrightarrow> same_run app u w1 = same_run app u w"
  by (auto simp: recreate_stop_def Let_def same_run_rt split: option.splits sum.splits prod.splits
      intro!: ended_failed)

lemma same_run_healthy:
  "recreate_healthy env cfg c p b w = (h, w1) \<Longrightarrow> same_run app u w1 = same_run app u w"
  by (auto simp: recreate_healthy_def Let_def same_run_rt split: prod.splits if_splits)

lemma ended_recreate: "same_run app u w \<Longrightarrow> ended env app u (recreate_container env cfg m vars app b w)"
  unfolding recreate_container_def Let_def
  by (auto simp: recreate_stopped(2) same_run_start same_run_healthy split: sum.splits prod.splits
      intro: recreate_stopped(1) intro!: ended_rollback ended_recreate_switch)

text \<open>Pods.\<close>

lemma same_run_prepare:
  "prepare_manifest env cfg m vars app w = (x, w1) \<Longrightarrow> same_run app u w1 = same_run app u w"
  by (auto simp: prepare_manifest_def write_manifest_def Let_def same_run_rt
      split: option.splits sum.splits prod.splits if_splits)

lemma same_run_start_pod:
  "start_pod env cfg m vars app w = (x, w1) \<Longrightarrow> same_run app u w1 = same_run app u w"
  by (auto simp: start_pod_def Let_def same_run_rt same_run_prepare split: sum.splits prod.splits)

lemma same_run_check_route:
  "same_run app u (snd (check_pod_route env cfg pod r acc)) = same_run app u (snd acc)"
  by (cases acc) (auto simp: check_pod_route_def Let_def same_run_rt split: sum.splits prod.splits)

lemma same_run_check_pod: "check_pod env cfg pod rs w = (k, w1) \<Longrightarrow> same_run app u w1 = same_run app u w"
proof -
  have "same_run app u (snd (fold (check_pod_route env cfg pod) rs acc)) = same_run app u (snd acc)" for acc
    by (induction rs arbitrary: acc) (simp_all add: same_run_check_route)
  from this[of "(\<lparr>pk_ports = [], pk_failed = False, pk_error = None\<rparr>, w)"]
  show "check_pod env cfg pod rs w = (k, w1) \<Longrightarrow> ?thesis" by (simp add: check_pod_def)
qed

lemma ended_pod: "same_run app u w \<Longrightarrow> ended env app u (blue_green_pod env cfg m vars app b w)"
  by (auto simp: blue_green_pod_def switch_worker_pod_def switch_pod_def Let_def same_run_start_pod
      same_run_check_pod same_run_px split: sum.splits prod.splits intro!: ended.intros)

lemma ended_strategy:
  "run_strategy env cfg m vars app b w = Inr w' \<Longrightarrow> same_run app u w \<Longrightarrow> ended env app u w'"
  by (auto simp: run_strategy_def Let_def split: if_splits option.splits
      intro: ended_pod ended_recreate ended_blue_green)

section \<open>The whole run\<close>

lemma same_run_pull_ref: "pull_ref env img tag r w = (x, w1) \<Longrightarrow> same_run app u w1 = same_run app u w"
  unfolding pull_ref_def by (rule same_run_rt)

lemma same_run_sidecars: "pull_sidecars env xs w = (x, w1) \<Longrightarrow> same_run app u w1 = same_run app u w"
proof (induction env xs w rule: pull_sidecars.induct)
  case (2 env c r rest w)
  obtain img tag where i: "parse_image_ref r = (img, tag)" by fastforce
  obtain y w2 where y: "pull_ref env img tag r w = (y, w2)" by fastforce
  show ?case
  proof (cases y)
    case (Inl e)
    then show ?thesis using 2(2) same_run_pull_ref[OF y] by (simp add: i y)
  next
    case (Inr a)
    then have "pull_sidecars env rest w2 = (x, w1)" using 2(2) by (simp add: i y)
    from 2(1)[OF i[symmetric] refl y[symmetric] refl Inr this] same_run_pull_ref[OF y] show ?thesis by simp
  qed
qed simp

lemma same_run_pull: "pull_images env w = (x, w1) \<Longrightarrow> same_run app u w1 = same_run app u w"
  by (auto simp: pull_images_def Let_def same_run_pull_ref same_run_sidecars split: prod.splits sum.splits)

lemma same_run_merge: "merge_image_config env app cfg w = (x, w1) \<Longrightarrow> same_run app u w1 = same_run app u w"
proof -
  obtain y w2 where y: "rt_call (ro_extract (de_runtime env) (dx_image (w_ctx w)) (dx_tag (w_ctx w)) repo_config_path) w
      = (y, w2)" by fastforce
  show "merge_image_config env app cfg w = (x, w1) \<Longrightarrow> ?thesis"
    using same_run_rt[OF y] by (simp add: merge_image_config_def y)
qed

lemma same_run_bind: "bind_services env cfg w = (x, w1) \<Longrightarrow> same_run app u w1 = same_run app u w"
  by (auto simp: bind_services_def Let_def split: list.splits option.splits prod.splits)

lemma fail_status [simp]: "dx_status (w_ctx (fail_deploy env app e w)) = DsFailed"
  by (simp add: fail_deploy_def set_app_failed_def modify_state_def record_deploy_def context_fail_def split: option.split)

lemma promoted_finish [simp]: "promoted_to app (finish_deploy env w) = promoted_to app w"
  by (simp add: promoted_to_def finish_deploy_def record_deploy_def)

lemma ended_complete: "ended env app u w \<Longrightarrow> ended env app u (complete_deploy env w)"
  by (erule ended.cases) (auto simp: complete_deploy_def intro!: ended.intros)

lemma ended_configured: "same_run app u w \<Longrightarrow> ended env app u (deploy_configured env app cfg m w)"
  unfolding deploy_configured_def Let_def
  by (auto simp: same_run_bind split: sum.splits prod.splits intro!: ended_failed ended_complete intro: ended_strategy)

lemma ended_inner: "ended env (dx_app (w_ctx w)) w (execute_deploy_inner env w)"
  unfolding execute_deploy_inner_def Let_def
  by (auto simp: same_run_pull same_run_merge split: option.splits sum.splits prod.splits
      intro!: ended_failed ended_configured)

lemma fail_deploy_facts:
  "w_states (fail_deploy env app e w) =
     (case map_of (w_states w) app of
        Some s \<Rightarrow> if de_lock_free env then AList.update app (s\<lparr>as_status := StFailed\<rparr>) (w_states w) else w_states w
      | None \<Rightarrow> w_states w)"
  "w_ctx (fail_deploy env app e w) = context_fail (de_now env) e (w_ctx w)"
  "w_deploys (fail_deploy env app e w) =
     AList.update (dx_app (w_ctx w)) (context_fail (de_now env) e (w_ctx w)) (w_deploys w)"
  "w_db (fail_deploy env app e w) = AList.update (dx_id (w_ctx w)) (context_fail (de_now env) e (w_ctx w)) (w_db w)"
  by (auto simp: fail_deploy_def set_app_failed_def modify_state_def record_deploy_def context_fail_def split: option.split)

definition settled :: "('r, 'p) deploy_env \<Rightarrow> deploy_context \<Rightarrow> deploy_context \<Rightarrow> bool" where
  "settled env ctx0 ctx \<longleftrightarrow>
     dx_finished_at ctx = Some (de_now env) \<and>
     (dx_status ctx = DsCompleted \<and> dx_error ctx = dx_error ctx0 \<or> dx_status ctx = DsFailed \<and> dx_error ctx \<noteq> None)"

text \<open>The application's own record after the run: promoted, or marked as failed when the lock was free.\<close>

definition recorded :: "('r, 'p) deploy_env \<Rightarrow> string \<Rightarrow> ('r, 'p) world \<Rightarrow> bool" where
  "recorded env app w =
     (if dx_status (w_ctx w) = DsCompleted then promoted_to app w
      else \<not> de_lock_free env \<or>
           (case map_of (w_states w) app of Some s \<Rightarrow> as_status s = StFailed | None \<Rightarrow> True))"

text \<open>C36. Every run of a deploy ends settled: the context is completed with no error added or failed with
  a reason, and has its finishing time, the cache and the deploy history hold exactly this context, the
  application's record is the promoted one (running, with the deployed tag, and saved on disk) or
  marked as failed, and no other application's record changes.\<close>

theorem deploy_settles:
  "let w' = execute_deploy_inner env w; app = dx_app (w_ctx w); ctx = w_ctx w' in
    settled env (w_ctx w) ctx \<and> map_of (w_deploys w') app = Some ctx \<and> map_of (w_db w') (dx_id (w_ctx w)) = Some ctx \<and>
    recorded env app w' \<and> (\<forall>a. a = app \<or> map_of (w_states w') a = map_of (w_states w) a)"
  using ended_inner[of env w]
proof (cases rule: ended.cases)
  case (ended_failed v e)
  then show ?thesis
    by (auto simp: Let_def fail_deploy_facts same_run_def settled_def recorded_def context_fail_def update_conv'
        split: option.split)
next
  case (ended_completed v)
  then have s: "same_run (dx_app (w_ctx w)) w (finish_deploy env v)" by simp
  then show ?thesis using ended_completed
    by (auto simp: Let_def same_run_def settled_def recorded_def finish_deploy_def record_deploy_def update_conv'
        promoted_to_def)
qed

end
