(* ===== verification/Runtime.thy ===== *)
theory Runtime
  imports DeployFrame
begin

text \<open>
  The contract of the container runtime (the trait of \<open>runtime.rs\<close>), as the orchestrator relies on it,
  and a reference runtime that satisfies it.  The view of a runtime state is what it has been told:
  the containers started and not stopped since, the pods played and not torn down, and the ids of all
  containers ever started.  A creation that reports an error stops nothing (it may leave a started
  container behind), any other start or stop that reports an error has had no effect, and a removal
  that does may have stopped its container all the same.
\<close>

section \<open>The contract\<close>

record rt_view =
  rv_started :: "string set"
  rv_pods :: "string set"
  rv_issued :: "string set"

definition quiet_op :: "('r \<Rightarrow> rt_view) \<Rightarrow> ('r \<Rightarrow> 'r \<times> 'a) \<Rightarrow> bool" where
  "quiet_op view f \<longleftrightarrow> (\<forall>r. view (fst (f r)) = view r)"

definition runtime_documented :: "'r runtime_ops \<Rightarrow> ('r \<Rightarrow> rt_view) \<Rightarrow> bool" where
  "runtime_documented ops view \<longleftrightarrow>
     (\<forall>i t c. quiet_op view (ro_pull ops i t c)) \<and>
     (\<forall>i t p. quiet_op view (ro_extract ops i t p)) \<and>
     (\<forall>c p. quiet_op view (ro_inspect_port ops c p)) \<and>
     (\<forall>c. quiet_op view (ro_is_running ops c)) \<and>
     (\<forall>p c n. quiet_op view (ro_pod_port ops p c n)) \<and>
     (\<forall>spec r r' x. ro_create_and_start ops spec r = (r', x) \<longrightarrow>
        (case x of
           Inl _ \<Rightarrow> rv_pods (view r') = rv_pods (view r) \<and> rv_started (view r) \<subseteq> rv_started (view r') \<and>
             rv_issued (view r) \<subseteq> rv_issued (view r')
         | Inr (cid, _) \<Rightarrow> cid \<notin> rv_issued (view r) \<and>
             view r' = (view r)\<lparr>rv_started := insert cid (rv_started (view r)), rv_issued := insert cid (rv_issued (view r))\<rparr>)) \<and>
     (\<forall>c r r' x. ro_stop ops c r = (r', x) \<longrightarrow>
        view r' = (case x of Inl _ \<Rightarrow> view r | Inr _ \<Rightarrow> (view r)\<lparr>rv_started := rv_started (view r) - {c}\<rparr>)) \<and>
     (\<forall>c r r' x. ro_start ops c r = (r', x) \<longrightarrow>
        view r' = (case x of Inl _ \<Rightarrow> view r
          | Inr _ \<Rightarrow> (view r)\<lparr>rv_started := insert c (rv_started (view r)), rv_issued := insert c (rv_issued (view r))\<rparr>)) \<and>
     (\<forall>c r r' x. ro_stop_and_remove ops c r = (r', x) \<longrightarrow>
        view r' = (view r)\<lparr>rv_started := rv_started (view r) - {c}\<rparr> \<or> (\<not> is_ok x \<and> view r' = view r)) \<and>
     (\<forall>p n r r' x. ro_deploy_pod ops p n r = (r', x) \<longrightarrow>
        view r' = (case x of Inl _ \<Rightarrow> view r | Inr _ \<Rightarrow> (view r)\<lparr>rv_pods := insert p (rv_pods (view r))\<rparr>)) \<and>
     (\<forall>p r r' x. ro_teardown_pod ops p r = (r', x) \<longrightarrow>
        view r' = (view r)\<lparr>rv_pods := rv_pods (view r) - {p}\<rparr> \<or> (\<not> is_ok x \<and> view r' = view r))"

section \<open>A reference runtime\<close>

text \<open>Containers and pods as lists; \<open>rf_dead\<close> are the containers that have exited by themselves,
  \<open>rf_files\<close> the files of an image by path, and \<open>rf_faults\<close> scripts which of the next operations fail.\<close>

record ref_runtime =
  rf_next :: nat
  rf_started :: "string list"
  rf_dead :: "string list"
  rf_pods :: "string list"
  rf_files :: "(string \<times> string) list"
  rf_issued :: "string list"
  rf_faults :: "bool list"

definition rf_view :: "ref_runtime \<Rightarrow> rt_view" where
  "rf_view r = \<lparr>rv_started = set (rf_started r), rv_pods = set (rf_pods r), rv_issued = set (rf_issued r)\<rparr>"

definition rf_op ::
  "(ref_runtime \<Rightarrow> ref_runtime \<times> (runtime_error + 'a)) \<Rightarrow> ref_runtime \<Rightarrow> ref_runtime \<times> (runtime_error + 'a)" where
  "rf_op f r =
     (case rf_faults r of
        True # bs \<Rightarrow> (r\<lparr>rf_faults := bs\<rparr>, Inl RtContainerError)
      | False # bs \<Rightarrow> f (r\<lparr>rf_faults := bs\<rparr>)
      | [] \<Rightarrow> f r)"

definition rf_create :: "ref_runtime \<Rightarrow> ref_runtime \<times> (runtime_error + string \<times> nat)" where
  "rf_create r =
     (let cid = ''c'' @ show_nat (rf_next r) in
      if List.member (rf_issued r) cid then (r, Inl RtContainerError)
      else (r\<lparr>rf_next := rf_next r + 1, rf_started := cid # rf_started r, rf_issued := cid # rf_issued r\<rparr>,
            Inr (cid, 30000 + rf_next r)))"

definition ref_runtime_ops :: "ref_runtime runtime_ops" where
  "ref_runtime_ops =
     \<lparr>ro_pull = \<lambda>_ _ _ r. (r, Inr ()),
      ro_extract = \<lambda>_ _ p r. (r, Inr (map_of (rf_files r) p)),
      ro_create_and_start = \<lambda>_. rf_op rf_create,
      ro_stop = \<lambda>c. rf_op (\<lambda>r. (r\<lparr>rf_started := filter (\<lambda>d. d \<noteq> c) (rf_started r)\<rparr>, Inr ())),
      ro_start = \<lambda>c. rf_op (\<lambda>r. (r\<lparr>rf_started := c # rf_started r, rf_issued := c # rf_issued r\<rparr>, Inr ())),
      ro_inspect_port = \<lambda>_ _ r. (r, Inl RtContainerError),
      ro_stop_and_remove = \<lambda>c. rf_op (\<lambda>r. (r\<lparr>rf_started := filter (\<lambda>d. d \<noteq> c) (rf_started r)\<rparr>, Inr ())),
      ro_is_running = \<lambda>c r. (r, Inr (List.member (rf_started r) c \<and> \<not> List.member (rf_dead r) c)),
      ro_deploy_pod = \<lambda>p _. rf_op (\<lambda>r. (r\<lparr>rf_pods := p # rf_pods r\<rparr>, Inr ())),
      ro_teardown_pod = \<lambda>p. rf_op (\<lambda>r. (r\<lparr>rf_pods := filter (\<lambda>q. q \<noteq> p) (rf_pods r)\<rparr>, Inr ())),
      ro_pod_port = \<lambda>_ _ n r. (r, Inr (40000 + n))\<rparr>"

lemma rf_view_faults [simp]: "rf_view (r\<lparr>rf_faults := bs\<rparr>) = rf_view r"
  by (simp add: rf_view_def)

lemma rf_op_cases:
  assumes "rf_op f r = (r', x)"
  obtains e where "x = Inl e" "rf_view r' = rf_view r" | s where "f s = (r', x)" "rf_view s = rf_view r"
  using assms by (auto simp: rf_op_def split: list.splits bool.splits)

lemma rf_create_law:
  assumes "rf_create s = (r', x)"
  shows "case x of
     Inl _ \<Rightarrow> rf_view r' = rf_view s
   | Inr (cid, _) \<Rightarrow> cid \<notin> rv_issued (rf_view s) \<and>
       rf_view r' = (rf_view s)\<lparr>rv_started := insert cid (rv_started (rf_view s)), rv_issued := insert cid (rv_issued (rf_view s))\<rparr>"
  using assms by (auto simp: rf_create_def Let_def rf_view_def split: if_splits)

lemma ref_runtime_documented: "runtime_documented ref_runtime_ops rf_view"
proof -
  have create: "case x of Inl _ \<Rightarrow> rv_pods (rf_view r') = rv_pods (rf_view r) \<and>
       rv_started (rf_view r) \<subseteq> rv_started (rf_view r') \<and> rv_issued (rf_view r) \<subseteq> rv_issued (rf_view r') | Inr (cid, _) \<Rightarrow> cid \<notin> rv_issued (rf_view r) \<and>
       rf_view r' = (rf_view r)\<lparr>rv_started := insert cid (rv_started (rf_view r)), rv_issued := insert cid (rv_issued (rf_view r))\<rparr>"
    if "rf_op rf_create r = (r', x)" for r r' x
    using that
  proof (rule rf_op_cases)
    fix s assume s: "rf_create s = (r', x)" and v: "rf_view s = rf_view r"
    from rf_create_law[OF s] show ?thesis unfolding v by (cases x) auto
  qed simp
  show ?thesis
    unfolding runtime_documented_def quiet_op_def
    by (intro conjI allI impI)
      (auto simp: ref_runtime_ops_def create, auto elim!: rf_op_cases simp: rf_view_def)
qed

section \<open>The orchestrator on a documented runtime\<close>

definition unstatus :: "app_runtime_state \<Rightarrow> app_runtime_state" where
  "unstatus s = s\<lparr>as_status := StNotDeployed\<rparr>"

definition view_of :: "('r \<Rightarrow> rt_view) \<Rightarrow> ('r, 'p) world \<Rightarrow> rt_view" where
  "view_of view w = view (w_rt w)"

text \<open>The records differ in the status only.\<close>

definition kept :: "('r \<Rightarrow> rt_view) \<Rightarrow> ('r, 'p) world \<Rightarrow> ('r, 'p) world \<Rightarrow> bool" where
  "kept view w w' \<longleftrightarrow>
     rv_issued (view_of view w) \<subseteq> rv_issued (view_of view w') \<and>
     (\<forall>a. map_option unstatus (map_of (w_states w') a) = map_option unstatus (map_of (w_states w) a))"

text \<open>Besides, nothing that was started has been stopped and nothing was persisted.\<close>

definition untouched :: "('r \<Rightarrow> rt_view) \<Rightarrow> ('r, 'p) world \<Rightarrow> ('r, 'p) world \<Rightarrow> bool" where
  "untouched view w w' \<longleftrightarrow> kept view w w' \<and>
     rv_started (view_of view w) \<subseteq> rv_started (view_of view w') \<and>
     rv_pods (view_of view w) \<subseteq> rv_pods (view_of view w') \<and>
     w_dir w' = w_dir w \<and> set (w_manifests w) \<subseteq> set (w_manifests w')"

lemma kept_refl [simp]: "kept view w w" "untouched view w w"
  by (simp_all add: kept_def untouched_def)

lemma untouched_kept: "untouched view u w \<Longrightarrow> kept view u w"
  by (simp add: untouched_def)

lemma view_of_fields [simp]:
  "view_of view (w\<lparr>w_ctx := ctx\<rparr>) = view_of view w" "view_of view (w\<lparr>w_px := q\<rparr>) = view_of view w"
  "view_of view (w\<lparr>w_secrets := t\<rparr>) = view_of view w" "view_of view (w\<lparr>w_manifests := f\<rparr>) = view_of view w"
  "view_of view (w\<lparr>w_states := ss\<rparr>) = view_of view w"
  "view_of view (w\<lparr>w_rt := r\<rparr>) = view r"
  by (simp_all add: view_of_def)

lemma kept_fields [simp]:
  "kept view u (w\<lparr>w_ctx := ctx\<rparr>) = kept view u w" "kept view u (w\<lparr>w_px := q\<rparr>) = kept view u w"
  "kept view u (w\<lparr>w_secrets := t\<rparr>) = kept view u w" "kept view u (w\<lparr>w_manifests := f\<rparr>) = kept view u w"
  by (simp_all add: kept_def)

lemma untouched_fields [simp]:
  "untouched view u (w\<lparr>w_ctx := ctx\<rparr>) = untouched view u w" "untouched view u (w\<lparr>w_px := q\<rparr>) = untouched view u w"
  "untouched view u (w\<lparr>w_secrets := t\<rparr>) = untouched view u w"
  by (simp_all add: untouched_def)

lemma set_status_fields [simp]:
  "w_states (set_status s w) = w_states w" "w_rt (set_status s w) = w_rt w" "w_px (set_status s w) = w_px w"
  "w_dir (set_status s w) = w_dir w" "w_manifests (set_status s w) = w_manifests w"
  "w_ctx (set_status s w) = (w_ctx w)\<lparr>dx_status := s\<rparr>"
  by (simp_all add: set_status_def record_deploy_def)

lemma set_status_view [simp]:
  "view_of view (set_status s w) = view_of view w" "kept view u (set_status s w) = kept view u w"
  "untouched view u (set_status s w) = untouched view u w" "old_container app (set_status s w) = old_container app w"
  by (simp_all add: view_of_def kept_def untouched_def old_container_def)

lemma fail_deploy_view [simp]:
  "view_of view (fail_deploy env app e w) = view_of view w"
  "old_container app (fail_deploy env app e w) = old_container app w"
  by (auto simp: view_of_def old_container_def fail_deploy_def set_app_failed_def modify_state_def record_deploy_def
      update_conv' split: option.split)

lemma finish_deploy_view [simp]:
  "view_of view (finish_deploy env w) = view_of view w" "old_container app (finish_deploy env w) = old_container app w"
  "current_manifest app (finish_deploy env w) = current_manifest app w"
  by (simp_all add: view_of_def old_container_def current_manifest_def finish_deploy_def record_deploy_def)

lemma unstatus_simps [simp]:
  "as_current_container_id (unstatus s) = as_current_container_id s" "as_current_tag (unstatus s) = as_current_tag s"
  "as_current_manifest_path (unstatus s) = as_current_manifest_path s" "as_current_port (unstatus s) = as_current_port s"
  by (simp_all add: unstatus_def)

lemma unstatus_fields:
  assumes "map_option unstatus x = map_option unstatus y"
  shows "Option.bind x as_current_container_id = Option.bind y as_current_container_id \<and>
    Option.bind x as_current_tag = Option.bind y as_current_tag \<and>
    Option.bind x as_current_manifest_path = Option.bind y as_current_manifest_path \<and> (x = None \<longleftrightarrow> y = None)"
proof (cases x)
  case None
  then show ?thesis using assms by simp
next
  case (Some s)
  then obtain t where t: "y = Some t" "unstatus s = unstatus t" using assms by (cases y) simp_all
  show ?thesis
    using arg_cong[OF t(2), of as_current_container_id] arg_cong[OF t(2), of as_current_tag]
      arg_cong[OF t(2), of as_current_manifest_path]
    by (simp add: Some t(1))
qed

lemma kept_old:
  assumes "kept view u w"
  shows "old_container app w = old_container app u"
    and "Option.bind (map_of (w_states w) app) as_current_tag = Option.bind (map_of (w_states u) app) as_current_tag"
    and "current_manifest app w = current_manifest app u"
proof -
  have "map_option unstatus (map_of (w_states w) app) = map_option unstatus (map_of (w_states u) app)"
    using assms by (simp only: kept_def)
  from unstatus_fields[OF this]
  show "old_container app w = old_container app u"
    "Option.bind (map_of (w_states w) app) as_current_tag = Option.bind (map_of (w_states u) app) as_current_tag"
    "current_manifest app w = current_manifest app u"
    by (simp_all only: old_container_def current_manifest_def)
qed

locale container_runtime =
  fixes env :: "('r, 'p) deploy_env" and view :: "'r \<Rightarrow> rt_view"
  assumes documented: "runtime_documented (de_runtime env) view"
begin

lemma quiet_call:
  assumes "rt_call f w = (x, w1)" "quiet_op view f"
  shows "view_of view w1 = view_of view w" "kept view u w1 = kept view u w" "untouched view u w1 = untouched view u w"
    "w_ctx w1 = w_ctx w" "old_container app w1 = old_container app w"
proof -
  obtain r1 where r1: "w1 = w\<lparr>w_rt := r1\<rparr>" "f (w_rt w) = (r1, x)"
    using assms(1) by (auto simp: rt_call_def Let_def split: prod.splits)
  then have v: "view r1 = view (w_rt w)" using assms(2) by (metis quiet_op_def fst_conv)
  show "view_of view w1 = view_of view w" "kept view u w1 = kept view u w" "untouched view u w1 = untouched view u w"
    "w_ctx w1 = w_ctx w" "old_container app w1 = old_container app w"
    by (simp_all add: r1(1) v view_of_def kept_def untouched_def old_container_def)
qed

lemma quiet_ops:
  "quiet_op view (ro_pull (de_runtime env) i t c)" "quiet_op view (ro_extract (de_runtime env) i t p)"
  "quiet_op view (ro_inspect_port (de_runtime env) i n)" "quiet_op view (ro_is_running (de_runtime env) i)"
  "quiet_op view (ro_pod_port (de_runtime env) p i n)"
  using documented by (simp_all add: runtime_documented_def)

lemmas quiet_ctx = quiet_call(4)

lemma call_ctx: "rt_call f w = (x, w1) \<Longrightarrow> w_ctx w1 = w_ctx w" "rt_call f w = (x, w1) \<Longrightarrow> w_states w1 = w_states w"
  "rt_call f w = (x, w1) \<Longrightarrow> w_dir w1 = w_dir w" "rt_call f w = (x, w1) \<Longrightarrow> w_manifests w1 = w_manifests w"
  by (auto simp: rt_call_def Let_def split: prod.splits)

lemma create_call:
  assumes "rt_call (ro_create_and_start (de_runtime env) spec) w = (x, w1)"
  shows "case x of
      Inl _ \<Rightarrow> rv_pods (view_of view w1) = rv_pods (view_of view w) \<and>
        rv_started (view_of view w) \<subseteq> rv_started (view_of view w1) \<and> rv_issued (view_of view w) \<subseteq> rv_issued (view_of view w1)
    | Inr (cid, _) \<Rightarrow> cid \<notin> rv_issued (view_of view w) \<and>
        view_of view w1 = (view_of view w)\<lparr>rv_started := insert cid (rv_started (view_of view w)),
                                       rv_issued := insert cid (rv_issued (view_of view w))\<rparr>"
proof -
  obtain r1 where r1: "w1 = w\<lparr>w_rt := r1\<rparr>" "ro_create_and_start (de_runtime env) spec (w_rt w) = (r1, x)"
    using assms by (auto simp: rt_call_def Let_def split: prod.splits)
  then show ?thesis using documented unfolding runtime_documented_def view_of_def by simp
qed

lemma start_call:
  assumes "rt_call (ro_start (de_runtime env) c) w = (x, w1)"
  shows "view_of view w1 = (case x of Inl _ \<Rightarrow> view_of view w
    | Inr _ \<Rightarrow> (view_of view w)\<lparr>rv_started := insert c (rv_started (view_of view w)),
                              rv_issued := insert c (rv_issued (view_of view w))\<rparr>)"
proof -
  obtain r1 where r1: "w1 = w\<lparr>w_rt := r1\<rparr>" "ro_start (de_runtime env) c (w_rt w) = (r1, x)"
    using assms by (auto simp: rt_call_def Let_def split: prod.splits)
  then show ?thesis using documented unfolding runtime_documented_def view_of_def by simp
qed

lemma stop_call:
  assumes "rt_call (ro_stop (de_runtime env) c) w = (x, w1)"
  shows "view_of view w1 = (case x of Inl _ \<Rightarrow> view_of view w
    | Inr _ \<Rightarrow> (view_of view w)\<lparr>rv_started := rv_started (view_of view w) - {c}\<rparr>)"
proof -
  obtain r1 where r1: "w1 = w\<lparr>w_rt := r1\<rparr>" "ro_stop (de_runtime env) c (w_rt w) = (r1, x)"
    using assms by (auto simp: rt_call_def Let_def split: prod.splits)
  then show ?thesis using documented unfolding runtime_documented_def view_of_def by simp
qed

lemma deploy_pod_call:
  assumes "rt_call (ro_deploy_pod (de_runtime env) p n) w = (x, w1)"
  shows "view_of view w1 = (case x of Inl _ \<Rightarrow> view_of view w
    | Inr _ \<Rightarrow> (view_of view w)\<lparr>rv_pods := insert p (rv_pods (view_of view w))\<rparr>)"
proof -
  obtain r1 where r1: "w1 = w\<lparr>w_rt := r1\<rparr>" "ro_deploy_pod (de_runtime env) p n (w_rt w) = (r1, x)"
    using assms by (auto simp: rt_call_def Let_def split: prod.splits)
  then show ?thesis using documented unfolding runtime_documented_def view_of_def by simp
qed

text \<open>Removing stops at most the named container, tearing down at most the named pod.\<close>

lemma remove_frame:
  "rv_started (view_of view w) - set_option c \<subseteq> rv_started (view_of view (remove_container env c w))"
  "rv_pods (view_of view (remove_container env c w)) = rv_pods (view_of view w)"
  "rv_issued (view_of view (remove_container env c w)) = rv_issued (view_of view w)"
proof -
  have "rv_started (view_of view w) - set_option c \<subseteq> rv_started (view_of view (remove_container env c w)) \<and>
     rv_pods (view_of view (remove_container env c w)) = rv_pods (view_of view w) \<and>
     rv_issued (view_of view (remove_container env c w)) = rv_issued (view_of view w)"
  proof (cases c)
    case (Some i)
    obtain r1 x where r1: "ro_stop_and_remove (de_runtime env) i (w_rt w) = (r1, x)" by fastforce
    then have "view r1 = (view (w_rt w))\<lparr>rv_started := rv_started (view (w_rt w)) - {i}\<rparr> \<or> view r1 = view (w_rt w)"
      using documented unfolding runtime_documented_def by blast
    then show ?thesis using r1 Some by (auto simp: remove_container_def rt_call_def view_of_def)
  qed (simp add: remove_container_def)
  then show "rv_started (view_of view w) - set_option c \<subseteq> rv_started (view_of view (remove_container env c w))"
    "rv_pods (view_of view (remove_container env c w)) = rv_pods (view_of view w)"
    "rv_issued (view_of view (remove_container env c w)) = rv_issued (view_of view w)" by auto
qed

lemma remove_le: "rv_started (view_of view (remove_container env c w)) \<subseteq> rv_started (view_of view w)"
proof (cases c)
  case (Some i)
  obtain r1 x where r1: "ro_stop_and_remove (de_runtime env) i (w_rt w) = (r1, x)" by fastforce
  then have "view r1 = (view (w_rt w))\<lparr>rv_started := rv_started (view (w_rt w)) - {i}\<rparr> \<or> view r1 = view (w_rt w)"
    using documented unfolding runtime_documented_def by blast
  then show ?thesis using r1 Some by (auto simp: remove_container_def rt_call_def view_of_def)
qed (simp add: remove_container_def)

lemma teardown_frame:
  "rv_pods (view_of view w) - set_option p \<subseteq> rv_pods (view_of view (teardown env p w))"
  "rv_started (view_of view (teardown env p w)) = rv_started (view_of view w)"
  "rv_issued (view_of view (teardown env p w)) = rv_issued (view_of view w)"
proof -
  have "rv_pods (view_of view w) - set_option p \<subseteq> rv_pods (view_of view (teardown env p w)) \<and>
     rv_started (view_of view (teardown env p w)) = rv_started (view_of view w) \<and>
     rv_issued (view_of view (teardown env p w)) = rv_issued (view_of view w)"
  proof (cases p)
    case (Some i)
    obtain r1 x where r1: "ro_teardown_pod (de_runtime env) i (w_rt w) = (r1, x)" by fastforce
    then have "view r1 = (view (w_rt w))\<lparr>rv_pods := rv_pods (view (w_rt w)) - {i}\<rparr> \<or> view r1 = view (w_rt w)"
      using documented unfolding runtime_documented_def by blast
    then show ?thesis using r1 Some by (auto simp: teardown_def rt_call_def view_of_def)
  qed (simp add: teardown_def)
  then show "rv_pods (view_of view w) - set_option p \<subseteq> rv_pods (view_of view (teardown env p w))"
    "rv_started (view_of view (teardown env p w)) = rv_started (view_of view w)"
    "rv_issued (view_of view (teardown env p w)) = rv_issued (view_of view w)" by auto
qed

lemma remove_fields [simp]:
  "w_states (remove_container env c w) = w_states w" "w_dir (remove_container env c w) = w_dir w"
  "w_manifests (remove_container env c w) = w_manifests w" "w_ctx (remove_container env c w) = w_ctx w"
  "w_states (teardown env p w) = w_states w" "w_dir (teardown env p w) = w_dir w"
  "w_manifests (teardown env p w) = w_manifests w" "w_ctx (teardown env p w) = w_ctx w"
  using remove_container_rt[of env c w] teardown_rt[of env p w] by auto

lemma kept_remove [simp]:
  "kept view u (remove_container env c w) = kept view u w" "kept view u (teardown env p w) = kept view u w"
  by (simp_all add: kept_def remove_frame(3) teardown_frame(3))

lemma untouched_remove:
  assumes "untouched view u w"
  shows "c \<notin> rv_started (view_of view u) \<Longrightarrow> untouched view u (remove_container env (Some c) w)"
    and "p \<notin> rv_pods (view_of view u) \<Longrightarrow> untouched view u (teardown env (Some p) w)"
  using assms remove_frame[where w=w and c="Some c"] teardown_frame[where w=w and p="Some p"] by (auto simp: untouched_def)

end

end
