(* ===== verification/DeployProps.thy ===== *)
theory DeployProps
  imports Runtime
begin

text \<open>
  What a deploy guarantees on a documented runtime: a failing run leaves what was serving in place,
  whatever the strategy, unless it reports that the rollback failed; and where the code falls short
  of what its comments promise.
\<close>

section \<open>How a run leaves the runtime\<close>

text \<open>The runtime knows every id the records name, and every pod's manifest is on disk.\<close>

definition tracked :: "('r \<Rightarrow> rt_view) \<Rightarrow> string \<Rightarrow> ('r, 'p) world \<Rightarrow> bool" where
  "tracked view app w \<longleftrightarrow>
     rv_started (view_of view w) \<subseteq> rv_issued (view_of view w) \<and>
     set_option (old_container app w) \<subseteq> rv_issued (view_of view w) \<and>
     rv_pods (view_of view w) \<subseteq> fst ` set (w_manifests w) \<and>
     set_option (current_manifest app w) \<subseteq> fst ` set (w_manifests w)"

definition rollback_error :: "deploy_failure \<Rightarrow> bool" where
  "rollback_error e \<longleftrightarrow> e = DfRollbackTier1 \<or> e = DfRollbackTier2 \<or> e = DfRollbackFailed"

definition container_up :: "('r \<Rightarrow> rt_view) \<Rightarrow> string \<Rightarrow> ('r, 'p) world \<Rightarrow> bool" where
  "container_up view app w \<longleftrightarrow> (case old_container app w of Some c \<Rightarrow> c \<in> rv_started (view_of view w) | None \<Rightarrow> False)"

definition pod_up :: "('r \<Rightarrow> rt_view) \<Rightarrow> string \<Rightarrow> ('r, 'p) world \<Rightarrow> bool" where
  "pod_up view app w \<longleftrightarrow> (case current_manifest app w of Some p \<Rightarrow> p \<in> rv_pods (view_of view w) | None \<Rightarrow> False)"

inductive outcome :: "('r \<Rightarrow> rt_view) \<Rightarrow> string \<Rightarrow> ('r, 'p) world \<Rightarrow> ('r, 'p) deploy_env \<Rightarrow> ('r, 'p) world \<Rightarrow> bool"
  for view app u env where
  out_safe: "untouched view u w \<Longrightarrow> \<not> rollback_error e \<Longrightarrow> outcome view app u env (fail_deploy env app e w)"
| out_tier1: "container_up view app w \<Longrightarrow> outcome view app u env (fail_deploy env app DfRollbackTier1 w)"
| out_tier2: "container_up view app w \<Longrightarrow> outcome view app u env (fail_deploy env app DfRollbackTier2 w)"
| out_down: "dx_rollback_failed (w_ctx w) \<Longrightarrow> outcome view app u env (fail_deploy env app DfRollbackFailed w)"
| out_container: "container_up view app w \<Longrightarrow> outcome view app u env (finish_deploy env w)"
| out_pod: "pod_up view app w \<Longrightarrow> old_container app w = old_container app u \<Longrightarrow>
     rv_started (view_of view u) \<subseteq> rv_started (view_of view w) \<Longrightarrow> outcome view app u env (finish_deploy env w)"

lemma traffic_cases:
  "switch_traffic env cfg m app p b w = Inl (e, w1) \<Longrightarrow> \<exists>q. w1 = w\<lparr>w_px := q\<rparr>"
  "switch_traffic env cfg m app p b w = Inr w1 \<Longrightarrow> \<exists>q. w1 = promote env app m b p (w\<lparr>w_px := q\<rparr>)"
proof -
  have id: "w = w\<lparr>w_px := w_px w\<rparr>" by simp
  show "switch_traffic env cfg m app p b w = Inl (e, w1) \<Longrightarrow> \<exists>q. w1 = w\<lparr>w_px := q\<rparr>"
    "switch_traffic env cfg m app p b w = Inr w1 \<Longrightarrow> \<exists>q. w1 = promote env app m b p (w\<lparr>w_px := q\<rparr>)"
    by (auto simp: switch_traffic_def Let_def split: prod.splits sum.splits if_splits dest!: px_call_world;
        use id in metis)+
qed

lemma promote_view [simp]:
  "view_of view (promote env app m b p w) = view_of view w"
  "old_container app (promote env app m b p w) = dx_new_container_id (w_ctx w)"
  "w_ctx (promote env app m b p w) = w_ctx w"
  by (simp_all add: promote_def store_state_def view_of_def old_container_def promoted_state_def update_conv')

lemma promote_pod_view [simp]:
  "view_of view (promote_pod env app mc pod path ps w) = view_of view w"
  "old_container app (promote_pod env app mc pod path ps w) = old_container app w"
  "current_manifest app (promote_pod env app mc pod path ps w) = Some path"
  by (auto simp: promote_pod_def store_state_def view_of_def old_container_def current_manifest_def promoted_pod_def
      update_conv' state_or_default_def default_runtime_state_def split: option.split)

lemma up_finish [simp]:
  "container_up view app (finish_deploy env w) = container_up view app w"
  "pod_up view app (finish_deploy env w) = pod_up view app w"
  "dx_status (w_ctx (finish_deploy env w)) = DsCompleted"
  by (simp_all add: container_up_def pod_up_def finish_deploy_def record_deploy_def view_of_def old_container_def
      current_manifest_def split: option.split)

lemma untouched_modify_status [simp]:
  "untouched view u (modify_state app (\<lambda>s. s\<lparr>as_status := x\<rparr>) w) = untouched view u w"
proof (cases "map_of (w_states w) app")
  case (Some s)
  have "map_option unstatus (map_of (AList.update app (s\<lparr>as_status := x\<rparr>) (w_states w)) a)
      = map_option unstatus (map_of (w_states w) a)" for a
    using Some by (simp add: update_conv' unstatus_def)
  then show ?thesis by (simp add: modify_state_def Some untouched_def kept_def view_of_def)
qed (simp add: modify_state_def)

context container_runtime
begin

lemma started_outcome:
  assumes "start_container env cfg m vars app b w = Inr (cid, p, w1)" "kept view u w"
  shows "kept view u w1" "cid \<notin> rv_issued (view_of view u)" "cid \<in> rv_started (view_of view w1)"
    "dx_new_container_id (w_ctx w1) = Some cid" "untouched view u w \<Longrightarrow> untouched view u w1"
proof -
  define w' where "w' = set_status DsStarting w"
  define spec where "spec = container_spec w' cfg (deploy_volumes m) vars app (dx_tag (w_ctx w')) (if b then 0 else routing_port cfg)"
  obtain x w2 where x: "rt_call (ro_create_and_start (de_runtime env) spec) w' = (x, w2)" by fastforce
  have xi: "x = Inr (cid, p)" and w1: "w1 = set_status DsHealthChecking (set_new_container cid p b w2)"
    using assms(1) x by (auto simp: start_container_def Let_def w'_def[symmetric] spec_def[symmetric] split: sum.splits)
  have k: "kept view u w'" "untouched view u w \<Longrightarrow> untouched view u w'" using assms(2) by (simp_all add: w'_def)
  have v: "cid \<notin> rv_issued (view_of view w')"
    "view_of view w2 = (view_of view w')\<lparr>rv_started := insert cid (rv_started (view_of view w')),
                                   rv_issued := insert cid (rv_issued (view_of view w'))\<rparr>"
    using create_call[OF x] by (simp_all add: xi)
  have st: "w_states w2 = w_states w'" "w_dir w2 = w_dir w'" "w_manifests w2 = w_manifests w'"
    using call_ctx[OF x] by simp_all
  have vw: "view_of view w1 = view_of view w2" "w_states w1 = w_states w2" "w_dir w1 = w_dir w2" "w_manifests w1 = w_manifests w2"
    by (simp_all add: w1 set_new_container_def)
  show "kept view u w1" "untouched view u w \<Longrightarrow> untouched view u w1"
    using k v(2) by (auto simp: untouched_def kept_def vw st)
  show "cid \<notin> rv_issued (view_of view u)" using k(1) v(1) by (auto simp: kept_def)
  show "cid \<in> rv_started (view_of view w1)" "dx_new_container_id (w_ctx w1) = Some cid"
    using v(2) vw(1) by (simp_all add: w1 set_new_container_def)
qed

lemma started_view:
  assumes "start_container env cfg m vars app b w = Inr (cid, p, w1)"
  shows "rv_started (view_of view w1) = insert cid (rv_started (view_of view w))"
proof -
  define w' where "w' = set_status DsStarting w"
  define spec where "spec = container_spec w' cfg (deploy_volumes m) vars app (dx_tag (w_ctx w')) (if b then 0 else routing_port cfg)"
  obtain x w2 where x: "rt_call (ro_create_and_start (de_runtime env) spec) w' = (x, w2)" by fastforce
  have xi: "x = Inr (cid, p)" and w1: "w1 = set_status DsHealthChecking (set_new_container cid p b w2)"
    using assms(1) x by (auto simp: start_container_def Let_def w'_def[symmetric] spec_def[symmetric] split: sum.splits)
  have "view_of view w1 = view_of view w2" by (simp add: w1 set_new_container_def)
  then show ?thesis using create_call[OF x] by (simp add: xi w'_def)
qed

lemma start_failed_outcome:
  assumes "start_container env cfg m vars app b w = Inl w1"
  shows "kept view u w \<Longrightarrow> kept view u w1" "untouched view u w \<Longrightarrow> untouched view u w1"
proof -
  define w' where "w' = set_status DsStarting w"
  define spec where "spec = container_spec w' cfg (deploy_volumes m) vars app (dx_tag (w_ctx w')) (if b then 0 else routing_port cfg)"
  obtain x w2 where x: "rt_call (ro_create_and_start (de_runtime env) spec) w' = (x, w2)" by fastforce
  have xi: "\<exists>e. x = Inl e" and w1: "w1 = w2"
    using assms(1) x by (auto simp: start_container_def Let_def w'_def[symmetric] spec_def[symmetric] split: sum.splits)
  obtain e where "x = Inl e" using xi ..
  then have v: "rv_pods (view_of view w2) = rv_pods (view_of view w')" "rv_started (view_of view w') \<subseteq> rv_started (view_of view w2)"
    "rv_issued (view_of view w') \<subseteq> rv_issued (view_of view w2)"
    using create_call[OF x] by auto
  have st: "w_states w2 = w_states w'" "w_dir w2 = w_dir w'" "w_manifests w2 = w_manifests w'"
    using call_ctx[OF x] by simp_all
  have "kept view u w' \<Longrightarrow> kept view u w1" "untouched view u w' \<Longrightarrow> untouched view u w1"
    using v st by (auto simp: w1 kept_def untouched_def)
  then show "kept view u w \<Longrightarrow> kept view u w1" "untouched view u w \<Longrightarrow> untouched view u w1"
    by (simp_all add: w'_def)
qed

lemma verify_outcome:
  assumes "verify_new_container env cfg cid p b w = (v, w1)"
  shows "v = Inr () \<Longrightarrow> view_of view w1 = view_of view w \<and> w_ctx w1 = w_ctx w"
    and "untouched view u w \<Longrightarrow> cid \<notin> rv_started (view_of view u) \<Longrightarrow> untouched view u w1"
proof -
  obtain y w2 where y: "rt_call (ro_is_running (de_runtime env) cid) w = (y, w2)" by fastforce
  note q = quiet_call[OF y quiet_ops(4)]
  show "v = Inr () \<Longrightarrow> view_of view w1 = view_of view w \<and> w_ctx w1 = w_ctx w"
    using assms q(1,4) by (auto simp: verify_new_container_def y split: if_splits sum.splits bool.splits)
  show "untouched view u w \<Longrightarrow> cid \<notin> rv_started (view_of view u) \<Longrightarrow> untouched view u w1"
    using assms q(3)[of u] untouched_remove(1)[of u w cid]
    by (auto simp: verify_new_container_def y split: if_splits sum.splits bool.splits)
qed

lemma switch_outcome:
  assumes "tracked view app u" "untouched view u w" "cid \<notin> rv_issued (view_of view u)"
    "cid \<in> rv_started (view_of view w)" "dx_new_container_id (w_ctx w) = Some cid"
  shows "outcome view app u env (switch_container env cfg m app cid p b w)"
proof -
  define w' where "w' = set_status DsSwitching w"
  have old: "old_container app w' = old_container app u"
    using kept_old(1)[OF untouched_kept[OF assms(2)]] by (simp add: w'_def)
  have fresh: "cid \<notin> rv_started (view_of view u)" "old_container app u \<noteq> Some cid"
    using assms(1,3) by (auto simp: tracked_def)
  show ?thesis
  proof (cases "switch_traffic env cfg m app p b w'")
    case (Inl a)
    obtain e w1 where a: "a = (e, w1)" by fastforce
    from traffic_cases(1)[OF Inl[unfolded a]] assms(2) have "untouched view u w1" by (auto simp: w'_def)
    from untouched_remove(1)[OF this fresh(1)] show ?thesis
      by (simp add: switch_container_def Let_def w'_def[symmetric] Inl a out_safe rollback_error_def)
  next
    case (Inr w1)
    from traffic_cases(2)[OF Inr] have w1: "old_container app w1 = Some cid" "view_of view w1 = view_of view w"
      using assms(5) by (auto simp: w'_def)
    have "container_up view app (remove_container env (old_container app u) w1)"
      using remove_frame(1)[of w1 "old_container app u"] w1 assms(4) fresh(2)
      by (auto simp: container_up_def old_container_def)
    then show ?thesis by (simp add: switch_container_def Let_def w'_def[symmetric] Inr old out_container)
  qed
qed

lemma blue_green_outcome:
  assumes "tracked view app u" "untouched view u w"
  shows "outcome view app u env (blue_green_container env cfg m vars app b w)"
proof (cases "start_container env cfg m vars app b w")
  case (Inl w1)
  then show ?thesis using assms(2) start_failed_outcome(2)[OF Inl]
    by (simp add: blue_green_container_def out_safe rollback_error_def)
next
  case (Inr a)
  obtain cid p w1 where a: "a = (cid, p, w1)" by (cases a) auto
  note st = started_outcome[OF Inr[unfolded a] untouched_kept[OF assms(2)]]
  have fresh: "cid \<notin> rv_started (view_of view u)" using assms(1) st(2) by (auto simp: tracked_def)
  let ?p = "if b then 0 else p"
  obtain v w2 where v: "verify_new_container env cfg cid ?p b w1 = (v, w2)" by fastforce
  have u2: "untouched view u w2" using verify_outcome(2)[OF v st(5)[OF assms(2)] fresh] .
  show ?thesis
  proof (cases v)
    case (Inl e)
    have "\<not> rollback_error e"
      using v Inl by (auto simp: verify_new_container_def rollback_error_def split: if_splits sum.splits bool.splits prod.splits)
    then show ?thesis using u2 by (simp add: blue_green_container_def Inr a v Inl out_safe)
  next
    case (Inr r)
    note ok = verify_outcome(1)[OF v] Inr
    have "outcome view app u env (switch_container env cfg m app cid ?p b w2)"
      by (rule switch_outcome[OF assms(1) u2 st(2)]) (use ok st(3,4) in auto)
    then show ?thesis using Inr \<open>start_container _ _ _ _ _ _ _ = Inr a\<close> by (simp add: blue_green_container_def a v)
  qed
qed

text \<open>Recreate.\<close>

lemma recreate_stop_outcome:
  assumes "tracked view app u" "untouched view u w" "recreate_stop env app old w = y"
  shows "y = Inl w1 \<Longrightarrow> outcome view app u env w1" "y = Inr w1 \<Longrightarrow> kept view u w1"
proof -
  obtain x w2 where x: "(case old of None \<Rightarrow> (Inr (), w)
      | Some old_id \<Rightarrow> rt_call (ro_stop (de_runtime env) old_id) (set_status DsStoppingOld w)) = (x, w2)" by fastforce
  have y: "y = (case x of Inl _ \<Rightarrow> Inl (fail_deploy env app DfContainerStop w2)
      | Inr _ \<Rightarrow> Inr (snd (px_call (de_remove_route env app) (set_status DsRemovingRoute w2))))"
    using assms(3) x by (simp add: recreate_stop_def)
  have w2: "kept view u w2" "\<not> is_ok x \<Longrightarrow> untouched view u w2"
  proof -
    have "kept view u w2 \<and> (\<not> is_ok x \<longrightarrow> untouched view u w2)"
    proof (cases old)
      case None
      then show ?thesis using x assms(2) untouched_kept by auto
    next
      case (Some i)
      then have c: "rt_call (ro_stop (de_runtime env) i) (set_status DsStoppingOld w) = (x, w2)" using x by simp
      show ?thesis
        using stop_call[OF c] call_ctx[OF c] assms(2)
        by (cases x) (auto simp: kept_def untouched_def)
    qed
    then show "kept view u w2" "\<not> is_ok x \<Longrightarrow> untouched view u w2" by auto
  qed
  show "y = Inl w1 \<Longrightarrow> outcome view app u env w1"
    using w2(2) by (cases x) (auto simp: y intro!: out_safe simp: rollback_error_def)
  obtain q where q: "snd (px_call (de_remove_route env app) (set_status DsRemovingRoute w2)) = (set_status DsRemovingRoute w2)\<lparr>w_px := q\<rparr>"
    using snd_px_call[of "de_remove_route env app" "set_status DsRemovingRoute w2"] by blast
  show "y = Inr w1 \<Longrightarrow> kept view u w1"
    using w2(1) by (cases x) (auto simp: y q)
qed

lemma healthy_outcome:
  assumes "recreate_healthy env cfg cid p b w = (h, w1)"
  shows "view_of view w1 = view_of view w" "kept view u w1 = kept view u w" "w_ctx w1 = w_ctx w"
proof -
  obtain y w2 where y: "rt_call (ro_is_running (de_runtime env) cid) w = (y, w2)" by fastforce
  have "w1 = w2" using assms by (auto simp: recreate_healthy_def y split: if_splits)
  then show "view_of view w1 = view_of view w" "kept view u w1 = kept view u w" "w_ctx w1 = w_ctx w"
    using quiet_call[OF y quiet_ops(4)] by simp_all
qed

lemma restore_view [simp]:
  "view_of view (restore_routes env cfg app p w) = view_of view w"
  "w_states (restore_routes env cfg app p w) = w_states w"
  "old_container app (restore_routes env cfg app p w) = old_container app w"
proof -
  obtain q where "restore_routes env cfg app p w = w\<lparr>w_px := q\<rparr>" using restore_routes_px[of env cfg app p w] by blast
  then show "view_of view (restore_routes env cfg app p w) = view_of view w"
    "w_states (restore_routes env cfg app p w) = w_states w"
    "old_container app (restore_routes env cfg app p w) = old_container app w"
    by (simp_all add: old_container_def)
qed

lemma rollback_failed_outcome: "outcome view app u env (rollback_failed env app w)"
  by (simp add: rollback_failed_def out_down)

lemma tier2_outcome:
  assumes "kept view u w" "tag = Option.bind (map_of (w_states u) app) as_current_tag"
  shows "outcome view app u env (rollback_tier2 env cfg vs vars app tag w)"
proof (cases tag)
  case None
  then show ?thesis by (simp add: rollback_tier2_def rollback_failed_outcome)
next
  case (Some t)
  obtain x w1 where x: "rt_call (ro_create_and_start (de_runtime env) (container_spec w cfg vs vars app t (routing_port cfg))) w = (x, w1)"
    by fastforce
  show ?thesis
  proof (cases x)
    case (Inl e)
    then show ?thesis by (simp add: rollback_tier2_def Some x rollback_failed_outcome)
  next
    case (Inr a)
    obtain fid fport where a: "a = (fid, fport)" by fastforce
    have st: "fid \<in> rv_started (view_of view w1)" using create_call[OF x] by (simp add: Inr a)
    have "map_of (w_states u) app \<noteq> None" using assms(2) Some by (cases "map_of (w_states u) app") auto
    then have "map_of (w_states w) app \<noteq> None"
      using assms(1) unfolding kept_def by (metis map_option_is_None)
    then obtain s where s: "map_of (w_states w1) app = Some s" using call_ctx(2)[OF x] by auto
    define w2 where "w2 = modify_state app
        (\<lambda>s. s\<lparr>as_current_container_id := Some fid, as_current_port := Some fport, as_current_tag := Some t\<rparr>)
        (restore_routes env cfg app fport w1)"
    have "container_up view app w2"
      using st s by (simp add: w2_def modify_state_def container_up_def old_container_def update_conv')
    then show ?thesis
      by (simp add: rollback_tier2_def Some x Inr a w2_def[symmetric] out_tier2 rollback_failed_outcome)
  qed
qed

lemma rollback_outcome:
  assumes "kept view u w" "old = old_container app u" "tag = Option.bind (map_of (w_states u) app) as_current_tag"
  shows "outcome view app u env (rollback_recreate env cfg vs vars app old tag w)"
proof (cases old)
  case None
  then show ?thesis using tier2_outcome[OF assms(1,3)] by (simp add: rollback_recreate_def Let_def)
next
  case (Some c)
  obtain x w1 where x: "rt_call (ro_start (de_runtime env) c) (set_status DsRestartingOld w) = (x, w1)" by fastforce
  have k: "kept view u w1"
    using start_call[OF x] call_ctx[OF x] assms(1) by (auto simp: kept_def split: sum.splits)
  show ?thesis
  proof (cases x)
    case (Inl e)
    then show ?thesis using tier2_outcome[OF k assms(3)] by (simp add: rollback_recreate_def Let_def Some x)
  next
    case (Inr r)
    obtain y w2 where y: "rt_call (ro_inspect_port (de_runtime env) c (routing_port cfg)) w1 = (y, w2)" by fastforce
    note q = quiet_call[OF y quiet_ops(3)]
    have "old_container app w2 = Some c" using kept_old(1)[OF k] q(5)[of app] assms(2) Some by simp
    then have "container_up view app (restore_routes env cfg app p w2)" for p
      using start_call[OF x] q(1) by (simp add: container_up_def Inr)
    then show ?thesis by (simp add: rollback_recreate_def Let_def Some x Inr y out_tier1)
  qed
qed

lemma recreate_switch_outcome:
  assumes "tracked view app u" "kept view u w" "cid \<notin> rv_issued (view_of view u)"
    "cid \<in> rv_started (view_of view w)" "dx_new_container_id (w_ctx w) = Some cid"
    "old = old_container app u" "tag = Option.bind (map_of (w_states u) app) as_current_tag"
  shows "outcome view app u env (recreate_switch env cfg m vars app old tag cid p b w)"
proof (cases "switch_traffic env cfg m app p b (set_status DsSwitching w)")
  case (Inl a)
  obtain e w1 where a: "a = (e, w1)" by fastforce
  have "kept view u (remove_container env (Some cid) w1)"
    using traffic_cases(1)[OF Inl[unfolded a]] assms(2) by auto
  from rollback_outcome[OF this assms(6,7)] show ?thesis by (simp add: recreate_switch_def Inl a)
next
  case (Inr w1)
  from traffic_cases(2)[OF Inr] have w1: "old_container app w1 = Some cid" "view_of view w1 = view_of view w"
    using assms(5) by auto
  have "container_up view app (remove_container env old w1)"
    using remove_frame(1)[of w1 old] w1 assms(1,3,4,6)
    by (auto simp: container_up_def old_container_def tracked_def)
  then show ?thesis by (simp add: recreate_switch_def Inr out_container)
qed

lemma recreate_outcome:
  assumes "tracked view app u" "untouched view u w"
  shows "outcome view app u env (recreate_container env cfg m vars app b w)"
proof -
  define old where "old = old_container app w"
  define tag where "tag = Option.bind (map_of (w_states w) app) as_current_tag"
  have ot: "old = old_container app u" "tag = Option.bind (map_of (w_states u) app) as_current_tag"
    using kept_old[OF untouched_kept[OF assms(2)]] by (simp_all add: old_def tag_def)
  note unfold = recreate_container_def Let_def old_def[symmetric] tag_def[symmetric]
  show ?thesis
  proof (cases "recreate_stop env app old w")
    case (Inl w1)
    then show ?thesis using recreate_stop_outcome(1)[OF assms Inl] by (simp add: unfold)
  next
    case (Inr w1)
    have k1: "kept view u w1" using recreate_stop_outcome(2)[OF assms Inr] by simp
    note stop = Inr
    show ?thesis
    proof (cases "start_container env cfg m vars app b w1")
      case (Inl w2)
      have "kept view u w2" using start_failed_outcome(1)[OF Inl] k1 by simp
      from rollback_outcome[OF this ot] show ?thesis by (simp add: unfold stop Inl)
    next
      case (Inr a)
      obtain cid p w2 where a: "a = (cid, p, w2)" by (cases a) auto
      note st = started_outcome[OF Inr[unfolded a] k1]
      obtain h w3 where h: "recreate_healthy env cfg cid p b w2 = (h, w3)" by fastforce
      note hl = healthy_outcome[OF h]
      have k3: "kept view u w3" using hl(2) st(1) by simp
      have "outcome view app u env (recreate_switch env cfg m vars app old tag cid p b w3)"
        by (rule recreate_switch_outcome[OF assms(1) k3 st(2) _ _ ot]) (use hl st in simp_all)
      moreover have "outcome view app u env (rollback_recreate env cfg (deploy_volumes m) vars app old tag
          (remove_container env (Some cid) w3))"
        by (rule rollback_outcome[OF _ ot]) (use k3 in simp)
      ultimately show ?thesis by (simp add: unfold stop Inr a h)
    qed
  qed
qed

text \<open>Pods.\<close>

lemma prepare_outcome:
  assumes "prepare_manifest env cfg m vars app w = (x, w1)" "untouched view u w"
  shows "untouched view u w1" "x = Inr path \<Longrightarrow> path \<notin> fst ` set (w_manifests w)"
    "x = Inl e \<Longrightarrow> \<not> rollback_error e"
proof -
  have "untouched view u w1 \<and> (\<forall>path. x = Inr path \<longrightarrow> path \<notin> fst ` set (w_manifests w)) \<and> (\<forall>e. x = Inl e \<longrightarrow> \<not> rollback_error e)"
  proof (cases "mc_manifest m")
    case None
    then show ?thesis using assms by (auto simp: prepare_manifest_def rollback_error_def)
  next
    case (Some p)
    obtain y w2 where y: "rt_call (ro_extract (de_runtime env) (dx_image (w_ctx w)) (dx_tag (w_ctx w)) p) w = (y, w2)"
      by fastforce
    note q = quiet_call(3)[OF y quiet_ops(2), of u]
    have mf: "w_manifests w2 = w_manifests w" using call_ctx(4)[OF y] .
    have u2: "untouched view u w2" using q assms(2) by simp
    then have add: "untouched view u (w2\<lparr>w_manifests := f # w_manifests w2\<rparr>)" for f
      by (auto simp: untouched_def)
    have wr: "untouched view u w3 \<and> (z = Inr () \<longrightarrow> pa \<notin> fst ` set (w_manifests w)) \<and> (z = Inl e \<longrightarrow> \<not> rollback_error e)"
      if "write_manifest env pa c w2 = (z, w3)" for pa c z w3 e
      using that u2 add[of "(pa, c)"] mf
      by (auto simp: write_manifest_def map_of_eq_None_iff rollback_error_def split: if_splits)
    show ?thesis
      using assms q Some y
      by (auto simp: prepare_manifest_def Let_def rollback_error_def dest!: wr
          split: sum.splits option.splits prod.splits)
  qed
  then show "untouched view u w1" "x = Inr path \<Longrightarrow> path \<notin> fst ` set (w_manifests w)"
    "x = Inl e \<Longrightarrow> \<not> rollback_error e" by auto
qed

lemma start_pod_outcome:
  assumes "tracked view app u" "untouched view u w" "start_pod env cfg m vars app w = (x, w1)"
  shows "untouched view u w1" "x = Inr path \<Longrightarrow> path \<notin> fst ` set (w_manifests u) \<and> path \<in> rv_pods (view_of view w1)"
    "x = Inl e \<Longrightarrow> \<not> rollback_error e"
proof -
  obtain y w2 where y: "prepare_manifest env cfg m vars app (set_status DsStarting w) = (y, w2)" by fastforce
  note p = prepare_outcome[OF y, of u]
  have u2: "untouched view u w2" using p(1) assms(2) by simp
  have "untouched view u w1 \<and> (\<forall>path. x = Inr path \<longrightarrow> path \<notin> fst ` set (w_manifests u) \<and> path \<in> rv_pods (view_of view w1))
      \<and> (\<forall>e. x = Inl e \<longrightarrow> \<not> rollback_error e)"
  proof (cases y)
    case (Inl e)
    then show ?thesis using assms(2,3) y u2 p(3) by (auto simp: start_pod_def)
  next
    case (Inr path)
    have fresh: "path \<notin> fst ` set (w_manifests u)"
      using p(2)[OF _ Inr] assms(2) by (auto simp: untouched_def)
    obtain z w3 where z: "rt_call (ro_deploy_pod (de_runtime env) path (pod_name env app)) w2 = (z, w3)" by fastforce
    note v = deploy_pod_call[OF z]
    have u3: "untouched view u w3" using u2 v call_ctx[OF z] by (auto simp: untouched_def kept_def split: sum.splits)
    show ?thesis
    proof (cases z)
      case (Inl e)
      then show ?thesis using assms(3) y z u3 \<open>y = Inr path\<close> by (auto simp: start_pod_def rollback_error_def)
    next
      case (Inr r)
      then show ?thesis using assms(3) y z u3 v fresh \<open>y = Inr path\<close> by (auto simp: start_pod_def)
    qed
  qed
  then show "untouched view u w1" "x = Inr path \<Longrightarrow> path \<notin> fst ` set (w_manifests u) \<and> path \<in> rv_pods (view_of view w1)"
    "x = Inl e \<Longrightarrow> \<not> rollback_error e" by auto
qed

lemma check_route_outcome:
  "view_of view (snd (check_pod_route env cfg pod r acc)) = view_of view (snd acc) \<and>
   untouched view u (snd (check_pod_route env cfg pod r acc)) = untouched view u (snd acc)"
proof -
  obtain k w where acc: "acc = (k, w)" by fastforce
  obtain y w1 where y: "rt_call (ro_is_running (de_runtime env) (pod @ ''-'' @ route_container r)) w = (y, w1)" by fastforce
  obtain z w2 where z: "rt_call (ro_pod_port (de_runtime env) pod (route_container r) (mr_port r)) w = (z, w2)" by fastforce
  show ?thesis
    using quiet_call(1,3)[OF y quiet_ops(4)] quiet_call(1,3)[OF z quiet_ops(5)]
    by (simp add: check_pod_route_def acc y[simplified] z split: sum.split)
qed

lemma check_pod_outcome:
  assumes "check_pod env cfg pod rs w = (k, w1)"
  shows "view_of view w1 = view_of view w" "untouched view u w1 = untouched view u w"
proof -
  have "view_of view (snd (fold (check_pod_route env cfg pod) rs acc)) = view_of view (snd acc) \<and>
      untouched view u (snd (fold (check_pod_route env cfg pod) rs acc)) = untouched view u (snd acc)" for acc
    by (induction rs arbitrary: acc) (simp_all add: check_route_outcome)
  from this[of "(\<lparr>pk_ports = [], pk_failed = False, pk_error = None\<rparr>, w)"]
  show "view_of view w1 = view_of view w" "untouched view u w1 = untouched view u w"
    using assms by (simp_all add: check_pod_def)
qed

lemma switch_pod_outcome:
  assumes "tracked view app u" "untouched view u w" "path \<notin> fst ` set (w_manifests u)" "path \<in> rv_pods (view_of view w)"
  shows "outcome view app u env (switch_pod env m app pod path ports w)"
proof -
  define w' where "w' = set_status DsSwitching (w\<lparr>w_ctx := (w_ctx w)\<lparr>dx_new_port := (case ports of [] \<Rightarrow> None | p # _ \<Rightarrow> Some (snd p))\<rparr>\<rparr>)"
  have k: "untouched view u w'" using assms(2) by (simp add: w'_def)
  have old: "current_manifest app w' = current_manifest app u" using kept_old(3)[OF untouched_kept[OF k]] .
  obtain x w1 where x: "(if ports = [] then (Inr (), w')
      else px_call (de_set_routes env app (map (\<lambda>(h, p). \<lparr>route_hostname = h, route_port = p\<rparr>) ports)) w') = (x, w1)" by fastforce
  have "\<exists>q. w1 = w'\<lparr>w_px := q\<rparr>"
  proof (cases "ports = []")
    case True
    then have "w1 = w'\<lparr>w_px := w_px w'\<rparr>" using x by simp
    then show ?thesis by blast
  qed (use x in \<open>auto dest: px_call_world\<close>)
  then obtain q where w1: "w1 = w'\<lparr>w_px := q\<rparr>" by blast
  have u1: "untouched view u w1" "view_of view w1 = view_of view w" using k by (simp_all add: w1) (simp add: w'_def)
  have eq: "switch_pod env m app pod path ports w = (case x of
      Inl e \<Rightarrow> fail_deploy env app (DfPodRouteUpdate e) (teardown env (Some path) w1)
    | Inr _ \<Rightarrow> finish_deploy env (teardown env (current_manifest app u) (promote_pod env app m pod path ports w1)))"
    unfolding switch_pod_def w'_def[symmetric] Let_def x prod.case old ..
  show ?thesis
  proof (cases x)
    case (Inl e)
    have "path \<notin> rv_pods (view_of view u)" using assms(1,3) by (auto simp: tracked_def)
    from untouched_remove(2)[OF u1(1) this] show ?thesis by (simp add: eq Inl out_safe rollback_error_def)
  next
    case (Inr r)
    let ?w = "teardown env (current_manifest app u) (promote_pod env app m pod path ports w1)"
    have "current_manifest app u \<noteq> Some path" using assms(1,3) by (auto simp: tracked_def)
    then have "pod_up view app ?w"
      using teardown_frame(1)[of "promote_pod env app m pod path ports w1" "current_manifest app u"] assms(4) u1(2)
      by (auto simp: pod_up_def current_manifest_def[of app ?w] current_manifest_def[symmetric])
    moreover have "old_container app ?w = old_container app u"
      using kept_old(1)[OF untouched_kept[OF u1(1)], of app]
      by (simp add: old_container_def[of app ?w] old_container_def[symmetric])
    moreover have "rv_started (view_of view u) \<subseteq> rv_started (view_of view ?w)"
      using u1(1) teardown_frame(2)[of "current_manifest app u" "promote_pod env app m pod path ports w1"]
      by (auto simp: untouched_def)
    ultimately show ?thesis by (simp add: eq Inr out_pod)
  qed
qed

lemma pod_outcome:
  assumes "tracked view app u" "untouched view u w"
  shows "outcome view app u env (blue_green_pod env cfg m vars app False w)"
proof -
  obtain x w1 where x: "start_pod env cfg m vars app w = (x, w1)" by fastforce
  note st = start_pod_outcome[OF assms x]
  show ?thesis
  proof (cases x)
    case (Inl e)
    then show ?thesis using st by (simp add: blue_green_pod_def x out_safe)
  next
    case (Inr path)
    have p: "path \<notin> fst ` set (w_manifests u)" "path \<in> rv_pods (view_of view w1)" using st(2)[OF Inr] by simp_all
    obtain k w2 where k: "check_pod env cfg (pod_name env app) (mc_routes m) w1 = (k, w2)" by fastforce
    note c = check_pod_outcome[OF k]
    have u2: "untouched view u w2" using c(2)[of u] st(1) by simp
    have "path \<notin> rv_pods (view_of view u)" using assms(1) p(1) by (auto simp: tracked_def)
    from untouched_remove(2)[OF u2 this]
    have f: "outcome view app u env (fail_deploy env app (pod_failure k) (teardown env (Some path) w2))"
      by (auto simp: pod_failure_def rollback_error_def intro!: out_safe split: option.split)
    have s: "outcome view app u env (switch_pod env m app (pod_name env app) path (pk_ports k) w2)"
      by (rule switch_pod_outcome[OF assms(1) u2 p(1)]) (use p(2) c(1) in simp)
    show ?thesis using f s by (simp add: blue_green_pod_def x Inr k)
  qed
qed

text \<open>The whole run.\<close>

lemma pull_ref_outcome: "pull_ref env img tag r w = (x, w1) \<Longrightarrow> untouched view u w1 = untouched view u w"
  unfolding pull_ref_def by (rule quiet_call(3)[OF _ quiet_ops(1)])

lemma sidecars_outcome:
  "pull_sidecars env xs w = (x, w1) \<Longrightarrow>
     untouched view u w1 = untouched view u w \<and> (\<forall>e. x = Inl e \<longrightarrow> \<not> rollback_error e)"
proof (induction xs arbitrary: w)
  case (Cons cr rest)
  obtain c r where cr: "cr = (c, r)" by fastforce
  obtain img tag where i: "parse_image_ref r = (img, tag)" by fastforce
  obtain y w2 where y: "pull_ref env img tag r w = (y, w2)" by fastforce
  show ?case
  proof (cases y)
    case (Inl e)
    then show ?thesis using Cons.prems pull_ref_outcome[OF y] by (auto simp: cr i y rollback_error_def)
  next
    case (Inr a)
    then have "pull_sidecars env rest w2 = (x, w1)" using Cons.prems by (simp add: cr i y)
    from Cons.IH[OF this] pull_ref_outcome[OF y] show ?thesis by simp
  qed
qed auto

lemma pull_outcome:
  assumes "pull_images env w = (x, w1)"
  shows "untouched view u w1 = untouched view u w" "x = Inl e \<Longrightarrow> \<not> rollback_error e"
proof -
  obtain y w2 where y: "pull_ref env (dx_image (w_ctx w)) (dx_tag (w_ctx w)) (dx_image (w_ctx w)) w = (y, w2)" by fastforce
  have "untouched view u w1 = untouched view u w \<and> (x = Inl e \<longrightarrow> \<not> rollback_error e)"
  proof (cases y)
    case (Inl f)
    then show ?thesis using assms pull_ref_outcome[OF y] by (auto simp: pull_images_def y rollback_error_def)
  next
    case (Inr a)
    then have "pull_sidecars env (dx_images (w_ctx w)) w2 = (x, w1)" using assms by (simp add: pull_images_def y)
    from sidecars_outcome[OF this] pull_ref_outcome[OF y] show ?thesis by simp
  qed
  then show "untouched view u w1 = untouched view u w" "x = Inl e \<Longrightarrow> \<not> rollback_error e" by auto
qed

lemma merge_outcome:
  assumes "merge_image_config env app cfg w = (x, w1)"
  shows "untouched view u w1 = untouched view u w" "x = Inl e \<Longrightarrow> \<not> rollback_error e"
proof -
  obtain y w2 where y: "rt_call (ro_extract (de_runtime env) (dx_image (w_ctx w)) (dx_tag (w_ctx w)) repo_config_path) w
      = (y, w2)" by fastforce
  show "untouched view u w1 = untouched view u w"
    using assms quiet_call(3)[OF y quiet_ops(2)] by (simp add: merge_image_config_def y)
  show "x = Inl e \<Longrightarrow> \<not> rollback_error e"
    using assms by (auto simp: merge_image_config_def y rollback_error_def
        split: sum.splits option.splits if_splits)
qed

lemma bind_outcome: "bind_services env cfg w = (x, w1) \<Longrightarrow> untouched view u w1 = untouched view u w"
  by (auto simp: bind_services_def Let_def split: list.splits option.splits prod.splits)

lemma strategy_outcome:
  assumes "tracked view app u" "untouched view u w" "run_strategy env cfg m vars app (has_kind ''worker'' m) w = x"
  shows "x = Inr w1 \<Longrightarrow> outcome view app u env w1" "x = Inl e \<Longrightarrow> \<not> rollback_error e"
proof -
  show "x = Inl e \<Longrightarrow> \<not> rollback_error e"
    using assms(3) by (auto simp: run_strategy_def Let_def rollback_error_def split: if_splits)
  assume x: "x = Inr w1"
  note bg = blue_green_outcome[OF assms(1,2)] and rc = recreate_outcome[OF assms(1,2)] and pd = pod_outcome[OF assms(1,2)]
  show "outcome view app u env w1"
  proof (cases m)
    case None
    then show ?thesis using assms(3) x bg rc by (auto simp: run_strategy_def Let_def split: if_splits)
  next
    case (Some mc)
    show ?thesis
    proof (cases "mc_kind mc = ''pod''")
      case True
      then have "has_kind ''worker'' m = False" by (simp add: Some has_kind_def)
      then show ?thesis using assms(3) x pd[of cfg mc vars] True Some
        by (auto simp: run_strategy_def Let_def split: if_splits)
    next
      case False
      then show ?thesis using assms(3) x bg rc Some by (auto simp: run_strategy_def Let_def split: if_splits)
    qed
  qed
qed

lemma complete_outcome: "outcome view app u env w \<Longrightarrow> outcome view app u env (complete_deploy env w)"
proof (erule outcome.cases)
  fix v assume "w = finish_deploy env v" "container_up view app v"
  then show ?thesis using out_container[of view app "finish_deploy env v" u env] by (simp add: complete_deploy_def)
next
  fix v assume "w = finish_deploy env v" "pod_up view app v" "old_container app v = old_container app u"
    "rv_started (view_of view u) \<subseteq> rv_started (view_of view v)"
  then show ?thesis using out_pod[of view app "finish_deploy env v" u env] by (simp add: complete_deploy_def)
qed (simp_all add: complete_deploy_def outcome.intros)

lemma configured_outcome:
  assumes "tracked view app u" "untouched view u w"
  shows "outcome view app u env (deploy_configured env app app_cfg m w)"
proof -
  define cfg where "cfg = (case m of Some m \<Rightarrow> mc_app m | None \<Rightarrow> app_cfg)"
  obtain x w1 where x: "bind_services env cfg w = (x, w1)" by fastforce
  have u1: "untouched view u w1" using bind_outcome[OF x] assms(2) by simp
  note f = out_safe[OF u1, where app=app and env=env]
  note unfold = deploy_configured_def Let_def cfg_def[symmetric] x prod.case
  show ?thesis
  proof (cases x)
    case (Inl e)
    then show ?thesis using f[of "DfBinding e"] by (simp add: unfold rollback_error_def)
  next
    case (Inr benv)
    define y where "y = run_strategy env cfg m (container_env env cfg app benv w1) app (has_kind ''worker'' m) w1"
    note st = strategy_outcome[OF assms(1) u1 y_def[symmetric]]
    have "outcome view app u env (case y of Inl e \<Rightarrow> fail_deploy env app e w1 | Inr w2 \<Rightarrow> complete_deploy env w2)"
    proof (cases y)
      case (Inl e)
      then show ?thesis using st(2)[OF Inl] f[of e] by simp
    next
      case (Inr w2)
      then show ?thesis using complete_outcome[OF st(1)[OF Inr]] by simp
    qed
    then show ?thesis using f[of DfRoutingMissing] by (simp add: unfold Inr y_def[symmetric] rollback_error_def)
  qed
qed

lemma inner_outcome:
  assumes "tracked view (dx_app (w_ctx w)) w"
  shows "outcome view (dx_app (w_ctx w)) w env (execute_deploy_inner env w)"
proof (cases "map_of (w_apps w) (dx_app (w_ctx w))")
  case None
  then show ?thesis by (simp add: execute_deploy_inner_def Let_def out_safe rollback_error_def)
next
  case (Some cfg)
  let ?app = "dx_app (w_ctx w)"
  define w1 where "w1 = set_status DsPulling (modify_state ?app (\<lambda>s. s\<lparr>as_status := StDeploying\<rparr>) w)"
  obtain x w2 where x: "pull_images env w1 = (x, w2)" by fastforce
  have u2: "untouched view w w2" using pull_outcome(1)[OF x, of w] by (simp add: w1_def)
  note unfold = execute_deploy_inner_def Let_def Some option.case w1_def[symmetric] x prod.case
  show ?thesis
  proof (cases x)
    case (Inl e)
    then show ?thesis using pull_outcome(2)[OF x Inl] out_safe[OF u2] by (simp add: unfold)
  next
    case (Inr r)
    obtain y w3 where y: "merge_image_config env ?app cfg (set_status DsConfiguring w2) = (y, w3)" by fastforce
    have u3: "untouched view w w3" using merge_outcome(1)[OF y] u2 by simp
    show ?thesis
    proof (cases y)
      case (Inl e)
      then show ?thesis using merge_outcome(2)[OF y Inl] out_safe[OF u3] by (simp add: unfold \<open>x = Inr r\<close> y)
    next
      case (Inr m)
      then show ?thesis using configured_outcome[OF assms u3] by (simp add: unfold \<open>x = Inr r\<close> y)
    qed
  qed
qed

end

lemma untouched_fail [simp]: "untouched view u (fail_deploy env app e w) = untouched view u w"
proof -
  have "untouched view u (record_deploy v) = untouched view u v" for v
    by (simp add: record_deploy_def untouched_def kept_def view_of_def)
  then show ?thesis
    by (simp add: fail_deploy_def set_app_failed_def context_fail_def)
qed

section \<open>A sample application on the reference runtime\<close>

definition web_routing :: routing_config where
  "web_routing = default_routing\<lparr>rt_domain := Some ''web.x.dev'', rt_port := Some 8080\<rparr>"

definition web_app :: "string \<Rightarrow> app_config" where
  "web_app strategy =
     (bound_app ''web'')\<lparr>ac_routing := web_routing, ac_deploy := default_deploy\<lparr>dc_strategy := strategy\<rparr>, ac_needs := []\<rparr>"

definition web_state :: app_runtime_state where
  "web_state = default_runtime_state\<lparr>as_status := StRunning, as_current_tag := Some ''v1'',
     as_current_container_id := Some ''old'', as_current_port := Some 29000\<rparr>"

definition sample_runtime :: ref_runtime where
  "sample_runtime = \<lparr>rf_next = 1, rf_started = [''old''], rf_dead = [], rf_pods = [], rf_files = [],
     rf_issued = [''old''], rf_faults = []\<rparr>"

text \<open>Containers listed as dead refuse connections, every other one answers 200.\<close>

definition sample_env :: "(ref_runtime, caddy_server) deploy_env" where
  "sample_env =
     \<lparr>de_runtime = ref_runtime_ops, de_set_routes = set_routes (server_ops True),
      de_remove_route = remove_route (server_ops True),
      de_probes = (\<lambda>r _ _. if rf_dead r = [] then ProbeResponse 200 else ProbeFailed),
      de_parse_repo = (\<lambda>_. None), de_parse_yaml = (\<lambda>_. None), de_emit_yaml = (\<lambda>_. None), de_bind = None,
      de_codec = Bindings.sample_codec, de_registries = [], de_env_file = (\<lambda>_. None), de_lock_free = True,
      de_mkdir_ok = True, de_write_ok = True, de_pod_suffix = ''01abc'', de_storage = ''/var/lib/slip'', de_now = 1000\<rparr>"

definition web_route :: "nat \<Rightarrow> json" where
  "web_route port = route_body ''web'' 0 \<lparr>route_hostname = ''web.x.dev'', route_port = port\<rparr>"

definition sample_world :: "string \<Rightarrow> ref_runtime \<Rightarrow> (ref_runtime, caddy_server) world" where
  "sample_world strategy r =
     \<lparr>w_apps = [(''web'', web_app strategy)], w_states = [(''web'', web_state)], w_deploys = [], w_db = [],
      w_dir = [], w_secrets = None, w_manifests = [], w_rt = r,
      w_px = \<lparr>sv_routes = [web_route 29000], sv_policies = None, sv_config = JNull, sv_faults = []\<rparr>,
      w_ctx = deploy_context_new 900 ''dep_1'' ''web'' ''ghcr.io/me/web'' ''v2'' TrCli\<rparr>"

interpretation ref_deploy: container_runtime sample_env rf_view
  by unfold_locales (simp add: sample_env_def ref_runtime_documented)

lemma sample_tracked:
  "tracked rf_view (dx_app (w_ctx (sample_world st sample_runtime))) (sample_world st sample_runtime)"
  "container_up rf_view (dx_app (w_ctx (sample_world st sample_runtime))) (sample_world st sample_runtime)"
  by (auto simp: tracked_def container_up_def sample_world_def sample_runtime_def view_of_def rf_view_def
      old_container_def current_manifest_def web_state_def default_runtime_state_def deploy_context_new_def)

section \<open>What a deploy guarantees\<close>

text \<open>C33. On a documented runtime that knows the recorded ids, a deploy of any strategy never takes a
  serving application down silently: after the run the container its record names is started, or the
  context reports that the rollback failed.\<close>

theorem deploy_keeps_serving:
  assumes "runtime_documented (de_runtime env) view" "tracked view (dx_app (w_ctx w)) w"
    "container_up view (dx_app (w_ctx w)) w"
  shows "dx_rollback_failed (w_ctx (execute_deploy_inner env w)) \<or>
    container_up view (dx_app (w_ctx w)) (execute_deploy_inner env w)"
proof -
  have rt: "container_runtime env view" using assms(1) by (rule container_runtime.intro)
  have fail: "container_up view app (fail_deploy env app e v) = container_up view app v"
    "w_ctx (fail_deploy env app e v) = context_fail (de_now env) e (w_ctx v)" for app e v
    by (auto simp: container_up_def fail_deploy_facts(2) split: option.split)
  from container_runtime.inner_outcome[OF rt assms(2)] show ?thesis
  proof cases
    case (out_safe v e)
    have "container_up view (dx_app (w_ctx w)) v"
      using assms(3) out_safe(2) kept_old(1)[OF untouched_kept[OF out_safe(2)]]
      by (auto simp: container_up_def untouched_def split: option.splits)
    then show ?thesis using out_safe(1) fail(1) by simp
  next
    case (out_pod v)
    then have "container_up view (dx_app (w_ctx w)) v" using assms(3) by (auto simp: container_up_def split: option.splits)
    then show ?thesis using out_pod(1) by simp
  qed (simp_all add: fail context_fail_def)
qed

lemma sample_documented: "runtime_documented (de_runtime sample_env) rf_view"
  by (simp add: sample_env_def ref_runtime_documented)

definition failing_runtime :: ref_runtime where
  "failing_runtime = sample_runtime\<lparr>rf_dead := [''c1'']\<rparr>"

lemma failing_tracked:
  "tracked rf_view (dx_app (w_ctx (sample_world st failing_runtime))) (sample_world st failing_runtime)"
  "container_up rf_view (dx_app (w_ctx (sample_world st failing_runtime))) (sample_world st failing_runtime)"
  by (auto simp: tracked_def container_up_def sample_world_def sample_runtime_def failing_runtime_def view_of_def rf_view_def
      old_container_def current_manifest_def web_state_def default_runtime_state_def deploy_context_new_def)

lemma deploy_keeps_serving_witness:
  "dx_rollback_failed (w_ctx (execute_deploy_inner sample_env (sample_world ''recreate'' failing_runtime))) \<or>
   container_up rf_view (dx_app (w_ctx (sample_world ''recreate'' failing_runtime)))
     (execute_deploy_inner sample_env (sample_world ''recreate'' failing_runtime))"
  by (rule deploy_keeps_serving[OF sample_documented failing_tracked])

text \<open>C34. On a documented runtime that knows the recorded ids, a deploy that fails for any reason other than
  a rollback leaves everything that was started in place: no container and no pod of before is stopped, every
  record in memory differs at most in its status, no file of the state directory is written, and no
  rendered manifest of before is lost. The run does write its rows of the deploy history, and may write
  a rendered manifest of its own and secrets of its needs.\<close>

theorem failed_deploy_untouched:
  assumes "runtime_documented (de_runtime env) view" "tracked view (dx_app (w_ctx w)) w"
    "dx_error (w_ctx (execute_deploy_inner env w)) = Some e" "\<not> rollback_error e"
    "dx_status (w_ctx (execute_deploy_inner env w)) = DsFailed"
  shows "untouched view w (execute_deploy_inner env w)"
proof -
  have rt: "container_runtime env view" using assms(1) by (rule container_runtime.intro)
  have ctx: "w_ctx (fail_deploy env app e v) = context_fail (de_now env) e (w_ctx v)" for app e v
    by (rule fail_deploy_facts(2))
  from container_runtime.inner_outcome[OF rt assms(2)] show ?thesis
    by cases (use assms(3-5) in \<open>auto simp: ctx context_fail_def rollback_error_def\<close>)
qed

lemma failed_deploy_untouched_witness:
  "untouched rf_view (sample_world ''blue-green'' failing_runtime)
     (execute_deploy_inner sample_env (sample_world ''blue-green'' failing_runtime))"
proof (rule failed_deploy_untouched[OF sample_documented failing_tracked(1)])
  show "\<not> rollback_error DfContainerExited" by (simp add: rollback_error_def)
  show "dx_error (w_ctx (execute_deploy_inner sample_env (sample_world ''blue-green'' failing_runtime))) = Some DfContainerExited"
    "dx_status (w_ctx (execute_deploy_inner sample_env (sample_world ''blue-green'' failing_runtime))) = DsFailed"
    by code_simp+
qed

section \<open>Traffic\<close>

lemma px_frames [simp]:
  "w_px (fail_deploy env app e w) = w_px w" "w_px (finish_deploy env w) = w_px w"
  "w_px (remove_container env c w) = w_px w" "w_px (promote env app m b p w) = w_px w"
  using remove_container_rt[of env c w]
  by (auto simp: fail_deploy_def set_app_failed_def modify_state_def record_deploy_def finish_deploy_def
      promote_def store_state_def split: option.split)

lemma px_rt: "rt_call f w = (x, w1) \<Longrightarrow> w_px w1 = w_px w"
  by (auto dest: rt_call_world)

lemma px_start:
  "start_container env cfg m vars app b w = Inl w1 \<Longrightarrow> w_px w1 = w_px w"
  "start_container env cfg m vars app b w = Inr (c, p, w1) \<Longrightarrow> w_px w1 = w_px w"
  by (auto simp: start_container_def Let_def set_new_container_def px_rt split: prod.splits sum.splits)

text \<open>The checks of a new container in a world: the health check accepts its port and the runtime reports
  it running.\<close>

definition checks_pass ::
  "('r, 'p) deploy_env \<Rightarrow> app_config \<Rightarrow> string \<Rightarrow> nat \<Rightarrow> ('r, 'p) world \<Rightarrow> bool" where
  "checks_pass env cfg cid p w \<longleftrightarrow>
     check_health env p (ac_health cfg) w = Inr () \<and> fst (rt_call (ro_is_running (de_runtime env) cid) w) = Inr True"

lemma verify_px:
  assumes "verify_new_container env cfg cid p False w = (v, w1)"
  shows "w_px w1 = w_px w" "v = Inr () \<longleftrightarrow> checks_pass env cfg cid p w"
proof -
  obtain y w2 where y: "rt_call (ro_is_running (de_runtime env) cid) w = (y, w2)" by fastforce
  show "w_px w1 = w_px w" "v = Inr () \<longleftrightarrow> checks_pass env cfg cid p w"
    using assms px_rt[OF y]
    by (auto simp: verify_new_container_def checks_pass_def y split: sum.splits bool.splits)
qed

text \<open>C35. A blue-green deploy sends traffic only to a container that passed its checks: either the proxy is
  left as it was, or the new container was started, its health check succeeded and it was still running,
  and the proxy received exactly the routes of this deploy with the port of this container.\<close>

theorem traffic_after_checks:
  "w_px (blue_green_container env cfg m vars app False w) = w_px w \<or>
   (\<exists>cid p w1. start_container env cfg m vars app False w = Inr (cid, p, w1) \<and> checks_pass env cfg cid p w1 \<and>
      w_px (blue_green_container env cfg m vars app False w) =
        fst (de_set_routes env app (deploy_routes cfg m p) (w_px w)))"
proof (cases "start_container env cfg m vars app False w")
  case (Inl w1)
  then show ?thesis using px_start(1)[OF Inl] by (simp add: blue_green_container_def)
next
  case (Inr a)
  obtain cid p w1 where a: "a = (cid, p, w1)" by (cases a) auto
  obtain v w2 where v: "verify_new_container env cfg cid p False w1 = (v, w2)" by fastforce
  have px: "w_px w2 = w_px w" using px_start(2)[OF Inr[unfolded a]] verify_px(1)[OF v] by simp
  show ?thesis
  proof (cases v)
    case (Inl e)
    then show ?thesis using px by (simp add: blue_green_container_def Inr a v)
  next
    case (Inr r)
    have "w_px (switch_container env cfg m app cid p False w2) = fst (de_set_routes env app (deploy_routes cfg m p) (w_px w2))"
      by (auto simp: switch_container_def switch_traffic_def Let_def px_call_def split: prod.splits sum.splits)
    then show ?thesis using px verify_px(2)[OF v] Inr \<open>start_container _ _ _ _ _ _ _ = Inr a\<close>
      by (simp add: blue_green_container_def a v)
  qed
qed

end
