(* ===== verification/DeployFaults.thy ===== *)
theory DeployFaults
  imports DeployProps Reconcile
begin

text \<open>
  Where the orchestrator does not do what its comments say: the cleanup after a timeout, containers
  that no record names any more, a partly applied route update, and records that reconciliation skips.
\<close>

section \<open>The timeout\<close>

lemma on_timeout_facts:
  "w_states (on_timeout env limit w) = w_states (set_app_failed env (dx_app (w_ctx w)) w)"
  "view_of view (on_timeout env limit w) = view_of view (remove_container env (dx_new_container_id (w_ctx w)) w)"
  "w_px (on_timeout env limit w) = w_px w"
proof -
  define w1 where "w1 = w\<lparr>w_ctx := context_fail (de_now env) (DfTimeout (deploy_format_duration limit)) (w_ctx w)\<rparr>"
  define w2 where "w2 = remove_container env (dx_new_container_id (w_ctx w)) w1"
  have i: "dx_new_container_id (w_ctx w1) = dx_new_container_id (w_ctx w)" by (simp add: w1_def context_fail_def)
  have eq: "on_timeout env limit w = set_app_failed env (dx_app (w_ctx w)) (record_deploy w2)"
    by (simp only: on_timeout_def Let_def w1_def[symmetric] i w2_def)
  obtain r where r: "w2 = w1\<lparr>w_rt := r\<rparr>"
    using remove_container_rt[of env "dx_new_container_id (w_ctx w)" w1] by (auto simp: w2_def)
  have v: "view_of view w2 = view_of view (remove_container env (dx_new_container_id (w_ctx w)) w)"
    by (cases "dx_new_container_id (w_ctx w)")
      (simp_all add: w2_def remove_container_def rt_call_def view_of_def w1_def Let_def case_prod_beta)
  have f: "w_states (set_app_failed env app (record_deploy w2)) = w_states (set_app_failed env app w)"
    "w_rt (set_app_failed env app (record_deploy w2)) = w_rt w2" "w_px (set_app_failed env app (record_deploy w2)) = w_px w" for app
    by (simp_all add: set_app_failed_def modify_state_def record_deploy_def r w1_def split: option.split)
  show "w_states (on_timeout env limit w) = w_states (set_app_failed env (dx_app (w_ctx w)) w)"
    "view_of view (on_timeout env limit w) = view_of view (remove_container env (dx_new_container_id (w_ctx w)) w)"
    "w_px (on_timeout env limit w) = w_px w"
    using v by (simp_all add: eq f view_of_def)
qed

lemma on_timeout_old [simp]:
  "old_container app (on_timeout env limit w) = old_container app w"
  by (auto simp: old_container_def on_timeout_facts(1) set_app_failed_def modify_state_def update_conv' split: option.split)

lemma removed_not_started:
  assumes "runtime_documented (de_runtime env) view" "is_ok (fst (rt_call (ro_stop_and_remove (de_runtime env) cid) w))"
  shows "cid \<notin> rv_started (view_of view (remove_container env (Some cid) w))"
proof -
  obtain r1 x where r1: "ro_stop_and_remove (de_runtime env) cid (w_rt w) = (r1, x)" by fastforce
  then have "is_ok x" using assms(2) by (simp add: rt_call_def)
  then have "view r1 = (view (w_rt w))\<lparr>rv_started := rv_started (view (w_rt w)) - {cid}\<rparr>"
    using assms(1) r1 unfolding runtime_documented_def by blast
  then show ?thesis using r1 by (simp add: remove_container_def rt_call_def view_of_def)
qed

text \<open>A timeout that fires while the old container drains takes the application down: the handler
  removes the new container, which the record names and to which the proxy already sends the traffic.\<close>

theorem drain_timeout_removes_serving:
  assumes "runtime_documented (de_runtime env) view"
    "switch_traffic env cfg m app p b w = Inr w1" "dx_new_container_id (w_ctx w) = Some cid"
    "is_ok (fst (rt_call (ro_stop_and_remove (de_runtime env) cid) w1))"
  shows "old_container app (on_timeout env limit w1) = Some cid \<and>
    cid \<notin> rv_started (view_of view (on_timeout env limit w1)) \<and> w_px (on_timeout env limit w1) = w_px w1"
proof -
  have w1: "old_container app w1 = Some cid" "dx_new_container_id (w_ctx w1) = Some cid"
    using traffic_cases(2)[OF assms(2)] assms(3) by auto
  show ?thesis using removed_not_started[OF assms(1,4)] by (simp add: w1 on_timeout_facts(2,3))
qed

definition switching_world :: "(ref_runtime, caddy_server) world" where
  "switching_world =
     (case start_container sample_env (web_app ''blue-green'') None [] ''web'' False (sample_world ''blue-green'' sample_runtime) of
        Inr (_, _, w) \<Rightarrow> w | Inl w \<Rightarrow> w)"

lemma drain_timeout_removes_serving_witness:
  "\<exists>w1. switch_traffic sample_env (web_app ''blue-green'') None ''web'' 30001 False switching_world = Inr w1 \<and>
     old_container ''web'' (on_timeout sample_env (secs 600) w1) = Some ''c1'' \<and>
     ''c1'' \<notin> rv_started (view_of rf_view (on_timeout sample_env (secs 600) w1)) \<and>
     w_px (on_timeout sample_env (secs 600) w1) = w_px w1"
proof -
  have ok: "case switch_traffic sample_env (web_app ''blue-green'') None ''web'' 30001 False switching_world of
      Inl _ \<Rightarrow> False | Inr w1 \<Rightarrow> is_ok (fst (rt_call (ro_stop_and_remove (de_runtime sample_env) ''c1'') w1))"
    by code_simp
  then obtain w1 where w1: "switch_traffic sample_env (web_app ''blue-green'') None ''web'' 30001 False switching_world = Inr w1"
    "is_ok (fst (rt_call (ro_stop_and_remove (de_runtime sample_env) ''c1'') w1))"
    by (auto split: sum.splits)
  have "dx_new_container_id (w_ctx switching_world) = Some ''c1''" by code_simp
  from drain_timeout_removes_serving[OF sample_documented w1(1) this w1(2), of "secs 600"] w1(1) show ?thesis by blast
qed

text \<open>A timeout during the health check of a recreate deploy leaves the application down: the old
  container was stopped before, the handler does not start it again, and the record still names it.\<close>

theorem recreate_timeout_leaves_down:
  assumes "runtime_documented (de_runtime env) view" "tracked view app w" "old_container app w = Some old"
    "recreate_stop env app (Some old) w = Inr w1" "start_container env cfg m vars app b w1 = Inr (cid, p, w2)"
  shows "old_container app (on_timeout env limit w2) = Some old \<and>
    old \<notin> rv_started (view_of view (on_timeout env limit w2))"
proof -
  have rt: "container_runtime env view" using assms(1) by (rule container_runtime.intro)
  obtain x w' where x: "rt_call (ro_stop (de_runtime env) old) (set_status DsStoppingOld w) = (x, w')" by fastforce
  have w1: "is_ok x" "w1 = snd (px_call (de_remove_route env app) (set_status DsRemovingRoute w'))"
    using assms(4) by (auto simp: recreate_stop_def x split: sum.splits)
  then have v1: "old \<notin> rv_started (view_of view w1)"
    using container_runtime.stop_call[OF rt x] snd_px_call[of "de_remove_route env app" "set_status DsRemovingRoute w'"]
    by (cases x) auto
  have k1: "kept view w w1" using container_runtime.recreate_stop_outcome(2)[OF rt assms(2) kept_refl(2) assms(4)] by simp
  note st = container_runtime.started_outcome[OF rt assms(5) k1]
  have "cid \<noteq> old" using st(2) assms(2,3) by (auto simp: tracked_def)
  moreover have "rv_started (view_of view w2) = insert cid (rv_started (view_of view w1))"
    using container_runtime.started_view[OF rt assms(5)] .
  ultimately have "old \<notin> rv_started (view_of view w2)" using v1 by simp
  moreover have "old_container app w2 = Some old" using kept_old(1)[OF st(1)] assms(3) by simp
  ultimately show ?thesis
    using container_runtime.remove_le[OF rt, of "dx_new_container_id (w_ctx w2)" w2] by (auto simp: on_timeout_facts(2))
qed

lemma recreate_timeout_leaves_down_witness:
  "case recreate_stop sample_env ''web'' (Some ''old'') (sample_world ''recreate'' sample_runtime) of
     Inl _ \<Rightarrow> False
   | Inr w1 \<Rightarrow>
       (case start_container sample_env (web_app ''recreate'') None [] ''web'' False w1 of
          Inl _ \<Rightarrow> False
        | Inr (cid, p, w2) \<Rightarrow>
            old_container ''web'' (on_timeout sample_env (secs 600) w2) = Some ''old'' \<and>
            ''old'' \<notin> rv_started (view_of rf_view (on_timeout sample_env (secs 600) w2)))"
proof -
  have "case recreate_stop sample_env ''web'' (Some ''old'') (sample_world ''recreate'' sample_runtime) of
      Inl _ \<Rightarrow> False | Inr w1 \<Rightarrow> is_ok (start_container sample_env (web_app ''recreate'') None [] ''web'' False w1)"
    by code_simp
  then obtain w1 cid p w2 where w: "recreate_stop sample_env ''web'' (Some ''old'') (sample_world ''recreate'' sample_runtime) = Inr w1"
    "start_container sample_env (web_app ''recreate'') None [] ''web'' False w1 = Inr (cid, p, w2)"
    by (auto simp: is_ok_iff split: sum.splits)
  have app: "dx_app (w_ctx (sample_world ''recreate'' sample_runtime)) = ''web''"
    "old_container ''web'' (sample_world ''recreate'' sample_runtime) = Some ''old''" by code_simp+
  show ?thesis
    using recreate_timeout_leaves_down[OF sample_documented sample_tracked(1)[of "''recreate''", unfolded app(1)] app(2) w, of "secs 600"]
    by (simp add: w)
qed

section \<open>Leftovers\<close>

text \<open>A new container that exits during the health check is left behind: the deploy fails with
  \<open>[container_exited]\<close>, the container was created and is not removed, and no record names it.\<close>

theorem exited_container_leaks:
  "let w = execute_deploy_inner sample_env (sample_world ''blue-green'' failing_runtime) in
     dx_error (w_ctx w) = Some DfContainerExited \<and> rf_started (w_rt w) = [''c1'', ''old''] \<and>
     old_container ''web'' w = Some ''old''"
  by code_simp

definition two_route_config :: merged_config where
  "two_route_config =
     \<lparr>mc_app = web_app ''blue-green'', mc_kind = ''http'', mc_manifest = None, mc_health_container = None,
      mc_routing_container = None,
      mc_routes = [\<lparr>mr_hostname = ''web.x.dev'', mr_port = 8080, mr_container = None, mr_kind = ''http''\<rparr>,
                   \<lparr>mr_hostname = ''api.x.dev'', mr_port = 8080, mr_container = None, mr_kind = ''http''\<rparr>],
      mc_preview = None, mc_volumes = []\<rparr>"

definition flaky_world :: "(ref_runtime, caddy_server) world" where
  "flaky_world =
     (let w = sample_world ''blue-green'' sample_runtime
      in w\<lparr>w_px := (w_px w)\<lparr>sv_faults := [200, 0]\<rparr>\<rparr>)"

text \<open>A route update that fails after its first route leaves that route on the container the deploy then
  removes: the old container is up and recorded, and the proxy sends its traffic to a dead port.\<close>

theorem partial_switch_strands_traffic:
  "let w = blue_green_container sample_env (web_app ''blue-green'') (Some two_route_config) [] ''web'' False flaky_world in
     dx_status (w_ctx w) = DsFailed \<and> sv_routes (w_px w) = [web_route 30001] \<and>
     rf_started (w_rt w) = [''old''] \<and> old_container ''web'' w = Some ''old''"
  by code_simp

text \<open>After a Tier 1 rollback the application serves again, but its record is marked as failed and
  reconciliation skips it: its routes are not restored when Caddy loses them.\<close>

theorem rolled_back_not_reconciled:
  "let w = execute_deploy_inner sample_env (sample_world ''recreate'' failing_runtime) in
     dx_error (w_ctx w) = Some DfRollbackTier1 \<and> rf_started (w_rt w) = [''old''] \<and>
     sv_routes (w_px w) = [web_route 29000] \<and>
     route_infos (w_states w) (w_apps w) = []"
  by code_simp

definition pod_world :: "(ref_runtime, caddy_server) world" where
  "pod_world =
     (let w = sample_world ''blue-green'' (sample_runtime\<lparr>rf_pods := [''/m/web.yaml'']\<rparr>)
      in w\<lparr>w_states := [(''web'', web_state\<lparr>as_current_container_id := None, as_current_pod_name := Some ''web-0'',
                                        as_current_manifest_path := Some ''/m/web.yaml''\<rparr>)]\<rparr>)"

text \<open>A container deploy over a pod completes without tearing the pod down, and keeps its name in the
  record.\<close>

theorem container_over_pod_leaks:
  "let w = execute_deploy_inner sample_env pod_world in
     dx_status (w_ctx w) = DsCompleted \<and> rf_pods (w_rt w) = [''/m/web.yaml''] \<and>
     Option.bind (map_of (w_states w) ''web'') as_current_pod_name = Some ''web-0''"
  by code_simp

text \<open>An image reference with a registry port and no tag is split at the port.\<close>

theorem parse_image_ref_port: "parse_image_ref ''localhost:5000/img'' = (''localhost'', ''5000/img'')"
  by code_simp

end
