(* ===== verification/Docker.thy ===== *)
theory Docker
  imports DeployProps
begin

text \<open>
  The Docker backend of the runtime trait (\<open>docker.rs\<close>) over the requests of the Docker engine, which
  are parameters: each returns the engine's new state and its answer.  \<open>docker_ops\<close> collects the
  operations the orchestrator calls; they satisfy the contract of \<open>Runtime\<close> whenever the engine
  behaves as documented.  Reading a tar archive and parsing a floating-point number are parameters.
\<close>

section \<open>The engine\<close>

datatype api_error = ApiStatus nat | ApiTransport

text \<open>\<open>DkPanicked\<close> is not an error of the source but the panic of \<open>create_and_start\<close>: the task of the caller
  unwinds there.  For the caller of the model it is a container error, so that its deploy fails; in the
  program no code of that deploy runs any more.\<close>

datatype docker_error =
  DkApi api_error | DkPullFailed | DkNoPortAssigned | DkContainerNotRunning string | DkPanicked

definition docker_runtime_error :: "docker_error \<Rightarrow> runtime_error" where
  "docker_runtime_error e =
     (case e of DkApi _ \<Rightarrow> RtContainerError | DkPullFailed \<Rightarrow> RtPullFailed | DkNoPortAssigned \<Rightarrow> RtNoPortAssigned
      | DkContainerNotRunning i \<Rightarrow> RtContainerNotRunning i | DkPanicked \<Rightarrow> RtContainerError)"

record docker_mount =
  dm_source :: string
  dm_target :: string
  dm_read_only :: bool

record docker_config =
  dk_image :: string
  dk_env :: "string list"
  dk_labels :: "(string \<times> string) list"
  dk_port_bindings :: "(string \<times> string) option"
  dk_network :: "string option"
  dk_memory :: "int option"
  dk_nano_cpus :: "int option"
  dk_mounts :: "docker_mount list option"

text \<open>The parts of an inspect answer the code reads: a missing level is \<open>None\<close>.\<close>

record inspect_info =
  in_running :: "bool option"
  in_ports :: "(string \<times> string option list option) list option"

datatype pull_item = PullInfo "string option" | PullBroken
datatype chunk = Chunk string | ChunkError api_error

record 'e docker_engine =
  en_create_image :: "string \<Rightarrow> string \<Rightarrow> (string \<times> string) option \<Rightarrow> 'e \<Rightarrow> 'e \<times> pull_item list"
  en_create :: "string \<Rightarrow> docker_config \<Rightarrow> 'e \<Rightarrow> 'e \<times> (api_error + string)"
  en_start :: "string \<Rightarrow> 'e \<Rightarrow> 'e \<times> (api_error + unit)"
  en_stop :: "string \<Rightarrow> 'e \<Rightarrow> 'e \<times> (api_error + unit)"
  en_remove :: "bool \<Rightarrow> string \<Rightarrow> 'e \<Rightarrow> 'e \<times> (api_error + unit)"
  en_inspect :: "string \<Rightarrow> 'e \<Rightarrow> api_error + inspect_info"
  en_download :: "string \<Rightarrow> string \<Rightarrow> 'e \<Rightarrow> chunk list"
  en_inspect_network :: "string \<Rightarrow> 'e \<Rightarrow> api_error + unit"
  en_create_network :: "string \<Rightarrow> 'e \<Rightarrow> 'e \<times> (api_error + unit)"
  en_ulid :: "'e \<Rightarrow> string"

section \<open>Limits and ports\<close>

text \<open>Multiplication of two \<open>i64\<close> values, which wraps in a release build.\<close>

definition mul_i64 :: "int \<Rightarrow> int \<Rightarrow> int" where
  "mul_i64 a b = sint (word_of_int (a * b) :: 64 word)"

definition memory_unit :: "string \<Rightarrow> string \<times> int" where
  "memory_unit s =
     (case strip_suffix ''g'' s of Some r \<Rightarrow> (r, 1073741824) | None \<Rightarrow>
     (case strip_suffix ''gb'' s of Some r \<Rightarrow> (r, 1073741824) | None \<Rightarrow>
     (case strip_suffix ''m'' s of Some r \<Rightarrow> (r, 1048576) | None \<Rightarrow>
     (case strip_suffix ''mb'' s of Some r \<Rightarrow> (r, 1048576) | None \<Rightarrow>
     (case strip_suffix ''k'' s of Some r \<Rightarrow> (r, 1024) | None \<Rightarrow>
     (case strip_suffix ''kb'' s of Some r \<Rightarrow> (r, 1024) | None \<Rightarrow> (s, 1)))))))"

definition parse_memory_limit :: "string option \<Rightarrow> int option" where
  "parse_memory_limit memory =
     (case memory of
        None \<Rightarrow> None
      | Some m \<Rightarrow>
          (let s = ascii_lowercase (trim m) in
           if s = [] then None
           else (let (num_part, multiplier) = memory_unit s
                 in map_option (\<lambda>n. mul_i64 n multiplier) (parse_i64 (trim num_part)))))"

text \<open>\<open>f64\<close> is the parser of the standard library followed by the scaling to nano-CPUs.\<close>

definition parse_cpu_limit :: "(string \<Rightarrow> int option) \<Rightarrow> string option \<Rightarrow> int option" where
  "parse_cpu_limit f64 cpus =
     (case cpus of None \<Rightarrow> None | Some c \<Rightarrow> (let s = trim c in if s = [] then None else f64 s))"

definition port_key :: "nat \<Rightarrow> string" where
  "port_key p = show_nat p @ ''/tcp''"

definition extract_host_port :: "inspect_info \<Rightarrow> nat \<Rightarrow> docker_error + nat" where
  "extract_host_port info p =
     (case Option.bind (in_ports info) (\<lambda>ports. map_of ports (port_key p)) of
        Some (Some (Some host_port # _)) \<Rightarrow> ok_or (parse_uint 65535 host_port) DkNoPortAssigned
      | _ \<Rightarrow> Inl DkNoPortAssigned)"

section \<open>Operations\<close>

fun read_pull :: "pull_item list \<Rightarrow> docker_error + unit" where
  "read_pull [] = Inr ()"
| "read_pull (PullInfo (Some _) # _) = Inl DkPullFailed"
| "read_pull (PullInfo None # rest) = read_pull rest"
| "read_pull (PullBroken # _) = Inl DkPullFailed"

definition docker_pull ::
  "'e docker_engine \<Rightarrow> string \<Rightarrow> string \<Rightarrow> (string \<times> string) option \<Rightarrow> 'e \<Rightarrow> 'e \<times> (docker_error + unit)" where
  "docker_pull en img tag creds e = (let (e1, items) = en_create_image en img tag creds e in (e1, read_pull items))"

definition docker_config_of :: "(string \<Rightarrow> int option) \<Rightarrow> create_spec \<Rightarrow> docker_config" where
  "docker_config_of f64 spec =
     \<lparr>dk_image = cs_image spec @ '':'' @ cs_tag spec, dk_env = cs_env spec,
      dk_labels = [(''slip.app'', cs_app spec), (''slip.tag'', cs_tag spec), (''slip.managed'', ''true'')],
      dk_port_bindings = (if cs_port spec = 0 then None else Some (port_key (cs_port spec), ''127.0.0.1'')),
      dk_network = Some (cs_network spec), dk_memory = parse_memory_limit (rs_memory (cs_resources spec)),
      dk_nano_cpus = parse_cpu_limit f64 (rs_cpus (cs_resources spec)),
      dk_mounts = (if cs_volumes spec = [] then None
        else Some (map (\<lambda>v. \<lparr>dm_source = mv_host_path v, dm_target = mv_mount_path v, dm_read_only = mv_read_only v\<rparr>)
                       (cs_volumes spec)))\<rparr>"

text \<open>The first twelve bytes of the tag are a slice of a string: \<open>None\<close> is the panic when the slice would end
  inside a character.\<close>

definition docker_container_name :: "create_spec \<Rightarrow> string \<Rightarrow> string option" where
  "docker_container_name spec ulid =
     (if 12 < length (cs_tag spec) \<and> utf8_continues (cs_tag spec ! 12) then None
      else Some (''slip-'' @ cs_app spec @ ''-'' @ take 12 (cs_tag spec) @ ''-'' @ take 8 ulid))"

definition docker_running :: "inspect_info \<Rightarrow> bool" where
  "docker_running info = (in_running info = Some True)"

definition docker_create_and_start ::
  "'e docker_engine \<Rightarrow> (string \<Rightarrow> int option) \<Rightarrow> create_spec \<Rightarrow> 'e \<Rightarrow> 'e \<times> (docker_error + string \<times> nat)" where
  "docker_create_and_start en f64 spec e =
     (case docker_container_name spec (en_ulid en e) of
        None \<Rightarrow> (e, Inl DkPanicked)
      | Some name \<Rightarrow>
          (let (e1, x) = en_create en name (docker_config_of f64 spec) e in
           case x of
             Inl a \<Rightarrow> (e1, Inl (DkApi a))
           | Inr cid \<Rightarrow>
               (let (e2, y) = en_start en cid e1 in
                case y of
                  Inl a \<Rightarrow> (e2, Inl (DkApi a))
                | Inr _ \<Rightarrow>
                    (case en_inspect en cid e2 of
                       Inl a \<Rightarrow> (e2, Inl (DkApi a))
                     | Inr info \<Rightarrow>
                         if \<not> docker_running info then (e2, Inl (DkContainerNotRunning cid))
                         else if cs_port spec = 0 then (e2, Inr (cid, 0))
                         else (e2, and_then (extract_host_port info (cs_port spec)) (\<lambda>p. Inr (cid, p)))))))"

definition docker_stop :: "'e docker_engine \<Rightarrow> string \<Rightarrow> 'e \<Rightarrow> 'e \<times> (docker_error + unit)" where
  "docker_stop en cid e =
     (case en_stop en cid e of
        (e1, Inr _) \<Rightarrow> (e1, Inr ())
      | (e1, Inl a) \<Rightarrow> (e1, if a = ApiStatus 304 then Inr () else Inl (DkApi a)))"

definition docker_start :: "'e docker_engine \<Rightarrow> string \<Rightarrow> 'e \<Rightarrow> 'e \<times> (docker_error + unit)" where
  "docker_start en cid e =
     (case en_start en cid e of (e1, Inr _) \<Rightarrow> (e1, Inr ()) | (e1, Inl a) \<Rightarrow> (e1, Inl (DkApi a)))"

definition docker_stop_and_remove :: "'e docker_engine \<Rightarrow> string \<Rightarrow> 'e \<Rightarrow> 'e \<times> (docker_error + unit)" where
  "docker_stop_and_remove en cid e =
     (let (e1, x) = docker_stop en cid e in
      case x of
        Inl err \<Rightarrow> (e1, Inl err)
      | Inr _ \<Rightarrow> (case en_remove en False cid e1 of (e2, Inr _) \<Rightarrow> (e2, Inr ()) | (e2, Inl a) \<Rightarrow> (e2, Inl (DkApi a))))"

definition docker_inspect_port :: "'e docker_engine \<Rightarrow> string \<Rightarrow> nat \<Rightarrow> 'e \<Rightarrow> docker_error + nat" where
  "docker_inspect_port en cid p e =
     (case en_inspect en cid e of Inl a \<Rightarrow> Inl (DkApi a) | Inr info \<Rightarrow> extract_host_port info p)"

definition docker_exists :: "'e docker_engine \<Rightarrow> string \<Rightarrow> 'e \<Rightarrow> docker_error + bool" where
  "docker_exists en cid e =
     (case en_inspect en cid e of
        Inr _ \<Rightarrow> Inr True
      | Inl a \<Rightarrow> if a = ApiStatus 404 then Inr False else Inl (DkApi a))"

definition docker_is_running :: "'e docker_engine \<Rightarrow> string \<Rightarrow> 'e \<Rightarrow> docker_error + bool" where
  "docker_is_running en cid e =
     (case en_inspect en cid e of Inl a \<Rightarrow> Inl (DkApi a) | Inr info \<Rightarrow> Inr (docker_running info))"

definition docker_ensure_network :: "'e docker_engine \<Rightarrow> string \<Rightarrow> 'e \<Rightarrow> 'e \<times> (docker_error + unit)" where
  "docker_ensure_network en name e =
     (case en_inspect_network en name e of
        Inr _ \<Rightarrow> (e, Inr ())
      | Inl a \<Rightarrow>
          if a \<noteq> ApiStatus 404 then (e, Inl (DkApi a))
          else (case en_create_network en name e of (e1, Inr _) \<Rightarrow> (e1, Inr ()) | (e1, Inl b) \<Rightarrow> (e1, Inl (DkApi b))))"

section \<open>Extracting a file from an image\<close>

text \<open>An entry of an archive: unreadable, without a usable path, or a path with the content that can or
  cannot be read.\<close>

datatype tar_item = TarBadEntry | TarBadPath | TarEntry string "string option"

definition path_file_name :: "string \<Rightarrow> string option" where
  "path_file_name p =
     (let cs = filter (\<lambda>c. c \<noteq> [] \<and> c \<noteq> ''.'') (split_on (CHR ''/'') p)
      in if cs = [] \<or> last cs = ''..'' then None else Some (last cs))"

fun find_tar_entry :: "string \<Rightarrow> tar_item list \<Rightarrow> docker_error + string option" where
  "find_tar_entry name [] = Inr None"
| "find_tar_entry name (TarBadEntry # _) = Inl DkPullFailed"
| "find_tar_entry name (TarBadPath # _) = Inl DkPullFailed"
| "find_tar_entry name (TarEntry p content # rest) =
     (if path_file_name p = Some name
      then (case content of Some s \<Rightarrow> Inr (Some s) | None \<Rightarrow> Inl DkPullFailed)
      else find_tar_entry name rest)"

definition extract_file_from_tar :: "(string \<Rightarrow> tar_item list option) \<Rightarrow> string \<Rightarrow> string \<Rightarrow> docker_error + string option" where
  "extract_file_from_tar tar bytes path =
     (case tar bytes of
        None \<Rightarrow> Inl DkPullFailed
      | Some items \<Rightarrow> find_tar_entry (case path_file_name path of Some f \<Rightarrow> f | None \<Rightarrow> path) items)"

fun read_chunks :: "string \<Rightarrow> chunk list \<Rightarrow> docker_error + string option" where
  "read_chunks buf [] = Inr (Some buf)"
| "read_chunks buf (Chunk s # rest) = read_chunks (buf @ s) rest"
| "read_chunks buf (ChunkError a # _) = (if a = ApiStatus 404 then Inr None else Inl (DkApi a))"

definition docker_download ::
  "'e docker_engine \<Rightarrow> (string \<Rightarrow> tar_item list option) \<Rightarrow> string \<Rightarrow> string \<Rightarrow> 'e \<Rightarrow> docker_error + string option" where
  "docker_download en tar cid path e =
     and_then (read_chunks [] (en_download en cid path e)) (\<lambda>x.
       case x of None \<Rightarrow> Inr None | Some buf \<Rightarrow> extract_file_from_tar tar buf path)"

definition docker_extract ::
  "'e docker_engine \<Rightarrow> (string \<Rightarrow> tar_item list option) \<Rightarrow> string \<Rightarrow> string \<Rightarrow> string \<Rightarrow> 'e \<Rightarrow>
     'e \<times> (docker_error + string option)" where
  "docker_extract en tar img tag path e =
     (let cfg = \<lparr>dk_image = img @ '':'' @ tag, dk_env = [], dk_labels = [], dk_port_bindings = None, dk_network = None,
                 dk_memory = None, dk_nano_cpus = None, dk_mounts = None\<rparr>;
          (e1, x) = en_create en (''slip-extract-'' @ take 8 (en_ulid en e)) cfg e
      in case x of
           Inl a \<Rightarrow> (e1, Inl (DkApi a))
         | Inr cid \<Rightarrow> (fst (en_remove en True cid e1), docker_download en tar cid path e1))"

section \<open>The backend\<close>

definition as_runtime :: "'e \<times> (docker_error + 'a) \<Rightarrow> 'e \<times> (runtime_error + 'a)" where
  "as_runtime r = (fst r, case snd r of Inl e \<Rightarrow> Inl (docker_runtime_error e) | Inr x \<Rightarrow> Inr x)"

definition docker_ops ::
  "'e docker_engine \<Rightarrow> (string \<Rightarrow> int option) \<Rightarrow> (string \<Rightarrow> tar_item list option) \<Rightarrow> 'e runtime_ops" where
  "docker_ops en f64 tar =
     \<lparr>ro_pull = \<lambda>i t c e. (let (e1, x) = docker_pull en i t c e in (e1, case x of Inl _ \<Rightarrow> Inl RtPullFailed | Inr u \<Rightarrow> Inr u)),
      ro_extract = \<lambda>i t p e. as_runtime (docker_extract en tar i t p e),
      ro_create_and_start = \<lambda>spec e. as_runtime (docker_create_and_start en f64 spec e),
      ro_stop = \<lambda>c e. as_runtime (docker_stop en c e),
      ro_start = \<lambda>c e. as_runtime (docker_start en c e),
      ro_inspect_port = \<lambda>c p e. as_runtime (e, docker_inspect_port en c p e),
      ro_stop_and_remove = \<lambda>c e. as_runtime (docker_stop_and_remove en c e),
      ro_is_running = \<lambda>c e. as_runtime (e, docker_is_running en c e),
      ro_deploy_pod = \<lambda>_ _ e. (e, Inl RtUnsupported),
      ro_teardown_pod = \<lambda>_ e. (e, Inl RtUnsupported),
      ro_pod_port = \<lambda>_ _ _ e. (e, Inl RtUnsupported)\<rparr>"

end
