(* ===== verification/DockerProps.thy ===== *)
theory DockerProps
  imports Docker
begin

text \<open>
  The Docker backend implements the runtime contract: \<open>engine_documented\<close> states the effect of the
  engine's requests on the containers, the locale \<open>docker_deploy\<close> is an orchestrator over this backend,
  and a reference engine interprets it.
\<close>

section \<open>The documented engine\<close>

definition engine_documented :: "'e docker_engine \<Rightarrow> ('e \<Rightarrow> rt_view) \<Rightarrow> bool" where
  "engine_documented en view \<longleftrightarrow>
     (\<forall>e. rv_started (view e) \<subseteq> rv_issued (view e)) \<and>
     (\<forall>i t c. quiet_op view (en_create_image en i t c)) \<and>
     (\<forall>n. quiet_op view (en_create_network en n)) \<and>
     (\<forall>n cfg e e' x. en_create en n cfg e = (e', x) \<longrightarrow>
        view e' = view e \<and> (case x of Inr cid \<Rightarrow> cid \<notin> rv_issued (view e) | Inl _ \<Rightarrow> True)) \<and>
     (\<forall>c e e' x. en_start en c e = (e', x) \<longrightarrow>
        view e' = (case x of Inl _ \<Rightarrow> view e
          | Inr _ \<Rightarrow> (view e)\<lparr>rv_started := insert c (rv_started (view e)), rv_issued := insert c (rv_issued (view e))\<rparr>)) \<and>
     (\<forall>c e e' x. en_stop en c e = (e', x) \<longrightarrow>
        (case x of
           Inr _ \<Rightarrow> view e' = (view e)\<lparr>rv_started := rv_started (view e) - {c}\<rparr>
         | Inl a \<Rightarrow> view e' = view e \<and> (a = ApiStatus 304 \<longrightarrow> c \<notin> rv_started (view e)))) \<and>
     (\<forall>f c e e' x. en_remove en f c e = (e', x) \<longrightarrow>
        view e' = (view e)\<lparr>rv_started := rv_started (view e) - {c}\<rparr> \<or> (\<not> is_ok x \<and> view e' = view e))"

lemma view_minus_id: "c \<notin> rv_started v \<Longrightarrow> v\<lparr>rv_started := rv_started v - {c}\<rparr> = v"
  by (cases v) simp

locale docker_engine_spec =
  fixes en :: "'e docker_engine" and view :: "'e \<Rightarrow> rt_view"
  assumes engine: "engine_documented en view"
begin

lemma started_issued: "rv_started (view e) \<subseteq> rv_issued (view e)"
  and pull_quiet: "quiet_op view (en_create_image en i t c)"
  using engine by (simp_all add: engine_documented_def)

lemma create_law:
  assumes "en_create en n cfg e = (e', x)"
  shows "view e' = view e" "x = Inr cid \<Longrightarrow> cid \<notin> rv_issued (view e)"
proof -
  have "view e' = view e \<and> (case x of Inr cid \<Rightarrow> cid \<notin> rv_issued (view e) | Inl _ \<Rightarrow> True)"
    using engine assms unfolding engine_documented_def by blast
  then show "view e' = view e" "x = Inr cid \<Longrightarrow> cid \<notin> rv_issued (view e)" by auto
qed

lemma start_law:
  "en_start en c e = (e', x) \<Longrightarrow> view e' = (case x of Inl _ \<Rightarrow> view e
     | Inr _ \<Rightarrow> (view e)\<lparr>rv_started := insert c (rv_started (view e)), rv_issued := insert c (rv_issued (view e))\<rparr>)"
  using engine unfolding engine_documented_def by blast

lemma stop_law:
  assumes "en_stop en c e = (e', x)"
  shows "x = Inr u \<Longrightarrow> view e' = (view e)\<lparr>rv_started := rv_started (view e) - {c}\<rparr>"
    and "x = Inl a \<Longrightarrow> view e' = view e" and "x = Inl (ApiStatus 304) \<Longrightarrow> c \<notin> rv_started (view e)"
proof -
  have "case x of Inr _ \<Rightarrow> view e' = (view e)\<lparr>rv_started := rv_started (view e) - {c}\<rparr>
      | Inl a \<Rightarrow> view e' = view e \<and> (a = ApiStatus 304 \<longrightarrow> c \<notin> rv_started (view e))"
    using engine assms unfolding engine_documented_def by blast
  then show "x = Inr u \<Longrightarrow> view e' = (view e)\<lparr>rv_started := rv_started (view e) - {c}\<rparr>"
    "x = Inl a \<Longrightarrow> view e' = view e" "x = Inl (ApiStatus 304) \<Longrightarrow> c \<notin> rv_started (view e)" by auto
qed

lemma remove_law:
  "en_remove en f c e = (e', x) \<Longrightarrow>
     view e' = (view e)\<lparr>rv_started := rv_started (view e) - {c}\<rparr> \<or> (\<not> is_ok x \<and> view e' = view e)"
  using engine unfolding engine_documented_def by blast

section \<open>The operations\<close>

lemma docker_create_effect:
  assumes "docker_create_and_start en f64 spec e = (e', x)"
  shows "case x of
      Inl _ \<Rightarrow> rv_pods (view e') = rv_pods (view e) \<and> rv_started (view e) \<subseteq> rv_started (view e') \<and>
        rv_issued (view e) \<subseteq> rv_issued (view e')
    | Inr (cid, _) \<Rightarrow> cid \<notin> rv_issued (view e) \<and>
        view e' = (view e)\<lparr>rv_started := insert cid (rv_started (view e)), rv_issued := insert cid (rv_issued (view e))\<rparr>"
proof (cases "docker_container_name spec (en_ulid en e)")
  case None
  then show ?thesis using assms by (auto simp: docker_create_and_start_def)
next
  case (Some name)
  obtain e1 y where y: "en_create en name (docker_config_of f64 spec) e = (e1, y)"
    by fastforce
  note cr = create_law[OF y]
  show ?thesis
  proof (cases y)
    case (Inl a)
    then show ?thesis using assms cr(1) by (auto simp: docker_create_and_start_def Some y)
  next
    case (Inr cid)
    obtain e2 z where z: "en_start en cid e1 = (e2, z)" by fastforce
    note st = start_law[OF z]
    show ?thesis
    proof (cases z)
      case (Inl a)
      then show ?thesis using assms cr(1) st by (auto simp: docker_create_and_start_def Some y Inr z)
    next
      case (Inr u)
      have v: "view e2 = (view e)\<lparr>rv_started := insert cid (rv_started (view e)), rv_issued := insert cid (rv_issued (view e))\<rparr>"
        using st cr(1) by (simp add: Inr)
      have x: "e' = e2" "case x of Inl _ \<Rightarrow> True | Inr (i, _) \<Rightarrow> i = cid"
        using assms \<open>y = Inr cid\<close>
        by (auto simp: docker_create_and_start_def Some y z Inr result_simps and_then_def split: sum.splits if_splits)
      show ?thesis using x v cr(2)[OF \<open>y = Inr cid\<close>] by (cases x) auto
    qed
  qed
qed

lemma docker_stop_effect:
  assumes "docker_stop en c e = (e', x)"
  shows "view e' = (case x of Inl _ \<Rightarrow> view e | Inr _ \<Rightarrow> (view e)\<lparr>rv_started := rv_started (view e) - {c}\<rparr>)"
proof -
  obtain e1 y where y: "en_stop en c e = (e1, y)" by fastforce
  show ?thesis
  proof (cases y)
    case (Inl a)
    then show ?thesis
      using assms stop_law(2,3)[OF y] by (auto simp: docker_stop_def y view_minus_id split: if_splits)
  next
    case (Inr u)
    then show ?thesis using assms stop_law(1)[OF y Inr] by (auto simp: docker_stop_def y)
  qed
qed

lemma docker_remove_effect:
  assumes "docker_stop_and_remove en c e = (e', x)"
  shows "view e' = (view e)\<lparr>rv_started := rv_started (view e) - {c}\<rparr> \<or> (\<not> is_ok x \<and> view e' = view e)"
proof -
  obtain e1 y where y: "docker_stop en c e = (e1, y)" by fastforce
  obtain e2 z where z: "en_remove en False c e1 = (e2, z)" by fastforce
  show ?thesis
    using assms docker_stop_effect[OF y] remove_law[OF z]
    by (cases y; cases z) (auto simp: docker_stop_and_remove_def y z)
qed

lemma docker_extract_quiet: "view (fst (docker_extract en tar i t p e)) = view e"
proof -
  let ?cfg = "\<lparr>dk_image = i @ '':'' @ t, dk_env = [], dk_labels = [], dk_port_bindings = None, dk_network = None,
                 dk_memory = None, dk_nano_cpus = None, dk_mounts = None\<rparr>"
  obtain e1 x where x: "en_create en (''slip-extract-'' @ take 8 (en_ulid en e)) ?cfg e = (e1, x)" by fastforce
  note cr = create_law[OF x]
  show ?thesis
  proof (cases x)
    case (Inl a)
    then show ?thesis using cr x by (simp add: docker_extract_def)
  next
    case (Inr cid)
    obtain e2 z where z: "en_remove en True cid e1 = (e2, z)" by fastforce
    have "cid \<notin> rv_started (view e1)" using cr(2)[OF Inr] started_issued[of e] cr(1) by auto
    then have "view e2 = view e1" using remove_law[OF z] view_minus_id by metis
    then show ?thesis using cr x z Inr by (simp add: docker_extract_def)
  qed
qed

lemma docker_documented: "runtime_documented (docker_ops en f64 tar) view"
proof -
  have pull: "quiet_op view (ro_pull (docker_ops en f64 tar) i t c)" for i t c
    using pull_quiet[of i t c]
    by (auto simp: quiet_op_def docker_ops_def docker_pull_def case_prod_beta Let_def)
  show ?thesis
    unfolding runtime_documented_def
  proof (intro conjI allI impI)
    fix spec r r' x
    assume "ro_create_and_start (docker_ops en f64 tar) spec r = (r', x)"
    then obtain y where y: "docker_create_and_start en f64 spec r = (r', y)"
      "x = (case y of Inl e \<Rightarrow> Inl (docker_runtime_error e) | Inr z \<Rightarrow> Inr z)"
      by (cases "docker_create_and_start en f64 spec r") (auto simp: docker_ops_def as_runtime_def)
    then show "case x of Inl _ \<Rightarrow> rv_pods (view r') = rv_pods (view r) \<and> rv_started (view r) \<subseteq> rv_started (view r') \<and>
             rv_issued (view r) \<subseteq> rv_issued (view r')
         | Inr (cid, _) \<Rightarrow> cid \<notin> rv_issued (view r) \<and>
             view r' = (view r)\<lparr>rv_started := insert cid (rv_started (view r)), rv_issued := insert cid (rv_issued (view r))\<rparr>"
      using docker_create_effect[OF y(1)] by (cases y) auto
  next
    fix c r r' x
    assume "ro_stop (docker_ops en f64 tar) c r = (r', x)"
    then show "view r' = (case x of Inl _ \<Rightarrow> view r | Inr _ \<Rightarrow> (view r)\<lparr>rv_started := rv_started (view r) - {c}\<rparr>)"
      using docker_stop_effect[of c r] by (cases "docker_stop en c r") (auto simp: docker_ops_def as_runtime_def split: sum.splits)
  next
    fix c r r' x
    assume "ro_start (docker_ops en f64 tar) c r = (r', x)"
    then show "view r' = (case x of Inl _ \<Rightarrow> view r
        | Inr _ \<Rightarrow> (view r)\<lparr>rv_started := insert c (rv_started (view r)), rv_issued := insert c (rv_issued (view r))\<rparr>)"
      using start_law[of c r]
      by (cases "en_start en c r") (auto simp: docker_ops_def as_runtime_def docker_start_def split: sum.splits)
  next
    fix c r r' x
    assume "ro_stop_and_remove (docker_ops en f64 tar) c r = (r', x)"
    then show "view r' = (view r)\<lparr>rv_started := rv_started (view r) - {c}\<rparr> \<or> (\<not> is_ok x \<and> view r' = view r)"
      using docker_remove_effect[of c r]
      by (cases "docker_stop_and_remove en c r") (auto simp: docker_ops_def as_runtime_def split: sum.splits)
  qed (use pull docker_extract_quiet in \<open>auto simp: quiet_op_def docker_ops_def as_runtime_def\<close>)
qed

end

text \<open>An orchestrator over this backend is one over a documented runtime.\<close>

locale docker_deploy = docker_engine_spec en view
  for en :: "'e docker_engine" and view :: "'e \<Rightarrow> rt_view" +
  fixes env :: "('e, 'p) deploy_env" and f64 :: "string \<Rightarrow> int option" and tar :: "string \<Rightarrow> tar_item list option"
  assumes backend: "de_runtime env = docker_ops en f64 tar"

sublocale docker_deploy \<subseteq> container_runtime env view
  by unfold_locales (simp add: backend docker_documented)

section \<open>A reference engine\<close>

text \<open>\<open>re_crash\<close> makes every container exit as soon as it is started.\<close>

record ref_engine =
  re_next :: nat
  re_created :: "string list"
  re_started :: "string list"
  re_known :: "string list"
  re_crash :: bool

definition re_view :: "ref_engine \<Rightarrow> rt_view" where
  "re_view e = \<lparr>rv_started = set (re_started e) \<inter> set (re_known e), rv_pods = {}, rv_issued = set (re_known e)\<rparr>"

definition ref_docker :: "ref_engine docker_engine" where
  "ref_docker =
     \<lparr>en_create_image = \<lambda>_ _ _ e. (e, [PullInfo None]),
      en_create = \<lambda>_ _ e. (let cid = show_nat (re_next e) in
        if List.member (re_known e) cid then (e, Inl (ApiStatus 409))
        else (e\<lparr>re_next := re_next e + 1, re_created := cid # re_created e\<rparr>, Inr cid)),
      en_start = \<lambda>c e. (e\<lparr>re_started := c # re_started e, re_known := c # re_known e\<rparr>, Inr ()),
      en_stop = \<lambda>c e. (if List.member (re_started e) c
        then (e\<lparr>re_started := filter (\<lambda>d. d \<noteq> c) (re_started e)\<rparr>, Inr ()) else (e, Inl (ApiStatus 304))),
      en_remove = \<lambda>force c e. (if \<not> force \<and> List.member (re_started e) c then (e, Inl (ApiStatus 409))
        else (e\<lparr>re_started := filter (\<lambda>d. d \<noteq> c) (re_started e), re_created := filter (\<lambda>d. d \<noteq> c) (re_created e)\<rparr>, Inr ())),
      en_inspect = \<lambda>c e. (if \<not> List.member (re_created e) c then Inl (ApiStatus 404)
        else Inr \<lparr>in_running = Some (List.member (re_started e) c \<and> \<not> re_crash e),
                  in_ports = Some [(port_key 8080, Some [Some ''32768''])]\<rparr>),
      en_download = \<lambda>_ _ _. [ChunkError (ApiStatus 404)],
      en_inspect_network = \<lambda>_ _. Inr (), en_create_network = \<lambda>_ e. (e, Inr ()),
      en_ulid = \<lambda>_. ''01hxyz''\<rparr>"

lemma ref_docker_documented: "engine_documented ref_docker re_view"
  unfolding engine_documented_def quiet_op_def
  by (intro conjI allI impI) (auto simp: ref_docker_def re_view_def Let_def split: if_splits)

definition docker_env :: "(ref_engine, caddy_server) deploy_env" where
  "docker_env =
     \<lparr>de_runtime = docker_ops ref_docker (\<lambda>_. None) (\<lambda>_. None), de_set_routes = set_routes (server_ops True),
      de_remove_route = remove_route (server_ops True), de_probes = (\<lambda>_ _ _. ProbeResponse 200),
      de_parse_repo = (\<lambda>_. None), de_parse_yaml = (\<lambda>_. None), de_emit_yaml = (\<lambda>_. None), de_bind = None,
      de_codec = Bindings.sample_codec, de_registries = [], de_env_file = (\<lambda>_. None), de_lock_free = True,
      de_mkdir_ok = True, de_write_ok = True, de_pod_suffix = ''01abc'', de_storage = ''/var/lib/slip'', de_now = 1000\<rparr>"

interpretation ref_docker_deploy: docker_deploy ref_docker re_view docker_env "\<lambda>_. None" "\<lambda>_. None"
  by unfold_locales (simp_all add: ref_docker_documented docker_env_def)

definition docker_world :: "bool \<Rightarrow> (ref_engine, caddy_server) world" where
  "docker_world crash =
     \<lparr>w_apps = [(''web'', web_app ''blue-green'')], w_states = [(''web'', web_state\<lparr>as_current_container_id := Some ''1''\<rparr>)],
      w_deploys = [], w_db = [], w_dir = [], w_secrets = None, w_manifests = [],
      w_rt = \<lparr>re_next = 2, re_created = [''1''], re_started = [''1''], re_known = [''1''], re_crash = crash\<rparr>,
      w_px = \<lparr>sv_routes = [web_route 29000], sv_policies = None, sv_config = JNull, sv_faults = []\<rparr>,
      w_ctx = deploy_context_new 900 ''dep_1'' ''web'' ''ghcr.io/me/web'' ''v2'' TrCli\<rparr>"

section \<open>Properties\<close>

text \<open>C31. The Docker backend implements the runtime contract the orchestrator's guarantees rest on: on an
  engine whose requests have their documented effect, a successful creation starts exactly one fresh
  container, a stop or removal affects only the named one, and all other operations affect none.\<close>

theorem docker_backend_refines:
  assumes "engine_documented en view"
  shows "runtime_documented (docker_ops en f64 tar) view"
  by (rule docker_engine_spec.docker_documented) (rule docker_engine_spec.intro[OF assms])

lemma docker_backend_refines_witness: "runtime_documented (docker_ops ref_docker (\<lambda>_. None) (\<lambda>_. None)) re_view"
  by (rule docker_backend_refines[OF ref_docker_documented])

text \<open>The guarantee of the orchestrator on this backend, through the sublocale.\<close>

lemma docker_deploy_outcome:
  "outcome re_view ''web'' (docker_world c) docker_env (execute_deploy_inner docker_env (docker_world c))"
proof -
  have app: "dx_app (w_ctx (docker_world c)) = ''web''" by (simp add: docker_world_def deploy_context_new_def)
  have "tracked re_view ''web'' (docker_world c)"
    by (auto simp: tracked_def docker_world_def view_of_def re_view_def old_container_def current_manifest_def
        web_state_def default_runtime_state_def)
  then show ?thesis using ref_docker_deploy.inner_outcome[of "docker_world c"] by (simp add: app)
qed

text \<open>A creation whose container does not keep running reports an error and leaves the container behind:
  the deploy fails without an id in its context, so nothing can remove it.\<close>

theorem failed_creation_leaks:
  "let w = execute_deploy_inner docker_env (docker_world True) in
     dx_error (w_ctx w) = Some DfContainerStart \<and> dx_new_container_id (w_ctx w) = None \<and>
     re_created (w_rt w) = [''3'', ''1''] \<and> re_started (w_rt w) = [''3'', ''1'']"
  by code_simp

section \<open>Memory limits\<close>

definition memory_units :: "(string \<times> int) list" where
  "memory_units = [(''g'', 1073741824), (''gb'', 1073741824), (''m'', 1048576), (''mb'', 1048576),
     (''k'', 1024), (''kb'', 1024), ([], 1)]"

lemma strip_suffix_last: "s \<noteq> [] \<Longrightarrow> p \<noteq> [] \<Longrightarrow> last s \<noteq> last p \<Longrightarrow> strip_suffix p s = None"
proof (cases "strip_suffix p s")
  case (Some r)
  then have "s = r @ p" by (simp only: strip_suffix_Some_iff)
  then show "p \<noteq> [] \<Longrightarrow> last s \<noteq> last p \<Longrightarrow> ?thesis" by simp
qed

lemma strip_suffix_append [simp]: "strip_suffix p (r @ p) = Some r"
  by (simp add: strip_suffix_Some_iff)

lemma strip_suffix_two: "a \<noteq> a' \<Longrightarrow> strip_suffix [a, b] (r @ [a', b]) = None"
proof (cases "strip_suffix [a, b] (r @ [a', b])")
  case (Some t)
  then have "r @ [a', b] = t @ [a, b]" by (simp only: strip_suffix_Some_iff)
  then show "a \<noteq> a' \<Longrightarrow> ?thesis" by simp
qed

lemma memory_unit_show:
  assumes "(u, k) \<in> set memory_units"
  shows "memory_unit (show_nat n @ u) = (show_nat n, k)"
proof -
  have d: "is_digit (last (show_nat n))" using show_nat_digits[of n] by (metis last_in_set list_all_iff show_nat_not_Nil)
  then have l: "last (show_nat n) \<noteq> CHR ''g''" "last (show_nat n) \<noteq> CHR ''b''" "last (show_nat n) \<noteq> CHR ''m''"
    "last (show_nat n) \<noteq> CHR ''k''" by (auto simp: is_digit_def)
  show ?thesis
    using assms l by (auto simp: memory_units_def memory_unit_def strip_suffix_last strip_suffix_two)
qed

lemma mul_i64_wraps: "mul_i64 a b = (a * b + 2 ^ 63) mod 2 ^ 64 - 2 ^ 63"
  unfolding mul_i64_def sint_sbintrunc' by (simp add: signed_take_bit_eq_take_bit_shift take_bit_eq_mod)

lemma parse_i64_show: "parse_i64 (show_nat n) = (if int n < 2 ^ 63 then Some (int n) else None)"
proof -
  have "hd (show_nat n) \<noteq> CHR ''-''" using show_nat_chars[of "hd (show_nat n)" n] by (auto simp: is_digit_def)
  then show ?thesis using parse_uint_show_nat[of 9223372036854775807 n]
    by (cases "show_nat n") (auto simp: parse_i64_def simp del: parse_uint_show_nat)
qed

lemma parse_memory_show:
  assumes "(u, k) \<in> set memory_units"
  shows "parse_memory_limit (Some (show_nat n @ u)) = map_option (\<lambda>m. mul_i64 m k) (parse_i64 (show_nat n))"
proof -
  have g: "list_all is_graph (show_nat n @ u)"
    using assms by (auto simp: memory_units_def is_graph_def)
  have "map to_lower (show_nat n) = show_nat n"
    by (rule map_idI) (auto dest!: show_nat_chars simp: to_lower_def char_class_disjoint(2))
  moreover have "map to_lower u = u" using assms by (auto simp: memory_units_def to_lower_def is_upper_def)
  ultimately have "ascii_lowercase (show_nat n @ u) = show_nat n @ u" by (simp add: ascii_lowercase_def)
  then show ?thesis using g memory_unit_show[OF assms] by (simp add: parse_memory_limit_def Let_def)
qed

text \<open>C32. A memory limit of \<open>n\<close> units of \<open>k\<close> bytes is refused when the number itself does not fit into 63
  bits. Otherwise the answer is the product modulo 2 to the 64, read as a signed number: the byte count
  exactly as long as that fits into 63 bits. Beyond, a release build wraps: \<open>17179869184g\<close> becomes 0, which
  the engine takes for no limit.\<close>

theorem parse_memory_limit_spec:
  assumes "(u, k) \<in> set memory_units"
  shows "parse_memory_limit (Some (show_nat n @ u)) =
      (if int n < 2 ^ 63 then Some ((int n * k + 2 ^ 63) mod 2 ^ 64 - 2 ^ 63) else None) \<and>
    (parse_memory_limit (Some (show_nat n @ u)) = Some (int n * k) \<longleftrightarrow> int n * k < 2 ^ 63) \<and>
    parse_memory_limit (Some ''17179869184g'') = Some 0"
proof (intro conjI)
  show p: "parse_memory_limit (Some (show_nat n @ u)) =
      (if int n < 2 ^ 63 then Some ((int n * k + 2 ^ 63) mod 2 ^ 64 - 2 ^ 63) else None)"
    unfolding parse_memory_show[OF assms] parse_i64_show by (simp add: mul_i64_wraps)
  have k: "0 < k" using assms by (auto simp: memory_units_def)
  have "int n * k < 2 ^ 63 \<Longrightarrow> int n < 2 ^ 63" using mult_left_mono[of 1 k "int n"] k by simp
  moreover have "0 \<le> int n * k" using k by simp
  moreover have "(x + 2 ^ 63) mod 2 ^ 64 - 2 ^ 63 = x \<longleftrightarrow> x < 2 ^ 63" if "0 \<le> x" for x :: int
    using that pos_mod_bound[of "2 ^ 64" "x + 2 ^ 63"] mod_pos_pos_trivial[of "x + 2 ^ 63" "2 ^ 64"]
    by (cases "x < 2 ^ 63") simp_all
  ultimately show "parse_memory_limit (Some (show_nat n @ u)) = Some (int n * k) \<longleftrightarrow> int n * k < 2 ^ 63"
    unfolding p by auto
  show "parse_memory_limit (Some ''17179869184g'') = Some 0" by code_simp
qed

lemma parse_memory_limit_spec_witness:
  "parse_memory_limit (Some (show_nat 512 @ ''m'')) = Some (int 512 * 1048576) \<and>
   parse_memory_limit (Some (show_nat 9223372036854775808 @ [])) = None"
  using parse_memory_limit_spec[of "''m''" 1048576 512] parse_memory_limit_spec[of "[]" 1 9223372036854775808]
  by (simp add: memory_units_def)

end
