(* ===== verification/ServiceSpec.thy ===== *)
theory ServiceSpec
  imports ImageRef Json
begin

text \<open>
  \<open>services/spec.rs\<close>: the validated value types of a managed service (provider, version, instance
  id, secret reference, container id, spec hash, image, failure code), the desired specification,
  the control state with its two constructors, the lifecycle phases, and the canonical preimage of
  the specification hash.  A newtype is a datatype with one constructor; since HOL has no private
  constructors, \<open>spec_valid\<close> and \<open>state_valid\<close> state what the Rust constructors establish.  SHA-256
  with hexadecimal encoding and the JSON printer are parameters; times are nanoseconds.
\<close>

section \<open>Providers, versions and errors\<close>

datatype provider_kind = PkPostgres

datatype version_fault =
    VersionEmpty
  | VersionLength nat
  | VersionChars string
  | VersionEnds string
  | VersionNoDot string
  | VersionDots string
  | VersionBadMajor string
  | VersionMajorRange int
  | DataMajorRange int
  | UnsupportedMajor int

datatype id_kind = IdInstance | IdContainer | IdSpecHash

datatype internal_reason =
    IdLength id_kind nat
  | IdChars id_kind
  | Csprng
  | UnknownPurpose string
  | RefLength nat
  | RefPrefix
  | RefShape
  | RefTraversal
  | ImageLength nat
  | ImageControl
  | UnknownFailureCode string
  | GenerationNotPositive
  | SecretRefForeign
  | CapabilityForeign
  | ImageRefInvalid
  | ServiceNotFound string
  | StateNotFound
  | ReattachedMissing
  | SecretGenerationFailed
  | SecretPointerFailed
  | SecretBundleFailed
  | PersistenceFailed
  | RepositoryFailed
  | ProviderInternal string

datatype conflict_cause =
    SpecDiffers
  | RetainedDiffers
  | StaleGeneration int int
  | IdentityField string
  | ActiveBindings "string list"

datatype service_error =
    UnknownProvider string
  | InvalidVersion version_fault
  | InvalidPhase string
  | InvalidHealth string
  | InvalidServiceName service_name_error
  | FilesystemCheck string string
  | OwnershipMismatch string
  | ForeignContainer
  | Blocked string string
  | ProvisionFailed string
  | SvInternal internal_reason
  | ContainerNotFound
  | ReadinessFailed string
  | SvConflict conflict_cause
  | ConcurrentModification

definition provider_kind_parse :: "string \<Rightarrow> service_error + provider_kind" where
  "provider_kind_parse s = (if s = ''postgres'' then Inr PkPostgres else Inl (UnknownProvider s))"

fun provider_kind_str :: "provider_kind \<Rightarrow> string" where
  "provider_kind_str PkPostgres = ''postgres''"

datatype provider_version = ProviderVersion (version_str: string)

definition major_str :: "string \<Rightarrow> string" where
  "major_str s = hd (split_on (CHR ''.'') s)"

definition provider_version_parse :: "string \<Rightarrow> service_error + provider_version" where
  "provider_version_parse input =
     (let s = trim input in
      if s = [] then Inl (InvalidVersion VersionEmpty)
      else if length s < 3 \<or> length s > 32 then Inl (InvalidVersion (VersionLength (length s)))
      else if \<not> list_all (\<lambda>c. is_digit c \<or> c = CHR ''.'') s then Inl (InvalidVersion (VersionChars s))
      else if \<not> is_digit (hd s) \<or> \<not> is_digit (last s) then Inl (InvalidVersion (VersionEnds s))
      else if CHR ''.'' \<notin> set s then Inl (InvalidVersion (VersionNoDot s))
      else if sublist ''..'' s then Inl (InvalidVersion (VersionDots s))
      else (case parse_i64 (major_str s) of
              None \<Rightarrow> Inl (InvalidVersion (VersionBadMajor (major_str s)))
            | Some m \<Rightarrow>
                if m \<le> 0 \<or> m \<ge> 100000 then Inl (InvalidVersion (VersionMajorRange m))
                else Inr (ProviderVersion s)))"

definition version_major :: "provider_version \<Rightarrow> int" where
  "version_major v = (case parse_i64 (major_str (version_str v)) of Some m \<Rightarrow> m | None \<Rightarrow> 0)"

section \<open>Identifiers\<close>

datatype instance_id = InstanceId (instance_id_str: string)
datatype container_id = ContainerId (container_id_str: string)
datatype spec_hash = SpecHash (spec_hash_str: string)
datatype resolved_image = ResolvedImage (resolved_image_str: string)

definition check_hex :: "id_kind \<Rightarrow> nat \<Rightarrow> string \<Rightarrow> service_error + unit" where
  "check_hex k n s =
     (if length s \<noteq> n then Inl (SvInternal (IdLength k (length s)))
      else if \<not> list_all is_lower_hex s then Inl (SvInternal (IdChars k))
      else Inr ())"

definition instance_id_generate :: "string option \<Rightarrow> service_error + instance_id" where
  "instance_id_generate entropy =
     (case entropy of None \<Rightarrow> Inl (SvInternal Csprng) | Some h \<Rightarrow> Inr (InstanceId h))"

definition instance_id_parse :: "string \<Rightarrow> service_error + instance_id" where
  "instance_id_parse s = and_then (check_hex IdInstance 32 s) (\<lambda>_. Inr (InstanceId s))"

definition container_id_parse :: "string \<Rightarrow> service_error + container_id" where
  "container_id_parse s = and_then (check_hex IdContainer 64 s) (\<lambda>_. Inr (ContainerId s))"

definition spec_hash_parse :: "string \<Rightarrow> service_error + spec_hash" where
  "spec_hash_parse s = and_then (check_hex IdSpecHash 64 s) (\<lambda>_. Inr (SpecHash s))"

text \<open>\<open>char::is_control\<close> anywhere in the string.\<close>

fun any_control :: "string \<Rightarrow> bool" where
  "any_control [] = False"
| "any_control (c # cs) = (ctl_at (c # cs) \<or> any_control cs)"

definition resolved_image_parse :: "string \<Rightarrow> service_error + resolved_image" where
  "resolved_image_parse s =
     (if s = [] \<or> length s > 512 then Inl (SvInternal (ImageLength (length s)))
      else if any_control s then Inl (SvInternal ImageControl)
      else Inr (ResolvedImage s))"

datatype secret_purpose = Superuser

fun secret_purpose_str :: "secret_purpose \<Rightarrow> string" where
  "secret_purpose_str Superuser = ''superuser''"

definition secret_purpose_parse :: "string \<Rightarrow> service_error + secret_purpose" where
  "secret_purpose_parse s =
     (if s = ''superuser'' then Inr Superuser else Inl (SvInternal (UnknownPurpose s)))"

record secret_ref =
  sref_instance :: string
  sref_purpose :: string

definition secret_ref_new :: "instance_id \<Rightarrow> secret_purpose \<Rightarrow> secret_ref" where
  "secret_ref_new i p = \<lparr>sref_instance = instance_id_str i, sref_purpose = secret_purpose_str p\<rparr>"

definition secret_ref_str :: "secret_ref \<Rightarrow> string" where
  "secret_ref_str r = ''service/'' @ sref_instance r @ ''/'' @ sref_purpose r"

definition secret_ref_parse :: "string \<Rightarrow> service_error + secret_ref" where
  "secret_ref_parse s =
     (if length s < 10 \<or> length s > 256 then Inl (SvInternal (RefLength (length s)))
      else case strip_prefix ''service/'' s of
        None \<Rightarrow> Inl (SvInternal RefPrefix)
      | Some rest \<Rightarrow>
          (case split_once (CHR ''/'') rest of
             None \<Rightarrow> Inl (SvInternal RefShape)
           | Some (i, p) \<Rightarrow>
               and_then (instance_id_parse i) (\<lambda>_.
               and_then (secret_purpose_parse p) (\<lambda>_.
               if sublist ''..'' s then Inl (SvInternal RefTraversal)
               else Inr \<lparr>sref_instance = i, sref_purpose = p\<rparr>))))"

section \<open>Closed enumerations\<close>

datatype failure_code =
    FcProvisionFailed | FcHealthTimeout | FcOwnershipMismatch | FcFilesystemCheck
  | FcImagePullFailed | FcReadinessFailed | FcInternal

fun failure_code_str :: "failure_code \<Rightarrow> string" where
  "failure_code_str FcProvisionFailed = ''provision_failed''"
| "failure_code_str FcHealthTimeout = ''health_timeout''"
| "failure_code_str FcOwnershipMismatch = ''ownership_mismatch''"
| "failure_code_str FcFilesystemCheck = ''filesystem_check''"
| "failure_code_str FcImagePullFailed = ''image_pull_failed''"
| "failure_code_str FcReadinessFailed = ''readiness_failed''"
| "failure_code_str FcInternal = ''internal''"

definition failure_code_parse :: "string \<Rightarrow> service_error + failure_code" where
  "failure_code_parse s =
     (if s = ''provision_failed'' then Inr FcProvisionFailed
      else if s = ''health_timeout'' then Inr FcHealthTimeout
      else if s = ''ownership_mismatch'' then Inr FcOwnershipMismatch
      else if s = ''filesystem_check'' then Inr FcFilesystemCheck
      else if s = ''image_pull_failed'' then Inr FcImagePullFailed
      else if s = ''readiness_failed'' then Inr FcReadinessFailed
      else if s = ''internal'' then Inr FcInternal
      else Inl (SvInternal (UnknownFailureCode s)))"

datatype lifecycle_phase = Provisioning | Ready | Deleting | Retained | PhBlocked | PhError

fun phase_str :: "lifecycle_phase \<Rightarrow> string" where
  "phase_str Provisioning = ''provisioning''"
| "phase_str Ready = ''ready''"
| "phase_str Deleting = ''deleting''"
| "phase_str Retained = ''retained''"
| "phase_str PhBlocked = ''blocked''"
| "phase_str PhError = ''error''"

definition phase_parse :: "string \<Rightarrow> service_error + lifecycle_phase" where
  "phase_parse s =
     (if s = ''provisioning'' then Inr Provisioning
      else if s = ''ready'' then Inr Ready
      else if s = ''deleting'' then Inr Deleting
      else if s = ''retained'' then Inr Retained
      else if s = ''blocked'' then Inr PhBlocked
      else if s = ''error'' then Inr PhError
      else Inl (InvalidPhase s))"

fun eligible_for_retain :: "lifecycle_phase \<Rightarrow> bool" where
  "eligible_for_retain Provisioning = True"
| "eligible_for_retain Ready = True"
| "eligible_for_retain PhError = True"
| "eligible_for_retain PhBlocked = True"
| "eligible_for_retain _ = False"

datatype health_kind = Healthy | Unhealthy | Starting | HkUnknown

fun health_str :: "health_kind \<Rightarrow> string" where
  "health_str Healthy = ''healthy''"
| "health_str Unhealthy = ''unhealthy''"
| "health_str Starting = ''starting''"
| "health_str HkUnknown = ''unknown''"

definition health_parse :: "string \<Rightarrow> service_error + health_kind" where
  "health_parse s =
     (if s = ''healthy'' then Inr Healthy
      else if s = ''unhealthy'' then Inr Unhealthy
      else if s = ''starting'' then Inr Starting
      else if s = ''unknown'' then Inr HkUnknown
      else Inl (InvalidHealth s))"

section \<open>Specification and state\<close>

text \<open>\<open>PostgresConfig\<close> has no fields.\<close>

datatype postgres_config = PostgresConfig

record service_spec =
  sp_name :: service_name
  sp_provider :: provider_kind
  sp_version :: provider_version
  sp_config :: postgres_config

definition service_spec_new ::
  "service_name \<Rightarrow> provider_kind \<Rightarrow> provider_version \<Rightarrow> postgres_config \<Rightarrow> service_error + service_spec" where
  "service_spec_new n p v c = Inr \<lparr>sp_name = n, sp_provider = p, sp_version = v, sp_config = c\<rparr>"

record service_state =
  ss_name :: service_name
  ss_provider :: provider_kind
  ss_data_major :: int
  ss_version :: provider_version
  ss_instance :: instance_id
  ss_generation :: int
  ss_phase :: lifecycle_phase
  ss_container :: "container_id option"
  ss_image :: resolved_image
  ss_hash :: "spec_hash option"
  ss_secret :: secret_ref
  ss_health :: "health_kind option"
  ss_error :: "failure_code option"
  ss_checked :: "int option"
  ss_updated :: int

definition for_provisioning ::
  "string option \<Rightarrow> service_name \<Rightarrow> provider_kind \<Rightarrow> provider_version \<Rightarrow> resolved_image \<Rightarrow> int \<Rightarrow>
     service_error + service_state" where
  "for_provisioning entropy n p v img now =
     (let m = version_major v in
      if m \<le> 0 \<or> m \<ge> 100000 then Inl (InvalidVersion (DataMajorRange m))
      else and_then (instance_id_generate entropy) (\<lambda>i. Inr
        \<lparr>ss_name = n, ss_provider = p, ss_data_major = m, ss_version = v, ss_instance = i,
         ss_generation = 1, ss_phase = Provisioning, ss_container = None, ss_image = img,
         ss_hash = None, ss_secret = secret_ref_new i Superuser, ss_health = None, ss_error = None,
         ss_checked = None, ss_updated = now\<rparr>))"

definition from_validated :: "service_state \<Rightarrow> service_error + service_state" where
  "from_validated s =
     (if ss_data_major s \<le> 0 \<or> ss_data_major s \<ge> 100000
      then Inl (InvalidVersion (DataMajorRange (ss_data_major s)))
      else if ss_generation s \<le> 0 then Inl (SvInternal GenerationNotPositive)
      else if sref_instance (ss_secret s) \<noteq> instance_id_str (ss_instance s)
      then Inl (SvInternal SecretRefForeign)
      else Inr s)"

section \<open>The canonical preimage and the specification hash\<close>

fun canonicalize_value :: "json \<Rightarrow> json" where
  "canonicalize_value (JObj m) = JObj (sort_key fst (map (\<lambda>(k, v). (k, canonicalize_value v)) m))"
| "canonicalize_value (JArr xs) = JArr (map canonicalize_value xs)"
| "canonicalize_value j = j"

fun config_value :: "postgres_config \<Rightarrow> json" where
  "config_value PostgresConfig = JObj []"

definition canonical_spec :: "service_spec \<Rightarrow> json" where
  "canonical_spec sp = jobj
     [(''name'', JStr (service_name_str (sp_name sp))),
      (''type'', JStr (provider_kind_str (sp_provider sp))),
      (''version'', JStr (version_str (sp_version sp))),
      (''config'', canonicalize_value (config_value (sp_config sp)))]"

definition hash_domain :: string where
  "hash_domain = ''slip-service-spec-v1'' @ [CHR 0x00]"

definition effective_hash :: "(string \<Rightarrow> string) \<Rightarrow> (json \<Rightarrow> string) \<Rightarrow> service_spec \<Rightarrow> spec_hash" where
  "effective_hash sha_hex print sp = SpecHash (sha_hex (hash_domain @ print (canonical_spec sp)))"


section \<open>What the constructors establish\<close>

lemma check_hex_iff [result_simps]:
  "check_hex k n s = Inr u \<longleftrightarrow> length s = n \<and> list_all is_lower_hex s"
  by (simp add: check_hex_def)

lemma check_hex_ok [simp]: "length s = n \<Longrightarrow> list_all is_lower_hex s \<Longrightarrow> check_hex k n s = Inr ()"
  by (simp add: check_hex_def)

lemma id_parse_iff [result_simps]:
  "instance_id_parse s = Inr i \<longleftrightarrow> i = InstanceId s \<and> length s = 32 \<and> list_all is_lower_hex s"
  "container_id_parse s = Inr c \<longleftrightarrow> c = ContainerId s \<and> length s = 64 \<and> list_all is_lower_hex s"
  "spec_hash_parse s = Inr h \<longleftrightarrow> h = SpecHash s \<and> length s = 64 \<and> list_all is_lower_hex s"
  by (auto simp: instance_id_parse_def container_id_parse_def spec_hash_parse_def result_simps)

lemma image_parse_iff [result_simps]:
  "resolved_image_parse s = Inr r \<longleftrightarrow>
     r = ResolvedImage s \<and> s \<noteq> [] \<and> length s \<le> 512 \<and> \<not> any_control s"
  by (auto simp: resolved_image_parse_def)

lemma kind_parse_iff [result_simps]: "provider_kind_parse s = Inr k \<longleftrightarrow> s = provider_kind_str k"
  by (cases k) (simp add: provider_kind_parse_def)

lemma phase_parse_iff [result_simps]: "phase_parse s = Inr p \<longleftrightarrow> s = phase_str p"
  by (cases p) (auto simp: phase_parse_def)

lemma health_parse_iff [result_simps]: "health_parse s = Inr h \<longleftrightarrow> s = health_str h"
  by (cases h) (auto simp: health_parse_def)

lemma failure_code_parse_iff [result_simps]: "failure_code_parse s = Inr c \<longleftrightarrow> s = failure_code_str c"
  by (cases c) (auto simp: failure_code_parse_def)

lemma purpose_parse_iff [result_simps]: "secret_purpose_parse s = Inr p \<longleftrightarrow> s = secret_purpose_str p"
  by (cases p) (auto simp: secret_purpose_parse_def)

lemma enum_str_inj [simp]:
  "phase_str p = phase_str q \<longleftrightarrow> p = q"
  "provider_kind_str k = provider_kind_str l \<longleftrightarrow> k = l"
  by (cases p; cases q; simp) (cases k; cases l; simp)

lemma split_once_SomeD: "split_once d s = Some (a, b) \<Longrightarrow> s = a @ d # b \<and> d \<notin> set a"
  unfolding split_once_def
  by (auto split: option.splits dest!: find_idx_SomeD simp: id_take_nth_drop[symmetric] in_set_conv_nth)

lemma hex_dotless: "list_all is_lower_hex h \<Longrightarrow> CHR ''.'' \<notin> set h \<and> CHR ''/'' \<notin> set h"
  using lower_hex_lower_digit lower_digit_separators by (fastforce simp: list_all_iff)

lemma sublist_dots: "CHR ''.'' \<notin> set s \<Longrightarrow> \<not> sublist ''..'' s"
  by (auto dest: set_mono_sublist)

lemma secret_ref_parse_iff [result_simps]:
  "secret_ref_parse s = Inr r \<longleftrightarrow>
     s = secret_ref_str r \<and> length (sref_instance r) = 32 \<and> list_all is_lower_hex (sref_instance r) \<and>
     sref_purpose r = ''superuser''"
proof
  assume "secret_ref_parse s = Inr r"
  then obtain rest i p where "s = ''service/'' @ rest" "split_once (CHR ''/'') rest = Some (i, p)"
      "instance_id_parse i = Inr (InstanceId i)" "secret_purpose_parse p = Inr Superuser"
      "r = \<lparr>sref_instance = i, sref_purpose = p\<rparr>"
    by (auto simp: secret_ref_parse_def strip_prefix_Some_iff and_then_Inr_iff id_parse_iff
        split: if_splits option.splits)
       (metis secret_purpose.exhaust)
  then show "s = secret_ref_str r \<and> length (sref_instance r) = 32 \<and>
      list_all is_lower_hex (sref_instance r) \<and> sref_purpose r = ''superuser''"
    by (auto simp: secret_ref_str_def id_parse_iff purpose_parse_iff dest: split_once_SomeD)
next
  assume a: "s = secret_ref_str r \<and> length (sref_instance r) = 32 \<and>
      list_all is_lower_hex (sref_instance r) \<and> sref_purpose r = ''superuser''"
  then have h: "CHR ''.'' \<notin> set (sref_instance r)" "CHR ''/'' \<notin> set (sref_instance r)"
    using hex_dotless by blast+
  then have d: "\<not> sublist ''..'' s" using a by (intro sublist_dots) (auto simp: secret_ref_str_def)
  have rest: "strip_prefix ''service/'' s = Some (sref_instance r @ ''/superuser'')"
    using a by (simp add: strip_prefix_Some_iff secret_ref_str_def)
  have sp: "split_once (CHR ''/'') (sref_instance r @ ''/superuser'') = Some (sref_instance r, ''superuser'')"
    using h by (simp add: split_once_append)
  have l: "length s = 50" using a by (simp add: secret_ref_str_def)
  have b: "(length s < 10 \<or> length s > 256) = False" using l by simp
  show "secret_ref_parse s = Inr r"
    using a d unfolding secret_ref_parse_def b rest option.case sp prod.case if_False
    by (cases r) (simp add: instance_id_parse_def secret_purpose_parse_def)
qed

lemma secret_ref_new_parse:
  "instance_id_parse (instance_id_str i) = Inr i \<Longrightarrow>
     secret_ref_parse (secret_ref_str (secret_ref_new i p)) = Inr (secret_ref_new i p)"
  by (cases p) (auto simp: result_simps secret_ref_new_def)

lemma secret_ref_str_inj:
  "secret_ref_parse (secret_ref_str a) = Inr a \<Longrightarrow> secret_ref_parse (secret_ref_str b) = Inr b \<Longrightarrow>
     secret_ref_str a = secret_ref_str b \<longleftrightarrow> a = b"
  by (metis sum.inject(2))

section \<open>Versions\<close>

text \<open>The grammar: at least two nonempty groups of digits joined by dots, 3 to 32 bytes, the first
  group between 1 and 99999.\<close>

definition version_grammar :: "string \<Rightarrow> bool" where
  "version_grammar s \<longleftrightarrow>
     (let parts = split_on (CHR ''.'') s
      in 2 \<le> length parts \<and> list_all (\<lambda>p. p \<noteq> [] \<and> list_all is_digit p) parts \<and>
         3 \<le> length s \<and> length s \<le> 32 \<and> 0 < digits_val (hd parts) \<and> digits_val (hd parts) < 100000)"


lemma major_str_sublist: "c \<in> set (major_str s) \<Longrightarrow> c \<in> set s \<and> c \<noteq> CHR ''.''"
  unfolding major_str_def by (metis hd_in_set split_on_not_Nil split_on_parts subsetD)

lemma parse_i64_digits:
  "list_all is_digit p \<Longrightarrow> p \<noteq> [] \<Longrightarrow>
     parse_i64 p = (if digits_val p \<le> 9223372036854775807 then Some (int (digits_val p)) else None)"
  by (cases p) (auto simp: parse_i64_def parse_uint_digits dest: digit_not_sign)

lemma hd_split_Nil: "hd (split_on d s) = [] \<longleftrightarrow> s = [] \<or> hd s = d"
  by (cases s) (auto split: list.splits)

lemma sublist_pair: "sublist [d, d] (c # s) \<longleftrightarrow> (c = d \<and> s \<noteq> [] \<and> hd s = d) \<or> sublist [d, d] s"
  by (cases s) (auto simp: sublist_Cons_right)

lemma tl_split_nonempty:
  "list_all (\<lambda>p. p \<noteq> []) (tl (split_on d s)) \<longleftrightarrow> (s = [] \<or> last s \<noteq> d) \<and> \<not> sublist [d, d] s"
proof (induction s)
  case (Cons c s)
  obtain p ps where ps: "split_on d s = p # ps" by (cases "split_on d s") auto
  have "tl (split_on d (c # s)) = (if c = d then p # ps else ps)" by (simp add: ps)
  moreover have "p = [] \<longleftrightarrow> s = [] \<or> hd s = d" using hd_split_Nil[of d s] by (simp add: ps)
  ultimately show ?case using Cons.IH unfolding sublist_pair by (auto simp: ps)
qed simp

lemma split_nonempty_iff:
  "list_all (\<lambda>p. p \<noteq> []) (split_on d s) \<longleftrightarrow>
     s \<noteq> [] \<and> hd s \<noteq> d \<and> last s \<noteq> d \<and> \<not> sublist [d, d] s"
  using tl_split_nonempty[of d s] hd_split_Nil[of d s] by (cases "split_on d s") auto

lemma split_digits_iff:
  "list_all (\<lambda>p. list_all is_digit p) (split_on (CHR ''.'') s) \<longleftrightarrow>
     list_all (\<lambda>c. is_digit c \<or> c = CHR ''.'') s"
  by (induction s) (auto split: list.splits)

lemma split_length_iff: "2 \<le> length (split_on d s) \<longleftrightarrow> d \<in> set s"
  by (induction s) (auto split: list.splits)


lemma grammar_bytes:
  "version_grammar s \<longleftrightarrow>
     3 \<le> length s \<and> length s \<le> 32 \<and> list_all (\<lambda>c. is_digit c \<or> c = CHR ''.'') s \<and>
     is_digit (hd s) \<and> is_digit (last s) \<and> CHR ''.'' \<in> set s \<and> \<not> sublist ''..'' s \<and>
     0 < digits_val (major_str s) \<and> digits_val (major_str s) < 100000"
proof -
  have parts: "list_all (\<lambda>p. p \<noteq> [] \<and> list_all is_digit p) (split_on (CHR ''.'') s) \<longleftrightarrow>
      s \<noteq> [] \<and> hd s \<noteq> CHR ''.'' \<and> last s \<noteq> CHR ''.'' \<and> \<not> sublist ''..'' s \<and>
      list_all (\<lambda>c. is_digit c \<or> c = CHR ''.'') s"
    using split_nonempty_iff[of "CHR ''.''" s] split_digits_iff[of s]
    by (simp add: list_all_iff) blast
  have ends: "is_digit c \<longleftrightarrow> c \<noteq> CHR ''.''" if "c \<in> set s" "list_all (\<lambda>c. is_digit c \<or> c = CHR ''.'') s" for c
    using that by (auto simp: list_all_iff byte_class_defs)
  have hl: "s \<noteq> [] \<Longrightarrow> list_all (\<lambda>c. is_digit c \<or> c = CHR ''.'') s \<Longrightarrow>
      (is_digit (hd s) \<longleftrightarrow> hd s \<noteq> CHR ''.'') \<and> (is_digit (last s) \<longleftrightarrow> last s \<noteq> CHR ''.'')"
    using ends[of "hd s"] ends[of "last s"] by simp
  have ne: "3 \<le> length s \<Longrightarrow> s \<noteq> []" by auto
  show ?thesis
    unfolding version_grammar_def Let_def parts split_length_iff major_str_def using hl ne by blast
qed

lemma grammar_major:
  assumes "version_grammar s"
  shows "parse_i64 (major_str s) = Some (int (digits_val (major_str s)))"
proof -
  have p: "list_all (\<lambda>p. p \<noteq> [] \<and> list_all is_digit p) (split_on (CHR ''.'') s)"
    and d: "digits_val (major_str s) < 100000"
    using assms by (simp_all add: version_grammar_def Let_def major_str_def)
  have "major_str s \<noteq> [] \<and> list_all is_digit (major_str s)"
    using p hd_in_set[OF split_on_not_Nil, of "CHR ''.''" s] unfolding major_str_def list_all_iff by blast
  then show ?thesis using d by (simp add: parse_i64_digits)
qed

lemma provider_version_parse_grammar:
  "provider_version_parse s = Inr v \<longleftrightarrow> v = ProviderVersion (trim s) \<and> version_grammar (trim s)"
proof (cases "version_grammar (trim s)")
  case True
  note b = True[unfolded grammar_bytes]
  have "provider_version_parse s = Inr (ProviderVersion (trim s))"
    unfolding provider_version_parse_def Let_def grammar_major[OF True] using b by auto
  then show ?thesis using True by auto
next
  case False
  show ?thesis
  proof
    assume a: "provider_version_parse s = Inr v"
    then obtain m where m: "parse_i64 (major_str (trim s)) = Some m" "0 < m" "m < 100000"
      and b: "3 \<le> length (trim s)" "length (trim s) \<le> 32" "list_all (\<lambda>c. is_digit c \<or> c = CHR ''.'') (trim s)"
        "is_digit (hd (trim s))" "is_digit (last (trim s))" "CHR ''.'' \<in> set (trim s)"
        "\<not> sublist ''..'' (trim s)"
      unfolding provider_version_parse_def Let_def by (auto split: if_splits option.splits)
    have "major_str (trim s) \<noteq> [] \<and> list_all is_digit (major_str (trim s))"
      using m(1) b(3) major_str_sublist[of _ "trim s"] unfolding list_all_iff by (auto simp: parse_i64_def)
    then have "m = int (digits_val (major_str (trim s)))"
      using m(1) by (simp add: parse_i64_digits split: if_splits)
    then have "version_grammar (trim s)" unfolding grammar_bytes using b m by simp
    then show "v = ProviderVersion (trim s) \<and> version_grammar (trim s)" using False by simp
  qed (use False in simp)
qed

lemma grammar_graph: "version_grammar s \<Longrightarrow> list_all is_graph s"
  unfolding grammar_bytes
  by (auto elim!: list.pred_mono_strong simp: digit_graph) (simp add: byte_class_defs)

lemma version_valid_iff [result_simps]:
  "provider_version_parse (version_str v) = Inr v \<longleftrightarrow> version_grammar (version_str v)"
proof
  assume "version_grammar (version_str v)"
  then show "provider_version_parse (version_str v) = Inr v"
    unfolding provider_version_parse_grammar by (cases v) (simp add: grammar_graph)
next
  assume "provider_version_parse (version_str v) = Inr v"
  then show "version_grammar (version_str v)"
    unfolding provider_version_parse_grammar by (cases v) auto
qed

lemma version_parse_valid: "provider_version_parse s = Inr v \<Longrightarrow> version_grammar (version_str v)"
  by (simp add: provider_version_parse_grammar)

lemma version_major_range:
  "version_grammar (version_str v) \<Longrightarrow> 0 < version_major v \<and> version_major v < 100000"
  by (simp add: version_major_def grammar_major) (simp add: grammar_bytes)


section \<open>Valid specifications and states\<close>

text \<open>What holds of every value the Rust constructors return: each newtype is the result of its
  parser, the data major is the major of the version, and the secret reference belongs to the
  instance.\<close>

definition spec_valid :: "service_spec \<Rightarrow> bool" where
  "spec_valid sp \<longleftrightarrow>
     service_name_parse (service_name_str (sp_name sp)) = Inr (sp_name sp) \<and>
     provider_version_parse (version_str (sp_version sp)) = Inr (sp_version sp)"

definition opt_valid :: "('a \<Rightarrow> bool) \<Rightarrow> 'a option \<Rightarrow> bool" where
  "opt_valid P x = (case x of None \<Rightarrow> True | Some v \<Rightarrow> P v)"

definition container_valid :: "container_id \<Rightarrow> bool" where
  "container_valid c \<longleftrightarrow> container_id_parse (container_id_str c) = Inr c"

definition hash_valid :: "spec_hash \<Rightarrow> bool" where
  "hash_valid h \<longleftrightarrow> spec_hash_parse (spec_hash_str h) = Inr h"

definition state_valid :: "service_state \<Rightarrow> bool" where
  "state_valid s \<longleftrightarrow>
     service_name_parse (service_name_str (ss_name s)) = Inr (ss_name s) \<and>
     provider_version_parse (version_str (ss_version s)) = Inr (ss_version s) \<and>
     ss_data_major s = version_major (ss_version s) \<and>
     instance_id_parse (instance_id_str (ss_instance s)) = Inr (ss_instance s) \<and>
     0 < ss_generation s \<and>
     opt_valid container_valid (ss_container s) \<and>
     resolved_image_parse (resolved_image_str (ss_image s)) = Inr (ss_image s) \<and>
     opt_valid hash_valid (ss_hash s) \<and>
     ss_secret s = secret_ref_new (ss_instance s) Superuser"

lemma opt_valid_simps [simp]: "opt_valid P None" "opt_valid P (Some v) = P v"
  by (simp_all add: opt_valid_def)

lemma name_parse_str: "service_name_parse s = Inr n \<Longrightarrow> n = ServiceName s"
  by (auto simp: service_name_parse_def result_simps)

lemma state_valid_secret:
  "state_valid s \<Longrightarrow> secret_ref_parse (secret_ref_str (ss_secret s)) = Inr (ss_secret s)"
  by (simp add: state_valid_def secret_ref_new_parse)

lemma for_provisioning_valid:
  assumes "for_provisioning entropy n p v img now = Inr s"
    and "service_name_parse (service_name_str n) = Inr n"
    and "provider_version_parse (version_str v) = Inr v"
    and "resolved_image_parse (resolved_image_str img) = Inr img"
    and "\<And>h. entropy = Some h \<Longrightarrow> length h = 32 \<and> list_all is_lower_hex h"
  shows "state_valid s" "ss_name s = n" "ss_provider s = p" "ss_version s = v" "ss_phase s = Provisioning"
    "ss_generation s = 1" "ss_image s = img"
  using assms
  by (auto simp: for_provisioning_def Let_def state_valid_def instance_id_generate_def result_simps
      split: if_splits option.splits)

lemma for_provisioning_total:
  assumes "provider_version_parse (version_str v) = Inr v"
  shows "\<exists>s. for_provisioning (Some h) n p v img now = Inr s"
  using version_major_range[of v] assms
  by (auto simp: for_provisioning_def Let_def instance_id_generate_def version_valid_iff)

lemma from_validated_valid: "state_valid s \<Longrightarrow> from_validated s = Inr s"
  using version_major_range[of "ss_version s"]
  by (auto simp: from_validated_def state_valid_def version_valid_iff secret_ref_new_def)

lemma canonical_spec_inj: "canonical_spec a = canonical_spec b \<longleftrightarrow> a = b"
proof
  assume e: "canonical_spec a = canonical_spec b"
  have "sp_config a = sp_config b" by (cases "sp_config a"; cases "sp_config b"; simp)
  then show "a = b"
    using e by (auto simp: canonical_spec_def jobj_def intro!: service_spec.equality service_name.expand
        provider_version.expand)
qed simp

end
