(* ===== verification/ServiceRepo.thy ===== *)
theory ServiceRepo
  imports ServiceSpec
begin

text \<open>
  \<open>services/repository.rs\<close> over the tables of the service migration: the raw rows with the CHECK
  constraints, the row mappers, and every operation of the repository.  A database is the list of
  rows of each table.  A transaction that fails leaves the database as it was.  The connection
  itself does not fail; timestamps and JSON are printed and parsed by a codec parameter.  Generations
  are unbounded integers, while the program adds 1 to an \<open>i64\<close>: the two agree up to the generation
  \<open>2 ^ 63 - 1\<close>, which a service that starts at 1 reaches after about as many operations on its row
  (lemma \<open>generation_bounded\<close>).
\<close>

section \<open>Rows and errors\<close>

record repo_codec =
  rc_show_time :: "int \<Rightarrow> string"
  rc_parse_time :: "string \<Rightarrow> int option"
  rc_json :: "string \<Rightarrow> json option"
  rc_show_config :: "postgres_config \<Rightarrow> string"
  rc_sql_object :: "string \<Rightarrow> bool"

datatype conversion_error =
    ConvName service_name_error
  | ConvService service_error
  | ConvConfig
  | ConvTime string
  | ConvMajor string int int
  | ConvSecretBinding

datatype repo_error =
    SqlUnique string
  | SqlCheck string
  | SqlConversion conversion_error
  | SqlNoRows
  | InvalidConfig string
  | CsprngFailed
  | RepoPhase string
  | NotFound string
  | GenerationMismatch int int
  | IdentityMismatch string
  | CorruptLength nat
  | CorruptChars
  | ServiceLimit int
  | RepoService service_error

definition max_services :: nat where "max_services = 1000"

record service_raw =
  sv_name :: string
  sv_provider :: string
  sv_version :: string
  sv_config :: string
  sv_created :: string
  sv_updated :: string

record state_raw =
  cr_name :: string
  cr_provider :: string
  cr_major :: int
  cr_version :: string
  cr_instance :: string
  cr_generation :: int
  cr_phase :: string
  cr_container :: "string option"
  cr_image :: string
  cr_hash :: "string option"
  cr_secret :: string
  cr_health :: "string option"
  cr_error :: "string option"
  cr_checked :: "string option"
  cr_updated :: string

record service_db =
  db_meta :: "(string \<times> string) list"
  db_services :: "service_raw list"
  db_states :: "state_raw list"

definition empty_db :: service_db where
  "empty_db = \<lparr>db_meta = [], db_services = [], db_states = []\<rparr>"

section \<open>The CHECK constraints\<close>

text \<open>SQLite's \<open>GLOB\<close>: a star matches any sequence, a bracket one character of its class.
  \<open>length\<close> of a TEXT counts characters, so continuation bytes are not counted.\<close>

datatype glob_item = GStar | GOne "char \<Rightarrow> bool"

fun glob :: "glob_item list \<Rightarrow> string \<Rightarrow> bool" where
  "glob [] s = (s = [])"
| "glob (GStar # g) [] = glob g []"
| "glob (GStar # g) (c # s) = (glob g (c # s) \<or> glob (GStar # g) s)"
| "glob (GOne P # g) [] = False"
| "glob (GOne P # g) (c # s) = (P c \<and> glob g s)"

definition GLit :: "char \<Rightarrow> glob_item" where "GLit c = GOne (\<lambda>d. d = c)"

definition is_continuation :: "char \<Rightarrow> bool" where
  "is_continuation c \<longleftrightarrow> CHR 0x80 \<le> c \<and> c \<le> CHR 0xBF"

definition sql_length :: "string \<Rightarrow> nat" where
  "sql_length s = length (filter (\<lambda>c. \<not> is_continuation c) s)"

definition sql_hex :: "char \<Rightarrow> bool" where
  "sql_hex c \<longleftrightarrow> is_digit c \<or> (CHR ''a'' \<le> c \<and> c \<le> CHR ''f'')"

definition name_check :: "string \<Rightarrow> bool" where
  "name_check s \<longleftrightarrow>
     1 \<le> sql_length s \<and> sql_length s \<le> 63 \<and>
     \<not> glob [GStar, GOne (\<lambda>c. \<not> name_char c), GStar] s \<and>
     \<not> glob [GStar, GLit CHR ''_'', GLit CHR ''_'', GStar] s \<and>
     \<not> glob [GStar, GLit CHR ''-'', GLit CHR ''-'', GStar] s \<and>
     \<not> glob [GLit CHR ''-'', GStar] s \<and>
     \<not> glob [GStar, GLit CHR ''-''] s"

definition version_check :: "string \<Rightarrow> bool" where
  "version_check s \<longleftrightarrow>
     3 \<le> sql_length s \<and> sql_length s \<le> 32 \<and>
     glob [GOne is_digit, GStar, GLit CHR ''.'', GOne is_digit, GStar] s \<and>
     \<not> glob [GStar, GOne (\<lambda>c. \<not> (is_digit c \<or> c = CHR ''.'')), GStar] s \<and>
     \<not> glob [GStar, GLit CHR ''.'', GLit CHR ''.'', GStar] s \<and>
     \<not> glob [GLit CHR ''.'', GLit CHR ''.'', GStar] s \<and>
     \<not> glob [GStar, GLit CHR ''.'', GLit CHR ''.''] s"

definition hex_check :: "nat \<Rightarrow> string \<Rightarrow> bool" where
  "hex_check n s \<longleftrightarrow> sql_length s = n \<and> \<not> glob [GStar, GOne (\<lambda>c. \<not> sql_hex c), GStar] s"

definition time_check :: "string \<Rightarrow> bool" where
  "time_check s \<longleftrightarrow> 20 \<le> sql_length s \<and> sql_length s \<le> 64"

definition secret_check :: "string \<Rightarrow> bool" where
  "secret_check s \<longleftrightarrow>
     10 \<le> sql_length s \<and> sql_length s \<le> 256 \<and>
     glob (map GLit ''service/'' @ [GOne sql_hex, GStar, GLit CHR ''/'', GOne (\<lambda>c. is_lower c \<or> c = CHR ''_''), GStar]) s \<and>
     \<not> glob [GStar, GOne (\<lambda>c. \<not> (sql_hex c \<or> c = CHR ''/'' \<or> is_lower c \<or> c = CHR ''_'' \<or> c = CHR ''-'')), GStar] s \<and>
     \<not> glob [GStar, GLit CHR ''.'', GLit CHR ''.'', GStar] s \<and>
     \<not> glob [GStar, GLit CHR '' '', GStar] s"

definition service_check :: "repo_codec \<Rightarrow> service_raw \<Rightarrow> bool" where
  "service_check cd r \<longleftrightarrow>
     name_check (sv_name r) \<and> sv_provider r = ''postgres'' \<and> version_check (sv_version r) \<and>
     rc_sql_object cd (sv_config r) \<and> sql_length (sv_config r) \<le> 4096 \<and>
     time_check (sv_created r) \<and> time_check (sv_updated r)"

definition state_check :: "state_raw \<Rightarrow> bool" where
  "state_check r \<longleftrightarrow>
     name_check (cr_name r) \<and> cr_provider r = ''postgres'' \<and> 0 < cr_major r \<and> cr_major r < 100000 \<and>
     version_check (cr_version r) \<and> hex_check 32 (cr_instance r) \<and> 0 < cr_generation r \<and>
     cr_phase r \<in> {''provisioning'', ''ready'', ''deleting'', ''retained'', ''blocked'', ''error''} \<and>
     opt_valid (hex_check 64) (cr_container r) \<and>
     1 \<le> sql_length (cr_image r) \<and> sql_length (cr_image r) \<le> 512 \<and>
     opt_valid (hex_check 64) (cr_hash r) \<and> secret_check (cr_secret r) \<and>
     opt_valid (\<lambda>h. h \<in> {''healthy'', ''unhealthy'', ''starting'', ''unknown''}) (cr_health r) \<and>
     opt_valid (\<lambda>e. e \<in> {''provision_failed'', ''health_timeout'', ''ownership_mismatch'',
       ''filesystem_check'', ''image_pull_failed'', ''readiness_failed'', ''internal''}) (cr_error r) \<and>
     opt_valid time_check (cr_checked r) \<and> time_check (cr_updated r)"

section \<open>Validation helpers and row mappers\<close>

definition validate_spec_state_identity :: "service_spec \<Rightarrow> service_state \<Rightarrow> repo_error + unit" where
  "validate_spec_state_identity sp s =
     (if sp_name sp \<noteq> ss_name s then Inl (IdentityMismatch ''service_name'')
      else if sp_provider sp \<noteq> ss_provider s then Inl (IdentityMismatch ''provider'')
      else if sp_version sp \<noteq> ss_version s then Inl (IdentityMismatch ''version'')
      else if version_major (sp_version sp) \<noteq> ss_data_major s then Inl (IdentityMismatch ''data_major'')
      else if sref_instance (ss_secret s) \<noteq> instance_id_str (ss_instance s)
      then Inl (IdentityMismatch ''secret_ref_instance_binding'')
      else Inr ())"

definition validate_config_json :: "repo_codec \<Rightarrow> string \<Rightarrow> repo_error + unit" where
  "validate_config_json cd j =
     (if length j > 4096 then Inl (InvalidConfig ''config_json too long'')
      else case rc_json cd j of
        None \<Rightarrow> Inl (InvalidConfig ''not json'')
      | Some v \<Rightarrow> if is_jobj v then Inr () else Inl (InvalidConfig ''config_json must be a JSON object''))"

definition validate_installation_id :: "string \<Rightarrow> repo_error + unit" where
  "validate_installation_id i =
     (if length i \<noteq> 32 then Inl (CorruptLength (length i))
      else if \<not> list_all is_lower_hex i then Inl CorruptChars
      else Inr ())"

definition parse_time :: "repo_codec \<Rightarrow> string \<Rightarrow> conversion_error + int" where
  "parse_time cd s = ok_or (rc_parse_time cd s) (ConvTime s)"

definition conv :: "service_error + 'a \<Rightarrow> conversion_error + 'a" where
  "conv r = (case r of Inl e \<Rightarrow> Inl (ConvService e) | Inr x \<Rightarrow> Inr x)"

definition conv_name :: "string \<Rightarrow> conversion_error + service_name" where
  "conv_name s = (case service_name_parse s of Inl e \<Rightarrow> Inl (ConvName e) | Inr n \<Rightarrow> Inr n)"

definition conv_opt :: "('a \<Rightarrow> conversion_error + 'b) \<Rightarrow> 'a option \<Rightarrow> conversion_error + 'b option" where
  "conv_opt f x = (case x of None \<Rightarrow> Inr None | Some v \<Rightarrow> and_then (f v) (\<lambda>y. Inr (Some y)))"

text \<open>A struct without fields is read from an empty object or an empty array.\<close>

definition parse_config :: "repo_codec \<Rightarrow> string \<Rightarrow> conversion_error + postgres_config" where
  "parse_config cd s =
     (case rc_json cd s of
        Some (JObj []) \<Rightarrow> Inr PostgresConfig
      | Some (JArr []) \<Rightarrow> Inr PostgresConfig
      | _ \<Rightarrow> Inl ConvConfig)"

record service_row =
  rw_name :: service_name
  rw_provider :: provider_kind
  rw_version :: provider_version
  rw_config :: postgres_config
  rw_created :: int
  rw_updated :: int

definition row_to_spec :: "service_row \<Rightarrow> service_error + service_spec" where
  "row_to_spec r = service_spec_new (rw_name r) (rw_provider r) (rw_version r) (rw_config r)"

definition row_to_service :: "repo_codec \<Rightarrow> service_raw \<Rightarrow> conversion_error + service_row" where
  "row_to_service cd r =
     and_then (conv_name (sv_name r)) (\<lambda>n.
     and_then (conv (provider_kind_parse (sv_provider r))) (\<lambda>p.
     and_then (conv (provider_version_parse (sv_version r))) (\<lambda>v.
     and_then (parse_config cd (sv_config r)) (\<lambda>c.
     and_then (parse_time cd (sv_created r)) (\<lambda>ct.
     and_then (parse_time cd (sv_updated r)) (\<lambda>ut.
       Inr \<lparr>rw_name = n, rw_provider = p, rw_version = v, rw_config = c, rw_created = ct,
            rw_updated = ut\<rparr>))))))"

definition row_to_state :: "repo_codec \<Rightarrow> state_raw \<Rightarrow> conversion_error + service_state" where
  "row_to_state cd r =
     and_then (conv_name (cr_name r)) (\<lambda>n.
     and_then (conv (provider_kind_parse (cr_provider r))) (\<lambda>p.
     and_then (conv (provider_version_parse (cr_version r))) (\<lambda>v.
     and_then (conv (instance_id_parse (cr_instance r))) (\<lambda>i.
     and_then (conv (phase_parse (cr_phase r))) (\<lambda>ph.
     and_then (conv_opt (conv \<circ> container_id_parse) (cr_container r)) (\<lambda>c.
     and_then (conv (resolved_image_parse (cr_image r))) (\<lambda>img.
     and_then (conv_opt (conv \<circ> spec_hash_parse) (cr_hash r)) (\<lambda>h.
     and_then (conv (secret_ref_parse (cr_secret r))) (\<lambda>sr.
     and_then (require (version_major v = cr_major r) (ConvMajor (version_str v) (version_major v) (cr_major r))) (\<lambda>_.
     and_then (require (sref_instance sr = instance_id_str i) ConvSecretBinding) (\<lambda>_.
     and_then (conv_opt (conv \<circ> health_parse) (cr_health r)) (\<lambda>hk.
     and_then (conv_opt (conv \<circ> failure_code_parse) (cr_error r)) (\<lambda>fc.
     and_then (conv_opt (parse_time cd) (cr_checked r)) (\<lambda>ck.
     and_then (parse_time cd (cr_updated r)) (\<lambda>ut.
       Inr \<lparr>ss_name = n, ss_provider = p, ss_data_major = cr_major r, ss_version = v, ss_instance = i,
            ss_generation = cr_generation r, ss_phase = ph, ss_container = c, ss_image = img,
            ss_hash = h, ss_secret = sr, ss_health = hk, ss_error = fc, ss_checked = ck,
            ss_updated = ut\<rparr>)))))))))))))))"

definition raw_of_state :: "repo_codec \<Rightarrow> service_state \<Rightarrow> state_raw" where
  "raw_of_state cd s =
     \<lparr>cr_name = service_name_str (ss_name s), cr_provider = provider_kind_str (ss_provider s),
      cr_major = ss_data_major s, cr_version = version_str (ss_version s),
      cr_instance = instance_id_str (ss_instance s), cr_generation = ss_generation s,
      cr_phase = phase_str (ss_phase s), cr_container = map_option container_id_str (ss_container s),
      cr_image = resolved_image_str (ss_image s), cr_hash = map_option spec_hash_str (ss_hash s),
      cr_secret = secret_ref_str (ss_secret s), cr_health = map_option health_str (ss_health s),
      cr_error = map_option failure_code_str (ss_error s),
      cr_checked = map_option (rc_show_time cd) (ss_checked s),
      cr_updated = rc_show_time cd (ss_updated s)\<rparr>"

definition raw_of_spec :: "repo_codec \<Rightarrow> service_spec \<Rightarrow> int \<Rightarrow> service_raw" where
  "raw_of_spec cd sp now =
     \<lparr>sv_name = service_name_str (sp_name sp), sv_provider = provider_kind_str (sp_provider sp),
      sv_version = version_str (sp_version sp), sv_config = rc_show_config cd (sp_config sp),
      sv_created = rc_show_time cd now, sv_updated = rc_show_time cd now\<rparr>"


section \<open>Statements\<close>

text \<open>An inserted row must satisfy the CHECK constraints and the keys; an update is checked on the
  rows it changes (the keys are never updated).  \<open>in_tx\<close> rolls a failed transaction back.\<close>

definition in_tx :: "service_db \<Rightarrow> repo_error + (service_db \<times> 'a) \<Rightarrow> service_db \<times> (repo_error + 'a)" where
  "in_tx db m = (case m of Inl e \<Rightarrow> (db, Inl e) | Inr (db', x) \<Rightarrow> (db', Inr x))"

definition insert_service_row :: "repo_codec \<Rightarrow> service_raw \<Rightarrow> service_db \<Rightarrow> repo_error + service_db" where
  "insert_service_row cd r db =
     (if \<not> service_check cd r then Inl (SqlCheck ''services'')
      else if sv_name r \<in> set (map sv_name (db_services db)) then Inl (SqlUnique ''services.name'')
      else Inr (db\<lparr>db_services := db_services db @ [r]\<rparr>))"

definition insert_state_row :: "repo_codec \<Rightarrow> service_state \<Rightarrow> service_db \<Rightarrow> repo_error + service_db" where
  "insert_state_row cd s db =
     (let r = raw_of_state cd s in
      if \<not> state_check r then Inl (SqlCheck ''service_state'')
      else if cr_name r \<in> set (map cr_name (db_states db)) then Inl (SqlUnique ''service_state.service_name'')
      else if cr_instance r \<in> set (map cr_instance (db_states db)) then Inl (SqlUnique ''service_state.instance_id'')
      else Inr (db\<lparr>db_states := db_states db @ [r]\<rparr>))"

definition update_state_rows ::
  "(state_raw \<Rightarrow> bool) \<Rightarrow> (state_raw \<Rightarrow> state_raw) \<Rightarrow> service_db \<Rightarrow> repo_error + (service_db \<times> nat)" where
  "update_state_rows w f db =
     (let hit = filter w (db_states db) in
      if list_all (\<lambda>r. state_check (f r)) hit
      then Inr (db\<lparr>db_states := map (\<lambda>r. if w r then f r else r) (db_states db)\<rparr>, length hit)
      else Inl (SqlCheck ''service_state''))"

definition delete_service_row :: "string \<Rightarrow> service_db \<Rightarrow> service_db" where
  "delete_service_row n db = db\<lparr>db_services := filter (\<lambda>r. sv_name r \<noteq> n) (db_services db)\<rparr>"

definition select_state :: "service_db \<Rightarrow> string \<Rightarrow> state_raw option" where
  "select_state db n = find (\<lambda>r. cr_name r = n) (db_states db)"

definition select_service :: "service_db \<Rightarrow> string \<Rightarrow> service_raw option" where
  "select_service db n = find (\<lambda>r. sv_name r = n) (db_services db)"

section \<open>The installation id\<close>

definition ensure_installation_id :: "string option \<Rightarrow> service_db \<Rightarrow> service_db \<times> (repo_error + string)" where
  "ensure_installation_id entropy db =
     (case map_of (db_meta db) ''installation_id'' of
        Some i \<Rightarrow> (db, and_then (validate_installation_id i) (\<lambda>_. Inr i))
      | None \<Rightarrow>
          (case entropy of
             None \<Rightarrow> (db, Inl CsprngFailed)
           | Some i \<Rightarrow>
               (db\<lparr>db_meta := db_meta db @ [(''installation_id'', i)]\<rparr>,
                and_then (validate_installation_id i) (\<lambda>_. Inr i))))"

definition get_installation_id :: "service_db \<Rightarrow> repo_error + string option" where
  "get_installation_id db =
     (case map_of (db_meta db) ''installation_id'' of
        Some i \<Rightarrow> and_then (validate_installation_id i) (\<lambda>_. Inr (Some i))
      | None \<Rightarrow> Inr None)"

section \<open>Operations\<close>

definition insert_service_and_state ::
  "repo_codec \<Rightarrow> service_spec \<Rightarrow> service_state \<Rightarrow> int \<Rightarrow> service_db \<Rightarrow> service_db \<times> (repo_error + unit)" where
  "insert_service_and_state cd sp s now db =
     in_tx db
       (and_then (validate_spec_state_identity sp s) (\<lambda>_.
        and_then (validate_config_json cd (rc_show_config cd (sp_config sp))) (\<lambda>_.
        if length (db_states db) \<ge> max_services then Inl (ServiceLimit (int max_services))
        else and_then (insert_service_row cd (raw_of_spec cd sp now) db) (\<lambda>db1.
             and_then (insert_state_row cd s db1) (\<lambda>db2. Inr (db2, ()))))))"

definition check_tuple :: "(bool \<times> string) list \<Rightarrow> repo_error + unit" where
  "check_tuple cs = for_each (\<lambda>(ok, field). require ok (IdentityMismatch field)) cs"

text \<open>Removal, reattachment and the state update write the expected generation plus 1, an addition of \<open>i64\<close>
  in the program, which the integers here follow up to \<open>2 ^ 63 - 1\<close>.  At that generation a build with
  overflow checks panics before the transaction, and the wrapped value of another build is refused by the
  CHECK of the column.\<close>

definition retain_row :: "repo_codec \<Rightarrow> int \<Rightarrow> int \<Rightarrow> state_raw \<Rightarrow> state_raw" where
  "retain_row cd g now r = r\<lparr>cr_generation := g, cr_phase := ''retained'', cr_health := None,
     cr_error := None, cr_checked := None, cr_updated := rc_show_time cd now\<rparr>"

definition delete_service_and_retain ::
  "repo_codec \<Rightarrow> service_name \<Rightarrow> instance_id \<Rightarrow> secret_ref \<Rightarrow> provider_kind \<Rightarrow> int \<Rightarrow> int \<Rightarrow> int \<Rightarrow>
     service_db \<Rightarrow> service_db \<times> (repo_error + int)" where
  "delete_service_and_retain cd n i sr p m g now db =
     in_tx db
       (case select_state db (service_name_str n) of
          None \<Rightarrow> Inl (NotFound (service_name_str n))
        | Some r \<Rightarrow>
            and_then (check_tuple
              [(cr_provider r = provider_kind_str p, ''provider''), (cr_major r = m, ''data_major''),
               (cr_instance r = instance_id_str i, ''instance_id''),
               (cr_secret r = secret_ref_str sr, ''secret_ref'')]) (\<lambda>_.
            if cr_generation r \<noteq> g then Inl (GenerationMismatch g (cr_generation r))
            else (case phase_parse (cr_phase r) of
                    Inl e \<Rightarrow> Inl (RepoService e)
                  | Inr ph \<Rightarrow>
                      if \<not> eligible_for_retain ph then Inl (RepoPhase (cr_phase r))
                      else and_then (update_state_rows
                             (\<lambda>x. cr_name x = service_name_str n \<and> cr_generation x = g \<and>
                                  cr_instance x = instance_id_str i)
                             (retain_row cd (g + 1) now) (delete_service_row (service_name_str n) db))
                           (\<lambda>(db', rows). if rows = 0 then Inl (GenerationMismatch g (cr_generation r))
                                          else Inr (db', g + 1)))))"

definition reattach_row :: "repo_codec \<Rightarrow> int \<Rightarrow> int \<Rightarrow> state_raw \<Rightarrow> state_raw" where
  "reattach_row cd g now r = r\<lparr>cr_generation := g, cr_phase := ''provisioning'', cr_health := None,
     cr_error := None, cr_checked := None, cr_updated := rc_show_time cd now\<rparr>"

definition reattach_retained ::
  "repo_codec \<Rightarrow> service_spec \<Rightarrow> instance_id \<Rightarrow> secret_ref \<Rightarrow> resolved_image \<Rightarrow> spec_hash option \<Rightarrow> int \<Rightarrow> int \<Rightarrow>
     service_db \<Rightarrow> service_db \<times> (repo_error + int)" where
  "reattach_retained cd sp i sr img h g now db =
     in_tx db
       (and_then (validate_config_json cd (rc_show_config cd (sp_config sp))) (\<lambda>_.
        case select_state db (service_name_str (sp_name sp)) of
          None \<Rightarrow> Inl (NotFound (service_name_str (sp_name sp)))
        | Some r \<Rightarrow>
            and_then (check_tuple
              [(cr_provider r = provider_kind_str (sp_provider sp), ''provider''),
               (cr_major r = version_major (sp_version sp), ''data_major''),
               (cr_version r = version_str (sp_version sp), ''version''),
               (cr_instance r = instance_id_str i, ''instance_id''),
               (cr_secret r = secret_ref_str sr, ''secret_ref''),
               (cr_image r = resolved_image_str img, ''resolved_image''),
               (cr_hash r = map_option spec_hash_str h, ''applied_spec_hash'')]) (\<lambda>_.
            if cr_generation r \<noteq> g then Inl (GenerationMismatch g (cr_generation r))
            else if cr_phase r \<noteq> phase_str Retained then Inl (RepoPhase (cr_phase r))
            else and_then (insert_service_row cd (raw_of_spec cd sp now) db) (\<lambda>db1.
                 and_then (update_state_rows
                   (\<lambda>x. cr_name x = service_name_str (sp_name sp) \<and> cr_generation x = g \<and>
                        cr_phase x = ''retained'' \<and> cr_instance x = instance_id_str i)
                   (reattach_row cd (g + 1) now) db1)
                 (\<lambda>(db', rows). if rows = 0 then Inl (GenerationMismatch g (cr_generation r))
                                else Inr (db', g + 1))))))"

definition touch_service :: "repo_codec \<Rightarrow> service_name \<Rightarrow> int \<Rightarrow> service_db \<Rightarrow> service_db \<times> (repo_error + unit)" where
  "touch_service cd n now db =
     (let f = (\<lambda>r. r\<lparr>sv_updated := rc_show_time cd now\<rparr>); w = (\<lambda>r. sv_name r = service_name_str n);
          hit = filter w (db_services db)
      in if \<not> list_all (\<lambda>r. service_check cd (f r)) hit then (db, Inl (SqlCheck ''services''))
         else if hit = [] then (db, Inl (NotFound (service_name_str n)))
         else (db\<lparr>db_services := map (\<lambda>r. if w r then f r else r) (db_services db)\<rparr>, Inr ()))"

definition of_conv :: "conversion_error + 'a \<Rightarrow> repo_error + 'a" where
  "of_conv r = (case r of Inl e \<Rightarrow> Inl (SqlConversion e) | Inr x \<Rightarrow> Inr x)"

definition get_service :: "repo_codec \<Rightarrow> service_db \<Rightarrow> service_name \<Rightarrow> repo_error + service_row option" where
  "get_service cd db n =
     (case select_service db (service_name_str n) of
        None \<Rightarrow> Inr None
      | Some r \<Rightarrow> and_then (of_conv (row_to_service cd r)) (\<lambda>x. Inr (Some x)))"

definition get_state :: "repo_codec \<Rightarrow> service_db \<Rightarrow> service_name \<Rightarrow> repo_error + service_state option" where
  "get_state cd db n =
     (case select_state db (service_name_str n) of
        None \<Rightarrow> Inr None
      | Some r \<Rightarrow> and_then (of_conv (row_to_state cd r)) (\<lambda>x. Inr (Some x)))"

definition clamp_limit :: "int option \<Rightarrow> nat" where
  "clamp_limit l = nat (max 1 (min 1000 (case l of Some x \<Rightarrow> x | None \<Rightarrow> 1000)))"

definition list_services :: "repo_codec \<Rightarrow> service_db \<Rightarrow> int option \<Rightarrow> repo_error + service_row list" where
  "list_services cd db l =
     map_result (\<lambda>r. of_conv (row_to_service cd r)) (take (clamp_limit l) (sort_key sv_name (db_services db)))"

definition list_states :: "repo_codec \<Rightarrow> service_db \<Rightarrow> int option \<Rightarrow> repo_error + service_state list" where
  "list_states cd db l =
     map_result (\<lambda>r. of_conv (row_to_state cd r)) (take (clamp_limit l) (sort_key cr_name (db_states db)))"

text \<open>The compare-and-swap shared by the two updates: the stored generation must be the expected one.\<close>

definition cas_rows ::
  "service_name \<Rightarrow> int \<Rightarrow> (state_raw \<Rightarrow> state_raw) \<Rightarrow> 'a \<Rightarrow> service_db \<Rightarrow> repo_error + (service_db \<times> 'a)" where
  "cas_rows n g f x db =
     (case select_state db (service_name_str n) of
        None \<Rightarrow> Inl (NotFound (service_name_str n))
      | Some r \<Rightarrow>
          if cr_generation r \<noteq> g then Inl (GenerationMismatch g (cr_generation r))
          else and_then (update_state_rows (\<lambda>y. cr_name y = service_name_str n \<and> cr_generation y = g) f db)
                 (\<lambda>(db', rows). if rows = 0 then Inl (GenerationMismatch g (cr_generation r)) else Inr (db', x)))"

definition cas_row ::
  "repo_codec \<Rightarrow> int \<Rightarrow> lifecycle_phase \<Rightarrow> container_id option \<Rightarrow> spec_hash option \<Rightarrow> health_kind option \<Rightarrow>
     failure_code option \<Rightarrow> int option \<Rightarrow> int \<Rightarrow> state_raw \<Rightarrow> state_raw" where
  "cas_row cd g ph c h hk fc ck now r = r\<lparr>cr_generation := g, cr_phase := phase_str ph,
     cr_container := map_option container_id_str c, cr_hash := map_option spec_hash_str h,
     cr_health := map_option health_str hk, cr_error := map_option failure_code_str fc,
     cr_checked := map_option (rc_show_time cd) ck, cr_updated := rc_show_time cd now\<rparr>"

definition update_state_cas ::
  "repo_codec \<Rightarrow> service_name \<Rightarrow> int \<Rightarrow> lifecycle_phase \<Rightarrow> container_id option \<Rightarrow> spec_hash option \<Rightarrow>
     health_kind option \<Rightarrow> failure_code option \<Rightarrow> int option \<Rightarrow> int \<Rightarrow> service_db \<Rightarrow> service_db \<times> (repo_error + int)" where
  "update_state_cas cd n g ph c h hk fc ck now db =
     in_tx db (cas_rows n g (cas_row cd (g + 1) ph c h hk fc ck now) (g + 1) db)"

definition health_row :: "repo_codec \<Rightarrow> health_kind \<Rightarrow> failure_code option \<Rightarrow> int \<Rightarrow> state_raw \<Rightarrow> state_raw" where
  "health_row cd hk fc now r = r\<lparr>cr_health := Some (health_str hk),
     cr_error := map_option failure_code_str fc, cr_checked := Some (rc_show_time cd now),
     cr_updated := rc_show_time cd now\<rparr>"

definition update_health ::
  "repo_codec \<Rightarrow> service_name \<Rightarrow> int \<Rightarrow> health_kind \<Rightarrow> failure_code option \<Rightarrow> int \<Rightarrow>
     service_db \<Rightarrow> service_db \<times> (repo_error + unit)" where
  "update_health cd n g hk fc now db = in_tx db (cas_rows n g (health_row cd hk fc now) () db)"

end
