(* ===== verification/ServiceRepoProps.thy ===== *)
theory ServiceRepoProps
  imports ServiceRepo
begin

text \<open>
  The repository keeps its tables well formed: every row is the image of a valid value, the CHECK
  constraints admit every row the code writes, and each operation refines an update of the typed
  tables.  On top of that, the step relation of the repository: identities never change and
  generations order the changes of a service.
\<close>

section \<open>GLOB patterns\<close>

lemma glob_star: "glob (GStar # g) s \<longleftrightarrow> (\<exists>a b. s = a @ b \<and> glob g b)"
proof (induction s)
  case (Cons c s)
  have "(\<exists>a b. c # s = a @ b \<and> glob g b) \<longleftrightarrow> glob g (c # s) \<or> (\<exists>a b. s = a @ b \<and> glob g b)"
    by (metis Cons_eq_append_conv append_Cons append_Nil)
  then show ?case using Cons.IH by simp
qed simp

lemma glob_star_any [simp]: "glob [GStar] s"
  by (induction s) simp_all

lemma glob_one_Cons: "glob (GOne P # g) s \<longleftrightarrow> (\<exists>c t. s = c # t \<and> P c \<and> glob g t)"
  by (cases s) auto

lemma glob_contains [simp]: "glob [GStar, GOne P, GStar] s \<longleftrightarrow> (\<exists>c\<in>set s. P c)"
proof
  assume "\<exists>c\<in>set s. P c"
  then obtain a c t where "s = a @ c # t" "P c" by (auto simp: in_set_conv_decomp)
  then show "glob [GStar, GOne P, GStar] s"
    unfolding glob_star[of "[GOne P, GStar]"] by (intro exI[of _ a] exI[of _ "c # t"]) simp
qed (auto simp: glob_star[of "[GOne P, GStar]"] glob_one_Cons)

lemma glob_pair [simp]: "glob [GStar, GLit c, GLit d, GStar] s \<longleftrightarrow> sublist [c, d] s"
  unfolding GLit_def glob_star[of "[GOne _, GOne _, GStar]"] glob_one_Cons sublist_def by auto

lemma glob_head [simp]: "glob [GLit c, GStar] s \<longleftrightarrow> s \<noteq> [] \<and> hd s = c"
  unfolding GLit_def glob_one_Cons by (cases s) auto

lemma glob_last [simp]: "glob [GStar, GLit c] s \<longleftrightarrow> s \<noteq> [] \<and> last s = c"
  unfolding GLit_def glob_star[of "[GOne _]"] glob_one_Cons
  by (auto simp: append_butlast_last_id intro: exI[of _ "butlast s"])

lemma glob_head_pair [simp]: "glob [GLit c, GLit d, GStar] s \<longleftrightarrow> prefix [c, d] s"
  unfolding GLit_def glob_one_Cons prefix_def by auto

lemma glob_last_pair [simp]: "glob [GStar, GLit c, GLit d] s \<longleftrightarrow> suffix [c, d] s"
  unfolding GLit_def glob_star[of "[GOne _, GOne _]"] glob_one_Cons suffix_def by auto

section \<open>The CHECK constraints admit valid values\<close>

lemma sql_length_graph [simp]: "list_all is_graph s \<Longrightarrow> sql_length s = length s"
  unfolding sql_length_def
  by (subst filter_True)
     (auto simp: list_all_iff is_continuation_def byte_class_defs less_eq_char_def dest!: bspec)

lemma sql_length_le: "sql_length s \<le> length s"
  by (simp add: sql_length_def)

lemma name_char_graph: "name_char c \<Longrightarrow> is_graph c"
  by (auto simp: name_char_def byte_class_defs less_eq_char_def)

lemma name_check_valid:
  assumes "service_name_parse s = Inr n"
  shows "name_check s"
proof -
  from assms have v: "s \<noteq> []" "length s \<le> 63" "list_all name_char s" "\<not> prefix ''-'' s"
      "\<not> ends_with ''-'' s" "\<not> sublist ''--'' s"
    by (auto simp: service_name_parse_def result_simps validate_service_name_def split: if_splits)
  have g: "list_all is_graph s" using v(3) by (rule list.pred_mono_strong) (simp add: name_char_graph)
  have u: "CHR ''_'' \<notin> set s" using v(3) by (auto simp: list_all_iff name_char_def byte_class_defs)
  have "\<not> sublist ''__'' s" using u by (auto dest: set_mono_sublist)
  moreover have "hd s \<noteq> CHR ''-''" using v(1,4) by (cases s) auto
  moreover have "last s \<noteq> CHR ''-''"
  proof
    assume "last s = CHR ''-''"
    then have "s = butlast s @ ''-''" using v(1) by (metis append_butlast_last_id)
    then show False using v(5) unfolding ends_with_def by (metis suffixI)
  qed
  ultimately show ?thesis
    using v g by (auto simp: name_check_def list_all_iff Suc_le_eq)
qed

lemma version_check_valid:
  assumes "version_grammar s"
  shows "version_check s"
proof -
  note b = assms[unfolded grammar_bytes]
  have g: "list_all is_graph s" by (rule grammar_graph[OF assms])
  obtain a t where s: "s = a @ CHR ''.'' # t" using b by (meson split_list)
  have a: "a \<noteq> []" "is_digit (hd a)" using b s by (cases a; auto simp: byte_class_defs)+
  have t: "t \<noteq> []" using b s by (cases t) (auto simp: byte_class_defs)
  have "hd t \<noteq> CHR ''.''"
  proof
    assume "hd t = CHR ''.''"
    then have "s = a @ ''..'' @ tl t" using s t by (cases t) auto
    then show False using b by (auto simp: sublist_def)
  qed
  moreover have "hd t \<in> set s" using t s by simp
  ultimately have d: "is_digit (hd t)" using b by (auto simp: list_all_iff)
  obtain a0 a' where a': "a = a0 # a'" using a by (cases a) auto
  obtain t0 t' where t': "t = t0 # t'" using t by (cases t) auto
  have "glob [GStar, GLit CHR ''.'', GOne is_digit, GStar] (a' @ CHR ''.'' # t)"
    unfolding GLit_def glob_star[of "[GOne _, GOne _, GStar]"]
    using d t' by (intro exI[of _ a'] exI[of _ "CHR ''.'' # t"]) simp
  then have "glob [GOne is_digit, GStar, GLit CHR ''.'', GOne is_digit, GStar] s"
    unfolding s a' using a a' by simp
  moreover have "\<not> prefix ''..'' s" "\<not> suffix ''..'' s"
    using b by (auto simp: prefix_def suffix_def sublist_def)
  ultimately show ?thesis using b g unfolding version_check_def by (auto simp: list_all_iff)
qed

lemma lower_hex_sql: "is_lower_hex c \<longleftrightarrow> sql_hex c"
  by (auto simp: sql_hex_def byte_class_defs less_eq_char_def)

lemma lower_hex_graph: "list_all is_lower_hex s \<Longrightarrow> list_all is_graph s"
  by (erule list.pred_mono_strong) (simp add: alnum_graph lower_digit_alnum lower_hex_lower_digit)

lemma hex_check_valid: "length s = n \<Longrightarrow> list_all is_lower_hex s \<Longrightarrow> hex_check n s"
  using lower_hex_graph[of s] by (simp add: hex_check_def) (simp add: lower_hex_sql list_all_iff)

lemma glob_lits: "glob (map GLit p @ g) (p @ s) = glob g s"
  by (induction p) (simp_all add: GLit_def)

lemma secret_check_valid:
  assumes "instance_id_parse (instance_id_str i) = Inr i"
  shows "secret_check (secret_ref_str (secret_ref_new i Superuser))"
proof -
  define h where "h = instance_id_str i"
  have h: "length h = 32" "list_all is_lower_hex h" using assms by (auto simp: h_def result_simps)
  define s where "s = ''service/'' @ h @ ''/superuser''"
  have s: "secret_ref_str (secret_ref_new i Superuser) = s"
    by (simp add: s_def h_def secret_ref_str_def secret_ref_new_def)
  have l: "length s = 50" by (simp add: s_def h)
  have g: "list_all is_graph s" using lower_hex_graph[OF h(2)] by (simp add: s_def is_graph_def less_eq_char_def)
  have dots: "\<not> sublist ''..'' s"
    using hex_dotless[OF h(2)] by (intro sublist_dots) (auto simp: s_def)
  have chars: "\<forall>c\<in>set s. sql_hex c \<or> c = CHR ''/'' \<or> is_lower c"
    using h(2) unfolding s_def by (auto simp: list_all_iff lower_hex_sql[symmetric] byte_class_defs less_eq_char_def)
  obtain c h' where c: "h = c # h'" using h by (cases h) auto
  have "glob [GStar, GLit CHR ''/'', GOne (\<lambda>c. is_lower c \<or> c = CHR ''_''), GStar] (h' @ ''/superuser'')"
    unfolding GLit_def glob_star[of "[GOne _, GOne _, GStar]"]
    by (rule exI[of _ h'], rule exI[of _ "''/superuser''"]) (simp add: byte_class_defs less_eq_char_def)
  then have "glob [GOne sql_hex, GStar, GLit CHR ''/'', GOne (\<lambda>c. is_lower c \<or> c = CHR ''_''), GStar] (h @ ''/superuser'')"
    using h(2) by (simp add: c lower_hex_sql)
  then have pat: "glob (map GLit ''service/'' @ [GOne sql_hex, GStar, GLit CHR ''/'', GOne (\<lambda>c. is_lower c \<or> c = CHR ''_''), GStar]) s"
    unfolding s_def glob_lits .
  have sp: "CHR '' '' \<notin> set s" using g by (auto simp: list_all_iff byte_class_defs less_eq_char_def)
  have "\<not> glob [GStar, GLit CHR '' '', GStar] s" using sp by (simp add: GLit_def)
  then show ?thesis
    unfolding s secret_check_def sql_length_graph[OF g] l using pat dots chars by auto
qed


section \<open>Stored values\<close>

text \<open>The instants RFC 3339 can express, years 0000 to 9999, and what is documented of the codec on
  them: what it prints it parses back, in 20 to 64 characters.\<close>

definition time_ok :: "int \<Rightarrow> bool" where
  "time_ok t \<longleftrightarrow> -62167219200000000000 \<le> t \<and> t < 253402300800000000000"

definition repo_codec_ok :: "repo_codec \<Rightarrow> bool" where
  "repo_codec_ok cd \<longleftrightarrow>
     (\<forall>t. time_ok t \<longrightarrow> rc_parse_time cd (rc_show_time cd t) = Some t \<and> time_check (rc_show_time cd t)) \<and>
     rc_json cd (rc_show_config cd PostgresConfig) = Some (JObj []) \<and>
     length (rc_show_config cd PostgresConfig) \<le> 4096 \<and>
     rc_sql_object cd (rc_show_config cd PostgresConfig)"

definition stored_state :: "service_state \<Rightarrow> bool" where
  "stored_state s \<longleftrightarrow> state_valid s \<and> 1 \<le> sql_length (resolved_image_str (ss_image s)) \<and>
     time_ok (ss_updated s) \<and> opt_valid time_ok (ss_checked s)"

definition stored_service :: "service_row \<Rightarrow> bool" where
  "stored_service r \<longleftrightarrow>
     service_name_parse (service_name_str (rw_name r)) = Inr (rw_name r) \<and>
     provider_version_parse (version_str (rw_version r)) = Inr (rw_version r) \<and>
     time_ok (rw_created r) \<and> time_ok (rw_updated r)"

definition raw_of_service :: "repo_codec \<Rightarrow> service_row \<Rightarrow> service_raw" where
  "raw_of_service cd r =
     \<lparr>sv_name = service_name_str (rw_name r), sv_provider = provider_kind_str (rw_provider r),
      sv_version = version_str (rw_version r), sv_config = rc_show_config cd (rw_config r),
      sv_created = rc_show_time cd (rw_created r), sv_updated = rc_show_time cd (rw_updated r)\<rparr>"

lemma codec_time:
  assumes "repo_codec_ok cd" "time_ok t"
  shows "rc_parse_time cd (rc_show_time cd t) = Some t" "time_check (rc_show_time cd t)"
  using assms by (auto simp: repo_codec_ok_def)

lemma conv_simps [simp]:
  "conv (Inr x) = Inr x" "conv (Inl e) = Inl (ConvService e)" "conv_opt f None = Inr None"
  "conv_opt f (Some v) = and_then (f v) (\<lambda>y. Inr (Some y))"
  "of_conv (Inr x) = Inr x" "of_conv (Inl e') = Inl (SqlConversion e')"
  by (simp_all add: conv_def conv_opt_def of_conv_def)

lemma singletons [simp]: "((c :: postgres_config) = d) = True" "((k :: provider_kind) = l) = True"
  by (cases c; cases d; simp) (cases k; cases l; simp)

lemma conv_opt_map:
  assumes "opt_valid P x" "\<And>v. P v \<Longrightarrow> f (g v) = Inr v"
  shows "conv_opt f (map_option g x) = Inr x"
  using assms by (cases x) simp_all

lemma row_to_state_raw:
  assumes cd: "repo_codec_ok cd" and s: "stored_state s"
  shows "row_to_state cd (raw_of_state cd s) = Inr s"
proof -
  note v = s[unfolded stored_state_def state_valid_def]
  have opts: "conv_opt (conv \<circ> container_id_parse) (map_option container_id_str (ss_container s)) = Inr (ss_container s)"
      "conv_opt (conv \<circ> spec_hash_parse) (map_option spec_hash_str (ss_hash s)) = Inr (ss_hash s)"
    using v by (auto intro!: conv_opt_map simp: container_valid_def hash_valid_def)
  have enums: "conv_opt (conv \<circ> health_parse) (map_option health_str (ss_health s)) = Inr (ss_health s)"
      "conv_opt (conv \<circ> failure_code_parse) (map_option failure_code_str (ss_error s)) = Inr (ss_error s)"
    by (auto intro!: conv_opt_map[where P = "\<lambda>_. True"] simp: opt_valid_def split: option.split)
       (metis conv_simps(1) health_parse_iff, metis conv_simps(1) failure_code_parse_iff)
  have times: "conv_opt (parse_time cd) (map_option (rc_show_time cd) (ss_checked s)) = Inr (ss_checked s)"
      "parse_time cd (rc_show_time cd (ss_updated s)) = Inr (ss_updated s)"
    using v codec_time[OF cd] by (auto intro!: conv_opt_map simp: parse_time_def)
  have kinds: "provider_kind_parse (provider_kind_str (ss_provider s)) = Inr (ss_provider s)"
      "phase_parse (phase_str (ss_phase s)) = Inr (ss_phase s)"
    by (simp_all add: result_simps)
  have sr: "secret_ref_parse (secret_ref_str (ss_secret s)) = Inr (ss_secret s)"
    using s by (simp add: stored_state_def state_valid_secret)
  show ?thesis
    unfolding row_to_state_def raw_of_state_def state_raw.simps
    using v opts enums times kinds sr by (simp add: conv_name_def secret_ref_new_def)
qed

lemma kind_str [simp]: "provider_kind_str k = ''postgres''"
  by (induction k) simp

lemma opt_valid_mapI: "(\<And>v. P (f v)) \<Longrightarrow> opt_valid P (map_option f x)"
  by (simp add: opt_valid_def split: option.split)

lemma state_check_raw:
  assumes cd: "repo_codec_ok cd" and s: "stored_state s"
  shows "state_check (raw_of_state cd s)"
proof -
  note v = s[unfolded stored_state_def state_valid_def]
  have ver: "version_check (version_str (ss_version s))" "0 < ss_data_major s" "ss_data_major s < 100000"
    using v version_check_valid version_major_range[of "ss_version s"] by (simp_all add: version_valid_iff)
  have name: "name_check (service_name_str (ss_name s))" "0 < ss_generation s"
    using v name_check_valid by auto
  have hex: "hex_check 32 (instance_id_str (ss_instance s))"
      "opt_valid (hex_check 64) (map_option container_id_str (ss_container s))"
      "opt_valid (hex_check 64) (map_option spec_hash_str (ss_hash s))"
    using v by (auto simp: opt_valid_def container_valid_def hash_valid_def id_parse_iff hex_check_valid
        split: option.splits)
  have image: "1 \<le> sql_length (resolved_image_str (ss_image s))" "sql_length (resolved_image_str (ss_image s)) \<le> 512"
    using v sql_length_le[of "resolved_image_str (ss_image s)"] by (auto simp: image_parse_iff)
  have secret: "secret_check (secret_ref_str (ss_secret s))" using v secret_check_valid by simp
  have time: "time_check (rc_show_time cd (ss_updated s))"
      "opt_valid time_check (map_option (rc_show_time cd) (ss_checked s))"
    using v codec_time[OF cd] by (auto simp: opt_valid_def split: option.splits)
  have phase: "phase_str p \<in> {''provisioning'', ''ready'', ''deleting'', ''retained'', ''blocked'', ''error''}" for p
    by (cases p) simp_all
  have health: "opt_valid (\<lambda>h. h \<in> {''healthy'', ''unhealthy'', ''starting'', ''unknown''}) (map_option health_str h)" for h
    by (rule opt_valid_mapI) (rename_tac k, case_tac k, simp_all)
  have code: "opt_valid (\<lambda>e. e \<in> {''provision_failed'', ''health_timeout'', ''ownership_mismatch'',
       ''filesystem_check'', ''image_pull_failed'', ''readiness_failed'', ''internal''}) (map_option failure_code_str e)" for e
    by (rule opt_valid_mapI) (rename_tac k, case_tac k, simp_all)
  show ?thesis
    unfolding state_check_def raw_of_state_def state_raw.simps
    by (simp only: kind_str ver name hex image secret time phase health code simp_thms)
qed

lemma row_to_service_raw:
  assumes cd: "repo_codec_ok cd" and r: "stored_service r"
  shows "row_to_service cd (raw_of_service cd r) = Inr r"
    and "service_check cd (raw_of_service cd r)"
proof -
  note v = r[unfolded stored_service_def]
  have c: "rw_config r = PostgresConfig" by (cases "rw_config r")
  show "row_to_service cd (raw_of_service cd r) = Inr r"
    using v cd codec_time[OF cd] unfolding row_to_service_def raw_of_service_def service_raw.simps c
    by (cases r) (auto simp: conv_name_def provider_kind_parse_def parse_config_def repo_codec_ok_def parse_time_def)
  have "sql_length (rc_show_config cd PostgresConfig) \<le> 4096"
    using cd sql_length_le[of "rc_show_config cd PostgresConfig"] by (auto simp: repo_codec_ok_def)
  moreover have "name_check (service_name_str (rw_name r))" "version_check (version_str (rw_version r))"
    using v name_check_valid version_check_valid by (auto simp: version_valid_iff)
  ultimately show "service_check cd (raw_of_service cd r)"
    using v cd codec_time[OF cd] unfolding service_check_def raw_of_service_def service_raw.simps c
    by (auto simp: repo_codec_ok_def)
qed

end
