(* ===== verification/ServiceLedger.thy ===== *)
theory ServiceLedger
  imports ServiceRepoProps
begin

text \<open>
  The typed tables the repository implements: a ledger of desired and control rows with unique
  names and instances.  Every operation of the repository, seen through the row mappers, is a step
  of the ledger or leaves it unchanged.
\<close>

section \<open>The ledger and its representation\<close>

record ledger =
  lg_services :: "service_row list"
  lg_states :: "service_state list"

definition desired :: "ledger \<Rightarrow> service_name \<Rightarrow> service_row option" where
  "desired t n = find (\<lambda>r. rw_name r = n) (lg_services t)"

definition control :: "ledger \<Rightarrow> service_name \<Rightarrow> service_state option" where
  "control t n = find (\<lambda>s. ss_name s = n) (lg_states t)"

definition ledger_ok :: "ledger \<Rightarrow> bool" where
  "ledger_ok t \<longleftrightarrow> list_all stored_service (lg_services t) \<and> list_all stored_state (lg_states t) \<and>
     distinct (map rw_name (lg_services t)) \<and> distinct (map ss_name (lg_states t)) \<and>
     distinct (map ss_instance (lg_states t))"

definition represents :: "repo_codec \<Rightarrow> service_db \<Rightarrow> ledger \<Rightarrow> bool" where
  "represents cd db t \<longleftrightarrow> ledger_ok t \<and> db_services db = map (raw_of_service cd) (lg_services t) \<and>
     db_states db = map (raw_of_state cd) (lg_states t)"

definition put_control :: "service_state \<Rightarrow> ledger \<Rightarrow> ledger" where
  "put_control s t = t\<lparr>lg_states := map (\<lambda>x. if ss_name x = ss_name s then s else x) (lg_states t)\<rparr>"

definition put_desired :: "service_row \<Rightarrow> ledger \<Rightarrow> ledger" where
  "put_desired r t = t\<lparr>lg_services := map (\<lambda>x. if rw_name x = rw_name r then r else x) (lg_services t)\<rparr>"

definition add_desired :: "service_row \<Rightarrow> ledger \<Rightarrow> ledger" where
  "add_desired r t = t\<lparr>lg_services := lg_services t @ [r]\<rparr>"

definition add_control :: "service_state \<Rightarrow> ledger \<Rightarrow> ledger" where
  "add_control s t = t\<lparr>lg_states := lg_states t @ [s]\<rparr>"

definition drop_desired :: "service_name \<Rightarrow> ledger \<Rightarrow> ledger" where
  "drop_desired n t = t\<lparr>lg_services := filter (\<lambda>r. rw_name r \<noteq> n) (lg_services t)\<rparr>"

definition new_row :: "service_spec \<Rightarrow> int \<Rightarrow> service_row" where
  "new_row sp now = \<lparr>rw_name = sp_name sp, rw_provider = sp_provider sp, rw_version = sp_version sp,
     rw_config = sp_config sp, rw_created = now, rw_updated = now\<rparr>"

lemma find_SomeD: "find P xs = Some x \<Longrightarrow> x \<in> set xs \<and> P x"
  by (induction xs) (auto split: if_splits)

lemma find_key_iff:
  "distinct (map k xs) \<Longrightarrow> find (\<lambda>x. k x = a) xs = Some x \<longleftrightarrow> x \<in> set xs \<and> k x = a"
  by (induction xs) (auto simp: rev_image_eqI)

lemma find_key_None: "find (\<lambda>x. k x = a) xs = None \<longleftrightarrow> a \<notin> k ` set xs"
  by (induction xs) auto

lemma find_append: "find P (xs @ ys) = (case find P xs of Some x \<Rightarrow> Some x | None \<Rightarrow> find P ys)"
  by (induction xs) auto

lemma find_put:
  "find (\<lambda>x. k x = a) (map (\<lambda>x. if k x = k s then s else x) xs) =
     (if a = k s \<and> k s \<in> k ` set xs then Some s else find (\<lambda>x. k x = a) xs)"
  by (induction xs) auto

lemma find_drop: "find (\<lambda>x. k x = a) (filter (\<lambda>x. k x \<noteq> b) xs) = (if a = b then None else find (\<lambda>x. k x = a) xs)"
  by (induction xs) auto

lemma map_put_keys: "map k (map (\<lambda>x. if k x = k s then s else x) xs) = map k xs"
  by simp

lemma control_put [simp]:
  "control (put_control s t) m = (if m = ss_name s \<and> control t m \<noteq> None then Some s else control t m)"
  using find_put[of ss_name m s "lg_states t"] find_key_None[of ss_name m "lg_states t"]
  by (cases "m = ss_name s") (simp_all add: control_def put_control_def)

lemma desired_put [simp]:
  "desired (put_desired r t) m = (if m = rw_name r \<and> desired t m \<noteq> None then Some r else desired t m)"
  using find_put[of rw_name m r "lg_services t"] find_key_None[of rw_name m "lg_services t"]
  by (cases "m = rw_name r") (simp_all add: desired_def put_desired_def)

lemma ledger_lookup [simp]:
  "desired (put_control s t) m = desired t m" "control (put_desired r t) m = control t m"
  "desired (add_control s t) m = desired t m" "control (add_desired r t) m = control t m"
  "control (drop_desired n t) m = control t m"
  "desired (drop_desired n t) m = (if m = n then None else desired t m)"
  by (simp_all add: desired_def control_def put_control_def put_desired_def add_desired_def add_control_def
      drop_desired_def find_drop)

lemma desired_add [simp]:
  "desired t (rw_name r) = None \<Longrightarrow> desired (add_desired r t) m = (if m = rw_name r then Some r else desired t m)"
  by (auto simp: desired_def add_desired_def find_append split: option.splits)

lemma control_add [simp]:
  "control t (ss_name s) = None \<Longrightarrow> control (add_control s t) m = (if m = ss_name s then Some s else control t m)"
  by (auto simp: control_def add_control_def find_append split: option.splits)

lemma control_iff: "ledger_ok t \<Longrightarrow> control t n = Some s \<longleftrightarrow> s \<in> set (lg_states t) \<and> ss_name s = n"
  unfolding control_def ledger_ok_def by (auto simp: find_key_iff)

lemma desired_iff: "ledger_ok t \<Longrightarrow> desired t n = Some r \<longleftrightarrow> r \<in> set (lg_services t) \<and> rw_name r = n"
  unfolding desired_def ledger_ok_def by (auto simp: find_key_iff)

lemma control_stored: "ledger_ok t \<Longrightarrow> control t n = Some s \<Longrightarrow> stored_state s \<and> ss_name s = n"
  by (auto simp: control_iff) (auto simp: ledger_ok_def list_all_iff)

lemma desired_stored: "ledger_ok t \<Longrightarrow> desired t n = Some r \<Longrightarrow> stored_service r \<and> rw_name r = n"
  by (auto simp: desired_iff) (auto simp: ledger_ok_def list_all_iff)

section \<open>Reading through the mappers\<close>

lemma name_str_inj [simp]: "service_name_str a = service_name_str b \<longleftrightarrow> a = b"
  using service_name.expand by blast

lemma instance_str_inj [simp]: "instance_id_str a = instance_id_str b \<longleftrightarrow> a = b"
  using instance_id.expand by blast

lemma find_map_raw: "find P (map f xs) = map_option f (find (P \<circ> f) xs)"
  by (induction xs) auto

lemma raw_keys [simp]:
  "cr_name (raw_of_state cd s) = service_name_str (ss_name s)"
  "cr_instance (raw_of_state cd s) = instance_id_str (ss_instance s)"
  "cr_generation (raw_of_state cd s) = ss_generation s"
  "cr_phase (raw_of_state cd s) = phase_str (ss_phase s)"
  "sv_name (raw_of_service cd r) = service_name_str (rw_name r)"
  by (simp_all add: raw_of_state_def raw_of_service_def)

lemma select_state_raw:
  "represents cd db t \<Longrightarrow> select_state db (service_name_str n) = map_option (raw_of_state cd) (control t n)"
  by (simp add: select_state_def represents_def control_def find_map_raw comp_def)

lemma select_service_raw:
  "represents cd db t \<Longrightarrow> select_service db (service_name_str n) = map_option (raw_of_service cd) (desired t n)"
  by (simp add: select_service_def represents_def desired_def find_map_raw comp_def)

lemma get_state_ledger:
  "repo_codec_ok cd \<Longrightarrow> represents cd db t \<Longrightarrow> get_state cd db n = Inr (control t n)"
  using control_stored[of t n] by (auto simp: get_state_def select_state_raw row_to_state_raw represents_def
      split: option.split)

lemma get_service_ledger:
  "repo_codec_ok cd \<Longrightarrow> represents cd db t \<Longrightarrow> get_service cd db n = Inr (desired t n)"
  using desired_stored[of t n] by (auto simp: get_service_def select_service_raw row_to_service_raw represents_def
      split: option.split)


section \<open>Statements on represented tables\<close>

lemma put_control_ok:
  assumes t: "ledger_ok t" and c: "control t n = Some s"
    and s': "stored_state s'" "ss_name s' = n" "ss_instance s' = ss_instance s"
  shows "ledger_ok (put_control s' t)"
proof -
  have s: "s \<in> set (lg_states t)" "ss_name s = n" using c by (auto simp: control_iff[OF t])
  have one: "ss_name x = n \<Longrightarrow> x \<in> set (lg_states t) \<Longrightarrow> x = s" for x
    using t s by (auto simp: ledger_ok_def dest: inj_onD distinct_map[THEN iffD1])
  have "map ss_instance (lg_states (put_control s' t)) = map ss_instance (lg_states t)"
    using one s' by (auto simp: put_control_def)
  moreover have "map ss_name (lg_states (put_control s' t)) = map ss_name (lg_states t)"
    using s' by (auto simp: put_control_def)
  moreover have "list_all stored_state (lg_states (put_control s' t))"
      "lg_services (put_control s' t) = lg_services t"
    using t s' by (auto simp: put_control_def list_all_iff ledger_ok_def)
  ultimately show ?thesis using t unfolding ledger_ok_def by metis
qed

lemma update_rows_represents:
  assumes cd: "repo_codec_ok cd" and rep: "represents cd db t" and c: "control t n = Some s"
    and w: "\<And>x. x \<in> set (lg_states t) \<Longrightarrow> w (raw_of_state cd x) \<longleftrightarrow> x = s"
    and f: "f (raw_of_state cd s) = raw_of_state cd s'"
    and s': "stored_state s'" "ss_name s' = n" "ss_instance s' = ss_instance s"
  shows "\<exists>k db'. update_state_rows w f db = Inr (db', Suc k) \<and> represents cd db' (put_control s' t)"
proof -
  have t: "ledger_ok t" and st: "db_states db = map (raw_of_state cd) (lg_states t)"
    and sv: "db_services db = map (raw_of_service cd) (lg_services t)"
    using rep by (simp_all add: represents_def)
  have s: "s \<in> set (lg_states t)" "ss_name s = n" using c by (auto simp: control_iff[OF t])
  have one: "x \<in> set (lg_states t) \<Longrightarrow> ss_name x = n \<longleftrightarrow> x = s" for x
    using t s by (auto simp: ledger_ok_def dest: inj_onD distinct_map[THEN iffD1])
  define db' where "db' = db\<lparr>db_states := map (\<lambda>r. if w r then f r else r) (db_states db)\<rparr>"
  have hit: "r \<in> set (filter w (db_states db)) \<Longrightarrow> r = raw_of_state cd s" for r
    using w by (auto simp: st)
  have chk: "list_all (\<lambda>r. state_check (f r)) (filter w (db_states db))"
    unfolding list_all_iff using hit f state_check_raw[OF cd s'(1)] by auto
  have "raw_of_state cd s \<in> set (filter w (db_states db))" using s w by (auto simp: st)
  then obtain k where k: "length (filter w (db_states db)) = Suc k" by (cases "filter w (db_states db)") auto
  have "map (\<lambda>r. if w r then f r else r) (db_states db) = map (raw_of_state cd) (lg_states (put_control s' t))"
    using w f s' one by (auto simp: st put_control_def)
  then have "represents cd db' (put_control s' t)"
    using put_control_ok[OF t c s'] sv by (simp add: represents_def db'_def put_control_def)
  then show ?thesis using chk k by (auto simp: update_state_rows_def Let_def db'_def)
qed

lemma insert_service_represents:
  assumes cd: "repo_codec_ok cd" and rep: "represents cd db t" and r: "stored_service r"
  shows "insert_service_row cd (raw_of_service cd r) db =
     (if desired t (rw_name r) \<noteq> None then Inl (SqlUnique ''services.name'')
      else Inr (db\<lparr>db_services := db_services db @ [raw_of_service cd r]\<rparr>))"
    and "desired t (rw_name r) = None \<Longrightarrow>
      represents cd (db\<lparr>db_services := db_services db @ [raw_of_service cd r]\<rparr>) (add_desired r t)"
proof -
  have sv: "db_services db = map (raw_of_service cd) (lg_services t)" using rep by (simp add: represents_def)
  have mem: "sv_name (raw_of_service cd r) \<in> set (map sv_name (db_services db)) \<longleftrightarrow> desired t (rw_name r) \<noteq> None"
    by (auto simp: sv desired_def find_key_None image_image)
  show "insert_service_row cd (raw_of_service cd r) db =
     (if desired t (rw_name r) \<noteq> None then Inl (SqlUnique ''services.name'')
      else Inr (db\<lparr>db_services := db_services db @ [raw_of_service cd r]\<rparr>))"
    unfolding insert_service_row_def mem using row_to_service_raw[OF cd r] by simp
  show "represents cd (db\<lparr>db_services := db_services db @ [raw_of_service cd r]\<rparr>) (add_desired r t)"
    if "desired t (rw_name r) = None"
    using rep r that by (auto simp: represents_def ledger_ok_def add_desired_def desired_def find_key_None)
qed

lemma insert_state_represents:
  assumes cd: "repo_codec_ok cd" and rep: "represents cd db t" and s: "stored_state s"
  shows "insert_state_row cd s db =
     (if control t (ss_name s) \<noteq> None then Inl (SqlUnique ''service_state.service_name'')
      else if ss_instance s \<in> ss_instance ` set (lg_states t) then Inl (SqlUnique ''service_state.instance_id'')
      else Inr (db\<lparr>db_states := db_states db @ [raw_of_state cd s]\<rparr>))"
    and "control t (ss_name s) = None \<Longrightarrow> ss_instance s \<notin> ss_instance ` set (lg_states t) \<Longrightarrow>
      represents cd (db\<lparr>db_states := db_states db @ [raw_of_state cd s]\<rparr>) (add_control s t)"
proof -
  have st: "db_states db = map (raw_of_state cd) (lg_states t)" using rep by (simp add: represents_def)
  have mem: "cr_name (raw_of_state cd s) \<in> set (map cr_name (db_states db)) \<longleftrightarrow> control t (ss_name s) \<noteq> None"
      "cr_instance (raw_of_state cd s) \<in> set (map cr_instance (db_states db)) \<longleftrightarrow>
        ss_instance s \<in> ss_instance ` set (lg_states t)"
    by (auto simp: st control_def find_key_None image_image)
  show "insert_state_row cd s db =
     (if control t (ss_name s) \<noteq> None then Inl (SqlUnique ''service_state.service_name'')
      else if ss_instance s \<in> ss_instance ` set (lg_states t) then Inl (SqlUnique ''service_state.instance_id'')
      else Inr (db\<lparr>db_states := db_states db @ [raw_of_state cd s]\<rparr>))"
    unfolding insert_state_row_def Let_def mem using state_check_raw[OF cd s] by simp
  show "represents cd (db\<lparr>db_states := db_states db @ [raw_of_state cd s]\<rparr>) (add_control s t)"
    if "control t (ss_name s) = None" "ss_instance s \<notin> ss_instance ` set (lg_states t)"
    using rep s that by (auto simp: represents_def ledger_ok_def add_control_def control_def find_key_None)
qed

lemma drop_represents:
  "represents cd db t \<Longrightarrow> represents cd (delete_service_row (service_name_str n) db) (drop_desired n t)"
  by (auto simp: represents_def ledger_ok_def drop_desired_def delete_service_row_def filter_map comp_def
      list_all_iff distinct_map_filter)

lemma raw_of_spec_service [simp]: "raw_of_spec cd sp now = raw_of_service cd (new_row sp now)"
  by (simp add: raw_of_spec_def raw_of_service_def new_row_def)

lemma new_row_stored: "spec_valid sp \<Longrightarrow> time_ok now \<Longrightarrow> stored_service (new_row sp now)"
  by (simp add: spec_valid_def stored_service_def new_row_def)

end
