(* ===== verification/ServiceSteps.thy ===== *)
theory ServiceSteps
  imports ServiceLedger
begin

text \<open>
  The operations of the repository on represented tables: exactly when each one succeeds, the
  ledger it leads to, and that a refused operation changes nothing.  The step relation of the
  repository collects them; its runs keep identities and order generations.
\<close>

section \<open>Each operation as a ledger update\<close>

definition retained_state :: "int \<Rightarrow> service_state \<Rightarrow> service_state" where
  "retained_state now s = s\<lparr>ss_generation := ss_generation s + 1, ss_phase := Retained, ss_health := None,
     ss_error := None, ss_checked := None, ss_updated := now\<rparr>"

definition reattached_state :: "int \<Rightarrow> service_state \<Rightarrow> service_state" where
  "reattached_state now s = s\<lparr>ss_generation := ss_generation s + 1, ss_phase := Provisioning,
     ss_health := None, ss_error := None, ss_checked := None, ss_updated := now\<rparr>"

definition cas_state ::
  "lifecycle_phase \<Rightarrow> container_id option \<Rightarrow> spec_hash option \<Rightarrow> health_kind option \<Rightarrow> failure_code option \<Rightarrow>
     int option \<Rightarrow> int \<Rightarrow> service_state \<Rightarrow> service_state" where
  "cas_state ph c h hk fc ck now s = s\<lparr>ss_generation := ss_generation s + 1, ss_phase := ph,
     ss_container := c, ss_hash := h, ss_health := hk, ss_error := fc, ss_checked := ck, ss_updated := now\<rparr>"

definition health_state :: "health_kind \<Rightarrow> failure_code option \<Rightarrow> int \<Rightarrow> service_state \<Rightarrow> service_state" where
  "health_state hk fc now s = s\<lparr>ss_health := Some hk, ss_error := fc, ss_checked := Some now, ss_updated := now\<rparr>"

lemmas state_updates = retained_state_def reattached_state_def cas_state_def health_state_def

lemma update_kept [simp]:
  "ss_name (retained_state now s) = ss_name s" "ss_instance (retained_state now s) = ss_instance s"
  "ss_name (reattached_state now s) = ss_name s" "ss_instance (reattached_state now s) = ss_instance s"
  "ss_name (cas_state ph c h hk fc ck now s) = ss_name s" "ss_instance (cas_state ph c h hk fc ck now s) = ss_instance s"
  "ss_name (health_state hh fc now s) = ss_name s" "ss_instance (health_state hh fc now s) = ss_instance s"
  by (simp_all add: state_updates)

lemma update_stored:
  assumes "stored_state s" "time_ok now"
  shows "stored_state (retained_state now s)" "stored_state (reattached_state now s)"
    "stored_state (health_state hh fc now s)"
    "opt_valid container_valid c \<Longrightarrow> opt_valid hash_valid h \<Longrightarrow> opt_valid time_ok ck \<Longrightarrow>
       stored_state (cas_state ph c h hk fc ck now s)"
  using assms by (auto simp: stored_state_def state_valid_def state_updates)

lemma raw_updates:
  "retain_row cd (ss_generation s + 1) now (raw_of_state cd s) = raw_of_state cd (retained_state now s)"
  "reattach_row cd (ss_generation s + 1) now (raw_of_state cd s) = raw_of_state cd (reattached_state now s)"
  "cas_row cd (ss_generation s + 1) ph c h hk fc ck now (raw_of_state cd s) =
     raw_of_state cd (cas_state ph c h hk fc ck now s)"
  "health_row cd hh fc now (raw_of_state cd s) = raw_of_state cd (health_state hh fc now s)"
  by (simp_all add: retain_row_def reattach_row_def cas_row_def health_row_def raw_of_state_def state_updates)

lemma ledger_unique:
  "ledger_ok t \<Longrightarrow> control t n = Some s \<Longrightarrow> x \<in> set (lg_states t) \<Longrightarrow> ss_name x = n \<longleftrightarrow> x = s"
  by (metis control_iff option.inject)

lemma represents_ok: "represents cd db t \<Longrightarrow> ledger_ok t"
  by (simp add: represents_def)

lemma in_tx_simps [simp]: "in_tx db (Inl e) = (db, Inl e)" "in_tx db (Inr (db', x)) = (db', Inr x)"
  by (simp_all add: in_tx_def)

lemma cas_rows_ledger:
  assumes cd: "repo_codec_ok cd" and rep: "represents cd db t" and c: "control t n = Some s"
    and f: "f (raw_of_state cd s) = raw_of_state cd s'"
    and s': "stored_state s'" "ss_name s' = ss_name s" "ss_instance s' = ss_instance s"
  shows "\<exists>db'. cas_rows n (ss_generation s) f x db = Inr (db', x) \<and> represents cd db' (put_control s' t)"
proof -
  have n: "ss_name s = n" using control_stored[OF represents_ok[OF rep] c] by simp
  let ?w = "\<lambda>y. cr_name y = service_name_str n \<and> cr_generation y = ss_generation s"
  have w: "?w (raw_of_state cd y) \<longleftrightarrow> y = s" if "y \<in> set (lg_states t)" for y
    using ledger_unique[OF represents_ok[OF rep] c that] n by auto
  have "\<exists>k db'. update_state_rows ?w f db = Inr (db', Suc k) \<and> represents cd db' (put_control s' t)"
    by (rule update_rows_represents[OF cd rep c, where s' = s']) (use w f s' n in simp_all)
  then obtain k db' where "update_state_rows ?w f db = Inr (db', Suc k)" "represents cd db' (put_control s' t)"
    by blast
  then show ?thesis
    using select_state_raw[OF rep, of n] c by (simp add: cas_rows_def)
qed

lemma cas_rows_refused:
  assumes rep: "represents cd db t"
  shows "control t n = None \<Longrightarrow> cas_rows n g f x db = Inl (NotFound (service_name_str n))"
    and "control t n = Some s \<Longrightarrow> ss_generation s \<noteq> g \<Longrightarrow>
      cas_rows n g f x db = Inl (GenerationMismatch g (ss_generation s))"
  using select_state_raw[OF rep, of n] by (simp_all add: cas_rows_def)

lemma update_state_cas_ledger:
  assumes cd: "repo_codec_ok cd" and rep: "represents cd db t"
    and args: "opt_valid container_valid c" "opt_valid hash_valid h" "opt_valid time_ok ck" "time_ok now"
  shows "case control t n of
       None \<Rightarrow> update_state_cas cd n g ph c h hk fc ck now db = (db, Inl (NotFound (service_name_str n)))
     | Some s \<Rightarrow>
         if ss_generation s \<noteq> g
         then update_state_cas cd n g ph c h hk fc ck now db = (db, Inl (GenerationMismatch g (ss_generation s)))
         else \<exists>db'. update_state_cas cd n g ph c h hk fc ck now db = (db', Inr (g + 1)) \<and>
                    represents cd db' (put_control (cas_state ph c h hk fc ck now s) t)"
proof (cases "control t n")
  case None
  then show ?thesis by (simp add: update_state_cas_def cas_rows_refused[OF rep])
next
  case (Some s)
  show ?thesis
  proof (cases "ss_generation s = g")
    case True
    have "\<exists>db'. cas_rows n (ss_generation s) (cas_row cd (g + 1) ph c h hk fc ck now) (g + 1) db = Inr (db', g + 1) \<and>
        represents cd db' (put_control (cas_state ph c h hk fc ck now s) t)"
      using control_stored[OF represents_ok[OF rep] Some] update_stored(4)[OF _ args(4,1,2,3)]
      by (intro cas_rows_ledger[OF cd rep Some]) (simp_all add: raw_updates(3) True[symmetric])
    then show ?thesis using Some True by (auto simp: update_state_cas_def)
  qed (use Some in \<open>simp add: update_state_cas_def cas_rows_refused[OF rep]\<close>)
qed

lemma update_health_ledger:
  assumes cd: "repo_codec_ok cd" and rep: "represents cd db t" and now: "time_ok now"
  shows "case control t n of
       None \<Rightarrow> update_health cd n g hk fc now db = (db, Inl (NotFound (service_name_str n)))
     | Some s \<Rightarrow>
         if ss_generation s \<noteq> g
         then update_health cd n g hk fc now db = (db, Inl (GenerationMismatch g (ss_generation s)))
         else \<exists>db'. update_health cd n g hk fc now db = (db', Inr ()) \<and>
                    represents cd db' (put_control (health_state hk fc now s) t)"
proof (cases "control t n")
  case None
  then show ?thesis by (simp add: update_health_def cas_rows_refused[OF rep])
next
  case (Some s)
  show ?thesis
  proof (cases "ss_generation s = g")
    case True
    have "\<exists>db'. cas_rows n (ss_generation s) (health_row cd hk fc now) () db = Inr (db', ()) \<and>
        represents cd db' (put_control (health_state hk fc now s) t)"
      using control_stored[OF represents_ok[OF rep] Some] update_stored(3)[OF _ now]
      by (intro cas_rows_ledger[OF cd rep Some]) (simp_all add: raw_updates(4))
    then show ?thesis using Some True by (auto simp: update_health_def)
  qed (use Some in \<open>simp add: update_health_def cas_rows_refused[OF rep]\<close>)
qed


text \<open>Which retained or removed row a request is allowed to act on.\<close>

definition retain_allowed :: "service_state \<Rightarrow> instance_id \<Rightarrow> secret_ref \<Rightarrow> provider_kind \<Rightarrow> int \<Rightarrow> int \<Rightarrow> bool" where
  "retain_allowed s i sr p m g \<longleftrightarrow>
     ss_provider s = p \<and> ss_data_major s = m \<and> ss_instance s = i \<and>
     secret_ref_str (ss_secret s) = secret_ref_str sr \<and> ss_generation s = g \<and>
     eligible_for_retain (ss_phase s)"

definition reattach_allowed ::
  "service_state \<Rightarrow> service_spec \<Rightarrow> instance_id \<Rightarrow> secret_ref \<Rightarrow> resolved_image \<Rightarrow> spec_hash option \<Rightarrow> int \<Rightarrow> bool" where
  "reattach_allowed s sp i sr img h g \<longleftrightarrow>
     ss_provider s = sp_provider sp \<and> ss_version s = sp_version sp \<and> ss_instance s = i \<and>
     secret_ref_str (ss_secret s) = secret_ref_str sr \<and> ss_image s = img \<and> ss_hash s = h \<and>
     ss_generation s = g \<and> ss_phase s = Retained"

lemma check_tuple_iff: "check_tuple cs = Inr () \<longleftrightarrow> (\<forall>c\<in>set cs. fst c)"
  by (auto simp: check_tuple_def result_simps)

lemma check_tuple_cases:
  obtains "check_tuple cs = Inr ()" "\<forall>c\<in>set cs. fst c"
  | e where "check_tuple cs = Inl e" "\<not> (\<forall>c\<in>set cs. fst c)"
  using check_tuple_iff[of cs] by (cases "check_tuple cs") auto

lemma raw_fields [simp]:
  "cr_provider (raw_of_state cd s) = provider_kind_str (ss_provider s)"
  "cr_major (raw_of_state cd s) = ss_data_major s" "cr_version (raw_of_state cd s) = version_str (ss_version s)"
  "cr_secret (raw_of_state cd s) = secret_ref_str (ss_secret s)"
  "cr_image (raw_of_state cd s) = resolved_image_str (ss_image s)"
  "cr_hash (raw_of_state cd s) = map_option spec_hash_str (ss_hash s)"
  by (simp_all add: raw_of_state_def)

lemma string_inj [simp]:
  "version_str a = version_str b \<longleftrightarrow> a = b" "resolved_image_str x = resolved_image_str y \<longleftrightarrow> x = y"
  by (cases a; cases b; simp) (cases x; cases y; simp)

lemma hash_str_inj [simp]: "map_option spec_hash_str h = map_option spec_hash_str k \<longleftrightarrow> h = k"
  by (cases h; cases k) (auto intro: spec_hash.expand)

lemma phase_parse_str [simp]: "phase_parse (phase_str p) = Inr p"
  by (simp add: phase_parse_iff)

lemma delete_and_retain_ledger:
  assumes cd: "repo_codec_ok cd" and rep: "represents cd db t" and now: "time_ok now"
  shows "case control t n of
       None \<Rightarrow> delete_service_and_retain cd n i sr p m g now db = (db, Inl (NotFound (service_name_str n)))
     | Some s \<Rightarrow>
         if retain_allowed s i sr p m g
         then \<exists>db'. delete_service_and_retain cd n i sr p m g now db = (db', Inr (g + 1)) \<and>
                    represents cd db' (put_control (retained_state now s) (drop_desired n t))
         else \<exists>e. delete_service_and_retain cd n i sr p m g now db = (db, Inl e)"
proof (cases "control t n")
  case None
  then show ?thesis using select_state_raw[OF rep, of n] by (simp add: delete_service_and_retain_def)
next
  case (Some s)
  have sel: "select_state db (service_name_str n) = Some (raw_of_state cd s)"
    using select_state_raw[OF rep, of n] Some by simp
  note st = control_stored[OF represents_ok[OF rep] Some]
  show ?thesis
  proof (cases "retain_allowed s i sr p m g")
    case True
    let ?w = "\<lambda>x. cr_name x = service_name_str n \<and> cr_generation x = g \<and> cr_instance x = instance_id_str i"
    let ?db = "delete_service_row (service_name_str n) db"
    have drep: "represents cd ?db (drop_desired n t)" by (rule drop_represents[OF rep])
    have dc: "control (drop_desired n t) n = Some s" using Some by simp
    have w: "?w (raw_of_state cd x) \<longleftrightarrow> x = s" if "x \<in> set (lg_states (drop_desired n t))" for x
      using ledger_unique[OF represents_ok[OF drep] dc that] True st by (auto simp: retain_allowed_def)
    have f: "retain_row cd (g + 1) now (raw_of_state cd s) = raw_of_state cd (retained_state now s)"
      using True raw_updates(1)[of cd s now] by (auto simp: retain_allowed_def)
    have "\<exists>k db'. update_state_rows ?w (retain_row cd (g + 1) now) ?db = Inr (db', Suc k) \<and>
        represents cd db' (put_control (retained_state now s) (drop_desired n t))"
      by (rule update_rows_represents[OF cd drep dc, where s' = "retained_state now s"])
         (use w f st update_stored(1)[OF _ now] in simp_all)
    then obtain k db' where u: "update_state_rows ?w (retain_row cd (g + 1) now) ?db = Inr (db', Suc k)"
        "represents cd db' (put_control (retained_state now s) (drop_desired n t))" by blast
    have chk: "check_tuple
        [(cr_provider (raw_of_state cd s) = provider_kind_str p, ''provider''),
         (cr_major (raw_of_state cd s) = m, ''data_major''),
         (cr_instance (raw_of_state cd s) = instance_id_str i, ''instance_id''),
         (cr_secret (raw_of_state cd s) = secret_ref_str sr, ''secret_ref'')] = Inr ()"
      using True by (simp add: check_tuple_iff retain_allowed_def)
    have "delete_service_and_retain cd n i sr p m g now db = (db', Inr (g + 1))"
      unfolding delete_service_and_retain_def sel option.case chk and_then_simps
      using True u(1) by (simp add: retain_allowed_def)
    then show ?thesis using Some True u(2) by simp
  next
    case False
    have "\<exists>e. delete_service_and_retain cd n i sr p m g now db = (db, Inl e)"
    proof (cases rule: check_tuple_cases[of "[(cr_provider (raw_of_state cd s) = provider_kind_str p, ''provider''),
         (cr_major (raw_of_state cd s) = m, ''data_major''),
         (cr_instance (raw_of_state cd s) = instance_id_str i, ''instance_id''),
         (cr_secret (raw_of_state cd s) = secret_ref_str sr, ''secret_ref'')]"])
      case 1
      then have "\<not> (ss_generation s = g \<and> eligible_for_retain (ss_phase s))"
        using False by (auto simp: retain_allowed_def)
      then show ?thesis
        unfolding delete_service_and_retain_def sel option.case 1(1) and_then_simps by auto
    next
      case (2 e)
      show ?thesis unfolding delete_service_and_retain_def sel option.case 2(1) by simp
    qed
    then show ?thesis using Some False by simp
  qed
qed


lemma config_json_ok: "repo_codec_ok cd \<Longrightarrow> validate_config_json cd (rc_show_config cd c) = Inr ()"
  by (induction c) (simp add: repo_codec_ok_def validate_config_json_def is_jobj_def)

lemma reattach_ledger:
  assumes cd: "repo_codec_ok cd" and rep: "represents cd db t" and now: "time_ok now" and sp: "spec_valid sp"
  shows "case control t (sp_name sp) of
       None \<Rightarrow> reattach_retained cd sp i sr img h g now db = (db, Inl (NotFound (service_name_str (sp_name sp))))
     | Some s \<Rightarrow>
         if reattach_allowed s sp i sr img h g \<and> desired t (sp_name sp) = None
         then \<exists>db'. reattach_retained cd sp i sr img h g now db = (db', Inr (g + 1)) \<and>
                    represents cd db' (put_control (reattached_state now s) (add_desired (new_row sp now) t))
         else \<exists>e. reattach_retained cd sp i sr img h g now db = (db, Inl e)"
proof (cases "control t (sp_name sp)")
  case None
  then show ?thesis
    using select_state_raw[OF rep, of "sp_name sp"] by (simp add: reattach_retained_def config_json_ok[OF cd])
next
  case (Some s)
  let ?n = "sp_name sp"
  have sel: "select_state db (service_name_str ?n) = Some (raw_of_state cd s)"
    using select_state_raw[OF rep, of ?n] Some by simp
  note st = control_stored[OF represents_ok[OF rep] Some]
  have major: "ss_version s = sp_version sp \<Longrightarrow> ss_data_major s = version_major (sp_version sp)"
    using st by (auto simp: stored_state_def state_valid_def)
  let ?cs = "[(cr_provider (raw_of_state cd s) = provider_kind_str (sp_provider sp), ''provider''),
               (cr_major (raw_of_state cd s) = version_major (sp_version sp), ''data_major''),
               (cr_version (raw_of_state cd s) = version_str (sp_version sp), ''version''),
               (cr_instance (raw_of_state cd s) = instance_id_str i, ''instance_id''),
               (cr_secret (raw_of_state cd s) = secret_ref_str sr, ''secret_ref''),
               (cr_image (raw_of_state cd s) = resolved_image_str img, ''resolved_image''),
               (cr_hash (raw_of_state cd s) = map_option spec_hash_str h, ''applied_spec_hash'')]"
  note row = new_row_stored[OF sp now]
  have name: "rw_name (new_row sp now) = ?n" by (simp add: new_row_def)
  show ?thesis
  proof (cases "reattach_allowed s sp i sr img h g")
    case allowed: True
    then have chk: "check_tuple ?cs = Inr ()" using major by (simp add: check_tuple_iff reattach_allowed_def)
    have gp: "ss_generation s = g" "ss_phase s = Retained" using allowed by (simp_all add: reattach_allowed_def)
    show ?thesis
    proof (cases "desired t ?n")
      case dn: None
      let ?w = "\<lambda>x. cr_name x = service_name_str ?n \<and> cr_generation x = g \<and> cr_phase x = ''retained'' \<and>
        cr_instance x = instance_id_str i"
      let ?db = "db\<lparr>db_services := db_services db @ [raw_of_service cd (new_row sp now)]\<rparr>"
      have arep: "represents cd ?db (add_desired (new_row sp now) t)"
        using insert_service_represents(2)[OF cd rep row] dn name by simp
      have ins: "insert_service_row cd (raw_of_spec cd sp now) db = Inr ?db"
        using insert_service_represents(1)[OF cd rep row] dn name by simp
      have ac: "control (add_desired (new_row sp now) t) ?n = Some s" using Some by simp
      have w: "?w (raw_of_state cd x) \<longleftrightarrow> x = s" if "x \<in> set (lg_states (add_desired (new_row sp now) t))" for x
        using ledger_unique[OF represents_ok[OF arep] ac that] allowed st by (auto simp: reattach_allowed_def)
      have f: "reattach_row cd (g + 1) now (raw_of_state cd s) = raw_of_state cd (reattached_state now s)"
        using gp raw_updates(2)[of cd s now] by auto
      have "\<exists>k db'. update_state_rows ?w (reattach_row cd (g + 1) now) ?db = Inr (db', Suc k) \<and>
          represents cd db' (put_control (reattached_state now s) (add_desired (new_row sp now) t))"
        by (rule update_rows_represents[OF cd arep ac, where s' = "reattached_state now s"])
           (use w f st update_stored(2)[OF _ now] in simp_all)
      then obtain k db' where u: "update_state_rows ?w (reattach_row cd (g + 1) now) ?db = Inr (db', Suc k)"
          "represents cd db' (put_control (reattached_state now s) (add_desired (new_row sp now) t))" by blast
      have "reattach_retained cd sp i sr img h g now db = (db', Inr (g + 1))"
        unfolding reattach_retained_def sel option.case chk and_then_simps config_json_ok[OF cd] ins
        using gp u(1) by simp
      then show ?thesis using Some allowed dn u(2) by simp
    next
      case (Some r)
      have ins: "insert_service_row cd (raw_of_spec cd sp now) db = Inl (SqlUnique ''services.name'')"
        using insert_service_represents(1)[OF cd rep row] Some name by simp
      have "\<exists>e. reattach_retained cd sp i sr img h g now db = (db, Inl e)"
        unfolding reattach_retained_def sel option.case chk and_then_simps config_json_ok[OF cd] ins
        using gp by simp
      then show ?thesis using Some \<open>control t ?n = Some s\<close> by simp
    qed
  next
    case False
    have "\<exists>e. reattach_retained cd sp i sr img h g now db = (db, Inl e)"
    proof (cases rule: check_tuple_cases[of ?cs])
      case 1
      then have "\<not> (ss_generation s = g \<and> ss_phase s = Retained)"
        using False by (auto simp: reattach_allowed_def)
      then have "ss_generation s \<noteq> g \<or> cr_phase (raw_of_state cd s) \<noteq> phase_str Retained"
        by (metis enum_str_inj(1) raw_keys(4))
      then show ?thesis
        unfolding reattach_retained_def sel option.case 1(1) and_then_simps config_json_ok[OF cd] by auto
    next
      case (2 e)
      show ?thesis
        unfolding reattach_retained_def sel option.case 2(1) and_then_simps config_json_ok[OF cd] by simp
    qed
    then show ?thesis using Some False by simp
  qed
qed


definition insert_allowed :: "ledger \<Rightarrow> service_spec \<Rightarrow> service_state \<Rightarrow> bool" where
  "insert_allowed t sp s \<longleftrightarrow>
     sp_name sp = ss_name s \<and> sp_version sp = ss_version s \<and> length (lg_states t) < max_services \<and>
     desired t (sp_name sp) = None \<and> control t (sp_name sp) = None \<and>
     ss_instance s \<notin> ss_instance ` set (lg_states t)"

lemma insert_ledger:
  assumes cd: "repo_codec_ok cd" and rep: "represents cd db t" and now: "time_ok now"
    and sp: "spec_valid sp" and s: "stored_state s"
  shows "if insert_allowed t sp s
     then \<exists>db'. insert_service_and_state cd sp s now db = (db', Inr ()) \<and>
                represents cd db' (add_control s (add_desired (new_row sp now) t))
     else \<exists>e. insert_service_and_state cd sp s now db = (db, Inl e)"
proof (cases "sp_name sp = ss_name s \<and> sp_version sp = ss_version s")
  case names: True
  have bind: "sref_instance (ss_secret s) = instance_id_str (ss_instance s)"
      "version_major (sp_version sp) = ss_data_major s"
    using s names by (auto simp: stored_state_def state_valid_def secret_ref_new_def)
  then have v: "validate_spec_state_identity sp s = Inr ()"
    using names by (simp add: validate_spec_state_identity_def)
  have len: "length (db_states db) = length (lg_states t)" using rep by (simp add: represents_def)
  note row = new_row_stored[OF sp now]
  have name: "rw_name (new_row sp now) = sp_name sp" by (simp add: new_row_def)
  note ins = insert_service_represents[OF cd rep row, unfolded name]
  show ?thesis
  proof (cases "length (lg_states t) < max_services \<and> desired t (sp_name sp) = None")
    case True
    let ?db = "db\<lparr>db_services := db_services db @ [raw_of_service cd (new_row sp now)]\<rparr>"
    have arep: "represents cd ?db (add_desired (new_row sp now) t)" using ins(2) True by simp
    have same: "lg_states (add_desired (new_row sp now) t) = lg_states t" by (simp add: add_desired_def)
    note ins2 = insert_state_represents[OF cd arep s]
    have e: "insert_service_and_state cd sp s now db =
        in_tx db (and_then (insert_state_row cd s ?db) (\<lambda>db2. Inr (db2, ())))"
      unfolding insert_service_and_state_def v config_json_ok[OF cd] and_then_simps
      using True ins(1) by (simp add: len)
    show ?thesis
      unfolding e insert_allowed_def using ins2 names True by (auto simp: same)
  qed (use v ins(1) in \<open>auto simp: insert_service_and_state_def insert_allowed_def len config_json_ok[OF cd]\<close>)
next
  case False
  then have "validate_spec_state_identity sp s \<noteq> Inr ()"
    by (auto simp: validate_spec_state_identity_def)
  then obtain e where "validate_spec_state_identity sp s = Inl e"
    by (cases "validate_spec_state_identity sp s") auto
  then show ?thesis using False by (auto simp: insert_service_and_state_def insert_allowed_def)
qed

definition touched_row :: "int \<Rightarrow> service_row \<Rightarrow> service_row" where
  "touched_row now r = r\<lparr>rw_updated := now\<rparr>"

lemma touch_ledger:
  assumes cd: "repo_codec_ok cd" and rep: "represents cd db t" and now: "time_ok now"
  shows "case desired t n of
       None \<Rightarrow> touch_service cd n now db = (db, Inl (NotFound (service_name_str n)))
     | Some r \<Rightarrow> \<exists>db'. touch_service cd n now db = (db', Inr ()) \<and>
                      represents cd db' (put_desired (touched_row now r) t)"
proof -
  have t: "ledger_ok t" and sv: "db_services db = map (raw_of_service cd) (lg_services t)"
    using rep by (simp_all add: represents_def)
  let ?f = "\<lambda>r. r\<lparr>sv_updated := rc_show_time cd now\<rparr>" and ?w = "\<lambda>r. sv_name r = service_name_str n"
  have f: "?f (raw_of_service cd r) = raw_of_service cd (touched_row now r)" for r
    by (simp add: raw_of_service_def touched_row_def)
  have stored: "stored_service r \<Longrightarrow> stored_service (touched_row now r)" for r
    using now by (simp add: stored_service_def touched_row_def)
  have chk: "list_all (\<lambda>r. service_check cd (?f r)) (filter ?w (db_services db))"
    using t row_to_service_raw(2)[OF cd stored] f by (auto simp: sv list_all_iff ledger_ok_def)
  show ?thesis
  proof (cases "desired t n")
    case None
    then have "filter ?w (db_services db) = []" by (auto simp: sv desired_def find_key_None filter_empty_conv)
    then show ?thesis using None chk by (simp add: touch_service_def Let_def)
  next
    case (Some r)
    have r: "r \<in> set (lg_services t)" "rw_name r = n" using Some by (auto simp: desired_iff[OF t])
    have one: "x \<in> set (lg_services t) \<Longrightarrow> rw_name x = n \<longleftrightarrow> x = r" for x
      using desired_iff[OF t, of n] Some by (metis option.inject)
    have ne: "filter ?w (db_services db) \<noteq> []" using r by (auto simp: sv filter_empty_conv)
    have tr: "rw_name (touched_row now r) = n" using r by (simp add: touched_row_def)
    let ?t = "put_desired (touched_row now r) t"
    have sv': "lg_services ?t = map (\<lambda>x. if x = r then touched_row now r else x) (lg_services t)"
      using one tr by (auto simp: put_desired_def)
    have "ledger_ok ?t"
    proof -
      have "map rw_name (lg_services ?t) = map rw_name (lg_services t)" using r tr by (simp add: sv')
      moreover have "list_all stored_service (lg_services ?t)"
        using t stored r by (auto simp: sv' list_all_iff ledger_ok_def)
      moreover have "lg_states ?t = lg_states t" by (simp add: put_desired_def)
      ultimately show ?thesis using t unfolding ledger_ok_def by metis
    qed
    moreover have "map (\<lambda>x. if ?w x then ?f x else x) (db_services db) = map (raw_of_service cd) (lg_services ?t)"
      unfolding sv sv' using one f by auto
    ultimately have "represents cd (db\<lparr>db_services := map (\<lambda>x. if ?w x then ?f x else x) (db_services db)\<rparr>) ?t"
      using rep by (simp add: represents_def put_desired_def)
    then show ?thesis using Some chk ne by (auto simp: touch_service_def Let_def)
  qed
qed


section \<open>Steps of the repository and of the ledger\<close>

text \<open>A step is one call of an operation with arguments of the types' constructors, whatever it
  answers.\<close>

inductive repo_step :: "repo_codec \<Rightarrow> service_db \<Rightarrow> service_db \<Rightarrow> bool" for cd where
  insert: "spec_valid sp \<Longrightarrow> stored_state s \<Longrightarrow> time_ok now \<Longrightarrow>
     insert_service_and_state cd sp s now db = (db', r) \<Longrightarrow> repo_step cd db db'"
| retain: "time_ok now \<Longrightarrow> delete_service_and_retain cd n i sr p m g now db = (db', r) \<Longrightarrow> repo_step cd db db'"
| reattach: "spec_valid sp \<Longrightarrow> time_ok now \<Longrightarrow>
     reattach_retained cd sp i sr img h g now db = (db', r) \<Longrightarrow> repo_step cd db db'"
| touch: "time_ok now \<Longrightarrow> touch_service cd n now db = (db', r) \<Longrightarrow> repo_step cd db db'"
| cas: "opt_valid container_valid c \<Longrightarrow> opt_valid hash_valid h \<Longrightarrow> opt_valid time_ok ck \<Longrightarrow> time_ok now \<Longrightarrow>
     update_state_cas cd n g ph c h hk fc ck now db = (db', r) \<Longrightarrow> repo_step cd db db'"
| health: "time_ok now \<Longrightarrow> update_health cd n g hh fc now db = (db', r) \<Longrightarrow> repo_step cd db db'"
| installation: "ensure_installation_id entropy db = (db', r) \<Longrightarrow> repo_step cd db db'"

inductive ledger_step :: "ledger \<Rightarrow> ledger \<Rightarrow> bool" where
  add: "desired t (ss_name s) = None \<Longrightarrow> control t (ss_name s) = None \<Longrightarrow> rw_name r = ss_name s \<Longrightarrow>
     rw_version r = ss_version s \<Longrightarrow> length (lg_states t) < max_services \<Longrightarrow>
     ledger_step t (add_control s (add_desired r t))"
| retain: "control t n = Some s \<Longrightarrow> eligible_for_retain (ss_phase s) \<Longrightarrow>
     ledger_step t (put_control (retained_state now s) (drop_desired n t))"
| reattach: "control t n = Some s \<Longrightarrow> ss_phase s = Retained \<Longrightarrow> desired t n = None \<Longrightarrow> rw_name r = n \<Longrightarrow>
     rw_version r = ss_version s \<Longrightarrow>
     ledger_step t (put_control (reattached_state now s) (add_desired r t))"
| touch: "desired t n = Some r \<Longrightarrow> ledger_step t (put_desired (touched_row now r) t)"
| cas: "control t n = Some s \<Longrightarrow> ledger_step t (put_control (cas_state ph c h hk fc ck now s) t)"
| health: "control t n = Some s \<Longrightarrow> ledger_step t (put_control (health_state hh fc now s) t)"
| refused: "ledger_step t t"

lemma installation_keeps_tables:
  "ensure_installation_id entropy db = (db', r) \<Longrightarrow> db_services db' = db_services db \<and> db_states db' = db_states db"
  by (auto simp: ensure_installation_id_def split: option.splits)

lemma repo_step_refines:
  assumes cd: "repo_codec_ok cd" and step: "repo_step cd db db'" and rep: "represents cd db t"
  shows "\<exists>t'. ledger_step t t' \<and> represents cd db' t'"
  using step
proof cases
  case (insert sp s now r)
  show ?thesis
  proof (cases "insert_allowed t sp s")
    case True
    then show ?thesis
      using insert_ledger[OF cd rep insert(3,1,2)] insert(4)
        ledger_step.add[of t s "new_row sp now"] by (auto simp: insert_allowed_def new_row_def)
  qed (use insert_ledger[OF cd rep insert(3,1,2)] insert(4) rep ledger_step.refused in auto)
next
  case (retain now n i sr p m g r)
  then show ?thesis
    using delete_and_retain_ledger[OF cd rep retain(1), of n i sr p m g] rep
      ledger_step.retain[of t n _ now] ledger_step.refused[of t]
    by (auto simp: retain_allowed_def split: option.splits if_splits)
next
  case (reattach sp now i sr img h g r)
  then show ?thesis
    using reattach_ledger[OF cd rep reattach(2,1), of i sr img h g] rep
      ledger_step.reattach[of t "sp_name sp" _ "new_row sp now" now] ledger_step.refused[of t]
    by (auto simp: reattach_allowed_def new_row_def split: option.splits if_splits)
next
  case (touch now n r)
  then show ?thesis
    using touch_ledger[OF cd rep touch(1), of n] rep ledger_step.touch[of t n _ now] ledger_step.refused[of t]
    by (auto split: option.splits)
next
  case (cas c h ck now n g ph hk fc r)
  then show ?thesis
    using update_state_cas_ledger[OF cd rep cas(1-4), of n g ph hk fc] rep
      ledger_step.cas[of t n _ ph c h hk fc ck now] ledger_step.refused[of t]
    by (auto split: option.splits if_splits)
next
  case (health now n g hh fc r)
  then show ?thesis
    using update_health_ledger[OF cd rep health(1), of n g hh fc] rep
      ledger_step.health[of t n _ hh fc now] ledger_step.refused[of t]
    by (auto split: option.splits if_splits)
next
  case (installation entropy r)
  then show ?thesis
    using rep installation_keeps_tables[of entropy db db' r] ledger_step.refused by (auto simp: represents_def)
qed


lemma represents_empty: "represents cd empty_db \<lparr>lg_services = [], lg_states = []\<rparr>"
  by (simp add: represents_def ledger_ok_def empty_db_def)

lemma runs_refine:
  assumes cd: "repo_codec_ok cd" and run: "(repo_step cd)\<^sup>*\<^sup>* db db'" and rep: "represents cd db t"
  shows "\<exists>t'. ledger_step\<^sup>*\<^sup>* t t' \<and> represents cd db' t'"
  using run
proof induction
  case (step db1 db2)
  then obtain t1 where "ledger_step\<^sup>*\<^sup>* t t1" "represents cd db1 t1" by blast
  then show ?case
    using repo_step_refines[OF cd step(2)] by (meson rtranclp.rtrancl_into_rtrancl)
qed (use rep in blast)

section \<open>Identity and generation along runs\<close>

text \<open>The identity of a data instance, and how a control row may evolve: the identity is kept, the
  generation does not decrease, and a change of phase, container or applied hash increases it.\<close>

definition same_instance :: "service_state \<Rightarrow> service_state \<Rightarrow> bool" where
  "same_instance s s' \<longleftrightarrow>
     ss_name s' = ss_name s \<and> ss_provider s' = ss_provider s \<and> ss_data_major s' = ss_data_major s \<and>
     ss_version s' = ss_version s \<and> ss_instance s' = ss_instance s \<and> ss_secret s' = ss_secret s \<and>
     ss_image s' = ss_image s"

definition evolves :: "service_state \<Rightarrow> service_state \<Rightarrow> bool" where
  "evolves s s' \<longleftrightarrow> same_instance s s' \<and> ss_generation s \<le> ss_generation s' \<and>
     (ss_generation s' = ss_generation s \<longrightarrow>
        ss_phase s' = ss_phase s \<and> ss_container s' = ss_container s \<and> ss_hash s' = ss_hash s)"

lemma evolves_refl [simp]: "evolves s s"
  by (simp add: evolves_def same_instance_def)

lemma evolves_trans: "evolves a b \<Longrightarrow> evolves b c \<Longrightarrow> evolves a c"
  by (auto simp: evolves_def same_instance_def)

lemma evolves_updates:
  "evolves s (retained_state now s)" "evolves s (reattached_state now s)"
  "evolves s (cas_state ph c h hk fc ck now s)" "evolves s (health_state hh fc now s)"
  by (simp_all add: evolves_def same_instance_def state_updates)

lemma control_name: "control t n = Some s \<Longrightarrow> ss_name s = n"
  unfolding control_def by (drule find_SomeD) simp

lemma put_evolves:
  assumes "control t m = Some x" "evolves x x'" "control t n = Some s"
  shows "\<exists>s'. control (put_control x' t) n = Some s' \<and> evolves s s'"
proof -
  have "ss_name x' = m" using assms control_name by (auto simp: evolves_def same_instance_def)
  then show ?thesis using assms by (cases "n = m") auto
qed

lemma ledger_step_evolves:
  "ledger_step t t' \<Longrightarrow> control t n = Some s \<Longrightarrow> \<exists>s'. control t' n = Some s' \<and> evolves s s'"
proof (induction rule: ledger_step.induct)
  case (add t x r)
  then show ?case by (cases "n = ss_name x") auto
next
  case (retain t m x now)
  then show ?case by (intro put_evolves[of _ m x] evolves_updates) simp_all
next
  case (reattach t m x r now)
  then show ?case by (intro put_evolves[of _ m x] evolves_updates) simp_all
next
  case (cas t m x ph c h hk fc ck now)
  then show ?case by (intro put_evolves[of _ m x] evolves_updates) simp_all
next
  case (health t m x hh fc now)
  then show ?case by (intro put_evolves[of _ m x] evolves_updates) simp_all
qed auto

lemma ledger_run_evolves:
  "ledger_step\<^sup>*\<^sup>* t t' \<Longrightarrow> control t n = Some s \<Longrightarrow> \<exists>s'. control t' n = Some s' \<and> evolves s s'"
proof (induction rule: rtranclp_induct)
  case (step y z)
  then obtain s1 where "control y n = Some s1" "evolves s s1" by blast
  then show ?case using ledger_step_evolves[OF step(2), of n s1] evolves_trans by blast
qed simp

text \<open>An operation raises a generation by at most one.  The generations of the model are unbounded, those of
  the program 64-bit: a row that starts at 1 needs \<open>2 ^ 63 - 1\<close> operations to reach the limit, and up to
  there the two agree.\<close>

lemma put_raises:
  assumes "control t m = Some x" "ss_name x' = ss_name x" "ss_generation x' \<le> ss_generation x + 1" "control t n = Some s"
  shows "\<exists>s'. control (put_control x' t) n = Some s' \<and> ss_generation s' \<le> ss_generation s + 1"
proof -
  have "ss_name x' = m" using assms(1,2) control_name by simp
  then show ?thesis using assms by (cases "n = m") auto
qed

lemma ledger_step_raises:
  "ledger_step t t' \<Longrightarrow> control t n = Some s \<Longrightarrow> \<exists>s'. control t' n = Some s' \<and> ss_generation s' \<le> ss_generation s + 1"
proof (induction rule: ledger_step.induct)
  case (add t x r)
  then show ?case by (cases "n = ss_name x") auto
next
  case (retain t m x now)
  then show ?case by (intro put_raises[of _ m x]) (simp_all add: state_updates)
next
  case (reattach t m x r now)
  then show ?case by (intro put_raises[of _ m x]) (simp_all add: state_updates)
next
  case (cas t m x ph c h hk fc ck now)
  then show ?case by (intro put_raises[of _ m x]) (simp_all add: state_updates)
next
  case (health t m x hh fc now)
  then show ?case by (intro put_raises[of _ m x]) (simp_all add: state_updates)
qed auto

lemma generation_bounded:
  assumes cd: "repo_codec_ok cd"
  shows "(repo_step cd ^^ k) db db' \<Longrightarrow> represents cd db t \<Longrightarrow> get_state cd db n = Inr (Some s) \<Longrightarrow>
    \<exists>s'. get_state cd db' n = Inr (Some s') \<and> ss_generation s' \<le> ss_generation s + int k"
proof (induction k arbitrary: db t s)
  case (Suc k)
  obtain db1 where s: "repo_step cd db db1" "(repo_step cd ^^ k) db1 db'"
    using Suc.prems(1) by (meson relpowp_Suc_E2)
  obtain t1 where t1: "ledger_step t t1" "represents cd db1 t1" using repo_step_refines[OF cd s(1) Suc.prems(2)] by blast
  obtain s1 where s1: "control t1 n = Some s1" "ss_generation s1 \<le> ss_generation s + 1"
    using ledger_step_raises[OF t1(1), of n s] Suc.prems(3) get_state_ledger[OF cd Suc.prems(2)] by auto
  have "get_state cd db1 n = Inr (Some s1)" using s1(1) get_state_ledger[OF cd t1(2)] by simp
  from Suc.IH[OF s(2) t1(2) this] show ?case using s1(2) by fastforce
qed auto

section \<open>Properties of the repository\<close>

lemma map_result_total: "(\<And>x. x \<in> set xs \<Longrightarrow> \<exists>y. f x = Inr y) \<Longrightarrow> \<exists>ys. map_result f xs = Inr ys"
proof (induction xs)
  case (Cons x xs)
  then obtain y ys where "f x = Inr y" "map_result f xs = Inr ys" by fastforce
  then show ?case by simp
qed simp

text \<open>Every read succeeds: the lookups, the conversion of a control row, and both listings.\<close>

definition readable :: "repo_codec \<Rightarrow> service_db \<Rightarrow> bool" where
  "readable cd db \<longleftrightarrow>
     (\<forall>n. is_ok (get_service cd db n) \<and>
          (case get_state cd db n of Inr (Some s) \<Rightarrow> from_validated s = Inr s | Inr None \<Rightarrow> True | Inl _ \<Rightarrow> False)) \<and>
     (\<forall>l. is_ok (list_services cd db l) \<and> is_ok (list_states cd db l))"

lemma represented_readable:
  assumes cd: "repo_codec_ok cd" and rep: "represents cd db t"
  shows "readable cd db"
proof -
  have sv: "db_services db = map (raw_of_service cd) (lg_services t)"
    and st: "db_states db = map (raw_of_state cd) (lg_states t)"
    and ok: "list_all stored_service (lg_services t)" "list_all stored_state (lg_states t)"
    using rep by (simp_all add: represents_def ledger_ok_def)
  have "is_ok (list_services cd db l)" for l
    unfolding is_ok_iff list_services_def
    by (rule map_result_total)
       (use ok in \<open>auto simp: sv list_all_iff row_to_service_raw[OF cd] dest!: in_set_takeD\<close>)
  moreover have "is_ok (list_states cd db l)" for l
    unfolding is_ok_iff list_states_def
    by (rule map_result_total)
       (use ok in \<open>auto simp: st list_all_iff row_to_state_raw[OF cd] dest!: in_set_takeD\<close>)
  ultimately show ?thesis
    unfolding readable_def get_state_ledger[OF cd rep] get_service_ledger[OF cd rep]
    using control_stored[OF represents_ok[OF rep]]
    by (auto simp: from_validated_valid stored_state_def split: option.split)
qed

text \<open>Starting from the empty tables, whatever operations of the service repository are called
  with whatever arguments of their types, no later read meets a corrupt row: every lookup and every
  listing succeeds and every control row passes the state constructor.\<close>

theorem repository_stays_readable:
  assumes "repo_codec_ok cd" "(repo_step cd)\<^sup>*\<^sup>* empty_db db"
  shows "readable cd db"
  using runs_refine[OF assms represents_empty] represented_readable[OF assms(1)] by blast

text \<open>C28. Once a service has a control row, no run of repository operations loses it or changes its
  identity (name, provider, version, data major, instance, secret reference, image); its generation
  never decreases, and phase, container and applied hash change only together with an increase of
  the generation.\<close>

theorem instance_identity_persists:
  assumes "repo_codec_ok cd" "(repo_step cd)\<^sup>*\<^sup>* empty_db db" "(repo_step cd)\<^sup>*\<^sup>* db db'"
    and "get_state cd db n = Inr (Some s)"
  shows "\<exists>s'. get_state cd db' n = Inr (Some s') \<and> evolves s s'"
proof -
  obtain t where t: "represents cd db t" using runs_refine[OF assms(1,2) represents_empty] by blast
  obtain t' where t': "ledger_step\<^sup>*\<^sup>* t t'" "represents cd db' t'" using runs_refine[OF assms(1,3) t] by blast
  have "control t n = Some s" using assms(4) get_state_ledger[OF assms(1) t] by simp
  then show ?thesis using ledger_run_evolves[OF t'(1)] get_state_ledger[OF assms(1) t'(2)] by auto
qed

text \<open>C29. The compare-and-swap admits one writer: after a successful state update made with an
  expected generation, a second update, health write, removal or reattachment with the same expected
  generation is refused and changes nothing.\<close>

theorem cas_single_winner:
  assumes cd: "repo_codec_ok cd" and reach: "(repo_step cd)\<^sup>*\<^sup>* empty_db db"
    and args: "opt_valid container_valid c" "opt_valid hash_valid h" "opt_valid time_ok ck" "time_ok now"
    and won: "update_state_cas cd n g ph c h hk fc ck now db = (db1, Inr g')"
    and later: "opt_valid container_valid c'" "opt_valid hash_valid h'" "opt_valid time_ok ck'" "time_ok now'"
      "spec_valid sp" "sp_name sp = n"
  shows "g' = g + 1 \<and>
     update_state_cas cd n g ph' c' h' hk' fc' ck' now' db1 = (db1, Inl (GenerationMismatch g g')) \<and>
     update_health cd n g hh fc' now' db1 = (db1, Inl (GenerationMismatch g g')) \<and>
     (\<exists>e. delete_service_and_retain cd n i sr p m g now' db1 = (db1, Inl e)) \<and>
     (\<exists>e. reattach_retained cd sp i sr img h'' g now' db1 = (db1, Inl e))"
proof -
  obtain t where t: "represents cd db t" using runs_refine[OF cd reach represents_empty] by blast
  obtain s where s: "control t n = Some s" "ss_generation s = g" and g': "g' = g + 1"
    and t1: "represents cd db1 (put_control (cas_state ph c h hk fc ck now s) t)"
    using update_state_cas_ledger[OF cd t args, of n g ph hk fc] won by (auto split: option.splits if_splits)
  have c1: "control (put_control (cas_state ph c h hk fc ck now s) t) n = Some (cas_state ph c h hk fc ck now s)"
    using s control_name[OF s(1)] by simp
  have gen: "ss_generation (cas_state ph c h hk fc ck now s) = g + 1" using s by (simp add: cas_state_def)
  have "\<not> retain_allowed (cas_state ph c h hk fc ck now s) i sr p m g"
      "\<not> reattach_allowed (cas_state ph c h hk fc ck now s) sp i sr img h'' g"
    using gen by (auto simp: retain_allowed_def reattach_allowed_def)
  then show ?thesis
    using update_state_cas_ledger[OF cd t1 later(1-4), of n g ph' hk' fc']
      update_health_ledger[OF cd t1 later(4), of n g hh fc']
      delete_and_retain_ledger[OF cd t1 later(4), of n i sr p m g]
      reattach_ledger[OF cd t1 later(4,5), of i sr img h'' g] gen g' c1 later(6)
    by simp
qed

end
