(* ===== verification/ServiceSamples.thy ===== *)
theory ServiceSamples
  imports ServiceSteps
begin

text \<open>
  A codec that satisfies the documented laws, a specification and a state, and with them the
  applications of the repository's theorems at concrete tables.
\<close>

definition sample_repo_codec :: repo_codec where
  "sample_repo_codec =
     \<lparr>rc_show_time = (\<lambda>t. replicate 20 (CHR ''0'') @ show_nat (nat (t + 62167219200000000000))),
      rc_parse_time = (\<lambda>s. Some (int (digits_val s) - 62167219200000000000)),
      rc_json = (\<lambda>s. if s = ''{}'' then Some (JObj []) else None),
      rc_show_config = (\<lambda>_. ''{}''),
      rc_sql_object = (\<lambda>s. s = ''{}'')\<rparr>"

lemma show_nat_length: "n < 10 ^ Suc k \<Longrightarrow> length (show_nat n) \<le> Suc k"
proof (induction n arbitrary: k rule: show_nat.induct)
  case (1 n)
  show ?case
  proof (cases "n < 10")
    case True
    then show ?thesis by (subst show_nat.simps) simp
  next
    case False
    then obtain j where k: "k = Suc j" using 1(2) by (cases k) auto
    then have "n div 10 < 10 ^ Suc j" using 1(2) by (simp add: less_mult_imp_div_less)
    then have "length (show_nat (n div 10)) \<le> Suc j" using 1(1) False by blast
    then show ?thesis using False k by (subst show_nat.simps) simp
  qed
qed

lemma digits_val_zeros: "digits_val (replicate k (CHR ''0'') @ s) = digits_val s"
proof (induction k)
  case (Suc k)
  have "digits_val (CHR ''0'' # x) = digits_val x" for x
    by (simp add: digits_val_def digit_val_def)
  then show ?case using Suc by simp
qed simp

lemma sample_repo_codec_ok: "repo_codec_ok sample_repo_codec"
proof -
  have "rc_parse_time sample_repo_codec (rc_show_time sample_repo_codec t) = Some t \<and>
      time_check (rc_show_time sample_repo_codec t)" if t: "time_ok t" for t
  proof -
    let ?n = "nat (t + 62167219200000000000)"
    have "?n < 10 ^ Suc 20" using t by (simp add: time_ok_def nat_less_iff)
    then have "length (show_nat ?n) \<le> 21" using show_nat_length[of ?n 20] by simp
    moreover have "list_all is_graph (replicate 20 (CHR ''0'') @ show_nat ?n)"
      by (simp add: list_all_iff is_graph_def less_eq_char_def) (use show_nat_graph in \<open>auto simp: list_all_iff is_graph_def less_eq_char_def\<close>)
    ultimately have "time_check (rc_show_time sample_repo_codec t)"
      by (simp add: time_check_def sample_repo_codec_def)
    moreover have "rc_parse_time sample_repo_codec (rc_show_time sample_repo_codec t) = Some t"
      using t by (simp add: sample_repo_codec_def digits_val_zeros time_ok_def)
    ultimately show ?thesis by simp
  qed
  then show ?thesis by (simp add: repo_codec_ok_def sample_repo_codec_def)
qed

definition sample_spec :: service_spec where
  "sample_spec = \<lparr>sp_name = ServiceName ''main-db'', sp_provider = PkPostgres,
     sp_version = ProviderVersion ''18.4'', sp_config = PostgresConfig\<rparr>"

definition sample_instance :: instance_id where
  "sample_instance = InstanceId (concat (replicate 8 ''0af9''))"

definition sample_container :: container_id where
  "sample_container = ContainerId (concat (replicate 16 ''0af9''))"

definition sample_hash :: spec_hash where
  "sample_hash = SpecHash (concat (replicate 16 ''1be8''))"

definition sample_service_state :: service_state where
  "sample_service_state =
     \<lparr>ss_name = ServiceName ''main-db'', ss_provider = PkPostgres, ss_data_major = 18,
      ss_version = ProviderVersion ''18.4'', ss_instance = sample_instance, ss_generation = 1,
      ss_phase = Provisioning, ss_container = None, ss_image = ResolvedImage ''docker.io/library/postgres'',
      ss_hash = None, ss_secret = secret_ref_new sample_instance Superuser, ss_health = None,
      ss_error = None, ss_checked = None, ss_updated = 7\<rparr>"

definition sample_db :: service_db where
  "sample_db = fst (insert_service_and_state sample_repo_codec sample_spec sample_service_state 7 empty_db)"

definition sample_ready_db :: service_db where
  "sample_ready_db = fst (update_state_cas sample_repo_codec (ServiceName ''main-db'') 1 Ready
     (Some sample_container) (Some sample_hash) (Some Healthy) None None 9 sample_db)"

lemma sample_spec_valid: "spec_valid sample_spec"
  by code_simp

lemma sample_state_stored: "stored_state sample_service_state"
  by code_simp

lemma sample_args_valid: "container_valid sample_container" "hash_valid sample_hash" "time_ok 7" "time_ok 9"
  by code_simp+

lemma sample_insert_step: "repo_step sample_repo_codec empty_db sample_db"
  unfolding sample_db_def
  by (rule repo_step.insert[OF sample_spec_valid sample_state_stored sample_args_valid(3) prod.collapse[symmetric]])

lemma sample_cas_step: "repo_step sample_repo_codec sample_db sample_ready_db"
  unfolding sample_ready_db_def
  by (rule repo_step.cas[OF _ _ _ _ prod.collapse[symmetric]]) (simp_all add: sample_args_valid)

definition sample_ledger :: ledger where
  "sample_ledger = \<lparr>lg_services = [new_row sample_spec 7], lg_states = [sample_service_state]\<rparr>"

lemma sample_control: "control sample_ledger (ServiceName ''main-db'') = Some sample_service_state"
  by (simp add: control_def sample_ledger_def sample_service_state_def)

lemma sample_db_ledger:
  "insert_service_and_state sample_repo_codec sample_spec sample_service_state 7 empty_db = (sample_db, Inr ())"
  "represents sample_repo_codec sample_db sample_ledger"
proof -
  have "insert_allowed \<lparr>lg_services = [], lg_states = []\<rparr> sample_spec sample_service_state"
    by (simp add: insert_allowed_def sample_spec_def sample_service_state_def max_services_def desired_def control_def)
  then show "insert_service_and_state sample_repo_codec sample_spec sample_service_state 7 empty_db = (sample_db, Inr ())"
    "represents sample_repo_codec sample_db sample_ledger"
    using insert_ledger[OF sample_repo_codec_ok represents_empty sample_args_valid(3) sample_spec_valid sample_state_stored]
    by (auto simp: sample_db_def add_control_def add_desired_def sample_ledger_def)
qed

lemma sample_inserted: "get_state sample_repo_codec sample_db (ServiceName ''main-db'') = Inr (Some sample_service_state)"
  by (simp add: get_state_ledger[OF sample_repo_codec_ok sample_db_ledger(2)] sample_control)

lemma sample_runs:
  "(repo_step sample_repo_codec)\<^sup>*\<^sup>* empty_db sample_db"
  "(repo_step sample_repo_codec)\<^sup>*\<^sup>* sample_db sample_ready_db"
  by (rule r_into_rtranclp[where r = "repo_step sample_repo_codec"], rule sample_insert_step sample_cas_step)+

lemma sample_cas_won:
  "update_state_cas sample_repo_codec (ServiceName ''main-db'') 1 Ready
     (Some sample_container) (Some sample_hash) (Some Healthy) None None 9 sample_db = (sample_ready_db, Inr 2)"
proof -
  have "ss_generation sample_service_state = 1" by (simp add: sample_service_state_def)
  then have "\<exists>db'. update_state_cas sample_repo_codec (ServiceName ''main-db'') 1 Ready
     (Some sample_container) (Some sample_hash) (Some Healthy) None None 9 sample_db = (db', Inr (1 + 1))"
    using update_state_cas_ledger[OF sample_repo_codec_ok sample_db_ledger(2), of "Some sample_container"
        "Some sample_hash" None 9 "ServiceName ''main-db''" 1 Ready "Some Healthy" None]
    by (auto simp: sample_args_valid sample_control)
  then show ?thesis by (auto simp: sample_ready_db_def)
qed

theorem repository_stays_readable_witness: "readable sample_repo_codec sample_ready_db"
  by (rule repository_stays_readable[OF sample_repo_codec_ok rtranclp_trans[OF sample_runs]])

theorem instance_identity_persists_witness:
  "\<exists>s'. get_state sample_repo_codec sample_ready_db (ServiceName ''main-db'') = Inr (Some s') \<and>
        evolves sample_service_state s'"
  by (rule instance_identity_persists[OF sample_repo_codec_ok sample_runs sample_inserted])

theorem cas_single_winner_witness:
  "update_health sample_repo_codec (ServiceName ''main-db'') 1 Unhealthy None 9 sample_ready_db =
     (sample_ready_db, Inl (GenerationMismatch 1 2))"
proof -
  have "sp_name sample_spec = ServiceName ''main-db''" by (simp add: sample_spec_def)
  then show ?thesis
    using cas_single_winner[OF sample_repo_codec_ok sample_runs(1) _ _ _ _ sample_cas_won,
        where c' = None and h' = None and ck' = None and now' = 9 and sp = sample_spec and hh = Unhealthy and fc' = None]
    by (simp add: sample_args_valid sample_spec_valid)
qed

end
