(* ===== verification/ServiceController.thy ===== *)
theory ServiceController
  imports ServiceSamples Bindings
begin

text \<open>
  \<open>services/controller.rs\<close>: adding, listing, inspecting, removing and ensuring services, and binding
  an application to them, with the catalog of \<open>services/postgres.rs\<close> and the error conversions.  The
  world outside the database (container runtime, service storage, secret bundles, provider calls,
  random bytes) is a parameter of type \<open>'w\<close> with the operations of \<open>service_env\<close>; the Linux build
  is the one modelled.  The per-service lock makes each operation on a service one transition; one
  clock value is used per operation.
\<close>

section \<open>Environment\<close>

datatype pointer_result = PointerActive | PointerMissing | PointerBroken

datatype dir_result = DirCreated | DirExists | DirFailed string

datatype ensure_action = EaCreated | EaStarted | EaRecreated | EaNoop | EaBlocked

record ensure_outcome =
  eo_container :: container_id
  eo_action :: ensure_action
  eo_health :: "health_kind option"

text \<open>A provider call under a deadline answers \<open>None\<close> when the deadline passes.\<close>

record 'w service_env =
  se_codec :: repo_codec
  se_rootful :: "'w \<Rightarrow> bool"
  se_storage :: bool
  se_create_dir :: "'w \<Rightarrow> instance_id \<Rightarrow> 'w \<times> dir_result"
  se_bundle :: "'w \<Rightarrow> instance_id \<Rightarrow> bool"
  se_pointer :: "'w \<Rightarrow> instance_id \<Rightarrow> pointer_result"
  se_generate :: "'w \<Rightarrow> instance_id \<Rightarrow> 'w \<times> bool"
  se_random :: "'w \<Rightarrow> 'w \<times> string option"
  se_password :: "'w \<Rightarrow> 'w \<times> string option"
  se_validate :: "service_spec \<Rightarrow> service_error + unit"
  se_provision :: "'w \<Rightarrow> service_spec \<Rightarrow> service_state \<Rightarrow> 'w \<times> (service_error + container_id)"
  se_ensure :: "'w \<Rightarrow> service_spec \<Rightarrow> service_state \<Rightarrow> 'w \<times> (service_error + ensure_outcome) option"
  se_remove :: "'w \<Rightarrow> service_state \<Rightarrow> 'w \<times> (service_error + unit)"
  se_create_resource :: "'w \<Rightarrow> service_spec \<Rightarrow> service_state \<Rightarrow> resource_credentials \<Rightarrow>
     'w \<times> (service_error + unit) option"
  se_resource_env :: "service_spec \<Rightarrow> resource_credentials \<Rightarrow> service_error + (string \<times> string) list"
  se_sha :: "string \<Rightarrow> string"
  se_print :: "json \<Rightarrow> string"
  se_installation :: string
  se_resource_hash :: "string \<Rightarrow> string"
  se_hex :: "string \<Rightarrow> string"

record 'w service_ctl =
  sc_db :: service_db
  sc_world :: 'w

definition from_repo :: "repo_error \<Rightarrow> service_error" where
  "from_repo e =
     (case e of
        GenerationMismatch x c \<Rightarrow> SvConflict (StaleGeneration x c)
      | NotFound n \<Rightarrow> SvInternal (ServiceNotFound n)
      | IdentityMismatch f \<Rightarrow> SvConflict (IdentityField f)
      | _ \<Rightarrow> SvInternal RepositoryFailed)"

definition via_repo :: "repo_error + 'a \<Rightarrow> service_error + 'a" where
  "via_repo r = (case r of Inl e \<Rightarrow> Inl (from_repo e) | Inr x \<Rightarrow> Inr x)"

section \<open>The catalog\<close>

definition supported_major :: int where "supported_major = 18"

definition normalized_version :: string where "normalized_version = ''18.4''"

definition pg_ref :: string where
  "pg_ref = ''docker.io/library/postgres:18.4-bookworm@sha256:882236b897e39051d2368c5ccc6cda944904723506b2dfc97f2a8f5bc9afa382''"

definition parse_catalog_ref :: "service_error + pinned_image_ref" where
  "parse_catalog_ref = (case pinned_parse pg_ref of Inl _ \<Rightarrow> Inl (SvInternal ImageRefInvalid) | Inr r \<Rightarrow> Inr r)"

definition resolve_catalog :: "int \<Rightarrow> service_error + (provider_version \<times> pinned_image_ref)" where
  "resolve_catalog m =
     (if m \<noteq> supported_major then Inl (InvalidVersion (UnsupportedMajor m))
      else and_then (provider_version_parse normalized_version) (\<lambda>v.
           and_then parse_catalog_ref (\<lambda>r. Inr (v, r))))"

definition resolve_image_for_version :: "provider_version \<Rightarrow> service_error + pinned_image_ref" where
  "resolve_image_for_version v =
     (if version_major v \<noteq> supported_major then Inl (InvalidVersion (UnsupportedMajor (version_major v)))
      else parse_catalog_ref)"

section \<open>The secret capability and the provider context\<close>

definition make_secret_capability :: "'w service_env \<Rightarrow> 'w \<Rightarrow> service_state \<Rightarrow> service_error + instance_id" where
  "make_secret_capability env w s =
     (if \<not> se_storage env
      then Inl (Blocked (service_name_str (ss_name s)) ''service storage is supported on Linux only'')
      else if \<not> se_bundle env w (ss_instance s) then Inl (SvInternal SecretBundleFailed)
      else Inr (ss_instance s))"

definition provider_context :: "instance_id \<Rightarrow> service_state \<Rightarrow> service_error + unit" where
  "provider_context i s = (if i \<noteq> ss_instance s then Inl (SvInternal CapabilityForeign) else Inr ())"

definition build_context :: "'w service_env \<Rightarrow> 'w \<Rightarrow> service_state \<Rightarrow> service_error + unit" where
  "build_context env w s = and_then (make_secret_capability env w s) (\<lambda>i. provider_context i s)"

section \<open>Adding a service\<close>

definition rootless_blocked :: "service_name \<Rightarrow> service_error" where
  "rootless_blocked n = Blocked (service_name_str n) ''services require a rootful Podman/Docker runtime''"

text \<open>The database part: reattach a retained row or insert a new one.  The flag tells which.\<close>

definition register_service ::
  "'w service_env \<Rightarrow> int \<Rightarrow> service_spec \<Rightarrow> resolved_image \<Rightarrow> 'w service_ctl \<Rightarrow>
     'w service_ctl \<times> (service_error + service_state \<times> bool)" where
  "register_service env now sp img c =
     (let cd = se_codec env; db = sc_db c in
      case via_repo (get_state cd db (sp_name sp)) of
        Inl e \<Rightarrow> (c, Inl e)
      | Inr (Some old) \<Rightarrow>
          if ss_phase old \<noteq> Retained \<or> ss_image old \<noteq> img \<or>
             (case ss_hash old of Some h \<Rightarrow> effective_hash (se_sha env) (se_print env) sp \<noteq> h | None \<Rightarrow> False)
          then (c, Inl (SvConflict RetainedDiffers))
          else (case reattach_retained cd sp (ss_instance old) (ss_secret old) img (ss_hash old)
                       (ss_generation old) now db of
                  (db1, Inl e) \<Rightarrow> (c\<lparr>sc_db := db1\<rparr>, Inl (from_repo e))
                | (db1, Inr _) \<Rightarrow>
                    (c\<lparr>sc_db := db1\<rparr>,
                     and_then (via_repo (get_state cd db1 (sp_name sp))) (\<lambda>x.
                     and_then (ok_or x (SvInternal ReattachedMissing)) (\<lambda>row.
                     and_then (from_validated row) (\<lambda>s. Inr (s, True))))))
      | Inr None \<Rightarrow>
          (let (w1, bytes) = se_random env (sc_world c); c1 = c\<lparr>sc_world := w1\<rparr> in
           case for_provisioning bytes (sp_name sp) (sp_provider sp) (sp_version sp) img now of
             Inl e \<Rightarrow> (c1, Inl e)
           | Inr s \<Rightarrow>
               (case insert_service_and_state cd sp s now db of
                  (db1, Inl e) \<Rightarrow> (c1\<lparr>sc_db := db1\<rparr>, Inl (from_repo e))
                | (db1, Inr _) \<Rightarrow> (c1\<lparr>sc_db := db1\<rparr>, Inr (s, False)))))"

text \<open>The instance directory and the secret generation, when there is a storage: an existing
  generation is reused, a missing one is generated for a new instance only.\<close>

definition prepare_secrets ::
  "'w service_env \<Rightarrow> service_state \<Rightarrow> bool \<Rightarrow> 'w \<Rightarrow> 'w \<times> (service_error + unit)" where
  "prepare_secrets env s reattached w =
     (let i = ss_instance s; n = service_name_str (ss_name s) in
      if \<not> se_storage env then (w, Inr ())
      else case se_create_dir env w i of
        (w1, DirFailed reason) \<Rightarrow> (w1, Inl (FilesystemCheck n reason))
      | (w1, _) \<Rightarrow>
          if \<not> se_bundle env w1 i then (w1, Inl (SvInternal SecretBundleFailed))
          else (case se_pointer env w1 i of
                  PointerActive \<Rightarrow> (w1, Inr ())
                | PointerMissing \<Rightarrow>
                    if reattached then (w1, Inl (Blocked n ''retained service secrets are missing''))
                    else (case se_generate env w1 i of
                            (w2, True) \<Rightarrow> (w2, Inr ())
                          | (w2, False) \<Rightarrow> (w2, Inl (SvInternal SecretGenerationFailed)))
                | PointerBroken \<Rightarrow> (w1, Inl (SvInternal SecretPointerFailed))))"

definition add_failure_code :: "service_error \<Rightarrow> failure_code" where
  "add_failure_code e =
     (case e of
        ProvisionFailed _ \<Rightarrow> FcProvisionFailed
      | ReadinessFailed _ \<Rightarrow> FcReadinessFailed
      | Blocked _ _ \<Rightarrow> FcOwnershipMismatch
      | FilesystemCheck _ _ \<Rightarrow> FcFilesystemCheck
      | _ \<Rightarrow> FcInternal)"

text \<open>Provision and record the outcome: Ready with the container and the hash, or an unhealthy row
  whose write is best effort.\<close>

definition provision_service ::
  "'w service_env \<Rightarrow> int \<Rightarrow> service_spec \<Rightarrow> service_state \<Rightarrow> 'w service_ctl \<Rightarrow> 'w service_ctl \<times> (service_error + unit)" where
  "provision_service env now sp s c =
     (let cd = se_codec env in
      case build_context env (sc_world c) s of
        Inl e \<Rightarrow> (c, Inl e)
      | Inr _ \<Rightarrow>
          (case se_provision env (sc_world c) sp s of
             (w1, Inr cid) \<Rightarrow>
               (let (db1, r) = update_state_cas cd (sp_name sp) (ss_generation s) Ready (Some cid)
                      (Some (effective_hash (se_sha env) (se_print env) sp)) (Some Healthy) None None now (sc_db c)
                in (c\<lparr>sc_world := w1, sc_db := db1\<rparr>, and_then (via_repo r) (\<lambda>_. Inr ())))
           | (w1, Inl e) \<Rightarrow>
               (c\<lparr>sc_world := w1,
                  sc_db := fst (update_health cd (sp_name sp) (ss_generation s) Unhealthy
                             (Some (add_failure_code e)) now (sc_db c))\<rparr>, Inl e)))"

definition service_add ::
  "'w service_env \<Rightarrow> int \<Rightarrow> service_spec \<Rightarrow> 'w service_ctl \<Rightarrow> 'w service_ctl \<times> (service_error + unit)" where
  "service_add env now sp c =
     (let cd = se_codec env in
      if \<not> se_rootful env (sc_world c) then (c, Inl (rootless_blocked (sp_name sp)))
      else case se_validate env sp of
        Inl e \<Rightarrow> (c, Inl e)
      | Inr _ \<Rightarrow>
          (case via_repo (get_service cd (sc_db c) (sp_name sp)) of
             Inl e \<Rightarrow> (c, Inl e)
           | Inr (Some row) \<Rightarrow>
               (case row_to_spec row of
                  Inl e \<Rightarrow> (c, Inl e)
                | Inr old \<Rightarrow>
                    if old = sp
                    then (c\<lparr>sc_db := fst (touch_service cd (sp_name sp) now (sc_db c))\<rparr>, Inr ())
                    else (c, Inl (SvConflict SpecDiffers)))
           | Inr None \<Rightarrow>
               (case and_then (resolve_image_for_version (sp_version sp)) (\<lambda>r. resolved_image_parse (pin_full r)) of
                  Inl e \<Rightarrow> (c, Inl e)
                | Inr img \<Rightarrow>
                    (case register_service env now sp img c of
                       (c1, Inl e) \<Rightarrow> (c1, Inl e)
                     | (c1, Inr (s, reattached)) \<Rightarrow>
                         (case prepare_secrets env s reattached (sc_world c1) of
                            (w2, Inl e) \<Rightarrow> (c1\<lparr>sc_world := w2\<rparr>, Inl e)
                          | (w2, Inr _) \<Rightarrow> provision_service env now sp s (c1\<lparr>sc_world := w2\<rparr>))))))"


section \<open>Listing and status\<close>

record service_summary =
  sm_name :: service_name
  sm_provider :: provider_kind
  sm_version :: string
  sm_phase :: lifecycle_phase
  sm_health :: "health_kind option"

record service_status =
  sx_name :: service_name
  sx_provider :: provider_kind
  sx_version :: string
  sx_phase :: lifecycle_phase
  sx_health :: "health_kind option"
  sx_error :: "failure_code option"
  sx_generation :: int
  sx_created :: int
  sx_updated :: int

definition summary_of :: "service_state list \<Rightarrow> service_row \<Rightarrow> service_summary" where
  "summary_of states r =
     (let st = map_of (map (\<lambda>s. (service_name_str (ss_name s), s)) states) (service_name_str (rw_name r)) in
      \<lparr>sm_name = rw_name r, sm_provider = rw_provider r, sm_version = version_str (rw_version r),
       sm_phase = (case st of Some s \<Rightarrow> ss_phase s | None \<Rightarrow> Provisioning),
       sm_health = Option.bind st ss_health\<rparr>)"

definition service_list :: "repo_codec \<Rightarrow> service_db \<Rightarrow> service_error + service_summary list" where
  "service_list cd db =
     and_then (via_repo (list_services cd db None)) (\<lambda>rows.
     and_then (via_repo (list_states cd db None)) (\<lambda>states. Inr (map (summary_of states) rows)))"

text \<open>Both rows of a service, as \<open>status\<close>, \<open>remove\<close> and \<open>ensure_one\<close> read them.\<close>

definition read_pair :: "repo_codec \<Rightarrow> service_db \<Rightarrow> service_name \<Rightarrow> service_error + (service_row option \<times> service_state option)" where
  "read_pair cd db n =
     and_then (via_repo (get_service cd db n)) (\<lambda>r.
     and_then (via_repo (get_state cd db n)) (\<lambda>s. Inr (r, s)))"

definition service_status :: "repo_codec \<Rightarrow> service_db \<Rightarrow> service_name \<Rightarrow> service_error + service_status" where
  "service_status cd db n =
     and_then (read_pair cd db n) (\<lambda>(r, s).
     and_then (ok_or r (SvInternal (ServiceNotFound (service_name_str n)))) (\<lambda>row.
     and_then (ok_or s (SvInternal StateNotFound)) (\<lambda>st. Inr
       \<lparr>sx_name = rw_name row, sx_provider = rw_provider row, sx_version = version_str (rw_version row),
        sx_phase = ss_phase st, sx_health = ss_health st, sx_error = ss_error st,
        sx_generation = ss_generation st, sx_created = rw_created row, sx_updated = ss_updated st\<rparr>)))"

section \<open>Usage and removal\<close>

text \<open>An application uses a service when a retained record pins a declared need to it, or when an
  unbound need has the type of the service (any type when the service row cannot be read).\<close>

definition need_uses ::
  "service_name \<Rightarrow> provider_kind option \<Rightarrow> (binding_error + binding_records) \<Rightarrow> string \<times> need \<Rightarrow> bool" where
  "need_uses n provider records entry =
     (case (case records of Inr rs \<Rightarrow> map_of rs (record_key (fst entry) (snd entry)) | Inl _ \<Rightarrow> None) of
        Some r \<Rightarrow> br_service r = service_name_str n
      | None \<Rightarrow> (case provider of
                   None \<Rightarrow> True
                 | Some p \<Rightarrow> provider_kind_str p = need_type_str (need_kind (snd entry))))"

definition bindings_for_service ::
  "bindings_codec \<Rightarrow> repo_codec \<Rightarrow> secrets_store \<Rightarrow> (string \<times> app_config) list \<Rightarrow> service_db \<Rightarrow> service_name \<Rightarrow> string list" where
  "bindings_for_service bc cd store apps db n =
     (let provider = (case get_service cd db n of Inr (Some r) \<Rightarrow> Some (rw_provider r) | _ \<Rightarrow> None) in
      sort (map fst (filter (\<lambda>(name, app). \<exists>e\<in>set (ac_needs app). need_uses n provider (bindings_load bc store name) e) apps)))"

record removal_result =
  rm_name :: service_name
  rm_removed :: bool
  rm_retained_data :: bool
  rm_retained_secrets :: bool
  rm_affected :: "string list"

definition removal_done :: "service_name \<Rightarrow> string list \<Rightarrow> removal_result" where
  "removal_done n users =
     \<lparr>rm_name = n, rm_removed = True, rm_retained_data = True, rm_retained_secrets = True, rm_affected = users\<rparr>"

definition service_remove ::
  "'w service_env \<Rightarrow> int \<Rightarrow> string list \<Rightarrow> service_name \<Rightarrow> int \<Rightarrow> bool \<Rightarrow> 'w service_ctl \<Rightarrow>
     'w service_ctl \<times> (service_error + removal_result)" where
  "service_remove env now users n g force c =
     (let cd = se_codec env in
      case and_then (read_pair cd (sc_db c) n) (\<lambda>(r, s).
           and_then (ok_or r (SvInternal (ServiceNotFound (service_name_str n)))) (\<lambda>row.
           and_then (ok_or s (SvInternal StateNotFound)) (\<lambda>st.
           and_then (require (ss_generation st = g) (SvConflict (StaleGeneration g (ss_generation st)))) (\<lambda>_.
           and_then (require (users = [] \<or> force) (SvConflict (ActiveBindings users))) (\<lambda>_.
           and_then (require (se_rootful env (sc_world c)) (rootless_blocked n)) (\<lambda>_.
           and_then (from_validated st) (\<lambda>st.
           and_then (build_context env (sc_world c) st) (\<lambda>_.
           and_then (row_to_spec row) (\<lambda>sp.
           and_then (se_validate env sp) (\<lambda>_. Inr st)))))))))) of
        Inl e \<Rightarrow> (c, Inl e)
      | Inr st \<Rightarrow>
          (case se_remove env (sc_world c) st of
             (w1, Inl e) \<Rightarrow> (c\<lparr>sc_world := w1\<rparr>, Inl e)
           | (w1, Inr _) \<Rightarrow>
               (let (db1, r) = delete_service_and_retain cd n (ss_instance st) (ss_secret st) (ss_provider st)
                       (ss_data_major st) (ss_generation st) now (sc_db c)
                in (c\<lparr>sc_world := w1, sc_db := db1\<rparr>,
                    and_then (via_repo r) (\<lambda>_. Inr (removal_done n users))))))"

section \<open>Ensuring\<close>

definition is_permanent :: "service_error \<Rightarrow> bool" where
  "is_permanent e =
     (case e of
        Blocked _ _ \<Rightarrow> True | ForeignContainer \<Rightarrow> True | OwnershipMismatch _ \<Rightarrow> True | FilesystemCheck _ _ \<Rightarrow> True
      | _ \<Rightarrow> False)"

definition ensure_failure_code :: "service_error \<Rightarrow> failure_code" where
  "ensure_failure_code e =
     (case e of
        Blocked _ _ \<Rightarrow> FcOwnershipMismatch
      | ForeignContainer \<Rightarrow> FcOwnershipMismatch
      | OwnershipMismatch _ \<Rightarrow> FcOwnershipMismatch
      | FilesystemCheck _ _ \<Rightarrow> FcFilesystemCheck
      | ReadinessFailed _ \<Rightarrow> FcReadinessFailed
      | _ \<Rightarrow> FcInternal)"

fun phase_after :: "ensure_action \<Rightarrow> lifecycle_phase" where
  "phase_after EaBlocked = PhBlocked"
| "phase_after _ = Ready"

definition persist_ensured ::
  "repo_codec \<Rightarrow> service_name \<Rightarrow> int \<Rightarrow> int \<Rightarrow> ensure_outcome \<Rightarrow> service_db \<Rightarrow> service_db \<times> (service_error + unit)" where
  "persist_ensured cd n g now eo db =
     (let (db1, r) = update_state_cas cd n g (phase_after (eo_action eo)) (Some (eo_container eo)) None
            (eo_health eo) None (Some now) now db
      in (db1, case r of
                 Inr _ \<Rightarrow> Inr ()
               | Inl (GenerationMismatch _ _) \<Rightarrow> Inl ConcurrentModification
               | Inl _ \<Rightarrow> Inl (SvInternal PersistenceFailed)))"

definition persist_failure :: "repo_codec \<Rightarrow> service_name \<Rightarrow> int \<Rightarrow> int \<Rightarrow> service_error \<Rightarrow> service_db \<Rightarrow> service_db" where
  "persist_failure cd n g now e db =
     (if is_permanent e
      then fst (update_state_cas cd n g PhBlocked None None (Some Unhealthy) (Some (ensure_failure_code e))
             (Some now) now db)
      else fst (update_health cd n g Unhealthy (Some (ensure_failure_code e)) now db))"

definition ensure_one ::
  "'w service_env \<Rightarrow> int \<Rightarrow> service_name \<Rightarrow> 'w service_ctl \<Rightarrow> 'w service_ctl \<times> (service_error + unit)" where
  "ensure_one env now n c =
     (let cd = se_codec env in
      case read_pair cd (sc_db c) n of
        Inl e \<Rightarrow> (c, Inl e)
      | Inr (Some row, Some st) \<Rightarrow>
          if ss_phase st = PhBlocked \<or> ss_phase st = Retained then (c, Inr ())
          else
            (case and_then (from_validated st) (\<lambda>s.
                  and_then (row_to_spec row) (\<lambda>sp.
                  and_then (se_validate env sp) (\<lambda>_. Inr (s, sp)))) of
               Inl e \<Rightarrow> (c, Inl e)
             | Inr (s, sp) \<Rightarrow>
                 (case (case build_context env (sc_world c) s of
                          Inl e \<Rightarrow> (sc_world c, Some (Inl e))
                        | Inr _ \<Rightarrow> se_ensure env (sc_world c) sp s) of
                    (w1, Some (Inr eo)) \<Rightarrow>
                      (let (db1, r) = persist_ensured cd n (ss_generation s) now eo (sc_db c)
                       in (c\<lparr>sc_world := w1, sc_db := db1\<rparr>, r))
                  | (w1, Some (Inl e)) \<Rightarrow>
                      (c\<lparr>sc_world := w1, sc_db := persist_failure cd n (ss_generation s) now e (sc_db c)\<rparr>, Inl e)
                  | (w1, None) \<Rightarrow> (c\<lparr>sc_world := w1\<rparr>, Inl (ReadinessFailed ''ensure timed out''))))
      | Inr _ \<Rightarrow> (c, Inr ()))"

text \<open>\<open>ensure_all\<close> over the listed services until the budget is exhausted: \<open>expired k\<close> is the answer
  of the deadline test before the \<open>k\<close>-th service.\<close>

fun ensure_each ::
  "'w service_env \<Rightarrow> int \<Rightarrow> (nat \<Rightarrow> bool) \<Rightarrow> nat \<Rightarrow> service_summary list \<Rightarrow> 'w service_ctl \<Rightarrow> 'w service_ctl" where
  "ensure_each env now expired k [] c = c"
| "ensure_each env now expired k (s # ss) c =
     (if expired k then c
      else ensure_each env now expired (Suc k) ss (fst (ensure_one env now (sm_name s) c)))"

definition ensure_all :: "'w service_env \<Rightarrow> int \<Rightarrow> (nat \<Rightarrow> bool) \<Rightarrow> 'w service_ctl \<Rightarrow> 'w service_ctl" where
  "ensure_all env now expired c =
     (case service_list (se_codec env) (sc_db c) of
        Inl _ \<Rightarrow> c
      | Inr ss \<Rightarrow> ensure_each env now expired 0 ss c)"


section \<open>Binding an application\<close>

definition select_candidate ::
  "binding_records \<Rightarrow> service_summary list \<Rightarrow> string \<times> need \<Rightarrow> binding_error + service_summary" where
  "select_candidate records services entry =
     (let (alias, need) = entry;
          candidates = filter (\<lambda>s. provider_kind_str (sm_provider s) = need_type_str (need_kind need)) services in
      case map_of records (record_key alias need) of
        Some r \<Rightarrow> ok_or (find (\<lambda>s. service_name_str (sm_name s) = br_service r) candidates)
                    (BindConflict PinnedServiceGone alias)
      | None \<Rightarrow>
          (case candidates of
             [] \<Rightarrow> Inl (MissingService (need_type_str (need_kind need)))
           | [s] \<Rightarrow> Inr s
           | _ \<Rightarrow> Inl (BindConflict ManyServices (need_type_str (need_kind need)))))"

definition key_free :: "secrets_store \<Rightarrow> string \<Rightarrow> string \<Rightarrow> binding_error + unit" where
  "key_free store app key =
     (case store_get store app key of
        Inl _ \<Rightarrow> Inl BindStore
      | Inr (Some _) \<Rightarrow> Inl (BindConflict SecretKeyTaken key)
      | Inr None \<Rightarrow> Inr ())"

definition plan_entry ::
  "secrets_store \<Rightarrow> string \<Rightarrow> binding_records \<Rightarrow> service_summary list \<Rightarrow> string \<times> need \<Rightarrow>
     binding_error + (string \<times> service_name)" where
  "plan_entry store app records services entry =
     and_then (select_candidate records services entry) (\<lambda>s.
     and_then (for_each (key_free store app) (env_keys (snd entry) (fst entry))) (\<lambda>_.
       Inr (fst entry, sm_name s)))"

definition binding_plan ::
  "repo_codec \<Rightarrow> bindings_codec \<Rightarrow> secrets_store \<Rightarrow> app_config \<Rightarrow> service_db \<Rightarrow> binding_error + (string \<times> service_name) list" where
  "binding_plan cd bc store app db =
     (case validate_needs (ac_needs app) (map_of (ac_env app)) of
        Inl _ \<Rightarrow> Inl BindInvalid
      | Inr _ \<Rightarrow>
          if ac_needs app = [] then Inr []
          else and_then (bindings_load bc store (ai_name (ac_app app))) (\<lambda>records.
               case service_list cd db of
                 Inl _ \<Rightarrow> Inl BindProvision
               | Inr services \<Rightarrow> map_result (plan_entry store (ai_name (ac_app app)) records services) (ac_needs app)))"

definition check_needs ::
  "repo_codec \<Rightarrow> bindings_codec \<Rightarrow> secrets_store \<Rightarrow> app_config \<Rightarrow> service_db \<Rightarrow> binding_error + unit" where
  "check_needs cd bc store app db = and_then (binding_plan cd bc store app db) (\<lambda>_. Inr ())"

fun base_alias :: "need_type \<Rightarrow> string" where
  "base_alias Postgres = ''db''"
| "base_alias S3 = ''storage''"
| "base_alias Kv = ''cache''"

text \<open>The variables of the resource under the names of the alias, in key order.\<close>

definition alias_env :: "need \<Rightarrow> string \<Rightarrow> (string \<times> string) list \<Rightarrow> binding_error + (string \<times> string) list" where
  "alias_env need alias canonical =
     and_then (map_result (\<lambda>(base, target). and_then (ok_or (map_of canonical base) BindProvision) (\<lambda>v. Inr (target, v)))
       (zip (env_keys need (base_alias (need_kind need))) (env_keys need alias)))
       (\<lambda>vals. Inr (sort_key fst vals))"

record 'w bind_state =
  bs_ctl :: "'w service_ctl"
  bs_store :: secrets_store
  bs_records :: binding_records

definition ready_service :: "repo_codec \<Rightarrow> service_db \<Rightarrow> service_name \<Rightarrow> binding_error + (service_spec \<times> service_state)" where
  "ready_service cd db n =
     (case and_then (read_pair cd db n) (\<lambda>(r, s).
           and_then (ok_or r (SvInternal (ServiceNotFound (service_name_str n)))) (\<lambda>row.
           and_then (ok_or s (SvInternal (ServiceNotFound (service_name_str n)))) (\<lambda>st.
           and_then (row_to_spec row) (\<lambda>sp.
           and_then (from_validated st) (\<lambda>st. Inr (sp, st)))))) of
        Inl _ \<Rightarrow> Inl BindProvision
      | Inr (sp, st) \<Rightarrow>
          if ss_phase st \<noteq> Ready then Inl (BindConflict ServiceNotReady (service_name_str n)) else Inr (sp, st))"

text \<open>The record of a need: an existing one must belong to the instance and carry the computed id; a
  new one gets a fresh password and is stored before anything is provisioned.\<close>

definition ensure_record ::
  "'w service_env \<Rightarrow> bindings_codec \<Rightarrow> string \<Rightarrow> string \<Rightarrow> need \<Rightarrow> service_name \<Rightarrow> service_state \<Rightarrow> 'w bind_state \<Rightarrow>
     'w bind_state \<times> (binding_error + binding_record)" where
  "ensure_record env bc app alias need n st b =
     (let key = record_key alias need;
          rid = compute_resource_id (se_resource_hash env) (se_hex env) (se_installation env)
                  (instance_id_str (ss_instance st)) app alias in
      case map_of (bs_records b) key of
        Some r \<Rightarrow>
          if br_instance r \<noteq> instance_id_str (ss_instance st) \<or> br_resource_id r \<noteq> rid
          then (b, Inl (BindConflict InstanceChanged alias)) else (b, Inr r)
      | None \<Rightarrow>
          (case se_password env (sc_world (bs_ctl b)) of
             (w1, None) \<Rightarrow> (b\<lparr>bs_ctl := (bs_ctl b)\<lparr>sc_world := w1\<rparr>\<rparr>, Inl BindStore)
           | (w1, Some pw) \<Rightarrow>
               (let r = \<lparr>br_service = service_name_str n, br_instance = instance_id_str (ss_instance st),
                         br_resource_id = rid, br_password = pw, br_env = None\<rparr>;
                    records = AList.update key r (bs_records b);
                    (store1, saved) = bindings_save bc (bs_store b) app records
                in (b\<lparr>bs_ctl := (bs_ctl b)\<lparr>sc_world := w1\<rparr>, bs_store := store1, bs_records := records\<rparr>,
                    and_then saved (\<lambda>_. Inr r)))))"

definition provision_record ::
  "'w service_env \<Rightarrow> service_spec \<Rightarrow> service_state \<Rightarrow> binding_record \<Rightarrow> 'w \<Rightarrow> 'w \<times> (binding_error + (string \<times> string) list)" where
  "provision_record env sp st r w =
     (case record_credentials r of
        Inl e \<Rightarrow> (w, Inl e)
      | Inr creds \<Rightarrow>
          (case build_context env w st of
             Inl _ \<Rightarrow> (w, Inl BindProvision)
           | Inr _ \<Rightarrow>
               (case se_create_resource env w sp st creds of
                  (w1, Some (Inr _)) \<Rightarrow>
                    (w1, case se_resource_env env sp creds of Inl _ \<Rightarrow> Inl BindProvision | Inr m \<Rightarrow> Inr m)
                | (w1, _) \<Rightarrow> (w1, Inl BindProvision))))"

definition bind_one ::
  "'w service_env \<Rightarrow> bindings_codec \<Rightarrow> app_config \<Rightarrow> string \<times> service_name \<Rightarrow> 'w bind_state \<Rightarrow>
     'w bind_state \<times> (binding_error + unit)" where
  "bind_one env bc app entry b =
     (let (alias, n) = entry; name = ai_name (ac_app app) in
      case map_of (ac_needs app) alias of
        None \<Rightarrow> (b, Inl BindProvision)
      | Some need \<Rightarrow>
          (case ready_service (se_codec env) (sc_db (bs_ctl b)) n of
             Inl e \<Rightarrow> (b, Inl e)
           | Inr (sp, st) \<Rightarrow>
               (case ensure_record env bc name alias need n st b of
                  (b1, Inl e) \<Rightarrow> (b1, Inl e)
                | (b1, Inr r) \<Rightarrow>
                    (let (w2, res) = provision_record env sp st r (sc_world (bs_ctl b1));
                         b2 = b1\<lparr>bs_ctl := (bs_ctl b1)\<lparr>sc_world := w2\<rparr>\<rparr> in
                     case and_then res (alias_env need alias) of
                       Inl e \<Rightarrow> (b2, Inl e)
                     | Inr vals \<Rightarrow>
                         (let records = AList.update (record_key alias need) (r\<lparr>br_env := Some vals\<rparr>) (bs_records b2);
                              (store1, saved) = bindings_save bc (bs_store b2) name records
                          in (b2\<lparr>bs_store := store1, bs_records := records\<rparr>, saved))))))"

fun bind_each ::
  "'w service_env \<Rightarrow> bindings_codec \<Rightarrow> app_config \<Rightarrow> (string \<times> service_name) list \<Rightarrow> 'w bind_state \<Rightarrow>
     'w bind_state \<times> (binding_error + unit)" where
  "bind_each env bc app [] b = (b, Inr ())"
| "bind_each env bc app (e # es) b =
     (case bind_one env bc app e b of
        (b1, Inl x) \<Rightarrow> (b1, Inl x)
      | (b1, Inr _) \<Rightarrow> bind_each env bc app es b1)"

definition service_bind ::
  "'w service_env \<Rightarrow> bindings_codec \<Rightarrow> app_config \<Rightarrow> 'w service_ctl \<Rightarrow> secrets_store \<Rightarrow>
     'w service_ctl \<times> secrets_store \<times> (binding_error + unit)" where
  "service_bind env bc app c store =
     (case binding_plan (se_codec env) bc store app (sc_db c) of
        Inl e \<Rightarrow> (c, store, Inl e)
      | Inr [] \<Rightarrow> (c, store, Inr ())
      | Inr plan \<Rightarrow>
          (case bindings_load bc store (ai_name (ac_app app)) of
             Inl e \<Rightarrow> (c, store, Inl e)
           | Inr records \<Rightarrow>
               (let (b, r) = bind_each env bc app plan \<lparr>bs_ctl = c, bs_store = store, bs_records = records\<rparr>
                in (bs_ctl b, bs_store b, r))))"

end
