(* ===== verification/ServiceControlProps.thy ===== *)
theory ServiceControlProps
  imports ServiceController
begin

text \<open>
  The controller over represented tables: every operation keeps the ledger represented and paired
  (a desired row exists exactly for the control rows that are not retained), and what each
  operation achieves.
\<close>

section \<open>Environments and pairing\<close>

text \<open>What is documented of the outside: random bytes and hashes have their length and are hexadecimal,
  container ids are full ids.\<close>

definition env_ok :: "'w service_env \<Rightarrow> bool" where
  "env_ok env \<longleftrightarrow>
     repo_codec_ok (se_codec env) \<and>
     (\<forall>w w' h. se_random env w = (w', Some h) \<longrightarrow> length h = 32 \<and> list_all is_lower_hex h) \<and>
     (\<forall>x. hash_valid (SpecHash (se_sha env x))) \<and>
     (\<forall>w sp s w' cid. se_provision env w sp s = (w', Inr cid) \<longrightarrow> container_valid cid) \<and>
     (\<forall>w sp s w' eo. se_ensure env w sp s = (w', Some (Inr eo)) \<longrightarrow> container_valid (eo_container eo))"

definition paired :: "ledger \<Rightarrow> bool" where
  "paired t \<longleftrightarrow> (\<forall>n. desired t n \<noteq> None \<longleftrightarrow> (\<exists>s. control t n = Some s \<and> ss_phase s \<noteq> Retained))"

definition small :: "ledger \<Rightarrow> bool" where
  "small t \<longleftrightarrow> length (lg_states t) \<le> max_services"

lemma small_simps [simp]:
  "small (put_control s t) = small t" "small (put_desired r t) = small t" "small (add_desired r t) = small t"
  "small (drop_desired n t) = small t"
  by (simp_all add: small_def put_control_def put_desired_def add_desired_def drop_desired_def)

lemma small_add: "insert_allowed t sp s \<Longrightarrow> small (add_control s' (add_desired r t))"
  by (simp add: small_def insert_allowed_def add_control_def add_desired_def)

definition keeps_ledger :: "'w service_env \<Rightarrow> 'w service_ctl \<Rightarrow> ledger \<Rightarrow> bool" where
  "keeps_ledger env c t \<longleftrightarrow> represents (se_codec env) (sc_db c) t \<and> paired t \<and> small t"

lemma env_codec: "env_ok env \<Longrightarrow> repo_codec_ok (se_codec env)"
  by (simp add: env_ok_def)

lemma via_repo_simps [simp]: "via_repo (Inr x) = Inr x" "via_repo (Inl e) = Inl (from_repo e)"
  by (simp_all add: via_repo_def)

lemma reads:
  assumes "env_ok env" "keeps_ledger env c t"
  shows "get_state (se_codec env) (sc_db c) n = Inr (control t n)"
    "get_service (se_codec env) (sc_db c) n = Inr (desired t n)"
    "read_pair (se_codec env) (sc_db c) n = Inr (desired t n, control t n)"
  using assms get_state_ledger[OF env_codec, of env "sc_db c" t n] get_service_ledger[OF env_codec, of env "sc_db c" t n]
  by (simp_all add: keeps_ledger_def read_pair_def)

lemma paired_put:
  assumes p: "paired t" and c: "control t n = Some s" and n: "ss_name s' = n"
    and ph: "ss_phase s' = Retained \<longleftrightarrow> ss_phase s = Retained"
  shows "paired (put_control s' t)"
  using p c n ph unfolding paired_def by auto

lemma paired_drop:
  assumes p: "paired t" and n: "ss_name s' = n" and ph: "ss_phase s' = Retained" and c: "control t n \<noteq> None"
  shows "paired (put_control s' (drop_desired n t))"
  using p n ph c unfolding paired_def by auto

lemma paired_reattach:
  assumes p: "paired t" and d: "desired t n = None" and r: "rw_name r = n" and n: "ss_name s' = n"
    and ph: "ss_phase s' \<noteq> Retained" and c: "control t n \<noteq> None"
  shows "paired (put_control s' (add_desired r t))"
  using p d r n ph c unfolding paired_def by auto

lemma paired_add:
  assumes p: "paired t" and c: "control t n = None" and r: "rw_name r = n" and n: "ss_name s = n"
    and ph: "ss_phase s \<noteq> Retained"
  shows "desired t n = None" "paired (add_control s (add_desired r t))"
proof -
  show d: "desired t n = None" using p c unfolding paired_def by (metis option.distinct(1))
  show "paired (add_control s (add_desired r t))" using p c r n ph d unfolding paired_def by auto
qed

lemma paired_touch: "paired t \<Longrightarrow> desired t (rw_name r) \<noteq> None \<Longrightarrow> paired (put_desired r t)"
  unfolding paired_def by auto

lemma keeps_world [simp]: "keeps_ledger env (c\<lparr>sc_world := w\<rparr>) t \<longleftrightarrow> keeps_ledger env c t"
  by (simp add: keeps_ledger_def)

section \<open>The catalog image\<close>

lemma catalog_ref: "\<exists>r. parse_catalog_ref = Inr r \<and> pin_full r = pg_ref"
  by (rule exI[of _ "projr parse_catalog_ref"]) code_simp

lemma catalog_image_ok: "resolved_image_parse pg_ref = Inr (ResolvedImage pg_ref)" "1 \<le> sql_length pg_ref"
  by code_simp+

lemma catalog_image:
  "and_then (resolve_image_for_version v) (\<lambda>r. resolved_image_parse (pin_full r)) =
     (if version_major v = 18 then Inr (ResolvedImage pg_ref) else Inl (InvalidVersion (UnsupportedMajor (version_major v))))"
proof -
  obtain r where r: "parse_catalog_ref = Inr r" "pin_full r = pg_ref" using catalog_ref by blast
  show ?thesis
    unfolding resolve_image_for_version_def supported_major_def r(1)
    by (simp add: r(2) catalog_image_ok(1))
qed

section \<open>Adding\<close>

lemma rep_of: "keeps_ledger env c t \<Longrightarrow> represents (se_codec env) (sc_db c) t"
  by (simp add: keeps_ledger_def)

lemma name_of_control: "keeps_ledger env c t \<Longrightarrow> control t n = Some s \<Longrightarrow> stored_state s \<and> ss_name s = n"
  using control_stored represents_ok rep_of by blast

lemma register_ledger:
  assumes env: "env_ok env" and k: "keeps_ledger env c t" and sp: "spec_valid sp" and now: "time_ok now"
    and d: "desired t (sp_name sp) = None"
    and r: "register_service env now sp (ResolvedImage pg_ref) c = (c1, res)"
  shows "\<exists>t1. keeps_ledger env c1 t1 \<and>
     (case res of Inl _ \<Rightarrow> True
      | Inr (s, b) \<Rightarrow> control t1 (sp_name sp) = Some s \<and> desired t1 (sp_name sp) = Some (new_row sp now) \<and>
          ss_phase s = Provisioning \<and>
          (b \<longrightarrow> (\<exists>old. control t (sp_name sp) = Some old \<and> s = reattached_state now old)) \<and>
          (\<not> b \<longrightarrow> control t (sp_name sp) = None \<and> ss_generation s = 1))"
proof (cases "control t (sp_name sp)")
  case None
  obtain w1 bytes where rnd: "se_random env (sc_world c) = (w1, bytes)" by fastforce
  show ?thesis
  proof (cases "for_provisioning bytes (sp_name sp) (sp_provider sp) (sp_version sp) (ResolvedImage pg_ref) now")
    case (Inl e)
    then show ?thesis
      using r k None by (auto simp: register_service_def reads[OF env k] rnd intro!: exI[of _ t])
  next
    case (Inr s)
    have hex: "\<And>h. bytes = Some h \<Longrightarrow> length h = 32 \<and> list_all is_lower_hex h"
      using env rnd by (auto simp: env_ok_def)
    note fp = for_provisioning_valid[OF Inr _ _ _ hex]
    have v: "state_valid s" "ss_name s = sp_name sp" "ss_phase s = Provisioning" "ss_generation s = 1"
        "ss_image s = ResolvedImage pg_ref"
      using fp sp catalog_image_ok by (auto simp: spec_valid_def)
    have upd: "ss_updated s = now" "ss_checked s = None"
      using Inr by (auto simp: for_provisioning_def Let_def instance_id_generate_def split: if_splits option.splits)
    have st: "stored_state s" using v upd now catalog_image_ok(2) by (simp add: stored_state_def)
    note ins = insert_ledger[OF env_codec[OF env] rep_of[OF k] now sp st]
    show ?thesis
    proof (cases "insert_allowed t sp s")
      case True
      then obtain db' where i: "insert_service_and_state (se_codec env) sp s now (sc_db c) = (db', Inr ())"
          "represents (se_codec env) db' (add_control s (add_desired (new_row sp now) t))"
        using ins by auto
      have "paired (add_control s (add_desired (new_row sp now) t))"
        using k None v by (intro paired_add(2)) (auto simp: keeps_ledger_def new_row_def)
      then have "keeps_ledger env c1 (add_control s (add_desired (new_row sp now) t)) \<and> res = Inr (s, False)"
        using r None i Inr small_add[OF True, of s "new_row sp now"]
        by (auto simp: register_service_def reads[OF env k] rnd keeps_ledger_def)
      then show ?thesis using None d v by (auto simp: new_row_def intro!: exI[of _ "add_control s (add_desired (new_row sp now) t)"])
    next
      case False
      then obtain e where "insert_service_and_state (se_codec env) sp s now (sc_db c) = (sc_db c, Inl e)"
        using ins by auto
      then have "keeps_ledger env c1 t \<and> res = Inl (from_repo e)"
        using r k None Inr by (auto simp: register_service_def reads[OF env k] rnd keeps_ledger_def)
      then show ?thesis by auto
    qed
  qed
next
  case (Some old)
  note on = name_of_control[OF k Some]
  have g: "get_state (se_codec env) (sc_db c) (sp_name sp) = Inr (Some old)" using reads[OF env k] Some by simp
  let ?bad = "ss_phase old \<noteq> Retained \<or> ss_image old \<noteq> ResolvedImage pg_ref \<or>
     (case ss_hash old of Some h \<Rightarrow> effective_hash (se_sha env) (se_print env) sp \<noteq> h | None \<Rightarrow> False)"
  show ?thesis
  proof (cases ?bad)
    case True
    then have "c1 = c" "\<exists>e. res = Inl e" using r by (auto simp: register_service_def g Let_def)
    then show ?thesis using k by auto
  next
    case False
    let ?re = "reattach_retained (se_codec env) sp (ss_instance old) (ss_secret old) (ResolvedImage pg_ref)
       (ss_hash old) (ss_generation old) now (sc_db c)"
    have e: "register_service env now sp (ResolvedImage pg_ref) c =
        (case ?re of
           (db1, Inl e) \<Rightarrow> (c\<lparr>sc_db := db1\<rparr>, Inl (from_repo e))
         | (db1, Inr _) \<Rightarrow> (c\<lparr>sc_db := db1\<rparr>,
              and_then (via_repo (get_state (se_codec env) db1 (sp_name sp))) (\<lambda>x.
              and_then (ok_or x (SvInternal ReattachedMissing)) (\<lambda>row.
              and_then (from_validated row) (\<lambda>s. Inr (s, True))))))"
      unfolding register_service_def Let_def g via_repo_simps sum.case option.case using False by (auto simp: Let_def)
    note re = reattach_ledger[OF env_codec[OF env] rep_of[OF k] now sp, of "ss_instance old" "ss_secret old"
        "ResolvedImage pg_ref" "ss_hash old" "ss_generation old", unfolded Some option.case]
    show ?thesis
    proof (cases "reattach_allowed old sp (ss_instance old) (ss_secret old) (ResolvedImage pg_ref) (ss_hash old) (ss_generation old)")
      case True
      let ?t = "put_control (reattached_state now old) (add_desired (new_row sp now) t)"
      obtain db' g' where i: "?re = (db', Inr g')" "represents (se_codec env) db' ?t"
        using re True d by auto
      have p: "paired ?t"
        using k d on Some by (intro paired_reattach) (auto simp: keeps_ledger_def new_row_def state_updates)
      have ct: "control ?t (sp_name sp) = Some (reattached_state now old)" using Some on by simp
      have "from_validated (reattached_state now old) = Inr (reattached_state now old)"
        using update_stored(2)[of old now] on now by (intro from_validated_valid) (simp add: stored_state_def)
      then have "c1 = c\<lparr>sc_db := db'\<rparr> \<and> res = Inr (reattached_state now old, True)"
        using r unfolding e i(1) using get_state_ledger[OF env_codec[OF env] i(2), of "sp_name sp"] ct by auto
      moreover have "keeps_ledger env (c\<lparr>sc_db := db'\<rparr>) ?t" using i(2) p k by (simp add: keeps_ledger_def)
      moreover have "desired ?t (sp_name sp) = Some (new_row sp now)" using d by (simp add: new_row_def)
      ultimately show ?thesis
        using ct Some by (auto simp: reattached_state_def intro!: exI[of _ ?t])
    next
      case False
      then obtain x where "?re = (sc_db c, Inl x)" using re by auto
      then have "c1 = c \<and> res = Inl (from_repo x)" using r unfolding e by auto
      then show ?thesis using k by auto
    qed
  qed
qed


text \<open>A state update or a health write with the generation of the current row.\<close>

lemma cas_current:
  assumes env: "env_ok env" and k: "keeps_ledger env c t" and s: "control t n = Some s"
    and args: "opt_valid container_valid cid" "opt_valid hash_valid h" "opt_valid time_ok ck" "time_ok now"
    and ph: "ph = Retained \<longleftrightarrow> ss_phase s = Retained"
  shows "\<exists>db'. update_state_cas (se_codec env) n (ss_generation s) ph cid h hk fc ck now (sc_db c) =
       (db', Inr (ss_generation s + 1)) \<and>
     keeps_ledger env (c\<lparr>sc_db := db'\<rparr>) (put_control (cas_state ph cid h hk fc ck now s) t)"
proof -
  have "paired (put_control (cas_state ph cid h hk fc ck now s) t)"
    using k s name_of_control[OF k s] ph
    by (intro paired_put[of t n s]) (auto simp: keeps_ledger_def cas_state_def)
  then show ?thesis
    using update_state_cas_ledger[OF env_codec[OF env] rep_of[OF k] args, of n "ss_generation s" ph hk fc] s k
    by (auto simp: keeps_ledger_def)
qed

lemma health_current:
  assumes env: "env_ok env" and k: "keeps_ledger env c t" and s: "control t n = Some s" and now: "time_ok now"
  shows "\<exists>db'. update_health (se_codec env) n (ss_generation s) hk fc now (sc_db c) = (db', Inr ()) \<and>
     keeps_ledger env (c\<lparr>sc_db := db'\<rparr>) (put_control (health_state hk fc now s) t)"
proof -
  have "paired (put_control (health_state hk fc now s) t)"
    using k s name_of_control[OF k s]
    by (intro paired_put[of t n s]) (auto simp: keeps_ledger_def health_state_def)
  then show ?thesis
    using update_health_ledger[OF env_codec[OF env] rep_of[OF k] now, of n "ss_generation s" hk fc] s k
    by (auto simp: keeps_ledger_def)
qed

lemma effective_hash_valid: "env_ok env \<Longrightarrow> hash_valid (effective_hash (se_sha env) (se_print env) sp)"
  by (simp add: env_ok_def effective_hash_def)

definition ready_state :: "'w service_env \<Rightarrow> int \<Rightarrow> service_spec \<Rightarrow> container_id \<Rightarrow> service_state \<Rightarrow> service_state" where
  "ready_state env now sp cid s =
     cas_state Ready (Some cid) (Some (effective_hash (se_sha env) (se_print env) sp)) (Some Healthy) None None now s"

lemma provision_ledger:
  assumes env: "env_ok env" and k: "keeps_ledger env c t" and s: "control t (sp_name sp) = Some s"
    and ph: "ss_phase s \<noteq> Retained" and now: "time_ok now"
    and r: "provision_service env now sp s c = (c', res)"
  shows "\<exists>t'. keeps_ledger env c' t' \<and>
     (case res of
        Inr _ \<Rightarrow> \<exists>cid. t' = put_control (ready_state env now sp cid s) t
      | Inl e \<Rightarrow> t' = t \<or> t' = put_control (health_state Unhealthy (Some (add_failure_code e)) now s) t)"
proof (cases "build_context env (sc_world c) s")
  case (Inl e)
  then have "c' = c \<and> res = Inl e" using r by (simp add: provision_service_def)
  then show ?thesis using k by auto
next
  case ctx: (Inr u)
  obtain w1 x where p: "se_provision env (sc_world c) sp s = (w1, x)" by fastforce
  show ?thesis
  proof (cases x)
    case (Inl e)
    obtain db' where h: "update_health (se_codec env) (sp_name sp) (ss_generation s) Unhealthy
          (Some (add_failure_code e)) now (sc_db c) = (db', Inr ())"
        "keeps_ledger env (c\<lparr>sc_db := db'\<rparr>) (put_control (health_state Unhealthy (Some (add_failure_code e)) now s) t)"
      using health_current[OF env k s now] by blast
    then show ?thesis using r ctx p Inl by (auto simp: provision_service_def keeps_ledger_def)
  next
    case (Inr cid)
    have cid: "container_valid cid" using env p Inr by (auto simp: env_ok_def)
    have "\<exists>db'. update_state_cas (se_codec env) (sp_name sp) (ss_generation s) Ready (Some cid)
          (Some (effective_hash (se_sha env) (se_print env) sp)) (Some Healthy) None None now (sc_db c) =
          (db', Inr (ss_generation s + 1)) \<and>
        keeps_ledger env (c\<lparr>sc_db := db'\<rparr>) (put_control (ready_state env now sp cid s) t)"
      unfolding ready_state_def using cid effective_hash_valid[OF env] now ph
      by (intro cas_current[OF env k s]) simp_all
    then obtain db' where "update_state_cas (se_codec env) (sp_name sp) (ss_generation s) Ready (Some cid)
          (Some (effective_hash (se_sha env) (se_print env) sp)) (Some Healthy) None None now (sc_db c) =
          (db', Inr (ss_generation s + 1))"
        "keeps_ledger env (c\<lparr>sc_db := db'\<rparr>) (put_control (ready_state env now sp cid s) t)" by blast
    then have "res = Inr () \<and> keeps_ledger env c' (put_control (ready_state env now sp cid s) t)"
      using r ctx p Inr by (auto simp: provision_service_def keeps_ledger_def)
    then show ?thesis by auto
  qed
qed

lemma add_keeps:
  assumes env: "env_ok env" and k: "keeps_ledger env c t" and sp: "spec_valid sp" and now: "time_ok now"
    and r: "service_add env now sp c = (c', res)"
  shows "\<exists>t'. keeps_ledger env c' t'"
proof (cases "\<not> se_rootful env (sc_world c) \<or> (\<exists>e. se_validate env sp = Inl e)")
  case True
  then show ?thesis using r k by (auto simp: service_add_def Let_def split: if_splits)
next
  case False
  then obtain u where pre: "se_rootful env (sc_world c)" "se_validate env sp = Inr u"
    by (cases "se_validate env sp") auto
  show ?thesis
  proof (cases "desired t (sp_name sp)")
    case (Some row)
    have tn: "paired (put_desired (touched_row now row) t)"
      using k Some desired_stored[OF represents_ok[OF rep_of[OF k]] Some]
      by (intro paired_touch) (simp_all add: keeps_ledger_def touched_row_def)
    obtain db' where "touch_service (se_codec env) (sp_name sp) now (sc_db c) = (db', Inr ())"
        "represents (se_codec env) db' (put_desired (touched_row now row) t)"
      using touch_ledger[OF env_codec[OF env] rep_of[OF k] now, of "sp_name sp"] Some by auto
    then show ?thesis
      using r pre Some k tn
      by (auto simp: service_add_def reads[OF env k] row_to_spec_def service_spec_new_def keeps_ledger_def split: if_splits)
  next
    case None
    show ?thesis
    proof (cases "version_major (sp_version sp) = 18")
      case major: True
      obtain c1 x where reg: "register_service env now sp (ResolvedImage pg_ref) c = (c1, x)" by fastforce
      from register_ledger[OF env k sp now None reg] obtain t1 where t1: "keeps_ledger env c1 t1"
        and x: "\<forall>s b. x = Inr (s, b) \<longrightarrow> control t1 (sp_name sp) = Some s \<and> ss_phase s = Provisioning"
        by (cases x) fastforce+
      show ?thesis
      proof (cases x)
        case (Inl e)
        then show ?thesis
          using r pre None t1 by (auto simp: service_add_def reads[OF env k] catalog_image major reg)
      next
        case (Inr sb)
        obtain s b where sb: "sb = (s, b)" by fastforce
        obtain w2 y where prep: "prepare_secrets env s b (sc_world c1) = (w2, y)" by fastforce
        show ?thesis
        proof (cases y)
          case (Inl e)
          then show ?thesis
            using r pre None t1 Inr sb prep
            by (auto simp: service_add_def reads[OF env k] catalog_image major reg)
        next
          case (Inr v)
          have "provision_service env now sp s (c1\<lparr>sc_world := w2\<rparr>) = (c', res)"
            using r pre None \<open>x = Inr sb\<close> sb prep Inr
            by (auto simp: service_add_def reads[OF env k] catalog_image major reg)
          then show ?thesis
            using provision_ledger[OF env _ _ _ now, of "c1\<lparr>sc_world := w2\<rparr>" t1 sp s c' res]
              t1 x \<open>x = Inr sb\<close> sb by auto
        qed
      qed
    qed (use r pre None k in \<open>auto simp: service_add_def reads[OF env k] catalog_image\<close>)
  qed
qed


section \<open>Removing and ensuring\<close>

lemma paired_phase: "paired t \<Longrightarrow> desired t n = Some r \<Longrightarrow> \<exists>s. control t n = Some s \<and> ss_phase s \<noteq> Retained"
  unfolding paired_def by (metis option.distinct(1))

lemma remove_ledger:
  assumes env: "env_ok env" and k: "keeps_ledger env c t" and now: "time_ok now"
    and r: "service_remove env now users n g force c = (c', res)"
  shows "(\<exists>e w. res = Inl e \<and> c' = c\<lparr>sc_world := w\<rparr>) \<or>
     (\<exists>s. control t n = Some s \<and> ss_generation s = g \<and> (users = [] \<or> force) \<and> desired t n \<noteq> None \<and>
        eligible_for_retain (ss_phase s) \<and> res = Inr (removal_done n users) \<and>
        keeps_ledger env c' (put_control (retained_state now s) (drop_desired n t)))"
proof -
  let ?pre = "and_then (read_pair (se_codec env) (sc_db c) n) (\<lambda>(r, s).
           and_then (ok_or r (SvInternal (ServiceNotFound (service_name_str n)))) (\<lambda>row.
           and_then (ok_or s (SvInternal StateNotFound)) (\<lambda>st.
           and_then (require (ss_generation st = g) (SvConflict (StaleGeneration g (ss_generation st)))) (\<lambda>_.
           and_then (require (users = [] \<or> force) (SvConflict (ActiveBindings users))) (\<lambda>_.
           and_then (require (se_rootful env (sc_world c)) (rootless_blocked n)) (\<lambda>_.
           and_then (from_validated st) (\<lambda>st.
           and_then (build_context env (sc_world c) st) (\<lambda>_.
           and_then (row_to_spec row) (\<lambda>sp.
           and_then (se_validate env sp) (\<lambda>_. Inr st))))))))))"
  have def: "service_remove env now users n g force c =
      (case ?pre of
        Inl e \<Rightarrow> (c, Inl e)
      | Inr st \<Rightarrow>
          (case se_remove env (sc_world c) st of
             (w1, Inl e) \<Rightarrow> (c\<lparr>sc_world := w1\<rparr>, Inl e)
           | (w1, Inr _) \<Rightarrow>
               (let (db1, r) = delete_service_and_retain (se_codec env) n (ss_instance st) (ss_secret st) (ss_provider st)
                       (ss_data_major st) (ss_generation st) now (sc_db c)
                in (c\<lparr>sc_world := w1, sc_db := db1\<rparr>,
                    and_then (via_repo r) (\<lambda>_. Inr (removal_done n users))))))"
    by (simp add: service_remove_def Let_def)
  show ?thesis
  proof (cases ?pre)
    case (Inl e)
    have "c' = c\<lparr>sc_world := sc_world c\<rparr> \<and> res = Inl e" using r unfolding def Inl by simp
    then show ?thesis by blast
  next
    case (Inr st)
    then obtain row s where rd: "desired t n = Some row" "control t n = Some s" and
        st: "from_validated s = Inr st" "ss_generation s = g" "users = [] \<or> force"
      by (auto simp: reads[OF env k] result_simps)
    have eq: "st = s" using st(1) by (auto simp: from_validated_def split: if_splits)
    obtain w1 x where rm: "se_remove env (sc_world c) st = (w1, x)" by fastforce
    show ?thesis
    proof (cases x)
      case (Inl e)
      have "c' = c\<lparr>sc_world := w1\<rparr> \<and> res = Inl e"
        using r unfolding def Inr sum.case rm prod.case Inl by simp
      then show ?thesis by blast
    next
      case ok: (Inr u)
      let ?del = "delete_service_and_retain (se_codec env) n (ss_instance s) (ss_secret s) (ss_provider s)
          (ss_data_major s) (ss_generation s) now (sc_db c)"
      note del = delete_and_retain_ledger[OF env_codec[OF env] rep_of[OF k] now, of n "ss_instance s" "ss_secret s"
          "ss_provider s" "ss_data_major s" "ss_generation s", unfolded rd option.case]
      have allowed: "retain_allowed s (ss_instance s) (ss_secret s) (ss_provider s) (ss_data_major s) (ss_generation s) \<longleftrightarrow>
          eligible_for_retain (ss_phase s)" by (simp add: retain_allowed_def)
      have pd: "paired (put_control (retained_state now s) (drop_desired n t))"
        using k rd name_of_control[OF k rd(2)] by (intro paired_drop) (auto simp: keeps_ledger_def state_updates)
      show ?thesis
      proof (cases "eligible_for_retain (ss_phase s)")
        case True
        then obtain db' where d: "?del = (db', Inr (ss_generation s + 1))"
            "represents (se_codec env) db' (put_control (retained_state now s) (drop_desired n t))"
          using del allowed by auto
        have "c' = c\<lparr>sc_world := w1, sc_db := db'\<rparr> \<and> res = Inr (removal_done n users)"
          using r unfolding def Inr sum.case rm prod.case ok d(1)[folded eq] Let_def by simp
        then show ?thesis using True rd st d(2) pd k by (auto simp: keeps_ledger_def)
      next
        case False
        then obtain e where d: "?del = (sc_db c, Inl e)" using del allowed by auto
        have "c' = c\<lparr>sc_world := w1\<rparr> \<and> res = Inl (from_repo e)"
          using r unfolding def Inr sum.case rm prod.case ok d(1)[folded eq] Let_def by simp
        then show ?thesis by blast
      qed
    qed
  qed
qed


definition ensured_state :: "int \<Rightarrow> ensure_outcome \<Rightarrow> service_state \<Rightarrow> service_state" where
  "ensured_state now eo s =
     cas_state (phase_after (eo_action eo)) (Some (eo_container eo)) None (eo_health eo) None (Some now) now s"

definition failed_state :: "int \<Rightarrow> service_error \<Rightarrow> service_state \<Rightarrow> service_state" where
  "failed_state now e s =
     (if is_permanent e
      then cas_state PhBlocked None None (Some Unhealthy) (Some (ensure_failure_code e)) (Some now) now s
      else health_state Unhealthy (Some (ensure_failure_code e)) now s)"

lemma phase_after_active [simp]: "phase_after a \<noteq> Retained"
  by (cases a) simp_all

text \<open>What the provider answers for a service, setup errors included.\<close>

definition provider_answer ::
  "'w service_env \<Rightarrow> 'w \<Rightarrow> service_row \<Rightarrow> service_state \<Rightarrow> 'w \<times> (service_error + ensure_outcome) option" where
  "provider_answer env w row s =
     (case build_context env w s of
        Inl e \<Rightarrow> (w, Some (Inl e))
      | Inr _ \<Rightarrow> se_ensure env w (projr (row_to_spec row)) s)"

lemma ensure_one_ledger:
  assumes env: "env_ok env" and k: "keeps_ledger env c t" and now: "time_ok now"
    and r: "ensure_one env now n c = (c', res)"
  shows "case desired t n of
      None \<Rightarrow> c' = c \<and> res = Inr ()
    | Some row \<Rightarrow> \<exists>s. control t n = Some s \<and>
        (if ss_phase s = PhBlocked then c' = c \<and> res = Inr ()
         else case se_validate env (projr (row_to_spec row)) of
           Inl e \<Rightarrow> c' = c \<and> res = Inl e
         | Inr _ \<Rightarrow>
            (case provider_answer env (sc_world c) row s of
               (w, None) \<Rightarrow> c' = c\<lparr>sc_world := w\<rparr> \<and> res = Inl (ReadinessFailed ''ensure timed out'')
             | (w, Some (Inl e)) \<Rightarrow> res = Inl e \<and> sc_world c' = w \<and> keeps_ledger env c' (put_control (failed_state now e s) t)
             | (w, Some (Inr eo)) \<Rightarrow> res = Inr () \<and> sc_world c' = w \<and>
                 keeps_ledger env c' (put_control (ensured_state now eo s) t)))"
proof (cases "desired t n")
  case None
  then show ?thesis using r by (auto simp: ensure_one_def reads[OF env k])
next
  case (Some row)
  then obtain s where s: "control t n = Some s" and ph: "ss_phase s \<noteq> Retained"
    using paired_phase[of t n row] k by (auto simp: keeps_ledger_def)
  have fv: "from_validated s = Inr s"
    using name_of_control[OF k s] by (intro from_validated_valid) (simp add: stored_state_def)
  obtain sp where sp: "row_to_spec row = Inr sp" by (simp add: row_to_spec_def service_spec_new_def)
  consider "ss_phase s = PhBlocked" | e where "ss_phase s \<noteq> PhBlocked" "se_validate env sp = Inl e"
    | u where "se_validate env sp = Inr u" "ss_phase s \<noteq> PhBlocked" by (cases "se_validate env sp") auto
  then show ?thesis
  proof cases
    case 1
    then show ?thesis using r Some s by (simp add: ensure_one_def reads[OF env k] Let_def)
  next
    case (2 e)
    then have "c' = c \<and> res = Inl e" using r Some s ph fv sp by (simp add: ensure_one_def reads[OF env k] Let_def)
    then show ?thesis using 2 Some s sp by simp
  next
    case v: (3 u)
    obtain w ans where pa: "provider_answer env (sc_world c) row s = (w, ans)" by fastforce
    have pa': "(case build_context env (sc_world c) s of Inl e \<Rightarrow> (sc_world c, Some (Inl e))
        | Inr _ \<Rightarrow> se_ensure env (sc_world c) sp s) = (w, ans)"
      using pa unfolding provider_answer_def sp sum.sel .
    have run: "(c', res) = (case ans of
          Some (Inr eo) \<Rightarrow> (let (db1, r) = persist_ensured (se_codec env) n (ss_generation s) now eo (sc_db c)
                             in (c\<lparr>sc_world := w, sc_db := db1\<rparr>, r))
        | Some (Inl e) \<Rightarrow> (c\<lparr>sc_world := w, sc_db := persist_failure (se_codec env) n (ss_generation s) now e (sc_db c)\<rparr>, Inl e)
        | None \<Rightarrow> (c\<lparr>sc_world := w\<rparr>, Inl (ReadinessFailed ''ensure timed out'')))"
      using r Some s ph fv sp v pa'
      by (auto simp: ensure_one_def reads[OF env k] Let_def split: option.splits sum.splits)
    show ?thesis
    proof (cases ans)
      case None
      then show ?thesis using run Some s v sp pa by simp
    next
      case ans: (Some x)
      show ?thesis
      proof (cases x)
        case (Inl e)
        have "keeps_ledger env (c\<lparr>sc_db := persist_failure (se_codec env) n (ss_generation s) now e (sc_db c)\<rparr>)
            (put_control (failed_state now e s) t)"
          using cas_current[OF env k s, of None None "Some now" now PhBlocked "Some Unhealthy" "Some (ensure_failure_code e)"]
            health_current[OF env k s now, of Unhealthy "Some (ensure_failure_code e)"] now ph
          by (auto simp: persist_failure_def failed_state_def)
        then show ?thesis using run Some s v sp pa ans Inl by (auto simp: keeps_ledger_def)
      next
        case (Inr eo)
        have cid: "container_valid (eo_container eo)"
          using env pa' ans Inr by (auto simp: env_ok_def split: sum.splits)
        obtain db' where "update_state_cas (se_codec env) n (ss_generation s) (phase_after (eo_action eo))
              (Some (eo_container eo)) None (eo_health eo) None (Some now) now (sc_db c) = (db', Inr (ss_generation s + 1))"
            "keeps_ledger env (c\<lparr>sc_db := db'\<rparr>) (put_control (ensured_state now eo s) t)"
          using cas_current[OF env k s, of "Some (eo_container eo)" None "Some now" now "phase_after (eo_action eo)"
              "eo_health eo" None] cid now ph by (auto simp: ensured_state_def)
        then show ?thesis using run Some s v sp pa ans Inr by (auto simp: persist_ensured_def keeps_ledger_def)
      qed
    qed
  qed
qed

lemma ensure_keeps:
  assumes env: "env_ok env" and k: "keeps_ledger env c t" and now: "time_ok now"
    and r: "ensure_one env now n c = (c', res)"
  shows "\<exists>t'. keeps_ledger env c' t'"
proof (cases "desired t n")
  case (Some row)
  obtain w a where "provider_answer env (sc_world c) row (the (control t n)) = (w, a)" by fastforce
  then show ?thesis
    using ensure_one_ledger[OF assms] k Some
    by (cases a; cases "the a") (auto split: if_splits sum.splits)
qed (use ensure_one_ledger[OF assms] k in auto)

lemma remove_keeps:
  assumes env: "env_ok env" and k: "keeps_ledger env c t" and now: "time_ok now"
    and r: "service_remove env now users n g force c = (c', res)"
  shows "\<exists>t'. keeps_ledger env c' t'"
  using remove_ledger[OF assms] k by auto

end
