(* ===== verification/ServiceLife.thy ===== *)
theory ServiceLife
  imports ServiceControlProps
begin

text \<open>
  What the service controller guarantees over its life: the rows stay paired whatever operations run
  and however they fail, a removed service that is added again gets its old instance back, and where
  the code falls short of its comments.
\<close>

section \<open>Runs of the controller\<close>

inductive ctl_step :: "'w service_env \<Rightarrow> 'w service_ctl \<Rightarrow> 'w service_ctl \<Rightarrow> bool" for env where
  add: "spec_valid sp \<Longrightarrow> time_ok now \<Longrightarrow> service_add env now sp c = (c', r) \<Longrightarrow> ctl_step env c c'"
| remove: "time_ok now \<Longrightarrow> service_remove env now users n g force c = (c', r) \<Longrightarrow> ctl_step env c c'"
| ensure: "time_ok now \<Longrightarrow> ensure_one env now n c = (c', r) \<Longrightarrow> ctl_step env c c'"
| world: "ctl_step env c (c\<lparr>sc_world := w\<rparr>)"

lemma ctl_step_keeps:
  assumes "env_ok env" "ctl_step env c c'" "keeps_ledger env c t"
  shows "\<exists>t'. keeps_ledger env c' t'"
  using assms(2)
proof cases
  case (add sp now r)
  then show ?thesis using add_keeps assms(1,3) by blast
next
  case (remove now users n g force r)
  then show ?thesis using remove_keeps assms(1,3) by blast
next
  case (ensure now n r)
  then show ?thesis using ensure_keeps assms(1,3) by blast
next
  case (world w)
  then show ?thesis using assms(3) by auto
qed

lemma ctl_run_keeps:
  assumes env: "env_ok env" and run: "(ctl_step env)\<^sup>*\<^sup>* \<lparr>sc_db = empty_db, sc_world = w\<rparr> c"
  shows "\<exists>t. keeps_ledger env c t"
  using run
proof induction
  case base
  have "paired \<lparr>lg_services = [], lg_states = []\<rparr>" "small \<lparr>lg_services = [], lg_states = []\<rparr>"
    by (auto simp: paired_def desired_def control_def small_def)
  then show ?case using represents_empty by (auto simp: keeps_ledger_def)
next
  case (step c1 c2)
  then show ?case using ctl_step_keeps[OF env] by blast
qed

section \<open>The listing\<close>

lemma map_result_all: "(\<And>x. x \<in> set xs \<Longrightarrow> f x = Inr (g x)) \<Longrightarrow> map_result f xs = Inr (map g xs)"
  by (induction xs) auto

text \<open>With at most 1000 control rows, both listings are complete up to their limit.\<close>

lemma of_conv_ok: "m = Inr y \<Longrightarrow> of_conv m = Inr y"
  by simp

lemma map_of_controls:
  assumes ok: "ledger_ok t" and set: "set ys = set (lg_states t)"
    and dist: "distinct (map fst (map (\<lambda>s. (service_name_str (ss_name s), s)) ys))"
  shows "map_of (map (\<lambda>s. (service_name_str (ss_name s), s)) ys) (service_name_str n) = control t n"
proof (cases "control t n")
  case None
  then have "n \<notin> ss_name ` set ys" by (simp add: control_def find_key_None set)
  then show ?thesis using None by (auto simp: map_of_eq_None_iff)
next
  case (Some s)
  then have "(service_name_str n, s) \<in> set (map (\<lambda>s. (service_name_str (ss_name s), s)) ys)"
    using set by (auto simp: control_iff[OF ok])
  then show ?thesis using Some map_of_eq_Some_iff[OF dist] by simp
qed

lemma list_states_complete:
  assumes cd: "repo_codec_ok cd" and rep: "represents cd db t" and sm: "small t"
  shows "\<exists>ys. list_states cd db None = Inr ys \<and>
     (\<forall>n. map_of (map (\<lambda>s. (service_name_str (ss_name s), s)) ys) (service_name_str n) = control t n)"
proof -
  have st: "db_states db = map (raw_of_state cd) (lg_states t)" and ok: "ledger_ok t"
    using rep by (simp_all add: represents_def)
  let ?rows = "sort_key cr_name (db_states db)" and ?g = "\<lambda>r. projr (row_to_state cd r)"
  have row: "row_to_state cd r = Inr (?g r) \<and> r = raw_of_state cd (?g r) \<and> ?g r \<in> set (lg_states t)"
    if "r \<in> set ?rows" for r
    using that ok row_to_state_raw[OF cd] by (auto simp: st ledger_ok_def list_all_iff)
  have lim: "take (clamp_limit None) ?rows = ?rows"
    using sm by (simp add: clamp_limit_def small_def st max_services_def)
  have l: "list_states cd db None = Inr (map ?g ?rows)"
    unfolding list_states_def lim by (rule map_result_all, rule of_conv_ok) (use row in blast)
  have nm: "service_name_str (ss_name (?g r)) = cr_name r" if "r \<in> set ?rows" for r
  proof -
    have "cr_name r = cr_name (raw_of_state cd (?g r))" using row[OF that] by (rule arg_cong[OF conjunct1[OF conjunct2]])
    then show ?thesis by simp
  qed
  have keys: "map (\<lambda>s. service_name_str (ss_name s)) (map ?g ?rows) = map cr_name ?rows"
    using nm by (simp del: set_sort)
  have "map cr_name (db_states db) = map service_name_str (map ss_name (lg_states t))" by (simp add: st)
  moreover have "distinct (map service_name_str (map ss_name (lg_states t)))"
    using ok by (subst distinct_map) (auto simp: ledger_ok_def inj_on_def)
  ultimately have "inj_on cr_name (set (db_states db)) \<and> distinct (db_states db)"
    by (metis distinct_map)
  then have dist: "distinct (map fst (map (\<lambda>s. (service_name_str (ss_name s), s)) (map ?g ?rows)))"
    using nm by (auto simp: comp_def distinct_map inj_on_def)
  have set: "set (map ?g ?rows) = set (lg_states t)"
    using ok row_to_state_raw[OF cd] by (force simp: st ledger_ok_def list_all_iff image_iff)
  show ?thesis using l map_of_controls[OF ok set dist] by blast
qed

lemma list_services_rows:
  assumes cd: "repo_codec_ok cd" and rep: "represents cd db t"
  shows "\<exists>rs. list_services cd db None = Inr rs \<and> (\<forall>r\<in>set rs. desired t (rw_name r) = Some r)"
proof -
  have sv: "db_services db = map (raw_of_service cd) (lg_services t)" and ok: "ledger_ok t"
    using rep by (simp_all add: represents_def)
  let ?rows = "take (clamp_limit None) (sort_key sv_name (db_services db))" and ?g = "\<lambda>r. projr (row_to_service cd r)"
  have row: "row_to_service cd r = Inr (?g r) \<and> ?g r \<in> set (lg_services t)" if "r \<in> set ?rows" for r
    using in_set_takeD[OF that] ok row_to_service_raw[OF cd] by (auto simp: sv ledger_ok_def list_all_iff)
  have "list_services cd db None = Inr (map ?g ?rows)"
    unfolding list_services_def by (rule map_result_all, rule of_conv_ok) (use row in blast)
  then show ?thesis using row by (auto simp: desired_iff[OF ok])
qed

lemma listing_shows:
  assumes env: "env_ok env" and k: "keeps_ledger env c t"
  shows "\<exists>ss. service_list (se_codec env) (sc_db c) = Inr ss \<and>
     (\<forall>m\<in>set ss. \<exists>s. control t (sm_name m) = Some s \<and> sm_phase m = ss_phase s \<and> sm_health m = ss_health s \<and>
        ss_phase s \<noteq> Retained)"
proof -
  have rep: "represents (se_codec env) (sc_db c) t" "paired t" "small t" using k by (simp_all add: keeps_ledger_def)
  obtain rs where rs: "list_services (se_codec env) (sc_db c) None = Inr rs" "\<forall>r\<in>set rs. desired t (rw_name r) = Some r"
    using list_services_rows[OF env_codec[OF env] rep(1)] by blast
  obtain ys where ys: "list_states (se_codec env) (sc_db c) None = Inr ys"
      "\<forall>n. map_of (map (\<lambda>s. (service_name_str (ss_name s), s)) ys) (service_name_str n) = control t n"
    using list_states_complete[OF env_codec[OF env] rep(1,3)] by blast
  have "\<exists>s. control t (sm_name m) = Some s \<and> sm_phase m = ss_phase s \<and> sm_health m = ss_health s \<and> ss_phase s \<noteq> Retained"
    if m: "m \<in> set (map (summary_of ys) rs)" for m
  proof -
    obtain r where r: "r \<in> set rs" "m = summary_of ys r" using m by auto
    obtain s where s: "control t (rw_name r) = Some s" "ss_phase s \<noteq> Retained"
      using paired_phase[OF rep(2)] rs(2) r(1) by blast
    then show ?thesis using r(2) ys(2) by (simp add: summary_of_def Let_def)
  qed
  then show ?thesis using rs ys by (auto simp: service_list_def)
qed

text \<open>C17. Whatever the controller adds, removes and ensures, in any order and however the runtime, the
  storage and the provider fail: every row stays readable, a service has a desired row exactly while
  its control row is not retained, and the listing shows the recorded phase and health of each
  service, never the placeholder it has for a missing control row.\<close>

theorem controller_rows_paired:
  assumes "env_ok env" "(ctl_step env)\<^sup>*\<^sup>* \<lparr>sc_db = empty_db, sc_world = w\<rparr> c"
  shows "readable (se_codec env) (sc_db c) \<and>
     (\<forall>n. get_service (se_codec env) (sc_db c) n \<noteq> Inr None \<longleftrightarrow>
        (\<exists>s. get_state (se_codec env) (sc_db c) n = Inr (Some s) \<and> ss_phase s \<noteq> Retained)) \<and>
     (\<exists>ss. service_list (se_codec env) (sc_db c) = Inr ss \<and>
        (\<forall>m\<in>set ss. \<exists>s. get_state (se_codec env) (sc_db c) (sm_name m) = Inr (Some s) \<and>
           sm_phase m = ss_phase s \<and> sm_health m = ss_health s \<and> sm_phase m \<noteq> Retained))"
proof -
  obtain t where k: "keeps_ledger env c t" using ctl_run_keeps[OF assms] by blast
  have "readable (se_codec env) (sc_db c)"
    using represented_readable[OF env_codec[OF assms(1)] rep_of[OF k]] .
  moreover have "\<forall>n. desired t n \<noteq> None \<longleftrightarrow> (\<exists>s. control t n = Some s \<and> ss_phase s \<noteq> Retained)"
    using k by (simp add: keeps_ledger_def paired_def)
  moreover have "\<exists>ss. service_list (se_codec env) (sc_db c) = Inr ss \<and>
      (\<forall>m\<in>set ss. \<exists>s. control t (sm_name m) = Some s \<and> sm_phase m = ss_phase s \<and>
         sm_health m = ss_health s \<and> sm_phase m \<noteq> Retained)"
    using listing_shows[OF assms(1) k] by (elim exE conjE) (rule exI, erule conjI, metis)
  ultimately show ?thesis unfolding reads[OF assms(1) k] by simp
qed


section \<open>Removing and adding again\<close>

text \<open>The outside answers a re-add: rootful runtime, accepted specification, a storage with the active
  secret of the instance, and a provider that provisions.\<close>

definition provider_ready :: "'w service_env \<Rightarrow> service_spec \<Rightarrow> instance_id \<Rightarrow> 'w \<Rightarrow> bool" where
  "provider_ready env sp i w \<longleftrightarrow>
     se_rootful env w \<and> se_validate env sp = Inr () \<and> se_storage env \<and>
     (case se_create_dir env w i of (w1, d) \<Rightarrow>
        d = DirExists \<and> se_bundle env w1 i \<and> se_pointer env w1 i = PointerActive \<and>
        (\<forall>s. ss_instance s = i \<longrightarrow> (\<exists>w2 cid. se_provision env w1 sp s = (w2, Inr cid))))"

lemma register_reattaches:
  assumes env: "env_ok env" and k: "keeps_ledger env c t" and sp: "spec_valid sp" and now: "time_ok now"
    and d: "desired t (sp_name sp) = None" and old: "control t (sp_name sp) = Some old"
    and hash: "case ss_hash old of Some h \<Rightarrow> effective_hash (se_sha env) (se_print env) sp = h | None \<Rightarrow> True"
    and ok: "reattach_allowed old sp (ss_instance old) (ss_secret old) (ResolvedImage pg_ref) (ss_hash old) (ss_generation old)"
  shows "\<exists>db'. register_service env now sp (ResolvedImage pg_ref) c =
       (c\<lparr>sc_db := db'\<rparr>, Inr (reattached_state now old, True)) \<and>
     keeps_ledger env (c\<lparr>sc_db := db'\<rparr>) (put_control (reattached_state now old) (add_desired (new_row sp now) t))"
proof -
  note on = name_of_control[OF k old]
  let ?t = "put_control (reattached_state now old) (add_desired (new_row sp now) t)"
  have g: "get_state (se_codec env) (sc_db c) (sp_name sp) = Inr (Some old)" using reads[OF env k] old by simp
  obtain db' where re: "reattach_retained (se_codec env) sp (ss_instance old) (ss_secret old) (ResolvedImage pg_ref)
       (ss_hash old) (ss_generation old) now (sc_db c) = (db', Inr (ss_generation old + 1))"
      "represents (se_codec env) db' ?t"
    using reattach_ledger[OF env_codec[OF env] rep_of[OF k] now sp, of "ss_instance old" "ss_secret old"
        "ResolvedImage pg_ref" "ss_hash old" "ss_generation old", unfolded old option.case] d ok by auto
  have ct: "control ?t (sp_name sp) = Some (reattached_state now old)" using old on by simp
  have fv: "from_validated (reattached_state now old) = Inr (reattached_state now old)"
    using update_stored(2)[of old now] on now by (intro from_validated_valid) (simp add: stored_state_def)
  have good: "\<not> (ss_phase old \<noteq> Retained \<or> ss_image old \<noteq> ResolvedImage pg_ref \<or>
     (case ss_hash old of Some h \<Rightarrow> effective_hash (se_sha env) (se_print env) sp \<noteq> h | None \<Rightarrow> False))"
    using ok hash by (auto simp: reattach_allowed_def split: option.splits)
  have "register_service env now sp (ResolvedImage pg_ref) c =
       (c\<lparr>sc_db := db'\<rparr>, Inr (reattached_state now old, True))"
    unfolding register_service_def Let_def g via_repo_simps sum.case option.case if_not_P[OF good] re(1) prod.case
      get_state_ledger[OF env_codec[OF env] re(2)] ct
    by (simp add: fv)
  moreover have "paired ?t"
    using k d on old by (intro paired_reattach) (auto simp: keeps_ledger_def new_row_def state_updates)
  ultimately show ?thesis using re(2) k by (auto simp: keeps_ledger_def)
qed

lemma provision_succeeds:
  assumes env: "env_ok env" and k: "keeps_ledger env c t" and s: "control t (sp_name sp) = Some s"
    and ph: "ss_phase s \<noteq> Retained" and now: "time_ok now"
    and ctx: "build_context env (sc_world c) s = Inr u" and p: "se_provision env (sc_world c) sp s = (w1, Inr cid)"
  shows "\<exists>c'. provision_service env now sp s c = (c', Inr ()) \<and>
     keeps_ledger env c' (put_control (ready_state env now sp cid s) t)"
proof -
  have "container_valid cid" using env p by (auto simp: env_ok_def)
  then obtain db' where "update_state_cas (se_codec env) (sp_name sp) (ss_generation s) Ready (Some cid)
        (Some (effective_hash (se_sha env) (se_print env) sp)) (Some Healthy) None None now (sc_db c) =
        (db', Inr (ss_generation s + 1))"
      "keeps_ledger env (c\<lparr>sc_db := db'\<rparr>) (put_control (ready_state env now sp cid s) t)"
    using cas_current[OF env k s, of "Some cid" "Some (effective_hash (se_sha env) (se_print env) sp)" None now Ready
      "Some Healthy" None] effective_hash_valid[OF env] now ph by (auto simp: ready_state_def)
  then show ?thesis using ctx p by (auto simp: provision_service_def keeps_ledger_def)
qed

lemma removed_control:
  assumes env: "env_ok env" and k: "keeps_ledger env c t" and now: "time_ok now" and s: "control t n = Some s"
    and rm: "service_remove env now users n g force c = (c1, Inr res)"
  shows "\<exists>t1. keeps_ledger env c1 t1 \<and> control t1 n = Some (retained_state now s) \<and> desired t1 n = None"
proof -
  have "keeps_ledger env c1 (put_control (retained_state now s) (drop_desired n t))"
    using remove_ledger[OF env k now rm] s by auto
  then show ?thesis using s name_of_control[OF k s] by (intro exI[of _ "put_control (retained_state now s) (drop_desired n t)"]) auto
qed

lemma remove_succeeds:
  assumes env: "env_ok env" and k: "keeps_ledger env c t" and now: "time_ok now"
    and rd: "desired t n = Some row" "control t n = Some s" and el: "eligible_for_retain (ss_phase s)"
    and pre: "users = [] \<or> force" "se_rootful env (sc_world c)" "build_context env (sc_world c) s = Inr u"
      "se_validate env (projr (row_to_spec row)) = Inr ()" "se_remove env (sc_world c) s = (w1, Inr v)"
  shows "\<exists>db'. service_remove env now users n (ss_generation s) force c =
     (c\<lparr>sc_world := w1, sc_db := db'\<rparr>, Inr (removal_done n users))"
proof -
  have fv: "from_validated s = Inr s"
    using name_of_control[OF k rd(2)] by (intro from_validated_valid) (simp add: stored_state_def)
  obtain sp where sp: "row_to_spec row = Inr sp" by (simp add: row_to_spec_def service_spec_new_def)
  obtain db' where "delete_service_and_retain (se_codec env) n (ss_instance s) (ss_secret s) (ss_provider s)
      (ss_data_major s) (ss_generation s) now (sc_db c) = (db', Inr (ss_generation s + 1))"
    using delete_and_retain_ledger[OF env_codec[OF env] rep_of[OF k] now, of n "ss_instance s" "ss_secret s"
          "ss_provider s" "ss_data_major s" "ss_generation s"] rd el by (auto simp: retain_allowed_def)
  then show ?thesis using reads(3)[OF env k, of n] rd pre fv sp
    by (intro exI[of _ db']) (simp add: service_remove_def Let_def)
qed

text \<open>C18. A service that was removed and is added again with the same version (and, when a hash was
  recorded, the same specification hash) gets its retained data instance back: same instance id, secret
  reference, image and version, in phase Ready, three generations later, once the provider
  provisions.\<close>

theorem readd_restores_instance:
  assumes env: "env_ok env" and reach: "(ctl_step env)\<^sup>*\<^sup>* \<lparr>sc_db = empty_db, sc_world = w0\<rparr> c"
    and s: "get_state (se_codec env) (sc_db c) n = Inr (Some s)" and image: "ss_image s = ResolvedImage pg_ref"
    and rm: "service_remove env now users n g force c = (c1, Inr res)"
    and sp: "spec_valid sp" "sp_name sp = n" "sp_provider sp = ss_provider s" "sp_version sp = ss_version s"
      "version_major (sp_version sp) = 18"
    and hash: "ss_hash s \<in> {None, Some (effective_hash (se_sha env) (se_print env) sp)}"
    and times: "time_ok now" "time_ok now'"
    and ready: "provider_ready env sp (ss_instance s) (sc_world c1)"
  shows "\<exists>c2 s2. service_add env now' sp c1 = (c2, Inr ()) \<and>
     get_state (se_codec env) (sc_db c2) n = Inr (Some s2) \<and> same_instance s s2 \<and> ss_phase s2 = Ready \<and>
     ss_generation s2 = ss_generation s + 3"
proof -
  obtain t where k: "keeps_ledger env c t" using ctl_run_keeps[OF env reach] by blast
  have ct: "control t n = Some s" using s reads[OF env k] by simp
  let ?s1 = "retained_state now s" and ?s2 = "reattached_state now' (retained_state now s)"
  obtain t1 where t1: "keeps_ledger env c1 t1" "control t1 (sp_name sp) = Some ?s1" "desired t1 (sp_name sp) = None"
    using removed_control[OF env k times(1) ct rm] sp(2) by blast
  have allowed: "reattach_allowed ?s1 sp (ss_instance ?s1) (ss_secret ?s1) (ResolvedImage pg_ref) (ss_hash ?s1) (ss_generation ?s1)"
    using image sp by (simp add: reattach_allowed_def retained_state_def)
  have h1: "case ss_hash ?s1 of Some h \<Rightarrow> effective_hash (se_sha env) (se_print env) sp = h | None \<Rightarrow> True"
    using hash by (auto simp: retained_state_def)
  obtain db' where reg: "register_service env now' sp (ResolvedImage pg_ref) c1 = (c1\<lparr>sc_db := db'\<rparr>, Inr (?s2, True))"
      "keeps_ledger env (c1\<lparr>sc_db := db'\<rparr>) (put_control ?s2 (add_desired (new_row sp now') t1))"
    using register_reattaches[OF env t1(1) sp(1) times(2) t1(3,2) h1 allowed] by blast
  obtain w1 where w1: "se_create_dir env (sc_world c1) (ss_instance s) = (w1, DirExists)"
      "se_bundle env w1 (ss_instance s)" "se_pointer env w1 (ss_instance s) = PointerActive"
      "\<forall>x. ss_instance x = ss_instance s \<longrightarrow> (\<exists>w2 cid. se_provision env w1 sp x = (w2, Inr cid))"
    and pre: "se_rootful env (sc_world c1)" "se_validate env sp = Inr ()" "se_storage env"
    using ready by (auto simp: provider_ready_def split: prod.splits)
  let ?c = "c1\<lparr>sc_db := db', sc_world := w1\<rparr>"
  have prep: "prepare_secrets env ?s2 True (sc_world c1) = (w1, Inr ())"
    using pre(3) w1 by (simp add: prepare_secrets_def)
  have ctx: "build_context env (sc_world ?c) ?s2 = Inr ()"
    using pre(3) w1 by (simp add: build_context_def make_secret_capability_def provider_context_def)
  obtain w2 cid where p: "se_provision env (sc_world ?c) sp ?s2 = (w2, Inr cid)" using w1(4) by fastforce
  let ?t2 = "put_control ?s2 (add_desired (new_row sp now') t1)"
  have k2: "keeps_ledger env ?c ?t2" using reg(2) by (simp add: keeps_ledger_def)
  have c2: "control ?t2 (sp_name sp) = Some ?s2" using t1(2) name_of_control[OF t1(1,2)] by simp
  obtain c2 where c2': "provision_service env now' sp ?s2 ?c = (c2, Inr ())"
      "keeps_ledger env c2 (put_control (ready_state env now' sp cid ?s2) ?t2)"
    using provision_succeeds[OF env k2 c2 _ times(2) ctx p] by (auto simp: state_updates)
  have "service_add env now' sp c1 = (c2, Inr ())"
    using c2'(1) pre prep reg(1) t1(3) by (simp add: service_add_def reads[OF env t1(1)] catalog_image sp(5))
  moreover have "control (put_control (ready_state env now' sp cid ?s2) ?t2) n = Some (ready_state env now' sp cid ?s2)"
    using c2 sp(2) name_of_control[OF k2 c2] by (simp add: ready_state_def)
  ultimately show ?thesis
    by (intro exI[of _ c2] exI[of _ "ready_state env now' sp cid ?s2"])
       (simp add: reads[OF env c2'(2)] ready_state_def state_updates same_instance_def)
qed


section \<open>Adding for the first time\<close>

lemma register_fresh:
  assumes env: "env_ok env" and k: "keeps_ledger env c t" and sp: "spec_valid sp" and now: "time_ok now"
    and d: "desired t (sp_name sp) = None" and none: "control t (sp_name sp) = None"
    and room: "length (lg_states t) < max_services"
    and rnd: "se_random env (sc_world c) = (w1, Some h)" and fresh: "InstanceId h \<notin> ss_instance ` set (lg_states t)"
  shows "\<exists>s db'. register_service env now sp (ResolvedImage pg_ref) c = (c\<lparr>sc_db := db', sc_world := w1\<rparr>, Inr (s, False)) \<and>
     keeps_ledger env (c\<lparr>sc_db := db', sc_world := w1\<rparr>) (add_control s (add_desired (new_row sp now) t)) \<and>
     ss_name s = sp_name sp \<and> ss_provider s = sp_provider sp \<and> ss_version s = sp_version sp \<and>
     ss_instance s = InstanceId h \<and> ss_generation s = 1 \<and> ss_phase s = Provisioning \<and> ss_image s = ResolvedImage pg_ref"
proof -
  have hex: "length h' = 32 \<and> list_all is_lower_hex h'" if "Some h = Some h'" for h'
    using env rnd that by (auto simp: env_ok_def)
  obtain s where fp: "for_provisioning (Some h) (sp_name sp) (sp_provider sp) (sp_version sp) (ResolvedImage pg_ref) now = Inr s"
    using for_provisioning_total sp by (fastforce simp: spec_valid_def)
  have v: "state_valid s" "ss_name s = sp_name sp" "ss_provider s = sp_provider sp" "ss_version s = sp_version sp"
      "ss_phase s = Provisioning" "ss_generation s = 1" "ss_image s = ResolvedImage pg_ref"
    using for_provisioning_valid[OF fp _ _ _ hex] sp catalog_image_ok by (auto simp: spec_valid_def)
  have upd: "ss_updated s = now" "ss_checked s = None" "ss_instance s = InstanceId h"
    using fp by (auto simp: for_provisioning_def Let_def instance_id_generate_def split: if_splits)
  have st: "stored_state s" using v upd now catalog_image_ok(2) by (simp add: stored_state_def)
  have allowed: "insert_allowed t sp s" using v upd d none room fresh by (simp add: insert_allowed_def)
  obtain db' where i: "insert_service_and_state (se_codec env) sp s now (sc_db c) = (db', Inr ())"
      "represents (se_codec env) db' (add_control s (add_desired (new_row sp now) t))"
    using insert_ledger[OF env_codec[OF env] rep_of[OF k] now sp st] allowed by auto
  have "paired (add_control s (add_desired (new_row sp now) t))"
    using k none v by (intro paired_add(2)) (auto simp: keeps_ledger_def new_row_def)
  then have "keeps_ledger env (c\<lparr>sc_db := db', sc_world := w1\<rparr>) (add_control s (add_desired (new_row sp now) t))"
    using i(2) small_add[OF allowed] by (simp add: keeps_ledger_def)
  moreover have "register_service env now sp (ResolvedImage pg_ref) c = (c\<lparr>sc_db := db', sc_world := w1\<rparr>, Inr (s, False))"
    using none i(1) fp rnd by (simp add: register_service_def reads[OF env k])
  ultimately show ?thesis using v upd by blast
qed

text \<open>The outside answers a first add: as for a re-add, with a fresh instance id and a secret
  generation that may be created.\<close>

definition outside_ready :: "'w service_env \<Rightarrow> service_spec \<Rightarrow> 'w \<Rightarrow> bool" where
  "outside_ready env sp w \<longleftrightarrow>
     se_rootful env w \<and> se_validate env sp = Inr () \<and> se_storage env \<and>
     (\<exists>w1 h w2 d w3. se_random env w = (w1, Some h) \<and> se_create_dir env w1 (InstanceId h) = (w2, d) \<and>
        d \<in> {DirCreated, DirExists} \<and> se_bundle env w2 (InstanceId h) \<and>
        se_pointer env w2 (InstanceId h) = PointerMissing \<and> se_generate env w2 (InstanceId h) = (w3, True) \<and>
        se_bundle env w3 (InstanceId h) \<and>
        (\<forall>s. ss_instance s = InstanceId h \<longrightarrow> (\<exists>w4 cid. se_provision env w3 sp s = (w4, Inr cid))))"

lemma add_makes_ready:
  assumes env: "env_ok env" and sp: "spec_valid sp" "version_major (sp_version sp) = 18" and now: "time_ok now"
    and ready: "outside_ready env sp w"
  shows "\<exists>c s. service_add env now sp \<lparr>sc_db = empty_db, sc_world = w\<rparr> = (c, Inr ()) \<and>
     get_state (se_codec env) (sc_db c) (sp_name sp) = Inr (Some s) \<and> ss_phase s = Ready \<and>
     ss_generation s = 2 \<and> ss_image s = ResolvedImage pg_ref \<and> ss_provider s = sp_provider sp \<and>
     ss_version s = sp_version sp \<and> ss_health s = Some Healthy \<and>
     ss_hash s = Some (effective_hash (se_sha env) (se_print env) sp) \<and>
     (\<exists>row. get_service (se_codec env) (sc_db c) (sp_name sp) = Inr (Some row) \<and> row_to_spec row = Inr sp)"
proof -
  let ?start = "\<lparr>sc_db = empty_db, sc_world = w\<rparr>" and ?empty = "\<lparr>lg_services = [], lg_states = []\<rparr>"
  have k0: "keeps_ledger env ?start ?empty"
    using represents_empty by (auto simp: keeps_ledger_def paired_def desired_def control_def small_def)
  obtain w1 h w2 d w3 where o: "se_random env w = (w1, Some h)" "se_create_dir env w1 (InstanceId h) = (w2, d)"
      "d \<in> {DirCreated, DirExists}" "se_bundle env w2 (InstanceId h)" "se_pointer env w2 (InstanceId h) = PointerMissing"
      "se_generate env w2 (InstanceId h) = (w3, True)" "se_bundle env w3 (InstanceId h)"
      "\<forall>s. ss_instance s = InstanceId h \<longrightarrow> (\<exists>w4 cid. se_provision env w3 sp s = (w4, Inr cid))"
    and pre: "se_rootful env w" "se_validate env sp = Inr ()" "se_storage env"
    using ready by (auto simp: outside_ready_def)
  have none: "desired ?empty (sp_name sp) = None" "control ?empty (sp_name sp) = None" by (simp_all add: desired_def control_def)
  obtain s db' where r: "register_service env now sp (ResolvedImage pg_ref) ?start = (?start\<lparr>sc_db := db', sc_world := w1\<rparr>, Inr (s, False))"
      "keeps_ledger env (?start\<lparr>sc_db := db', sc_world := w1\<rparr>) (add_control s (add_desired (new_row sp now) ?empty))"
      "ss_name s = sp_name sp" "ss_provider s = sp_provider sp" "ss_version s = sp_version sp" "ss_instance s = InstanceId h"
      "ss_generation s = 1" "ss_phase s = Provisioning" "ss_image s = ResolvedImage pg_ref"
    using register_fresh[OF env k0 sp(1) now none, of w1 h] o(1) by (auto simp: max_services_def)
  let ?t = "add_control s (add_desired (new_row sp now) ?empty)" and ?c = "?start\<lparr>sc_db := db', sc_world := w3\<rparr>"
  have k: "keeps_ledger env ?c ?t" using r(2) by (simp add: keeps_ledger_def)
  have ct: "control ?t (sp_name sp) = Some s" using r(3) none by simp
  have prep: "prepare_secrets env s False w1 = (w3, Inr ())"
    using pre(3) o r(6) by (auto simp: prepare_secrets_def)
  have ctx: "build_context env (sc_world ?c) s = Inr ()"
    using pre(3) o r(6) by (simp add: build_context_def make_secret_capability_def provider_context_def)
  obtain w4 cid where p: "se_provision env (sc_world ?c) sp s = (w4, Inr cid)" using o(8) r(6) by fastforce
  obtain c' where c': "provision_service env now sp s ?c = (c', Inr ())"
      "keeps_ledger env c' (put_control (ready_state env now sp cid s) ?t)"
    using provision_succeeds[OF env k ct _ now ctx p] r(8) by auto
  have "service_add env now sp ?start = (c', Inr ())"
    using c'(1) pre prep r(1) none reads(2)[OF env k0, of "sp_name sp"]
    by (simp add: service_add_def Let_def catalog_image sp(2))
  moreover have "control (put_control (ready_state env now sp cid s) ?t) (sp_name sp) = Some (ready_state env now sp cid s)"
    using ct r(3) by (simp add: ready_state_def)
  moreover have "desired (put_control (ready_state env now sp cid s) ?t) (sp_name sp) = Some (new_row sp now)"
    using none by (simp add: new_row_def)
  moreover have "row_to_spec (new_row sp now) = Inr sp"
    by (cases sp) (simp add: row_to_spec_def new_row_def service_spec_new_def)
  ultimately show ?thesis
    by (intro exI[of _ c'] exI[of _ "ready_state env now sp cid s"])
       (simp add: reads[OF env c'(2)] ready_state_def state_updates r)
qed

text \<open>C19. The first service of an installation becomes Ready: when the outside answers, \<open>add\<close> returns Ok
  and the control row has the new instance, the catalog image, the specification hash and
  generation 2, in phase Ready.\<close>

theorem first_add_ready:
  assumes env: "env_ok env" and sp: "spec_valid sp" "version_major (sp_version sp) = 18" and now: "time_ok now"
    and ready: "outside_ready env sp w"
  shows "\<exists>c s. service_add env now sp \<lparr>sc_db = empty_db, sc_world = w\<rparr> = (c, Inr ()) \<and>
     get_state (se_codec env) (sc_db c) (sp_name sp) = Inr (Some s) \<and> ss_phase s = Ready \<and>
     ss_generation s = 2 \<and> ss_image s = ResolvedImage pg_ref \<and> ss_provider s = sp_provider sp \<and>
     ss_version s = sp_version sp \<and> ss_health s = Some Healthy \<and>
     ss_hash s = Some (effective_hash (se_sha env) (se_print env) sp) \<and>
     (\<exists>row. get_service (se_codec env) (sc_db c) (sp_name sp) = Inr (Some row) \<and> row_to_spec row = Inr sp)"
  using add_makes_ready[OF assms] .

section \<open>Secrets are generated once\<close>

lemma generator_kept:
  "se_codec (env\<lparr>se_generate := g\<rparr>) = se_codec env" "se_rootful (env\<lparr>se_generate := g\<rparr>) = se_rootful env"
  "se_validate (env\<lparr>se_generate := g\<rparr>) = se_validate env" "se_random (env\<lparr>se_generate := g\<rparr>) = se_random env"
  "se_storage (env\<lparr>se_generate := g\<rparr>) = se_storage env" "se_bundle (env\<lparr>se_generate := g\<rparr>) = se_bundle env"
  "se_provision (env\<lparr>se_generate := g\<rparr>) = se_provision env" "se_sha (env\<lparr>se_generate := g\<rparr>) = se_sha env"
  "se_print (env\<lparr>se_generate := g\<rparr>) = se_print env" "se_create_dir (env\<lparr>se_generate := g\<rparr>) = se_create_dir env"
  "se_pointer (env\<lparr>se_generate := g\<rparr>) = se_pointer env"
  by simp_all

text \<open>C21. An instance that has a control row never gets new secrets: whatever the storage says, adding the
  service again behaves the same with any secret generator, so a password that belongs to existing
  data is never replaced.  The other side of it: when the generation fails in the first add, the row
  is already there, and no later add generates the secrets.\<close>

theorem existing_rows_keep_secrets:
  assumes "get_state (se_codec env) (sc_db c) (sp_name sp) = Inr (Some s)"
  shows "service_add (env\<lparr>se_generate := g\<rparr>) now sp c = service_add env now sp c"
proof -
  let ?e = "env\<lparr>se_generate := g\<rparr>"
  have reg: "register_service ?e now sp img c = register_service env now sp img c" for img
    unfolding register_service_def generator_kept ..
  have flag: "b" if "register_service env now sp img c = (c1, Inr (s', b))" for img c1 s' b
    using that assms by (auto simp: register_service_def Let_def result_simps split: if_splits prod.splits sum.splits)
  have prep: "prepare_secrets ?e x True w = prepare_secrets env x True w" for x w
    unfolding prepare_secrets_def Let_def generator_kept if_True ..
  have prov: "provision_service ?e now sp x y = provision_service env now sp x y" for x y
    unfolding provision_service_def build_context_def make_secret_capability_def generator_kept ..
  show ?thesis
    unfolding service_add_def Let_def reg prov generator_kept
    by (auto simp: prep split: sum.split option.split prod.split dest!: flag)
qed


section \<open>Adding and ensuring what is there\<close>

text \<open>Adding a service whose desired row already has the same specification answers Ok without calling
  the provider and without touching any control row: a retry after an add that failed once its rows
  were written reports success while the service stays as the failure left it.\<close>

theorem repeated_add_answers_ok:
  assumes env: "env_ok env" and reach: "(ctl_step env)\<^sup>*\<^sup>* \<lparr>sc_db = empty_db, sc_world = w\<rparr> c"
    and row: "get_service (se_codec env) (sc_db c) (sp_name sp) = Inr (Some row)" "row_to_spec row = Inr sp"
    and outside: "se_rootful env (sc_world c)" "se_validate env sp = Inr ()" and now: "time_ok now"
  shows "\<exists>c2. service_add env now sp c = (c2, Inr ()) \<and> sc_world c2 = sc_world c \<and>
     (\<forall>n. get_state (se_codec env) (sc_db c2) n = get_state (se_codec env) (sc_db c) n)"
proof -
  obtain t where k: "keeps_ledger env c t" using ctl_run_keeps[OF env reach] by blast
  have d: "desired t (sp_name sp) = Some row" using row reads[OF env k] by simp
  have p: "paired (put_desired (touched_row now row) t)"
    using k d desired_stored[OF represents_ok[OF rep_of[OF k]] d]
    by (intro paired_touch) (simp_all add: keeps_ledger_def touched_row_def)
  obtain db' where db': "touch_service (se_codec env) (sp_name sp) now (sc_db c) = (db', Inr ())"
      "represents (se_codec env) db' (put_desired (touched_row now row) t)"
    using touch_ledger[OF env_codec[OF env] rep_of[OF k] now, of "sp_name sp"] d by auto
  then have "keeps_ledger env (c\<lparr>sc_db := db'\<rparr>) (put_desired (touched_row now row) t)"
    using k p by (simp add: keeps_ledger_def)
  note r2 = reads(1)[OF env this]
  have "service_add env now sp c = (c\<lparr>sc_db := db'\<rparr>, Inr ())"
    using outside row db' by (simp add: service_add_def)
  then show ?thesis using r2 reads(1)[OF env k] by (intro exI[of _ "c\<lparr>sc_db := db'\<rparr>"]) simp
qed

lemma active_ensure:
  assumes env: "env_ok env" and reach: "(ctl_step env)\<^sup>*\<^sup>* \<lparr>sc_db = empty_db, sc_world = w0\<rparr> c"
    and row: "get_service (se_codec env) (sc_db c) n = Inr (Some row)"
    and s: "get_state (se_codec env) (sc_db c) n = Inr (Some s)" "ss_phase s \<noteq> PhBlocked"
    and val: "se_validate env (projr (row_to_spec row)) = Inr ()" and now: "time_ok now"
    and pa: "provider_answer env (sc_world c) row s = (w, Some x)"
    and r: "ensure_one env now n c = (c', res)"
  shows "\<exists>t. keeps_ledger env c' t \<and> desired t n = Some row \<and>
     control t n = Some (case x of Inl e \<Rightarrow> failed_state now e s | Inr eo \<Rightarrow> ensured_state now eo s) \<and>
     res = (case x of Inl e \<Rightarrow> Inl e | Inr _ \<Rightarrow> Inr ())"
proof -
  obtain t where k: "keeps_ledger env c t" using ctl_run_keeps[OF env reach] by blast
  have d: "desired t n = Some row" and ct: "control t n = Some s" using row s reads[OF env k] by simp_all
  have n: "ss_name s = n" using name_of_control[OF k ct] by simp
  let ?s = "case x of Inl e \<Rightarrow> failed_state now e s | Inr eo \<Rightarrow> ensured_state now eo s"
  have "keeps_ledger env c' (put_control ?s t)" "res = (case x of Inl e \<Rightarrow> Inl e | Inr _ \<Rightarrow> Inr ())"
    using ensure_one_ledger[OF env k now r] d ct s(2) val pa by (auto split: sum.splits)
  moreover have "ss_name ?s = n" using n by (auto simp: failed_state_def ensured_state_def split: sum.split)
  ultimately show ?thesis using d ct by (intro exI[of _ "put_control ?s t"]) auto
qed

text \<open>C20. Convergence of one service: a provider that answers makes the row Ready (Blocked when it says so)
  in the next generation; an error of the permanent class makes it Blocked, and every later
  convergence, whatever the outside then answers, leaves it so; any other error leaves phase,
  generation, container and hash and marks the row unhealthy.\<close>

theorem ensure_converges_or_blocks:
  assumes "env_ok env" "(ctl_step env)\<^sup>*\<^sup>* \<lparr>sc_db = empty_db, sc_world = w0\<rparr> c"
    and "get_service (se_codec env) (sc_db c) n = Inr (Some row)"
    and "get_state (se_codec env) (sc_db c) n = Inr (Some s)" "ss_phase s \<noteq> PhBlocked"
    and "se_validate env (projr (row_to_spec row)) = Inr ()" and "time_ok now"
    and "provider_answer env (sc_world c) row s = (w, Some x)"
    and "ensure_one env now n c = (c', res)"
  shows "\<exists>s'. get_state (se_codec env) (sc_db c') n = Inr (Some s') \<and> same_instance s s' \<and>
     (case x of
        Inr eo \<Rightarrow> res = Inr () \<and> ss_generation s' = ss_generation s + 1 \<and> ss_container s' = Some (eo_container eo) \<and>
                  ss_phase s' = (if eo_action eo = EaBlocked then PhBlocked else Ready)
      | Inl e \<Rightarrow> res = Inl e \<and> ss_health s' = Some Unhealthy \<and>
          (if is_permanent e
           then ss_phase s' = PhBlocked \<and>
                (\<forall>env' now' w'. se_codec env' = se_codec env \<longrightarrow>
                   ensure_one env' now' n (c'\<lparr>sc_world := w'\<rparr>) = (c'\<lparr>sc_world := w'\<rparr>, Inr ()))
           else ss_phase s' = ss_phase s \<and> ss_generation s' = ss_generation s \<and>
                ss_container s' = ss_container s \<and> ss_hash s' = ss_hash s))"
proof -
  obtain t where t: "keeps_ledger env c' t" "desired t n = Some row"
      "control t n = Some (case x of Inl e \<Rightarrow> failed_state now e s | Inr eo \<Rightarrow> ensured_state now eo s)"
      "res = (case x of Inl e \<Rightarrow> Inl e | Inr _ \<Rightarrow> Inr ())"
    using active_ensure[OF assms] by blast
  have skip: "ensure_one env' now' n (c'\<lparr>sc_world := w'\<rparr>) = (c'\<lparr>sc_world := w'\<rparr>, Inr ())"
    if "se_codec env' = se_codec env" "x = Inl e" "is_permanent e" for env' :: "'a service_env" and now' w' e
    using reads(3)[OF assms(1) t(1), of n] t(2,3) that
    by (simp add: ensure_one_def Let_def failed_state_def cas_state_def)
  show ?thesis
  proof (cases x)
    case (Inl e)
    then show ?thesis
      using t reads(1)[OF assms(1) t(1), of n] skip
      by (auto simp: failed_state_def cas_state_def health_state_def same_instance_def)
  next
    case (Inr eo)
    have "phase_after (eo_action eo) = (if eo_action eo = EaBlocked then PhBlocked else Ready)"
      by (cases "eo_action eo") simp_all
    then show ?thesis
      using t reads(1)[OF assms(1) t(1), of n] Inr
      by (simp add: ensured_state_def cas_state_def same_instance_def)
  qed
qed

text \<open>Every successful convergence, the one that finds nothing to do included, outdates the generation
  a caller has read and erases the recorded specification hash: a removal with the generation read
  before it is refused, and a later re-add no longer compares specifications.\<close>

theorem ensure_outdates_generation:
  assumes "env_ok env" "(ctl_step env)\<^sup>*\<^sup>* \<lparr>sc_db = empty_db, sc_world = w0\<rparr> c"
    and "get_service (se_codec env) (sc_db c) n = Inr (Some row)"
    and "get_state (se_codec env) (sc_db c) n = Inr (Some s)" "ss_phase s \<noteq> PhBlocked"
    and "se_validate env (projr (row_to_spec row)) = Inr ()" and "time_ok now"
    and "provider_answer env (sc_world c) row s = (w, Some (Inr eo))"
    and "ensure_one env now n c = (c', res)"
  shows "res = Inr () \<and>
     service_remove env now' users n (ss_generation s) force c' =
       (c', Inl (SvConflict (StaleGeneration (ss_generation s) (ss_generation s + 1)))) \<and>
     (\<exists>s'. get_state (se_codec env) (sc_db c') n = Inr (Some s') \<and> ss_hash s' = None)"
proof -
  obtain t where t: "keeps_ledger env c' t" "desired t n = Some row" "control t n = Some (ensured_state now eo s)" "res = Inr ()"
    using active_ensure[OF assms] by auto
  then show ?thesis
    using reads(1)[OF assms(1) t(1), of n] reads(3)[OF assms(1) t(1), of n]
    by (simp add: service_remove_def Let_def ensured_state_def cas_state_def require_def)
qed

end
