(* ===== verification/ServiceLifeSamples.thy ===== *)
theory ServiceLifeSamples
  imports ServiceLife
begin

text \<open>
  An outside that satisfies the documented laws, and the applications of the controller's theorems:
  a first add, a repeated add, a convergence, a removal and a re-add.
\<close>

text \<open>The world says whether the secret generation exists.\<close>

definition sample_env :: "bool service_env" where
  "sample_env =
     \<lparr>se_codec = sample_repo_codec, se_rootful = (\<lambda>_. True), se_storage = True,
      se_create_dir = (\<lambda>w _. (w, if w then DirExists else DirCreated)), se_bundle = (\<lambda>_ _. True),
      se_pointer = (\<lambda>w _. if w then PointerActive else PointerMissing), se_generate = (\<lambda>_ _. (True, True)),
      se_random = (\<lambda>w. (w, Some (concat (replicate 8 ''0af9'')))), se_password = (\<lambda>w. (w, Some ''pw'')),
      se_validate = (\<lambda>_. Inr ()), se_provision = (\<lambda>w _ _. (w, Inr sample_container)),
      se_ensure = (\<lambda>w _ _. (w, Some (Inr \<lparr>eo_container = sample_container, eo_action = EaNoop, eo_health = Some Healthy\<rparr>))),
      se_remove = (\<lambda>w _. (w, Inr ())), se_create_resource = (\<lambda>w _ _ _. (w, Some (Inr ()))),
      se_resource_env = (\<lambda>_ _. Inr []), se_sha = (\<lambda>_. concat (replicate 16 ''1be8'')), se_print = (\<lambda>_. ''{}''),
      se_installation = ''i'', se_resource_hash = (\<lambda>x. x), se_hex = (\<lambda>x. x)\<rparr>"

lemma sample_hex: "length (concat (replicate 8 ''0af9'')) = 32 \<and> list_all is_lower_hex (concat (replicate 8 ''0af9''))"
  by code_simp

lemma sample_env_ok: "env_ok sample_env"
  unfolding env_ok_def
  using sample_repo_codec_ok sample_hex sample_args_valid by (auto simp: sample_env_def sample_hash_def)

definition sample_start :: "bool service_ctl" where
  "sample_start = \<lparr>sc_db = empty_db, sc_world = False\<rparr>"

definition sample_added :: "bool service_ctl" where
  "sample_added = fst (service_add sample_env 7 sample_spec sample_start)"

lemma sample_version: "version_major (sp_version sample_spec) = 18"
  by code_simp

lemma sample_outside: "outside_ready sample_env sample_spec False"
  by (auto simp: outside_ready_def sample_env_def)

theorem first_add_ready_witness:
  "\<exists>c s. service_add sample_env 7 sample_spec \<lparr>sc_db = empty_db, sc_world = False\<rparr> = (c, Inr ()) \<and>
     get_state (se_codec sample_env) (sc_db c) (sp_name sample_spec) = Inr (Some s) \<and> ss_phase s = Ready"
  using first_add_ready[OF sample_env_ok sample_spec_valid sample_version sample_args_valid(3) sample_outside] by blast


text \<open>The state after the first add, and the row and control state it leaves.\<close>

lemma sample_added_ok:
  "\<exists>s row. service_add sample_env 7 sample_spec sample_start = (sample_added, Inr ()) \<and>
     get_state (se_codec sample_env) (sc_db sample_added) (sp_name sample_spec) = Inr (Some s) \<and>
     ss_phase s = Ready \<and> ss_image s = ResolvedImage pg_ref \<and> ss_provider s = sp_provider sample_spec \<and>
     ss_version s = sp_version sample_spec \<and>
     ss_hash s = Some (effective_hash (se_sha sample_env) (se_print sample_env) sample_spec) \<and>
     get_service (se_codec sample_env) (sc_db sample_added) (sp_name sample_spec) = Inr (Some row) \<and>
     row_to_spec row = Inr sample_spec"
  using add_makes_ready[OF sample_env_ok sample_spec_valid sample_version sample_args_valid(3) sample_outside]
  by (auto simp: sample_added_def sample_start_def)


definition sample_ctl :: "bool service_ctl" where
  "sample_ctl = sample_added\<lparr>sc_world := True\<rparr>"

lemma sample_reach: "(ctl_step sample_env)\<^sup>*\<^sup>* \<lparr>sc_db = empty_db, sc_world = False\<rparr> sample_ctl"
proof -
  have "ctl_step sample_env sample_start sample_added"
    using sample_added_ok by (blast intro: ctl_step.add[OF sample_spec_valid sample_args_valid(3)])
  moreover have "ctl_step sample_env sample_added sample_ctl"
    unfolding sample_ctl_def by (rule ctl_step.world)
  ultimately show ?thesis unfolding sample_start_def by (meson converse_rtranclp_into_rtranclp rtranclp.rtrancl_refl)
qed

lemma sample_outside_always: "se_rootful sample_env w" "se_validate sample_env sp = Inr ()"
  "build_context sample_env w s = Inr ()" "se_remove sample_env w s = (w, Inr ())"
  by (simp_all add: sample_env_def build_context_def make_secret_capability_def provider_context_def)

theorem controller_rows_paired_witness: "readable sample_repo_codec (sc_db sample_ctl)"
  using controller_rows_paired[OF sample_env_ok sample_reach] by (simp add: sample_env_def)

theorem existing_rows_keep_secrets_witness:
  "service_add (sample_env\<lparr>se_generate := \<lambda>_ _. (False, False)\<rparr>) 9 sample_spec sample_added =
     service_add sample_env 9 sample_spec sample_added"
  using sample_added_ok existing_rows_keep_secrets[where env = sample_env and c = sample_added and sp = sample_spec
      and now = 9 and g = "\<lambda>_ _. (False, False)"] by blast

theorem repeated_add_answers_ok_witness:
  "\<exists>c2. service_add sample_env 9 sample_spec sample_ctl = (c2, Inr ()) \<and> sc_world c2 = True"
proof -
  obtain row where "get_service (se_codec sample_env) (sc_db sample_ctl) (sp_name sample_spec) = Inr (Some row)"
      "row_to_spec row = Inr sample_spec"
    using sample_added_ok by (auto simp: sample_ctl_def)
  then show ?thesis
    using repeated_add_answers_ok[OF sample_env_ok sample_reach _ _ sample_outside_always(1,2) sample_args_valid(4)]
    by (fastforce simp: sample_ctl_def)
qed

lemma sample_ctl_rows:
  "\<exists>s row. get_state (se_codec sample_env) (sc_db sample_ctl) (ServiceName ''main-db'') = Inr (Some s) \<and>
     ss_phase s = Ready \<and> ss_image s = ResolvedImage pg_ref \<and> ss_provider s = sp_provider sample_spec \<and>
     ss_version s = sp_version sample_spec \<and>
     ss_hash s = Some (effective_hash (se_sha sample_env) (se_print sample_env) sample_spec) \<and>
     get_service (se_codec sample_env) (sc_db sample_ctl) (ServiceName ''main-db'') = Inr (Some row) \<and>
     row_to_spec row = Inr sample_spec"
proof -
  have "sp_name sample_spec = ServiceName ''main-db''" by (simp add: sample_spec_def)
  then show ?thesis using sample_added_ok by (auto simp: sample_ctl_def)
qed

definition sample_outcome :: ensure_outcome where
  "sample_outcome = \<lparr>eo_container = sample_container, eo_action = EaNoop, eo_health = Some Healthy\<rparr>"

lemma sample_answer: "provider_answer sample_env w row s = (w, Some (Inr sample_outcome))"
  by (simp add: provider_answer_def sample_outside_always) (simp add: sample_env_def sample_outcome_def)

theorem ensure_converges_or_blocks_witness:
  "\<exists>c' s'. ensure_one sample_env 9 (ServiceName ''main-db'') sample_ctl = (c', Inr ()) \<and>
     get_state (se_codec sample_env) (sc_db c') (ServiceName ''main-db'') = Inr (Some s') \<and> ss_phase s' = Ready"
proof -
  obtain s row where r: "get_service (se_codec sample_env) (sc_db sample_ctl) (ServiceName ''main-db'') = Inr (Some row)"
      "get_state (se_codec sample_env) (sc_db sample_ctl) (ServiceName ''main-db'') = Inr (Some s)" "ss_phase s \<noteq> PhBlocked"
    using sample_ctl_rows by fastforce
  obtain c' res where e: "ensure_one sample_env 9 (ServiceName ''main-db'') sample_ctl = (c', res)" by fastforce
  show ?thesis
    using ensure_converges_or_blocks[OF sample_env_ok sample_reach r sample_outside_always(2) sample_args_valid(4)
        sample_answer e] e by (auto simp: sample_outcome_def)
qed

theorem ensure_outdates_generation_witness:
  "\<exists>c' (s::service_state). ensure_one sample_env 9 (ServiceName ''main-db'') sample_ctl = (c', Inr ()) \<and>
     service_remove sample_env 9 [] (ServiceName ''main-db'') (ss_generation s) False c' =
       (c', Inl (SvConflict (StaleGeneration (ss_generation s) (ss_generation s + 1))))"
proof -
  obtain s row where r: "get_service (se_codec sample_env) (sc_db sample_ctl) (ServiceName ''main-db'') = Inr (Some row)"
      "get_state (se_codec sample_env) (sc_db sample_ctl) (ServiceName ''main-db'') = Inr (Some s)" "ss_phase s \<noteq> PhBlocked"
    using sample_ctl_rows by fastforce
  obtain c' res where e: "ensure_one sample_env 9 (ServiceName ''main-db'') sample_ctl = (c', res)" by fastforce
  show ?thesis
    using ensure_outdates_generation[OF sample_env_ok sample_reach r sample_outside_always(2) sample_args_valid(4)
        sample_answer e, where now' = 9 and users = "[]" and force = False] e
    by (intro exI[of _ c'] exI[of _ s]) simp
qed

theorem readd_restores_instance_witness:
  "\<exists>c1 c2 s s2. get_state (se_codec sample_env) (sc_db sample_ctl) (ServiceName ''main-db'') = Inr (Some s) \<and>
     service_add sample_env 9 sample_spec c1 = (c2, Inr ()) \<and>
     get_state (se_codec sample_env) (sc_db c2) (ServiceName ''main-db'') = Inr (Some s2) \<and> same_instance s s2"
proof -
  let ?n = "ServiceName ''main-db''"
  obtain s row where s: "get_state (se_codec sample_env) (sc_db sample_ctl) ?n = Inr (Some s)" "ss_phase s = Ready"
      "ss_image s = ResolvedImage pg_ref" "ss_provider s = sp_provider sample_spec" "ss_version s = sp_version sample_spec"
      "ss_hash s = Some (effective_hash (se_sha sample_env) (se_print sample_env) sample_spec)"
    and row: "get_service (se_codec sample_env) (sc_db sample_ctl) ?n = Inr (Some row)"
    using sample_ctl_rows by blast
  obtain t where k: "keeps_ledger sample_env sample_ctl t" using ctl_run_keeps[OF sample_env_ok sample_reach] by blast
  have rd: "desired t ?n = Some row" "control t ?n = Some s" using row s(1) reads[OF sample_env_ok k] by simp_all
  obtain db' where rm: "service_remove sample_env 9 [] ?n (ss_generation s) False sample_ctl =
      (sample_ctl\<lparr>sc_world := True, sc_db := db'\<rparr>, Inr (removal_done ?n []))"
    using remove_succeeds[OF sample_env_ok k sample_args_valid(4) rd _ _ sample_outside_always(1,3,2,4), of "[]" False] s(2)
    by (auto simp: sample_ctl_def)
  have ready: "provider_ready sample_env sample_spec (ss_instance s) (sc_world (sample_ctl\<lparr>sc_world := True, sc_db := db'\<rparr>))"
    by (simp add: provider_ready_def sample_env_def)
  have "sp_name sample_spec = ?n" by (simp add: sample_spec_def)
  then show ?thesis
    using readd_restores_instance[OF sample_env_ok sample_reach s(1,3) rm sample_spec_valid _ s(4)[symmetric] s(5)[symmetric]
        sample_version _ sample_args_valid(4,4) ready] s(1,6) by blast
qed

end
