(* ===== verification/Preview.thy ===== *)
theory Preview
  imports Complex_Main DeployRun Docker
begin

text \<open>
  Preview deployments (\<open>preview.rs\<close> and the preview part of \<open>state.rs\<close>): domain, lifetime, limits and
  volumes of a preview, its deploy from pull to route, teardown and the reaper.  The concurrent map
  of previews is an association list in its iteration order; time arithmetic of the \<open>chrono\<close> crate
  is a parameter where it may panic; logged and ignored file errors are not modelled.
\<close>

section \<open>Domain, lifetime and limit\<close>

datatype ttl_error = TtlInteger string char | TtlOverflow string | TtlSuffix string | TtlRange

datatype preview_failure =
    PfPull
  | PfMismatch string string | PfDisabled | PfNoSection | PfMerge config_error | PfParse
  | PfNoConfig | PfUnsupported | PfExtract
  | PfDomain | PfTtl ttl_error
  | PfManifestMissing | PfManifestNotFound string | PfManifestExtract | PfManifestRender manifest_error
  | PfManifestDir | PfManifestWrite | PfPodDeploy | PfPodPort
  | PfStart | PfWorkerExited | PfWorkerState | PfHealth string
  | PfMigrate runtime_error | PfSeed runtime_error
  | PfRoute caddy_error

definition resolve_preview_domain ::
  "string \<Rightarrow> server_preview_config option \<Rightarrow> app_preview_config option \<Rightarrow> preview_failure + string" where
  "resolve_preview_domain preview_id server app =
     (case Option.bind app ap_domain of
        Some domain \<Rightarrow> Inr (preview_id @ ''.'' @ domain)
      | None \<Rightarrow> (case server of
          Some s \<Rightarrow> Inr (preview_id @ ''.'' @ sp_domain s)
        | None \<Rightarrow> Inl PfDomain))"

text \<open>\<open>TimeDelta\<close> holds at most \<open>i64::MAX\<close> milliseconds; durations are in nanoseconds.\<close>

definition chrono_secs :: "int \<Rightarrow> int option" where
  "chrono_secs n = (if \<bar>n\<bar> \<le> 9223372036854775 then Some (n * 1000000000) else None)"

definition chrono_from_std :: "duration \<Rightarrow> int option" where
  "chrono_from_std d = (if d \<le> 9223372036854775807 * 1000000 then Some (int d) else None)"

definition ttl_unit :: "string \<Rightarrow> char \<Rightarrow> int \<Rightarrow> string \<Rightarrow> ttl_error + int" where
  "ttl_unit s unit_char scale rest =
     (case parse_i64 (trim rest) of
        None \<Rightarrow> Inl (TtlInteger s unit_char)
      | Some n \<Rightarrow> ok_or (chrono_secs (n * scale)) (TtlOverflow s))"

definition parse_ttl :: "string \<Rightarrow> ttl_error + int" where
  "parse_ttl s0 =
     (let s = trim s0 in
      case strip_suffix ''d'' s of Some rest \<Rightarrow> ttl_unit s (CHR ''d'') 86400 rest | None \<Rightarrow>
     (case strip_suffix ''h'' s of Some rest \<Rightarrow> ttl_unit s (CHR ''h'') 3600 rest | None \<Rightarrow>
     (case strip_suffix ''m'' s of Some rest \<Rightarrow> ttl_unit s (CHR ''m'') 60 rest | None \<Rightarrow>
     (case strip_suffix ''s'' s of Some rest \<Rightarrow> ttl_unit s (CHR ''s'') 1 rest | None \<Rightarrow>
        Inl (TtlSuffix s)))))"

text \<open>The addition to the deploy time panics outside the range of \<open>DateTime\<close>: \<open>Inr None\<close>; no lifetime
  is \<open>Inr (Some None)\<close>.\<close>

definition compute_expires_at ::
  "(int \<Rightarrow> int \<Rightarrow> int option) \<Rightarrow> int \<Rightarrow> duration option \<Rightarrow> string option \<Rightarrow> ttl_error + int option option" where
  "compute_expires_at add deployed_at repo_ttl server_ttl =
     (case repo_ttl of
        Some d \<Rightarrow> and_then (ok_or (chrono_from_std d) TtlRange) (\<lambda>x. Inr (map_option Some (add deployed_at x)))
      | None \<Rightarrow> (case server_ttl of
          Some t \<Rightarrow> and_then (parse_ttl t) (\<lambda>x. Inr (map_option Some (add deployed_at x)))
        | None \<Rightarrow> Inr (Some None)))"

definition resolve_max_limit ::
  "nat option \<Rightarrow> app_preview_config option \<Rightarrow> server_preview_config option \<Rightarrow> nat option" where
  "resolve_max_limit repo_max app server =
     (case repo_max of
        Some m \<Rightarrow> Some m
      | None \<Rightarrow> (case Option.bind app ap_max of
          Some m \<Rightarrow> Some m
        | None \<Rightarrow> Option.bind server sp_max_per_app))"

section \<open>Resources and volumes\<close>

text \<open>The comparison of \<open>f64\<close> values.\<close>

datatype f64 = F64NaN | F64Inf bool | F64Fin rat

fun f64_le :: "f64 \<Rightarrow> f64 \<Rightarrow> bool" where
  "f64_le F64NaN y = False"
| "f64_le x F64NaN = False"
| "f64_le (F64Inf pos) y = (\<not> pos \<or> y = F64Inf True)"
| "f64_le x (F64Inf pos) = pos"
| "f64_le (F64Fin a) (F64Fin b) = (a \<le> b)"

definition cap_memory :: "string option \<Rightarrow> string \<Rightarrow> string" where
  "cap_memory requested cap =
     (case parse_memory_limit (Some cap) of
        None \<Rightarrow> cap
      | Some cap_bytes \<Rightarrow> (case parse_memory_limit requested of
          None \<Rightarrow> cap
        | Some req_bytes \<Rightarrow>
            if req_bytes \<le> cap_bytes then (case requested of Some r \<Rightarrow> r | None \<Rightarrow> cap) else cap))"

definition cap_cpus :: "(string \<Rightarrow> f64 option) \<Rightarrow> string option \<Rightarrow> string \<Rightarrow> string" where
  "cap_cpus f64 requested cap =
     (case f64 (trim cap) of
        None \<Rightarrow> cap
      | Some cap_val \<Rightarrow> (case Option.bind requested (\<lambda>s. f64 (trim s)) of
          None \<Rightarrow> cap
        | Some req_val \<Rightarrow>
            if f64_le req_val cap_val then (case requested of Some r \<Rightarrow> r | None \<Rightarrow> cap) else cap))"

definition effective_preview_resources ::
  "(string \<Rightarrow> f64 option) \<Rightarrow> resource_config option \<Rightarrow> server_preview_config option \<Rightarrow> resource_config \<Rightarrow> resource_config" where
  "effective_preview_resources f64 repo server base =
     (let r1 = (case repo of
                  None \<Rightarrow> base
                | Some r \<Rightarrow> base\<lparr>rs_memory := (case rs_memory r of Some m \<Rightarrow> Some m | None \<Rightarrow> rs_memory base),
                                 rs_cpus := (case rs_cpus r of Some c \<Rightarrow> Some c | None \<Rightarrow> rs_cpus base)\<rparr>)
      in case server of
           None \<Rightarrow> r1
         | Some s \<Rightarrow>
             r1\<lparr>rs_memory := (case sp_max_memory s of Some m \<Rightarrow> Some (cap_memory (rs_memory r1) m) | None \<Rightarrow> rs_memory r1),
                rs_cpus := (case sp_max_cpus s of Some m \<Rightarrow> Some (cap_cpus f64 (rs_cpus r1) m) | None \<Rightarrow> rs_cpus r1)\<rparr>)"

definition preview_host_path :: "string \<Rightarrow> string \<Rightarrow> string" where
  "preview_host_path host preview_id = drop_trailing (CHR ''/'') host @ ''/previews/'' @ preview_id @ ''/''"

definition derive_preview_volumes :: "merged_volume list \<Rightarrow> string \<Rightarrow> merged_volume list" where
  "derive_preview_volumes vols preview_id =
     map (\<lambda>v. v\<lparr>mv_host_path := preview_host_path (mv_host_path v) preview_id\<rparr>) vols"

section \<open>Persistence\<close>

text \<open>The files below \<open>previews/\<close> by directory and file name.\<close>

type_synonym 'f preview_dir = "((string \<times> string) \<times> 'f option) list"

definition preview_key :: "string \<Rightarrow> string \<Rightarrow> string" where
  "preview_key app preview_id = app @ '':'' @ preview_id"

definition save_preview_state ::
  "(persisted_preview_state \<Rightarrow> 'f) \<Rightarrow> string \<Rightarrow> string \<Rightarrow> preview_state \<Rightarrow> 'f preview_dir \<Rightarrow> 'f preview_dir" where
  "save_preview_state enc app preview_id s dir =
     AList.update (app, json_file preview_id) (Some (enc (persist_preview s))) dir"

definition delete_preview_state :: "string \<Rightarrow> string \<Rightarrow> 'f preview_dir \<Rightarrow> 'f preview_dir" where
  "delete_preview_state app preview_id dir = AList.delete (app, json_file preview_id) dir"

definition load_preview_entry ::
  "('f \<Rightarrow> persisted_preview_state option) \<Rightarrow> (string \<times> string) \<times> 'f option \<Rightarrow> (string \<times> preview_state) option" where
  "load_preview_entry dec e =
     (if file_ext (snd (fst e)) \<noteq> Some ''json'' then None
      else (case snd e of
              None \<Rightarrow> None
            | Some content \<Rightarrow> (case dec content of
                None \<Rightarrow> None
              | Some p \<Rightarrow> Some (preview_key (fst (fst e)) (file_stem (snd (fst e))), restore_preview p))))"

definition load_preview_states ::
  "('f \<Rightarrow> persisted_preview_state option) \<Rightarrow> 'f preview_dir \<Rightarrow> (string \<times> preview_state) list" where
  "load_preview_states dec dir =
     foldl (\<lambda>m (k, s). AList.update k s m) [] (List.map_filter (load_preview_entry dec) dir)"

end
