(* ===== verification/PreviewRun.thy ===== *)
theory PreviewRun
  imports Preview
begin

text \<open>
  The deploy of a preview (\<open>execute_preview_deploy\<close> of \<open>preview.rs\<close>), its teardown and the reaper, as
  functions on the world of the previews.  Every early return is the world at that point; a panic of
  the task is an outcome of its own.
\<close>

section \<open>Environment and world\<close>

record preview_ctx =
  pq_deploy_id :: string
  pq_app :: string
  pq_image :: string
  pq_tag :: string
  pq_preview_id :: string
  pq_sha :: string
  pq_images :: "(string \<times> string) list"

record ('r, 'p) preview_env =
  pe_runtime :: "'r runtime_ops"
  pe_exec :: "string \<Rightarrow> string list \<Rightarrow> 'r \<Rightarrow> 'r \<times> (runtime_error + string)"
  pe_set_routes :: "string \<Rightarrow> route list \<Rightarrow> 'p \<Rightarrow> 'p \<times> (caddy_error + unit)"
  pe_remove_routes :: "string \<Rightarrow> nat \<Rightarrow> 'p \<Rightarrow> 'p \<times> (caddy_error + unit)"
  pe_probes :: "'r \<Rightarrow> nat \<Rightarrow> nat \<Rightarrow> probe_result"
  pe_parse_repo :: "string \<Rightarrow> repo_config option"
  pe_parse_yaml :: "string \<Rightarrow> yaml option"
  pe_emit_yaml :: "yaml \<Rightarrow> string option"
  pe_f64 :: "string \<Rightarrow> f64 option"
  pe_add_time :: "int \<Rightarrow> int \<Rightarrow> int option"
  pe_registries :: "resolved_registry list"
  pe_env_file :: "string \<Rightarrow> string option"
  pe_config :: slip_config
  pe_app :: app_config
  pe_secrets :: "secrets_store option"
  pe_mkdir_ok :: bool
  pe_write_ok :: bool
  pe_pod_suffix :: string
  pe_storage :: string
  pe_now :: int

record ('r, 'p) preview_world =
  pw_previews :: "(string \<times> preview_state) list"
  pw_dir :: "persisted_preview_state preview_dir"
  pw_manifests :: "(string \<times> string) list"
  pw_rt :: 'r
  pw_px :: 'p

definition prt_call :: "('r \<Rightarrow> 'r \<times> 'a) \<Rightarrow> ('r, 'p) preview_world \<Rightarrow> 'a \<times> ('r, 'p) preview_world" where
  "prt_call f w = (let (r, x) = f (pw_rt w) in (x, w\<lparr>pw_rt := r\<rparr>))"

definition ppx_call :: "('p \<Rightarrow> 'p \<times> 'a) \<Rightarrow> ('r, 'p) preview_world \<Rightarrow> 'a \<times> ('r, 'p) preview_world" where
  "ppx_call f w = (let (p, x) = f (pw_px w) in (x, w\<lparr>pw_px := p\<rparr>))"

definition modify_preview ::
  "string \<Rightarrow> (preview_state \<Rightarrow> preview_state) \<Rightarrow> ('r, 'p) preview_world \<Rightarrow> ('r, 'p) preview_world" where
  "modify_preview key f w =
     (case map_of (pw_previews w) key of
        Some s \<Rightarrow> w\<lparr>pw_previews := AList.update key (f s) (pw_previews w)\<rparr>
      | None \<Rightarrow> w)"

definition update_preview_status :: "string \<Rightarrow> app_status \<Rightarrow> ('r, 'p) preview_world \<Rightarrow> ('r, 'p) preview_world" where
  "update_preview_status key st = modify_preview key (\<lambda>s. s\<lparr>pv_status := st\<rparr>)"

fun status_of_deploy :: "deploy_status \<Rightarrow> app_status" where
  "status_of_deploy DsCompleted = StRunning"
| "status_of_deploy DsFailed = StFailed"
| "status_of_deploy _ = StDeploying"

definition update_preview_deploy_status ::
  "string \<Rightarrow> deploy_status \<Rightarrow> ('r, 'p) preview_world \<Rightarrow> ('r, 'p) preview_world" where
  "update_preview_deploy_status key ds = update_preview_status key (status_of_deploy ds)"

definition fail_preview :: "string \<Rightarrow> ('r, 'p) preview_world \<Rightarrow> ('r, 'p) preview_world" where
  "fail_preview key = modify_preview key (\<lambda>s. s\<lparr>pv_status := StFailed\<rparr>)"

definition preview_app_name :: "string \<Rightarrow> string \<Rightarrow> string" where
  "preview_app_name app preview_id = app @ ''-preview-'' @ preview_id"

section \<open>Teardown and the reaper\<close>

definition stop_preview_container ::
  "('r, 'p) preview_env \<Rightarrow> string option \<Rightarrow> ('r, 'p) preview_world \<Rightarrow> ('r, 'p) preview_world" where
  "stop_preview_container env cid w =
     (case cid of None \<Rightarrow> w | Some c \<Rightarrow> snd (prt_call (ro_stop_and_remove (pe_runtime env) c) w))"

definition teardown_preview_pod ::
  "('r, 'p) preview_env \<Rightarrow> string option \<Rightarrow> ('r, 'p) preview_world \<Rightarrow> ('r, 'p) preview_world" where
  "teardown_preview_pod env path w =
     (case path of None \<Rightarrow> w | Some p \<Rightarrow> snd (prt_call (ro_teardown_pod (pe_runtime env) p) w))"

definition teardown_preview ::
  "('r, 'p) preview_env \<Rightarrow> string \<Rightarrow> string \<Rightarrow> ('r, 'p) preview_world \<Rightarrow> ('r, 'p) preview_world" where
  "teardown_preview env app preview_id w =
     (let key = preview_key app preview_id in
      case map_of (pw_previews w) key of
        None \<Rightarrow> w
      | Some s \<Rightarrow>
          (let w1 = stop_preview_container env (pv_container_id s) w;
               w2 = (if pv_pod_name s \<noteq> None then teardown_preview_pod env (pv_manifest_path s) w1 else w1);
               w3 = (if pv_domain s = None then w2
                     else snd (ppx_call (pe_remove_routes env (preview_app_name app preview_id) 1) w2))
           in w3\<lparr>pw_previews := AList.delete key (pw_previews w3),
                 pw_dir := delete_preview_state app preview_id (pw_dir w3)\<rparr>))"

definition collect_expired_previews :: "int \<Rightarrow> (string \<times> preview_state) list \<Rightarrow> (string \<times> string) list" where
  "collect_expired_previews now previews =
     map (\<lambda>(_, s). (pv_app s, pv_preview_id s))
       (filter (\<lambda>(_, s). case pv_expires_at s of Some e \<Rightarrow> e \<le> now | None \<Rightarrow> False) previews)"

definition reap_expired_previews :: "('r, 'p) preview_env \<Rightarrow> int \<Rightarrow> ('r, 'p) preview_world \<Rightarrow> ('r, 'p) preview_world" where
  "reap_expired_previews env now w =
     foldl (\<lambda>w (app, preview_id). teardown_preview env app preview_id w) w
       (collect_expired_previews now (pw_previews w))"

section \<open>Pull and configuration\<close>

definition initial_preview :: "int \<Rightarrow> preview_ctx \<Rightarrow> preview_state" where
  "initial_preview now ctx =
     \<lparr>pv_preview_id = pq_preview_id ctx, pv_app = pq_app ctx, pv_sha = pq_sha ctx, pv_status = StDeploying,
      pv_container_id = None, pv_pod_name = None, pv_port = None, pv_tag = Some (pq_tag ctx),
      pv_deployed_at = now, pv_expires_at = None, pv_domain = None, pv_manifest_path = None,
      pv_deploy_id = Some (pq_deploy_id ctx)\<rparr>"

definition ctx_key :: "preview_ctx \<Rightarrow> string" where
  "ctx_key ctx = preview_key (pq_app ctx) (pq_preview_id ctx)"

definition begin_preview :: "('r, 'p) preview_env \<Rightarrow> preview_ctx \<Rightarrow> ('r, 'p) preview_world \<Rightarrow> ('r, 'p) preview_world" where
  "begin_preview env ctx w =
     update_preview_deploy_status (ctx_key ctx) DsPulling
       (w\<lparr>pw_previews := AList.update (ctx_key ctx) (initial_preview (pe_now env) ctx) (pw_previews w)\<rparr>)"

definition pull_preview ::
  "('r, 'p) preview_env \<Rightarrow> preview_ctx \<Rightarrow> ('r, 'p) preview_world \<Rightarrow> (preview_failure + unit) \<times> ('r, 'p) preview_world" where
  "pull_preview env ctx w =
     (let (x, w1) = prt_call (ro_pull (pe_runtime env) (pq_image ctx) (pq_tag ctx)
                       (resolve_registry_credential (pq_image ctx) (pe_registries env))) w
      in case x of
           Inl _ \<Rightarrow> (Inl PfPull, fail_preview (ctx_key ctx) w1)
         | Inr _ \<Rightarrow> (Inr (), w1))"

definition preview_config_of :: "('r, 'p) preview_env \<Rightarrow> preview_ctx \<Rightarrow> string \<Rightarrow> preview_failure + merged_config" where
  "preview_config_of env ctx bytes =
     (case pe_parse_repo env bytes of
        None \<Rightarrow> Inl PfParse
      | Some repo \<Rightarrow>
          if ra_name (rc_app repo) \<noteq> pq_app ctx then Inl (PfMismatch (ra_name (rc_app repo)) (pq_app ctx))
          else (case rc_preview repo of
                  None \<Rightarrow> Inl PfNoSection
                | Some p \<Rightarrow>
                    if \<not> pc_enabled p then Inl PfDisabled
                    else (case merge_config (pe_app env) repo of
                            Inl e \<Rightarrow> Inl (PfMerge e)
                          | Inr m \<Rightarrow> Inr m)))"

definition configure_preview ::
  "('r, 'p) preview_env \<Rightarrow> preview_ctx \<Rightarrow> ('r, 'p) preview_world \<Rightarrow>
     (preview_failure + merged_config) \<times> ('r, 'p) preview_world" where
  "configure_preview env ctx w =
     (let (x, w1) = prt_call (ro_extract (pe_runtime env) (pq_image ctx) (pq_tag ctx) ''/slip/slip.toml'')
                      (update_preview_deploy_status (ctx_key ctx) DsConfiguring w);
          r = (case x of
                 Inr (Some bytes) \<Rightarrow> preview_config_of env ctx bytes
               | Inr None \<Rightarrow> Inl PfNoConfig
               | Inl e \<Rightarrow> if e = RtUnsupported then Inl PfUnsupported else Inl PfExtract)
      in (r, case r of Inl _ \<Rightarrow> fail_preview (ctx_key ctx) w1 | Inr _ \<Rightarrow> w1))"

text \<open>Domain and lifetime.  A domain that cannot be resolved leaves the status as it is; an addition
  that panics ends the task: \<open>Inr None\<close>.\<close>

definition is_worker :: "merged_config \<Rightarrow> bool" where
  "is_worker m \<longleftrightarrow> mc_kind m = ''worker''"

definition preview_domain :: "('r, 'p) preview_env \<Rightarrow> preview_ctx \<Rightarrow> merged_config \<Rightarrow> preview_failure + string option" where
  "preview_domain env ctx m =
     (if is_worker m then Inr None
      else and_then (resolve_preview_domain (pq_preview_id ctx) (sc_preview (pe_config env)) (ac_preview (pe_app env)))
             (\<lambda>d. Inr (Some d)))"

definition preview_expiry :: "('r, 'p) preview_env \<Rightarrow> merged_config \<Rightarrow> ttl_error + int option option" where
  "preview_expiry env m =
     compute_expires_at (pe_add_time env) (pe_now env) (Option.bind (mc_preview m) pc_ttl)
       (Option.bind (sc_preview (pe_config env)) sp_default_ttl)"

definition plan_preview ::
  "('r, 'p) preview_env \<Rightarrow> preview_ctx \<Rightarrow> merged_config \<Rightarrow> ('r, 'p) preview_world \<Rightarrow>
     (preview_failure + string option option) \<times> ('r, 'p) preview_world" where
  "plan_preview env ctx m w =
     (let key = ctx_key ctx in
      case preview_domain env ctx m of
        Inl e \<Rightarrow> (Inl e, w)
      | Inr host \<Rightarrow>
          (let w1 = modify_preview key (\<lambda>s. s\<lparr>pv_domain := host\<rparr>) w in
           case preview_expiry env m of
             Inl e \<Rightarrow> (Inl (PfTtl e), fail_preview key w1)
           | Inr None \<Rightarrow> (Inr None, w1)
           | Inr (Some expiry) \<Rightarrow> (Inr (Some host), modify_preview key (\<lambda>s. s\<lparr>pv_expires_at := expiry\<rparr>) w1)))"

section \<open>Making room\<close>

definition evictable :: "preview_ctx \<Rightarrow> preview_state \<Rightarrow> bool" where
  "evictable ctx s \<longleftrightarrow> pv_app s = pq_app ctx \<and> pv_preview_id s \<noteq> pq_preview_id ctx \<and> pv_status s = StRunning"

definition eviction_victims :: "preview_ctx \<Rightarrow> nat \<Rightarrow> (string \<times> preview_state) list \<Rightarrow> string list" where
  "eviction_victims ctx mx previews =
     (let existing = map (\<lambda>s. (pv_preview_id s, pv_deployed_at s)) (filter (evictable ctx) (map snd previews)) in
      if mx \<le> length existing then map fst (take (length existing - mx + 1) (sort_key snd existing)) else [])"

definition evict_previews ::
  "('r, 'p) preview_env \<Rightarrow> preview_ctx \<Rightarrow> merged_config \<Rightarrow> ('r, 'p) preview_world \<Rightarrow> ('r, 'p) preview_world" where
  "evict_previews env ctx m w =
     (case resolve_max_limit (Option.bind (mc_preview m) pc_max) (ac_preview (pe_app env)) (sc_preview (pe_config env)) of
        None \<Rightarrow> w
      | Some mx \<Rightarrow> foldl (\<lambda>w v. teardown_preview env (pq_app ctx) v w) w (eviction_victims ctx mx (pw_previews w)))"

text \<open>The preview that is replaced, as it was before the initial state was inserted.\<close>

definition remove_replaced ::
  "('r, 'p) preview_env \<Rightarrow> preview_ctx \<Rightarrow> preview_state option \<Rightarrow> ('r, 'p) preview_world \<Rightarrow> ('r, 'p) preview_world" where
  "remove_replaced env ctx old w =
     (let w1 = stop_preview_container env (Option.bind old pv_container_id) w in
      case (Option.bind old pv_pod_name, Option.bind old pv_manifest_path) of
        (Some _, Some manifest) \<Rightarrow>
          snd (ppx_call (pe_remove_routes env (preview_app_name (pq_app ctx) (pq_preview_id ctx)) 1)
            (teardown_preview_pod env (Some manifest) w1))
      | _ \<Rightarrow> w1)"

section \<open>Start\<close>

record started_preview =
  so_container :: "string option"
  so_port :: nat
  so_pod :: "string option"
  so_manifest :: "string option"

definition preview_app_config :: "('r, 'p) preview_env \<Rightarrow> merged_config \<Rightarrow> app_config" where
  "preview_app_config env m =
     (mc_app m)\<lparr>ac_resources := effective_preview_resources (pe_f64 env) (Option.bind (mc_preview m) pc_resources)
                                 (sc_preview (pe_config env)) (ac_resources (mc_app m))\<rparr>"

definition preview_env_vars :: "('r, 'p) preview_env \<Rightarrow> preview_ctx \<Rightarrow> merged_config \<Rightarrow> string list" where
  "preview_env_vars env ctx m =
     resolve_env_vars_for_app (pe_env_file env) (preview_app_config env m) (pe_secrets env) (pq_app ctx)"

definition preview_render_context :: "('r, 'p) preview_env \<Rightarrow> preview_ctx \<Rightarrow> merged_config \<Rightarrow> render_context" where
  "preview_render_context env ctx m =
     \<lparr>rd_app_name = preview_app_name (pq_app ctx) (pq_preview_id ctx), rd_tag = pq_tag ctx,
      rd_primary_image = ai_image (ac_app (mc_app m)), rd_pod_suffix = pe_pod_suffix env,
      rd_env_vars = preview_env_vars env ctx m, rd_image_overrides = pq_images ctx,
      rd_volumes = derive_preview_volumes (mc_volumes m) (pq_preview_id ctx), rd_has_workers = False\<rparr>"

definition preview_manifest_file :: "('r, 'p) preview_env \<Rightarrow> preview_ctx \<Rightarrow> string" where
  "preview_manifest_file env ctx =
     path_join (path_join (pe_storage env) ''manifests'')
       (preview_app_name (pq_app ctx) (pq_preview_id ctx) @ ''-'' @ pq_deploy_id ctx @ ''.yaml'')"

text \<open>Extract, render and write the manifest; \<open>fs::write\<close> replaces an existing file.\<close>

definition write_preview_manifest ::
  "('r, 'p) preview_env \<Rightarrow> preview_ctx \<Rightarrow> merged_config \<Rightarrow> ('r, 'p) preview_world \<Rightarrow>
     (preview_failure + string) \<times> ('r, 'p) preview_world" where
  "write_preview_manifest env ctx m w =
     (case mc_manifest m of
        None \<Rightarrow> (Inl PfManifestMissing, w)
      | Some in_image \<Rightarrow>
          (let (x, w1) = prt_call (ro_extract (pe_runtime env) (pq_image ctx) (pq_tag ctx) in_image) w in
           case x of
             Inl _ \<Rightarrow> (Inl PfManifestExtract, w1)
           | Inr None \<Rightarrow> (Inl (PfManifestNotFound in_image), w1)
           | Inr (Some raw) \<Rightarrow>
               (case render_manifest (pe_parse_yaml env) (pe_emit_yaml env) raw (preview_render_context env ctx m) of
                  Inl e \<Rightarrow> (Inl (PfManifestRender e), w1)
                | Inr rendered \<Rightarrow>
                    if \<not> pe_mkdir_ok env then (Inl PfManifestDir, w1)
                    else if \<not> pe_write_ok env then (Inl PfManifestWrite, w1)
                    else (Inr (preview_manifest_file env ctx),
                          w1\<lparr>pw_manifests := AList.update (preview_manifest_file env ctx) rendered (pw_manifests w1)\<rparr>))))"

definition preview_pod_name :: "('r, 'p) preview_env \<Rightarrow> preview_ctx \<Rightarrow> string" where
  "preview_pod_name env ctx = preview_app_name (pq_app ctx) (pq_preview_id ctx) @ ''-'' @ pe_pod_suffix env"

definition start_preview_pod ::
  "('r, 'p) preview_env \<Rightarrow> preview_ctx \<Rightarrow> merged_config \<Rightarrow> ('r, 'p) preview_world \<Rightarrow>
     (preview_failure + started_preview) \<times> ('r, 'p) preview_world" where
  "start_preview_pod env ctx m w =
     (let (x, w1) = write_preview_manifest env ctx m w; pod = preview_pod_name env ctx in
      case x of
        Inl e \<Rightarrow> (Inl e, w1)
      | Inr path \<Rightarrow>
          (let (y, w2) = prt_call (ro_deploy_pod (pe_runtime env) path pod) w1;
               started = (\<lambda>port. \<lparr>so_container = None, so_port = port, so_pod = Some pod, so_manifest = Some path\<rparr>) in
           case y of
             Inl _ \<Rightarrow> (Inl PfPodDeploy, w2)
           | Inr _ \<Rightarrow>
               if is_worker m then (Inr (started 0), w2)
               else (let (z, w3) = prt_call (ro_pod_port (pe_runtime env) pod
                              (case mc_routing_container m of Some c \<Rightarrow> c | None \<Rightarrow> ''web'')
                              (routing_port (preview_app_config env m))) w2 in
                     case z of
                       Inr port \<Rightarrow> (Inr (started port), w3)
                     | Inl _ \<Rightarrow> (Inl PfPodPort, teardown_preview_pod env (Some path) w3))))"

definition preview_create_spec :: "('r, 'p) preview_env \<Rightarrow> preview_ctx \<Rightarrow> merged_config \<Rightarrow> create_spec" where
  "preview_create_spec env ctx m =
     (let cfg = preview_app_config env m in
      \<lparr>cs_app = preview_app_name (pq_app ctx) (pq_preview_id ctx), cs_image = pq_image ctx, cs_tag = pq_tag ctx,
       cs_port = (if is_worker m then 0 else routing_port cfg), cs_env = preview_env_vars env ctx m,
       cs_network = ac_network cfg, cs_resources = ac_resources cfg,
       cs_volumes = derive_preview_volumes (mc_volumes m) (pq_preview_id ctx)\<rparr>)"

definition start_preview_container ::
  "('r, 'p) preview_env \<Rightarrow> preview_ctx \<Rightarrow> merged_config \<Rightarrow> ('r, 'p) preview_world \<Rightarrow>
     (preview_failure + started_preview) \<times> ('r, 'p) preview_world" where
  "start_preview_container env ctx m w =
     (let (x, w1) = prt_call (ro_create_and_start (pe_runtime env) (preview_create_spec env ctx m)) w in
      case x of
        Inl _ \<Rightarrow> (Inl PfStart, w1)
      | Inr (cid, port) \<Rightarrow> (Inr \<lparr>so_container = Some cid, so_port = port, so_pod = None, so_manifest = None\<rparr>, w1))"

definition start_preview ::
  "('r, 'p) preview_env \<Rightarrow> preview_ctx \<Rightarrow> merged_config \<Rightarrow> ('r, 'p) preview_world \<Rightarrow>
     (preview_failure + started_preview) \<times> ('r, 'p) preview_world" where
  "start_preview env ctx m w =
     (let (x, w1) = (if mc_kind m = ''pod'' then start_preview_pod env ctx m else start_preview_container env ctx m)
                      (update_preview_deploy_status (ctx_key ctx) DsStarting w)
      in case x of
           Inl e \<Rightarrow> (Inl e, fail_preview (ctx_key ctx) w1)
         | Inr st \<Rightarrow>
             (Inr st, update_preview_deploy_status (ctx_key ctx) DsHealthChecking
                (modify_preview (ctx_key ctx) (\<lambda>s. s\<lparr>pv_container_id := so_container st, pv_pod_name := so_pod st,
                    pv_port := Some (so_port st), pv_manifest_path := so_manifest st\<rparr>) w1)))"

section \<open>Checks, hooks and route\<close>

text \<open>Failing exits after the start: the entry is marked and what was started is removed.\<close>

definition discard_started ::
  "('r, 'p) preview_env \<Rightarrow> preview_ctx \<Rightarrow> started_preview \<Rightarrow> ('r, 'p) preview_world \<Rightarrow> ('r, 'p) preview_world" where
  "discard_started env ctx st w =
     teardown_preview_pod env (so_manifest st)
       (stop_preview_container env (so_container st) (fail_preview (ctx_key ctx) w))"

definition verify_preview ::
  "('r, 'p) preview_env \<Rightarrow> preview_ctx \<Rightarrow> merged_config \<Rightarrow> started_preview \<Rightarrow> ('r, 'p) preview_world \<Rightarrow>
     (preview_failure + unit) \<times> ('r, 'p) preview_world" where
  "verify_preview env ctx m st w =
     (if is_worker m then
        (case so_container st of
           None \<Rightarrow> (Inr (), w)
         | Some cid \<Rightarrow>
             (let (x, w1) = prt_call (ro_is_running (pe_runtime env) cid) w in
              case x of
                Inr True \<Rightarrow> (Inr (), w1)
              | Inr False \<Rightarrow> (Inl PfWorkerExited, stop_preview_container env (Some cid) (fail_preview (ctx_key ctx) w1))
              | Inl _ \<Rightarrow> (Inl PfWorkerState, fail_preview (ctx_key ctx) w1)))
      else
        (case snd (health_check (pe_probes env (pw_rt w) (so_port st)) (so_port st) (ac_health (mc_app m))) of
           Inr _ \<Rightarrow> (Inr (), w)
         | Inl e \<Rightarrow> (Inl (PfHealth (format_health_reason e)), discard_started env ctx st w)))"

definition run_hook ::
  "('r, 'p) preview_env \<Rightarrow> preview_ctx \<Rightarrow> (runtime_error \<Rightarrow> preview_failure) \<Rightarrow> string \<Rightarrow> string option \<Rightarrow>
     ('r, 'p) preview_world \<Rightarrow> (preview_failure + unit) \<times> ('r, 'p) preview_world" where
  "run_hook env ctx failure cid cmd w =
     (case cmd of
        None \<Rightarrow> (Inr (), w)
      | Some c \<Rightarrow>
          (let (x, w1) = prt_call (pe_exec env cid [''/bin/sh'', ''-c'', c]) w in
           case x of
             Inr _ \<Rightarrow> (Inr (), w1)
           | Inl e \<Rightarrow> (Inl (failure e), stop_preview_container env (Some cid) (fail_preview (ctx_key ctx) w1))))"

definition run_hooks ::
  "('r, 'p) preview_env \<Rightarrow> preview_ctx \<Rightarrow> merged_config \<Rightarrow> started_preview \<Rightarrow> ('r, 'p) preview_world \<Rightarrow>
     (preview_failure + unit) \<times> ('r, 'p) preview_world" where
  "run_hooks env ctx m st w =
     (case (Option.bind (mc_preview m) pc_hooks, so_container st) of
        (Some hooks, Some cid) \<Rightarrow>
          (case run_hook env ctx PfMigrate cid (ph_migrate hooks) w of
             (Inl e, w1) \<Rightarrow> (Inl e, w1)
           | (Inr _, w1) \<Rightarrow> run_hook env ctx PfSeed cid (ph_seed hooks) w1)
      | _ \<Rightarrow> (Inr (), w))"

definition route_preview ::
  "('r, 'p) preview_env \<Rightarrow> preview_ctx \<Rightarrow> string option \<Rightarrow> started_preview \<Rightarrow> ('r, 'p) preview_world \<Rightarrow>
     (preview_failure + unit) \<times> ('r, 'p) preview_world" where
  "route_preview env ctx host st w0 =
     (let w = update_preview_deploy_status (ctx_key ctx) DsSwitching w0 in
      case host of
        None \<Rightarrow> (Inr (), w)
      | Some d \<Rightarrow>
          (let (x, w1) = ppx_call (pe_set_routes env (preview_app_name (pq_app ctx) (pq_preview_id ctx))
                            [\<lparr>route_hostname = d, route_port = so_port st\<rparr>]) w in
           case x of
             Inr _ \<Rightarrow> (Inr (), w1)
           | Inl e \<Rightarrow> (Inl (PfRoute e), discard_started env ctx st w1)))"

definition complete_preview ::
  "preview_ctx \<Rightarrow> started_preview \<Rightarrow> ('r, 'p) preview_world \<Rightarrow> ('r, 'p) preview_world" where
  "complete_preview ctx st w =
     (let w1 = modify_preview (ctx_key ctx) (\<lambda>s. s\<lparr>pv_status := StRunning, pv_port := Some (so_port st)\<rparr>) w in
      case map_of (pw_previews w1) (ctx_key ctx) of
        None \<Rightarrow> w1
      | Some s \<Rightarrow> w1\<lparr>pw_dir := save_preview_state id (pq_app ctx) (pq_preview_id ctx) s (pw_dir w1)\<rparr>)"

section \<open>The whole deploy\<close>

datatype preview_end = PvDone | PvFailed preview_failure | PvPanicked

definition finish_preview ::
  "('r, 'p) preview_env \<Rightarrow> preview_ctx \<Rightarrow> merged_config \<Rightarrow> string option \<Rightarrow> started_preview \<Rightarrow>
     ('r, 'p) preview_world \<Rightarrow> preview_end \<times> ('r, 'p) preview_world" where
  "finish_preview env ctx m host st w =
     (case verify_preview env ctx m st w of
        (Inl e, w1) \<Rightarrow> (PvFailed e, w1)
      | (Inr _, w1) \<Rightarrow>
          (case run_hooks env ctx m st w1 of
             (Inl e, w2) \<Rightarrow> (PvFailed e, w2)
           | (Inr _, w2) \<Rightarrow>
               (case route_preview env ctx host st w2 of
                  (Inl e, w3) \<Rightarrow> (PvFailed e, w3)
                | (Inr _, w3) \<Rightarrow> (PvDone, complete_preview ctx st w3))))"

definition launch_preview ::
  "('r, 'p) preview_env \<Rightarrow> preview_ctx \<Rightarrow> preview_state option \<Rightarrow> merged_config \<Rightarrow> string option \<Rightarrow>
     ('r, 'p) preview_world \<Rightarrow> preview_end \<times> ('r, 'p) preview_world" where
  "launch_preview env ctx old m host w =
     (case start_preview env ctx m (remove_replaced env ctx old (evict_previews env ctx m w)) of
        (Inl e, w1) \<Rightarrow> (PvFailed e, w1)
      | (Inr st, w1) \<Rightarrow> finish_preview env ctx m host st w1)"

definition execute_preview_deploy_inner ::
  "('r, 'p) preview_env \<Rightarrow> preview_ctx \<Rightarrow> ('r, 'p) preview_world \<Rightarrow> preview_end \<times> ('r, 'p) preview_world" where
  "execute_preview_deploy_inner env ctx w =
     (let old = map_of (pw_previews w) (ctx_key ctx) in
      case pull_preview env ctx (begin_preview env ctx w) of
        (Inl e, w1) \<Rightarrow> (PvFailed e, w1)
      | (Inr _, w1) \<Rightarrow>
          (case configure_preview env ctx w1 of
             (Inl e, w2) \<Rightarrow> (PvFailed e, w2)
           | (Inr m, w2) \<Rightarrow>
               (case plan_preview env ctx m w2 of
                  (Inl e, w3) \<Rightarrow> (PvFailed e, w3)
                | (Inr None, w3) \<Rightarrow> (PvPanicked, w3)
                | (Inr (Some host), w3) \<Rightarrow> launch_preview env ctx old m host w3)))"

text \<open>The task around it: the application must be configured; a run that is cancelled by the timeout is
  in some world of its own, in which the entry is marked as failed.\<close>

datatype ('r, 'p) preview_outcome = PreviewRuns | PreviewCancelled "('r, 'p) preview_world"

definition execute_preview_deploy ::
  "(string \<times> app_config) list \<Rightarrow> ('r, 'p) preview_env \<Rightarrow> preview_ctx \<Rightarrow> ('r, 'p) preview_outcome \<Rightarrow>
     ('r, 'p) preview_world \<Rightarrow> ('r, 'p) preview_world" where
  "execute_preview_deploy apps env ctx out w =
     (case map_of apps (pq_app ctx) of
        None \<Rightarrow> update_preview_status (ctx_key ctx) StFailed w
      | Some cfg \<Rightarrow>
          (case out of
             PreviewRuns \<Rightarrow> snd (execute_preview_deploy_inner (env\<lparr>pe_app := cfg\<rparr>) ctx w)
           | PreviewCancelled w' \<Rightarrow> fail_preview (ctx_key ctx) w'))"

end
