(* ===== verification/PreviewProps.thy ===== *)
theory PreviewProps
  imports PreviewRun
begin

text \<open>
  What a preview deploy guarantees: the status it ends in, the limit on running previews, what it
  leaves untouched, and what is lost when a redeploy fails; the teardown and the reaper; resource
  caps, volumes and the persisted state.
\<close>

section \<open>The map of previews\<close>

abbreviation pv_at :: "('r, 'p) preview_world \<Rightarrow> string \<Rightarrow> preview_state option" where
  "pv_at w key \<equiv> map_of (pw_previews w) key"

lemma prt_fields [simp]:
  "pw_previews (snd (prt_call f w)) = pw_previews w" "pw_dir (snd (prt_call f w)) = pw_dir w"
  "pw_px (snd (prt_call f w)) = pw_px w" "pw_manifests (snd (prt_call f w)) = pw_manifests w"
  by (simp_all add: prt_call_def split: prod.split)

lemma ppx_fields [simp]:
  "pw_previews (snd (ppx_call g w)) = pw_previews w" "pw_dir (snd (ppx_call g w)) = pw_dir w"
  "pw_rt (snd (ppx_call g w)) = pw_rt w" "pw_manifests (snd (ppx_call g w)) = pw_manifests w"
  by (simp_all add: ppx_call_def split: prod.split)

lemma prt_world: "prt_call f w = (x, w1) \<Longrightarrow> pw_previews w1 = pw_previews w \<and> pw_dir w1 = pw_dir w \<and> pw_px w1 = pw_px w"
  by (auto simp: prt_call_def split: prod.splits)

lemma ppx_world: "ppx_call g w = (x, w1) \<Longrightarrow> pw_previews w1 = pw_previews w \<and> pw_dir w1 = pw_dir w \<and> pw_rt w1 = pw_rt w"
  by (auto simp: ppx_call_def split: prod.splits)

lemma modify_preview_at [simp]:
  "pv_at (modify_preview key f w) k = (if k = key then map_option f (pv_at w key) else pv_at w k)"
  by (auto simp: modify_preview_def update_conv' split: option.split)

lemma modify_preview_fields [simp]:
  "pw_dir (modify_preview key f w) = pw_dir w" "pw_rt (modify_preview key f w) = pw_rt w"
  "pw_px (modify_preview key f w) = pw_px w"
  by (simp_all add: modify_preview_def split: option.split)

lemma stop_preview_fields [simp]:
  "pw_previews (stop_preview_container env c w) = pw_previews w" "pw_dir (stop_preview_container env c w) = pw_dir w"
  "pw_px (stop_preview_container env c w) = pw_px w"
  "pw_previews (teardown_preview_pod env m w) = pw_previews w" "pw_dir (teardown_preview_pod env m w) = pw_dir w"
  "pw_px (teardown_preview_pod env m w) = pw_px w"
  by (simp_all add: stop_preview_container_def teardown_preview_pod_def split: option.split)

lemmas status_defs = update_preview_deploy_status_def update_preview_status_def fail_preview_def

lemma preview_key_inj [simp]: "preview_key a i = preview_key a j \<longleftrightarrow> i = j"
  by (simp add: preview_key_def)

lemma remove_replaced_fields [simp]:
  "pw_previews (remove_replaced env ctx old w) = pw_previews w" "pw_dir (remove_replaced env ctx old w) = pw_dir w"
  by (simp_all add: remove_replaced_def Let_def split: option.split)

lemma teardown_preview_at:
  "pv_at (teardown_preview env app i w) k = (if k = preview_key app i then None else pv_at w k)"
  by (auto simp: teardown_preview_def Let_def delete_conv' split: option.split)

lemma delete_filter: "AList.delete k xs = filter (\<lambda>e. fst e \<noteq> k) xs"
  by (auto simp: AList.delete_eq intro: filter_cong)

lemma teardown_preview_list:
  "pw_previews (teardown_preview env app i w) = filter (\<lambda>e. fst e \<noteq> preview_key app i) (pw_previews w)"
proof (cases "pv_at w (preview_key app i)")
  case None
  then have "filter (\<lambda>e. fst e \<noteq> preview_key app i) (pw_previews w) = pw_previews w"
    by (force simp: map_of_eq_None_iff filter_id_conv)
  then show ?thesis using None by (simp add: teardown_preview_def)
qed (simp add: teardown_preview_def Let_def delete_filter)

lemma teardown_all_list:
  "pw_previews (foldl (\<lambda>w v. teardown_preview env app v w) w vs) =
     filter (\<lambda>e. fst e \<notin> preview_key app ` set vs) (pw_previews w)"
proof (induction vs arbitrary: w)
  case (Cons v vs)
  then show ?case by (auto simp: teardown_preview_list conj_commute intro!: filter_cong)
qed simp

section \<open>Where a deploy ends\<close>

text \<open>The entry of the deploy, with a status.\<close>

definition entry :: "preview_ctx \<Rightarrow> app_status \<Rightarrow> ('r, 'p) preview_world \<Rightarrow> bool" where
  "entry ctx st w \<longleftrightarrow> (\<exists>s. pv_at w (ctx_key ctx) = Some s \<and> pv_app s = pq_app ctx \<and>
     pv_preview_id s = pq_preview_id ctx \<and> pv_sha s = pq_sha ctx \<and> pv_tag s = Some (pq_tag ctx) \<and>
     pv_deploy_id s = Some (pq_deploy_id ctx) \<and> pv_status s = st)"

lemma entry_world [simp]:
  "entry ctx st (w\<lparr>pw_rt := r\<rparr>) = entry ctx st w" "entry ctx st (w\<lparr>pw_px := x\<rparr>) = entry ctx st w"
  "entry ctx st (w\<lparr>pw_dir := d\<rparr>) = entry ctx st w" "entry ctx st (w\<lparr>pw_manifests := m\<rparr>) = entry ctx st w"
  "entry ctx st (stop_preview_container env c w) = entry ctx st w"
  "entry ctx st (teardown_preview_pod env f w) = entry ctx st w"
  "entry ctx st (remove_replaced env ctx old w) = entry ctx st w"
  by (simp_all add: entry_def)

definition tracked :: "preview_ctx \<Rightarrow> ('r, 'p) preview_world \<Rightarrow> bool" where
  "tracked ctx w \<longleftrightarrow> (\<exists>st. entry ctx st w)"

lemma tracked_world [simp]:
  "tracked ctx (w\<lparr>pw_rt := r\<rparr>) = tracked ctx w" "tracked ctx (w\<lparr>pw_px := x\<rparr>) = tracked ctx w"
  "tracked ctx (w\<lparr>pw_dir := d\<rparr>) = tracked ctx w" "tracked ctx (w\<lparr>pw_manifests := m\<rparr>) = tracked ctx w"
  "tracked ctx (stop_preview_container env c w) = tracked ctx w"
  "tracked ctx (teardown_preview_pod env f w) = tracked ctx w"
  by (simp_all add: tracked_def)

lemma entry_tracked: "entry ctx st w \<Longrightarrow> tracked ctx w"
  by (auto simp: tracked_def)

lemma entry_status [simp]:
  "entry ctx st (modify_preview (ctx_key ctx) (\<lambda>s. s\<lparr>pv_status := st'\<rparr>) w) \<longleftrightarrow> st = st' \<and> tracked ctx w"
  by (auto simp: entry_def tracked_def)

lemma tracked_status [simp]:
  "tracked ctx (modify_preview (ctx_key ctx) (\<lambda>s. s\<lparr>pv_status := st'\<rparr>) w) = tracked ctx w"
  unfolding tracked_def[of ctx "modify_preview k f w" for k f] by simp

lemma entry_updates [simp]:
  "entry ctx st (fail_preview (ctx_key ctx) w) \<longleftrightarrow> st = StFailed \<and> tracked ctx w"
  "entry ctx st (update_preview_deploy_status (ctx_key ctx) ds w) \<longleftrightarrow> st = status_of_deploy ds \<and> tracked ctx w"
  "tracked ctx (fail_preview (ctx_key ctx) w) = tracked ctx w"
  "tracked ctx (update_preview_deploy_status (ctx_key ctx) ds w) = tracked ctx w"
  by (simp_all add: status_defs)

lemma entry_fields [simp]:
  "entry ctx st (modify_preview (ctx_key ctx) (\<lambda>s. s\<lparr>pv_domain := d\<rparr>) w) = entry ctx st w"
  "entry ctx st (modify_preview (ctx_key ctx) (\<lambda>s. s\<lparr>pv_expires_at := e\<rparr>) w) = entry ctx st w"
  "entry ctx st (modify_preview (ctx_key ctx)
      (\<lambda>s. s\<lparr>pv_container_id := c, pv_pod_name := p, pv_port := q, pv_manifest_path := m\<rparr>) w) = entry ctx st w"
  "entry ctx st (modify_preview (ctx_key ctx) (\<lambda>s. s\<lparr>pv_status := st', pv_port := q\<rparr>) w) \<longleftrightarrow> st = st' \<and> tracked ctx w"
  by (auto simp: entry_def tracked_def)

lemma tracked_fields [simp]:
  "tracked ctx (modify_preview (ctx_key ctx) (\<lambda>s. s\<lparr>pv_domain := d\<rparr>) w) = tracked ctx w"
  "tracked ctx (modify_preview (ctx_key ctx) (\<lambda>s. s\<lparr>pv_expires_at := e\<rparr>) w) = tracked ctx w"
  "tracked ctx (modify_preview (ctx_key ctx)
      (\<lambda>s. s\<lparr>pv_container_id := c, pv_pod_name := p, pv_port := q, pv_manifest_path := m\<rparr>) w) = tracked ctx w"
  by (simp_all add: tracked_def)

lemma entry_begin: "entry ctx StDeploying (begin_preview env ctx w)"
  by (auto simp: entry_def begin_preview_def status_defs update_conv' initial_preview_def)

lemma entry_discard: "entry ctx st w \<Longrightarrow> entry ctx StFailed (discard_started env ctx s w)"
  by (simp add: discard_started_def entry_tracked)

text \<open>After a failed step the entry is marked as failed, after the others it keeps its status.\<close>

definition status_after :: "app_status \<Rightarrow> 'e + 'a \<Rightarrow> app_status" where
  "status_after st r = (case r of Inl _ \<Rightarrow> StFailed | Inr _ \<Rightarrow> st)"

lemma status_after_simps [simp]: "status_after st (Inl e) = StFailed" "status_after st (Inr x) = st"
  by (simp_all add: status_after_def)

lemmas calls = prt_call_def ppx_call_def

lemma pull_entry:
  "pull_preview env ctx w = (r, w') \<Longrightarrow> entry ctx st w \<Longrightarrow> entry ctx (status_after st r) w'"
  by (auto simp: pull_preview_def calls Let_def entry_tracked split: prod.splits sum.splits)

lemma configure_entry:
  "configure_preview env ctx w = (r, w') \<Longrightarrow> tracked ctx w \<Longrightarrow> entry ctx (status_after StDeploying r) w'"
  by (auto simp: configure_preview_def calls Let_def status_after_def split: prod.splits sum.split)

lemma plan_entry_preview:
  "plan_preview env ctx m w = (r, w') \<Longrightarrow> entry ctx st w \<Longrightarrow>
     entry ctx (if r = Inl PfDomain then st else status_after st r) w'"
  by (auto simp: plan_preview_def preview_domain_def resolve_preview_domain_def Let_def entry_tracked
      split: if_splits sum.splits option.splits)

lemma map_of_filter_keys: "k \<notin> K \<Longrightarrow> map_of (filter (\<lambda>e. fst e \<notin> K) xs) k = map_of xs k"
  by (induction xs) auto

lemma evict_entry: "entry ctx st w \<Longrightarrow> entry ctx st (evict_previews env ctx m w)"
proof -
  assume e: "entry ctx st w"
  have "pq_preview_id ctx \<notin> set (eviction_victims ctx mx (pw_previews w))" for mx
    by (auto simp: eviction_victims_def evictable_def Let_def split: if_splits dest!: in_set_takeD)
  then have "ctx_key ctx \<notin> preview_key (pq_app ctx) ` set (eviction_victims ctx mx (pw_previews w))" for mx
    by (auto simp: ctx_key_def)
  then show ?thesis
    using e by (simp add: evict_previews_def entry_def teardown_all_list map_of_filter_keys split: option.split)
qed


lemma write_manifest_previews:
  "write_preview_manifest env ctx m w = (r, w') \<Longrightarrow> pw_previews w' = pw_previews w \<and> r \<noteq> Inl PfDomain"
  by (auto simp: write_preview_manifest_def calls Let_def split: option.splits prod.splits sum.splits if_splits)

lemma start_pod_previews:
  assumes "start_preview_pod env ctx m w = (r, w')"
  shows "pw_previews w' = pw_previews w \<and> r \<noteq> Inl PfDomain"
proof -
  obtain x w1 where x: "write_preview_manifest env ctx m w = (x, w1)" by fastforce
  note px = write_manifest_previews[OF x]
  show ?thesis
  proof (cases x)
    case (Inl e)
    then show ?thesis using assms px by (auto simp: start_preview_pod_def x Let_def)
  next
    case (Inr path)
    let ?pod = "preview_pod_name env ctx"
    obtain y w2 where d: "prt_call (ro_deploy_pod (pe_runtime env) path ?pod) w1 = (y, w2)" by fastforce
    obtain z w3 where q: "prt_call (ro_pod_port (pe_runtime env) ?pod
        (case mc_routing_container m of Some c \<Rightarrow> c | None \<Rightarrow> ''web'') (routing_port (preview_app_config env m))) w2 = (z, w3)"
      by fastforce
    note pd = prt_world[OF d] and pq = prt_world[OF q]
    show ?thesis
      using assms px pd pq unfolding start_preview_pod_def x Inr Let_def prod.case sum.case d q
      by (cases y; cases z; cases "is_worker m") auto
  qed
qed

lemma start_container_previews:
  "start_preview_container env ctx m w = (r, w') \<Longrightarrow> pw_previews w' = pw_previews w \<and> r \<noteq> Inl PfDomain"
  by (auto simp: start_preview_container_def calls Let_def split: prod.splits sum.splits)

lemma tracked_previews: "pw_previews w' = pw_previews w \<Longrightarrow> tracked ctx w \<Longrightarrow> tracked ctx w'"
  by (simp add: tracked_def entry_def)

lemma start_entry:
  assumes r: "start_preview env ctx m w = (r, w')" and t: "tracked ctx w"
  shows "entry ctx (status_after StDeploying r) w' \<and> r \<noteq> Inl PfDomain"
proof -
  let ?f = "if mc_kind m = ''pod'' then start_preview_pod env ctx m else start_preview_container env ctx m"
  let ?w = "update_preview_deploy_status (ctx_key ctx) DsStarting w"
  obtain x w1 where f: "?f ?w = (x, w1)" by fastforce
  have x: "pw_previews w1 = pw_previews ?w \<and> x \<noteq> Inl PfDomain"
  proof (cases "mc_kind m = ''pod''")
    case True
    then have "start_preview_pod env ctx m ?w = (x, w1)" using f by simp
    then show ?thesis by (rule start_pod_previews)
  next
    case False
    then have "start_preview_container env ctx m ?w = (x, w1)" using f by simp
    then show ?thesis by (rule start_container_previews)
  qed
  then have "tracked ctx w1" using t by (intro tracked_previews[of w1 ?w]) simp_all
  then show ?thesis using r f x by (auto simp: start_preview_def split: sum.splits)
qed

lemma verify_entry:
  "verify_preview env ctx m st w = (r, w') \<Longrightarrow> entry ctx StDeploying w \<Longrightarrow>
     entry ctx (status_after StDeploying r) w' \<and> r \<noteq> Inl PfDomain"
  by (auto simp: verify_preview_def calls Let_def entry_tracked intro: entry_discard
      split: if_splits option.splits prod.splits sum.splits bool.splits)

lemma hook_entry:
  "run_hook env ctx f cid cmd w = (r, w') \<Longrightarrow> entry ctx st w \<Longrightarrow> (\<And>e. f e \<noteq> PfDomain) \<Longrightarrow>
     entry ctx (status_after st r) w' \<and> r \<noteq> Inl PfDomain"
  by (auto simp: run_hook_def calls Let_def entry_tracked split: option.splits prod.splits sum.splits)

lemma hooks_entry:
  assumes "run_hooks env ctx m st w = (r, w')" "entry ctx e w"
  shows "entry ctx (status_after e r) w' \<and> r \<noteq> Inl PfDomain"
proof (cases "Option.bind (mc_preview m) pc_hooks = None \<or> so_container st = None")
  case False
  then obtain hooks cid where hc: "Option.bind (mc_preview m) pc_hooks = Some hooks" "so_container st = Some cid" by auto
  obtain x w1 where m1: "run_hook env ctx PfMigrate cid (ph_migrate hooks) w = (x, w1)" by fastforce
  show ?thesis
    using assms hc m1 hook_entry[OF m1 assms(2)] hook_entry[of env ctx PfSeed cid "ph_seed hooks" w1 r w' e]
    by (cases x) (auto simp: run_hooks_def)
qed (use assms in \<open>auto simp: run_hooks_def split: option.splits\<close>)

lemma route_entry:
  "route_preview env ctx host st w = (r, w') \<Longrightarrow> tracked ctx w \<Longrightarrow>
     entry ctx (status_after StDeploying r) w' \<and> r \<noteq> Inl PfDomain"
  by (auto simp: route_preview_def calls Let_def intro!: entry_discard[where st = StDeploying] split: option.splits prod.splits sum.splits)

lemma complete_entry:
  assumes "tracked ctx w"
  shows "entry ctx StRunning (complete_preview ctx st w)"
  using assms by (auto simp: complete_preview_def Let_def split: option.split)

lemma finish_entry:
  assumes r: "finish_preview env ctx m host st w = (r, w')" and e: "entry ctx StDeploying w"
  shows "r \<noteq> PvPanicked \<and> r \<noteq> PvFailed PfDomain \<and> entry ctx (if r = PvDone then StRunning else StFailed) w'"
proof -
  obtain a w1 where v: "verify_preview env ctx m st w = (a, w1)" by fastforce
  obtain b w2 where h: "run_hooks env ctx m st w1 = (b, w2)" by fastforce
  obtain c w3 where p: "route_preview env ctx host st w2 = (c, w3)" by fastforce
  note e1 = verify_entry[OF v e]
  note e2 = hooks_entry[OF h, of "status_after StDeploying a"]
  note e3 = route_entry[OF p]
  show ?thesis
    using r e1 e2 e3 v h p complete_entry[of ctx w3 st]
    by (cases a; cases b; cases c) (auto simp: finish_preview_def entry_tracked)
qed

lemma launch_entry:
  assumes r: "launch_preview env ctx old m host w = (r, w')" and e: "tracked ctx w"
  shows "r \<noteq> PvPanicked \<and> r \<noteq> PvFailed PfDomain \<and> entry ctx (if r = PvDone then StRunning else StFailed) w'"
proof -
  obtain a w1 where s: "start_preview env ctx m (remove_replaced env ctx old (evict_previews env ctx m w)) = (a, w1)"
    by fastforce
  have "tracked ctx (remove_replaced env ctx old (evict_previews env ctx m w))"
    using e by (auto simp: tracked_def intro: evict_entry)
  note e1 = start_entry[OF s this]
  show ?thesis
    using r s e1 finish_entry[of env ctx m host _ w1 r w'] by (cases a) (auto simp: launch_preview_def)
qed

text \<open>C11. A preview deploy always leaves its own entry, with its commit, tag and deploy id: Running when it
  completed, Failed when it failed, with two exceptions that keep it Deploying for good: a domain
  that is not configured, and a lifetime whose end leaves the range of the clock, on which the task
  panics.\<close>

theorem preview_settles:
  "case execute_preview_deploy_inner env ctx w of (r, w') \<Rightarrow>
     \<exists>s. pv_at w' (ctx_key ctx) = Some s \<and> pv_app s = pq_app ctx \<and> pv_preview_id s = pq_preview_id ctx \<and>
       pv_sha s = pq_sha ctx \<and> pv_tag s = Some (pq_tag ctx) \<and> pv_deploy_id s = Some (pq_deploy_id ctx) \<and>
       pv_status s = (if r = PvDone then StRunning
                      else if r = PvFailed PfDomain \<or> r = PvPanicked then StDeploying else StFailed)"
proof -
  let ?st = "\<lambda>r. if r = PvDone then StRunning else if r = PvFailed PfDomain \<or> r = PvPanicked then StDeploying else StFailed"
  obtain a w1 where p: "pull_preview env ctx (begin_preview env ctx w) = (a, w1)" by fastforce
  obtain b w2 where c: "configure_preview env ctx w1 = (b, w2)" by fastforce
  obtain r w' where res: "execute_preview_deploy_inner env ctx w = (r, w')" by fastforce
  note e1 = pull_entry[OF p entry_begin]
  note e2 = configure_entry[OF c entry_tracked[OF e1]]
  have "entry ctx (?st r) w'"
  proof (cases a)
    case (Inl e)
    then have "e = PfPull" "(r, w') = (PvFailed e, w1)"
      using res p by (auto simp: execute_preview_deploy_inner_def Let_def pull_preview_def split: prod.splits sum.splits)
    then show ?thesis using e1 Inl by simp
  next
    case a: (Inr u)
    show ?thesis
    proof (cases b)
      case (Inl e)
      have "e \<noteq> PfDomain"
        using c Inl by (auto simp: configure_preview_def Let_def preview_config_of_def split: prod.splits sum.splits option.splits if_splits)
      then show ?thesis using res p a c Inl e2 by (auto simp: execute_preview_deploy_inner_def)
    next
      case b: (Inr m)
      obtain d w3 where l: "plan_preview env ctx m w2 = (d, w3)" by fastforce
      note e3 = plan_entry_preview[OF l e2]
      consider e where "d = Inl e" | "d = Inr None" | h where "d = Inr (Some h)" by (cases d) auto
      then show ?thesis
      proof cases
        case (3 h)
        then have "launch_preview env ctx (pv_at w (ctx_key ctx)) m h w3 = (r, w')"
          using res p a c b l by (simp add: execute_preview_deploy_inner_def)
        note e4 = launch_entry[OF this]
        then show ?thesis using e4 e3 3 b by (auto simp: entry_tracked)
      qed (use res p a c b l e3 in \<open>auto simp: execute_preview_deploy_inner_def\<close>)
    qed
  qed
  then show ?thesis using res by (auto simp: entry_def)
qed

end
