(* ===== verification/PreviewLimit.thy ===== *)
theory PreviewLimit
  imports PreviewProps
begin

text \<open>
  What a preview deploy does to the other previews: which it evicts to make room, and how many run
  afterwards.
\<close>

section \<open>The other entries\<close>

text \<open>The keys are distinct and the entries besides the one of the deploy are \<open>R\<close>.\<close>

definition beside :: "preview_ctx \<Rightarrow> (string \<times> preview_state) list \<Rightarrow> ('r, 'p) preview_world \<Rightarrow> bool" where
  "beside ctx R w \<longleftrightarrow> distinct (map fst (pw_previews w)) \<and> filter (\<lambda>e. fst e \<noteq> ctx_key ctx) (pw_previews w) = R"

lemma beside_world [simp]:
  "beside ctx R (w\<lparr>pw_rt := r\<rparr>) = beside ctx R w" "beside ctx R (w\<lparr>pw_px := x\<rparr>) = beside ctx R w"
  "beside ctx R (w\<lparr>pw_dir := d\<rparr>) = beside ctx R w" "beside ctx R (w\<lparr>pw_manifests := m\<rparr>) = beside ctx R w"
  "beside ctx R (stop_preview_container env c w) = beside ctx R w"
  "beside ctx R (teardown_preview_pod env f w) = beside ctx R w"
  "beside ctx R (remove_replaced env ctx' old w) = beside ctx R w"
  by (simp_all add: beside_def)

lemma filter_update: "filter (\<lambda>e. fst e \<noteq> k) (AList.update k v xs) = filter (\<lambda>e. fst e \<noteq> k) xs"
  by (induction xs) auto

lemma beside_modify: "beside ctx R w \<Longrightarrow> beside ctx R (modify_preview (ctx_key ctx) f w)"
  by (auto simp: beside_def modify_preview_def filter_update distinct_update split: option.split)

lemma beside_status:
  "beside ctx R w \<Longrightarrow> beside ctx R (fail_preview (ctx_key ctx) w)"
  "beside ctx R w \<Longrightarrow> beside ctx R (update_preview_deploy_status (ctx_key ctx) ds w)"
  by (simp_all add: status_defs beside_modify)

lemma beside_previews: "pw_previews w' = pw_previews w \<Longrightarrow> beside ctx R w \<Longrightarrow> beside ctx R w'"
  by (simp add: beside_def)

lemmas beside_intros = beside_modify beside_status

lemma beside_begin:
  "distinct (map fst (pw_previews w)) \<Longrightarrow>
     beside ctx (filter (\<lambda>e. fst e \<noteq> ctx_key ctx) (pw_previews w)) (begin_preview env ctx w)"
  unfolding begin_preview_def by (intro beside_status) (simp add: beside_def filter_update distinct_update)

lemma pull_beside: "pull_preview env ctx w = (r, w') \<Longrightarrow> beside ctx R w \<Longrightarrow> beside ctx R w'"
  by (auto simp: pull_preview_def calls Let_def intro!: beside_intros split: prod.splits sum.splits)

lemma configure_beside: "configure_preview env ctx w = (r, w') \<Longrightarrow> beside ctx R w \<Longrightarrow> beside ctx R w'"
  by (auto simp: configure_preview_def calls Let_def intro!: beside_intros split: prod.splits sum.split)

lemma plan_beside: "plan_preview env ctx m w = (r, w') \<Longrightarrow> beside ctx R w \<Longrightarrow> beside ctx R w'"
  by (auto simp: plan_preview_def Let_def intro!: beside_intros split: if_splits sum.splits option.splits)

lemma start_beside: "start_preview env ctx m w = (r, w') \<Longrightarrow> beside ctx R w \<Longrightarrow> beside ctx R w'"
proof -
  assume r: "start_preview env ctx m w = (r, w')" and t: "beside ctx R w"
  let ?f = "if mc_kind m = ''pod'' then start_preview_pod env ctx m else start_preview_container env ctx m"
  let ?w = "update_preview_deploy_status (ctx_key ctx) DsStarting w"
  obtain x w1 where f: "?f ?w = (x, w1)" by fastforce
  have "pw_previews w1 = pw_previews ?w"
    using f start_pod_previews start_container_previews by (cases "mc_kind m = ''pod''") (simp, blast)+
  then have "beside ctx R w1" using t by (intro beside_previews[of w1 ?w] beside_status)
  then show ?thesis using r f by (auto simp: start_preview_def intro!: beside_intros split: sum.splits)
qed

lemma verify_beside: "verify_preview env ctx m st w = (r, w') \<Longrightarrow> beside ctx R w \<Longrightarrow> beside ctx R w'"
  by (auto simp: verify_preview_def discard_started_def calls Let_def intro!: beside_intros
      split: if_splits option.splits prod.splits sum.splits bool.splits)

lemma hook_beside: "run_hook env ctx f cid cmd w = (r, w') \<Longrightarrow> beside ctx R w \<Longrightarrow> beside ctx R w'"
  by (auto simp: run_hook_def calls Let_def intro!: beside_intros split: option.splits prod.splits sum.splits)

lemma hooks_beside:
  assumes "run_hooks env ctx m st w = (r, w')" "beside ctx R w"
  shows "beside ctx R w'"
proof (cases "Option.bind (mc_preview m) pc_hooks = None \<or> so_container st = None")
  case False
  then obtain hooks cid where hc: "Option.bind (mc_preview m) pc_hooks = Some hooks" "so_container st = Some cid" by auto
  obtain x w1 where m1: "run_hook env ctx PfMigrate cid (ph_migrate hooks) w = (x, w1)" by fastforce
  show ?thesis
    using assms hc m1 hook_beside[OF m1 assms(2)] hook_beside[of env ctx PfSeed cid "ph_seed hooks" w1 r w' R]
    by (cases x) (auto simp: run_hooks_def)
qed (use assms in \<open>auto simp: run_hooks_def split: option.splits\<close>)

lemma route_beside: "route_preview env ctx host st w = (r, w') \<Longrightarrow> beside ctx R w \<Longrightarrow> beside ctx R w'"
  by (auto simp: route_preview_def discard_started_def calls Let_def intro!: beside_intros
      split: option.splits prod.splits sum.splits)

lemma complete_beside: "beside ctx R w \<Longrightarrow> beside ctx R (complete_preview ctx st w)"
  by (auto simp: complete_preview_def Let_def intro!: beside_intros split: option.split)

lemma finish_beside: "finish_preview env ctx m host st w = (r, w') \<Longrightarrow> beside ctx R w \<Longrightarrow> beside ctx R w'"
  unfolding finish_preview_def
  by (auto dest!: verify_beside hooks_beside route_beside intro!: complete_beside split: prod.splits sum.splits)

section \<open>Making room\<close>

text \<open>Every entry is kept under the key of its application and preview.\<close>

definition previews_ok :: "(string \<times> preview_state) list \<Rightarrow> bool" where
  "previews_ok xs \<longleftrightarrow> distinct (map fst xs) \<and> (\<forall>(k, s)\<in>set xs. k = preview_key (pv_app s) (pv_preview_id s))"

definition limit_of :: "('r, 'p) preview_env \<Rightarrow> merged_config \<Rightarrow> nat option" where
  "limit_of env m = resolve_max_limit (Option.bind (mc_preview m) pc_max) (ac_preview (pe_app env)) (sc_preview (pe_config env))"

definition victims_of :: "('r, 'p) preview_env \<Rightarrow> preview_ctx \<Rightarrow> merged_config \<Rightarrow> (string \<times> preview_state) list \<Rightarrow> string list" where
  "victims_of env ctx m xs = (case limit_of env m of None \<Rightarrow> [] | Some mx \<Rightarrow> eviction_victims ctx mx xs)"

lemma evict_list:
  "pw_previews (evict_previews env ctx m w) =
     filter (\<lambda>e. fst e \<notin> preview_key (pq_app ctx) ` set (victims_of env ctx m (pw_previews w))) (pw_previews w)"
  by (auto simp: evict_previews_def victims_of_def limit_of_def teardown_all_list split: option.split)

lemma victims_not_own: "pq_preview_id ctx \<notin> set (victims_of env ctx m xs)"
  by (auto simp: victims_of_def eviction_victims_def evictable_def Let_def split: option.splits if_splits dest!: in_set_takeD)

lemma evict_beside:
  "beside ctx R w \<Longrightarrow>
     beside ctx (filter (\<lambda>e. fst e \<notin> preview_key (pq_app ctx) ` set (victims_of env ctx m (pw_previews w))) R)
       (evict_previews env ctx m w)"
  unfolding beside_def evict_list by (auto simp: distinct_map_filter intro: filter_cong)

text \<open>The running previews of the application besides the one of the deploy.\<close>

definition others :: "preview_ctx \<Rightarrow> (string \<times> preview_state) list \<Rightarrow> preview_state list" where
  "others ctx xs = filter (evictable ctx) (map snd xs)"

lemma others_mem: "s \<in> set (others ctx xs) \<longleftrightarrow> evictable ctx s \<and> s \<in> snd ` set xs"
  by (auto simp: others_def)

lemma others_ids: "previews_ok xs \<Longrightarrow> distinct (map pv_preview_id (others ctx xs))"
proof (induction xs)
  case (Cons e xs)
  obtain k s where e: "e = (k, s)" by fastforce
  have ok: "previews_ok xs" using Cons.prems by (auto simp: previews_ok_def)
  have "pv_preview_id s \<notin> pv_preview_id ` set (others ctx xs)" if "evictable ctx s"
  proof
    assume "pv_preview_id s \<in> pv_preview_id ` set (others ctx xs)"
    then obtain k' s' where s': "(k', s') \<in> set xs" "evictable ctx s'" "pv_preview_id s' = pv_preview_id s"
      by (auto simp: others_mem)
    then have "k' = k" using Cons.prems e that by (auto simp: previews_ok_def evictable_def)
    then show False using Cons.prems e s'(1) by (force simp: previews_ok_def)
  qed
  then show ?case using Cons.IH[OF ok] e by (auto simp: others_def)
qed (simp add: others_def)

definition by_age :: "preview_ctx \<Rightarrow> (string \<times> preview_state) list \<Rightarrow> (string \<times> int) list" where
  "by_age ctx xs = sort_key snd (map (\<lambda>s. (pv_preview_id s, pv_deployed_at s)) (others ctx xs))"

lemma victims_by_age:
  "eviction_victims ctx mx xs =
     (if mx \<le> length (others ctx xs) then map fst (take (length (others ctx xs) - mx + 1) (by_age ctx xs)) else [])"
  by (simp add: eviction_victims_def others_def by_age_def Let_def)

lemma by_age_set: "set (by_age ctx xs) = (\<lambda>s. (pv_preview_id s, pv_deployed_at s)) ` set (others ctx xs)"
  by (simp add: by_age_def)

lemma by_age_ids: "previews_ok xs \<Longrightarrow> distinct (map fst (by_age ctx xs))"
proof -
  assume "previews_ok xs"
  then have "distinct (map fst (map (\<lambda>s. (pv_preview_id s, pv_deployed_at s)) (others ctx xs)))"
    using others_ids by (simp add: comp_def)
  then have "distinct (map (\<lambda>s. (pv_preview_id s, pv_deployed_at s)) (others ctx xs)) \<and>
      inj_on fst (set (map (\<lambda>s. (pv_preview_id s, pv_deployed_at s)) (others ctx xs)))"
    by (metis distinct_map)
  then show ?thesis by (simp add: by_age_def distinct_map)
qed

lemma others_rest:
  assumes ok: "previews_ok xs"
  shows "others ctx (filter (\<lambda>e. fst e \<notin> preview_key (pq_app ctx) ` set vs) xs) =
     filter (\<lambda>s. pv_preview_id s \<notin> set vs) (others ctx xs)"
proof -
  have "fst e \<in> preview_key (pq_app ctx) ` set vs \<longleftrightarrow> pv_preview_id (snd e) \<in> set vs"
    if "e \<in> set xs" "evictable ctx (snd e)" for e
    using that ok by (auto simp: previews_ok_def evictable_def)
  then have "filter (\<lambda>e. fst e \<notin> preview_key (pq_app ctx) ` set vs \<and> evictable ctx (snd e)) xs =
      filter (\<lambda>e. evictable ctx (snd e) \<and> pv_preview_id (snd e) \<notin> set vs) xs"
    by (intro filter_cong) auto
  then show ?thesis by (simp add: others_def filter_map comp_def)
qed

lemma length_filter_split: "length (filter P xs) + length (filter (\<lambda>x. \<not> P x) xs) = length xs"
  by (induction xs) auto

lemma others_evicted:
  assumes ok: "previews_ok xs"
  shows "length (others ctx (filter (\<lambda>e. fst e \<notin> preview_key (pq_app ctx) ` set (eviction_victims ctx mx xs)) xs)) \<le> mx - 1"
proof -
  let ?os = "others ctx xs" and ?vs = "eviction_victims ctx mx xs"
  have d: "distinct (map pv_preview_id ?os)" using others_ids[OF ok] .
  have "length (filter (\<lambda>s. pv_preview_id s \<in> set ?vs) ?os) = card (pv_preview_id ` set ?os \<inter> set ?vs)"
  proof -
    have "distinct (map pv_preview_id (filter (\<lambda>s. pv_preview_id s \<in> set ?vs) ?os))"
      using d by (rule distinct_map_filter)
    then have "length (filter (\<lambda>s. pv_preview_id s \<in> set ?vs) ?os) =
        card (set (map pv_preview_id (filter (\<lambda>s. pv_preview_id s \<in> set ?vs) ?os)))"
      using distinct_card by fastforce
    moreover have "set (map pv_preview_id (filter (\<lambda>s. pv_preview_id s \<in> set ?vs) ?os)) = pv_preview_id ` set ?os \<inter> set ?vs"
      by auto
    ultimately show ?thesis by simp
  qed
  moreover have "set ?vs \<subseteq> pv_preview_id ` set ?os"
    using by_age_set[of ctx xs] by (auto simp: victims_by_age dest!: in_set_takeD)
  moreover have "card (set ?vs) = length ?vs"
    using by_age_ids[OF ok, of ctx] by (intro distinct_card) (simp add: victims_by_age take_map[symmetric])
  ultimately have "length (filter (\<lambda>s. pv_preview_id s \<in> set ?vs) ?os) = length ?vs"
    by (simp add: Int_absorb1)
  moreover have "length ?vs = (if mx \<le> length ?os then min (length ?os) (length ?os - mx + 1) else 0)"
    by (simp add: victims_by_age by_age_def)
  moreover note length_filter_split[of "\<lambda>s. pv_preview_id s \<in> set ?vs" ?os]
  ultimately have "length (filter (\<lambda>s. pv_preview_id s \<notin> set ?vs) ?os) \<le> mx - 1" by (auto split: if_splits)
  then show ?thesis by (simp add: others_rest[OF ok])
qed

text \<open>A victim is running, and no older than those that stay.\<close>

lemma victim_oldest:
  assumes ok: "previews_ok xs" and s: "(k, s) \<in> set xs" and v: "k \<in> preview_key (pq_app ctx) ` set (eviction_victims ctx mx xs)"
  shows "evictable ctx s \<and>
     (\<forall>k' s'. (k', s') \<in> set xs \<and> evictable ctx s' \<and> k' \<notin> preview_key (pq_app ctx) ` set (eviction_victims ctx mx xs) \<longrightarrow>
        pv_deployed_at s \<le> pv_deployed_at s')"
proof -
  let ?ys = "by_age ctx xs" and ?n = "length (others ctx xs) - mx + 1"
  obtain i where i: "k = preview_key (pq_app ctx) i" "i \<in> set (eviction_victims ctx mx xs)" using v by auto
  then have le: "mx \<le> length (others ctx xs)" by (auto simp: victims_by_age split: if_splits)
  then obtain t where t: "(i, t) \<in> set (take ?n ?ys)" using i(2) by (auto simp: victims_by_age)
  then obtain s0 k0 where s0: "(k0, s0) \<in> set xs" "evictable ctx s0" "pv_preview_id s0 = i" "pv_deployed_at s0 = t"
    using by_age_set[of ctx xs] by (auto simp: others_mem dest!: in_set_takeD)
  then have "k0 = k" using ok i(1) by (auto simp: previews_ok_def evictable_def)
  then have eq: "s0 = s" using s0(1) s ok by (metis eq_key_imp_eq_value previews_ok_def)
  have "pv_deployed_at s \<le> pv_deployed_at s'"
    if s': "(k', s') \<in> set xs" "evictable ctx s'" "k' \<notin> preview_key (pq_app ctx) ` set (eviction_victims ctx mx xs)" for k' s'
  proof -
    have "k' = preview_key (pq_app ctx) (pv_preview_id s')" using s' ok by (auto simp: previews_ok_def evictable_def)
    then have "(pv_preview_id s', pv_deployed_at s') \<notin> set (take ?n ?ys)" using s'(3) le by (force simp: victims_by_age)
    moreover have "(pv_preview_id s', pv_deployed_at s') \<in> set ?ys" using s' by (force simp: by_age_set others_mem)
    ultimately have "(pv_preview_id s', pv_deployed_at s') \<in> set (drop ?n ?ys)"
      by (metis Un_iff append_take_drop_id set_append)
    moreover have "sorted (map snd (take ?n ?ys) @ map snd (drop ?n ?ys))"
      unfolding map_append[symmetric] append_take_drop_id by (simp add: by_age_def)
    ultimately show ?thesis using t s0(4) eq by (force simp: sorted_append)
  qed
  then show ?thesis using s0(2) eq by blast
qed


section \<open>The whole deploy\<close>

lemma launch_beside:
  assumes r: "launch_preview env ctx old m host w = (r, w')" and b: "beside ctx R w"
  shows "beside ctx (filter (\<lambda>e. fst e \<notin> preview_key (pq_app ctx) ` set (victims_of env ctx m (pw_previews w))) R) w'"
proof -
  obtain a w1 where s: "start_preview env ctx m (remove_replaced env ctx old (evict_previews env ctx m w)) = (a, w1)"
    by fastforce
  have "beside ctx (filter (\<lambda>e. fst e \<notin> preview_key (pq_app ctx) ` set (victims_of env ctx m (pw_previews w))) R)
      (remove_replaced env ctx old (evict_previews env ctx m w))"
    using evict_beside[OF b] by simp
  from start_beside[OF s this] show ?thesis
    using r s finish_beside[of env ctx m host _ w1 r w'] by (cases a) (auto simp: launch_preview_def)
qed

lemma others_beside:
  "(\<And>e. e \<in> set xs \<Longrightarrow> fst e = ctx_key ctx \<Longrightarrow> \<not> evictable ctx (snd e)) \<Longrightarrow>
     others ctx xs = others ctx (filter (\<lambda>e. fst e \<noteq> ctx_key ctx) xs)"
  by (induction xs) (auto simp: others_def)

lemma others_ok: "previews_ok xs \<Longrightarrow> others ctx xs = others ctx (filter (\<lambda>e. fst e \<noteq> ctx_key ctx) xs)"
  by (rule others_beside) (auto simp: previews_ok_def evictable_def ctx_key_def)

lemma others_entry:
  assumes e: "entry ctx st w" and b: "beside ctx R w"
  shows "others ctx (pw_previews w) = others ctx R"
proof -
  obtain s where s: "pv_at w (ctx_key ctx) = Some s" "pv_preview_id s = pq_preview_id ctx" using e by (auto simp: entry_def)
  have "snd e = s" if e: "e \<in> set (pw_previews w)" "fst e = ctx_key ctx" for e
  proof -
    have "(ctx_key ctx, snd e) \<in> set (pw_previews w)" using e by (metis prod.collapse)
    then have "pv_at w (ctx_key ctx) = Some (snd e)" using b by (intro map_of_is_SomeI) (simp_all add: beside_def)
    then show ?thesis using s(1) by simp
  qed
  then show ?thesis using b s(2) others_beside[of "pw_previews w" ctx] by (auto simp: beside_def evictable_def)
qed

lemma victims_cong: "others ctx xs = others ctx ys \<Longrightarrow> victims_of env ctx m xs = victims_of env ctx m ys"
  by (simp add: victims_of_def victims_by_age by_age_def split: option.split)

text \<open>How the entries besides the deploy's own end: as they were, or, when a configuration was found and
  planned, without the victims.\<close>

lemma deploy_beside:
  assumes ok: "previews_ok (pw_previews w)" and r: "execute_preview_deploy_inner env ctx w = (r, w')"
  shows "\<exists>vs. beside ctx (filter (\<lambda>e. fst e \<notin> preview_key (pq_app ctx) ` set vs)
       (filter (\<lambda>e. fst e \<noteq> ctx_key ctx) (pw_previews w))) w' \<and>
     (vs = [] \<and> r \<noteq> PvDone \<or>
      (\<exists>m w1 w2. configure_preview env ctx w1 = (Inr m, w2) \<and> vs = victims_of env ctx m (pw_previews w)))"
proof -
  let ?R = "filter (\<lambda>e. fst e \<noteq> ctx_key ctx) (pw_previews w)"
  have b0: "beside ctx ?R (begin_preview env ctx w)" using ok by (intro beside_begin) (simp add: previews_ok_def)
  obtain a w1 where p: "pull_preview env ctx (begin_preview env ctx w) = (a, w1)" by fastforce
  obtain b w2 where c: "configure_preview env ctx w1 = (b, w2)" by fastforce
  note e1 = pull_entry[OF p entry_begin] and b1 = pull_beside[OF p b0]
  note e2 = configure_entry[OF c entry_tracked[OF e1]] and b2 = configure_beside[OF c b1]
  have stay: ?thesis if "w' = v" "beside ctx ?R v" "r \<noteq> PvDone" for v
    using that by (intro exI[of _ "[]"]) simp
  show ?thesis
  proof (cases a)
    case (Inl e)
    then show ?thesis using r p b1 by (intro stay[of w1]) (auto simp: execute_preview_deploy_inner_def)
  next
    case a: (Inr u)
    show ?thesis
    proof (cases b)
      case (Inl e)
      then show ?thesis using r p a c b2 by (intro stay[of w2]) (auto simp: execute_preview_deploy_inner_def)
    next
      case b: (Inr m)
      obtain d w3 where l: "plan_preview env ctx m w2 = (d, w3)" by fastforce
      note e3 = plan_entry_preview[OF l e2] and b3 = plan_beside[OF l b2]
      consider e where "d = Inl e" | "d = Inr None" | h where "d = Inr (Some h)" by (cases d) auto
      then show ?thesis
      proof cases
        case (3 h)
        then have "launch_preview env ctx (pv_at w (ctx_key ctx)) m h w3 = (r, w')"
          using r p a c b l by (simp add: execute_preview_deploy_inner_def)
        note b4 = launch_beside[OF this b3]
        have "victims_of env ctx m (pw_previews w3) = victims_of env ctx m (pw_previews w)"
          using others_entry[OF e3 b3] others_ok[OF ok] by (intro victims_cong) simp
        then show ?thesis using b4 c b by (intro exI[of _ "victims_of env ctx m (pw_previews w)"]) auto
      next
        case (1 e)
        then show ?thesis using r p a c b l b3 by (intro stay[of w3]) (auto simp: execute_preview_deploy_inner_def)
      next
        case 2
        then show ?thesis using r p a c b l b3 by (intro stay[of w3]) (auto simp: execute_preview_deploy_inner_def)
      qed
    qed
  qed
qed

text \<open>The configuration an image carries, as the runtime extracts it.\<close>

definition image_config :: "('r, 'p) preview_env \<Rightarrow> preview_ctx \<Rightarrow> merged_config \<Rightarrow> bool" where
  "image_config env ctx m \<longleftrightarrow>
     (\<exists>bytes. (\<forall>q. snd (ro_extract (pe_runtime env) (pq_image ctx) (pq_tag ctx) ''/slip/slip.toml'' q) = Inr (Some bytes)) \<and>
        preview_config_of env ctx bytes = Inr m)"

lemma configure_image:
  assumes i: "image_config env ctx m" and c: "configure_preview env ctx w = (Inr m', w')"
  shows "m' = m"
proof -
  let ?f = "ro_extract (pe_runtime env) (pq_image ctx) (pq_tag ctx) ''/slip/slip.toml''"
  let ?w = "update_preview_deploy_status (ctx_key ctx) DsConfiguring w"
  obtain bytes where b: "\<And>q. snd (?f q) = Inr (Some bytes)" "preview_config_of env ctx bytes = Inr m"
    using i by (auto simp: image_config_def)
  obtain q x where f: "?f (pw_rt ?w) = (q, x)" by fastforce
  have "x = Inr (Some bytes)" using b(1)[of "pw_rt ?w"] f by simp
  then show ?thesis using c f b(2) by (simp add: configure_preview_def prt_call_def Let_def)
qed

definition running :: "string \<Rightarrow> (string \<times> preview_state) list \<Rightarrow> nat" where
  "running app xs = length (filter (\<lambda>(_, s). pv_app s = app \<and> pv_status s = StRunning) xs)"


lemma running_split:
  assumes d: "distinct (map fst xs)"
  shows "running app xs \<le> running app (filter (\<lambda>e. fst e \<noteq> k) xs) + 1"
proof -
  let ?P = "\<lambda>(_, s). pv_app s = app \<and> pv_status s = StRunning"
  have "length (filter ?P xs) = length (filter (\<lambda>e. fst e = k) (filter ?P xs)) + length (filter (\<lambda>e. fst e \<noteq> k) (filter ?P xs))"
    using length_filter_split[of "\<lambda>e. fst e = k" "filter ?P xs"] by simp
  moreover have "length (filter (\<lambda>e. fst e = k) (filter ?P xs)) \<le> 1"
    using d
  proof (induction xs)
    case (Cons x xs)
    have "filter (\<lambda>e. fst e = k) (filter ?P xs) = []" if "fst x = k"
      using Cons.prems that by (auto simp: filter_empty_conv rev_image_eqI)
    then show ?case using Cons by auto
  qed simp
  moreover have "filter (\<lambda>e. fst e \<noteq> k) (filter ?P xs) = filter ?P (filter (\<lambda>e. fst e \<noteq> k) xs)"
    by (auto intro: filter_cong)
  ultimately show ?thesis by (simp add: running_def)
qed

lemma running_others:
  assumes "\<And>k s. (k, s) \<in> set xs \<Longrightarrow> pv_app s = pq_app ctx \<Longrightarrow> pv_preview_id s \<noteq> pq_preview_id ctx"
  shows "running (pq_app ctx) xs = length (others ctx xs)"
  using assms
proof (induction xs)
  case (Cons e xs)
  then show ?case by (cases e) (auto simp: running_def others_def evictable_def)
qed (simp add: running_def others_def)


end
