(* ===== verification/ApiTypes.thy ===== *)
theory ApiTypes
  imports DeployRun
begin

text \<open>
  The types of the HTTP API (\<open>api.rs\<close>): its errors and their status codes, requests and responses,
  and the checks made before any handler touches the state.  A header is its value when it is
  present and readable.  \<open>char::is_alphanumeric\<close> of a character outside ASCII, given by its UTF-8
  bytes, is a parameter.
\<close>

section \<open>Errors\<close>

text \<open>One constructor per message of the code, with the parts that vary.\<close>

datatype api_reason =
    TagEmpty | TagChars
  | AppNameEmpty | AppNameLong | AppNameChars | AppNameHyphen
  | MissingAuthorization | BadAuthorization | InvalidToken
  | MissingSignature | InvalidSignature | MissingPreviewAuth
  | AppUnknown string | AppExists string | AppBusy string
  | DeployRunning string | PreviewRunning string string
  | BadNeeds need_error | BindingFault binding_error
  | PersistFailed | CleanupFailed
  | BadJson | ImageMismatch string string
  | PreviewWithNeeds | PreviewIdEmpty | PreviewIdChars | PreviewUnconfigured
  | PreviewMissing string string
  | NoPreviousTag | DeployMissing
  | ManagedSecret string | BadSecretKey string secret_key_error | SecretMissing string string
  | SecretSetFailed | SecretRemoveFailed | KeyReadFailed | KeySetFailed
  | BadRegistryUrl string | RegistryStoreFailed | RegistryMissing string
  | HostEmpty | HostLoopback string | HostNotFqdn string | HostMetadata string
  | RenewBusy string | PolicyQueryFailed | PolicyMissing string
  | NotProven bool | TimedOut bool | RevertFailed string | RenewFailed

datatype app_error =
    ApiBadRequest api_reason
  | ApiUnauthorized api_reason
  | ApiNotFound api_reason
  | ApiConflict api_reason
  | ApiInternal api_reason
  | ApiRenewNotProven api_reason
  | ApiRenewTimeout api_reason

fun http_status :: "app_error \<Rightarrow> nat" where
  "http_status (ApiBadRequest _) = 400"
| "http_status (ApiUnauthorized _) = 401"
| "http_status (ApiNotFound _) = 404"
| "http_status (ApiConflict _) = 409"
| "http_status (ApiInternal _) = 500"
| "http_status (ApiRenewNotProven _) = 502"
| "http_status (ApiRenewTimeout _) = 504"

fun api_binding_error :: "binding_error \<Rightarrow> app_error" where
  "api_binding_error (MissingService t) = ApiNotFound (BindingFault (MissingService t))"
| "api_binding_error BindInvalid = ApiBadRequest (BindingFault BindInvalid)"
| "api_binding_error (BindConflict r a) = ApiConflict (BindingFault (BindConflict r a))"
| "api_binding_error BindProvision = ApiInternal (BindingFault BindProvision)"
| "api_binding_error BindStore = ApiInternal (BindingFault BindStore)"

definition map_err :: "('e \<Rightarrow> 'f) \<Rightarrow> 'e + 'a \<Rightarrow> 'f + 'a" where
  "map_err f r = (case r of Inl e \<Rightarrow> Inl (f e) | Inr x \<Rightarrow> Inr x)"

section \<open>Names, tags and ids\<close>

text \<open>The characters of a UTF-8 string: a byte that does not continue a character starts one.\<close>

fun utf8_chars :: "string \<Rightarrow> string list" where
  "utf8_chars [] = []"
| "utf8_chars (c # cs) =
     (case utf8_chars cs of
        [] \<Rightarrow> [[c]]
      | d # ds \<Rightarrow> if d \<noteq> [] \<and> utf8_continues (hd d) then (c # d) # ds else [c] # d # ds)"

definition tag_char :: "(string \<Rightarrow> bool) \<Rightarrow> string \<Rightarrow> bool" where
  "tag_char uni ch =
     (case ch of
        [c] \<Rightarrow> is_alnum c \<or> c = CHR ''-'' \<or> c = CHR ''_'' \<or> c = CHR ''.''
      | _ \<Rightarrow> uni ch)"

definition validate_tag :: "(string \<Rightarrow> bool) \<Rightarrow> string \<Rightarrow> app_error + unit" where
  "validate_tag uni t =
     (if t = [] then Inl (ApiBadRequest TagEmpty)
      else if \<not> list_all (tag_char uni) (utf8_chars t) then Inl (ApiBadRequest TagChars)
      else Inr ())"

definition validate_preview_id :: "(string \<Rightarrow> bool) \<Rightarrow> string \<Rightarrow> app_error + unit" where
  "validate_preview_id uni i =
     (if i = [] then Inl (ApiBadRequest PreviewIdEmpty)
      else if \<not> list_all (tag_char uni) (utf8_chars i) then Inl (ApiBadRequest PreviewIdChars)
      else Inr ())"

definition validate_api_app_name :: "string \<Rightarrow> app_error + unit" where
  "validate_api_app_name n =
     (if n = [] then Inl (ApiBadRequest AppNameEmpty)
      else if length n > 63 then Inl (ApiBadRequest AppNameLong)
      else if \<not> list_all (\<lambda>c. is_lower c \<or> is_digit c \<or> c = CHR ''-'') n then Inl (ApiBadRequest AppNameChars)
      else if prefix ''-'' n \<or> ends_with ''-'' n then Inl (ApiBadRequest AppNameHyphen)
      else Inr ())"

section \<open>Authentication\<close>

text \<open>\<open>subtle\<close>'s comparison of byte strings of one length, in constant time.\<close>

fun ct_eq :: "string \<Rightarrow> string \<Rightarrow> bool" where
  "ct_eq (a # as) (b # bs) = (ct_eq as bs \<and> a = b)"
| "ct_eq _ _ = True"

definition constant_time_eq :: "string \<Rightarrow> string \<Rightarrow> bool" where
  "constant_time_eq a b = (if length a \<noteq> length b then False else ct_eq a b)"

definition management_auth :: "slip_config \<Rightarrow> string option \<Rightarrow> app_error + unit" where
  "management_auth cfg authorization =
     (case authorization of
        None \<Rightarrow> Inl (ApiUnauthorized MissingAuthorization)
      | Some h \<Rightarrow>
          (case strip_prefix ''Bearer '' h of
             None \<Rightarrow> Inl (ApiUnauthorized BadAuthorization)
           | Some token \<Rightarrow>
               if constant_time_eq token (sc_auth_secret cfg) then Inr ()
               else Inl (ApiUnauthorized InvalidToken)))"

lemma constant_time_eq_iff: "constant_time_eq a b \<longleftrightarrow> a = b"
proof -
  have "length a = length b \<Longrightarrow> ct_eq a b \<longleftrightarrow> a = b"
    by (induction a b rule: list_induct2) auto
  then show ?thesis by (auto simp: constant_time_eq_def)
qed

section \<open>Requests and responses\<close>

record create_app_request =
  cr_app_name :: string
  cr_app_image :: string
  cr_app_domain :: string
  cr_app_port :: nat
  cr_app_secret :: "string option"
  cr_app_env :: env_table
  cr_app_resources :: "resource_config option"
  cr_app_network :: "string option"
  cr_app_health :: "health_config option"
  cr_app_deploy :: "deploy_config option"
  cr_app_preview :: "app_preview_config option"
  cr_app_volumes :: "volume_config list option"
  cr_app_routes :: "route_entry list option"
  cr_app_tls :: "tls_strategy option"
  cr_app_needs :: "(string \<times> need) list"

record update_app_request =
  up_image :: "string option"
  up_domain :: "string option"
  up_port :: "nat option"
  up_secret :: "string option"
  up_env :: "env_table option"
  up_needs :: "(string \<times> need) list option"
  up_resources :: "resource_config option"
  up_network :: "string option"
  up_health :: "health_config option"
  up_deploy :: "deploy_config option"
  up_preview :: "app_preview_config option"
  up_volumes :: "volume_config list option"
  up_routes :: "route_entry list option"
  up_tls :: "tls_strategy option"

definition default_app_port :: nat where "default_app_port = 8080"
definition default_network :: string where "default_network = ''slip''"

definition no_resources :: resource_config where
  "no_resources = \<lparr>rs_memory = None, rs_cpus = None\<rparr>"

text \<open>The configuration without the parts a response never shows (\<open>app.secret\<close>, \<open>env_file\<close>).\<close>

record app_response =
  ar_needs :: "(string \<times> need) list"
  ar_name :: string
  ar_image :: string
  ar_domain :: string
  ar_port :: nat
  ar_secret :: "string option"
  ar_env :: env_table
  ar_resources :: resource_config
  ar_network :: string
  ar_health :: health_config
  ar_deploy :: deploy_config
  ar_preview :: "app_preview_config option"
  ar_volumes :: "volume_config list"
  ar_routes :: "route_entry list"
  ar_tls :: "tls_strategy option"

definition app_response_of :: "app_config \<Rightarrow> app_response" where
  "app_response_of cfg =
     \<lparr>ar_needs = ac_needs cfg, ar_name = ai_name (ac_app cfg), ar_image = ai_image (ac_app cfg),
      ar_domain = (case rt_domain (ac_routing cfg) of Some d \<Rightarrow> d | None \<Rightarrow> []),
      ar_port = (case rt_port (ac_routing cfg) of Some p \<Rightarrow> p | None \<Rightarrow> 0),
      ar_secret = None, ar_env = ac_env cfg, ar_resources = ac_resources cfg,
      ar_network = ac_network cfg, ar_health = ac_health cfg, ar_deploy = ac_deploy cfg,
      ar_preview = ac_preview cfg, ar_volumes = ac_volumes cfg, ar_routes = rt_routes (ac_routing cfg),
      ar_tls = rt_tls (ac_routing cfg)\<rparr>"

definition some_or :: "'a option \<Rightarrow> 'a \<Rightarrow> 'a" where
  "some_or x d = (case x of Some v \<Rightarrow> v | None \<Rightarrow> d)"

definition created_config :: "create_app_request \<Rightarrow> app_config" where
  "created_config r =
     \<lparr>ac_app = \<lparr>ai_name = cr_app_name r, ai_image = cr_app_image r, ai_secret = cr_app_secret r\<rparr>,
      ac_routing = \<lparr>rt_domain = Some (cr_app_domain r), rt_port = Some (cr_app_port r),
                    rt_routes = some_or (cr_app_routes r) [], rt_tls = cr_app_tls r\<rparr>,
      ac_health = some_or (cr_app_health r) default_health,
      ac_deploy = some_or (cr_app_deploy r) default_deploy,
      ac_env = cr_app_env r, ac_env_file = None,
      ac_resources = some_or (cr_app_resources r) no_resources,
      ac_network = some_or (cr_app_network r) default_network,
      ac_preview = cr_app_preview r, ac_volumes = some_or (cr_app_volumes r) [],
      ac_needs = cr_app_needs r\<rparr>"

text \<open>The fields of the request that are present replace those of the configuration, whole.\<close>

definition updated_config :: "update_app_request \<Rightarrow> app_config \<Rightarrow> app_config" where
  "updated_config r c =
     c\<lparr>ac_app := (ac_app c)\<lparr>ai_image := some_or (up_image r) (ai_image (ac_app c)),
                            ai_secret := (case up_secret r of Some s \<Rightarrow> Some s | None \<Rightarrow> ai_secret (ac_app c))\<rparr>,
       ac_routing := (ac_routing c)
         \<lparr>rt_domain := (case up_domain r of Some d \<Rightarrow> Some d | None \<Rightarrow> rt_domain (ac_routing c)),
          rt_port := (case up_port r of Some p \<Rightarrow> Some p | None \<Rightarrow> rt_port (ac_routing c)),
          rt_routes := some_or (up_routes r) (rt_routes (ac_routing c)),
          rt_tls := (case up_tls r of Some t \<Rightarrow> Some t | None \<Rightarrow> rt_tls (ac_routing c))\<rparr>,
       ac_env := some_or (up_env r) (ac_env c), ac_needs := some_or (up_needs r) (ac_needs c),
       ac_resources := some_or (up_resources r) (ac_resources c),
       ac_network := some_or (up_network r) (ac_network c),
       ac_health := some_or (up_health r) (ac_health c), ac_deploy := some_or (up_deploy r) (ac_deploy c),
       ac_preview := (case up_preview r of Some p \<Rightarrow> Some p | None \<Rightarrow> ac_preview c),
       ac_volumes := some_or (up_volumes r) (ac_volumes c)\<rparr>"

record preview_request_info =
  pr_id :: string
  pr_sha :: string

record deploy_request =
  dq_app :: string
  dq_image :: "string option"
  dq_tag :: string
  dq_preview :: "preview_request_info option"
  dq_images :: "(string \<times> string) list"

record deploy_response =
  dr_deploy_id :: string
  dr_app :: string
  dr_tag :: string
  dr_preview_url :: "string option"

end
