(* ===== verification/PreviewOps.thy ===== *)
theory PreviewOps
  imports PreviewLimit ApiTypes
begin

text \<open>
  Redeploys that fail, the reaper, the caps on resources, the isolation of volumes, and the states
  loaded after a restart.
\<close>

section \<open>A failed redeploy\<close>

text \<open>C14. A redeploy of a preview whose image cannot be pulled forgets the container, the pod and the route
  of the preview it should replace: the entry no longer names them, a later teardown calls neither
  the runtime nor the proxy for them, and deletes the file that still did.\<close>

theorem failed_redeploy_forgets:
  assumes old: "pv_at w (ctx_key ctx) = Some s"
    and pull: "ro_pull (pe_runtime env) (pq_image ctx) (pq_tag ctx)
                 (resolve_registry_credential (pq_image ctx) (pe_registries env)) (pw_rt w) = (q, Inl e)"
  shows "\<exists>w1. execute_preview_deploy_inner env ctx w = (PvFailed PfPull, w1) \<and>
     (\<exists>s'. pv_at w1 (ctx_key ctx) = Some s' \<and> pv_status s' = StFailed \<and> pv_container_id s' = None \<and>
        pv_pod_name s' = None \<and> pv_domain s' = None) \<and>
     map_of (pw_dir w1) (pq_app ctx, json_file (pq_preview_id ctx)) = map_of (pw_dir w) (pq_app ctx, json_file (pq_preview_id ctx)) \<and>
     (let w2 = teardown_preview env (pq_app ctx) (pq_preview_id ctx) w1 in
        pw_rt w2 = q \<and> pw_px w2 = pw_px w \<and> pv_at w2 (ctx_key ctx) = None \<and>
        map_of (pw_dir w2) (pq_app ctx, json_file (pq_preview_id ctx)) = None)"
proof -
  let ?b = "begin_preview env ctx w" and ?init = "initial_preview (pe_now env) ctx"
  have b: "pw_rt ?b = pw_rt w" "pw_px ?b = pw_px w" "pw_dir ?b = pw_dir w" "pv_at ?b (ctx_key ctx) = Some ?init"
    by (auto simp: begin_preview_def status_defs update_conv' initial_preview_def)
  let ?w1 = "fail_preview (ctx_key ctx) (?b\<lparr>pw_rt := q\<rparr>)"
  have run: "execute_preview_deploy_inner env ctx w = (PvFailed PfPull, ?w1)"
    using pull b(1) by (simp add: execute_preview_deploy_inner_def pull_preview_def prt_call_def)
  have w1: "pw_rt ?w1 = q" "pw_px ?w1 = pw_px w" "pw_dir ?w1 = pw_dir w"
      "pv_at ?w1 (ctx_key ctx) = Some (?init\<lparr>pv_status := StFailed\<rparr>)"
    using b by (simp_all add: fail_preview_def)
  have "teardown_preview env (pq_app ctx) (pq_preview_id ctx) ?w1 =
      ?w1\<lparr>pw_previews := AList.delete (ctx_key ctx) (pw_previews ?w1),
          pw_dir := delete_preview_state (pq_app ctx) (pq_preview_id ctx) (pw_dir ?w1)\<rparr>"
    using w1(4) by (simp add: teardown_preview_def ctx_key_def Let_def initial_preview_def stop_preview_container_def)
  then show ?thesis
    using run w1 by (simp add: Let_def delete_preview_state_def delete_conv' initial_preview_def)
qed

section \<open>The reaper\<close>

definition expired :: "int \<Rightarrow> preview_state \<Rightarrow> bool" where
  "expired now s \<longleftrightarrow> (case pv_expires_at s of Some e \<Rightarrow> e \<le> now | None \<Rightarrow> False)"

lemma collect_expired:
  "collect_expired_previews now xs =
     map (\<lambda>e. (pv_app (snd e), pv_preview_id (snd e))) (filter (\<lambda>e. expired now (snd e)) xs)"
  by (induction xs) (auto simp: collect_expired_previews_def expired_def split: option.splits)

lemma teardown_dir:
  "map_of (pw_dir (teardown_preview env app i w)) f =
     (if f = (app, json_file i) \<and> pv_at w (preview_key app i) \<noteq> None then None else map_of (pw_dir w) f)"
  by (auto simp: teardown_preview_def Let_def delete_preview_state_def delete_conv' split: option.split)

lemma teardown_each_at:
  "pv_at (foldl (\<lambda>w (app, i). teardown_preview env app i w) w ps) k =
     (if k \<in> (\<lambda>(app, i). preview_key app i) ` set ps then None else pv_at w k)"
  by (induction ps arbitrary: w) (auto simp: teardown_preview_at split: prod.splits)

text \<open>C13. A pass of the reaper removes exactly the previews whose lifetime has ended, with their persisted
  files, however the runtime and the proxy answer; every other preview and file stays.\<close>

theorem reaper_removes_expired:
  assumes ok: "previews_ok (pw_previews w)"
  shows "pv_at (reap_expired_previews env now w) k =
       (case pv_at w k of Some s \<Rightarrow> if expired now s then None else Some s | None \<Rightarrow> None) \<and>
     map_of (pw_dir (reap_expired_previews env now w)) (app, json_file i) =
       (if \<exists>s. (preview_key app i, s) \<in> set (pw_previews w) \<and> pv_app s = app \<and> pv_preview_id s = i \<and> expired now s
        then None else map_of (pw_dir w) (app, json_file i))"
proof -
  let ?ps = "collect_expired_previews now (pw_previews w)"
  have mem: "(a, j) \<in> set ?ps \<longleftrightarrow> (\<exists>s. (preview_key a j, s) \<in> set (pw_previews w) \<and> pv_app s = a \<and> pv_preview_id s = j \<and> expired now s)" for a j
  proof -
    have "(a, j) \<in> set ?ps \<longleftrightarrow> (\<exists>e\<in>set (pw_previews w). expired now (snd e) \<and> a = pv_app (snd e) \<and> j = pv_preview_id (snd e))"
      by (auto simp: collect_expired)
    moreover have "fst e = preview_key (pv_app (snd e)) (pv_preview_id (snd e))" if "e \<in> set (pw_previews w)" for e
      using that ok by (auto simp: previews_ok_def)
    ultimately show ?thesis by (metis prod.collapse snd_conv)
  qed
  have key: "k \<in> (\<lambda>(app, i). preview_key app i) ` set ?ps \<longleftrightarrow> (\<exists>s. pv_at w k = Some s \<and> expired now s)"
  proof
    assume "k \<in> (\<lambda>(app, i). preview_key app i) ` set ?ps"
    then obtain s where "(k, s) \<in> set (pw_previews w)" "expired now s" using mem by auto
    then show "\<exists>s. pv_at w k = Some s \<and> expired now s" using ok by (auto simp: previews_ok_def)
  next
    assume "\<exists>s. pv_at w k = Some s \<and> expired now s"
    then obtain s where s: "(k, s) \<in> set (pw_previews w)" "expired now s" by (auto dest: map_of_SomeD)
    then have "k = preview_key (pv_app s) (pv_preview_id s)" using ok by (auto simp: previews_ok_def)
    then show "k \<in> (\<lambda>(app, i). preview_key app i) ` set ?ps" using s mem[of "pv_app s" "pv_preview_id s"] by force
  qed
  have dir: "map_of (pw_dir (foldl (\<lambda>w (a, j). teardown_preview env a j w) v ps)) (app, json_file i) =
      (if (app, i) \<in> set ps then None else map_of (pw_dir v) (app, json_file i))"
    if "(app, i) \<in> set ps \<Longrightarrow> pv_at v (preview_key app i) \<noteq> None \<or> map_of (pw_dir v) (app, json_file i) = None" 
       "distinct (map (\<lambda>(a, j). preview_key a j) ps)" for ps and v :: "('a, 'b) preview_world"
    using that
  proof (induction ps arbitrary: v)
    case (Cons p ps)
    obtain a j where p: "p = (a, j)" by fastforce
    have "pv_at (teardown_preview env a j v) (preview_key app i) \<noteq> None \<or>
        map_of (pw_dir (teardown_preview env a j v)) (app, json_file i) = None" if "(app, i) \<in> set ps"
    proof -
      have "preview_key app i \<in> (\<lambda>(a, j). preview_key a j) ` set ps" using that by force
      then have "preview_key app i \<noteq> preview_key a j" using Cons.prems(2) p by auto
      moreover have "pv_at v (preview_key app i) \<noteq> None \<or> map_of (pw_dir v) (app, json_file i) = None"
        using Cons.prems(1) that by simp
      ultimately show ?thesis by (auto simp: teardown_preview_at teardown_dir)
    qed
    then show ?case using Cons p by (auto simp: teardown_dir)
  qed simp
  have "distinct (map (\<lambda>(a, j). preview_key a j) ?ps)"
  proof -
    have "map (\<lambda>(a, j). preview_key a j) ?ps = map fst (filter (\<lambda>e. expired now (snd e)) (pw_previews w))"
      using ok by (auto simp: collect_expired previews_ok_def)
    then show ?thesis using ok by (simp add: previews_ok_def distinct_map_filter)
  qed
  moreover have "pv_at w (preview_key app i) \<noteq> None" if "(app, i) \<in> set ?ps"
    using that mem ok by (auto simp: previews_ok_def)
  ultimately show ?thesis
    using dir[of ?ps w] teardown_each_at[of env w ?ps k] key mem[of app i]
    by (auto simp: reap_expired_previews_def split: option.splits)
qed


section \<open>Resource caps\<close>

lemma f64_le_refl: "x \<noteq> F64NaN \<Longrightarrow> f64_le x x"
  by (cases x) auto

lemma cap_memory_bound:
  assumes "parse_memory_limit (Some cap) = Some cb"
  shows "\<exists>rb. parse_memory_limit (Some (cap_memory requested cap)) = Some rb \<and> rb \<le> cb"
proof (cases requested)
  case None
  have "parse_memory_limit None = None" by (simp add: parse_memory_limit_def)
  then show ?thesis using assms None by (simp add: cap_memory_def)
next
  case (Some r)
  then show ?thesis using assms by (auto simp: cap_memory_def split: option.split)
qed

lemma cap_cpus_bound:
  assumes "read (trim cap) = Some cv" "cv \<noteq> F64NaN"
  shows "\<exists>rv. read (trim (cap_cpus read requested cap)) = Some rv \<and> f64_le rv cv"
  using assms by (cases requested) (auto simp: cap_cpus_def f64_le_refl split: option.split)

text \<open>C15. When the server's maxima can be read, the limits of a preview, read the way the runtime reads
  them, are at most the maxima, whatever the image and the application ask for.\<close>

theorem preview_resources_capped:
  assumes "sp_max_memory s = Some cm" "parse_memory_limit (Some cm) = Some cb"
    and "sp_max_cpus s = Some cc" "read (trim cc) = Some cv" "cv \<noteq> F64NaN"
  shows "(\<exists>m rb. rs_memory (effective_preview_resources read repo (Some s) base) = Some m \<and>
            parse_memory_limit (Some m) = Some rb \<and> rb \<le> cb) \<and>
     (\<exists>c rv. rs_cpus (effective_preview_resources read repo (Some s) base) = Some c \<and>
            read (trim c) = Some rv \<and> f64_le rv cv)"
  using assms cap_memory_bound[OF assms(2)] cap_cpus_bound[of read, OF assms(4,5)]
  by (simp add: effective_preview_resources_def Let_def)

text \<open>The comparison is of numbers: a memory limit of the image that reads as zero or less passes every
  positive maximum unchanged and reaches the runtime as that number, which Docker takes for no limit;
  so does a limit whose byte count wraps around.\<close>

theorem nonpositive_memory_passes_cap:
  assumes "rs_memory r = Some m" "parse_memory_limit (Some m) = Some n" "n \<le> 0"
    and "sp_max_memory s = Some cap" "parse_memory_limit (Some cap) = Some cb" "0 < cb"
  shows "rs_memory (effective_preview_resources read (Some r) (Some s) base) = Some m \<and>
     dk_memory (docker_config_of g (spec\<lparr>cs_resources := effective_preview_resources read (Some r) (Some s) base\<rparr>)) = Some n"
  using assms by (simp add: effective_preview_resources_def cap_memory_def docker_config_of_def Let_def)

theorem nonpositive_memory_passes_cap_witness:
  "let r = \<lparr>rs_memory = Some ''17179869184g'', rs_cpus = None\<rparr>;
       s = \<lparr>sp_domain = ''p.x.dev'', sp_max_per_app = None, sp_default_ttl = None, sp_max_memory = Some ''512m'', sp_max_cpus = None\<rparr>
   in rs_memory (effective_preview_resources (\<lambda>_. None) (Some r) (Some s) \<lparr>rs_memory = None, rs_cpus = None\<rparr>) =
        Some ''17179869184g'' \<and> parse_memory_limit (Some ''17179869184g'') = Some 0"
proof -
  have p: "parse_memory_limit (Some ''17179869184g'') = Some 0" "parse_memory_limit (Some ''512m'') = Some 536870912"
    by code_simp+
  show ?thesis
    using nonpositive_memory_passes_cap[where r = "\<lparr>rs_memory = Some ''17179869184g'', rs_cpus = None\<rparr>" and n = 0 and cb = 536870912
        and s = "\<lparr>sp_domain = ''p.x.dev'', sp_max_per_app = None, sp_default_ttl = None, sp_max_memory = Some ''512m'', sp_max_cpus = None\<rparr>"
        and read = "\<lambda>_. None" and base = "\<lparr>rs_memory = None, rs_cpus = None\<rparr>"] p
    by (simp add: Let_def)
qed

theorem preview_resources_capped_witness:
  "let s = \<lparr>sp_domain = ''p.x.dev'', sp_max_per_app = None, sp_default_ttl = None, sp_max_memory = Some ''512m'', sp_max_cpus = Some ''1''\<rparr>
   in \<exists>m rb. rs_memory (effective_preview_resources (\<lambda>_. Some (F64Fin 1)) (Some \<lparr>rs_memory = Some ''2g'', rs_cpus = Some ''4''\<rparr>)
           (Some s) \<lparr>rs_memory = None, rs_cpus = None\<rparr>) = Some m \<and>
        parse_memory_limit (Some m) = Some rb \<and> rb \<le> 536870912"
proof -
  have p: "parse_memory_limit (Some ''512m'') = Some 536870912" by code_simp
  show ?thesis
    using preview_resources_capped[where cc = "''1''" and cv = "F64Fin 1" and cb = 536870912 and cm = "''512m''"
        and s = "\<lparr>sp_domain = ''p.x.dev'', sp_max_per_app = None, sp_default_ttl = None, sp_max_memory = Some ''512m'', sp_max_cpus = Some ''1''\<rparr>"
        and read = "\<lambda>_. Some (F64Fin 1)" and repo = "Some \<lparr>rs_memory = Some ''2g'', rs_cpus = Some ''4''\<rparr>"
        and base = "\<lparr>rs_memory = None, rs_cpus = None\<rparr>"] p
    unfolding Let_def by simp
qed

section \<open>Volumes\<close>

lemma path_components_append: "path_components (s @ CHR ''/'' # t) = path_components s @ path_components t"
  by (simp add: path_components_def split_on_append_sep)

lemma path_components_word: "CHR ''/'' \<notin> set w \<Longrightarrow> w \<noteq> [] \<Longrightarrow> path_components w = [w]"
  by (simp add: path_components_def split_on_no_sep)

lemma resolve_dots_append: "resolve_dots acc (xs @ ys) = resolve_dots (rev (resolve_dots acc xs)) ys"
  by (induction acc xs rule: resolve_dots.induct) auto

text \<open>The directory that a preview path denotes: the id is one more component, which the file system
  resolves.\<close>

lemma preview_path_denotes:
  assumes "CHR ''/'' \<notin> set i" "i \<noteq> []"
  shows "denotes (preview_host_path h i) =
    (if i = ''..'' then denotes h else if i = ''.'' then denotes h @ [''previews''] else denotes h @ [''previews'', i])"
proof -
  obtain n where "h = drop_trailing (CHR ''/'') h @ replicate n (CHR ''/'')" using drop_trailing_decomp by blast
  then have h: "path_components (drop_trailing (CHR ''/'') h) = path_components h"
    using path_components_trailing by metis
  have pv: "path_components (preview_host_path h i) = path_components h @ [''previews'', i]"
    using path_components_append[of "drop_trailing (CHR ''/'') h" "''previews/'' @ i @ ''/''"]
      path_components_append[of "''previews''" "i @ ''/''"] path_components_append[of i "[]"]
      path_components_word[of "''previews''"] path_components_word[OF assms]
    by (simp add: preview_host_path_def h) (simp add: path_components_def)
  show ?thesis unfolding denotes_def pv resolve_dots_append by simp
qed

lemma preview_id_word:
  assumes "validate_preview_id uni i = Inr ()" "\<And>ch. uni ch \<Longrightarrow> CHR ''/'' \<notin> set ch"
  shows "CHR ''/'' \<notin> set i" "i \<noteq> []"
proof -
  have "concat (utf8_chars s) = s" for s
    by (induction s) (auto split: list.splits)
  moreover have "tag_char uni ch \<Longrightarrow> CHR ''/'' \<notin> set ch" for ch
    using assms(2)[of ch] by (auto simp: tag_char_def byte_class_defs split: list.splits)
  ultimately show "CHR ''/'' \<notin> set i"
    using assms(1) by (metis (no_types, lifting) UN_E list_all_iff set_concat validate_preview_id_def Inl_Inr_False)
  show "i \<noteq> []" using assms(1) by (auto simp: validate_preview_id_def)
qed

text \<open>C16. A preview with an accepted id mounts each volume from the directory \<open>previews/<id>\<close> inside the
  directory of the application's volume, at the same place and with the same access mode. For different
  ids other than \<open>.\<close> and \<open>..\<close> these directories are different and neither lies inside the other, with the
  dot components of the paths resolved. The ids \<open>.\<close> and \<open>..\<close> are accepted too: the first mounts the
  directory that holds the volumes of all previews, the second the volume of the application itself.\<close>

theorem preview_volumes_isolated:
  assumes "\<And>ch. uni ch \<Longrightarrow> CHR ''/'' \<notin> set ch" "validate_preview_id uni i = Inr ()" "k < length vols"
  shows "denotes (mv_host_path (derive_preview_volumes vols i ! k)) = denotes (mv_host_path (vols ! k)) @
      (if i = ''..'' then [] else if i = ''.'' then [''previews''] else [''previews'', i]) \<and>
    mv_mount_path (derive_preview_volumes vols i ! k) = mv_mount_path (vols ! k) \<and>
    mv_read_only (derive_preview_volumes vols i ! k) = mv_read_only (vols ! k) \<and>
    (\<forall>j. validate_preview_id uni j = Inr () \<and> i \<noteq> j \<and> i \<notin> {''.'', ''..''} \<and> j \<notin> {''.'', ''..''} \<longrightarrow>
       \<not> prefix (denotes (mv_host_path (derive_preview_volumes vols i ! k)))
                (denotes (mv_host_path (derive_preview_volumes vols j ! k)))) \<and>
    validate_preview_id uni ''.'' = Inr () \<and> validate_preview_id uni ''..'' = Inr ()"
proof -
  have path: "mv_host_path (derive_preview_volumes vols j ! k) = preview_host_path (mv_host_path (vols ! k)) j" for j
    using assms(3) by (simp add: derive_preview_volumes_def)
  have den: "denotes (preview_host_path h j) = denotes h @
      (if j = ''..'' then [] else if j = ''.'' then [''previews''] else [''previews'', j])"
    if "validate_preview_id uni j = Inr ()" for h j
    using preview_path_denotes[of j h] preview_id_word[OF that assms(1)] by auto
  have "validate_preview_id uni ''.'' = Inr () \<and> validate_preview_id uni ''..'' = Inr ()"
    by (simp add: validate_preview_id_def tag_char_def utf8_continues_def less_eq_char_def)
  then show ?thesis unfolding path using assms(2,3) den by (auto simp: derive_preview_volumes_def)
qed

definition data_volume :: merged_volume where
  "data_volume = \<lparr>mv_host_path = ''/data/'', mv_mount_path = ''/d'', mv_read_only = False\<rparr>"

theorem preview_volumes_isolated_witness:
  "denotes (mv_host_path (derive_preview_volumes [data_volume] ''pr-1'' ! 0)) = [''data'', ''previews'', ''pr-1''] \<and>
   \<not> prefix (denotes (mv_host_path (derive_preview_volumes [data_volume] ''pr-1'' ! 0)))
       (denotes (mv_host_path (derive_preview_volumes [data_volume] ''pr-12'' ! 0)))"
proof -
  have v: "validate_preview_id (\<lambda>_. False) ''pr-1'' = Inr ()" "validate_preview_id (\<lambda>_. False) ''pr-12'' = Inr ()"
    "denotes (mv_host_path data_volume) = [''data'']"
    by code_simp+
  from preview_volumes_isolated[of "\<lambda>_. False" "''pr-1''" 0 "[data_volume]", OF _ v(1)] v(2,3)
  show ?thesis by (auto dest!: spec[of _ "''pr-12''"])
qed

end
