(* ===== verification/PreviewSamples.thy ===== *)
theory PreviewSamples
  imports PreviewOps DeployProps
begin

text \<open>
  A preview deploy on the reference runtime and the reference Caddy server, and with it the
  applications of the theorems about previews.
\<close>

definition preview_repo :: repo_config where
  "preview_repo = sample_repo\<lparr>rc_preview := Some \<lparr>pc_enabled = True, pc_ttl = Some (secs 3600), pc_max = None,
     pc_resources = None, pc_database = None, pc_hooks = None\<rparr>\<rparr>"

definition sample_preview_env :: "(ref_runtime, caddy_server) preview_env" where
  "sample_preview_env =
     \<lparr>pe_runtime = ref_runtime_ops\<lparr>ro_extract := \<lambda>_ _ _ r. (r, Inr (Some ''x''))\<rparr>, pe_exec = (\<lambda>_ _ r. (r, Inr [])), pe_set_routes = set_routes (server_ops True),
      pe_remove_routes = remove_routes (server_ops True), pe_probes = (\<lambda>_ _ _. ProbeResponse 200),
      pe_parse_repo = (\<lambda>_. Some preview_repo), pe_parse_yaml = (\<lambda>_. None), pe_emit_yaml = (\<lambda>_. None),
      pe_f64 = (\<lambda>_. None), pe_add_time = (\<lambda>a b. Some (a + b)), pe_registries = [], pe_env_file = (\<lambda>_. None),
      pe_config = sample_slip\<lparr>sc_preview := Some \<lparr>sp_domain = ''p.x.dev'', sp_max_per_app = Some 2,
        sp_default_ttl = None, sp_max_memory = None, sp_max_cpus = None\<rparr>\<rparr>,
      pe_app = sample_server_app, pe_secrets = None, pe_mkdir_ok = True, pe_write_ok = True,
      pe_pod_suffix = ''01abc'', pe_storage = ''/var/lib/slip'', pe_now = 1000\<rparr>"

definition sample_ctx :: preview_ctx where
  "sample_ctx = \<lparr>pq_deploy_id = ''dep_9'', pq_app = ''web'', pq_image = ''ghcr.io/me/web'', pq_tag = ''pr3'',
     pq_preview_id = ''pr-3'', pq_sha = ''abc'', pq_images = []\<rparr>"

definition sample_preview :: "string \<Rightarrow> string \<Rightarrow> int \<Rightarrow> preview_state" where
  "sample_preview i c t0 =
     \<lparr>pv_preview_id = i, pv_app = ''web'', pv_sha = ''abc'', pv_status = StRunning, pv_container_id = Some c,
      pv_pod_name = None, pv_port = Some 4000, pv_tag = Some ''v1'', pv_deployed_at = t0, pv_expires_at = Some (t0 + 100),
      pv_domain = Some (i @ ''.p.x.dev''), pv_manifest_path = None, pv_deploy_id = None\<rparr>"

definition sample_previews :: "(ref_runtime, caddy_server) preview_world" where
  "sample_previews =
     \<lparr>pw_previews = [(''web:pr-2'', sample_preview ''pr-2'' ''b'' 20), (''web:pr-1'', sample_preview ''pr-1'' ''a'' 10)],
      pw_dir = [], pw_manifests = [],
      pw_rt = \<lparr>rf_next = 1, rf_started = [''a'', ''b''], rf_dead = [], rf_pods = [],
        rf_files = [(''/slip/slip.toml'', ''x'')], rf_issued = [''a'', ''b''], rf_faults = []\<rparr>,
      pw_px = \<lparr>sv_routes = [], sv_policies = None, sv_config = JNull, sv_faults = []\<rparr>\<rparr>"

lemma sample_previews_ok: "previews_ok (pw_previews sample_previews)"
  by (simp add: previews_ok_def sample_previews_def sample_preview_def preview_key_def)

lemma sample_deploy_done: "fst (execute_preview_deploy_inner sample_preview_env sample_ctx sample_previews) = PvDone"
  by code_simp


lemma sample_config: "is_ok (preview_config_of sample_preview_env sample_ctx ''x'')"
  by code_simp

lemma sample_limit: "preview_config_of sample_preview_env sample_ctx ''x'' = Inr m \<Longrightarrow> limit_of sample_preview_env m = Some 2"
  by (auto simp: preview_config_of_def merge_config_def limit_of_def resolve_max_limit_def sample_preview_env_def preview_repo_def
      sample_server_app_def sample_slip_def result_simps split: if_splits sum.splits)


theorem reaper_removes_expired_witness:
  "pv_at (reap_expired_previews sample_preview_env 115 sample_previews) ''web:pr-1'' = None \<and>
   pv_at (reap_expired_previews sample_preview_env 115 sample_previews) ''web:pr-2'' = Some (sample_preview ''pr-2'' ''b'' 20)"
  using reaper_removes_expired[OF sample_previews_ok, of sample_preview_env 115 "''web:pr-1''"]
    reaper_removes_expired[OF sample_previews_ok, of sample_preview_env 115 "''web:pr-2''"]
  by (simp add: sample_previews_def sample_preview_def expired_def)

definition failing_pull :: "(ref_runtime, caddy_server) preview_env" where
  "failing_pull = sample_preview_env\<lparr>pe_runtime := ref_runtime_ops\<lparr>ro_pull := \<lambda>_ _ _ r. (r, Inl RtPullFailed)\<rparr>\<rparr>"

theorem failed_redeploy_forgets_witness:
  "let ctx = sample_ctx\<lparr>pq_preview_id := ''pr-1''\<rparr>;
       w1 = snd (execute_preview_deploy_inner failing_pull ctx sample_previews);
       w2 = teardown_preview failing_pull ''web'' ''pr-1'' w1
   in pv_at w2 ''web:pr-1'' = None \<and> ''a'' \<in> set (rf_started (pw_rt w2))"
proof -
  let ?ctx = "sample_ctx\<lparr>pq_preview_id := ''pr-1''\<rparr>"
  have k: "ctx_key ?ctx = ''web:pr-1''" by (simp add: ctx_key_def preview_key_def sample_ctx_def)
  have "pv_at sample_previews (ctx_key ?ctx) = Some (sample_preview ''pr-1'' ''a'' 10)"
    unfolding k by (simp add: sample_previews_def)
  moreover have "ro_pull (pe_runtime failing_pull) (pq_image ?ctx) (pq_tag ?ctx)
      (resolve_registry_credential (pq_image ?ctx) (pe_registries failing_pull)) (pw_rt sample_previews) =
      (pw_rt sample_previews, Inl RtPullFailed)"
    by (simp add: failing_pull_def)
  ultimately have "\<exists>w1. execute_preview_deploy_inner failing_pull ?ctx sample_previews = (PvFailed PfPull, w1) \<and>
      (let w2 = teardown_preview failing_pull (pq_app ?ctx) (pq_preview_id ?ctx) w1 in
        pw_rt w2 = pw_rt sample_previews \<and> pv_at w2 (ctx_key ?ctx) = None)"
    using failed_redeploy_forgets by (fastforce simp: Let_def)
  then show ?thesis unfolding k by (auto simp: Let_def sample_ctx_def) (simp add: sample_previews_def)
qed

end
