(* ===== verification/TlsRenew.thy ===== *)
theory TlsRenew
  imports CaddyProps ApiTypes
begin

text \<open>
  \<open>POST /v1/tls/renew\<close>: the certificate renewal of \<open>api.rs\<close> and the requests of \<open>caddy.rs\<close> it makes.
  The cycle sets \<open>renewal_window_ratio\<close> of the host's policy to \<open>1.0\<close>, reloads Caddy, polls the
  served certificate and puts the ratio back.  A ratio is the text of its JSON number.  The
  certificate probes a loop makes before its deadline are a list; a loop that does not see a new
  certificate ends at its deadline.
\<close>

section \<open>The policy of a host\<close>

definition get_tls_policy :: "'c caddy_ops \<Rightarrow> string \<Rightarrow> 'c \<Rightarrow> caddy_error + json option" where
  "get_tls_policy ops host c =
     (let (h, body) = op_get_policies ops c in
      case h of
        HttpTransport \<Rightarrow> Inl CaddyHttp
      | HttpStatus s \<Rightarrow>
          if \<not> is_success s then Inr None else Inr (List.find (policy_covers host) body))"

definition via_tailscale :: "json \<Rightarrow> bool" where
  "via_tailscale p =
     (case Option.bind (jget ''get_certificate'' p) jarr of
        Some ms \<Rightarrow> list_ex (\<lambda>m. Option.bind (jget ''via'' m) jstr = Some ''tailscale'') ms
      | None \<Rightarrow> False)"

definition is_tailscale_managed :: "'c caddy_ops \<Rightarrow> string \<Rightarrow> 'c \<Rightarrow> caddy_error + bool" where
  "is_tailscale_managed ops host c =
     and_then (get_tls_policy ops host c) (\<lambda>p. Inr (case p of Some q \<Rightarrow> via_tailscale q | None \<Rightarrow> False))"

section \<open>The renewal window ratio\<close>

text \<open>The requests on a policy by its position in the list and on the field of a policy.\<close>

record 'c renew_ops =
  rn_caddy :: "'c caddy_ops"
  rn_patch_at :: "nat \<Rightarrow> json \<Rightarrow> 'c \<Rightarrow> 'c \<times> http_result"
  rn_delete_ratio_id :: "string \<Rightarrow> 'c \<Rightarrow> 'c \<times> http_result"
  rn_delete_ratio_at :: "nat \<Rightarrow> 'c \<Rightarrow> 'c \<times> http_result"

definition ratio_key :: string where "ratio_key = ''renewal_window_ratio''"

definition ratio_body :: "string \<Rightarrow> json" where
  "ratio_body ratio = JObj [(ratio_key, JNum ratio)]"

fun as_ratio :: "json \<Rightarrow> string option" where
  "as_ratio (JNum r) = Some r"
| "as_ratio _ = None"

definition policy_ratio :: "json \<Rightarrow> string option" where
  "policy_ratio p = Option.bind (jget ratio_key p) as_ratio"

text \<open>A request by id; when it is refused, the position of the policy that covers the host is looked
  up and the request repeated there.\<close>

definition position_of_policy :: "'c renew_ops \<Rightarrow> string \<Rightarrow> 'c \<Rightarrow> caddy_error + nat" where
  "position_of_policy ops host c =
     (let (h, body) = op_get_policies (rn_caddy ops) c in
      case h of
        HttpTransport \<Rightarrow> Inl CaddyHttp
      | HttpStatus s \<Rightarrow>
          if \<not> is_success s then Inl (CaddyTlsConfigFailed s)
          else ok_or (find_idx (policy_covers host) body) (CaddyTlsConfigFailed s))"

definition by_id_or_position ::
  "'c renew_ops \<Rightarrow> string \<Rightarrow> ('c \<Rightarrow> 'c \<times> http_result) \<Rightarrow> (nat \<Rightarrow> 'c \<Rightarrow> 'c \<times> http_result) \<Rightarrow> 'c \<Rightarrow>
     'c \<times> (caddy_error + unit)" where
  "by_id_or_position ops host by_id at_position c =
     (let (c1, h) = by_id c in
      case h of
        HttpTransport \<Rightarrow> (c1, Inl CaddyHttp)
      | HttpStatus s \<Rightarrow>
          if is_success s then (c1, Inr ())
          else (case position_of_policy ops host c1 of
                  Inl e \<Rightarrow> (c1, Inl e)
                | Inr k \<Rightarrow>
                    (let (c2, h2) = at_position k c1 in
                     case h2 of
                       HttpTransport \<Rightarrow> (c2, Inl CaddyHttp)
                     | HttpStatus s2 \<Rightarrow>
                         if is_success s2 then (c2, Inr ()) else (c2, Inl (CaddyTlsConfigFailed s2)))))"

definition patch_tls_policy_ratio :: "'c renew_ops \<Rightarrow> string \<Rightarrow> string \<Rightarrow> 'c \<Rightarrow> 'c \<times> (caddy_error + unit)" where
  "patch_tls_policy_ratio ops host ratio c =
     by_id_or_position ops host (op_patch_id (rn_caddy ops) (tls_policy_id host) (ratio_body ratio))
       (\<lambda>k. rn_patch_at ops k (ratio_body ratio)) c"

definition delete_tls_policy_ratio :: "'c renew_ops \<Rightarrow> string \<Rightarrow> 'c \<Rightarrow> 'c \<times> (caddy_error + unit)" where
  "delete_tls_policy_ratio ops host c =
     by_id_or_position ops host (rn_delete_ratio_id ops (tls_policy_id host)) (rn_delete_ratio_at ops) c"

definition verify_ratio_restored :: "'c renew_ops \<Rightarrow> string \<Rightarrow> string option \<Rightarrow> 'c \<Rightarrow> caddy_error + bool" where
  "verify_ratio_restored ops host expected c =
     and_then (get_tls_policy (rn_caddy ops) host c) (\<lambda>p.
       Inr (case (p, expected) of
              (None, _) \<Rightarrow> False
            | (Some q, None) \<Rightarrow> jget ratio_key q = None
            | (Some q, Some r) \<Rightarrow> policy_ratio q = Some r))"

definition caddy_reload :: "'c caddy_ops \<Rightarrow> 'c \<Rightarrow> 'c \<times> (caddy_error + unit)" where
  "caddy_reload ops c =
     (case op_get_config ops c of
        (HttpTransport, _) \<Rightarrow> (c, Inl CaddyHttp)
      | (HttpStatus s, config) \<Rightarrow>
          if \<not> is_success s \<or> \<not> is_jobj config then (c, Inl (CaddyTlsConfigFailed s))
          else (let (c1, h) = op_load ops config c in
                case h of
                  HttpTransport \<Rightarrow> (c1, Inl CaddyHttp)
                | HttpStatus s1 \<Rightarrow> if is_success s1 then (c1, Inr ()) else (c1, Inl (CaddyTlsConfigFailed s1))))"

section \<open>The cycle\<close>

datatype renewal_outcome =
    RenewSuccess "string option" "string option" bool
  | RenewNotProven bool
  | RenewTimeout bool
  | RestorationFailed
  | RenewError caddy_error

text \<open>The answer of one certificate probe; \<open>Inl\<close> is a connection failure.\<close>

type_synonym probe_answer = "unit + cert_probe option"

fun poll_renewed :: "cert_probe option \<Rightarrow> probe_answer list \<Rightarrow> cert_probe option" where
  "poll_renewed before [] = None"
| "poll_renewed before (x # xs) =
     (case x of
        Inr (Some p) \<Rightarrow> if cert_renewed before (Some p) then Some p else poll_renewed before xs
      | _ \<Rightarrow> poll_renewed before xs)"

definition restore_ratio :: "'c renew_ops \<Rightarrow> string \<Rightarrow> string option \<Rightarrow> 'c \<Rightarrow> 'c \<times> bool" where
  "restore_ratio ops host original c =
     (let (c1, x) = (case original of
                       Some r \<Rightarrow> patch_tls_policy_ratio ops host r c
                     | None \<Rightarrow> delete_tls_policy_ratio ops host c)
      in case x of
           Inr _ \<Rightarrow> (fst (caddy_reload (rn_caddy ops) c1), True)
         | Inl _ \<Rightarrow> (c1, False))"

text \<open>What the outside does during a cycle: the probe before it, the polls up to the deadline, the
  restart of Caddy (with the state it leaves) and the polls after it.\<close>

record 'c renewal_run =
  rr_before :: probe_answer
  rr_polls :: "probe_answer list"
  rr_restart :: "'c \<Rightarrow> 'c \<times> bool"
  rr_polls_after :: "probe_answer list"

definition finish_renewal ::
  "'c renew_ops \<Rightarrow> string \<Rightarrow> string option \<Rightarrow> string option \<Rightarrow> cert_probe option \<Rightarrow> bool \<Rightarrow> 'c \<Rightarrow> 'c \<times> renewal_outcome" where
  "finish_renewal ops host original before_not_after after timed_out c =
     (case restore_ratio ops host original c of
        (c1, False) \<Rightarrow> (c1, RestorationFailed)
      | (c1, True) \<Rightarrow>
          if verify_ratio_restored ops host original c1 = Inr False then (c1, RestorationFailed)
          else (c1, case after of
                      Some p \<Rightarrow> RenewSuccess before_not_after (cp_not_after p) True
                    | None \<Rightarrow> if timed_out then RenewTimeout True else RenewNotProven True))"

definition run_renewal_cycle ::
  "'c renew_ops \<Rightarrow> 'c renewal_run \<Rightarrow> string \<Rightarrow> bool \<Rightarrow> string option \<Rightarrow> 'c \<Rightarrow> 'c \<times> renewal_outcome" where
  "run_renewal_cycle ops run host restart original c =
     (let before = (case rr_before run of Inr p \<Rightarrow> p | Inl _ \<Rightarrow> None);
          bna = Option.bind before cp_not_after
      in case patch_tls_policy_ratio ops host ''1.0'' c of
           (c1, Inl e) \<Rightarrow> (c1, RenewError e)
         | (c1, Inr _) \<Rightarrow>
             (case caddy_reload (rn_caddy ops) c1 of
                (c2, Inl e) \<Rightarrow> (fst (restore_ratio ops host original c2), RenewError e)
              | (c2, Inr _) \<Rightarrow>
                  (case poll_renewed before (rr_polls run) of
                     Some p \<Rightarrow> finish_renewal ops host original bna (Some p) False c2
                   | None \<Rightarrow>
                       if restart then
                         (case rr_restart run c2 of
                            (c3, True) \<Rightarrow>
                              finish_renewal ops host original bna (poll_renewed before (rr_polls_after run)) True c3
                          | (c3, False) \<Rightarrow> finish_renewal ops host original bna None True c3)
                       else finish_renewal ops host original bna None True c2)))"

section \<open>The handler\<close>

text \<open>The check of the host that the certificate probe will connect to.\<close>

definition validate_renew_host :: "(string \<Rightarrow> 128 word option) \<Rightarrow> string \<Rightarrow> app_error + unit" where
  "validate_renew_host v6 host =
     (if host = [] then Inl (ApiBadRequest HostEmpty)
      else case parse_ip v6 host of
        Some (V4 n) \<Rightarrow>
          if v4_loopback n \<or> v4_link_local n \<or> n = 0 then Inl (ApiBadRequest (HostLoopback host)) else Inr ()
      | Some (V6 n) \<Rightarrow> if n = 1 \<or> n = 0 then Inl (ApiBadRequest (HostLoopback host)) else Inr ()
      | None \<Rightarrow>
          if \<not> List.member host (CHR ''.'') then Inl (ApiBadRequest (HostNotFqdn host))
          else if host = ''metadata.google.internal'' \<or> ends_with ''.metadata'' host
          then Inl (ApiBadRequest (HostMetadata host))
          else Inr ())"

record renew_result =
  rw_before :: "string option"
  rw_after :: "string option"
  rw_renewed :: bool
  rw_restored :: bool
  rw_managed_by :: "string option"

fun renew_response :: "string \<Rightarrow> renewal_outcome \<Rightarrow> app_error + renew_result" where
  "renew_response host (RenewSuccess b a restored) =
     Inr \<lparr>rw_before = b, rw_after = a, rw_renewed = True, rw_restored = restored, rw_managed_by = None\<rparr>"
| "renew_response host (RenewNotProven restored) = Inl (ApiRenewNotProven (NotProven restored))"
| "renew_response host (RenewTimeout restored) = Inl (ApiRenewTimeout (TimedOut restored))"
| "renew_response host RestorationFailed = Inl (ApiInternal (RevertFailed host))"
| "renew_response host (RenewError e) = Inl (ApiInternal RenewFailed)"

text \<open>\<open>locks\<close> are the hosts whose renewal is in progress; the cycle holds the lock until it ends.\<close>

definition handle_tls_renew ::
  "(string \<Rightarrow> 128 word option) \<Rightarrow> 'c renew_ops \<Rightarrow> 'c renewal_run \<Rightarrow> string list \<Rightarrow> string \<Rightarrow> bool \<Rightarrow> 'c \<Rightarrow>
     'c \<times> (app_error + renew_result)" where
  "handle_tls_renew v6 ops run locks host restart c =
     (case and_then (validate_renew_host v6 host) (\<lambda>_.
           require (\<not> List.member locks host) (ApiConflict (RenewBusy host))) of
        Inl e \<Rightarrow> (c, Inl e)
      | Inr _ \<Rightarrow>
          if is_tailscale_managed (rn_caddy ops) host c = Inr True
          then (c, Inr \<lparr>rw_before = None, rw_after = None, rw_renewed = False, rw_restored = True,
                        rw_managed_by = Some ''tailscale''\<rparr>)
          else (case get_tls_policy (rn_caddy ops) host c of
                  Inl _ \<Rightarrow> (c, Inl (ApiInternal PolicyQueryFailed))
                | Inr None \<Rightarrow> (c, Inl (ApiNotFound (PolicyMissing host)))
                | Inr (Some p) \<Rightarrow>
                    (let (c1, out) = run_renewal_cycle ops run host restart (policy_ratio p) c
                     in (c1, renew_response host out))))"

end
