(* ===== verification/RenewProps.thy ===== *)
theory RenewProps
  imports TlsRenew
begin

text \<open>
  What a certificate renewal does to a Caddy server that follows its documentation: PATCH replaces
  the element it names, so the request that should set one field of the policy leaves that field only.
\<close>

section \<open>A server that follows the documentation\<close>

definition answered :: "'c \<times> http_result \<Rightarrow> bool" where
  "answered r \<longleftrightarrow> snd r \<noteq> HttpTransport"

text \<open>PATCH replaces the element it names, DELETE removes the field of the element it names, and loading
  the configuration the server has changes nothing.  Every request is answered.\<close>

definition renew_documented :: "'c renew_ops \<Rightarrow> ('c \<Rightarrow> json list) \<Rightarrow> ('c \<Rightarrow> json list) \<Rightarrow> bool" where
  "renew_documented ops rt pl \<longleftrightarrow>
     caddy_documented (rn_caddy ops) rt pl \<and>
     (\<forall>k b c c' h. rn_patch_at ops k b c = (c', h) \<longrightarrow>
        (ok_status h \<longrightarrow> k < length (pl c) \<and> pl c' = (pl c)[k := b] \<and> rt c' = rt c) \<and>
        (\<not> ok_status h \<longrightarrow> pl c' = pl c \<and> rt c' = rt c)) \<and>
     (\<forall>i c c' h. rn_delete_ratio_id ops i c = (c', h) \<longrightarrow>
        (ok_status h \<longrightarrow> with_id i (rt c) \<or> with_id i (pl c)) \<and>
        (\<not> ok_status h \<longrightarrow> pl c' = pl c \<and> rt c' = rt c)) \<and>
     (\<forall>s cfg c c' h. op_get_config (rn_caddy ops) c = (HttpStatus s, cfg) \<longrightarrow> is_success s \<longrightarrow>
        op_load (rn_caddy ops) cfg c = (c', h) \<longrightarrow> pl c' = pl c \<and> rt c' = rt c) \<and>
     (\<forall>i b c. answered (op_patch_id (rn_caddy ops) i b c)) \<and>
     (\<forall>i c. answered (rn_delete_ratio_id ops i c)) \<and> (\<forall>k b c. answered (rn_patch_at ops k b c)) \<and>
     (\<forall>c. fst (op_get_policies (rn_caddy ops) c) \<noteq> HttpTransport)"

lemma replaces_unique:
  assumes "replaces i b (pre @ old # post) ys" "json_id old = Some i" "\<not> with_id i (pre @ post)"
  shows "ys = pre @ b # post"
proof -
  from assms(1) obtain p q r where x: "pre @ old # post = p @ q # r" "json_id q = Some i" "ys = p @ b # r"
    unfolding replaces_def by blast
  have "p = pre \<and> r = post"
    using x assms by (auto simp: append_eq_append_conv2 append_eq_Cons_conv Cons_eq_append_conv with_id_def)
  then show ?thesis using x(3) by simp
qed

locale renewal_server =
  fixes ops :: "'c renew_ops" and rt :: "'c \<Rightarrow> json list" and pl :: "'c \<Rightarrow> json list"
  assumes renew_documented: "renew_documented ops rt pl"
begin

lemma documented: "caddy_documented (rn_caddy ops) rt pl"
  using renew_documented by (simp add: renew_documented_def)

lemma patch_at:
  "rn_patch_at ops k b c = (c', h) \<Longrightarrow>
     (ok_status h \<longrightarrow> k < length (pl c) \<and> pl c' = (pl c)[k := b] \<and> rt c' = rt c) \<and>
     (\<not> ok_status h \<longrightarrow> pl c' = pl c \<and> rt c' = rt c)"
  using renew_documented unfolding renew_documented_def by (elim conjE) fastforce

lemma delete_field:
  "rn_delete_ratio_id ops i c = (c', h) \<Longrightarrow>
     (ok_status h \<longrightarrow> with_id i (rt c) \<or> with_id i (pl c)) \<and> (\<not> ok_status h \<longrightarrow> pl c' = pl c \<and> rt c' = rt c)"
  using renew_documented unfolding renew_documented_def by blast

lemma answers:
  "op_patch_id (rn_caddy ops) i b c = (c', h) \<Longrightarrow> h \<noteq> HttpTransport"
  "rn_delete_ratio_id ops i c = (c', h) \<Longrightarrow> h \<noteq> HttpTransport"
  "rn_patch_at ops k b c = (c', h) \<Longrightarrow> h \<noteq> HttpTransport"
  using renew_documented unfolding renew_documented_def answered_def by (metis snd_conv)+

lemma reload_same: "caddy_reload (rn_caddy ops) c = (c', x) \<Longrightarrow> pl c' = pl c \<and> rt c' = rt c"
proof -
  assume r: "caddy_reload (rn_caddy ops) c = (c', x)"
  obtain h cfg where g: "op_get_config (rn_caddy ops) c = (h, cfg)" by fastforce
  obtain c1 h1 where l: "op_load (rn_caddy ops) cfg c = (c1, h1)" by fastforce
  have "h = HttpStatus s \<Longrightarrow> is_success s \<Longrightarrow> pl c1 = pl c \<and> rt c1 = rt c" for s
    using renew_documented g l unfolding renew_documented_def by blast
  then show ?thesis using r g l
    by (auto simp: caddy_reload_def split: http_result.splits if_splits)
qed

text \<open>Where no policy covers the host and no element has its id, the requests change nothing.\<close>

definition forgotten :: "string \<Rightarrow> 'c \<Rightarrow> bool" where
  "forgotten host c \<longleftrightarrow> \<not> list_ex (policy_covers host) (pl c) \<and>
     \<not> with_id (tls_policy_id host) (pl c) \<and> \<not> with_id (tls_policy_id host) (rt c)"

lemma position_forgotten: "forgotten host c \<Longrightarrow> \<exists>e. position_of_policy ops host c = Inl e"
proof -
  assume f: "forgotten host c"
  obtain h body where g: "op_get_policies (rn_caddy ops) c = (h, body)" by fastforce
  have "ok_status h \<longrightarrow> body = pl c"
    using documented g unfolding caddy_documented_def by blast
  then have "h = HttpStatus s \<Longrightarrow> is_success s \<Longrightarrow> find_idx (policy_covers host) body = None" for s
    using f by (auto simp: forgotten_def ok_status_def find_idx_None_iff list_ex_iff)
  then show ?thesis using g by (auto simp: position_of_policy_def split: http_result.splits)
qed

lemma refused_when_forgotten:
  assumes f: "forgotten host c" and s: "by_id c = (c1, HttpStatus s)" "\<not> is_success s" "pl c1 = pl c \<and> rt c1 = rt c"
  shows "\<exists>e. by_id_or_position ops host by_id at_position c = (c1, Inl e)"
proof -
  have "forgotten host c1" using f s(3) by (simp add: forgotten_def)
  from position_forgotten[OF this] show ?thesis using s(1,2) by (auto simp: by_id_or_position_def)
qed

lemma restore_forgotten:
  assumes f: "forgotten host c"
  shows "\<exists>c'. restore_ratio ops host original c = (c', False) \<and> pl c' = pl c"
proof (cases original)
  case None
  obtain c1 h where d: "rn_delete_ratio_id ops (tls_policy_id host) c = (c1, h)" by fastforce
  obtain s where h: "h = HttpStatus s" using answers(2)[OF d] by (cases h) auto
  have n: "\<not> is_success s" and e: "pl c1 = pl c \<and> rt c1 = rt c"
    using delete_field[OF d] f h by (auto simp: forgotten_def ok_status_def)
  obtain e' where "delete_tls_policy_ratio ops host c = (c1, Inl e')"
    unfolding delete_tls_policy_ratio_def using refused_when_forgotten[OF f _ n e] d h by metis
  then show ?thesis using None e by (simp add: restore_ratio_def)
next
  case (Some r)
  obtain c1 h where d: "op_patch_id (rn_caddy ops) (tls_policy_id host) (ratio_body r) c = (c1, h)" by fastforce
  obtain s where h: "h = HttpStatus s" using answers(1)[OF d] by (cases h) auto
  have n: "\<not> is_success s"
    using caddy_admin.patch_ok[OF caddy_admin.intro[OF documented] d] f h
    by (auto simp: forgotten_def ok_status_def replaces_def with_id_def)
  have e: "pl c1 = pl c \<and> rt c1 = rt c"
    using caddy_admin.patch_fail[OF caddy_admin.intro[OF documented]] d h n by blast
  obtain e' where "patch_tls_policy_ratio ops host r c = (c1, Inl e')"
    unfolding patch_tls_policy_ratio_def using refused_when_forgotten[OF f _ n e] d h by metis
  then show ?thesis using Some e by (simp add: restore_ratio_def)
qed

text \<open>The owned policy of a host: the only one that covers it, found by its id.\<close>

definition owned :: "string \<Rightarrow> json list \<Rightarrow> json \<Rightarrow> json list \<Rightarrow> 'c \<Rightarrow> bool" where
  "owned host pre old post c \<longleftrightarrow> pl c = pre @ old # post \<and> json_id old = Some (tls_policy_id host) \<and>
     policy_covers host old \<and> \<not> list_ex (policy_covers host) (pre @ post) \<and>
     \<not> with_id (tls_policy_id host) (pre @ post) \<and> \<not> with_id (tls_policy_id host) (rt c)"

lemma ratio_body_bare [simp]: "json_id (ratio_body r) = None" "\<not> policy_covers host (ratio_body r)"
  by (simp_all add: ratio_body_def json_id_def policy_covers_def policy_subjects_def ratio_key_def)

lemma bump_replaces:
  assumes o: "owned host pre old post c"
    and b: "patch_tls_policy_ratio ops host r c = (c', x)"
  shows "(x = Inr () \<and> pl c' = pre @ ratio_body r # post \<and> forgotten host c') \<or>
         ((\<exists>e. x = Inl e) \<and> pl c' = pl c \<and>
            \<not> ok_status (snd (op_patch_id (rn_caddy ops) (tls_policy_id host) (ratio_body r) c)))"
proof -
  let ?i = "tls_policy_id host"
  have own: "pl c = pre @ old # post" "\<not> with_id ?i (pre @ post)" "\<not> with_id ?i (rt c)"
      "json_id old = Some ?i" "policy_covers host old" "\<not> list_ex (policy_covers host) (pre @ post)"
    using o by (simp_all add: owned_def)
  have gone: "forgotten host d" if "pl d = pre @ ratio_body r # post" "rt d = rt c" for d
    using own that by (auto simp: forgotten_def with_id_def)
  obtain c1 h where p: "op_patch_id (rn_caddy ops) ?i (ratio_body r) c = (c1, h)" by fastforce
  obtain s where h: "h = HttpStatus s" using answers(1)[OF p] by (cases h) auto
  show ?thesis
  proof (cases "is_success s")
    case True
    then have "replaces ?i (ratio_body r) (pl c) (pl c1) \<and> rt c1 = rt c"
      using caddy_admin.patch_ok[OF caddy_admin.intro[OF documented] p] own(3) h
      by (auto simp: ok_status_def replaces_def with_id_def)
    then have "pl c1 = pre @ ratio_body r # post" "rt c1 = rt c"
      using own replaces_unique[of ?i "ratio_body r" pre old post "pl c1"] by auto
    then show ?thesis using b p h True gone
      by (auto simp: patch_tls_policy_ratio_def by_id_or_position_def)
  next
    case False
    have e: "pl c1 = pl c" "rt c1 = rt c"
      using caddy_admin.patch_fail[OF caddy_admin.intro[OF documented]] p h False by blast+
    show ?thesis
    proof (cases "position_of_policy ops host c1")
      case (Inl e')
      then show ?thesis using b p h False e
        by (auto simp: patch_tls_policy_ratio_def by_id_or_position_def ok_status_def)
    next
      case (Inr k)
      obtain h0 body where g: "op_get_policies (rn_caddy ops) c1 = (h0, body)" by fastforce
      then have "ok_status h0" "find_idx (policy_covers host) body = Some k"
        using Inr by (auto simp: position_of_policy_def ok_status_def ok_or_Inr_iff split: http_result.splits if_splits)
      then have "find_idx (policy_covers host) (pl c) = Some k"
        using documented g e(1) unfolding caddy_documented_def by metis
      then have k: "k = length pre"
        using find_idx_append_sep[of pre "policy_covers host" old post] own by (auto simp: list_ex_iff)
      obtain c2 h2 where q: "rn_patch_at ops k (ratio_body r) c1 = (c2, h2)" by fastforce
      obtain s2 where h2: "h2 = HttpStatus s2" using answers(3)[OF q] by (cases h2) auto
      have "is_success s2 \<Longrightarrow> pl c2 = pre @ ratio_body r # post \<and> rt c2 = rt c"
        and "\<not> is_success s2 \<Longrightarrow> pl c2 = pl c"
        using patch_at[OF q] h2 e own(1) k by (auto simp: ok_status_def list_update_append)
      then show ?thesis using b p h False Inr q h2 gone
        by (cases "is_success s2") (auto simp: patch_tls_policy_ratio_def by_id_or_position_def ok_status_def)
    qed
  qed
qed

lemma finish_forgotten:
  assumes "forgotten host c" "finish_renewal ops host original b a t c = (c', out)"
  shows "out = RestorationFailed \<and> pl c' = pl c"
  using restore_forgotten[OF assms(1), of original] assms(2) by (auto simp: finish_renewal_def)

lemma cycle_replaces:
  assumes o: "owned host pre old post c"
    and keep: "\<And>d. pl (fst (rr_restart run d)) = pl d \<and> rt (fst (rr_restart run d)) = rt d"
    and r: "run_renewal_cycle ops run host restart original c = (c', out)"
  shows "(pl c' = pl c \<and> (\<exists>e. out = RenewError e) \<and>
            \<not> ok_status (snd (op_patch_id (rn_caddy ops) (tls_policy_id host) (ratio_body ''1.0'') c))) \<or>
         (pl c' = pre @ ratio_body ''1.0'' # post \<and> (out = RestorationFailed \<or> (\<exists>e. out = RenewError e)))"
proof -
  obtain c1 x where b: "patch_tls_policy_ratio ops host ''1.0'' c = (c1, x)" by fastforce
  note bump = bump_replaces[OF o b]
  show ?thesis
  proof (cases x)
    case (Inl e)
    then show ?thesis using bump r b by (auto simp: run_renewal_cycle_def Let_def)
  next
    case (Inr u)
    then have p: "pl c1 = pre @ ratio_body ''1.0'' # post" "forgotten host c1" using bump by auto
    obtain c2 y where l: "caddy_reload (rn_caddy ops) c1 = (c2, y)" by fastforce
    have f2: "forgotten host c2" "pl c2 = pl c1" using reload_same[OF l] p(2) by (simp_all add: forgotten_def)
    have f3: "forgotten host d" "pl d = pl c1" if "rr_restart run c2 = (d, z)" for d z
      using keep[of c2] that f2 by (simp_all add: forgotten_def)
    have fin: "out = RestorationFailed \<and> pl c' = pl c1"
      if "finish_renewal ops host original b a t d = (c', out)" "d = c2 \<or> d = fst (rr_restart run c2)" for b a t d
      using finish_forgotten[OF _ that(1)] that(2) f2 f3[of "fst (rr_restart run c2)"] by (metis prod.collapse)
    show ?thesis
    proof (cases y)
      case (Inl e)
      then show ?thesis using r b Inr l restore_forgotten[OF f2(1), of original] f2(2) p(1)
        by (auto simp: run_renewal_cycle_def Let_def)
    next
      case (Inr v)
      from r b \<open>x = Inr u\<close> l Inr
      obtain b' a t d where "finish_renewal ops host original b' a t d = (c', out)" "d = c2 \<or> d = fst (rr_restart run c2)"
        by (auto simp: run_renewal_cycle_def Let_def split: option.splits if_splits bool.splits prod.splits)
      from fin[OF this] show ?thesis using p(1) by simp
    qed
  qed
qed

end

section \<open>The reference server\<close>

definition policy_request :: "nat \<Rightarrow> (json \<Rightarrow> json option) \<Rightarrow> caddy_server \<Rightarrow> caddy_server \<times> http_result" where
  "policy_request k f c =
     (case sv_policies c of
        Some ps \<Rightarrow>
          if k < length ps then
            (case f (ps ! k) of
               Some b \<Rightarrow> (c\<lparr>sv_policies := Some (ps[k := b])\<rparr>, HttpStatus 200)
             | None \<Rightarrow> (c, HttpStatus 404))
          else (c, HttpStatus 404)
      | None \<Rightarrow> (c, HttpStatus 404))"

definition drop_ratio :: "json \<Rightarrow> json option" where
  "drop_ratio p = (if jget ratio_key p = None then None else Some (jdel ratio_key p))"

definition server_renew_ops :: "caddy_server renew_ops" where
  "server_renew_ops =
     \<lparr>rn_caddy = server_ops False,
      rn_patch_at = \<lambda>k b. policy_request k (\<lambda>_. Some b),
      rn_delete_ratio_id = \<lambda>i c. (case find_idx (\<lambda>p. json_id p = Some i) (sv_pl c) of
          Some k \<Rightarrow> policy_request k drop_ratio c | None \<Rightarrow> (c, HttpStatus 404)),
      rn_delete_ratio_at = \<lambda>k. policy_request k drop_ratio\<rparr>"

lemma policy_request_cases:
  "policy_request k f c = (c', h) \<Longrightarrow>
     (c' = c \<and> h = HttpStatus 404) \<or>
     (\<exists>ps b. sv_policies c = Some ps \<and> k < length ps \<and> f (ps ! k) = Some b \<and>
        c' = c\<lparr>sv_policies := Some (ps[k := b])\<rparr> \<and> h = HttpStatus 200)"
  by (auto simp: policy_request_def split: option.splits if_splits)

lemma answered_server:
  "answered (op_patch_id (server_ops False) i b c)" "fst (op_get_policies (server_ops False) c) \<noteq> HttpTransport"
  by (auto simp: answered_def server_ops_def served_def next_fault_def at_id_def
      split: option.splits list.splits if_splits)

lemma server_renew_documented: "renew_documented server_renew_ops sv_routes sv_pl"
proof -
  let ?ops = server_renew_ops
  have at: "policy_request k (\<lambda>_. Some b) c = (c', h) \<Longrightarrow>
      (ok_status h \<longrightarrow> k < length (sv_pl c) \<and> sv_pl c' = (sv_pl c)[k := b] \<and> sv_routes c' = sv_routes c) \<and>
      (\<not> ok_status h \<longrightarrow> sv_pl c' = sv_pl c \<and> sv_routes c' = sv_routes c) \<and> h \<noteq> HttpTransport" for k b c c' h
    by (drule policy_request_cases) (auto simp: sv_pl_def ok_status_def is_success_def)
  have del: "rn_delete_ratio_id ?ops i c = (c', h) \<Longrightarrow>
      (ok_status h \<longrightarrow> with_id i (sv_routes c) \<or> with_id i (sv_pl c)) \<and>
      (\<not> ok_status h \<longrightarrow> sv_pl c' = sv_pl c \<and> sv_routes c' = sv_routes c) \<and> h \<noteq> HttpTransport" for i c c' h
  proof (cases "find_idx (\<lambda>p. json_id p = Some i) (sv_pl c)")
    case None
    then show "rn_delete_ratio_id ?ops i c = (c', h) \<Longrightarrow> ?thesis"
      by (auto simp: server_renew_ops_def ok_status_def is_success_def)
  next
    case (Some k)
    then have "with_id i (sv_pl c)"
      using find_idx_SomeD[OF Some] by (auto simp: with_id_def)
    then show "rn_delete_ratio_id ?ops i c = (c', h) \<Longrightarrow> ?thesis"
      using Some by (auto simp: server_renew_ops_def ok_status_def is_success_def dest!: policy_request_cases)
  qed
  have load: "op_load (server_ops False) cfg c = (c', h) \<Longrightarrow> sv_pl c' = sv_pl c \<and> sv_routes c' = sv_routes c" for cfg c c' h
    by (auto simp: server_ops_def served_def next_fault_def tick_def sv_pl_def split: list.splits if_splits option.splits)
  have d: "caddy_documented (rn_caddy ?ops) sv_routes sv_pl"
    using server_documented[of False] by (simp add: server_renew_ops_def)
  have "\<forall>k b c c' h. rn_patch_at ?ops k b c = (c', h) \<longrightarrow>
      (ok_status h \<longrightarrow> k < length (sv_pl c) \<and> sv_pl c' = (sv_pl c)[k := b] \<and> sv_routes c' = sv_routes c) \<and>
      (\<not> ok_status h \<longrightarrow> sv_pl c' = sv_pl c \<and> sv_routes c' = sv_routes c)"
    using at unfolding server_renew_ops_def by simp
  moreover have "\<forall>i c c' h. rn_delete_ratio_id ?ops i c = (c', h) \<longrightarrow>
      (ok_status h \<longrightarrow> with_id i (sv_routes c) \<or> with_id i (sv_pl c)) \<and>
      (\<not> ok_status h \<longrightarrow> sv_pl c' = sv_pl c \<and> sv_routes c' = sv_routes c)"
    using del by blast
  moreover have "\<forall>s cfg c c' h. op_get_config (rn_caddy ?ops) c = (HttpStatus s, cfg) \<longrightarrow> is_success s \<longrightarrow>
      op_load (rn_caddy ?ops) cfg c = (c', h) \<longrightarrow> sv_pl c' = sv_pl c \<and> sv_routes c' = sv_routes c"
    using load by (simp add: server_renew_ops_def)
  moreover have "\<forall>i b c. answered (op_patch_id (rn_caddy ?ops) i b c)"
    "\<forall>c. fst (op_get_policies (rn_caddy ?ops) c) \<noteq> HttpTransport"
    using answered_server by (simp_all add: server_renew_ops_def)
  moreover have "answered (rn_delete_ratio_id ?ops i c)" for i c
    using del[of i c] unfolding answered_def by (metis prod.collapse)
  moreover have "answered (rn_patch_at ?ops k b c)" for k b c
    using at[of k b c] unfolding answered_def server_renew_ops_def by (metis prod.collapse renew_ops.select_convs(2))
  ultimately show ?thesis using d unfolding renew_documented_def by (intro conjI allI) fast+
qed

interpretation server_renewal: renewal_server server_renew_ops sv_routes sv_pl
  by unfold_locales (rule server_renew_documented)

section \<open>A renewal discards the policy\<close>

lemma poll_timeout: "finish_renewal ops host original b None True c \<noteq> (c', RenewNotProven r)"
  by (auto simp: finish_renewal_def split: prod.splits bool.splits if_splits)

text \<open>The polls that see no new certificate end at their deadline, which sets the timeout mark.\<close>

lemma renewal_never_unproven: "run_renewal_cycle ops run host restart original c \<noteq> (c', RenewNotProven r)"
  using poll_timeout
  by (auto simp: run_renewal_cycle_def finish_renewal_def Let_def
      split: prod.splits sum.splits option.splits bool.splits if_splits)

lemma link_local_v6_renewed:
  "v6 ''fe80::1'' = Some n \<Longrightarrow> n \<noteq> 0 \<Longrightarrow> n \<noteq> 1 \<Longrightarrow> parse_ipv4 ''fe80::1'' = None \<Longrightarrow>
     validate_renew_host v6 ''fe80::1'' = Inr ()"
  by (simp add: validate_renew_host_def parse_ip_def)

text \<open>C10. On a Caddy server that follows its documentation, answers every request and keeps its routes and
  policies over a restart, a renewal of a host whose one TLS policy carries the id that slip gives it
  succeeds for no policy but one that Tailscale manages, and then changes nothing. When the
  host is valid and no renewal of it is running, the policies can be read, Tailscale does not manage the
  policy and the first PATCH is accepted, the policy is replaced by an object that holds the renewal ratio
  only: the renewal ends in an error, and the host has no policy any more. In every case the list of
  policies is as before or has just that replacement.\<close>

theorem renewal_discards_policy:
  assumes server: "renew_documented ops rt pl"
    and policies: "pl c = pre @ old # post" "json_id old = Some (tls_policy_id host)" "policy_covers host old"
      "\<not> list_ex (policy_covers host) (pre @ post)"
      "\<not> with_id (tls_policy_id host) (pre @ post)" "\<not> with_id (tls_policy_id host) (rt c)"
    and restart: "\<And>d. pl (fst (rr_restart run d)) = pl d \<and> rt (fst (rr_restart run d)) = rt d"
    and run: "handle_tls_renew v6 ops run locks host restart_caddy c = (c', r)"
  shows "(\<forall>x. r = Inr x \<longrightarrow> c' = c \<and> via_tailscale old \<and> rw_managed_by x = Some ''tailscale'') \<and>
    (is_ok (validate_renew_host v6 host) \<and> host \<notin> set locks \<and> ok_status (fst (op_get_policies (rn_caddy ops) c)) \<and>
       \<not> via_tailscale old \<and>
       ok_status (snd (op_patch_id (rn_caddy ops) (tls_policy_id host) (ratio_body ''1.0'') c)) \<longrightarrow>
     pl c' = pre @ ratio_body ''1.0'' # post \<and> \<not> list_ex (policy_covers host) (pl c') \<and>
     (r = Inl (ApiInternal (RevertFailed host)) \<or> r = Inl (ApiInternal RenewFailed))) \<and>
    (pl c' = pl c \<or> pl c' = pre @ ratio_body ''1.0'' # post)"
proof -
  note cyc0 = renewal_server.cycle_replaces[OF renewal_server.intro[OF server]]
  have o: "renewal_server.owned rt pl host pre old post c"
    using policies by (simp add: renewal_server.owned_def[OF renewal_server.intro[OF server]])
  have n: "\<not> list_ex (policy_covers host) (pre @ ratio_body ''1.0'' # post)"
    using policies(4) by simp
  have "List.find (policy_covers host) (pre @ old # post) = Some old"
    using policies(3,4) by (induction pre) auto
  then have found: "get_tls_policy (rn_caddy ops) host c = Inr (Some old)"
    if "ok_status (fst (op_get_policies (rn_caddy ops) c))"
    using that server policies(1) unfolding renew_documented_def caddy_documented_def
    by (auto simp: get_tls_policy_def ok_status_def split: prod.splits http_result.splits)
  have only: "p = old" if "get_tls_policy (rn_caddy ops) host c = Inr (Some p)" for p
    using that found by (auto simp: get_tls_policy_def ok_status_def split: prod.splits http_result.splits if_splits)
  have ts: "via_tailscale old" if "is_tailscale_managed (rn_caddy ops) host c = Inr True"
    using that only by (auto simp: is_tailscale_managed_def result_simps split: option.splits)
  have cyc: "(pl c1 = pl c \<and> (\<exists>e. out = RenewError e) \<and>
         \<not> ok_status (snd (op_patch_id (rn_caddy ops) (tls_policy_id host) (ratio_body ''1.0'') c))) \<or>
      (pl c1 = pre @ ratio_body ''1.0'' # post \<and> (out = RestorationFailed \<or> (\<exists>e. out = RenewError e)))"
    if "run_renewal_cycle ops run host restart_caddy original c = (c1, out)" for original c1 out
    using cyc0[OF o restart that] .
  have "\<forall>x. r = Inr x \<longrightarrow> c' = c \<and> via_tailscale old \<and> rw_managed_by x = Some ''tailscale''"
    "pl c' = pl c \<or> pl c' = pre @ ratio_body ''1.0'' # post"
    using run ts cyc
    by (auto simp: handle_tls_renew_def Let_def split: sum.splits if_splits option.splits prod.splits dest!: cyc)
  moreover have "pl c' = pre @ ratio_body ''1.0'' # post \<and>
      (r = Inl (ApiInternal (RevertFailed host)) \<or> r = Inl (ApiInternal RenewFailed))"
    if go: "is_ok (validate_renew_host v6 host)" "host \<notin> set locks" "ok_status (fst (op_get_policies (rn_caddy ops) c))"
      "\<not> via_tailscale old" "ok_status (snd (op_patch_id (rn_caddy ops) (tls_policy_id host) (ratio_body ''1.0'') c))"
  proof -
    obtain c1 out where cy: "run_renewal_cycle ops run host restart_caddy (policy_ratio old) c = (c1, out)" by fastforce
    have "is_tailscale_managed (rn_caddy ops) host c = Inr False"
      using found[OF go(3)] go(4) by (simp add: is_tailscale_managed_def and_then_def)
    moreover have "validate_renew_host v6 host = Inr ()" using go(1) by (simp add: is_ok_iff)
    ultimately have "c' = c1 \<and> r = renew_response host out"
      using run go(2) found[OF go(3)] cy by (simp add: handle_tls_renew_def result_simps)
    then show ?thesis using cyc[OF cy] go(5) by auto
  qed
  ultimately show ?thesis using n by auto
qed

definition renew_host :: string where "renew_host = ''app.x.dev''"

definition owned_policy :: json where
  "owned_policy = jobj [(''@id'', JStr (tls_policy_id renew_host)), (''subjects'', JArr [JStr renew_host])]"

definition renew_server :: caddy_server where
  "renew_server = \<lparr>sv_routes = [], sv_policies = Some [owned_policy], sv_config = JObj [], sv_faults = []\<rparr>"

definition idle_run :: "caddy_server renewal_run" where
  "idle_run = \<lparr>rr_before = Inr None, rr_polls = [Inr None], rr_restart = (\<lambda>c. (c, True)), rr_polls_after = []\<rparr>"

theorem renewal_discards_policy_witness:
  "\<exists>c' r. handle_tls_renew (\<lambda>_. None) server_renew_ops idle_run [] renew_host False renew_server = (c', r) \<and>
     sv_pl c' = [ratio_body ''1.0''] \<and> \<not> is_ok r"
proof -
  obtain c' r where run: "handle_tls_renew (\<lambda>_. None) server_renew_ops idle_run [] renew_host False renew_server = (c', r)"
    by fastforce
  have go: "is_ok (validate_renew_host (\<lambda>_. None) renew_host)" "\<not> via_tailscale owned_policy"
      "ok_status (fst (op_get_policies (rn_caddy server_renew_ops) renew_server))"
      "ok_status (snd (op_patch_id (rn_caddy server_renew_ops) (tls_policy_id renew_host) (ratio_body ''1.0'') renew_server))"
    by code_simp+
  have own: "sv_pl renew_server = [] @ owned_policy # []" "json_id owned_policy = Some (tls_policy_id renew_host)"
      "policy_covers renew_host owned_policy"
    by code_simp+
  have keep: "sv_pl (fst (rr_restart idle_run d)) = sv_pl d \<and> sv_routes (fst (rr_restart idle_run d)) = sv_routes d" for d
    by (simp add: idle_run_def)
  have other: "\<not> list_ex (policy_covers renew_host) ([] @ [])" "\<not> with_id (tls_policy_id renew_host) ([] @ [])"
      "\<not> with_id (tls_policy_id renew_host) (sv_routes renew_server)"
    by (simp_all add: with_id_def renew_server_def)
  from renewal_discards_policy[OF server_renew_documented own other keep run]
  have "sv_pl c' = [ratio_body ''1.0''] \<and> \<not> is_ok r" using go run by (auto simp: is_ok_def)
  then show ?thesis using run by blast
qed

end
