(* ===== verification/Api.thy ===== *)
theory Api
  imports ApiTypes PreviewRun
begin

text \<open>
  The handlers of the management API (\<open>api.rs\<close>) that register, change and delete applications and
  their secrets, and start deploys.  The state is the daemon's \<open>AppState\<close> with the files it writes:
  the configuration directory holds one file per application, given by the configuration it was
  written from.  A held deploy lock is a name in \<open>dm_locked\<close>; a spawned deploy owns its lock until
  \<open>finish_deploy_task\<close> runs it.  \<open>dm_inserts\<close> holds the history rows whose insert is spawned and has not
  run yet: these tasks own no lock.  Read-only handlers take the state and leave it.
\<close>

section \<open>State\<close>

datatype api_task = DeployTask deploy_context | PreviewTask preview_ctx

record ('r, 'p) api_state =
  dm_apps :: "(string \<times> app_config) list"
  dm_files :: "(string \<times> app_config) list"
  dm_locked :: "string list"
  dm_preview_locked :: "string list"
  dm_states :: "(string \<times> app_runtime_state) list"
  dm_dir :: "persisted_app_state state_dir"
  dm_deploys :: "(string \<times> deploy_context) list"
  dm_db :: "(string \<times> deploy_context) list"
  dm_inserts :: "deploy_context list"
  dm_secrets :: secrets_store
  dm_previews :: "(string \<times> preview_state) list"
  dm_preview_dir :: "persisted_preview_state preview_dir"
  dm_tasks :: "api_task list"
  dm_manifests :: "(string \<times> string) list"
  dm_rt :: 'r
  dm_px :: 'p

text \<open>What the handlers use and do not change: the configuration, the service controller, the outcome
  of writing and deleting files, the JSON text of a response, the parser of a deploy request,
  HMAC-SHA256 and hex decoding, fresh ids and keys, the clock.\<close>

record ('r, 'p) api_env =
  ae_config :: slip_config
  ae_bind :: "(app_config \<Rightarrow> secrets_store \<Rightarrow> secrets_store \<times> (binding_error + unit)) option"
  ae_check_needs :: "app_config \<Rightarrow> secrets_store \<Rightarrow> binding_error + unit"
  ae_write_ok :: "app_config \<Rightarrow> bool"
  ae_delete_ok :: "string \<Rightarrow> bool"
  ae_response_text :: "app_response \<Rightarrow> string"
  ae_parse_deploy :: "string \<Rightarrow> deploy_request option"
  ae_hmac :: "string \<Rightarrow> string \<Rightarrow> string"
  ae_unhex :: "string \<Rightarrow> string option"
  ae_uni :: "string \<Rightarrow> bool"
  ae_runtime :: "'r runtime_ops"
  ae_remove_routes :: "string \<Rightarrow> nat \<Rightarrow> 'p \<Rightarrow> 'p \<times> (caddy_error + unit)"
  ae_fresh :: string
  ae_random :: string
  ae_now :: int

section \<open>Locks and persistence\<close>

text \<open>\<open>lock_app\<close>: \<open>None\<close> when the lock is held by a deploy or another change.  A handler that takes
  the lock gives it back when it returns, so the state has it only while a task runs.\<close>

definition lock_app :: "('r, 'p) api_state \<Rightarrow> string \<Rightarrow> app_error + unit" where
  "lock_app st name = (if List.member (dm_locked st) name then Inl (ApiConflict (AppBusy name)) else Inr ())"

definition prepare_bindings ::
  "('r, 'p) api_env \<Rightarrow> app_config \<Rightarrow> secrets_store \<Rightarrow> secrets_store \<times> (app_error + unit)" where
  "prepare_bindings env app s =
     (case validate_needs (ac_needs app) (map_of (ac_env app)) of
        Inl e \<Rightarrow> (s, Inl (ApiBadRequest (BadNeeds e)))
      | Inr _ \<Rightarrow>
          (case ae_bind env of
             Some bind \<Rightarrow> (let (s1, r) = bind app s in (s1, map_err api_binding_error r))
           | None \<Rightarrow>
               (case ac_needs app of
                  (_, need) # _ \<Rightarrow> (s, Inl (api_binding_error (MissingService (need_type_str (need_kind need)))))
                | [] \<Rightarrow> (s, Inr ()))))"

definition persist_app_config ::
  "('r, 'p) api_env \<Rightarrow> app_config \<Rightarrow> ('r, 'p) api_state \<Rightarrow> ('r, 'p) api_state \<times> (app_error + unit)" where
  "persist_app_config env app st =
     (if \<not> ae_write_ok env app then (st, Inl (ApiInternal PersistFailed))
      else (st\<lparr>dm_files := AList.update (ai_name (ac_app app)) app (dm_files st),
              dm_dir := save_last_applied id Some (ai_name (ac_app app))
                          (ae_response_text env (app_response_of app)) (dm_dir st)\<rparr>, Inr ()))"

text \<open>Bind, write, then publish: the tail of \<open>POST\<close> and \<open>PATCH\<close>.\<close>

definition publish_app ::
  "('r, 'p) api_env \<Rightarrow> string \<Rightarrow> app_config \<Rightarrow> ('r, 'p) api_state \<Rightarrow>
     ('r, 'p) api_state \<times> (app_error + app_response)" where
  "publish_app env name app st =
     (case prepare_bindings env app (dm_secrets st) of
        (s1, Inl e) \<Rightarrow> (st\<lparr>dm_secrets := s1\<rparr>, Inl e)
      | (s1, Inr _) \<Rightarrow>
          (case persist_app_config env app (st\<lparr>dm_secrets := s1\<rparr>) of
             (st1, Inl e) \<Rightarrow> (st1, Inl e)
           | (st1, Inr _) \<Rightarrow>
               (st1\<lparr>dm_apps := AList.update name app (dm_apps st1)\<rparr>, Inr (app_response_of app))))"

section \<open>Applications\<close>

definition handle_create_app ::
  "('r, 'p) api_env \<Rightarrow> create_app_request \<Rightarrow> ('r, 'p) api_state \<Rightarrow>
     ('r, 'p) api_state \<times> (app_error + app_response)" where
  "handle_create_app env req st =
     (case and_then (validate_api_app_name (cr_app_name req)) (\<lambda>_.
           and_then (lock_app st (cr_app_name req)) (\<lambda>_.
           require (map_of (dm_apps st) (cr_app_name req) = None) (ApiConflict (AppExists (cr_app_name req))))) of
        Inl e \<Rightarrow> (st, Inl e)
      | Inr _ \<Rightarrow> publish_app env (cr_app_name req) (created_config req) st)"

definition handle_list_apps :: "('r, 'p) api_state \<Rightarrow> app_response list" where
  "handle_list_apps st = map (\<lambda>a. app_response_of (snd a)) (dm_apps st)"

definition find_app :: "('r, 'p) api_state \<Rightarrow> string \<Rightarrow> app_error + app_config" where
  "find_app st name = ok_or (map_of (dm_apps st) name) (ApiNotFound (AppUnknown name))"

definition handle_get_app :: "('r, 'p) api_state \<Rightarrow> string \<Rightarrow> app_error + app_response" where
  "handle_get_app st name = and_then (find_app st name) (\<lambda>cfg. Inr (app_response_of cfg))"

definition handle_update_app ::
  "('r, 'p) api_env \<Rightarrow> string \<Rightarrow> update_app_request \<Rightarrow> ('r, 'p) api_state \<Rightarrow>
     ('r, 'p) api_state \<times> (app_error + app_response)" where
  "handle_update_app env name req st =
     (case and_then (lock_app st name) (\<lambda>_. find_app st name) of
        Inl e \<Rightarrow> (st, Inl e)
      | Inr existing \<Rightarrow> publish_app env name (updated_config req existing) st)"

definition stop_app_container :: "('r, 'p) api_env \<Rightarrow> string option \<Rightarrow> 'r \<Rightarrow> 'r" where
  "stop_app_container env cid r =
     (case cid of Some c \<Rightarrow> fst (ro_stop_and_remove (ae_runtime env) c r) | None \<Rightarrow> r)"

definition teardown_app_pod :: "('r, 'p) api_env \<Rightarrow> string option \<Rightarrow> string option \<Rightarrow> 'r \<Rightarrow> 'r" where
  "teardown_app_pod env pod manifest r =
     (case (pod, manifest) of
        (Some _, Some m) \<Rightarrow> fst (ro_teardown_pod (ae_runtime env) m r)
      | _ \<Rightarrow> r)"

definition handle_delete_app ::
  "('r, 'p) api_env \<Rightarrow> string \<Rightarrow> ('r, 'p) api_state \<Rightarrow> ('r, 'p) api_state \<times> (app_error + unit)" where
  "handle_delete_app env name st =
     (case and_then (lock_app st name) (\<lambda>_. find_app st name) of
        Inl e \<Rightarrow> (st, Inl e)
      | Inr _ \<Rightarrow>
          (let old = map_of (dm_states st) name;
               rt = (case old of
                       None \<Rightarrow> dm_rt st
                     | Some s \<Rightarrow> teardown_app_pod env (as_current_pod_name s) (as_current_manifest_path s)
                                  (stop_app_container env (as_current_container_id s) (dm_rt st)));
               route_count = (case old of Some s \<Rightarrow> length (as_current_routes s) | None \<Rightarrow> 1)
           in (st\<lparr>dm_apps := AList.delete name (dm_apps st), dm_rt := rt,
                 dm_px := fst (ae_remove_routes env name route_count (dm_px st)),
                 dm_states := AList.delete name (dm_states st),
                 dm_secrets := fst (store_remove_all (dm_secrets st) name),
                 dm_files := (if ae_delete_ok env name then AList.delete name (dm_files st) else dm_files st)\<rparr>,
               Inr ())))"

section \<open>Secrets\<close>

definition reject_binding_secret :: "app_config \<Rightarrow> string \<Rightarrow> app_error + unit" where
  "reject_binding_secret app key =
     require (\<not> list_ex (\<lambda>(a, n). List.member (env_keys n a) key) (ac_needs app)) (ApiConflict (ManagedSecret key))"

definition handle_list_secrets :: "('r, 'p) api_state \<Rightarrow> string \<Rightarrow> app_error + string list" where
  "handle_list_secrets st name = and_then (find_app st name) (\<lambda>app. Inr (secret_keys (dm_secrets st) app))"

definition check_secret_key :: "app_config \<Rightarrow> string \<Rightarrow> app_error + unit" where
  "check_secret_key app key =
     and_then (reject_binding_secret app key) (\<lambda>_.
       map_err (\<lambda>e. ApiBadRequest (BadSecretKey key e)) (validate_secret_key key))"

fun write_secrets :: "string \<Rightarrow> (string \<times> string) list \<Rightarrow> secrets_store \<Rightarrow> secrets_store \<times> (app_error + unit)" where
  "write_secrets app [] s = (s, Inr ())"
| "write_secrets app ((k, v) # kvs) s =
     (case store_set s app k v of
        (s1, Inl _) \<Rightarrow> (s1, Inl (ApiInternal SecretSetFailed))
      | (s1, Inr _) \<Rightarrow> write_secrets app kvs s1)"

definition handle_set_secrets ::
  "string \<Rightarrow> (string \<times> string) list \<Rightarrow> ('r, 'p) api_state \<Rightarrow> ('r, 'p) api_state \<times> (app_error + string list)" where
  "handle_set_secrets name secrets st =
     (case and_then (lock_app st name) (\<lambda>_. and_then (find_app st name) (\<lambda>app.
           for_each (check_secret_key app) (map fst secrets))) of
        Inl e \<Rightarrow> (st, Inl e)
      | Inr _ \<Rightarrow>
          (let (s1, r) = write_secrets name secrets (dm_secrets st)
           in (st\<lparr>dm_secrets := s1\<rparr>, and_then r (\<lambda>_. Inr (sort (map fst secrets))))))"

definition handle_remove_secret ::
  "string \<Rightarrow> string \<Rightarrow> ('r, 'p) api_state \<Rightarrow> ('r, 'p) api_state \<times> (app_error + unit)" where
  "handle_remove_secret name key st =
     (case and_then (lock_app st name) (\<lambda>_. and_then (find_app st name) (\<lambda>app. reject_binding_secret app key)) of
        Inl e \<Rightarrow> (st, Inl e)
      | Inr _ \<Rightarrow>
          (let (s1, r) = store_remove (dm_secrets st) name key
           in (st\<lparr>dm_secrets := s1\<rparr>,
               case r of Inl _ \<Rightarrow> Inl (ApiInternal SecretRemoveFailed)
                       | Inr existed \<Rightarrow> require existed (ApiNotFound (SecretMissing name key)))))"

text \<open>The new key, if one was made, and whether it replaced another.\<close>

definition handle_set_deploy_key ::
  "('r, 'p) api_env \<Rightarrow> string \<Rightarrow> bool \<Rightarrow> ('r, 'p) api_state \<Rightarrow>
     ('r, 'p) api_state \<times> (app_error + string option \<times> bool)" where
  "handle_set_deploy_key env name rot st =
     (case and_then (find_app st name) (\<lambda>_.
           map_err (\<lambda>_. ApiInternal KeyReadFailed) (get_deploy_key (dm_secrets st) name)) of
        Inl e \<Rightarrow> (st, Inl e)
      | Inr existing \<Rightarrow>
          if existing \<noteq> None \<and> \<not> rot then (st, Inr (None, False))
          else (let (s1, r) = set_deploy_key (dm_secrets st) name (ae_random env)
                in (st\<lparr>dm_secrets := s1\<rparr>,
                    case r of Inl _ \<Rightarrow> Inl (ApiInternal KeySetFailed)
                            | Inr k \<Rightarrow> Inr (Some k, existing \<noteq> None))))"

end
