(* ===== verification/DeployHistory.thy ===== *)
theory DeployHistory
  imports DeployRun
begin

text \<open>
  \<open>db.rs\<close>: the history of deploys.  The table is the list of its rows by id; a row lacks the image
  overrides and the rollback mark of its context.  Times are compared as their text is: chrono prints
  them so that the text order is the order in time.  Of rows with the same time SQLite may answer
  any, the model the first.
\<close>

type_synonym deploy_table = "(string \<times> deploy_context) list"

fun deploy_status_str :: "deploy_status \<Rightarrow> string" where
  "deploy_status_str DsAccepted = ''accepted''"
| "deploy_status_str DsPulling = ''pulling''"
| "deploy_status_str DsConfiguring = ''configuring''"
| "deploy_status_str DsStarting = ''starting''"
| "deploy_status_str DsHealthChecking = ''health_checking''"
| "deploy_status_str DsSwitching = ''switching''"
| "deploy_status_str DsStoppingOld = ''stopping_old''"
| "deploy_status_str DsRemovingRoute = ''removing_route''"
| "deploy_status_str DsRestartingOld = ''restarting_old''"
| "deploy_status_str DsCompleted = ''completed''"
| "deploy_status_str DsFailed = ''failed''"

fun trigger_str :: "trigger_source \<Rightarrow> string" where
  "trigger_str TrWebhook = ''webhook''"
| "trigger_str TrCli = ''cli''"
| "trigger_str TrRollback = ''rollback''"

definition trigger_parse :: "string \<Rightarrow> trigger_source" where
  "trigger_parse s =
     (if s = ''webhook'' then TrWebhook else if s = ''cli'' then TrCli
      else if s = ''rollback'' then TrRollback else TrCli)"

lemma deploy_status_roundtrip: "deploy_status_parse (deploy_status_str s) = s"
  by (cases s) (simp_all add: deploy_status_parse_def)

lemma trigger_roundtrip: "trigger_parse (trigger_str t) = t"
  by (cases t) (simp_all add: trigger_parse_def)

definition deploy_row :: "deploy_context \<Rightarrow> deploy_context" where
  "deploy_row ctx = ctx\<lparr>dx_images := [], dx_rollback_failed := False\<rparr>"

definition insert_deploy :: "deploy_context \<Rightarrow> deploy_table \<Rightarrow> deploy_table" where
  "insert_deploy ctx db = AList.update (dx_id ctx) ctx db"

definition get_deploy :: "deploy_table \<Rightarrow> string \<Rightarrow> deploy_context option" where
  "get_deploy db i = map_option deploy_row (map_of db i)"

text \<open>\<open>ORDER BY started_at DESC LIMIT 1\<close>.\<close>

fun latest_started :: "deploy_context list \<Rightarrow> deploy_context option" where
  "latest_started [] = None"
| "latest_started (r # rs) =
     (case latest_started rs of
        None \<Rightarrow> Some r
      | Some q \<Rightarrow> if dx_started_at r < dx_started_at q then Some q else Some r)"

definition get_latest_deploy_for_app :: "deploy_table \<Rightarrow> string \<Rightarrow> deploy_context option" where
  "get_latest_deploy_for_app db app =
     map_option deploy_row (latest_started (filter (\<lambda>r. dx_app r = app) (map snd db)))"

definition get_previous_successful_deploy :: "deploy_table \<Rightarrow> string \<Rightarrow> string \<Rightarrow> deploy_context option" where
  "get_previous_successful_deploy db app before_id =
     map_option deploy_row (latest_started
       (filter (\<lambda>r. dx_app r = app \<and> dx_status r = DsCompleted \<and> dx_id r \<noteq> before_id) (map snd db)))"

text \<open>The rows that have the latest time of their application, collected into a map.\<close>

definition is_latest_row :: "deploy_context list \<Rightarrow> deploy_context \<Rightarrow> bool" where
  "is_latest_row rows r \<longleftrightarrow> list_all (\<lambda>q. dx_app q = dx_app r \<longrightarrow> dx_started_at q \<le> dx_started_at r) rows"

definition get_latest_deploys_per_app :: "deploy_table \<Rightarrow> (string \<times> deploy_context) list" where
  "get_latest_deploys_per_app db =
     (let rows = map snd db in
      foldl (\<lambda>m r. AList.update (dx_app r) (deploy_row r) m) [] (filter (is_latest_row rows) rows))"

lemma latest_started_None: "latest_started rs = None \<longleftrightarrow> rs = []"
  by (cases rs) (auto split: option.splits if_splits)

lemma latest_started_max:
  "latest_started rs = Some r \<Longrightarrow> r \<in> set rs \<and> (\<forall>q\<in>set rs. dx_started_at q \<le> dx_started_at r)"
proof (induction rs arbitrary: r)
  case (Cons x rs)
  show ?case
  proof (cases "latest_started rs")
    case None
    then show ?thesis using Cons.prems by (simp add: latest_started_None)
  next
    case (Some q)
    then show ?thesis using Cons.IH[OF Some] Cons.prems by (auto split: if_splits)
  qed
qed simp

lemma latest_started_unique:
  assumes "r \<in> set rs" "\<forall>q\<in>set rs. q \<noteq> r \<longrightarrow> dx_started_at q < dx_started_at r"
  shows "latest_started rs = Some r"
proof (cases "latest_started rs")
  case None
  then show ?thesis using assms by (simp add: latest_started_None)
next
  case (Some q)
  then show ?thesis using latest_started_max[OF Some] assms by (metis not_less)
qed

end
