(* ===== verification/ApiDeploy.thy ===== *)
theory ApiDeploy
  imports Api DeployHistory
begin

text \<open>
  The handlers of \<open>api.rs\<close> that start deploys (\<open>POST /v1/deploy\<close>, rollback), the preview handlers,
  and the tasks they spawn.  A deploy is one step, taken when it ends: the handlers that take its lock
  are refused meanwhile, but the read-only ones could see the writes of a deploy that is still running,
  which this model does not show.  The insert of the first history row is a task without a lock, a
  step of its own that may fail.
\<close>

section \<open>Starting a deploy\<close>

text \<open>\<open>AppState::record_deploy\<close> updates the cache at once and spawns the insert into the history; the
  insert may run at any later time, and its failure is only logged.\<close>

definition api_record_deploy :: "deploy_context \<Rightarrow> ('r, 'p) api_state \<Rightarrow> ('r, 'p) api_state" where
  "api_record_deploy ctx st =
     st\<lparr>dm_deploys := AList.update (dx_app ctx) ctx (dm_deploys st), dm_inserts := ctx # dm_inserts st\<rparr>"

definition finish_insert :: "bool \<Rightarrow> deploy_context \<Rightarrow> ('r, 'p) api_state \<Rightarrow> ('r, 'p) api_state" where
  "finish_insert ok ctx st =
     st\<lparr>dm_inserts := remove1 ctx (dm_inserts st),
        dm_db := (if ok then insert_deploy ctx (dm_db st) else dm_db st)\<rparr>"

definition start_deploy_task ::
  "('r, 'p) api_env \<Rightarrow> deploy_context \<Rightarrow> ('r, 'p) api_state \<Rightarrow> ('r, 'p) api_state \<times> (app_error + deploy_response)" where
  "start_deploy_task env ctx st =
     (if List.member (dm_locked st) (dx_app ctx) then (st, Inl (ApiConflict (DeployRunning (dx_app ctx))))
      else (let st1 = api_record_deploy ctx st in
            (st1\<lparr>dm_locked := dx_app ctx # dm_locked st1, dm_tasks := DeployTask ctx # dm_tasks st1\<rparr>,
             Inr \<lparr>dr_deploy_id = dx_id ctx, dr_app = dx_app ctx, dr_tag = dx_tag ctx, dr_preview_url = None\<rparr>)))"

definition deploy_id_of :: "('r, 'p) api_env \<Rightarrow> string" where
  "deploy_id_of env = ''dep_'' @ ae_fresh env"

text \<open>Everything \<open>POST /v1/deploy\<close> checks before it takes a lock.\<close>

definition authorize_deploy ::
  "('r, 'p) api_env \<Rightarrow> string option \<Rightarrow> string \<Rightarrow> ('r, 'p) api_state \<Rightarrow> app_error + deploy_request \<times> app_config" where
  "authorize_deploy env header body st =
     and_then (ok_or header (ApiUnauthorized MissingSignature)) (\<lambda>sig.
     and_then (ok_or (ae_parse_deploy env body) (ApiBadRequest BadJson)) (\<lambda>req.
     and_then (find_app st (dq_app req)) (\<lambda>cfg.
     and_then (require (verify_signature (ae_hmac env) (ae_unhex env) sig body
                 (resolve_secret (ai_secret (ac_app cfg)) (sc_auth_secret (ae_config env)) (dm_secrets st) (dq_app req)))
               (ApiUnauthorized InvalidSignature)) (\<lambda>_. Inr (req, cfg)))))"

definition check_deploy_needs ::
  "('r, 'p) api_env \<Rightarrow> deploy_request \<Rightarrow> app_config \<Rightarrow> ('r, 'p) api_state \<Rightarrow> app_error + unit" where
  "check_deploy_needs env req cfg st =
     (case ac_needs cfg of
        [] \<Rightarrow> Inr ()
      | (_, need) # _ \<Rightarrow>
          if dq_preview req \<noteq> None then Inl (ApiBadRequest PreviewWithNeeds)
          else if ae_bind env = None then Inl (api_binding_error (MissingService (need_type_str (need_kind need))))
          else map_err api_binding_error (ae_check_needs env cfg (dm_secrets st)))"

definition check_deploy_image :: "deploy_request \<Rightarrow> app_config \<Rightarrow> app_error + string" where
  "check_deploy_image req cfg =
     (case dq_image req of
        None \<Rightarrow> Inr (ai_image (ac_app cfg))
      | Some i \<Rightarrow> if i \<noteq> ai_image (ac_app cfg) then Inl (ApiBadRequest (ImageMismatch (ai_image (ac_app cfg)) i)) else Inr i)"

definition start_preview_task ::
  "('r, 'p) api_env \<Rightarrow> deploy_request \<Rightarrow> app_config \<Rightarrow> string \<Rightarrow> preview_request_info \<Rightarrow> ('r, 'p) api_state \<Rightarrow>
     ('r, 'p) api_state \<times> (app_error + deploy_response)" where
  "start_preview_task env req cfg img info st =
     (let key = preview_key (dq_app req) (pr_id info) in
      case and_then (validate_preview_id (ae_uni env) (pr_id info)) (\<lambda>_.
           and_then (map_err (\<lambda>_. ApiBadRequest PreviewUnconfigured)
                      (resolve_preview_domain (pr_id info) (sc_preview (ae_config env)) (ac_preview cfg))) (\<lambda>domain.
           and_then (require (\<not> List.member (dm_preview_locked st) key)
                      (ApiConflict (PreviewRunning (dq_app req) (pr_id info)))) (\<lambda>_. Inr domain))) of
        Inl e \<Rightarrow> (st, Inl e)
      | Inr domain \<Rightarrow>
          (st\<lparr>dm_preview_locked := key # dm_preview_locked st,
             dm_tasks := PreviewTask \<lparr>pq_deploy_id = deploy_id_of env, pq_app = dq_app req, pq_image = img,
               pq_tag = dq_tag req, pq_preview_id = pr_id info, pq_sha = pr_sha info, pq_images = dq_images req\<rparr>
               # dm_tasks st\<rparr>,
           Inr \<lparr>dr_deploy_id = deploy_id_of env, dr_app = dq_app req, dr_tag = dq_tag req,
                dr_preview_url = Some (''https://'' @ domain)\<rparr>))"

definition handle_deploy ::
  "('r, 'p) api_env \<Rightarrow> string option \<Rightarrow> string \<Rightarrow> ('r, 'p) api_state \<Rightarrow>
     ('r, 'p) api_state \<times> (app_error + deploy_response)" where
  "handle_deploy env header body st =
     (case and_then (authorize_deploy env header body st) (\<lambda>(req, cfg).
           and_then (check_deploy_needs env req cfg st) (\<lambda>_.
           and_then (check_deploy_image req cfg) (\<lambda>img.
           and_then (validate_tag (ae_uni env) (dq_tag req)) (\<lambda>_. Inr (req, cfg, img))))) of
        Inl e \<Rightarrow> (st, Inl e)
      | Inr (req, cfg, img) \<Rightarrow>
          (case dq_preview req of
             Some info \<Rightarrow> start_preview_task env req cfg img info st
           | None \<Rightarrow>
               start_deploy_task env
                 ((deploy_context_new (ae_now env) (deploy_id_of env) (dq_app req) img (dq_tag req) TrWebhook)
                    \<lparr>dx_images := dq_images req\<rparr>) st))"

section \<open>Rollback\<close>

definition previous_deploy_tag :: "('r, 'p) api_state \<Rightarrow> string \<Rightarrow> string option" where
  "previous_deploy_tag st name =
     (let current = (case Option.bind (map_of (dm_states st) name) as_deploy_id of Some i \<Rightarrow> i | None \<Rightarrow> [])
      in map_option dx_tag (get_previous_successful_deploy (dm_db st) name current))"

definition rollback_target :: "('r, 'p) api_env \<Rightarrow> string option \<Rightarrow> string \<Rightarrow> ('r, 'p) api_state \<Rightarrow> app_error + string" where
  "rollback_target env to name st =
     (case to of
        Some t \<Rightarrow> and_then (validate_tag (ae_uni env) t) (\<lambda>_. Inr t)
      | None \<Rightarrow>
          (case previous_deploy_tag st name of
             Some t \<Rightarrow> Inr t
           | None \<Rightarrow> ok_or (Option.bind (map_of (dm_states st) name) as_previous_tag) (ApiConflict NoPreviousTag)))"

definition handle_rollback ::
  "('r, 'p) api_env \<Rightarrow> string \<Rightarrow> string option \<Rightarrow> ('r, 'p) api_state \<Rightarrow>
     ('r, 'p) api_state \<times> (app_error + deploy_response)" where
  "handle_rollback env name to st =
     (case and_then (find_app st name) (\<lambda>cfg. and_then (rollback_target env to name st) (\<lambda>t. Inr (cfg, t))) of
        Inl e \<Rightarrow> (st, Inl e)
      | Inr (cfg, t) \<Rightarrow>
          start_deploy_task env
            (deploy_context_new (ae_now env) (deploy_id_of env) name (ai_image (ac_app cfg)) t TrRollback) st)"

record deploy_status_response =
  dv_deploy_id :: string
  dv_app :: string
  dv_tag :: string
  dv_status :: string
  dv_started_at :: int
  dv_finished_at :: "int option"
  dv_error :: "deploy_failure option"

definition deploy_status_of :: "deploy_context \<Rightarrow> deploy_status_response" where
  "deploy_status_of ctx =
     \<lparr>dv_deploy_id = dx_id ctx, dv_app = dx_app ctx, dv_tag = dx_tag ctx, dv_status = deploy_status_str (dx_status ctx),
      dv_started_at = dx_started_at ctx, dv_finished_at = dx_finished_at ctx, dv_error = dx_error ctx\<rparr>"

definition handle_deploy_status :: "('r, 'p) api_state \<Rightarrow> string \<Rightarrow> app_error + deploy_status_response" where
  "handle_deploy_status st i =
     and_then (ok_or (get_deploy (dm_db st) i) (ApiNotFound DeployMissing)) (\<lambda>ctx. Inr (deploy_status_of ctx))"

section \<open>Tasks\<close>

definition deploy_world :: "deploy_context \<Rightarrow> ('r, 'p) api_state \<Rightarrow> ('r, 'p) world" where
  "deploy_world ctx st =
     \<lparr>w_apps = dm_apps st, w_states = dm_states st, w_deploys = dm_deploys st, w_db = dm_db st,
      w_dir = dm_dir st, w_secrets = Some (dm_secrets st), w_manifests = dm_manifests st,
      w_rt = dm_rt st, w_px = dm_px st, w_ctx = ctx\<rparr>"

definition absorb_world :: "('r, 'p) world \<Rightarrow> ('r, 'p) api_state \<Rightarrow> ('r, 'p) api_state" where
  "absorb_world w st =
     st\<lparr>dm_states := w_states w, dm_deploys := w_deploys w, dm_db := w_db w, dm_dir := w_dir w,
       dm_secrets := some_or (w_secrets w) (dm_secrets st), dm_manifests := w_manifests w,
       dm_rt := w_rt w, dm_px := w_px w\<rparr>"

text \<open>A deploy task runs to its end and drops its lock.\<close>

definition finish_deploy_task ::
  "slip_config \<Rightarrow> ('r, 'p) deploy_env \<Rightarrow> ('r, 'p) deploy_outcome \<Rightarrow> deploy_context \<Rightarrow>
     ('r, 'p) api_state \<Rightarrow> ('r, 'p) api_state" where
  "finish_deploy_task cfg denv out ctx st =
     (absorb_world (execute_deploy cfg denv out (deploy_world ctx st)) st)
       \<lparr>dm_tasks := filter (\<lambda>t. t \<noteq> DeployTask ctx) (dm_tasks st),
        dm_locked := removeAll (dx_app ctx) (dm_locked st)\<rparr>"

definition preview_world_of :: "('r, 'p) api_state \<Rightarrow> ('r, 'p) preview_world" where
  "preview_world_of st =
     \<lparr>pw_previews = dm_previews st, pw_dir = dm_preview_dir st, pw_manifests = dm_manifests st,
      pw_rt = dm_rt st, pw_px = dm_px st\<rparr>"

definition absorb_previews :: "('r, 'p) preview_world \<Rightarrow> ('r, 'p) api_state \<Rightarrow> ('r, 'p) api_state" where
  "absorb_previews w st =
     st\<lparr>dm_previews := pw_previews w, dm_preview_dir := pw_dir w, dm_manifests := pw_manifests w,
       dm_rt := pw_rt w, dm_px := pw_px w\<rparr>"

definition finish_preview_task ::
  "('r, 'p) preview_env \<Rightarrow> ('r, 'p) preview_outcome \<Rightarrow> preview_ctx \<Rightarrow> ('r, 'p) api_state \<Rightarrow> ('r, 'p) api_state" where
  "finish_preview_task penv out ctx st =
     (absorb_previews (execute_preview_deploy (dm_apps st) penv ctx out (preview_world_of st)) st)
       \<lparr>dm_tasks := filter (\<lambda>t. t \<noteq> PreviewTask ctx) (dm_tasks st),
        dm_preview_locked := removeAll (ctx_key ctx) (dm_preview_locked st)\<rparr>"

section \<open>Previews\<close>

definition verify_preview_auth ::
  "('r, 'p) api_env \<Rightarrow> string option \<Rightarrow> string option \<Rightarrow> ('r, 'p) api_state \<Rightarrow> string \<Rightarrow> string \<Rightarrow> app_error + unit" where
  "verify_preview_auth env authorization signature st app body =
     (if (case Option.bind authorization (strip_prefix ''Bearer '') of
            Some token \<Rightarrow> constant_time_eq token (sc_auth_secret (ae_config env)) | None \<Rightarrow> False)
      then Inr ()
      else (case signature of
              None \<Rightarrow> Inl (ApiUnauthorized MissingPreviewAuth)
            | Some sig \<Rightarrow>
                and_then (find_app st app) (\<lambda>cfg.
                  require (verify_signature (ae_hmac env) (ae_unhex env) sig body
                    (resolve_secret (ai_secret (ac_app cfg)) (sc_auth_secret (ae_config env)) (dm_secrets st) app))
                    (ApiUnauthorized InvalidSignature))))"

definition handle_preview_teardown ::
  "('r, 'p) api_env \<Rightarrow> ('r, 'p) preview_env \<Rightarrow> string option \<Rightarrow> string option \<Rightarrow> string \<Rightarrow> string \<Rightarrow>
     ('r, 'p) api_state \<Rightarrow> ('r, 'p) api_state \<times> (app_error + unit)" where
  "handle_preview_teardown env penv authorization signature app preview_id st =
     (case and_then (find_app st app) (\<lambda>_. verify_preview_auth env authorization signature st app (app @ '':'' @ preview_id)) of
        Inl e \<Rightarrow> (st, Inl e)
      | Inr _ \<Rightarrow> (absorb_previews (teardown_preview penv app preview_id (preview_world_of st)) st, Inr ()))"

fun preview_status_str :: "app_status \<Rightarrow> string" where
  "preview_status_str StRunning = ''running''"
| "preview_status_str StDeploying = ''deploying''"
| "preview_status_str StFailed = ''failed''"
| "preview_status_str StNotDeployed = ''not_deployed''"

record preview_status_response =
  vr_preview_id :: string
  vr_app :: string
  vr_sha :: string
  vr_status :: string
  vr_tag :: "string option"
  vr_domain :: "string option"
  vr_port :: "nat option"
  vr_deployed_at :: int
  vr_expires_at :: "int option"

definition to_preview_response :: "preview_state \<Rightarrow> preview_status_response" where
  "to_preview_response s =
     \<lparr>vr_preview_id = pv_preview_id s, vr_app = pv_app s, vr_sha = pv_sha s, vr_status = preview_status_str (pv_status s),
      vr_tag = pv_tag s, vr_domain = pv_domain s, vr_port = pv_port s, vr_deployed_at = pv_deployed_at s,
      vr_expires_at = pv_expires_at s\<rparr>"

definition app_previews :: "string \<Rightarrow> ('r, 'p) api_state \<Rightarrow> preview_state list" where
  "app_previews app st = map snd (filter (\<lambda>e. prefix (app @ '':'') (fst e)) (dm_previews st))"

definition handle_list_previews :: "('r, 'p) api_state \<Rightarrow> string \<Rightarrow> app_error + preview_status_response list" where
  "handle_list_previews st app = and_then (find_app st app) (\<lambda>_. Inr (map to_preview_response (app_previews app st)))"

definition handle_preview_status :: "('r, 'p) api_state \<Rightarrow> string \<Rightarrow> string \<Rightarrow> app_error + preview_status_response" where
  "handle_preview_status st app preview_id =
     and_then (find_app st app) (\<lambda>_.
       and_then (ok_or (map_of (dm_previews st) (preview_key app preview_id)) (ApiNotFound (PreviewMissing preview_id app)))
         (\<lambda>entry. Inr (to_preview_response entry)))"

definition teardown_previews ::
  "('r, 'p) preview_env \<Rightarrow> string \<Rightarrow> string list \<Rightarrow> ('r, 'p) preview_world \<Rightarrow> ('r, 'p) preview_world" where
  "teardown_previews penv app ids w = foldl (\<lambda>w i. teardown_preview penv app i w) w ids"

definition handle_preview_teardown_all ::
  "('r, 'p) api_env \<Rightarrow> ('r, 'p) preview_env \<Rightarrow> string option \<Rightarrow> string option \<Rightarrow> string \<Rightarrow>
     ('r, 'p) api_state \<Rightarrow> ('r, 'p) api_state \<times> (app_error + string list)" where
  "handle_preview_teardown_all env penv authorization signature app st =
     (case and_then (find_app st app) (\<lambda>_. verify_preview_auth env authorization signature st app (app @ '':*'')) of
        Inl e \<Rightarrow> (st, Inl e)
      | Inr _ \<Rightarrow>
          (let ids = map pv_preview_id (app_previews app st)
           in (absorb_previews (teardown_previews penv app ids (preview_world_of st)) st, Inr ids)))"

end
