(* ===== verification/ApiSteps.thy ===== *)
theory ApiSteps
  imports ApiDeploy
begin

text \<open>
  The daemon as a transition system: every request of the management and deploy API, every end of a
  spawned deploy and every insert of a history row is a step.  The environment may differ from step to step within a set.  Invariants:
  the deploy locks are those of the running tasks, one per application, and every registered
  application is on disk as it is in memory.
\<close>

section \<open>Steps\<close>

inductive api_step :: "('r, 'p) api_env set \<Rightarrow> ('r, 'p) api_state \<Rightarrow> ('r, 'p) api_state \<Rightarrow> bool" for E where
  step_create: "env \<in> E \<Longrightarrow> handle_create_app env creq st = (st', r) \<Longrightarrow> api_step E st st'"
| step_update: "env \<in> E \<Longrightarrow> handle_update_app env name ureq st = (st', r) \<Longrightarrow> api_step E st st'"
| step_delete: "env \<in> E \<Longrightarrow> handle_delete_app env name st = (st', d) \<Longrightarrow> api_step E st st'"
| step_set_secrets: "handle_set_secrets name kvs st = (st', s) \<Longrightarrow> api_step E st st'"
| step_remove_secret: "handle_remove_secret name key st = (st', d) \<Longrightarrow> api_step E st st'"
| step_key: "env \<in> E \<Longrightarrow> handle_set_deploy_key env name rot st = (st', k) \<Longrightarrow> api_step E st st'"
| step_deploy: "env \<in> E \<Longrightarrow> handle_deploy env header body st = (st', p) \<Longrightarrow> api_step E st st'"
| step_rollback: "env \<in> E \<Longrightarrow> handle_rollback env name to st = (st', p) \<Longrightarrow> api_step E st st'"
| step_deployed: "DeployTask ctx \<in> set (dm_tasks st) \<Longrightarrow> api_step E st (finish_deploy_task cfg denv out ctx st)"
| step_previewed: "PreviewTask pctx \<in> set (dm_tasks st) \<Longrightarrow> api_step E st (finish_preview_task penv pout pctx st)"
| step_inserted: "ctx \<in> set (dm_inserts st) \<Longrightarrow> api_step E st (finish_insert ok ctx st)"
| step_teardown: "env \<in> E \<Longrightarrow> handle_preview_teardown env penv au sig app pid st = (st', d) \<Longrightarrow> api_step E st st'"
| step_teardown_all: "env \<in> E \<Longrightarrow> handle_preview_teardown_all env penv au sig app st = (st', s) \<Longrightarrow> api_step E st st'"

inductive_cases api_stepE: "api_step E st st'"

definition api_run :: "('r, 'p) api_env set \<Rightarrow> ('r, 'p) api_state \<Rightarrow> ('r, 'p) api_state \<Rightarrow> bool" where
  "api_run E = (api_step E)\<^sup>*\<^sup>*"

lemma api_run_invariant:
  assumes "api_run E st st'" "I st" "\<And>s t. I s \<Longrightarrow> api_step E s t \<Longrightarrow> I t"
  shows "I st'"
  using assms(1,2) unfolding api_run_def by (induction rule: rtranclp_induct) (auto intro: assms(3))

section \<open>What a handler leaves alone\<close>

definition same_tasks :: "('r, 'p) api_state \<Rightarrow> ('r, 'p) api_state \<Rightarrow> bool" where
  "same_tasks s t \<longleftrightarrow> dm_tasks t = dm_tasks s \<and> dm_locked t = dm_locked s \<and> dm_preview_locked t = dm_preview_locked s"

definition same_apps :: "('r, 'p) api_state \<Rightarrow> ('r, 'p) api_state \<Rightarrow> bool" where
  "same_apps s t \<longleftrightarrow> dm_apps t = dm_apps s \<and> dm_files t = dm_files s"

lemma same_refl [simp]: "same_tasks s s" "same_apps s s"
  by (simp_all add: same_tasks_def same_apps_def)

lemma publish_tasks: "publish_app env n a s = (t, r) \<Longrightarrow> same_tasks s t"
  by (auto simp: publish_app_def persist_app_config_def same_tasks_def split: prod.splits sum.splits if_splits)

lemma management_tasks:
  "handle_create_app env creq s = (t, r) \<Longrightarrow> same_tasks s t"
  "handle_update_app env name ureq s = (t, r) \<Longrightarrow> same_tasks s t"
  "handle_delete_app env name s = (t, d) \<Longrightarrow> same_tasks s t"
  "handle_set_secrets name kvs s = (t, ks) \<Longrightarrow> same_tasks s t"
  "handle_remove_secret name key s = (t, d) \<Longrightarrow> same_tasks s t"
  "handle_set_deploy_key env name rot s = (t, k) \<Longrightarrow> same_tasks s t"
  "handle_preview_teardown env penv au sig app pid s = (t, d) \<Longrightarrow> same_tasks s t"
  "handle_preview_teardown_all env penv au sig app s = (t, ks) \<Longrightarrow> same_tasks s t"
  subgoal by (auto simp: handle_create_app_def dest: publish_tasks split: sum.splits)
  subgoal by (auto simp: handle_update_app_def dest: publish_tasks split: sum.splits)
  subgoal by (auto simp: handle_delete_app_def Let_def same_tasks_def split: sum.splits)
  subgoal by (auto simp: handle_set_secrets_def same_tasks_def split: sum.splits prod.splits)
  subgoal by (auto simp: handle_remove_secret_def same_tasks_def split: sum.splits prod.splits)
  subgoal by (auto simp: handle_set_deploy_key_def same_tasks_def split: sum.splits prod.splits if_splits)
  subgoal by (auto simp: handle_preview_teardown_def absorb_previews_def same_tasks_def split: sum.splits)
  subgoal by (auto simp: handle_preview_teardown_all_def absorb_previews_def Let_def same_tasks_def split: sum.splits)
  done

lemma inserted_same: "same_tasks s (finish_insert ok ctx s)" "same_apps s (finish_insert ok ctx s)"
  by (simp_all add: finish_insert_def same_tasks_def same_apps_def)

lemma other_apps:
  "handle_set_secrets name kvs s = (t, ks) \<Longrightarrow> same_apps s t"
  "handle_remove_secret name key s = (t, d) \<Longrightarrow> same_apps s t"
  "handle_set_deploy_key env name rot s = (t, k) \<Longrightarrow> same_apps s t"
  "handle_deploy env header body s = (t, p) \<Longrightarrow> same_apps s t"
  "handle_rollback env name to s = (t, p) \<Longrightarrow> same_apps s t"
  "same_apps s (finish_deploy_task cfg denv out ctx s)"
  "same_apps s (finish_preview_task penv pout pctx s)"
  "handle_preview_teardown env penv au sig app pid s = (t, d) \<Longrightarrow> same_apps s t"
  "handle_preview_teardown_all env penv au sig app s = (t, ks) \<Longrightarrow> same_apps s t"
  subgoal by (auto simp: handle_set_secrets_def same_apps_def split: sum.splits prod.splits)
  subgoal by (auto simp: handle_remove_secret_def same_apps_def split: sum.splits prod.splits)
  subgoal by (auto simp: handle_set_deploy_key_def same_apps_def split: sum.splits prod.splits if_splits)
  subgoal by (auto simp: handle_deploy_def start_deploy_task_def start_preview_task_def api_record_deploy_def Let_def
      same_apps_def split: sum.splits prod.splits if_splits option.splits)
  subgoal by (auto simp: handle_rollback_def start_deploy_task_def api_record_deploy_def Let_def
      same_apps_def split: sum.splits prod.splits if_splits option.splits)
  subgoal by (simp add: finish_deploy_task_def absorb_world_def same_apps_def)
  subgoal by (simp add: finish_preview_task_def absorb_previews_def same_apps_def)
  subgoal by (auto simp: handle_preview_teardown_def absorb_previews_def same_apps_def split: sum.splits)
  subgoal by (auto simp: handle_preview_teardown_all_def absorb_previews_def Let_def same_apps_def split: sum.splits)
  done

section \<open>One task per application\<close>

definition deploy_tasks :: "api_task list \<Rightarrow> deploy_context list" where
  "deploy_tasks ts = List.map_filter (\<lambda>t. case t of DeployTask c \<Rightarrow> Some c | PreviewTask _ \<Rightarrow> None) ts"

definition preview_tasks :: "api_task list \<Rightarrow> preview_ctx list" where
  "preview_tasks ts = List.map_filter (\<lambda>t. case t of PreviewTask c \<Rightarrow> Some c | DeployTask _ \<Rightarrow> None) ts"

definition locks_owned :: "('r, 'p) api_state \<Rightarrow> bool" where
  "locks_owned st \<longleftrightarrow>
     dm_locked st = map dx_app (deploy_tasks (dm_tasks st)) \<and> distinct (dm_locked st) \<and>
     dm_preview_locked st = map ctx_key (preview_tasks (dm_tasks st)) \<and> distinct (dm_preview_locked st)"

lemma task_lists [simp]:
  "deploy_tasks [] = []" "preview_tasks [] = []"
  "deploy_tasks (DeployTask c # ts) = c # deploy_tasks ts" "deploy_tasks (PreviewTask p # ts) = deploy_tasks ts"
  "preview_tasks (DeployTask c # ts) = preview_tasks ts" "preview_tasks (PreviewTask p # ts) = p # preview_tasks ts"
  by (simp_all add: deploy_tasks_def preview_tasks_def map_filter_simps)

lemma task_lists_mem:
  "c \<in> set (deploy_tasks ts) \<longleftrightarrow> DeployTask c \<in> set ts"
  "p \<in> set (preview_tasks ts) \<longleftrightarrow> PreviewTask p \<in> set ts"
  by (induction ts) (simp_all, (metis api_task.exhaust api_task.inject api_task.distinct task_lists(3-6) set_ConsD list.set_intros)+)

lemma task_filters:
  "deploy_tasks (filter (\<lambda>t. t \<noteq> DeployTask c) ts) = filter (\<lambda>d. d \<noteq> c) (deploy_tasks ts) \<and>
   preview_tasks (filter (\<lambda>t. t \<noteq> DeployTask c) ts) = preview_tasks ts \<and>
   preview_tasks (filter (\<lambda>t. t \<noteq> PreviewTask p) ts) = filter (\<lambda>d. d \<noteq> p) (preview_tasks ts) \<and>
   deploy_tasks (filter (\<lambda>t. t \<noteq> PreviewTask p) ts) = deploy_tasks ts"
proof (induction ts)
  case (Cons t ts)
  then show ?case by (cases t) simp_all
qed simp

lemma remove_owner:
  "distinct (map f xs) \<Longrightarrow> c \<in> set xs \<Longrightarrow> removeAll (f c) (map f xs) = map f (filter (\<lambda>d. d \<noteq> c) xs)"
proof -
  assume a: "distinct (map f xs)" "c \<in> set xs"
  then have "inj_on f (set xs)" by (simp add: distinct_map)
  then have "filter (\<lambda>d. f c \<noteq> f d) xs = filter (\<lambda>d. d \<noteq> c) xs"
    using a(2) by (intro filter_cong) (auto dest: inj_onD)
  then show ?thesis by (simp add: removeAll_filter_not_eq filter_map o_def)
qed

lemma locks_owned_same: "same_tasks s t \<Longrightarrow> locks_owned t = locks_owned s"
  by (simp add: same_tasks_def locks_owned_def)

lemma start_deploy_locks:
  "start_deploy_task env ctx s = (t, p) \<Longrightarrow> locks_owned s \<Longrightarrow> locks_owned t"
  by (auto simp: start_deploy_task_def locks_owned_def api_record_deploy_def Let_def split: if_splits)

lemma start_preview_locks:
  "start_preview_task env req cfg img info s = (t, p) \<Longrightarrow> locks_owned s \<Longrightarrow> locks_owned t"
  by (auto simp: start_preview_task_def locks_owned_def Let_def ctx_key_def result_simps
      split: sum.splits)

lemma finish_locks:
  "DeployTask ctx \<in> set (dm_tasks s) \<Longrightarrow> locks_owned s \<Longrightarrow> locks_owned (finish_deploy_task cfg denv out ctx s)"
  "PreviewTask pctx \<in> set (dm_tasks s) \<Longrightarrow> locks_owned s \<Longrightarrow> locks_owned (finish_preview_task penv pout pctx s)"
  subgoal using task_filters[of ctx "dm_tasks s"] remove_owner[of dx_app "deploy_tasks (dm_tasks s)" ctx]
      distinct_removeAll[of "dm_locked s" "dx_app ctx"]
    by (auto simp: finish_deploy_task_def absorb_world_def locks_owned_def task_lists_mem)
  subgoal using task_filters[of _ "dm_tasks s" pctx] remove_owner[of ctx_key "preview_tasks (dm_tasks s)" pctx]
      distinct_removeAll[of "dm_preview_locked s" "ctx_key pctx"]
    by (auto simp: finish_preview_task_def absorb_previews_def locks_owned_def task_lists_mem)
  done

lemma step_locks: "locks_owned s \<Longrightarrow> api_step E s t \<Longrightarrow> locks_owned t"
proof (erule api_stepE)
  fix env header body p
  assume "locks_owned s" "handle_deploy env header body s = (t, p)"
  then show "locks_owned t"
    by (auto simp: handle_deploy_def split: sum.splits prod.splits option.splits dest: start_deploy_locks start_preview_locks)
next
  fix env name to p
  assume "locks_owned s" "handle_rollback env name to s = (t, p)"
  then show "locks_owned t"
    by (auto simp: handle_rollback_def split: sum.splits prod.splits dest: start_deploy_locks)
qed (auto dest: management_tasks locks_owned_same intro: finish_locks simp: locks_owned_same[OF inserted_same(1)])

section \<open>Applications on disk\<close>

definition on_disk :: "('r, 'p) api_state \<Rightarrow> bool" where
  "on_disk st \<longleftrightarrow> (\<forall>name cfg. map_of (dm_apps st) name = Some cfg \<longrightarrow>
     ai_name (ac_app cfg) = name \<and> map_of (dm_files st) name = Some cfg)"

lemma on_disk_same: "same_apps s t \<Longrightarrow> on_disk t = on_disk s"
  by (simp add: same_apps_def on_disk_def)

lemma publish_on_disk:
  "publish_app env name a s = (t, r) \<Longrightarrow> ai_name (ac_app a) = name \<Longrightarrow> on_disk s \<Longrightarrow> on_disk t"
  by (auto simp: publish_app_def persist_app_config_def on_disk_def update_conv'
      split: prod.splits sum.splits if_splits)

lemma updated_name [simp]: "ai_name (ac_app (updated_config r c)) = ai_name (ac_app c)"
  by (simp add: updated_config_def)

lemma created_name [simp]: "ai_name (ac_app (created_config r)) = cr_app_name r"
  by (simp add: created_config_def)

lemma find_app_Inr [simp]: "find_app st name = Inr cfg \<longleftrightarrow> map_of (dm_apps st) name = Some cfg"
  by (simp add: find_app_def result_simps)

lemma step_on_disk: "on_disk s \<Longrightarrow> api_step E s t \<Longrightarrow> on_disk t"
proof (erule api_stepE)
  fix env creq r
  assume "on_disk s" "handle_create_app env creq s = (t, r)"
  then show "on_disk t" by (auto simp: handle_create_app_def split: sum.splits dest!: publish_on_disk)
next
  fix env name ureq r
  assume a: "on_disk s" "handle_update_app env name ureq s = (t, r)"
  then have "t = s \<or> (\<exists>c. map_of (dm_apps s) name = Some c \<and> publish_app env name (updated_config ureq c) s = (t, r))"
    by (auto simp: handle_update_app_def result_simps split: sum.splits)
  then show "on_disk t" using a(1) publish_on_disk[of env name _ s t r] by (auto simp: on_disk_def[of s])
next
  fix env name d
  assume "on_disk s" "handle_delete_app env name s = (t, d)"
  then show "on_disk t"
    by (auto simp: handle_delete_app_def Let_def on_disk_def delete_conv' split: sum.splits if_splits)
qed (auto dest: other_apps(1-5,8,9) on_disk_same simp: on_disk_same[OF other_apps(6)] on_disk_same[OF other_apps(7)]
    on_disk_same[OF inserted_same(2)])

end
