(* ===== verification/ApiStatus.thy ===== *)
theory ApiStatus
  imports ApiSteps Health
begin

text \<open>
  The read-only handlers of \<open>api.rs\<close>: daemon and application status, the log endpoint up to the
  streams it opens, and the parser of \<open>since\<close>.  What the runtime, Caddy and the probe answer within
  their time limits is an input; so is the JSON codec of an \<open>AppResponse\<close>.
\<close>

section \<open>The since parameter\<close>

datatype since_error = SinceEmpty | SinceOverflow | SinceChar string | SinceNoUnit

definition since_i64 :: "int \<Rightarrow> since_error + int" where
  "since_i64 n = (if n \<le> 2 ^ 63 - 1 then Inr n else Inl SinceOverflow)"

definition since_unit :: "char \<Rightarrow> int option" where
  "since_unit c = (if c = CHR ''s'' then Some 1 else if c = CHR ''m'' then Some 60
                   else if c = CHR ''h'' then Some 3600 else None)"

fun since_secs :: "string list \<Rightarrow> int \<Rightarrow> int \<Rightarrow> since_error + int" where
  "since_secs [] tot current = (if current > 0 then Inl SinceNoUnit else Inr tot)"
| "since_secs (ch # cs) tot current =
     (case ch of
        [c] \<Rightarrow>
          if is_digit c then
            and_then (since_i64 (current * 10)) (\<lambda>v.
            and_then (since_i64 (v + int (digit_val c))) (\<lambda>v'. since_secs cs tot v'))
          else (case since_unit c of
                  Some u \<Rightarrow> and_then (since_i64 (current * u)) (\<lambda>v.
                            and_then (since_i64 (tot + v)) (\<lambda>t'. since_secs cs t' 0))
                | None \<Rightarrow> Inl (SinceChar ch))
      | _ \<Rightarrow> Inl (SinceChar ch))"

definition parse_since_duration :: "int \<Rightarrow> string \<Rightarrow> since_error + int" where
  "parse_since_duration now s =
     (if s = [] then Inl SinceEmpty
      else and_then (since_secs (utf8_chars s) 0 0) (\<lambda>tot. Inr (now - tot)))"

section \<open>Status of an application\<close>

fun app_status_str :: "app_status \<Rightarrow> string" where
  "app_status_str StRunning = ''running''"
| "app_status_str StDeploying = ''deploying''"
| "app_status_str StFailed = ''failed''"
| "app_status_str StNotDeployed = ''not_deployed''"

record deploy_summary =
  ds_deploy_id :: string
  ds_app :: string
  ds_tag :: string
  ds_status :: string
  ds_triggered_by :: string
  ds_started_at :: int
  ds_finished_at :: "int option"
  ds_error :: "deploy_failure option"

definition deploy_summary_of :: "string \<Rightarrow> deploy_context \<Rightarrow> deploy_summary" where
  "deploy_summary_of app ctx =
     \<lparr>ds_deploy_id = dx_id ctx, ds_app = app, ds_tag = dx_tag ctx, ds_status = deploy_status_str (dx_status ctx),
      ds_triggered_by = trigger_str (dx_triggered_by ctx), ds_started_at = dx_started_at ctx,
      ds_finished_at = dx_finished_at ctx, ds_error = dx_error ctx\<rparr>"

record health_status =
  hs_path :: "string option"
  hs_retries :: nat
  hs_status :: string
  hs_last_check :: "int option"

record app_status_response =
  sr_status :: string
  sr_tag :: "string option"
  sr_deployed_at :: "int option"
  sr_container_id :: "string option"
  sr_port :: "nat option"
  sr_kind :: "string option"
  sr_deploy_id :: "string option"
  sr_triggered_by :: "string option"
  sr_container_state :: "string option"
  sr_health :: "health_status option"
  sr_last_deploy :: "deploy_summary option"
  sr_routes :: "route_state list"
  sr_secrets :: "string list"
  sr_cert :: "string option"
  sr_config_drift :: "bool option"

text \<open>An answer of the runtime within two seconds, or none.\<close>

datatype 'a timed = Answer 'a | AnswerError | NoAnswer

record container_info =
  ci_id :: string
  ci_name :: "string option"
  ci_state :: string
  ci_tag :: "string option"

record status_env =
  se_running :: "string \<Rightarrow> bool timed"
  se_labelled :: "string \<Rightarrow> container_info list timed"
  se_probe :: "string \<Rightarrow> probe_result timed"
  se_port_text :: "nat \<Rightarrow> string"
  se_tls_issuer :: "string \<Rightarrow> caddy_error + string option"
  se_parse_response :: "string \<Rightarrow> app_response option"
  se_now :: int

definition labelled_state :: "status_env \<Rightarrow> string \<Rightarrow> string option" where
  "labelled_state env name =
     (case se_labelled env name of
        Answer [] \<Rightarrow> None
      | Answer (c # _) \<Rightarrow> Some (ci_state c)
      | AnswerError \<Rightarrow> None
      | NoAnswer \<Rightarrow> Some ''unknown'')"

definition container_state :: "status_env \<Rightarrow> string \<Rightarrow> app_runtime_state option \<Rightarrow> string option" where
  "container_state env name rs =
     (case Option.bind rs as_current_container_id of
        Some cid \<Rightarrow> (case se_running env cid of
                       Answer b \<Rightarrow> Some (if b then ''running'' else ''exited'')
                     | AnswerError \<Rightarrow> None
                     | NoAnswer \<Rightarrow> Some ''unknown'')
      | None \<Rightarrow> labelled_state env name)"

definition probe_health :: "status_env \<Rightarrow> health_config \<Rightarrow> nat \<Rightarrow> health_status" where
  "probe_health env h port =
     (case hc_path h of
        None \<Rightarrow> \<lparr>hs_path = None, hs_retries = hc_retries h, hs_status = ''unknown'', hs_last_check = None\<rparr>
      | Some path \<Rightarrow>
          \<lparr>hs_path = Some path, hs_retries = hc_retries h,
           hs_status = (case se_probe env (''http://127.0.0.1:'' @ se_port_text env port @ path) of
                          Answer (ProbeResponse s) \<Rightarrow>
                            if status_matches s (hc_expect_status h) then ''healthy'' else ''unhealthy''
                        | _ \<Rightarrow> ''unhealthy''),
           hs_last_check = Some (se_now env)\<rparr>)"

definition status_routes :: "app_config \<Rightarrow> app_runtime_state option \<Rightarrow> route_state list" where
  "status_routes cfg rs =
     (case rs of
        Some s \<Rightarrow> as_current_routes s
      | None \<Rightarrow> List.map_filter (\<lambda>r. map_option (\<lambda>p. \<lparr>rs_hostname = re_hostname r, rs_port = p\<rparr>) (re_port r))
                  (effective_routes (ac_routing cfg)))"

definition config_drift :: "(string \<Rightarrow> app_response option) \<Rightarrow> app_config \<Rightarrow> app_runtime_state option \<Rightarrow> bool option" where
  "config_drift parse cfg rs =
     (case Option.bind rs as_last_applied of
        None \<Rightarrow> None
      | Some text \<Rightarrow> (case parse text of
                        Some applied \<Rightarrow> Some (applied \<noteq> app_response_of cfg)
                      | None \<Rightarrow> Some True))"

definition cert_issuer :: "status_env \<Rightarrow> route_state list \<Rightarrow> string option" where
  "cert_issuer env routes =
     (case routes of
        [] \<Rightarrow> None
      | r # _ \<Rightarrow> (case se_tls_issuer env (rs_hostname r) of
                    Inr (Some issuer) \<Rightarrow> Some issuer
                  | Inr None \<Rightarrow> Some ''acme''
                  | Inl _ \<Rightarrow> None))"

definition handle_app_status ::
  "status_env \<Rightarrow> ('r, 'p) api_state \<Rightarrow> string \<Rightarrow> app_error + app_status_response" where
  "handle_app_status env st name =
     and_then (find_app st name) (\<lambda>cfg.
       let rs = map_of (dm_states st) name;
           cached = map_of (dm_deploys st) name;
           routes = status_routes cfg rs
       in Inr \<lparr>sr_status = (case rs of Some s \<Rightarrow> app_status_str (as_status s) | None \<Rightarrow> ''not_deployed''),
               sr_tag = Option.bind rs as_current_tag, sr_deployed_at = Option.bind rs as_deployed_at,
               sr_container_id = Option.bind rs as_current_container_id, sr_port = Option.bind rs as_current_port,
               sr_kind = Option.bind rs as_kind, sr_deploy_id = map_option dx_id cached,
               sr_triggered_by = map_option (\<lambda>c. trigger_str (dx_triggered_by c)) cached,
               sr_container_state = container_state env name rs,
               sr_health = map_option (probe_health env (ac_health cfg)) (Option.bind rs as_current_port),
               sr_last_deploy = map_option (deploy_summary_of name) cached, sr_routes = routes,
               sr_secrets = secret_keys (dm_secrets st) cfg, sr_cert = cert_issuer env routes,
               sr_config_drift = config_drift (se_parse_response env) cfg rs\<rparr>)"

section \<open>Status of the daemon\<close>

definition brief_status :: "('r, 'p) api_state \<Rightarrow> string \<Rightarrow> app_status_response" where
  "brief_status st name =
     (let rs = map_of (dm_states st) name; cached = map_of (dm_deploys st) name in
      \<lparr>sr_status = (case rs of Some s \<Rightarrow> app_status_str (as_status s) | None \<Rightarrow> ''not_deployed''),
       sr_tag = Option.bind rs as_current_tag, sr_deployed_at = Option.bind rs as_deployed_at,
       sr_container_id = Option.bind rs as_current_container_id, sr_port = Option.bind rs as_current_port,
       sr_kind = Option.bind rs as_kind, sr_deploy_id = map_option dx_id cached,
       sr_triggered_by = map_option (\<lambda>c. trigger_str (dx_triggered_by c)) cached,
       sr_container_state = None, sr_health = None, sr_last_deploy = map_option (deploy_summary_of name) cached,
       sr_routes = [], sr_secrets = [], sr_cert = None, sr_config_drift = None\<rparr>)"

record status_response =
  sp_uptime_seconds :: int
  sp_caddy :: string
  sp_runtime :: string
  sp_app_count :: nat
  sp_last_deploys :: "deploy_summary list"
  sp_apps :: "(string \<times> app_status_response) list"

definition handle_status :: "int \<Rightarrow> bool \<Rightarrow> bool \<Rightarrow> ('r, 'p) api_state \<Rightarrow> status_response" where
  "handle_status uptime caddy_ok runtime_ok st =
     (let keys = map fst (dm_apps st) in
      \<lparr>sp_uptime_seconds = uptime, sp_caddy = (if caddy_ok then ''ok'' else ''error''),
       sp_runtime = (if runtime_ok then ''ok'' else ''error''), sp_app_count = length keys,
       sp_last_deploys = List.map_filter (\<lambda>a. map_option (\<lambda>c. deploy_summary_of (dx_app c) c) (map_of (dm_deploys st) a)) keys,
       sp_apps = map (\<lambda>a. (a, brief_status st a)) keys\<rparr>)"

section \<open>Logs\<close>

definition same_container :: "string option \<Rightarrow> container_info \<Rightarrow> bool" where
  "same_container i c = (case i of Some x \<Rightarrow> prefix (ci_id c) x \<or> prefix x (ci_id c) | None \<Rightarrow> False)"

definition green_id :: "app_runtime_state option \<Rightarrow> container_info list \<Rightarrow> string option" where
  "green_id rs cs =
     (case List.find (same_container (Option.bind rs as_current_container_id)) cs of
        Some c \<Rightarrow> Some (ci_id c)
      | None \<Rightarrow> (case cs of [] \<Rightarrow> None | c # _ \<Rightarrow> Some (ci_id c)))"

definition blue_id :: "app_runtime_state option \<Rightarrow> container_info list \<Rightarrow> string option" where
  "blue_id rs cs =
     map_option ci_id (List.find (same_container (Option.bind rs as_previous_container_id)) cs)"

definition container_role :: "app_runtime_state option \<Rightarrow> container_info list \<Rightarrow> container_info \<Rightarrow> string" where
  "container_role rs cs c =
     (if Some (ci_id c) = green_id rs cs then ''green''
      else if Some (ci_id c) = blue_id rs cs then ''blue''
      else if length cs = 1 then ''green'' else ''blue'')"

definition log_label :: "app_runtime_state option \<Rightarrow> container_info list \<Rightarrow> container_info \<Rightarrow> string" where
  "log_label rs cs c = container_role rs cs c @ ''-'' @ ci_id c @ ''/'' @ some_or (ci_name c) (ci_id c)"

text \<open>The streams that are opened: container, label and the time from which on.\<close>

datatype logs_error = LogsAppMissing string | LogsBadSince string since_error | LogsNoContainer string

definition handle_app_logs ::
  "status_env \<Rightarrow> ('r, 'p) api_state \<Rightarrow> string \<Rightarrow> string option \<Rightarrow>
     logs_error + (string \<times> string \<times> int option) list" where
  "handle_app_logs env st name since =
     (if map_of (dm_apps st) name = None then Inl (LogsAppMissing name)
      else and_then (case since of
                       None \<Rightarrow> Inr None
                     | Some s \<Rightarrow> (case parse_since_duration (se_now env) s of
                                    Inr t \<Rightarrow> Inr (Some t) | Inl e \<Rightarrow> Inl (LogsBadSince s e))) (\<lambda>from.
        let cs = (case se_labelled env name of
                    Answer cs \<Rightarrow> filter (\<lambda>c. ci_state c = ''running'') cs | _ \<Rightarrow> []);
            rs = map_of (dm_states st) name
        in if cs = [] then Inl (LogsNoContainer name)
           else Inr (map (\<lambda>c. (ci_id c, log_label rs cs c, from)) cs)))"

end
