(* ===== verification/Daemon.thy ===== *)
theory Daemon
  imports ApiSteps Reconcile
begin

text \<open>
  The start of the daemon (\<open>slipd/src/main.rs\<close>): load the configuration, connect the runtime, prepare
  Caddy, load and verify the persisted state, re-register the routes, and build the state the API
  serves from.  The process environment, the parsed files, the answers of the runtime and the SQLite
  file are inputs.
\<close>

section \<open>The container runtime\<close>

datatype backend = DockerBackend | PodmanBackend

datatype start_failure =
    StartConfig config_error
  | RuntimeUnavailable string
  | UnknownBackend string
  | NetworkFailed
  | ListenerTaken string string
  | BootstrapFailed caddy_error
  | PreviewTlsFailed caddy_error
  | WebhookFailed caddy_error

text \<open>What connecting tells: whether each client can be made and whether it answers a ping.\<close>

record backend_probe =
  bp_docker_new :: bool
  bp_docker_ping :: bool
  bp_podman_new :: bool
  bp_podman_ping :: bool

definition choose_backend :: "string \<Rightarrow> backend_probe \<Rightarrow> start_failure + backend" where
  "choose_backend name p =
     (if name = ''docker'' then if bp_docker_new p then Inr DockerBackend else Inl (RuntimeUnavailable name)
      else if name = ''podman'' then if bp_podman_new p then Inr PodmanBackend else Inl (RuntimeUnavailable name)
      else if name = ''auto'' then
        if bp_podman_new p \<and> bp_podman_ping p then Inr PodmanBackend
        else if bp_docker_new p then Inr DockerBackend else Inl (RuntimeUnavailable name)
      else Inl (UnknownBackend name))"

definition connect_runtime :: "string \<Rightarrow> backend_probe \<Rightarrow> start_failure + backend" where
  "connect_runtime name p =
     and_then (choose_backend name p) (\<lambda>b.
       if (case b of DockerBackend \<Rightarrow> bp_docker_ping p | PodmanBackend \<Rightarrow> bp_podman_ping p)
       then Inr b else Inl (RuntimeUnavailable name))"

section \<open>Caddy\<close>

definition prepare_caddy ::
  "'c caddy_ops \<Rightarrow> slip_config \<Rightarrow> string \<Rightarrow> 'c \<Rightarrow> 'c \<times> (start_failure + unit)" where
  "prepare_caddy ops cfg listen c =
     (case bootstrap ops c of
        (c1, Inl (CaddyListenerConflict server listener)) \<Rightarrow> (c1, Inl (ListenerTaken server listener))
      | (c1, Inl e) \<Rightarrow> (c1, Inl (BootstrapFailed e))
      | (c1, Inr _) \<Rightarrow>
          (let (c2, x) = (case (sc_preview cfg, cc_tls (sc_caddy cfg)) of
                            (Some p, Some tls) \<Rightarrow> configure_tls ops (sp_domain p) tls c1
                          | _ \<Rightarrow> (c1, Inr ()))
           in case x of
                Inl e \<Rightarrow> (c2, Inl (PreviewTlsFailed e))
              | Inr _ \<Rightarrow>
                  (case sc_deploy cfg of
                     None \<Rightarrow> (c2, Inr ())
                   | Some d \<Rightarrow>
                       (let (c3, y) = bootstrap_deploy ops (sd_domain d) (sd_tls d) listen (resolve_acme_email cfg)
                                        (cc_tls (sc_caddy cfg)) (cc_acme_ca (sc_caddy cfg)) c2
                        in (c3, map_err WebhookFailed y)))))"

section \<open>Secrets of the configuration\<close>

definition migrate_app_secret :: "secrets_store \<Rightarrow> string \<times> app_config \<Rightarrow> secrets_store" where
  "migrate_app_secret s e =
     (case ai_secret (ac_app (snd e)) of
        None \<Rightarrow> s
      | Some secret \<Rightarrow>
          (case get_deploy_key s (fst e) of
             Inr (Some _) \<Rightarrow> s
           | _ \<Rightarrow> fst (store_set s (fst e) deploy_key_name secret)))"

definition migrate_app_secrets :: "(string \<times> app_config) list \<Rightarrow> secrets_store \<Rightarrow> secrets_store" where
  "migrate_app_secrets apps s = foldl migrate_app_secret s apps"

section \<open>The start\<close>

record ('r, 'c) boot_env =
  bt_caddy :: "'c caddy_ops"
  bt_environ :: process_env
  bt_backend :: string
  bt_probe :: backend_probe
  bt_network_ok :: bool
  bt_listen :: string
  bt_exists :: "string \<Rightarrow> bool option"
  bt_retries :: "route_info \<Rightarrow> nat"

text \<open>What a stopped daemon leaves: its files, its database and the outside world.\<close>

record ('r, 'c) boot_disk =
  bd_config :: "config_error + slip_config"
  bd_apps :: "(string \<times> (config_error + app_config)) list"
  bd_files :: "(string \<times> app_config) list"
  bd_dir :: "persisted_app_state state_dir"
  bd_preview_dir :: "persisted_preview_state preview_dir"
  bd_db :: deploy_table
  bd_secrets :: secrets_store
  bd_manifests :: "(string \<times> string) list"
  bd_rt :: 'r

definition restored_states :: "('r, 'c) boot_env \<Rightarrow> persisted_app_state state_dir \<Rightarrow> (string \<times> app_runtime_state) list" where
  "restored_states env dir = verify_containers (bt_exists env) (load_app_states Some dir)"

definition daemon_state ::
  "('r, 'c) boot_env \<Rightarrow> ('r, 'c) boot_disk \<Rightarrow> (string \<times> app_config) list \<Rightarrow> 'c \<Rightarrow> ('r, 'c) api_state" where
  "daemon_state env disk apps c =
     (let states = restored_states env (bd_dir disk);
          previews = load_preview_states Some (bd_preview_dir disk)
      in \<lparr>dm_apps = apps, dm_files = bd_files disk, dm_locked = [], dm_preview_locked = [], dm_states = states,
          dm_dir = bd_dir disk, dm_deploys = get_latest_deploys_per_app (bd_db disk), dm_db = bd_db disk,
          dm_inserts = [],
          dm_secrets = migrate_app_secrets apps (bd_secrets disk), dm_previews = previews,
          dm_preview_dir = bd_preview_dir disk, dm_tasks = [], dm_manifests = bd_manifests disk,
          dm_rt = bd_rt disk,
          dm_px = fst (reconcile_preview_routes (bt_caddy env) previews
                    (fst (reconcile_app_routes (bt_caddy env) (bt_retries env) states apps c)))\<rparr>)"

definition daemon_start ::
  "('r, 'c) boot_env \<Rightarrow> ('r, 'c) boot_disk \<Rightarrow> 'c \<Rightarrow> 'c \<times> (start_failure + slip_config \<times> ('r, 'c) api_state)" where
  "daemon_start env disk c =
     (case and_then (map_err StartConfig (load_config (bt_environ env) (bd_config disk) (bd_apps disk))) (\<lambda>(cfg, apps).
           and_then (connect_runtime (bt_backend env) (bt_probe env)) (\<lambda>_.
           and_then (require (bt_network_ok env) NetworkFailed) (\<lambda>_. Inr (cfg, apps)))) of
        Inl e \<Rightarrow> (c, Inl e)
      | Inr (cfg, apps) \<Rightarrow>
          (case prepare_caddy (bt_caddy env) cfg (bt_listen env) c of
             (c1, Inl e) \<Rightarrow> (c1, Inl e)
           | (c1, Inr _) \<Rightarrow>
               (let st = daemon_state env disk apps c1 in (dm_px st, Inr (cfg, st)))))"

section \<open>What a stopped daemon leaves\<close>

text \<open>An application file holds the configuration it was written from with its durations as text:
  \<open>format_duration\<close> drops what is below a millisecond unless whole seconds are left.  Seconds are read
  back as an \<open>f64\<close>, exact below \<open>2 ^ 53\<close>.\<close>

definition stored_duration :: "duration \<Rightarrow> duration" where
  "stored_duration d = (if d mod 1000000000 = 0 then d else millis (d div 1000000))"

definition reread :: "app_config \<Rightarrow> app_config" where
  "reread c =
     c\<lparr>ac_health := (ac_health c)\<lparr>hc_interval := stored_duration (hc_interval (ac_health c)),
                                  hc_timeout := stored_duration (hc_timeout (ac_health c)),
                                  hc_start_period := stored_duration (hc_start_period (ac_health c))\<rparr>,
       ac_deploy := (ac_deploy c)\<lparr>dc_drain_timeout := stored_duration (dc_drain_timeout (ac_deploy c)),
                                  dc_timeout := map_option stored_duration (dc_timeout (ac_deploy c))\<rparr>\<rparr>"

definition app_file :: "string \<times> app_config \<Rightarrow> string \<times> (config_error + app_config)" where
  "app_file e = (fst e, Inr (reread (snd e)))"

definition stopped ::
  "config_error + slip_config \<Rightarrow> ('r, 'c) api_state \<Rightarrow> ('r, 'c) boot_disk" where
  "stopped cfg st =
     \<lparr>bd_config = cfg, bd_apps = map app_file (dm_files st), bd_files = dm_files st,
      bd_dir = dm_dir st, bd_preview_dir = dm_preview_dir st, bd_db = dm_db st, bd_secrets = dm_secrets st,
      bd_manifests = dm_manifests st, bd_rt = dm_rt st\<rparr>"

lemma trim_digits:
  assumes "list_all is_digit s"
  shows "trim s = s" "trim (s @ ''s'') = s @ ''s''" "trim (s @ ''ms'') = s @ ''ms''"
proof -
  have "list_all is_graph s" using assms by (auto simp: list_all_iff byte_class_defs less_eq_char_def)
  then show "trim s = s" "trim (s @ ''s'') = s @ ''s''" "trim (s @ ''ms'') = s @ ''ms''"
    by (auto intro!: trim_graph simp: byte_class_defs less_eq_char_def)
qed

lemma stored_duration_parses:
  assumes "\<And>n. f64 (show_nat n) = F64Secs (secs n)" "d div 1000000 \<le> u64_max"
  shows "parse_duration f64 (format_duration d) = DurOk (stored_duration d)"
proof (cases "d mod 1000000000 = 0")
  case True
  let ?n = "show_nat (d div 1000000000)"
  have "strip_suffix ''ms'' (?n @ ''s'') = None"
  proof (cases "strip_suffix ''ms'' (?n @ ''s'')")
    case (Some r)
    then have "?n @ ''s'' = (r @ ''m'') @ ''s''" by (simp add: strip_suffix_Some_iff)
    then have "?n = r @ ''m''" by (simp only: append_same_eq)
    then have "is_digit (CHR ''m'')" using show_nat_digits[of "d div 1000000000"] by simp
    then show ?thesis by (simp add: byte_class_defs less_eq_char_def)
  qed
  moreover have "strip_suffix ''s'' (?n @ ''s'') = Some ?n" by (simp only: strip_suffix_Some_iff)
  moreover have "secs (d div 1000000000) = d" using True by (auto simp: secs_def)
  ultimately show ?thesis
    using True assms(1) by (simp add: parse_duration_def format_duration_def trim_digits stored_duration_def)
next
  case False
  have "strip_suffix ''ms'' (show_nat (d div 1000000) @ ''ms'') = Some (show_nat (d div 1000000))"
    by (simp only: strip_suffix_Some_iff)
  then show ?thesis
    using False assms(2) by (simp add: parse_duration_def format_duration_def trim_digits stored_duration_def)
qed

end
