(* ===== verification/ApiSamples.thy ===== *)
theory ApiSamples
  imports ApiSteps Daemon PreviewSamples
begin

text \<open>
  A daemon that serves one application on the reference runtime and the reference Caddy server: the
  concrete inputs of the theorems about the API.  HMAC is the concatenation of key and text.
\<close>

definition sample_api_env :: "(ref_runtime, caddy_server) api_env" where
  "sample_api_env =
     \<lparr>ae_config = sample_slip, ae_bind = None, ae_check_needs = (\<lambda>_ _. Inr ()), ae_write_ok = (\<lambda>_. True),
      ae_delete_ok = (\<lambda>_. True), ae_response_text = ar_image,
      ae_parse_deploy = (\<lambda>b. if b = [] then None
         else Some \<lparr>dq_app = ''web'', dq_image = None, dq_tag = b, dq_preview = None, dq_images = []\<rparr>),
      ae_hmac = (@), ae_unhex = Some, ae_uni = (\<lambda>_. False), ae_runtime = ref_runtime_ops,
      ae_remove_routes = remove_routes (server_ops True), ae_fresh = ''01j'', ae_random = ''k3y'', ae_now = 900\<rparr>"

definition sample_create :: create_app_request where
  "sample_create =
     \<lparr>cr_app_name = ''web'', cr_app_image = ''ghcr.io/me/web'', cr_app_domain = ''web.x.dev'', cr_app_port = 8080,
      cr_app_secret = None, cr_app_env = [], cr_app_resources = None, cr_app_network = None, cr_app_health = None,
      cr_app_deploy = None, cr_app_preview = None, cr_app_volumes = None, cr_app_routes = None, cr_app_tls = None,
      cr_app_needs = []\<rparr>"

definition sample_update :: update_app_request where
  "sample_update =
     \<lparr>up_image = None, up_domain = None, up_port = None, up_secret = None, up_env = None, up_needs = None,
      up_resources = None, up_network = None, up_health = None, up_deploy = None, up_preview = None,
      up_volumes = None, up_routes = None, up_tls = None\<rparr>"

text \<open>A daemon without applications, and the one after the first is registered.\<close>

definition empty_daemon :: "(ref_runtime, caddy_server) api_state" where
  "empty_daemon =
     \<lparr>dm_apps = [], dm_files = [], dm_locked = [], dm_preview_locked = [], dm_states = [], dm_dir = [],
      dm_deploys = [], dm_db = [], dm_inserts = [], dm_secrets = Secrets.sample_store, dm_previews = [], dm_preview_dir = [],
      dm_tasks = [], dm_manifests = [], dm_rt = sample_runtime,
      dm_px = \<lparr>sv_routes = [], sv_policies = None, sv_config = JNull, sv_faults = []\<rparr>\<rparr>"

definition one_app_daemon :: "(ref_runtime, caddy_server) api_state" where
  "one_app_daemon = fst (handle_create_app sample_api_env sample_create empty_daemon)"

definition deploying_daemon :: "(ref_runtime, caddy_server) api_state" where
  "deploying_daemon = fst (handle_deploy sample_api_env (Some ''sha256=kv2'') ''v2'' one_app_daemon)"

lemma deploying_daemon_tasks: "map dx_app (deploy_tasks (dm_tasks deploying_daemon)) = [''web'']"
  by code_simp

end
