(* ===== verification/ApiProps.thy ===== *)
theory ApiProps
  imports ApiSamples
begin

text \<open>
  What the API guarantees: one deploy per application at a time, signed deploys, applications that
  survive a restart; and where a restart finds something else than the running daemon had.
\<close>

section \<open>One deploy at a time\<close>

lemma busy_refused:
  assumes "a \<in> set (dm_locked st)"
  shows "handle_update_app env a ureq st = (st, Inl (ApiConflict (AppBusy a)))"
    "handle_delete_app env a st = (st, Inl (ApiConflict (AppBusy a)))"
    "handle_set_secrets a kvs st = (st, Inl (ApiConflict (AppBusy a)))"
    "handle_remove_secret a key st = (st, Inl (ApiConflict (AppBusy a)))"
    "cr_app_name creq = a \<Longrightarrow> \<exists>e. handle_create_app env creq st = (st, Inl e)"
    "\<exists>e. handle_rollback env a to st = (st, Inl e)"
  using assms
  by (auto simp: handle_update_app_def handle_delete_app_def handle_set_secrets_def handle_remove_secret_def
      handle_create_app_def handle_rollback_def start_deploy_task_def deploy_context_new_def lock_app_def result_simps
      split: sum.splits prod.splits)

lemma busy_deploy_refused:
  assumes "a \<in> set (dm_locked st)" "ae_parse_deploy env body = Some req" "dq_app req = a" "dq_preview req = None"
  shows "\<exists>e. handle_deploy env header body st = (st, Inl e)"
proof -
  have "authorize_deploy env header body st = Inr (r, cfg) \<Longrightarrow> r = req" for r cfg
    using assms(2) by (auto simp: authorize_deploy_def result_simps)
  then show ?thesis
    using assms by (auto simp: handle_deploy_def start_deploy_task_def deploy_context_new_def result_simps
        split: sum.splits prod.splits)
qed

text \<open>The requests that take the deploy lock of the application: each is answered by an error and changes
  nothing while the lock is held.\<close>

definition deploy_lock_refuses :: "('r, 'p) api_env \<Rightarrow> ('r, 'p) api_state \<Rightarrow> string \<Rightarrow> bool" where
  "deploy_lock_refuses env st a \<longleftrightarrow>
     (\<forall>req. handle_update_app env a req st = (st, Inl (ApiConflict (AppBusy a)))) \<and>
     handle_delete_app env a st = (st, Inl (ApiConflict (AppBusy a))) \<and>
     (\<forall>kvs. handle_set_secrets a kvs st = (st, Inl (ApiConflict (AppBusy a)))) \<and>
     (\<forall>key. handle_remove_secret a key st = (st, Inl (ApiConflict (AppBusy a)))) \<and>
     (\<forall>req. cr_app_name req = a \<longrightarrow> (\<exists>e. handle_create_app env req st = (st, Inl e))) \<and>
     (\<forall>to. \<exists>e. handle_rollback env a to st = (st, Inl e)) \<and>
     (\<forall>header body req. ae_parse_deploy env body = Some req \<and> dq_app req = a \<and> dq_preview req = None \<longrightarrow>
        (\<exists>e. handle_deploy env header body st = (st, Inl e)))"

text \<open>Setting the deploy key takes no lock: whatever runs, it is not refused on that account, and it
  changes nothing but the stored secrets.\<close>

definition key_request_passes :: "('r, 'p) api_env \<Rightarrow> ('r, 'p) api_state \<Rightarrow> string \<Rightarrow> bool" where
  "key_request_passes env st a \<longleftrightarrow>
     (\<forall>rot. \<exists>s. fst (handle_set_deploy_key env a rot st) = st\<lparr>dm_secrets := s\<rparr> \<and>
        (\<forall>l t. snd (handle_set_deploy_key env a rot (st\<lparr>dm_locked := l, dm_tasks := t\<rparr>)) =
                snd (handle_set_deploy_key env a rot st)))"

lemma key_passes: "key_request_passes env st a"
proof -
  have "\<exists>s. fst (handle_set_deploy_key env a rot st) = st\<lparr>dm_secrets := s\<rparr>" for rot
    by (auto simp: handle_set_deploy_key_def Let_def split: sum.splits prod.splits intro: exI[of _ "dm_secrets st"])
  moreover have "snd (handle_set_deploy_key env a rot (st\<lparr>dm_locked := l, dm_tasks := t\<rparr>)) =
      snd (handle_set_deploy_key env a rot st)" for rot l t
    by (auto simp: handle_set_deploy_key_def find_app_def Let_def split: sum.splits prod.splits)
  ultimately show ?thesis by (simp add: key_request_passes_def)
qed

lemma busy_lock_refuses: "a \<in> set (dm_locked st) \<Longrightarrow> deploy_lock_refuses env st a"
  by (simp add: deploy_lock_refuses_def busy_refused(1-4)) (metis busy_refused(5,6) busy_deploy_refused)

text \<open>C1. From a daemon without tasks, after any sequence of requests and finished tasks, at most one
  deploy of an application and one of a preview is running. While a deploy of an application runs the
  requests that take its lock (create, update, delete, setting or removing a secret, rollback and
  production deploy) are refused and change nothing, and its end frees the application. The request
  that sets the deploy key takes no lock and is the exception: its answer does not depend on the locks
  and tasks, and it changes the stored secrets only.\<close>

theorem one_deploy_per_app:
  assumes "dm_tasks s0 = []" "dm_locked s0 = []" "dm_preview_locked s0 = []" "api_run E s0 st"
  shows "distinct (map dx_app (deploy_tasks (dm_tasks st))) \<and>
    distinct (map ctx_key (preview_tasks (dm_tasks st))) \<and>
    (\<forall>ctx. DeployTask ctx \<in> set (dm_tasks st) \<longrightarrow> deploy_lock_refuses env st (dx_app ctx) \<and>
       key_request_passes env st (dx_app ctx) \<and>
       lock_app (finish_deploy_task cfg denv out ctx st) (dx_app ctx) = Inr ())"
proof -
  have "locks_owned s0" using assms(1-3) by (simp add: locks_owned_def)
  then have owned: "locks_owned st" using api_run_invariant[OF assms(4)] step_locks by blast
  have "deploy_lock_refuses env st (dx_app ctx)" if "DeployTask ctx \<in> set (dm_tasks st)" for ctx
    using that owned by (intro busy_lock_refuses) (auto simp: locks_owned_def task_lists_mem)
  moreover have "lock_app (finish_deploy_task cfg denv out ctx st) (dx_app ctx) = Inr ()" for ctx
    by (simp add: lock_app_def finish_deploy_task_def)
  moreover have "distinct (map dx_app (deploy_tasks (dm_tasks st)))"
    "distinct (map ctx_key (preview_tasks (dm_tasks st)))" using owned by (metis locks_owned_def)+
  ultimately show ?thesis using key_passes by blast
qed

lemma sample_run: "api_run {sample_api_env} empty_daemon deploying_daemon"
proof -
  have c: "api_step {sample_api_env} empty_daemon one_app_daemon"
    unfolding one_app_daemon_def
    by (rule step_create[of sample_api_env _ sample_create _ _ "snd (handle_create_app sample_api_env sample_create empty_daemon)"]) simp_all
  have d: "api_step {sample_api_env} one_app_daemon deploying_daemon"
    unfolding deploying_daemon_def
    by (rule step_deploy[of sample_api_env _ "Some ''sha256=kv2''" "''v2''" _ _
        "snd (handle_deploy sample_api_env (Some ''sha256=kv2'') ''v2'' one_app_daemon)"]) simp_all
  from c d show ?thesis unfolding api_run_def by (blast intro: rtranclp.intros)
qed

theorem one_deploy_per_app_witness:
  "\<exists>ctx. DeployTask ctx \<in> set (dm_tasks deploying_daemon) \<and> dx_app ctx = ''web'' \<and>
     deploy_lock_refuses sample_api_env deploying_daemon ''web''"
proof -
  have "''web'' \<in> set (map dx_app (deploy_tasks (dm_tasks deploying_daemon)))" by (simp add: deploying_daemon_tasks)
  then obtain ctx where t: "DeployTask ctx \<in> set (dm_tasks deploying_daemon)" "dx_app ctx = ''web''"
    by (auto simp: task_lists_mem)
  have "dm_tasks empty_daemon = []" "dm_locked empty_daemon = []" "dm_preview_locked empty_daemon = []"
    by (simp_all add: empty_daemon_def)
  from one_deploy_per_app[OF this sample_run] t show ?thesis by fastforce
qed

end
