(* ===== verification/ApiRestart.thy ===== *)
theory ApiRestart
  imports ApiProps "HOL-Library.Multiset"
begin

text \<open>
  What a restart finds of the applications the API registered: the files the handlers wrote, loaded by
  the configuration loader.  Files are read in any order.
\<close>

section \<open>The files mirror the memory\<close>

definition disk_mirrors :: "('r, 'p) api_state \<Rightarrow> bool" where
  "disk_mirrors st \<longleftrightarrow>
     distinct (map fst (dm_files st)) \<and> map_of (dm_files st) = map_of (dm_apps st) \<and>
     (\<forall>n a. map_of (dm_apps st) n = Some a \<longrightarrow>
        ai_name (ac_app a) = n \<and> validate_needs (ac_needs a) (map_of (ac_env a)) = Inr ())"

lemma disk_mirrors_same: "same_apps s t \<Longrightarrow> disk_mirrors t = disk_mirrors s"
  by (simp add: same_apps_def disk_mirrors_def)

lemma prepared_needs: "prepare_bindings env a s = (s', Inr u) \<Longrightarrow> validate_needs (ac_needs a) (map_of (ac_env a)) = Inr ()"
  by (auto simp: prepare_bindings_def split: sum.splits)

lemma publish_cases:
  assumes "publish_app env name a s = (t, r)" "ai_name (ac_app a) = name"
  shows "same_apps s t \<or>
    (validate_needs (ac_needs a) (map_of (ac_env a)) = Inr () \<and>
     dm_files t = AList.update name a (dm_files s) \<and> dm_apps t = AList.update name a (dm_apps s))"
proof (cases "prepare_bindings env a (dm_secrets s)")
  case (Pair s1 b)
  then show ?thesis using assms prepared_needs[of env a "dm_secrets s" s1]
    by (cases b; cases "ae_write_ok env a") (auto simp: publish_app_def persist_app_config_def same_apps_def)
qed

lemma publish_mirrors:
  assumes "publish_app env name a s = (t, r)" "ai_name (ac_app a) = name" "disk_mirrors s"
  shows "disk_mirrors t"
  using publish_cases[OF assms(1,2)]
proof (elim disjE conjE)
  assume "same_apps s t"
  then show ?thesis using assms(3) by (simp add: disk_mirrors_same)
next
  assume n: "validate_needs (ac_needs a) (map_of (ac_env a)) = Inr ()"
    and f: "dm_files t = AList.update name a (dm_files s)" and p: "dm_apps t = AList.update name a (dm_apps s)"
  have "map_of (dm_files t) = map_of (dm_apps t)" "distinct (map fst (dm_files t))"
    using assms(3) unfolding f p by (simp_all add: disk_mirrors_def update_conv' distinct_update)
  then show ?thesis using assms(2,3) n unfolding disk_mirrors_def p update_conv' by simp
qed

lemma step_mirrors:
  assumes "\<forall>env\<in>E. \<forall>n. ae_delete_ok env n" "disk_mirrors s" "api_step E s t"
  shows "disk_mirrors t"
  using assms(3)
proof (rule api_stepE)
  fix env creq r
  assume "handle_create_app env creq s = (t, r)"
  then show ?thesis using assms(2)
    by (auto simp: handle_create_app_def split: sum.splits dest!: publish_mirrors)
next
  fix env name ureq r
  assume a: "handle_update_app env name ureq s = (t, r)"
  then have "t = s \<or> (\<exists>c. map_of (dm_apps s) name = Some c \<and> publish_app env name (updated_config ureq c) s = (t, r))"
    by (auto simp: handle_update_app_def result_simps split: sum.splits)
  then show ?thesis using assms(2) publish_mirrors[of env name _ s t r] by (auto simp: disk_mirrors_def[of s])
next
  fix env name d
  assume "env \<in> E" "handle_delete_app env name s = (t, d)"
  then show ?thesis using assms(1,2)
    by (auto simp: handle_delete_app_def Let_def disk_mirrors_def delete_conv' distinct_delete split: sum.splits if_splits)
qed (use assms(2) in \<open>auto dest: other_apps(1-5,8,9) disk_mirrors_same
       simp: disk_mirrors_same[OF other_apps(6)] disk_mirrors_same[OF other_apps(7)]
         disk_mirrors_same[OF inserted_same(2)]\<close>)


section \<open>Loading what was written\<close>

text \<open>The values hold no \<open>${...}\<close> placeholder.\<close>

definition plain_app :: "app_config \<Rightarrow> bool" where
  "plain_app a \<longleftrightarrow> list_all (\<lambda>kv. captures (snd kv) = []) (ac_env a) \<and>
     (case ai_secret (ac_app a) of None \<Rightarrow> True | Some s \<Rightarrow> captures s = [])"

text \<open>The checks of the loader that the API does not make.\<close>

definition reloadable :: "string option \<Rightarrow> app_config \<Rightarrow> bool" where
  "reloadable email a \<longleftrightarrow> is_ok (validate_deploy_strategy (ac_deploy a)) \<and>
     is_ok (check_routing_tls email (ac_routing a)) \<and>
     is_ok (for_each (check_route_tls email) (rt_routes (ac_routing a)))"

lemma resolve_plain: "captures v = [] \<Longrightarrow> resolve_value Strict environ loc v = Inr (v, [])"
  by (simp add: resolve_value_def resolve_env_vars_def and_then_def)

lemma resolve_plain_env:
  "list_all (\<lambda>kv. captures (snd kv) = []) kvs \<Longrightarrow>
     map_result (resolve_env_entry Strict environ app) kvs = Inr (map (\<lambda>kv. (kv, [])) kvs)"
  by (induction kvs) (auto simp: resolve_env_entry_def resolve_plain and_then_def)

lemma load_plain_app:
  assumes "plain_app a" "ai_name (ac_app a) = n" "validate_needs (ac_needs a) (map_of (ac_env a)) = Inr ()"
  shows "reloadable email a \<Longrightarrow> load_app Strict environ email (n, Inr a) = Inr (a, [])"
    "is_ok (load_app Strict environ email (n, Inr a)) = reloadable email a"
proof -
  have s: "(case ai_secret (ac_app a) of None \<Rightarrow> Inr (None, [])
      | Some s \<Rightarrow> and_then (resolve_value Strict environ loc s) (\<lambda>(r, ws). Inr (Some r, ws))) =
      Inr (ai_secret (ac_app a), [])" for loc
    using assms(1) by (auto simp: plain_app_def resolve_plain and_then_def split: option.splits)
  have e: "map_result (resolve_env_entry Strict environ (ai_name (ac_app a))) (ac_env a) =
      Inr (map (\<lambda>kv. (kv, [])) (ac_env a))" using assms(1) by (intro resolve_plain_env) (simp add: plain_app_def)
  have nil: "concat (map (\<lambda>x. []) (ac_env a)) = ([] :: string list)" by (simp add: concat_eq_Nil_conv)
  have same: "a\<lparr>ac_env := map (fst \<circ> (\<lambda>kv. (kv, [] :: string list))) (ac_env a),
      ac_app := (ac_app a)\<lparr>ai_secret := ai_secret (ac_app a)\<rparr>\<rparr> = a" by (simp add: o_def)
  have "load_app Strict environ email (n, Inr a) =
      and_then (validate_deploy_strategy (ac_deploy a)) (\<lambda>_.
      and_then (check_routing_tls email (ac_routing a)) (\<lambda>_.
      and_then (for_each (check_route_tls email) (rt_routes (ac_routing a))) (\<lambda>_. Inr (a, []))))"
    using assms(2,3) unfolding load_app_def
    by (simp add: and_then_def[of "Inr _"] Let_def e[unfolded assms(2)] s same) (simp add: and_then_def o_def nil)
  then show "reloadable email a \<Longrightarrow> load_app Strict environ email (n, Inr a) = Inr (a, [])"
    "is_ok (load_app Strict environ email (n, Inr a)) = reloadable email a"
    by (auto simp: reloadable_def is_ok_iff result_simps)
qed

definition raw_file :: "string \<times> app_config \<Rightarrow> string \<times> (config_error + app_config)" where
  "raw_file e = (fst e, Inr (snd e))"

lemma app_files_raw: "map app_file fs = map raw_file (map (apsnd reread) fs)"
  by (simp add: app_file_def raw_file_def o_def)

lemma reread_facts [simp]:
  "ac_app (reread a) = ac_app a" "ac_env (reread a) = ac_env a" "ac_needs (reread a) = ac_needs a"
  "ac_routing (reread a) = ac_routing a" "dc_strategy (ac_deploy (reread a)) = dc_strategy (ac_deploy a)"
  by (simp_all add: reread_def)

lemma reread_checks [simp]: "plain_app (reread a) = plain_app a" "reloadable email (reread a) = reloadable email a"
  by (simp_all add: plain_app_def reloadable_def validate_deploy_strategy_def)

lemma stopped_apps: "bd_apps (stopped cfg st) = map app_file (dm_files st)"
  by (simp add: stopped_def)

definition loads_plainly :: "string \<times> app_config \<Rightarrow> bool" where
  "loads_plainly e \<longleftrightarrow> plain_app (snd e) \<and> ai_name (ac_app (snd e)) = fst e \<and>
     validate_needs (ac_needs (snd e)) (map_of (ac_env (snd e))) = Inr ()"

lemma load_plain_apps:
  assumes "list_all loads_plainly fs"
  shows "if list_all (\<lambda>e. reloadable email (snd e)) fs
    then load_apps Strict environ email (map raw_file fs) apps ws =
           Inr (foldl (\<lambda>m e. AList.update (fst e) (snd e) m) apps fs, ws)
    else \<not> is_ok (load_apps Strict environ email (map raw_file fs) apps ws)"
  using assms
proof (induction fs arbitrary: apps)
  case (Cons e fs)
  then have p: "plain_app (snd e)" "ai_name (ac_app (snd e)) = fst e"
    "validate_needs (ac_needs (snd e)) (map_of (ac_env (snd e))) = Inr ()"
    by (simp_all add: loads_plainly_def)
  note l = load_plain_app[OF p, where email = email and environ = environ]
  show ?case
  proof (cases "reloadable email (snd e)")
    case True
    show ?thesis using Cons.IH[of "AList.update (fst e) (snd e) apps"] Cons.prems l(1)[OF True] True p(2)
      by (simp add: raw_file_def[of e] and_then_def split: if_splits)
  next
    case False
    then show ?thesis using l(2) by (auto simp: raw_file_def[of e] is_ok_iff result_simps)
  qed
qed simp

lemma map_of_updates:
  "distinct (map fst fs) \<Longrightarrow> map_of (foldl (\<lambda>m e. AList.update (fst e) (snd e) m) apps fs) = map_of apps ++ map_of fs"
proof (induction fs arbitrary: apps)
  case (Cons e fs)
  then have "map_of fs (fst e) = None" by (simp add: map_of_eq_None_iff)
  then show ?case using Cons by (auto simp: update_conv' map_add_def fun_eq_iff split: option.splits)
qed simp

text \<open>C3. After any run of the API from a daemon without applications in which every deletion of a file
  succeeds, and when no secret and no environment value of a registered application holds a
  \<open>${...}\<close> placeholder, a restart with a loadable \<open>slip.toml\<close> that loads the files in any order finds exactly the applications the
  daemon had if each of them passes the loader's checks of strategy and TLS, and refuses to start if one
  does not. The configurations come back as they are reread: a duration that is not in whole seconds
  loses what is below a millisecond.\<close>

theorem restart_restores_apps:
  assumes "dm_apps s0 = []" "dm_files s0 = []" "\<forall>env\<in>E. \<forall>n. ae_delete_ok env n" "api_run E s0 st"
    and "load_slip_config Strict environ cfg = Inr (sc, ws)"
    and "\<forall>n a. map_of (dm_apps st) n = Some a \<longrightarrow> plain_app a"
    and "mset fs = mset (dm_files st)"
  shows "case load_config environ cfg (map app_file fs) of
      Inr (sc', apps) \<Rightarrow> sc' = sc \<and> (\<forall>n. map_of apps n = map_option reread (map_of (dm_apps st) n)) \<and>
        (\<forall>n a. map_of (dm_apps st) n = Some a \<longrightarrow> reloadable (resolve_acme_email sc) a)
    | Inl _ \<Rightarrow> \<exists>n a. map_of (dm_apps st) n = Some a \<and> \<not> reloadable (resolve_acme_email sc) a"
proof -
  have "disk_mirrors s0" using assms(1,2) by (simp add: disk_mirrors_def)
  then have m: "disk_mirrors st" using api_run_invariant[OF assms(4)] step_mirrors[OF assms(3)] by blast
  have d: "distinct (map fst fs)" using m assms(7) by (metis disk_mirrors_def mset_eq_imp_distinct_iff mset_map)
  have "distinct (map fst (dm_files st))" using m by (simp add: disk_mirrors_def)
  then have "map_of fs = map_of (dm_files st)" using d mset_eq_setD[OF assms(7)] map_of_inject_set by blast
  then have same: "map_of fs = map_of (dm_apps st)" using m by (simp add: disk_mirrors_def)
  have mem: "(n, a) \<in> set fs \<longleftrightarrow> map_of (dm_apps st) n = Some a" for n a
    using d unfolding same[symmetric] by (simp add: map_of_eq_Some_iff)
  have pl: "list_all loads_plainly fs"
    using assms(6) m mem by (fastforce simp: list_all_iff loads_plainly_def disk_mirrors_def)
  have r: "list_all (\<lambda>e. reloadable (resolve_acme_email sc) (snd e)) fs \<longleftrightarrow>
      (\<forall>n a. map_of (dm_apps st) n = Some a \<longrightarrow> reloadable (resolve_acme_email sc) a)"
    using mem by (fastforce simp: list_all_iff)
  let ?gs = "map (apsnd reread) fs"
  have gs: "list_all loads_plainly ?gs" "map fst ?gs = map fst fs"
    "list_all (\<lambda>e. reloadable (resolve_acme_email sc) (snd e)) ?gs \<longleftrightarrow> list_all (\<lambda>e. reloadable (resolve_acme_email sc) (snd e)) fs"
    using pl by (auto simp: list_all_iff loads_plainly_def)
  have mg: "map_of ?gs n = map_option reread (map_of (dm_apps st) n)" for n
    unfolding same[symmetric] by (induction fs) auto
  note l = load_plain_apps[OF gs(1), of "resolve_acme_email sc" environ "[]" ws]
  have lc: "load_config environ cfg (map app_file fs) =
      and_then (load_apps Strict environ (resolve_acme_email sc) (map raw_file ?gs) [] ws) (\<lambda>(apps, ws'). Inr (sc, apps))"
    unfolding load_config_def load_config_with_mode_def assms(5) app_files_raw
    by (simp add: and_then_def split: sum.split prod.split)
  show ?thesis
  proof (cases "list_all (\<lambda>e. reloadable (resolve_acme_email sc) (snd e)) fs")
    case True
    then show ?thesis using l r map_of_updates[of ?gs "[]"] d mg unfolding lc gs(2,3) by (simp add: and_then_def)
  next
    case False
    then obtain e where "load_apps Strict environ (resolve_acme_email sc) (map raw_file ?gs) [] ws = Inl e"
      using l unfolding gs(3) by (auto simp: is_ok_def split: sum.splits)
    then show ?thesis using False r unfolding lc by (simp add: and_then_def)
  qed
qed

lemma one_app_run: "api_run {sample_api_env} empty_daemon one_app_daemon"
  unfolding one_app_daemon_def api_run_def
  by (rule r_into_rtranclp, rule step_create[of sample_api_env _ sample_create _ _
        "snd (handle_create_app sample_api_env sample_create empty_daemon)"]) simp_all

lemma one_app_files: "dm_files one_app_daemon = [(''web'', created_config sample_create)]"
  "dm_apps one_app_daemon = [(''web'', created_config sample_create)]"
  by code_simp+

theorem restart_restores_apps_witness:
  "\<exists>sc apps. load_config Map.empty (Inr sample_slip) (map app_file (dm_files one_app_daemon)) = Inr (sc, apps)
     \<and> map_of apps ''web'' = Some (reread (created_config sample_create))"
proof -
  have "is_ok (load_slip_config Strict Map.empty (Inr sample_slip))" by code_simp
  then obtain sc ws where l: "load_slip_config Strict Map.empty (Inr sample_slip) = Inr (sc, ws)"
    by (auto simp: is_ok_iff)
  have p: "plain_app (created_config sample_create)" by code_simp
  have ok: "is_ok (load_config Map.empty (Inr sample_slip) (map app_file (dm_files one_app_daemon)))" by code_simp
  have "dm_apps empty_daemon = []" "dm_files empty_daemon = []" "\<forall>env\<in>{sample_api_env}. \<forall>n. ae_delete_ok env n"
    "\<forall>n a. map_of (dm_apps one_app_daemon) n = Some a \<longrightarrow> plain_app a"
    using p by (auto simp: empty_daemon_def sample_api_env_def one_app_files)
  from restart_restores_apps[OF this(1-3) one_app_run l this(4) refl] ok
  show ?thesis by (auto simp: is_ok_iff one_app_files)
qed

section \<open>Accepted, but not loadable\<close>

lemma load_apps_each:
  "load_apps mode environ email fs apps ws = Inr r \<Longrightarrow> f \<in> set fs \<Longrightarrow> is_ok (load_app mode environ email f)"
  by (induction fs arbitrary: apps ws) (auto simp: result_simps is_ok_iff)

lemma unknown_strategy_unloadable:
  "validate_deploy_strategy (ac_deploy a) \<noteq> Inr () \<Longrightarrow> \<not> is_ok (load_app mode environ email (n, Inr a))"
  by (auto simp: load_app_def is_ok_iff result_simps Let_def split: if_splits)

text \<open>C4. The API accepts an application with any deploy strategy and writes it; a strategy other than
  \<open>blue-green\<close> and \<open>recreate\<close> then keeps the daemon from starting, whatever the rest of its
  configuration is.\<close>

theorem accepted_app_blocks_restart:
  assumes "validate_api_app_name (cr_app_name req) = Inr ()" "cr_app_name req \<notin> set (dm_locked st)"
    and "map_of (dm_apps st) (cr_app_name req) = None" "cr_app_needs req = []"
    and "ae_write_ok env (created_config req)"
    and "cr_app_deploy req = Some d" "dc_strategy d \<noteq> ''blue-green''" "dc_strategy d \<noteq> ''recreate''"
    and "ae_bind env = None"
    and "set (bd_apps disk) = app_file ` set (dm_files (fst (handle_create_app env req st)))"
  shows "is_ok (snd (handle_create_app env req st)) \<and> (\<exists>e. daemon_start benv disk c = (c, Inl (StartConfig e)))"
proof -
  let ?a = "created_config req"
  have acc: "and_then (validate_api_app_name (cr_app_name req)) (\<lambda>_. and_then (lock_app st (cr_app_name req)) (\<lambda>_.
      require (map_of (dm_apps st) (cr_app_name req) = None) (ApiConflict (AppExists (cr_app_name req))))) = Inr ()"
    using assms(1-3) by (auto simp: result_simps lock_app_def)
  have b: "prepare_bindings env ?a s = (s, Inr ())" for s
    using assms(4,9) by (simp add: prepare_bindings_def created_config_def validate_needs_def)
  have h: "handle_create_app env req st = publish_app env (cr_app_name req) ?a st"
    using acc by (simp add: handle_create_app_def)
  have w: "is_ok (snd (publish_app env (cr_app_name req) ?a st))"
    "(cr_app_name req, ?a) \<in> set (dm_files (fst (publish_app env (cr_app_name req) ?a st)))"
    using assms(5) b by (auto simp: publish_app_def persist_app_config_def intro: map_of_SomeD simp: update_conv')
  have "validate_deploy_strategy (ac_deploy (reread ?a)) \<noteq> Inr ()"
    using assms(6-8) by (simp add: validate_deploy_strategy_def created_config_def some_or_def)
  then have no: "\<not> is_ok (load_app mode environ email (app_file (cr_app_name req, ?a)))" for mode environ email
    by (simp add: app_file_def unknown_strategy_unloadable)
  have f: "app_file (cr_app_name req, ?a) \<in> set (bd_apps disk)" using assms(10) w(2) unfolding h by blast
  have "load_config environ cfg (bd_apps disk) \<noteq> Inr r" for environ cfg r
    using load_apps_each[OF _ f] no by (auto simp: load_config_def load_config_with_mode_def result_simps)
  then obtain e where "load_config (bt_environ benv) (bd_config disk) (bd_apps disk) = Inl e"
    by (cases "load_config (bt_environ benv) (bd_config disk) (bd_apps disk)") auto
  then show ?thesis using w(1) unfolding h by (auto simp: daemon_start_def map_err_def and_then_def)
qed

definition canary_create :: create_app_request where
  "canary_create = sample_create\<lparr>cr_app_deploy := Some (default_deploy\<lparr>dc_strategy := ''canary''\<rparr>)\<rparr>"

theorem accepted_app_blocks_restart_witness:
  "\<forall>benv c. \<exists>e. daemon_start benv (stopped (Inr sample_slip) (fst (handle_create_app sample_api_env canary_create empty_daemon))) c
     = (c, Inl (StartConfig e))"
proof (intro allI)
  fix benv :: "(ref_runtime, 'c) boot_env" and c
  have "set (bd_apps (stopped (Inr sample_slip) st)) = app_file ` set (dm_files st)"
    for st :: "(ref_runtime, caddy_server) api_state"
    by (simp add: stopped_apps)
  moreover have "validate_api_app_name (cr_app_name canary_create) = Inr ()" by code_simp
  ultimately show "\<exists>e. daemon_start benv
      (stopped (Inr sample_slip) (fst (handle_create_app sample_api_env canary_create empty_daemon))) c = (c, Inl (StartConfig e))"
    using accepted_app_blocks_restart[of canary_create empty_daemon sample_api_env "default_deploy\<lparr>dc_strategy := ''canary''\<rparr>"
        "stopped (Inr sample_slip) (fst (handle_create_app sample_api_env canary_create empty_daemon))" benv c]
    by (simp add: canary_create_def sample_create_def empty_daemon_def sample_api_env_def)
qed

end
