(* ===== verification/ApiDeployProps.thy ===== *)
theory ApiDeployProps
  imports ApiRestart
begin

text \<open>What an accepted deploy and a rollback have checked, when the history shows it, and which version a
  rollback picks.\<close>

section \<open>Deploys\<close>

lemma insert_deploy_get [simp]: "get_deploy (insert_deploy ctx db) (dx_id ctx) = Some (deploy_row ctx)"
  by (simp add: get_deploy_def insert_deploy_def update_conv')

text \<open>What is true of a request that is accepted: it is signed with the secret of a registered
  application, its tag is well formed and its image, when given, is the configured one.\<close>

definition deploy_authentic ::
  "('r, 'p) api_env \<Rightarrow> string option \<Rightarrow> string \<Rightarrow> ('r, 'p) api_state \<Rightarrow> deploy_request \<Rightarrow> app_config \<Rightarrow> bool" where
  "deploy_authentic env header body st req cfg \<longleftrightarrow>
     ae_parse_deploy env body = Some req \<and> map_of (dm_apps st) (dq_app req) = Some cfg \<and>
     (\<exists>sig. header = Some sig \<and> verify_signature (ae_hmac env) (ae_unhex env) sig body
        (resolve_secret (ai_secret (ac_app cfg)) (sc_auth_secret (ae_config env)) (dm_secrets st) (dq_app req))) \<and>
     validate_tag (ae_uni env) (dq_tag req) = Inr () \<and>
     (dq_image req = None \<or> dq_image req = Some (ai_image (ac_app cfg))) \<and>
     (ac_needs cfg \<noteq> [] \<longrightarrow> dq_preview req = None \<and> ae_bind env \<noteq> None)"

lemma checked_deploy:
  assumes "and_then (authorize_deploy env header body st) (\<lambda>(req, cfg).
           and_then (check_deploy_needs env req cfg st) (\<lambda>_.
           and_then (check_deploy_image req cfg) (\<lambda>img.
           and_then (validate_tag (ae_uni env) (dq_tag req)) (\<lambda>_. Inr (req, cfg, img))))) = Inr (req, cfg, img)"
  shows "deploy_authentic env header body st req cfg \<and> img = ai_image (ac_app cfg)"
  using assms
  by (auto simp: deploy_authentic_def authorize_deploy_def check_deploy_needs_def check_deploy_image_def result_simps
      split: option.splits if_splits list.splits)

text \<open>The context a production deploy starts from.\<close>

definition webhook_context :: "('r, 'p) api_env \<Rightarrow> deploy_request \<Rightarrow> app_config \<Rightarrow> deploy_context" where
  "webhook_context env req cfg =
     (deploy_context_new (ae_now env) (deploy_id_of env) (dq_app req) (ai_image (ac_app cfg)) (dq_tag req) TrWebhook)
       \<lparr>dx_images := dq_images req\<rparr>"

lemma webhook_context_app [simp]:
  "dx_app (webhook_context env req cfg) = dq_app req" "dx_id (webhook_context env req cfg) = deploy_id_of env"
  by (simp_all add: webhook_context_def deploy_context_new_def)

definition preview_context :: "('r, 'p) api_env \<Rightarrow> deploy_request \<Rightarrow> app_config \<Rightarrow> preview_request_info \<Rightarrow> preview_ctx" where
  "preview_context env req cfg info =
     \<lparr>pq_deploy_id = deploy_id_of env, pq_app = dq_app req, pq_image = ai_image (ac_app cfg), pq_tag = dq_tag req,
      pq_preview_id = pr_id info, pq_sha = pr_sha info, pq_images = dq_images req\<rparr>"

text \<open>Nothing orders the insert that the handler spawned before the writes of the deploy itself: when it
  runs after them it replaces their row, and the history says \<open>accepted\<close> for a deploy that has ended.\<close>

lemma late_insert_reverts:
  "handle_deploy_status (finish_insert True ctx (finish_deploy_task cfg denv out ctx st)) (dx_id ctx) =
     Inr (deploy_status_of ctx)"
  using insert_deploy_get[of ctx]
  by (simp add: finish_insert_def handle_deploy_status_def ok_or_def and_then_def deploy_status_of_def deploy_row_def)

text \<open>C2. A refused deploy changes nothing. An accepted one was signed with the secret of a registered
  application, has a valid tag and the configured image, and found the lock free. A production deploy
  takes the lock, adds one task and one pending insert and updates the cache: the history, and with it
  the status request, answers as before until that insert runs, and gives the accepted deploy once it
  has run and succeeded. A preview takes its own lock and adds one task. No application, runtime or
  route state changes before the task runs.\<close>

theorem deploy_accepted_signed:
  "case handle_deploy env header body st of
     (st', Inl e) \<Rightarrow> st' = st
   | (st', Inr resp) \<Rightarrow> \<exists>req cfg. deploy_authentic env header body st req cfg \<and>
       (case dq_preview req of
          None \<Rightarrow> dq_app req \<notin> set (dm_locked st) \<and>
            st' = st\<lparr>dm_locked := dq_app req # dm_locked st,
                     dm_tasks := DeployTask (webhook_context env req cfg) # dm_tasks st,
                     dm_deploys := AList.update (dq_app req) (webhook_context env req cfg) (dm_deploys st),
                     dm_inserts := webhook_context env req cfg # dm_inserts st\<rparr> \<and>
            (\<forall>i. handle_deploy_status st' i = handle_deploy_status st i) \<and>
            handle_deploy_status (finish_insert True (webhook_context env req cfg) st') (dr_deploy_id resp) =
              Inr (deploy_status_of (webhook_context env req cfg))
        | Some info \<Rightarrow> preview_key (dq_app req) (pr_id info) \<notin> set (dm_preview_locked st) \<and>
            st' = st\<lparr>dm_preview_locked := preview_key (dq_app req) (pr_id info) # dm_preview_locked st,
                     dm_tasks := PreviewTask (preview_context env req cfg info) # dm_tasks st\<rparr>)"
proof -
  let ?chk = "and_then (authorize_deploy env header body st) (\<lambda>(req, cfg).
           and_then (check_deploy_needs env req cfg st) (\<lambda>_.
           and_then (check_deploy_image req cfg) (\<lambda>img.
           and_then (validate_tag (ae_uni env) (dq_tag req)) (\<lambda>_. Inr (req, cfg, img)))))"
  show ?thesis
  proof (cases ?chk)
    case (Inl e)
    then show ?thesis by (simp add: handle_deploy_def)
  next
    case (Inr x)
    obtain req cfg img where x: "x = (req, cfg, img)" by (cases x)
    have auth: "deploy_authentic env header body st req cfg" and img: "img = ai_image (ac_app cfg)"
      using checked_deploy[OF Inr[unfolded x]] by simp_all
    show ?thesis
    proof (cases "dq_preview req")
      case None
      have h: "handle_deploy env header body st = start_deploy_task env (webhook_context env req cfg) st"
        unfolding handle_deploy_def Inr x using None img by (simp add: webhook_context_def)
      show ?thesis
      proof (cases "dq_app req \<in> set (dm_locked st)")
        case True
        then show ?thesis unfolding h by (simp add: start_deploy_task_def)
      next
        case False
        then show ?thesis unfolding h using auth None insert_deploy_get[of "webhook_context env req cfg" "dm_db st"]
          by (auto simp: start_deploy_task_def api_record_deploy_def finish_insert_def Let_def
              handle_deploy_status_def ok_or_def and_then_def deploy_status_of_def deploy_row_def
              intro!: exI[of _ req] exI[of _ cfg])
      qed
    next
      case (Some info)
      have h: "handle_deploy env header body st = start_preview_task env req cfg img info st"
        unfolding handle_deploy_def Inr x using Some by simp
      show ?thesis unfolding h using auth Some img
        by (auto simp: start_preview_task_def Let_def preview_context_def result_simps intro!: exI[of _ req] exI[of _ cfg]
            split: sum.splits)
    qed
  qed
qed

section \<open>Rollback\<close>

lemma restored_no_deploy_id:
  "map_of (restored_states env dir) app = Some s \<Longrightarrow> as_deploy_id s = None"
proof -
  have dict: "list_all (\<lambda>e. as_deploy_id (snd e) = None) m \<Longrightarrow> list_all (\<lambda>e. as_deploy_id (snd e) = None) xs \<Longrightarrow>
      list_all (\<lambda>e. as_deploy_id (snd e) = None) (foldl (\<lambda>m (k, s). AList.update k s m) m xs)"
    for m xs :: "(string \<times> app_runtime_state) list"
  proof (induction xs arbitrary: m)
    case (Cons x xs)
    have "set (AList.update (fst x) (snd x) m) \<subseteq> insert x (set m)"
      by (induction m) auto
    then have "list_all (\<lambda>e. as_deploy_id (snd e) = None) (AList.update (fst x) (snd x) m)"
      using Cons.prems by (auto simp: list_all_iff)
    then show ?case using Cons by (cases x) simp
  qed simp
  have "list_all (\<lambda>e. as_deploy_id (snd e) = None) (List.map_filter (load_entry Some) dir)"
    by (induction dir) (auto simp: map_filter_simps load_entry_def restore_app_def Let_def split: option.splits if_splits)
  then have "list_all (\<lambda>e. as_deploy_id (snd e) = None) (load_app_states Some dir)"
    unfolding load_app_states_def by (intro dict) simp_all
  moreover have "as_deploy_id (verify_container ex s) = as_deploy_id s" for ex s
    by (auto simp: verify_container_def split: option.splits bool.splits)
  ultimately have "list_all (\<lambda>e. as_deploy_id (snd e) = None) (restored_states env dir)"
    by (auto simp: restored_states_def verify_containers_def list_all_iff)
  then show "map_of (restored_states env dir) app = Some s \<Longrightarrow> as_deploy_id s = None"
    by (fastforce simp: list_all_iff dest: map_of_SomeD)
qed

text \<open>The completed deploys of an application.\<close>

definition completed_deploys :: "deploy_table \<Rightarrow> string \<Rightarrow> deploy_context list" where
  "completed_deploys db app = filter (\<lambda>r. dx_app r = app \<and> dx_status r = DsCompleted) (map snd db)"

text \<open>C5. The id of the running deploy is not persisted: after a restart a rollback without a tag picks
  the newest completed deploy, which is the running version itself, while the daemon that ran that
  deploy never picks it.\<close>

theorem rollback_after_restart_repeats:
  assumes "daemon_start benv disk c = (c', Inr (cfg, st))" "map_of (dm_apps st) app = Some a"
    and "cur \<in> set (completed_deploys (bd_db disk) app)" "dx_id cur \<noteq> []"
    and "\<forall>q\<in>set (completed_deploys (bd_db disk) app). q \<noteq> cur \<longrightarrow> dx_started_at q < dx_started_at cur"
  shows "(\<exists>st' resp. handle_rollback env app None st = (st', Inr resp) \<and> dr_tag resp = dx_tag cur) \<and>
    (\<forall>r. get_previous_successful_deploy (bd_db disk) app (dx_id cur) = Some r \<longrightarrow> dx_id r \<noteq> dx_id cur)"
proof -
  obtain apps c1 where st: "st = daemon_state benv disk apps c1"
    using assms(1) by (auto simp: daemon_start_def Let_def split: sum.splits prod.splits)
  have db: "dm_db st = bd_db disk" "dm_locked st = []" "dm_states st = restored_states benv (bd_dir disk)"
    by (simp_all add: st daemon_state_def Let_def)
  have cur: "(case Option.bind (map_of (dm_states st) app) as_deploy_id of Some i \<Rightarrow> i | None \<Rightarrow> []) = []"
    using restored_no_deploy_id[of benv "bd_dir disk" app] unfolding db
    by (cases "map_of (restored_states benv (bd_dir disk)) app") simp_all
  let ?rows = "filter (\<lambda>r. dx_app r = app \<and> dx_status r = DsCompleted \<and> dx_id r \<noteq> []) (map snd (bd_db disk))"
  have "cur \<in> set ?rows" "\<forall>q\<in>set ?rows. q \<noteq> cur \<longrightarrow> dx_started_at q < dx_started_at cur"
    using assms(3-5) by (auto simp: completed_deploys_def)
  from latest_started_unique[OF this]
  have "get_previous_successful_deploy (bd_db disk) app [] = Some (deploy_row cur)"
    by (simp add: get_previous_successful_deploy_def)
  then have tag: "previous_deploy_tag st app = Some (dx_tag cur)"
    unfolding previous_deploy_tag_def Let_def cur db(1) by (simp add: deploy_row_def)
  have "\<exists>st' resp. handle_rollback env app None st = (st', Inr resp) \<and> dr_tag resp = dx_tag cur"
    using assms(2) tag db(2)
    by (simp add: handle_rollback_def rollback_target_def find_app_def ok_or_def and_then_def start_deploy_task_def
        deploy_context_new_def Let_def api_record_deploy_def)
  moreover have "get_previous_successful_deploy (bd_db disk) app (dx_id cur) = Some r \<Longrightarrow> dx_id r \<noteq> dx_id cur" for r
    using latest_started_max by (fastforce simp: get_previous_successful_deploy_def deploy_row_def)
  ultimately show ?thesis by blast
qed

definition sample_boot :: "(ref_runtime, caddy_server) boot_env" where
  "sample_boot =
     \<lparr>bt_caddy = server_ops True, bt_environ = Map.empty, bt_backend = ''docker'',
      bt_probe = \<lparr>bp_docker_new = True, bp_docker_ping = True, bp_podman_new = False, bp_podman_ping = False\<rparr>,
      bt_network_ok = True, bt_listen = ''127.0.0.1:7890'', bt_exists = (\<lambda>_. Some True), bt_retries = (\<lambda>_. 0)\<rparr>"

definition completed_row :: deploy_context where
  "completed_row = (deploy_context_new 900 ''dep_1'' ''web'' ''ghcr.io/me/web'' ''v2'' TrWebhook)\<lparr>dx_status := DsCompleted\<rparr>"

definition sample_disk :: "(ref_runtime, caddy_server) boot_disk" where
  "sample_disk = (stopped (Inr sample_slip) one_app_daemon)\<lparr>bd_db := [(''dep_1'', completed_row)]\<rparr>"

lemma sample_boots:
  "case daemon_start sample_boot sample_disk (dm_px empty_daemon) of (_, Inl _) \<Rightarrow> False
     | (_, Inr (_, st)) \<Rightarrow> map_of (dm_apps st) ''web'' = Some (created_config sample_create)"
  by code_simp

theorem rollback_after_restart_repeats_witness:
  "\<exists>c cfg st st' resp. daemon_start sample_boot sample_disk (dm_px empty_daemon) = (c, Inr (cfg, st)) \<and>
     handle_rollback sample_api_env ''web'' None st = (st', Inr resp) \<and> dr_tag resp = ''v2''"
proof -
  obtain c cfg st where d: "daemon_start sample_boot sample_disk (dm_px empty_daemon) = (c, Inr (cfg, st))"
    and w: "map_of (dm_apps st) ''web'' = Some (created_config sample_create)"
    using sample_boots by (auto split: prod.splits sum.splits)
  have rows: "completed_deploys (bd_db sample_disk) ''web'' = [completed_row]"
    by (simp add: completed_deploys_def sample_disk_def completed_row_def deploy_context_new_def)
  show ?thesis
    using rollback_after_restart_repeats[OF d w, of completed_row sample_api_env] d
    by (auto simp: rows completed_row_def deploy_context_new_def)
qed

end
