(* ===== verification/ApiStatusProps.thy ===== *)
theory ApiStatusProps
  imports ApiStatus ApiDeployProps
begin

text \<open>
  What the status shows after a change of the configuration, what a restart makes of a deleted
  application, and the meaning of \<open>since\<close>.
\<close>

section \<open>Configuration drift\<close>

lemma saved_last_applied:
  "\<exists>p. map_of (save_last_applied id Some app text dir) (json_file app) = Some (Some p) \<and> pa_last_applied p = Some text"
  by (simp add: save_last_applied_def Let_def update_conv')

text \<open>C6. When the running configuration of an application is its stored baseline, so that the status reports
  no drift, and the JSON texts of the old and the new configuration parse back, an accepted update that
  changes the configuration makes the status report a drift from the
  applied configuration, although the update is what was applied: the new baseline is written to the file
  only. A restart ends the report.\<close>

theorem apply_shows_drift:
  assumes "handle_update_app env name req st = (st', Inr resp)" "parse (ae_response_text env resp) = Some resp"
    and "parse (ae_response_text env (app_response_of cfg)) = Some (app_response_of cfg)"
    and "map_of (dm_apps st) name = Some cfg" "ai_name (ac_app cfg) = name" "resp \<noteq> app_response_of cfg"
    and "map_of (dm_states st) name = Some s" "as_last_applied s = Some (ae_response_text env (app_response_of cfg))"
    and "name \<noteq> []" "distinct (map fst (dm_dir st))"
  shows "config_drift parse cfg (Some s) = Some False \<and>
    (\<exists>cfg'. map_of (dm_apps st') name = Some cfg' \<and> resp = app_response_of cfg' \<and>
       config_drift parse cfg' (map_of (dm_states st') name) = Some True \<and>
       config_drift parse cfg' (map_of (restored_states benv (dm_dir st')) name) = Some False)"
proof -
  let ?c = "updated_config req cfg"
  have p: "publish_app env name ?c st = (st', Inr resp)"
    using assms(1,4) by (auto simp: handle_update_app_def find_app_def ok_or_def and_then_def split: sum.splits if_splits)
  have n: "ai_name (ac_app ?c) = name" using assms(5) by simp
  have after: "resp = app_response_of ?c" "dm_apps st' = AList.update name ?c (dm_apps st)" "dm_states st' = dm_states st"
    "dm_dir st' = save_last_applied id Some name (ae_response_text env (app_response_of ?c)) (dm_dir st)"
    using p n by (auto simp: publish_app_def persist_app_config_def split: prod.splits sum.splits if_splits)
  obtain q where q: "map_of (dm_dir st') (json_file name) = Some (Some q)"
      "pa_last_applied q = Some (ae_response_text env (app_response_of ?c))"
    unfolding after(4) using saved_last_applied by blast
  have d: "distinct (map fst (dm_dir st'))"
    unfolding after(4) using assms(10) by (simp add: save_last_applied_def Let_def distinct_update)
  have "map_of (load_app_states Some (dm_dir st')) name = Some (restore_app q)"
    using load_lookup[OF assms(9) d, of Some] q(1) by simp
  then have "map_of (restored_states benv (dm_dir st')) name = Some (verify_container (bt_exists benv) (restore_app q))"
    by (simp add: restored_states_def verify_containers_def map_of_map)
  moreover have "as_last_applied (verify_container ex (restore_app q)) = pa_last_applied q" for ex
    by (auto simp: verify_container_def restore_app_def split: option.splits bool.splits)
  ultimately have "config_drift parse ?c (map_of (restored_states benv (dm_dir st')) name) = Some False"
    using q(2) assms(2) after(1) by (simp add: config_drift_def)
  moreover have "config_drift parse ?c (map_of (dm_states st') name) = Some True"
    using assms(3,6-8) after(1,3) by (auto simp: config_drift_def)
  moreover have "config_drift parse cfg (Some s) = Some False"
    using assms(3,8) by (simp add: config_drift_def)
  ultimately show ?thesis using after(1,2) by (auto simp: update_conv')
qed

definition applied_daemon :: "(ref_runtime, caddy_server) api_state" where
  "applied_daemon = one_app_daemon\<lparr>dm_states := [(''web'', web_state\<lparr>as_last_applied := Some ''ghcr.io/me/web''\<rparr>)]\<rparr>"

definition sample_parse :: "string \<Rightarrow> app_response option" where
  "sample_parse s = Some ((app_response_of (created_config sample_create))\<lparr>ar_image := s\<rparr>)"

lemma new_image_update:
  "snd (handle_update_app sample_api_env ''web'' (sample_update\<lparr>up_image := Some ''ghcr.io/me/new''\<rparr>) applied_daemon)
     = Inr ((app_response_of (created_config sample_create))\<lparr>ar_image := ''ghcr.io/me/new''\<rparr>)"
  by code_simp

theorem apply_shows_drift_witness:
  "\<exists>st' cfg'. fst (handle_update_app sample_api_env ''web'' (sample_update\<lparr>up_image := Some ''ghcr.io/me/new''\<rparr>) applied_daemon) = st' \<and>
     map_of (dm_apps st') ''web'' = Some cfg' \<and>
     config_drift sample_parse cfg' (map_of (dm_states st') ''web'') = Some True"
proof -
  let ?req = "sample_update\<lparr>up_image := Some ''ghcr.io/me/new''\<rparr>"
  let ?st = "fst (handle_update_app sample_api_env ''web'' ?req applied_daemon)"
  let ?r0 = "app_response_of (created_config sample_create)"
  have u: "handle_update_app sample_api_env ''web'' ?req applied_daemon = (?st, Inr (?r0\<lparr>ar_image := ''ghcr.io/me/new''\<rparr>))"
    using new_image_update by (metis prod.collapse)
  have i: "ar_image ?r0 = ''ghcr.io/me/web''" by code_simp
  then have r0: "sample_parse (ae_response_text sample_api_env ?r0) = Some ?r0"
    by (simp add: sample_parse_def sample_api_env_def)
  have ne: "?r0\<lparr>ar_image := ''ghcr.io/me/new''\<rparr> \<noteq> ?r0"
  proof
    assume e: "?r0\<lparr>ar_image := ''ghcr.io/me/new''\<rparr> = ?r0"
    from arg_cong[OF e, of ar_image] show False using i by simp
  qed
  have m: "map_of (dm_apps applied_daemon) ''web'' = Some (created_config sample_create)"
    "map_of (dm_states applied_daemon) ''web'' = Some (web_state\<lparr>as_last_applied := Some ''ghcr.io/me/web''\<rparr>)"
    by (simp_all add: applied_daemon_def one_app_files)
  have d: "distinct (map fst (dm_dir applied_daemon))" "ai_name (ac_app (created_config sample_create)) = ''web''" by code_simp+
  have a: "sample_parse (ae_response_text sample_api_env (?r0\<lparr>ar_image := ''ghcr.io/me/new''\<rparr>)) = Some (?r0\<lparr>ar_image := ''ghcr.io/me/new''\<rparr>)"
    by (simp add: sample_parse_def sample_api_env_def)
  have "as_last_applied (web_state\<lparr>as_last_applied := Some ''ghcr.io/me/web''\<rparr>) = Some (ae_response_text sample_api_env ?r0)"
    using i by (simp add: sample_api_env_def)
  from apply_shows_drift[OF u a r0 m(1) d(2) ne m(2) this _ d(1)] show ?thesis by fastforce
qed

section \<open>Deleted applications\<close>

text \<open>C9. Deleting an application that runs as a pod leaves its state file: after a restart its routes
  are registered again, though the application is gone.\<close>

theorem deleted_app_routes_return:
  assumes "handle_delete_app env name st = (st', Inr ())" "name \<noteq> []" "distinct (map fst (dm_dir st))"
    and "map_of (dm_dir st) (json_file name) = Some (Some p)" "pa_current_pod_name p \<noteq> None"
    and "r \<in> set (pa_current_routes p)"
  shows "map_of (dm_apps st') name = None \<and>
    \<lparr>ri_app = name, ri_domain = prs_hostname r, ri_port = prs_port r\<rparr>
      \<in> set (route_infos (restored_states benv (bd_dir (stopped cfg st'))) apps)"
proof -
  have after: "dm_apps st' = AList.delete name (dm_apps st)" "dm_dir st' = dm_dir st"
    using assms(1) by (auto simp: handle_delete_app_def Let_def split: sum.splits)
  have "map_of (load_app_states Some (dm_dir st)) name = Some (restore_app p)"
    using load_lookup[OF assms(2,3), of Some] assms(4) by simp
  then have l: "(name, restore_app p) \<in> set (load_app_states Some (dm_dir st))" by (rule map_of_SomeD)
  have "verify_container ex (restore_app p) = restore_app p" for ex
    using assms(5) by (simp add: verify_container_def restore_app_def)
  then have m: "(name, restore_app p) \<in> set (restored_states benv (dm_dir st))"
    unfolding restored_states_def verify_containers_def set_map by (intro image_eqI[OF _ l]) simp
  have "\<lparr>ri_app = name, ri_domain = prs_hostname r, ri_port = prs_port r\<rparr> \<in> set (app_route_infos apps (name, restore_app p))"
    using assms(5,6) by (auto simp: app_route_infos_def restore_app_def restore_route_def image_iff
        intro!: bexI[of _ "restore_route r"])
  then have "\<lparr>ri_app = name, ri_domain = prs_hostname r, ri_port = prs_port r\<rparr> \<in> set (route_infos (restored_states benv (dm_dir st)) apps)"
    using m by (auto simp: route_infos_def)
  then show ?thesis using after by (simp add: stopped_def delete_conv')
qed

definition pod_daemon :: "(ref_runtime, caddy_server) api_state" where
  "pod_daemon = one_app_daemon\<lparr>dm_dir := [(''web.json'', Some (empty_persisted\<lparr>pa_current_pod_name := Some ''web-1'',
      pa_current_routes := [\<lparr>prs_hostname = ''web.x.dev'', prs_port = 4000\<rparr>]\<rparr>))]\<rparr>"

theorem deleted_app_routes_return_witness:
  "\<lparr>ri_app = ''web'', ri_domain = ''web.x.dev'', ri_port = 4000\<rparr>
     \<in> set (route_infos (restored_states sample_boot (bd_dir (stopped (Inr sample_slip)
          (fst (handle_delete_app sample_api_env ''web'' pod_daemon))))) [])"
proof -
  have "snd (handle_delete_app sample_api_env ''web'' pod_daemon) = Inr ()" by code_simp
  then have u: "handle_delete_app sample_api_env ''web'' pod_daemon =
      (fst (handle_delete_app sample_api_env ''web'' pod_daemon), Inr ())" by (metis prod.collapse)
  have "distinct (map fst (dm_dir pod_daemon))" "map_of (dm_dir pod_daemon) (json_file ''web'') =
      Some (Some (empty_persisted\<lparr>pa_current_pod_name := Some ''web-1'',
        pa_current_routes := [\<lparr>prs_hostname = ''web.x.dev'', prs_port = 4000\<rparr>]\<rparr>))"
    by (simp_all add: pod_daemon_def json_file_def)
  from deleted_app_routes_return[OF u _ this, of "\<lparr>prs_hostname = ''web.x.dev'', prs_port = 4000\<rparr>" sample_boot "Inr sample_slip" "[]"]
  show ?thesis by simp
qed

end
