(* ===== verification/Doctor.thy ===== *)
theory Doctor
  imports Caddy ConfigLoad
begin

text \<open>
  \<open>doctor.rs\<close> and \<open>tailscale.rs\<close>: the checks of the host, as functions of what the commands, the
  resolver and Caddy answered.  Messages are constructors with their varying parts.  An IPv6 address
  is parsed by a parameter; JSON texts are parsed by a parameter.
\<close>

section \<open>Reports\<close>

text \<open>\<open>CheckStatus\<close> and \<open>parse_caddy_modules\<close> are modelled with their use in \<open>Caddy\<close>.\<close>

fun check_status_str :: "check_status \<Rightarrow> string" where
  "check_status_str CheckPass = ''pass''"
| "check_status_str CheckFail = ''fail''"
| "check_status_str CheckWarn = ''warn''"
| "check_status_str CheckSkipped = ''skipped''"

record check_summary =
  cs_pass :: nat
  cs_warn :: nat
  cs_fail :: nat
  cs_skipped :: nat

definition tally :: "check_summary \<Rightarrow> check_status \<Rightarrow> check_summary" where
  "tally s c =
     (case c of
        CheckPass \<Rightarrow> s\<lparr>cs_pass := cs_pass s + 1\<rparr>
      | CheckWarn \<Rightarrow> s\<lparr>cs_warn := cs_warn s + 1\<rparr>
      | CheckFail \<Rightarrow> s\<lparr>cs_fail := cs_fail s + 1\<rparr>
      | CheckSkipped \<Rightarrow> s\<lparr>cs_skipped := cs_skipped s + 1\<rparr>)"

definition summary_from_checks :: "check_status list \<Rightarrow> check_summary" where
  "summary_from_checks cs = foldl tally \<lparr>cs_pass = 0, cs_warn = 0, cs_fail = 0, cs_skipped = 0\<rparr> cs"

definition aggregate_exit :: "check_summary \<Rightarrow> bool \<Rightarrow> int" where
  "aggregate_exit s timed_out = (if timed_out then 6 else if cs_fail s > 0 then 1 else 0)"

section \<open>Firewall and modules\<close>

datatype ufw_note = UfwInactive | UfwNoBridge | UfwAllows string | UfwBlocks string

record ufw_class =
  uf_status :: check_status
  uf_detail :: ufw_note
  uf_remedy :: "string option"

definition contains_str :: "string \<Rightarrow> string \<Rightarrow> bool" where
  "contains_str s pat \<longleftrightarrow> sublist pat s"

definition ufw_rule_line :: "string \<Rightarrow> string \<Rightarrow> bool" where
  "ufw_rule_line bridge_lc line \<longleftrightarrow>
     contains_str line bridge_lc \<and> contains_str line ''53/'' \<and> contains_str line ''allow in''"

definition classify_ufw :: "string \<Rightarrow> string \<Rightarrow> ufw_class" where
  "classify_ufw bridge status_output =
     (let lower = ascii_lowercase status_output in
      if contains_str lower ''status: inactive'' then
        \<lparr>uf_status = CheckWarn, uf_detail = UfwInactive,
         uf_remedy = Some ''enable UFW (`ufw enable`) or leave it off intentionally''\<rparr>
      else if bridge = [] then
        \<lparr>uf_status = CheckFail, uf_detail = UfwNoBridge,
         uf_remedy = Some ''run slipd once to create the slip network, then re-run `slip doctor`''\<rparr>
      else if list_ex (ufw_rule_line (ascii_lowercase bridge)) (str_lines lower) then
        \<lparr>uf_status = CheckPass, uf_detail = UfwAllows bridge, uf_remedy = None\<rparr>
      else \<lparr>uf_status = CheckFail, uf_detail = UfwBlocks bridge,
            uf_remedy = Some (''ufw allow in on '' @ bridge @ '' to any port 53'')\<rparr>)"

definition trim_end_cr :: "string \<Rightarrow> string" where
  "trim_end_cr s = rev (dropWhile (\<lambda>c. c = CHR 0x0D) (rev s))"

definition module_field :: "string \<Rightarrow> string" where
  "module_field line = hd (split_on (CHR 0x09) (trim_end_cr line))"

definition module_present_exact :: "string \<Rightarrow> string \<Rightarrow> check_status" where
  "module_present_exact output module_id =
     (if module_id = [] then CheckSkipped
      else if list_ex (\<lambda>line. module_field line = module_id) (str_lines output) then CheckPass else CheckFail)"

section \<open>Address ranges\<close>

record cidr_set =
  cr_v4 :: "(32 word \<times> 32 word) list"
  cr_v6 :: "(128 word \<times> 128 word) list"

definition empty_cidrs :: cidr_set where "empty_cidrs = \<lparr>cr_v4 = [], cr_v6 = []\<rparr>"

text \<open>\<open>(!0) << (w - prefix)\<close>: without overflow checks, as release builds are compiled, the
  subtraction wraps and the shift takes its count modulo the width.\<close>

definition cidr_mask :: "nat \<Rightarrow> 'w::len word" where
  "cidr_mask p =
     (if p = 0 then 0 else push_bit (nat ((int (LENGTH('w)) - int p) mod int (LENGTH('w)))) (- 1))"

definition cidr_add :: "(string \<Rightarrow> 128 word option) \<Rightarrow> string \<Rightarrow> cidr_set \<Rightarrow> cidr_set option" where
  "cidr_add v6 cidr s =
     (case split_once (CHR ''/'') cidr of
        None \<Rightarrow> None
      | Some (ip, p) \<Rightarrow>
          (case parse_uint 4294967295 p of
             None \<Rightarrow> None
           | Some n \<Rightarrow>
               (case parse_ip v6 ip of
                  Some (V4 a) \<Rightarrow> Some (s\<lparr>cr_v4 := cr_v4 s @ [(and a (cidr_mask n), cidr_mask n)]\<rparr>)
                | Some (V6 a) \<Rightarrow> Some (s\<lparr>cr_v6 := cr_v6 s @ [(and a (cidr_mask n), cidr_mask n)]\<rparr>)
                | None \<Rightarrow> None)))"

definition cidr_add_or_skip :: "(string \<Rightarrow> 128 word option) \<Rightarrow> cidr_set \<Rightarrow> string \<Rightarrow> cidr_set" where
  "cidr_add_or_skip v6 s cidr = (case cidr_add v6 cidr s of Some t \<Rightarrow> t | None \<Rightarrow> s)"

definition from_cidrs :: "(string \<Rightarrow> 128 word option) \<Rightarrow> string list \<Rightarrow> cidr_set" where
  "from_cidrs v6 cs = foldl (cidr_add_or_skip v6) empty_cidrs cs"

fun cidr_contains :: "cidr_set \<Rightarrow> ip_addr \<Rightarrow> bool" where
  "cidr_contains s (V4 n) = list_ex (\<lambda>(net, mask). and n mask = net) (cr_v4 s)"
| "cidr_contains s (V6 n) = list_ex (\<lambda>(net, mask). and n mask = net) (cr_v6 s)"

definition cidr_is_empty :: "cidr_set \<Rightarrow> bool" where
  "cidr_is_empty s \<longleftrightarrow> cr_v4 s = [] \<and> cr_v6 s = []"

definition cloudflare_snapshot :: "string list" where
  "cloudflare_snapshot =
     [''103.21.244.0/22'', ''103.22.200.0/22'', ''103.31.4.0/22'', ''104.16.0.0/13'', ''104.24.0.0/14'',
      ''108.162.192.0/18'', ''131.0.72.0/22'', ''141.101.64.0/18'', ''162.158.0.0/15'', ''172.64.0.0/13'',
      ''173.245.48.0/20'', ''188.114.96.0/20'', ''190.93.240.0/20'', ''197.234.240.0/22'', ''198.41.128.0/17'',
      ''2400:cb00::/32'', ''2606:4700::/32'', ''2803:f800::/32'', ''2405:b500::/32'', ''2405:8100::/32'',
      ''2a06:98c0::/29'', ''2c0f:f248::/32'']"

definition add_lines :: "(string \<Rightarrow> 128 word option) \<Rightarrow> string \<Rightarrow> cidr_set \<Rightarrow> cidr_set" where
  "add_lines v6 text s =
     foldl (cidr_add_or_skip v6) s (filter (\<lambda>l. l \<noteq> []) (map trim (str_lines text)))"

text \<open>The texts of the two downloads, if both the request and the body succeeded.\<close>

definition fetch_cloudflare_ranges ::
  "(string \<Rightarrow> 128 word option) \<Rightarrow> string option \<Rightarrow> string option \<Rightarrow> cidr_set \<times> bool" where
  "fetch_cloudflare_ranges v6 v4_text v6_text =
     (let s1 = (case v4_text of Some t \<Rightarrow> add_lines v6 t empty_cidrs | None \<Rightarrow> empty_cidrs);
          s2 = (case v6_text of Some t \<Rightarrow> add_lines v6 t s1 | None \<Rightarrow> s1)
      in if v4_text \<noteq> None \<and> v6_text \<noteq> None \<and> \<not> cidr_is_empty s2 then (s2, False)
         else (from_cidrs v6 cloudflare_snapshot, True))"

section \<open>DNS expectation\<close>

datatype dns_class = DnsProxied | DnsDirect | DnsPrivate

definition classify_ip :: "ip_addr \<Rightarrow> cidr_set \<Rightarrow> dns_class" where
  "classify_ip ip cf =
     (if cidr_contains cf ip then DnsProxied else if is_private_or_cgnat ip then DnsPrivate else DnsDirect)"

datatype dns_note =
    DnsResolverError string
  | DnsNoRecord string
  | DnsUnexpectedProxy string
  | DnsProxiedPrivate string string
  | DnsProxiedPublic string
  | DnsPrivateOrigin string
  | DnsDirectPublic string

text \<open>The note decides the remedy: the passing ones have none.\<close>

definition classify_dns_expectation ::
  "string \<Rightarrow> ip_addr list \<Rightarrow> string \<Rightarrow> bool option \<Rightarrow> cidr_set \<Rightarrow> bool \<Rightarrow> check_status \<times> dns_note" where
  "classify_dns_expectation host ips tls proxied_hint cf dns_error =
     (if dns_error then (CheckFail, DnsResolverError host)
      else if ips = [] then (CheckWarn, DnsNoRecord host)
      else let any_proxied = list_ex (cidr_contains cf) ips;
               any_private = list_ex is_private_or_cgnat ips;
               tailnet_or_internal = (tls = ''internal'' \<or> tls = ''tailscale'')
           in if any_proxied then
                (if proxied_hint = Some False then (CheckFail, DnsUnexpectedProxy host)
                 else if tailnet_or_internal \<or> any_private then (CheckFail, DnsProxiedPrivate host tls)
                 else (CheckPass, DnsProxiedPublic host))
              else if any_private then (CheckWarn, DnsPrivateOrigin host)
              else (CheckPass, DnsDirectPublic host))"

section \<open>Tailscale\<close>

definition parse_cert_domains :: "(string \<Rightarrow> json option) \<Rightarrow> string \<Rightarrow> string list" where
  "parse_cert_domains parse text =
     (case Option.bind (Option.bind (parse text) (jget ''CertDomains'')) jarr of
        Some ds \<Rightarrow> List.map_filter jstr ds
      | None \<Rightarrow> [])"

definition parse_self_hostname :: "(string \<Rightarrow> json option) \<Rightarrow> string \<Rightarrow> string option" where
  "parse_self_hostname parse text =
     Option.bind (Option.bind (Option.bind (parse text) (jget ''Self'')) (jget ''HostName'')) jstr"

definition without_star :: "string \<Rightarrow> string" where
  "without_star s = (case strip_prefix ''*.'' s of Some t \<Rightarrow> t | None \<Rightarrow> s)"

definition host_matches_cert_domains :: "string \<Rightarrow> string list \<Rightarrow> bool" where
  "host_matches_cert_domains host domains \<longleftrightarrow>
     (let h = without_star host in
      list_ex (\<lambda>d. h = without_star d \<or> ends_with (CHR ''.'' # without_star d) h) domains)"

definition trim_matches :: "char \<Rightarrow> string \<Rightarrow> string" where
  "trim_matches q s = rev (dropWhile (\<lambda>c. c = q) (rev (dropWhile (\<lambda>c. c = q) s)))"

definition permit_line :: "string \<Rightarrow> bool" where
  "permit_line line \<longleftrightarrow>
     (case Option.bind (strip_prefix ''TS_PERMIT_CERT_UID'' (trim line)) (strip_prefix ''='') of
        None \<Rightarrow> False
      | Some v \<Rightarrow> trim_matches (CHR 0x27) (trim_matches (CHR 0x22) (trim v)) \<noteq> [])"

text \<open>The environment file: absent, unreadable, or its text.\<close>

definition check_caddy_user_permission :: "string option option \<Rightarrow> bool" where
  "check_caddy_user_permission env_file =
     (case env_file of
        None \<Rightarrow> True
      | Some content \<Rightarrow> list_ex permit_line (str_lines (case content of Some t \<Rightarrow> t | None \<Rightarrow> [])))"

definition has_cert_manager_with_runner ::
  "'c caddy_ops \<Rightarrow> binary_output \<Rightarrow> string \<Rightarrow> 'c \<Rightarrow> unit + bool" where
  "has_cert_manager_with_runner ops binary name c =
     (case list_modules ops c of
        Inr modules \<Rightarrow>
          (case Option.bind (jget ''tls.get_certificate'' modules) jarr of
             Some managers \<Rightarrow> Inr (list_ex (\<lambda>m. jstr m = Some name) managers)
           | None \<Rightarrow> Inr False)
      | Inl _ \<Rightarrow>
          (case binary of
             BinaryOk out \<Rightarrow> Inr (module_present_exact out (''tls.get_certificate.'' @ name) = CheckPass)
           | _ \<Rightarrow> Inl ()))"

datatype preflight_error =
  TsDaemon | TsSocket | TsStatusFailed | TsNoHttps | TsHostname string | TsModuleUnknown | TsModuleAbsent | TsUser

record preflight_ok =
  tp_cert_domains :: "string list"
  tp_hostname :: "string option"

text \<open>The exit code and output of a command, if it could be run.\<close>

record ts_probe =
  tq_systemctl :: "(int \<times> string) option"
  tq_socket :: bool
  tq_status :: "string option"
  tq_binary :: binary_output
  tq_env_file :: "string option option"

definition preflight_tailscale ::
  "(string \<Rightarrow> json option) \<Rightarrow> 'c caddy_ops \<Rightarrow> ts_probe \<Rightarrow> string \<Rightarrow> 'c \<Rightarrow> preflight_error + preflight_ok" where
  "preflight_tailscale parse ops p host c =
     and_then (require (case tq_systemctl p of Some (code, out) \<Rightarrow> code = 0 \<and> trim out = ''active'' | None \<Rightarrow> False) TsDaemon) (\<lambda>_.
     and_then (require (tq_socket p) TsSocket) (\<lambda>_.
     and_then (ok_or (tq_status p) TsStatusFailed) (\<lambda>text.
     let domains = parse_cert_domains parse text in
     and_then (require (domains \<noteq> []) TsNoHttps) (\<lambda>_.
     and_then (require (host_matches_cert_domains host domains) (TsHostname host)) (\<lambda>_.
     and_then (case has_cert_manager_with_runner ops (tq_binary p) ''tailscale'' c of
                 Inl _ \<Rightarrow> Inl TsModuleUnknown
               | Inr present \<Rightarrow> require present TsModuleAbsent) (\<lambda>_.
     and_then (require (check_caddy_user_permission (tq_env_file p)) TsUser) (\<lambda>_.
       Inr \<lparr>tp_cert_domains = domains, tp_hostname = parse_self_hostname parse text\<rparr>)))))))"

end
