(* ===== verification/DoctorProps.thy ===== *)
theory DoctorProps
  imports Doctor
begin

text \<open>Address ranges as prefixes of bits, the counts of a report, and the firewall check.\<close>

section \<open>Ranges\<close>

lemma masked_eq_iff:
  "and a (not (mask k)) = and b (not (mask k)) \<longleftrightarrow> drop_bit k a = drop_bit k (b :: 'w::len word)"
proof
  assume l: "and a (not (mask k)) = and b (not (mask k))"
  show "drop_bit k a = drop_bit k b"
  proof (rule bit_eqI)
    fix i
    have "bit (and a (not (mask k))) (k + i) = bit (and b (not (mask k))) (k + i)" using l by simp
    then show "bit (drop_bit k a) i = bit (drop_bit k b) i"
      by (auto simp: bit_simps dest: bit_imp_le_length)
  qed
next
  assume r: "drop_bit k a = drop_bit k b"
  show "and a (not (mask k)) = and b (not (mask k))"
  proof (rule bit_eqI)
    fix i
    have "k \<le> i \<Longrightarrow> bit a i = bit b i"
      using arg_cong[OF r, of "\<lambda>w. bit w (i - k)"] by (simp add: bit_drop_bit_eq)
    then show "bit (and a (not (mask k))) i = bit (and b (not (mask k))) i"
      by (auto simp: bit_simps)
  qed
qed

lemma drop_bit_eq_iff:
  "drop_bit k a = drop_bit k b \<longleftrightarrow> unat a div 2 ^ k = unat b div 2 ^ k" for a b :: "'w::len word"
  by (metis drop_bit_eq_div unat_drop_bit_eq word_unat_eq_iff)

lemma in_range_iff:
  assumes "p \<le> LENGTH('w)"
  shows "and a (cidr_mask p) = and b (cidr_mask p) \<longleftrightarrow>
    unat a div 2 ^ (LENGTH('w) - p) = unat (b :: 'w::len word) div 2 ^ (LENGTH('w) - p)"
proof (cases "p = 0")
  case True
  have "unat x div 2 ^ LENGTH('w) = 0" for x :: "'w word" by (simp add: unsigned_less)
  then show ?thesis using True by (simp add: cidr_mask_def)
next
  case False
  have "(int (LENGTH('w)) - int p) mod int (LENGTH('w)) = int (LENGTH('w)) - int p"
    using False assms by (intro mod_pos_pos_trivial) simp_all
  then have "nat ((int (LENGTH('w)) - int p) mod int (LENGTH('w))) = LENGTH('w) - p"
    using assms by (simp only: nat_diff_distrib nat_int)
  then show ?thesis using False by (simp add: cidr_mask_def masked_eq_iff drop_bit_eq_iff)
qed

text \<open>The block of an address: the addresses of its family that agree with it on the leading \<open>p\<close> bits.\<close>

fun ip_width :: "ip_addr \<Rightarrow> nat" where
  "ip_width (V4 _) = 32"
| "ip_width (V6 _) = 128"

fun same_block :: "nat \<Rightarrow> ip_addr \<Rightarrow> ip_addr \<Rightarrow> bool" where
  "same_block p (V4 m) (V4 n) \<longleftrightarrow> unat n div 2 ^ (32 - p) = unat m div 2 ^ (32 - p)"
| "same_block p (V6 m) (V6 n) \<longleftrightarrow> unat n div 2 ^ (128 - p) = unat m div 2 ^ (128 - p)"
| "same_block p _ _ \<longleftrightarrow> False"

text \<open>C30. Adding a well-formed IPv4 or IPv6 range adds exactly the addresses of its own family that agree
  with it on the leading bits of its prefix, for any prefix up to the width of the family: 32 or 128.\<close>

theorem cidr_add_iff:
  assumes "split_once (CHR ''/'') cidr = Some (ip, txt)" "parse_uint 4294967295 txt = Some p"
    and "parse_ip v6 ip = Some net" "p \<le> ip_width net"
  shows "\<exists>t. cidr_add v6 cidr s = Some t \<and>
    (\<forall>a. cidr_contains t a \<longleftrightarrow> cidr_contains s a \<or> same_block p net a)"
proof (cases net)
  case (V4 n)
  then have "p \<le> LENGTH(32)" using assms(4) by simp
  from in_range_iff[where 'w = 32, OF this]
  have "cidr_contains (s\<lparr>cr_v4 := cr_v4 s @ [(and n (cidr_mask p), cidr_mask p)]\<rparr>) a \<longleftrightarrow>
      cidr_contains s a \<or> same_block p (V4 n) a" for a
    by (cases a) auto
  then show ?thesis using assms(1-3) V4 by (simp add: cidr_add_def)
next
  case (V6 n)
  then have "p \<le> LENGTH(128)" using assms(4) by simp
  from in_range_iff[where 'w = 128, OF this]
  have "cidr_contains (s\<lparr>cr_v6 := cr_v6 s @ [(and n (cidr_mask p), cidr_mask p)]\<rparr>) a \<longleftrightarrow>
      cidr_contains s a \<or> same_block p (V6 n) a" for a
    by (cases a) auto
  then show ?thesis using assms(1-3) V6 by (simp add: cidr_add_def)
qed

text \<open>The address \<open>2400:cb00::\<close>, as the parser of IPv6 addresses would give it.\<close>

definition sample_v6 :: "string \<Rightarrow> 128 word option" where
  "sample_v6 s = (if s = ''2400:cb00::'' then Some 0x2400cb00000000000000000000000000 else None)"

lemma empty_contains [simp]: "\<not> cidr_contains empty_cidrs a"
  by (cases a) (simp_all add: empty_cidrs_def)

theorem cidr_add_iff_witness:
  "(\<exists>t. cidr_add sample_v6 ''104.24.0.0/14'' empty_cidrs = Some t \<and>
     (\<forall>a. cidr_contains t (V4 a) \<longleftrightarrow> unat a div 2 ^ 18 = 1746403328 div 2 ^ 18)) \<and>
   (\<exists>t. cidr_add sample_v6 ''2400:cb00::/32'' empty_cidrs = Some t \<and>
     (\<forall>a. cidr_contains t (V6 a) \<longleftrightarrow> unat a div 2 ^ 96 = 0x2400cb00))"
proof
  have "split_once (CHR ''/'') ''104.24.0.0/14'' = Some (''104.24.0.0'', ''14'')"
    "parse_uint 4294967295 ''14'' = Some 14"
    "parse_ip sample_v6 ''104.24.0.0'' = Some (V4 1746403328)" by code_simp+
  from cidr_add_iff[OF this, of empty_cidrs] obtain t where
    "cidr_add sample_v6 ''104.24.0.0/14'' empty_cidrs = Some t"
    "\<And>a. cidr_contains t a \<longleftrightarrow> same_block 14 (V4 1746403328) a" by (auto simp del: cidr_contains.simps)
  then show "\<exists>t. cidr_add sample_v6 ''104.24.0.0/14'' empty_cidrs = Some t \<and>
      (\<forall>a. cidr_contains t (V4 a) \<longleftrightarrow> unat a div 2 ^ 18 = 1746403328 div 2 ^ 18)"
    by (intro exI[of _ t]) (simp del: cidr_contains.simps)
  have "split_once (CHR ''/'') ''2400:cb00::/32'' = Some (''2400:cb00::'', ''32'')"
    "parse_uint 4294967295 ''32'' = Some 32"
    "parse_ip sample_v6 ''2400:cb00::'' = Some (V6 0x2400cb00000000000000000000000000)" by code_simp+
  from cidr_add_iff[OF this, of empty_cidrs] obtain t where
    "cidr_add sample_v6 ''2400:cb00::/32'' empty_cidrs = Some t"
    "\<And>a. cidr_contains t a \<longleftrightarrow> same_block 32 (V6 0x2400cb00000000000000000000000000) a" by (auto simp del: cidr_contains.simps)
  then show "\<exists>t. cidr_add sample_v6 ''2400:cb00::/32'' empty_cidrs = Some t \<and>
      (\<forall>a. cidr_contains t (V6 a) \<longleftrightarrow> unat a div 2 ^ 96 = 0x2400cb00)"
    by (intro exI[of _ t]) (simp del: cidr_contains.simps)
qed

text \<open>A prefix above 32 wraps: the range of \<open>/33\<close> is half of the address space.\<close>

lemma prefix_wraps:
  "(case cidr_add (\<lambda>_. None) ''1.2.3.4/33'' empty_cidrs of
      Some t \<Rightarrow> cidr_contains t (V4 0x08080808) \<and> cidr_contains t (V4 0) \<and> \<not> cidr_contains t (V4 0xC0000000)
    | None \<Rightarrow> False)"
  by code_simp

section \<open>Reports\<close>

lemma summary_counts:
  "summary_from_checks cs =
     \<lparr>cs_pass = count_list cs CheckPass, cs_warn = count_list cs CheckWarn, cs_fail = count_list cs CheckFail,
      cs_skipped = count_list cs CheckSkipped\<rparr>"
proof -
  have "foldl tally s cs = \<lparr>cs_pass = cs_pass s + count_list cs CheckPass, cs_warn = cs_warn s + count_list cs CheckWarn,
      cs_fail = cs_fail s + count_list cs CheckFail, cs_skipped = cs_skipped s + count_list cs CheckSkipped\<rparr>" for s
    by (induction cs arbitrary: s) (auto simp: tally_def split: check_status.split)
  then show ?thesis by (simp add: summary_from_checks_def)
qed

lemma exit_zero_iff: "aggregate_exit (summary_from_checks cs) t = 0 \<longleftrightarrow> \<not> t \<and> CheckFail \<notin> set cs"
  using count_list_0_iff[of cs CheckFail] by (auto simp: aggregate_exit_def summary_counts)

section \<open>The firewall\<close>

definition ufw_after_remedy :: string where
  "ufw_after_remedy = ''Status: active'' @ [CHR 0x0A] @ ''[ 1] 53 on br-slip  ALLOW IN    Anywhere'' @ [CHR 0x0A]"

definition ufw_other_bridge :: string where
  "ufw_other_bridge = ''Status: active'' @ [CHR 0x0A] @ ''[ 1] 8053/tcp on br-slip2  ALLOW IN    Anywhere'' @ [CHR 0x0A]"

text \<open>The firewall check passes only on a line that names a port ending in \<open>53/\<close>, so the rule without
  protocol that its own remedy adds does not pass it, while a rule for another port of another bridge
  whose name continues this one does.\<close>

theorem ufw_check_misreads:
  "(uf_status (classify_ufw bridge out) = CheckPass \<longrightarrow>
      (\<exists>line\<in>set (str_lines (ascii_lowercase out)). sublist ''53/'' line)) \<and>
   uf_status (classify_ufw ''br-slip'' ufw_after_remedy) = CheckFail \<and>
   uf_remedy (classify_ufw ''br-slip'' ufw_after_remedy) = Some ''ufw allow in on br-slip to any port 53'' \<and>
   uf_status (classify_ufw ''br-slip'' ufw_other_bridge) = CheckPass"
proof -
  have "uf_status (classify_ufw bridge out) = CheckPass \<longrightarrow>
      (\<exists>line\<in>set (str_lines (ascii_lowercase out)). sublist ''53/'' line)"
    by (auto simp: classify_ufw_def Let_def ufw_rule_line_def contains_str_def list_ex_iff)
  moreover have "uf_status (classify_ufw ''br-slip'' ufw_after_remedy) = CheckFail"
    "uf_remedy (classify_ufw ''br-slip'' ufw_after_remedy) = Some ''ufw allow in on br-slip to any port 53''"
    "uf_status (classify_ufw ''br-slip'' ufw_other_bridge) = CheckPass"
    by code_simp+
  ultimately show ?thesis by blast
qed

theorem ufw_check_misreads_witness:
  "\<exists>line\<in>set (str_lines (ascii_lowercase ufw_other_bridge)). sublist ''53/'' line"
  using ufw_check_misreads[of "''br-slip''" ufw_other_bridge] by simp

end
