(* ===== verification/Apply.thy ===== *)
theory Apply
  imports ApiTypes
begin

text \<open>
  \<open>diff.rs\<close>: the comparison of a repository's configuration with the server's and the payloads of
  \<open>slip apply\<close>, with the deserialisation of the update request they are sent to.  The JSON patch
  algorithm (crate \<open>json-patch\<close>), the text of an \<open>f64\<close> number of seconds and the parsers of the
  request sections that apply never sends are parameters.
\<close>

section \<open>The pushable part of a configuration\<close>

record pushable =
  pu_image :: "string option"
  pu_domain :: "string option"
  pu_port :: "nat option"
  pu_path :: "string option"
  pu_interval :: "string option"
  pu_timeout :: "string option"
  pu_retries :: "nat option"
  pu_start_period :: "string option"
  pu_expect_status :: "string option"
  pu_memory :: "string option"
  pu_cpus :: "string option"
  pu_strategy :: "string option"
  pu_drain_timeout :: "string option"
  pu_deploy_timeout :: "string option"
  pu_env :: "(string \<times> json) list"
  pu_volumes :: "(string \<times> bool) list"
  pu_routes :: "(string \<times> nat option) list"
  pu_needs :: "(string \<times> json) list"

text \<open>A \<open>BTreeMap\<close>: the entries in key order.\<close>

definition btree :: "('a \<Rightarrow> json) \<Rightarrow> (string \<times> 'a) list \<Rightarrow> (string \<times> json) list" where
  "btree f kvs = foldl (\<lambda>m kv. obj_put (fst kv) (snd kv) m) [] (map (apsnd f) kvs)"

definition need_json :: "need \<Rightarrow> json" where
  "need_json n = JObj [(''type'', JStr (need_type_str (need_kind n)))]"

definition repo_pushable :: "(duration \<Rightarrow> string) \<Rightarrow> repo_config \<Rightarrow> pushable" where
  "repo_pushable f64 cfg =
     \<lparr>pu_image = ra_image (rc_app cfg), pu_domain = rrc_domain (rc_routing cfg), pu_port = rrc_port (rc_routing cfg),
      pu_path = rh_path (rc_health cfg), pu_interval = map_option f64 (rh_interval (rc_health cfg)),
      pu_timeout = map_option f64 (rh_timeout (rc_health cfg)), pu_retries = rh_retries (rc_health cfg),
      pu_start_period = map_option f64 (rh_start_period (rc_health cfg)),
      pu_expect_status = map_option status_canonical (rh_expect_status (rc_health cfg)),
      pu_memory = Option.bind (rc_default_resources cfg) rs_memory, pu_cpus = Option.bind (rc_default_resources cfg) rs_cpus,
      pu_strategy = Option.bind (rc_deploy cfg) rd_strategy,
      pu_drain_timeout = map_option f64 (Option.bind (rc_deploy cfg) rd_drain_timeout),
      pu_deploy_timeout = map_option f64 (Option.bind (rc_deploy cfg) rd_timeout),
      pu_env = btree JStr (rc_env cfg), pu_volumes = map (\<lambda>v. (rv_mount_path v, rv_read_only v)) (rc_volumes cfg),
      pu_routes = [], pu_needs = btree need_json (rc_needs cfg)\<rparr>"

definition server_pushable :: "(duration \<Rightarrow> string) \<Rightarrow> app_response \<Rightarrow> pushable" where
  "server_pushable f64 r =
     \<lparr>pu_image = Some (ar_image r), pu_domain = (if ar_domain r = [] then None else Some (ar_domain r)),
      pu_port = (if ar_port r = 0 then None else Some (ar_port r)),
      pu_path = hc_path (ar_health r), pu_interval = Some (f64 (hc_interval (ar_health r))),
      pu_timeout = Some (f64 (hc_timeout (ar_health r))), pu_retries = Some (hc_retries (ar_health r)),
      pu_start_period = Some (f64 (hc_start_period (ar_health r))),
      pu_expect_status = map_option status_canonical (hc_expect_status (ar_health r)),
      pu_memory = rs_memory (ar_resources r), pu_cpus = rs_cpus (ar_resources r),
      pu_strategy = Some (dc_strategy (ar_deploy r)), pu_drain_timeout = Some (f64 (dc_drain_timeout (ar_deploy r))),
      pu_deploy_timeout = map_option f64 (dc_timeout (ar_deploy r)),
      pu_env = btree JStr (ar_env r), pu_volumes = map (\<lambda>v. (vc_mount_path v, vc_read_only v)) (ar_volumes r),
      pu_routes = map (\<lambda>x. (re_hostname x, re_port x)) (ar_routes r), pu_needs = btree need_json (ar_needs r)\<rparr>"

text \<open>What the repository leaves out is not compared.\<close>

definition managed :: "'a option \<Rightarrow> 'b option \<Rightarrow> 'b option" where
  "managed repo server = (if repo = None then None else server)"

definition normalize_server_to_repo :: "pushable \<Rightarrow> pushable \<Rightarrow> pushable" where
  "normalize_server_to_repo repo s =
     s\<lparr>pu_image := managed (pu_image repo) (pu_image s), pu_domain := managed (pu_domain repo) (pu_domain s),
       pu_port := managed (pu_port repo) (pu_port s), pu_path := managed (pu_path repo) (pu_path s),
       pu_interval := managed (pu_interval repo) (pu_interval s), pu_timeout := managed (pu_timeout repo) (pu_timeout s),
       pu_retries := managed (pu_retries repo) (pu_retries s),
       pu_start_period := managed (pu_start_period repo) (pu_start_period s),
       pu_expect_status := managed (pu_expect_status repo) (pu_expect_status s),
       pu_memory := managed (pu_memory repo) (pu_memory s), pu_cpus := managed (pu_cpus repo) (pu_cpus s),
       pu_strategy := managed (pu_strategy repo) (pu_strategy s),
       pu_drain_timeout := managed (pu_drain_timeout repo) (pu_drain_timeout s),
       pu_deploy_timeout := managed (pu_deploy_timeout repo) (pu_deploy_timeout s)\<rparr>"

section \<open>The difference\<close>

definition opt_json :: "('a \<Rightarrow> json) \<Rightarrow> 'a option \<Rightarrow> json" where
  "opt_json f x = (case x of Some v \<Rightarrow> f v | None \<Rightarrow> JNull)"

definition num_json :: "nat \<Rightarrow> json" where "num_json n = JNum (show_nat n)"

definition pushable_json :: "pushable \<Rightarrow> json" where
  "pushable_json p =
     jobj [(''image'', opt_json JStr (pu_image p)), (''domain'', opt_json JStr (pu_domain p)),
       (''port'', opt_json num_json (pu_port p)),
       (''health'', jobj [(''path'', opt_json JStr (pu_path p)), (''interval_secs'', opt_json JNum (pu_interval p)),
          (''timeout_secs'', opt_json JNum (pu_timeout p)), (''retries'', opt_json num_json (pu_retries p)),
          (''start_period_secs'', opt_json JNum (pu_start_period p)),
          (''expect_status'', opt_json JStr (pu_expect_status p))]),
       (''resources'', jobj [(''memory'', opt_json JStr (pu_memory p)), (''cpus'', opt_json JStr (pu_cpus p))]),
       (''deploy'', jobj [(''strategy'', opt_json JStr (pu_strategy p)),
          (''drain_timeout_secs'', opt_json JNum (pu_drain_timeout p)),
          (''timeout_secs'', opt_json JNum (pu_deploy_timeout p))]),
       (''env'', JObj (pu_env p)),
       (''volumes'', JArr (map (\<lambda>(m, ro). jobj [(''mount_path'', JStr m), (''read_only'', JBool ro)]) (pu_volumes p))),
       (''routes'', JArr (map (\<lambda>(h, q). jobj [(''hostname'', JStr h), (''port'', opt_json num_json q)]) (pu_routes p))),
       (''needs'', JObj (pu_needs p))]"

fun sort_value :: "json \<Rightarrow> json" where
  "sort_value (JObj m) = jobj (map (\<lambda>(k, v). (k, sort_value v)) m)"
| "sort_value (JArr xs) = JArr (map sort_value xs)"
| "sort_value j = j"

datatype patch_op =
    PatchAdd string json
  | PatchRemove string
  | PatchReplace string json
  | PatchOther string

fun op_path :: "patch_op \<Rightarrow> string" where
  "op_path (PatchAdd p _) = p"
| "op_path (PatchRemove p) = p"
| "op_path (PatchReplace p _) = p"
| "op_path (PatchOther p) = p"

record apply_diff =
  ad_app :: string
  ad_changed :: bool
  ad_ops :: "patch_op list"

definition compute_diff ::
  "(duration \<Rightarrow> string) \<Rightarrow> (json \<Rightarrow> json \<Rightarrow> patch_op list) \<Rightarrow> repo_config \<Rightarrow> app_response \<Rightarrow> apply_diff" where
  "compute_diff f64 diff repo server =
     (let repo_p = repo_pushable f64 repo;
          server_p = normalize_server_to_repo repo_p (server_pushable f64 server);
          patch = diff (sort_value (pushable_json server_p)) (sort_value (pushable_json repo_p))
      in \<lparr>ad_app = ra_name (rc_app repo), ad_changed = (patch \<noteq> []), ad_ops = patch\<rparr>)"

section \<open>Rendering\<close>

definition is_env_path :: "string \<Rightarrow> bool" where
  "is_env_path p \<longleftrightarrow> prefix ''/env/'' p \<or> p = ''/env''"

fun redact_op :: "patch_op \<Rightarrow> patch_op" where
  "redact_op (PatchAdd p v) = PatchAdd p (if is_env_path p then JStr ''(redacted)'' else v)"
| "redact_op (PatchReplace p v) = PatchReplace p (if is_env_path p then JStr ''(redacted)'' else v)"
| "redact_op op = op"

definition redacted :: "apply_diff \<Rightarrow> apply_diff" where
  "redacted d = d\<lparr>ad_ops := map redact_op (ad_ops d)\<rparr>"

text \<open>The line of an operation, or the environment variable it removes.\<close>

definition diff_line :: "(json \<Rightarrow> string) \<Rightarrow> patch_op \<Rightarrow> string + string" where
  "diff_line show op =
     (case op of
        PatchAdd p v \<Rightarrow> Inr (''+ '' @ p @ '' = '' @ show v)
      | PatchRemove p \<Rightarrow>
          (case strip_prefix ''/env/'' p of Some key \<Rightarrow> Inl key | None \<Rightarrow> Inr (''- '' @ p))
      | PatchReplace p v \<Rightarrow> Inr (''~ '' @ p @ '' = '' @ show v)
      | PatchOther p \<Rightarrow> Inr (''? '' @ p @ '' (unknown operation)''))"

definition lefts :: "('a + 'b) list \<Rightarrow> 'a list" where
  "lefts xs = List.map_filter (\<lambda>x. case x of Inl a \<Rightarrow> Some a | Inr _ \<Rightarrow> None) xs"

definition rights :: "('a + 'b) list \<Rightarrow> 'b list" where
  "rights xs = List.map_filter (\<lambda>x. case x of Inr b \<Rightarrow> Some b | Inl _ \<Rightarrow> None) xs"

text \<open>The text for a difference without changes is the code's \<open>no changes\<close> sentence.\<close>

definition render_human_diff :: "(json \<Rightarrow> string) \<Rightarrow> string \<Rightarrow> bool \<Rightarrow> apply_diff \<Rightarrow> string" where
  "render_human_diff show no_changes redact_env d =
     (let e = (if redact_env then redacted d else d) in
      if \<not> ad_changed e then no_changes
      else (let rs = map (diff_line show) (ad_ops e); removed = lefts rs
            in join_with [CHR 0x0A]
                 (rights rs @ (if removed = [] then []
                    else [[], ''will remove env vars (not in slip.toml):''] @ map (\<lambda>k. ''  - '' @ k) removed))))"

section \<open>Payloads\<close>

definition put_opt :: "string \<Rightarrow> ('a \<Rightarrow> json) \<Rightarrow> 'a option \<Rightarrow> json \<Rightarrow> json" where
  "put_opt k f x j = (case x of Some v \<Rightarrow> jput k (f v) j | None \<Rightarrow> j)"

definition duration_json :: "duration \<Rightarrow> json" where "duration_json d = JStr (format_duration d)"

definition health_payload :: "repo_health_config \<Rightarrow> json option" where
  "health_payload h =
     (if rh_path h = None \<and> rh_interval h = None \<and> rh_timeout h = None \<and> rh_retries h = None \<and>
         rh_start_period h = None \<and> rh_expect_status h = None then None
      else Some (put_opt ''expect_status'' (\<lambda>e. JStr (status_canonical e)) (rh_expect_status h)
            (put_opt ''start_period'' duration_json (rh_start_period h)
            (put_opt ''retries'' num_json (rh_retries h)
            (put_opt ''timeout'' duration_json (rh_timeout h)
            (put_opt ''interval'' duration_json (rh_interval h)
            (put_opt ''path'' JStr (rh_path h) (JObj []))))))))"

definition resources_payload :: "resource_config \<Rightarrow> json" where
  "resources_payload r = put_opt ''cpus'' JStr (rs_cpus r) (put_opt ''memory'' JStr (rs_memory r) (JObj []))"

definition deploy_payload :: "repo_deploy_config \<Rightarrow> json" where
  "deploy_payload d =
     put_opt ''timeout'' duration_json (rd_timeout d)
       (put_opt ''drain_timeout'' duration_json (rd_drain_timeout d)
       (put_opt ''strategy'' JStr (rd_strategy d) (JObj [])))"

definition volume_payload :: "repo_volume \<Rightarrow> json" where
  "volume_payload v = jobj [(''mount_path'', JStr (rv_mount_path v)), (''read_only'', JBool (rv_read_only v))]"

definition shared_payload :: "repo_config \<Rightarrow> json \<Rightarrow> json" where
  "shared_payload repo j =
     put_opt ''deploy'' deploy_payload (rc_deploy repo)
       (put_opt ''resources'' resources_payload (rc_default_resources repo)
       (put_opt ''health'' id (health_payload (rc_health repo))
       (put_opt ''port'' num_json (rrc_port (rc_routing repo)) j)))"

definition build_update_payload :: "repo_config \<Rightarrow> json" where
  "build_update_payload repo =
     jput ''needs'' (JObj (btree need_json (rc_needs repo)))
       (jput ''volumes'' (JArr (map volume_payload (rc_volumes repo)))
       (jput ''env'' (JObj (btree JStr (rc_env repo)))
       (shared_payload repo
          (put_opt ''domain'' JStr (rrc_domain (rc_routing repo))
            (put_opt ''image'' JStr (ra_image (rc_app repo)) (JObj []))))))"

datatype payload_error = PayloadNoImage string | PayloadNoDomain string

definition build_create_payload :: "repo_config \<Rightarrow> payload_error + json" where
  "build_create_payload repo =
     (let img = some_or (ra_image (rc_app repo)) []; domain = some_or (rrc_domain (rc_routing repo)) [];
          name = ra_name (rc_app repo)
      in if img = [] then Inl (PayloadNoImage name)
         else if domain = [] then Inl (PayloadNoDomain name)
         else Inr (let j1 = shared_payload repo (jobj [(''name'', JStr name), (''image'', JStr img), (''domain'', JStr domain)]);
                       j2 = (if rc_env repo = [] then j1 else jput ''env'' (JObj (btree JStr (rc_env repo))) j1);
                       j3 = (if rc_volumes repo = [] then j2
                             else jput ''volumes'' (JArr (map volume_payload (rc_volumes repo))) j2)
                   in if rc_needs repo = [] then j3 else jput ''needs'' (JObj (btree need_json (rc_needs repo))) j3))"

end
