(* ===== verification/ApplyRequest.thy ===== *)
theory ApplyRequest
  imports Apply
begin

text \<open>
  How the update request is read from its JSON body (the serde attributes of \<open>UpdateAppRequest\<close> and of the
  configuration types in \<open>config.rs\<close>).  A missing or null optional field is absent, a missing field with a
  default takes it, an unknown key is ignored.  The sections \<open>network\<close> and \<open>preview\<close>, which apply never
  sends, are read by parameters; a number whose text the \<open>f64\<close> parser panics on is not read either.
\<close>

section \<open>Fields\<close>

definition field_or :: "string \<Rightarrow> 'a \<Rightarrow> (json \<Rightarrow> 'a option) \<Rightarrow> json \<Rightarrow> 'a option" where
  "field_or k d p j = (case jget k j of None \<Rightarrow> Some d | Some v \<Rightarrow> p v)"

definition opt_field :: "string \<Rightarrow> (json \<Rightarrow> 'a option) \<Rightarrow> json \<Rightarrow> 'a option option" where
  "opt_field k p j =
     (case jget k j of
        None \<Rightarrow> Some None
      | Some v \<Rightarrow> if v = JNull then Some None else map_option Some (p v))"

definition req_field :: "string \<Rightarrow> (json \<Rightarrow> 'a option) \<Rightarrow> json \<Rightarrow> 'a option" where
  "req_field k p j = Option.bind (jget k j) p"

definition uint_of_json :: "nat \<Rightarrow> json \<Rightarrow> nat option" where
  "uint_of_json mx j =
     (case j of JNum s \<Rightarrow> if list_all is_digit s then parse_uint mx s else None | _ \<Rightarrow> None)"

definition bool_of_json :: "json \<Rightarrow> bool option" where
  "bool_of_json j = (case j of JBool b \<Rightarrow> Some b | _ \<Rightarrow> None)"

definition duration_of_json :: "(string \<Rightarrow> f64_secs) \<Rightarrow> json \<Rightarrow> duration option" where
  "duration_of_json f64 j =
     (case j of JStr s \<Rightarrow> (case parse_duration f64 s of DurOk d \<Rightarrow> Some d | _ \<Rightarrow> None) | _ \<Rightarrow> None)"

definition expect_of_json :: "json \<Rightarrow> status_expectation option" where
  "expect_of_json j =
     (case j of JStr s \<Rightarrow> (case status_parse s of Inr e \<Rightarrow> Some e | Inl _ \<Rightarrow> None) | _ \<Rightarrow> None)"

definition tls_of_json :: "json \<Rightarrow> tls_strategy option" where
  "tls_of_json j =
     (case j of JStr s \<Rightarrow> (case tls_parse s of Inr t \<Rightarrow> Some t | Inl _ \<Rightarrow> None) | _ \<Rightarrow> None)"

fun map_opt :: "('a \<Rightarrow> 'b option) \<Rightarrow> 'a list \<Rightarrow> 'b list option" where
  "map_opt f [] = Some []"
| "map_opt f (x # xs) = Option.bind (f x) (\<lambda>y. map_option ((#) y) (map_opt f xs))"

definition list_of_json :: "(json \<Rightarrow> 'a option) \<Rightarrow> json \<Rightarrow> 'a list option" where
  "list_of_json f j = Option.bind (jarr j) (map_opt f)"

definition map_of_json :: "(json \<Rightarrow> 'a option) \<Rightarrow> json \<Rightarrow> (string \<times> 'a) list option" where
  "map_of_json f j =
     (case j of JObj m \<Rightarrow> map_opt (\<lambda>(k, v). map_option (Pair k) (f v)) m | _ \<Rightarrow> None)"

section \<open>Sections\<close>

definition health_of_json :: "(string \<Rightarrow> f64_secs) \<Rightarrow> json \<Rightarrow> health_config option" where
  "health_of_json f64 j =
     (if \<not> is_jobj j then None
      else Option.bind (opt_field ''path'' jstr j) (\<lambda>path.
           Option.bind (field_or ''interval'' (hc_interval default_health) (duration_of_json f64) j) (\<lambda>interval.
           Option.bind (field_or ''timeout'' (hc_timeout default_health) (duration_of_json f64) j) (\<lambda>timeout.
           Option.bind (field_or ''retries'' (hc_retries default_health) (uint_of_json 4294967295) j) (\<lambda>retries.
           Option.bind (field_or ''start_period'' (hc_start_period default_health) (duration_of_json f64) j) (\<lambda>start.
           Option.bind (opt_field ''expect_status'' expect_of_json j) (\<lambda>expect.
             Some \<lparr>hc_path = path, hc_interval = interval, hc_timeout = timeout, hc_retries = retries,
                   hc_start_period = start, hc_expect_status = expect\<rparr>)))))))"

definition deploy_of_json :: "(string \<Rightarrow> f64_secs) \<Rightarrow> json \<Rightarrow> deploy_config option" where
  "deploy_of_json f64 j =
     (if \<not> is_jobj j then None
      else Option.bind (field_or ''strategy'' (dc_strategy default_deploy) jstr j) (\<lambda>strategy.
           Option.bind (field_or ''drain_timeout'' (dc_drain_timeout default_deploy) (duration_of_json f64) j) (\<lambda>drain.
           Option.bind (opt_field ''timeout'' (duration_of_json f64) j) (\<lambda>timeout.
             Some \<lparr>dc_strategy = strategy, dc_drain_timeout = drain, dc_timeout = timeout\<rparr>))))"

definition resources_of_json :: "json \<Rightarrow> resource_config option" where
  "resources_of_json j =
     (if \<not> is_jobj j then None
      else Option.bind (opt_field ''memory'' jstr j) (\<lambda>memory.
           Option.bind (opt_field ''cpus'' jstr j) (\<lambda>cpus. Some \<lparr>rs_memory = memory, rs_cpus = cpus\<rparr>)))"

definition volume_of_json :: "json \<Rightarrow> volume_config option" where
  "volume_of_json j =
     Option.bind (req_field ''host_path'' jstr j) (\<lambda>host.
     Option.bind (req_field ''mount_path'' jstr j) (\<lambda>mount.
     Option.bind (field_or ''read_only'' False bool_of_json j) (\<lambda>ro.
       Some \<lparr>vc_host_path = host, vc_mount_path = mount, vc_read_only = ro\<rparr>)))"

definition route_of_json :: "json \<Rightarrow> route_entry option" where
  "route_of_json j =
     Option.bind (req_field ''hostname'' jstr j) (\<lambda>host.
     Option.bind (opt_field ''port'' (uint_of_json 65535) j) (\<lambda>port.
     Option.bind (opt_field ''tls'' tls_of_json j) (\<lambda>tls.
       Some \<lparr>re_hostname = host, re_port = port, re_tls = tls\<rparr>)))"

definition need_of_json :: "json \<Rightarrow> need option" where
  "need_of_json j =
     (case j of
        JObj m \<Rightarrow>
          if list_ex (\<lambda>e. fst e \<noteq> ''type'') m then None
          else Option.bind (req_field ''type'' jstr j) (\<lambda>s.
                 case need_type_parse s of Inr t \<Rightarrow> Some \<lparr>need_kind = t\<rparr> | Inl _ \<Rightarrow> None)
      | _ \<Rightarrow> None)"

section \<open>The update request\<close>

definition update_request_of ::
  "(string \<Rightarrow> f64_secs) \<Rightarrow> (json \<Rightarrow> string option) \<Rightarrow> (json \<Rightarrow> app_preview_config option) \<Rightarrow> json \<Rightarrow>
     update_app_request option" where
  "update_request_of f64 network_of preview_of j =
     (if \<not> is_jobj j then None
      else Option.bind (opt_field ''needs'' (map_of_json need_of_json) j) (\<lambda>needs.
           Option.bind (opt_field ''image'' jstr j) (\<lambda>img.
           Option.bind (opt_field ''domain'' jstr j) (\<lambda>domain.
           Option.bind (opt_field ''port'' (uint_of_json 65535) j) (\<lambda>port.
           Option.bind (opt_field ''secret'' jstr j) (\<lambda>secret.
           Option.bind (opt_field ''env'' (map_of_json jstr) j) (\<lambda>env.
           Option.bind (opt_field ''resources'' resources_of_json j) (\<lambda>resources.
           Option.bind (opt_field ''network'' network_of j) (\<lambda>network.
           Option.bind (opt_field ''health'' (health_of_json f64) j) (\<lambda>health.
           Option.bind (opt_field ''deploy'' (deploy_of_json f64) j) (\<lambda>deploy.
           Option.bind (opt_field ''preview'' preview_of j) (\<lambda>preview.
           Option.bind (opt_field ''volumes'' (list_of_json volume_of_json) j) (\<lambda>volumes.
           Option.bind (opt_field ''routes'' (list_of_json route_of_json) j) (\<lambda>routes.
           Option.bind (opt_field ''tls'' tls_of_json j) (\<lambda>tls.
             Some \<lparr>up_image = img, up_domain = domain, up_port = port, up_secret = secret, up_env = env,
                   up_needs = needs, up_resources = resources, up_network = network, up_health = health,
                   up_deploy = deploy, up_preview = preview, up_volumes = volumes, up_routes = routes,
                   up_tls = tls\<rparr>)))))))))))))))"

section \<open>Objects built by puts\<close>

lemma put_opt_jobj [simp]: "is_jobj j \<Longrightarrow> is_jobj (put_opt k f x j)" "is_jobj j \<Longrightarrow> is_jobj (jput k v j)" "is_jobj (JObj m)"
  by (cases j; auto simp: put_opt_def is_jobj_def split: option.split)+

lemma jget_put_opt: "is_jobj j \<Longrightarrow> jget l (put_opt k f x j) = (if l = k \<and> x \<noteq> None then map_option f x else jget l j)"
  by (auto simp: put_opt_def jget_jput split: option.split)

lemma btree_map: "map_of (btree f kvs) = map_option f \<circ> map_of (rev kvs)"
proof -
  have "map_of (foldl (\<lambda>m kv. obj_put (fst kv) (snd kv) m) m0 xs) = map_of m0 ++ map_of (rev xs)" for m0 xs
    by (induction xs arbitrary: m0) (auto simp: map_add_def fun_eq_iff split: option.splits)
  then have "map_of (btree f kvs) = map_of (rev (map (apsnd f) kvs))" by (simp add: btree_def)
  also have "\<dots> = map_option f \<circ> map_of (rev kvs)"
    by (induction kvs rule: rev_induct) (auto simp: fun_eq_iff)
  finally show ?thesis .
qed

lemma obj_put_keys: "fst ` set (obj_put k v m) = insert k (fst ` set m)"
  by (induction k v m rule: obj_put.induct) auto

lemma obj_put_sorted: "sorted_wrt (<) (map fst m) \<Longrightarrow> sorted_wrt (<) (map fst (obj_put k v m))"
  by (induction k v m rule: obj_put.induct) (auto simp: obj_put_keys[unfolded set_map[symmetric]] set_map obj_put_keys)

lemma btree_sorted: "sorted_wrt (<) (map fst (btree f kvs))"
proof -
  have "sorted_wrt (<) (map fst m0) \<Longrightarrow> sorted_wrt (<) (map fst (foldl (\<lambda>m kv. obj_put (fst kv) (snd kv) m) m0 xs))"
    for m0 and xs :: "(string \<times> json) list"
    by (induction xs arbitrary: m0) (auto intro: obj_put_sorted)
  then show ?thesis by (simp add: btree_def)
qed

lemma entries_of_map:
  assumes "distinct (map fst m)"
  shows "map (\<lambda>k. (k, the (map_of m k))) (map fst m) = m"
  using map_of_is_SomeI[OF assms] by (auto simp: o_def intro!: map_idI)

lemma sorted_entries_unique:
  fixes m m' :: "(string \<times> 'a) list"
  assumes "sorted_wrt (<) (map fst m)" "sorted_wrt (<) (map fst m')" "map_of m = map_of m'"
  shows "m = m'"
proof -
  have d: "distinct (map fst m)" "distinct (map fst m')" using assms(1,2) strict_sorted_iff by blast+
  then have "set m = set m'" using assms(3) map_of_inject_set by blast
  then have "map fst m = map fst m'"
    using assms(1,2) by (metis set_map sorted_list_of_set.idem_if_sorted_distinct strict_sorted_iff)
  then show ?thesis using entries_of_map[OF d(1)] entries_of_map[OF d(2)] assms(3) by metis
qed

end
