(* ===== verification/ApplyProps.thy ===== *)
theory ApplyProps
  imports ApplyRequest
begin

text \<open>
  What \<open>slip apply\<close> achieves: the payload it sends is read as the request it means, and after the
  update the difference is empty unless the server has routes of its own.
\<close>

section \<open>Reading what was put\<close>

lemma read_put:
  assumes "jget k j = map_option f x" "\<And>v. x = Some v \<Longrightarrow> p (f v) = Some v"
  shows "field_or k d p j = Some (some_or x d)"
    "(\<And>v. f v \<noteq> JNull) \<Longrightarrow> opt_field k p j = Some x"
  using assms by (auto simp: field_or_def opt_field_def some_or_def split: option.splits)

lemma map_opt_map: "(\<And>x. x \<in> set xs \<Longrightarrow> g (h x) = Some x) \<Longrightarrow> map_opt g (map h xs) = Some xs"
  by (induction xs) auto

lemma btree_values:
  obtains es where "btree f kvs = map (apsnd f) es"
proof -
  have put: "snd ` set m \<subseteq> range f \<Longrightarrow> snd ` set (obj_put k (f v) m) \<subseteq> range f" for k v m
    by (induction k "f v" m rule: obj_put.induct) auto
  have "snd ` set m0 \<subseteq> range f \<Longrightarrow>
      snd ` set (foldl (\<lambda>m kv. obj_put (fst kv) (snd kv) m) m0 (map (apsnd f) xs)) \<subseteq> range f" for m0 xs
    by (induction xs arbitrary: m0) (use put in auto)
  from this[of "[]" kvs] have "snd ` set (btree f kvs) \<subseteq> range f" by (simp add: btree_def)
  then have "btree f kvs = map (apsnd f) (map (\<lambda>e. (fst e, inv f (snd e))) (btree f kvs))"
    by (auto simp: f_inv_into_f subset_iff intro!: map_idI[symmetric])
  then show ?thesis using that by blast
qed

lemma map_of_rev_distinct: "distinct (map fst xs) \<Longrightarrow> map_of (rev xs) = map_of xs"
  by (rule map_of_inject_set[THEN iffD2]) (simp_all add: rev_map[symmetric])

lemma btree_again:
  assumes "btree f kvs = map (apsnd f) es"
  shows "btree f es = btree f kvs"
proof -
  have d: "distinct (map fst es)" using btree_sorted[of f kvs] unfolding assms by (simp add: strict_sorted_iff o_def)
  have "map_of (map (apsnd f) es) k = map_option f (map_of es k)" for k by (induction es) auto
  then have "map_of (btree f es) = map_of (btree f kvs)"
    unfolding btree_map[of f es] assms map_of_rev_distinct[OF d] by (simp add: fun_eq_iff)
  then show ?thesis using sorted_entries_unique[OF btree_sorted btree_sorted] by blast
qed

lemma btree_read:
  assumes "\<And>x. p (f x) = Some x"
  obtains es where "map_of_json p (JObj (btree f kvs)) = Some es" "btree f es = btree f kvs"
proof -
  obtain es where es: "btree f kvs = map (apsnd f) es" by (rule btree_values)
  have "map_of_json p (JObj (btree f kvs)) = Some es"
    unfolding es using assms by (simp add: map_of_json_def map_opt_map apsnd_def map_prod_def split_beta)
  then show ?thesis using that btree_again[OF es] by blast
qed

lemma num_read: "n \<le> mx \<Longrightarrow> uint_of_json mx (num_json n) = Some n"
  by (simp add: uint_of_json_def num_json_def)

lemma need_read: "need_of_json (need_json n) = Some n"
  by (cases n, cases "need_kind n") (simp_all add: need_of_json_def need_json_def req_field_def)

text \<open>A duration that its text gives back, as the whole milliseconds below \<open>2 ^ 53\<close> seconds do.\<close>

definition exact_duration :: "(string \<Rightarrow> f64_secs) \<Rightarrow> duration \<Rightarrow> bool" where
  "exact_duration f64 d \<longleftrightarrow> parse_duration f64 (format_duration d) = DurOk d"

lemma duration_read: "exact_duration f64 d \<Longrightarrow> duration_of_json f64 (duration_json d) = Some d"
  by (simp add: exact_duration_def duration_of_json_def duration_json_def)

lemma expect_read: "wf_expectation e \<Longrightarrow> expect_of_json (JStr (status_canonical e)) = Some e"
  by (simp add: expect_of_json_def status_roundtrip)

lemma not_null: "num_json n \<noteq> JNull" "duration_json d \<noteq> JNull" "need_json m \<noteq> JNull"
  by (simp_all add: num_json_def duration_json_def need_json_def)

section \<open>The request that apply means\<close>

definition opt_all :: "('a \<Rightarrow> bool) \<Rightarrow> 'a option \<Rightarrow> bool" where
  "opt_all P x = (case x of Some v \<Rightarrow> P v | None \<Rightarrow> True)"

lemma opt_all_Some: "opt_all P x \<Longrightarrow> x = Some v \<Longrightarrow> P v" by (simp add: opt_all_def)

text \<open>A configuration whose values the wire can carry: exact durations, numbers of their width,
  canonical status expectations, and no volumes.\<close>

definition sendable :: "(string \<Rightarrow> f64_secs) \<Rightarrow> repo_config \<Rightarrow> bool" where
  "sendable f64 repo \<longleftrightarrow>
     rc_volumes repo = [] \<and> opt_all (\<lambda>p. p \<le> 65535) (rrc_port (rc_routing repo)) \<and>
     opt_all (exact_duration f64) (rh_interval (rc_health repo)) \<and> opt_all (exact_duration f64) (rh_timeout (rc_health repo)) \<and>
     opt_all (exact_duration f64) (rh_start_period (rc_health repo)) \<and>
     opt_all (\<lambda>n. n \<le> 4294967295) (rh_retries (rc_health repo)) \<and>
     opt_all wf_expectation (rh_expect_status (rc_health repo)) \<and>
     opt_all (\<lambda>d. opt_all (exact_duration f64) (rd_drain_timeout d) \<and> opt_all (exact_duration f64) (rd_timeout d)) (rc_deploy repo)"

definition filled_health :: "repo_health_config \<Rightarrow> health_config" where
  "filled_health h =
     \<lparr>hc_path = rh_path h, hc_interval = some_or (rh_interval h) (hc_interval default_health),
      hc_timeout = some_or (rh_timeout h) (hc_timeout default_health),
      hc_retries = some_or (rh_retries h) (hc_retries default_health),
      hc_start_period = some_or (rh_start_period h) (hc_start_period default_health),
      hc_expect_status = rh_expect_status h\<rparr>"

definition filled_deploy :: "repo_deploy_config \<Rightarrow> deploy_config" where
  "filled_deploy d =
     \<lparr>dc_strategy = some_or (rd_strategy d) (dc_strategy default_deploy),
      dc_drain_timeout = some_or (rd_drain_timeout d) (dc_drain_timeout default_deploy), dc_timeout = rd_timeout d\<rparr>"

lemma map_option_if: "(if x \<noteq> None then map_option f x else None) = map_option f x" "(x \<noteq> None \<longrightarrow> P) \<Longrightarrow> (x = None \<longrightarrow> P) \<Longrightarrow> P"
  by auto

lemma jget_put_last [simp]:
  "is_jobj j \<Longrightarrow> jget k j = None \<Longrightarrow> jget k (put_opt k f x j) = map_option f x"
  "is_jobj j \<Longrightarrow> k \<noteq> l \<Longrightarrow> jget l (put_opt k f x j) = jget l j"
  by (auto simp: jget_put_opt)

lemma health_read:
  assumes "sendable f64 repo" "health_payload (rc_health repo) = Some j"
  shows "health_of_json f64 j = Some (filled_health (rc_health repo))"
proof -
  let ?h = "rc_health repo"
  have a: "opt_all (exact_duration f64) (rh_interval ?h)" "opt_all (exact_duration f64) (rh_timeout ?h)"
    "opt_all (exact_duration f64) (rh_start_period ?h)" "opt_all (\<lambda>n. n \<le> 4294967295) (rh_retries ?h)"
    "opt_all wf_expectation (rh_expect_status ?h)" using assms(1) by (simp_all add: sendable_def)
  have j: "j = put_opt ''expect_status'' (\<lambda>e. JStr (status_canonical e)) (rh_expect_status ?h)
      (put_opt ''start_period'' duration_json (rh_start_period ?h) (put_opt ''retries'' num_json (rh_retries ?h)
      (put_opt ''timeout'' duration_json (rh_timeout ?h) (put_opt ''interval'' duration_json (rh_interval ?h)
      (put_opt ''path'' JStr (rh_path ?h) (JObj []))))))"
    using assms(2) by (simp add: health_payload_def split: if_splits)
  have jo: "is_jobj j" unfolding j by simp
  have g: "jget ''path'' j = map_option JStr (rh_path ?h)" "jget ''interval'' j = map_option duration_json (rh_interval ?h)"
    "jget ''timeout'' j = map_option duration_json (rh_timeout ?h)" "jget ''retries'' j = map_option num_json (rh_retries ?h)"
    "jget ''start_period'' j = map_option duration_json (rh_start_period ?h)"
    "jget ''expect_status'' j = map_option (\<lambda>e. JStr (status_canonical e)) (rh_expect_status ?h)"
    unfolding j by simp_all
  have f: "opt_field ''path'' jstr j = Some (rh_path ?h)"
    "opt_field ''expect_status'' expect_of_json j = Some (rh_expect_status ?h)"
    "field_or ''interval'' d (duration_of_json f64) j = Some (some_or (rh_interval ?h) d)"
    "field_or ''timeout'' d (duration_of_json f64) j = Some (some_or (rh_timeout ?h) d)"
    "field_or ''start_period'' d (duration_of_json f64) j = Some (some_or (rh_start_period ?h) d)"
    "field_or ''retries'' n (uint_of_json 4294967295) j = Some (some_or (rh_retries ?h) n)" for d n
    by (rule read_put(2)[OF g(1)] read_put(2)[OF g(6)] read_put(1)[OF g(2)] read_put(1)[OF g(3)] read_put(1)[OF g(5)] read_put(1)[OF g(4)];
        simp add: opt_all_Some[OF a(5)] opt_all_Some[OF a(1)] opt_all_Some[OF a(2)] opt_all_Some[OF a(3)] opt_all_Some[OF a(4)]
          expect_read duration_read num_read)+
  show ?thesis using jo by (simp add: health_of_json_def f filled_health_def)
qed

lemma deploy_read:
  assumes "opt_all (exact_duration f64) (rd_drain_timeout d)" "opt_all (exact_duration f64) (rd_timeout d)"
  shows "deploy_of_json f64 (deploy_payload d) = Some (filled_deploy d)"
proof -
  let ?j = "deploy_payload d"
  have g: "jget ''strategy'' ?j = map_option JStr (rd_strategy d)"
    "jget ''drain_timeout'' ?j = map_option duration_json (rd_drain_timeout d)"
    "jget ''timeout'' ?j = map_option duration_json (rd_timeout d)"
    by (simp_all add: deploy_payload_def)
  have f: "field_or ''strategy'' x jstr ?j = Some (some_or (rd_strategy d) x)"
    "field_or ''drain_timeout'' y (duration_of_json f64) ?j = Some (some_or (rd_drain_timeout d) y)"
    "opt_field ''timeout'' (duration_of_json f64) ?j = Some (rd_timeout d)" for x y
    by (rule read_put(1)[OF g(1)] read_put(1)[OF g(2)] read_put(2)[OF g(3)];
        simp add: opt_all_Some[OF assms(1)] opt_all_Some[OF assms(2)] duration_read not_null)+
  show ?thesis by (simp add: deploy_of_json_def f filled_deploy_def) (simp add: deploy_payload_def)
qed

lemma resources_read: "resources_of_json (resources_payload r) = Some r"
proof -
  have g: "jget ''memory'' (resources_payload r) = map_option JStr (rs_memory r)"
    "jget ''cpus'' (resources_payload r) = map_option JStr (rs_cpus r)"
    by (simp_all add: resources_payload_def)
  have f: "opt_field ''memory'' jstr (resources_payload r) = Some (rs_memory r)"
    "opt_field ''cpus'' jstr (resources_payload r) = Some (rs_cpus r)"
    by (rule read_put(2)[OF g(1)] read_put(2)[OF g(2)]; simp)+
  show ?thesis by (simp add: resources_of_json_def f) (simp add: resources_payload_def)
qed

lemma payload_fields:
  "is_jobj (build_update_payload repo)"
  "jget ''needs'' (build_update_payload repo) = Some (JObj (btree need_json (rc_needs repo)))"
  "jget ''volumes'' (build_update_payload repo) = Some (JArr (map volume_payload (rc_volumes repo)))"
  "jget ''env'' (build_update_payload repo) = Some (JObj (btree JStr (rc_env repo)))"
  "jget ''deploy'' (build_update_payload repo) = map_option deploy_payload (rc_deploy repo)"
  "jget ''resources'' (build_update_payload repo) = map_option resources_payload (rc_default_resources repo)"
  "jget ''health'' (build_update_payload repo) = map_option id (health_payload (rc_health repo))"
  "jget ''port'' (build_update_payload repo) = map_option num_json (rrc_port (rc_routing repo))"
  "jget ''domain'' (build_update_payload repo) = map_option JStr (rrc_domain (rc_routing repo))"
  "jget ''image'' (build_update_payload repo) = map_option JStr (ra_image (rc_app repo))"
  "jget ''secret'' (build_update_payload repo) = None" "jget ''network'' (build_update_payload repo) = None"
  "jget ''preview'' (build_update_payload repo) = None" "jget ''routes'' (build_update_payload repo) = None"
  "jget ''tls'' (build_update_payload repo) = None"
  by (simp_all add: build_update_payload_def shared_payload_def jget_jput)

text \<open>The request, up to the order of the environment and the needs.\<close>

lemma payload_read:
  assumes "sendable f64 repo"
  obtains es ns where
    "update_request_of f64 nw pv (build_update_payload repo) = Some
       \<lparr>up_image = ra_image (rc_app repo), up_domain = rrc_domain (rc_routing repo), up_port = rrc_port (rc_routing repo),
        up_secret = None, up_env = Some es, up_needs = Some ns, up_resources = rc_default_resources repo,
        up_network = None,
        up_health = (if health_payload (rc_health repo) = None then None else Some (filled_health (rc_health repo))),
        up_deploy = map_option filled_deploy (rc_deploy repo), up_preview = None, up_volumes = Some [], up_routes = None,
        up_tls = None\<rparr>"
    "btree JStr es = btree JStr (rc_env repo)" "btree need_json ns = btree need_json (rc_needs repo)"
proof -
  let ?j = "build_update_payload repo"
  note g = payload_fields[of repo]
  obtain es where es: "map_of_json jstr (JObj (btree JStr (rc_env repo))) = Some es" "btree JStr es = btree JStr (rc_env repo)"
    by (rule btree_read[of jstr JStr]) auto
  obtain ns where ns: "map_of_json need_of_json (JObj (btree need_json (rc_needs repo))) = Some ns"
    "btree need_json ns = btree need_json (rc_needs repo)"
    by (rule btree_read[of need_of_json need_json]) (simp_all add: need_read)
  have s: "rc_volumes repo = []" "opt_all (\<lambda>p. p \<le> 65535) (rrc_port (rc_routing repo))"
    "opt_all (\<lambda>d. opt_all (exact_duration f64) (rd_drain_timeout d) \<and> opt_all (exact_duration f64) (rd_timeout d)) (rc_deploy repo)"
    using assms by (simp_all add: sendable_def)
  have none: "opt_field ''secret'' p1 ?j = Some None" "opt_field ''network'' p2 ?j = Some None"
    "opt_field ''preview'' p3 ?j = Some None" "opt_field ''routes'' p4 ?j = Some None" "opt_field ''tls'' p5 ?j = Some None"
    for p1 :: "json \<Rightarrow> string option" and p2 :: "json \<Rightarrow> string option" and p3 :: "json \<Rightarrow> app_preview_config option"
      and p4 :: "json \<Rightarrow> route_entry list option" and p5 :: "json \<Rightarrow> tls_strategy option"
    using g by (simp_all add: opt_field_def)
  have full: "opt_field ''needs'' (map_of_json need_of_json) ?j = Some (Some ns)"
    "opt_field ''env'' (map_of_json jstr) ?j = Some (Some es)"
    "opt_field ''volumes'' (list_of_json volume_of_json) ?j = Some (Some [])"
    using g es(1) ns(1) s(1) by (simp_all add: opt_field_def list_of_json_def)
  have plain: "opt_field ''image'' jstr ?j = Some (ra_image (rc_app repo))"
    "opt_field ''domain'' jstr ?j = Some (rrc_domain (rc_routing repo))"
    by (rule read_put(2)[OF g(10)] read_put(2)[OF g(9)]; simp)+
  have port: "opt_field ''port'' (uint_of_json 65535) ?j = Some (rrc_port (rc_routing repo))"
    by (rule read_put(2)[OF g(8)]) (simp_all add: num_read opt_all_Some[OF s(2)] not_null)
  have res: "opt_field ''resources'' resources_of_json ?j = Some (rc_default_resources repo)"
    using g(6) resources_read
    by (cases "rc_default_resources repo") (auto simp: opt_field_def resources_payload_def put_opt_def split: option.splits)
  have jn: "is_jobj x \<Longrightarrow> x \<noteq> JNull" for x by (auto simp: is_jobj_def)
  have dep: "opt_field ''deploy'' (deploy_of_json f64) ?j = Some (map_option filled_deploy (rc_deploy repo))"
    using g(5) s(3) deploy_read jn[of "deploy_payload d" for d]
    by (cases "rc_deploy repo") (auto simp: opt_field_def opt_all_def deploy_payload_def)
  have hea: "opt_field ''health'' (health_of_json f64) ?j =
      Some (if health_payload (rc_health repo) = None then None else Some (filled_health (rc_health repo)))"
  proof (cases "health_payload (rc_health repo)")
    case None
    then show ?thesis using g(7) by (simp add: opt_field_def)
  next
    case (Some x)
    then have "x \<noteq> JNull" by (auto intro!: jn simp: health_payload_def split: if_splits)
    then show ?thesis using g(7) Some health_read[OF assms Some] by (simp add: opt_field_def)
  qed
  show ?thesis
    by (rule that[OF _ es(2) ns(2)]) (simp add: update_request_of_def g(1) none full plain port res dep hea)
qed

section \<open>Convergence\<close>

definition applied_request :: "repo_config \<Rightarrow> env_table \<Rightarrow> (string \<times> need) list \<Rightarrow> update_app_request" where
  "applied_request repo es ns =
     \<lparr>up_image = ra_image (rc_app repo), up_domain = rrc_domain (rc_routing repo), up_port = rrc_port (rc_routing repo),
      up_secret = None, up_env = Some es, up_needs = Some ns, up_resources = rc_default_resources repo,
      up_network = None,
      up_health = (if health_payload (rc_health repo) = None then None else Some (filled_health (rc_health repo))),
      up_deploy = map_option filled_deploy (rc_deploy repo), up_preview = None, up_volumes = Some [], up_routes = None,
      up_tls = None\<rparr>"

lemma managed_eq: "(\<And>v. x = Some v \<Longrightarrow> y = Some v) \<Longrightarrow> managed x y = x"
  by (cases x) (simp_all add: managed_def)

lemma health_payload_None:
  "health_payload h = None \<longleftrightarrow> rh_path h = None \<and> rh_interval h = None \<and> rh_timeout h = None \<and> rh_retries h = None \<and>
     rh_start_period h = None \<and> rh_expect_status h = None"
  by (simp add: health_payload_def)

lemma applied_health:
  assumes "up_health r = (if health_payload h = None then None else Some (filled_health h))"
    and H: "H = some_or (up_health r) H0"
  shows "rh_path h = Some a \<Longrightarrow> hc_path H = Some a" "rh_interval h = Some d \<Longrightarrow> hc_interval H = d"
    "rh_timeout h = Some d \<Longrightarrow> hc_timeout H = d" "rh_retries h = Some n \<Longrightarrow> hc_retries H = n"
    "rh_start_period h = Some d \<Longrightarrow> hc_start_period H = d" "rh_expect_status h = Some e \<Longrightarrow> hc_expect_status H = Some e"
  unfolding H assms(1) by (auto simp: some_or_def filled_health_def health_payload_None)

lemma applied_pushable:
  assumes "rc_volumes repo = []" "rrc_domain (rc_routing repo) \<noteq> Some []" "rrc_port (rc_routing repo) \<noteq> Some 0"
    and "btree JStr es = btree JStr (rc_env repo)" "btree need_json ns = btree need_json (rc_needs repo)"
  shows "normalize_server_to_repo (repo_pushable s64 repo)
      (server_pushable s64 (app_response_of (updated_config (applied_request repo es ns) cfg))) =
    (repo_pushable s64 repo)\<lparr>pu_routes := map (\<lambda>x. (re_hostname x, re_port x)) (rt_routes (ac_routing cfg))\<rparr>"
proof -
  let ?r = "applied_request repo es ns"
  have h: "up_health ?r = (if health_payload (rc_health repo) = None then None else Some (filled_health (rc_health repo)))"
    by (simp add: applied_request_def)
  note ah = applied_health[OF h refl, of _ "ac_health cfg"]
  have health: "managed (rh_path (rc_health repo)) (hc_path (some_or (up_health ?r) (ac_health cfg))) = rh_path (rc_health repo)"
    "managed (map_option s64 (rh_interval (rc_health repo))) (Some (s64 (hc_interval (some_or (up_health ?r) (ac_health cfg)))))
       = map_option s64 (rh_interval (rc_health repo))"
    "managed (map_option s64 (rh_timeout (rc_health repo))) (Some (s64 (hc_timeout (some_or (up_health ?r) (ac_health cfg)))))
       = map_option s64 (rh_timeout (rc_health repo))"
    "managed (rh_retries (rc_health repo)) (Some (hc_retries (some_or (up_health ?r) (ac_health cfg)))) = rh_retries (rc_health repo)"
    "managed (map_option s64 (rh_start_period (rc_health repo))) (Some (s64 (hc_start_period (some_or (up_health ?r) (ac_health cfg)))))
       = map_option s64 (rh_start_period (rc_health repo))"
    "managed (map_option status_canonical (rh_expect_status (rc_health repo)))
       (map_option status_canonical (hc_expect_status (some_or (up_health ?r) (ac_health cfg))))
       = map_option status_canonical (rh_expect_status (rc_health repo))"
    by (rule managed_eq; auto dest: ah)+
  have res: "managed (Option.bind (rc_default_resources repo) rs_memory) (rs_memory (some_or (up_resources ?r) (ac_resources cfg)))
       = Option.bind (rc_default_resources repo) rs_memory"
    "managed (Option.bind (rc_default_resources repo) rs_cpus) (rs_cpus (some_or (up_resources ?r) (ac_resources cfg)))
       = Option.bind (rc_default_resources repo) rs_cpus"
    by (rule managed_eq; auto simp: applied_request_def some_or_def split: option.splits)+
  have dep: "managed (Option.bind (rc_deploy repo) rd_strategy) (Some (dc_strategy (some_or (up_deploy ?r) (ac_deploy cfg))))
       = Option.bind (rc_deploy repo) rd_strategy"
    "managed (map_option s64 (Option.bind (rc_deploy repo) rd_drain_timeout))
       (Some (s64 (dc_drain_timeout (some_or (up_deploy ?r) (ac_deploy cfg)))))
       = map_option s64 (Option.bind (rc_deploy repo) rd_drain_timeout)"
    "managed (map_option s64 (Option.bind (rc_deploy repo) rd_timeout))
       (map_option s64 (dc_timeout (some_or (up_deploy ?r) (ac_deploy cfg))))
       = map_option s64 (Option.bind (rc_deploy repo) rd_timeout)"
    by (rule managed_eq; auto simp: applied_request_def some_or_def filled_deploy_def split: option.splits)+
  have image_kept: "managed (ra_image (rc_app repo)) (Some (some_or (up_image ?r) i)) = ra_image (rc_app repo)" for i
    by (rule managed_eq) (simp add: some_or_def applied_request_def)
  have domain: "managed (rrc_domain (rc_routing repo))
      (if (case case up_domain ?r of None \<Rightarrow> od | Some x \<Rightarrow> Some x of None \<Rightarrow> [] | Some d \<Rightarrow> d) = [] then None
       else Some (case case up_domain ?r of None \<Rightarrow> od | Some x \<Rightarrow> Some x of None \<Rightarrow> [] | Some d \<Rightarrow> d)) =
      rrc_domain (rc_routing repo)" for od
    using assms(2) by (intro managed_eq) (auto simp: applied_request_def)
  have port: "managed (rrc_port (rc_routing repo))
      (if (case case up_port ?r of None \<Rightarrow> op | Some x \<Rightarrow> Some x of None \<Rightarrow> 0 | Some d \<Rightarrow> d) = 0 then None
       else Some (case case up_port ?r of None \<Rightarrow> op | Some x \<Rightarrow> Some x of None \<Rightarrow> 0 | Some d \<Rightarrow> d)) =
      rrc_port (rc_routing repo)" for op
    using assms(3) by (intro managed_eq) (auto simp: applied_request_def)
  have whole: "some_or (up_env ?r) e = es" "some_or (up_needs ?r) n = ns" "some_or (up_volumes ?r) v = []"
    "some_or (up_routes ?r) w = w" for e n v w
    by (simp_all add: applied_request_def some_or_def)
  show ?thesis
    by (rule pushable.equality)
      (simp_all add: normalize_server_to_repo_def server_pushable_def repo_pushable_def app_response_of_def
        updated_config_def health res dep image_kept domain port whole assms(1,4,5) split del: if_split cong del: if_weak_cong)
qed

text \<open>Equal documents have equal routes.\<close>

lemma jobj_btree: "jobj kvs = JObj (btree id kvs)"
  by (simp add: jobj_def btree_def)

lemma jget_sorted: "jget k (sort_value (jobj kvs)) = map_option sort_value (map_of (rev kvs) k)"
proof -
  have d: "distinct (map fst (btree id kvs))" using btree_sorted[of id kvs] strict_sorted_iff by blast
  have "map_of (map (\<lambda>(j, v). (j, sort_value v)) m) k = map_option sort_value (map_of m k)" for m
    by (induction m) auto
  moreover have "distinct (map fst (map (\<lambda>(j, v). (j, sort_value v)) (btree id kvs)))"
    using d by (simp add: o_def split_beta)
  ultimately show ?thesis
    by (simp add: jobj_btree[of kvs] jget_jobj map_of_rev_distinct btree_map option.map_id)
qed

lemma routes_seen: "jget ''routes'' (sort_value (pushable_json p)) =
    Some (JArr (map (\<lambda>x. sort_value (jobj [(''hostname'', JStr (fst x)), (''port'', opt_json num_json (snd x))])) (pu_routes p)))"
  by (simp add: pushable_json_def jget_sorted o_def split_beta)

lemma same_document:
  assumes "pu_routes p = []"
  shows "sort_value (pushable_json (p\<lparr>pu_routes := rs\<rparr>)) = sort_value (pushable_json p) \<longleftrightarrow> rs = []"
proof
  assume "sort_value (pushable_json (p\<lparr>pu_routes := rs\<rparr>)) = sort_value (pushable_json p)"
  then show "rs = []" using routes_seen[of "p\<lparr>pu_routes := rs\<rparr>"] routes_seen[of p] assms by simp
next
  assume "rs = []"
  then have "p\<lparr>pu_routes := rs\<rparr> = p" using assms by (cases p) simp
  then show "sort_value (pushable_json (p\<lparr>pu_routes := rs\<rparr>)) = sort_value (pushable_json p)" by simp
qed

text \<open>C7. \<open>slip apply\<close> of a repository that can be sent converges exactly where the server has no routes of its own.
  A repository can be sent when it declares no volumes, its durations are read back exactly, its ports and retries
  fit their types and its expected statuses are canonical; besides, its domain is not empty and its port not zero.
  Then the payload of the repository configuration is read back as a request, and comparing the configuration it produces with the repository again reports
  a change if and only if the application has route entries.  The JSON patch library is used through the one fact that its
  result is empty exactly when the two documents are equal.\<close>

theorem apply_converges:
  assumes "sendable f64 repo" "rrc_domain (rc_routing repo) \<noteq> Some []" "rrc_port (rc_routing repo) \<noteq> Some 0"
    and "\<And>a b. diff a b = [] \<longleftrightarrow> a = b"
  shows "\<exists>req. update_request_of f64 nw pv (build_update_payload repo) = Some req \<and>
    (ad_changed (compute_diff s64 diff repo (app_response_of (updated_config req cfg))) \<longleftrightarrow> rt_routes (ac_routing cfg) \<noteq> [])"
proof -
  obtain es ns where r: "update_request_of f64 nw pv (build_update_payload repo) = Some (applied_request repo es ns)"
    "btree JStr es = btree JStr (rc_env repo)" "btree need_json ns = btree need_json (rc_needs repo)"
    using payload_read[OF assms(1), of nw pv] unfolding applied_request_def by blast
  have v: "rc_volumes repo = []" using assms(1) by (simp add: sendable_def)
  have n: "pu_routes (repo_pushable s64 repo) = []" by (simp add: repo_pushable_def)
  note e = applied_pushable[OF v assms(2,3) r(2,3), of s64 cfg]
  show ?thesis
    by (rule exI[of _ "applied_request repo es ns"])
      (simp add: r(1) compute_diff_def Let_def e assms(4) same_document[OF n])
qed

text \<open>C8. A repository with volumes cannot be applied: the payload gives each volume its mount path only, and the
  update request has no volume without its host path, so the whole request is not read.\<close>

theorem volumes_rejected:
  assumes "rc_volumes repo \<noteq> []"
  shows "update_request_of f64 nw pv (build_update_payload repo) = None"
proof -
  have "volume_of_json (volume_payload v) = None" for v
    by (simp add: volume_of_json_def volume_payload_def req_field_def jget_jobj)
  then have "opt_field ''volumes'' (list_of_json volume_of_json) (build_update_payload repo) = None"
    using assms by (cases "rc_volumes repo") (simp_all add: opt_field_def payload_fields list_of_json_def)
  then show ?thesis by (simp add: update_request_of_def payload_fields(1) split: bind_split)
qed

text \<open>A repository that sets a health interval of 500ms, against a server with and without a route.\<close>

definition steady_repo :: repo_config where
  "steady_repo = sample_repo\<lparr>rc_volumes := [], rc_health := (rc_health sample_repo)\<lparr>rh_interval := Some 500000000\<rparr>\<rparr>"

definition routed_app :: app_config where
  "routed_app = sample_server_app\<lparr>ac_routing := (ac_routing sample_server_app)
     \<lparr>rt_routes := [\<lparr>re_hostname = ''a.example.org'', re_port = None, re_tls = None\<rparr>]\<rparr>\<rparr>"

lemma steady_sendable: "sendable f64 steady_repo" "rrc_domain (rc_routing steady_repo) \<noteq> Some []"
  "rrc_port (rc_routing steady_repo) \<noteq> Some 0"
proof -
  have "exact_duration f64 500000000"
  proof -
    have "format_duration 500000000 = ''500ms''" by code_simp
    moreover have "parse_duration f64 ''500ms'' = DurOk 500000000"
    proof -
      have "strip_suffix ''ms'' (trim ''500ms'') = Some ''500''" "parse_uint u64_max (trim ''500'') = Some 500"
        by code_simp+
      then show ?thesis by (simp add: parse_duration_def millis_def)
    qed
    ultimately show ?thesis by (simp add: exact_duration_def)
  qed
  then show "sendable f64 steady_repo" by (simp add: sendable_def steady_repo_def sample_repo_def opt_all_def)
qed (simp_all add: steady_repo_def sample_repo_def)

lemma apply_converges_witness:
  "(\<exists>req. update_request_of (\<lambda>_. F64Invalid) (\<lambda>_. None) (\<lambda>_. None) (build_update_payload steady_repo) = Some req \<and>
     \<not> ad_changed (compute_diff show_nat (\<lambda>a b. if a = b then [] else [PatchOther []]) steady_repo
       (app_response_of (updated_config req sample_server_app)))) \<and>
   (\<exists>req. update_request_of (\<lambda>_. F64Invalid) (\<lambda>_. None) (\<lambda>_. None) (build_update_payload steady_repo) = Some req \<and>
     ad_changed (compute_diff show_nat (\<lambda>a b. if a = b then [] else [PatchOther []]) steady_repo
       (app_response_of (updated_config req routed_app))))"
proof -
  have "rt_routes (ac_routing sample_server_app) = []" "rt_routes (ac_routing routed_app) \<noteq> []"
    by (simp_all add: sample_server_app_def routed_app_def)
  moreover note apply_converges[OF steady_sendable, of "\<lambda>a b. if a = b then [] else [PatchOther []]"
      "\<lambda>_. F64Invalid" "\<lambda>_. None" "\<lambda>_. None" show_nat sample_server_app]
    apply_converges[OF steady_sendable, of "\<lambda>a b. if a = b then [] else [PatchOther []]"
      "\<lambda>_. F64Invalid" "\<lambda>_. None" "\<lambda>_. None" show_nat routed_app]
  ultimately show ?thesis by simp
qed

lemma volumes_rejected_witness:
  "update_request_of (\<lambda>_. F64Invalid) (\<lambda>_. None) (\<lambda>_. None) (build_update_payload sample_repo) = None"
  by (rule volumes_rejected) (simp add: sample_repo_def)

end
