(* ===== verification/Postgres.thy ===== *)
theory Postgres
  imports ServiceController DeployTypes
begin

text \<open>
  \<open>services/postgres.rs\<close> and the service part of \<open>runtime.rs\<close>: the PostgreSQL provider.  The container
  runtime, the service storage and the secret bundle are operations of \<open>pg_env\<close> on a world of type \<open>'w\<close>;
  an operation that takes time returns the world it leaves.  A \<open>BTreeMap\<close> is the list of its entries in
  key order.  \<open>to_lowercase\<close> is modelled on ASCII letters.
\<close>

section \<open>Service containers\<close>

record service_mount =
  mt_source :: string
  mt_dest :: string
  mt_read_only :: bool

record service_healthcheck =
  hk_test :: "string list"
  hk_interval :: int
  hk_timeout :: int
  hk_retries :: int
  hk_start :: int

record service_limits =
  sl_memory :: "int option"
  sl_cpus :: "int option"
  sl_pids :: "int option"

record service_security =
  sy_read_only_rootfs :: bool
  sy_tmpfs :: "(string \<times> string) list"
  sy_cap_add :: "string list"

record service_container_spec =
  kp_name :: string
  kp_hostname :: string
  kp_image :: pinned_image_ref
  kp_network :: string
  kp_aliases :: "string list"
  kp_mounts :: "service_mount list"
  kp_env :: "(string \<times> string) list"
  kp_labels :: "(string \<times> string) list"
  kp_unless_stopped :: bool
  kp_health :: service_healthcheck
  kp_limits :: service_limits
  kp_security :: service_security

datatype spec_fault =
    NameLength nat
  | NamePrefix
  | NoNetwork
  | NoAlias
  | SecretEnv string
  | NoHealthTest
  | HealthTestForm string
  | HealthTestShort

definition secret_env_key :: "string \<Rightarrow> bool" where
  "secret_env_key key \<longleftrightarrow>
     (let lower = lower_word key in
      \<not> ends_with ''_file'' lower \<and>
      (sublist ''password'' lower \<or> sublist ''secret'' lower \<or> sublist ''token'' lower \<or> sublist ''pgpassword'' lower))"

definition container_spec_new ::
  "string \<Rightarrow> string \<Rightarrow> pinned_image_ref \<Rightarrow> string \<Rightarrow> string list \<Rightarrow> service_mount list \<Rightarrow> (string \<times> string) list \<Rightarrow>
     (string \<times> string) list \<Rightarrow> service_healthcheck \<Rightarrow> service_limits \<Rightarrow> service_security \<Rightarrow> spec_fault + service_container_spec" where
  "container_spec_new name hostname img network aliases mounts env labels hc limits sec =
     (if name = [] \<or> length name > 256 then Inl (NameLength (length name))
      else if \<not> prefix ''slip-service-'' name then Inl NamePrefix
      else if network = [] then Inl NoNetwork
      else if aliases = [] then Inl NoAlias
      else case find secret_env_key (map fst env) of
        Some key \<Rightarrow> Inl (SecretEnv key)
      | None \<Rightarrow>
          (case hk_test hc of
             [] \<Rightarrow> Inl NoHealthTest
           | t # ts \<Rightarrow>
               if t \<noteq> ''CMD'' then Inl (HealthTestForm t)
               else if ts = [] then Inl HealthTestShort
               else Inr \<lparr>kp_name = name, kp_hostname = hostname, kp_image = img, kp_network = network,
                         kp_aliases = aliases, kp_mounts = mounts, kp_env = env, kp_labels = labels,
                         kp_unless_stopped = True, kp_health = hc, kp_limits = limits, kp_security = sec\<rparr>))"

record service_inspect =
  in_backend :: string
  in_id :: string
  in_labels :: "(string \<times> string) list"
  in_digests :: "string list"
  in_mounts :: "(string \<times> string \<times> bool) list"
  in_networks :: "string list"
  in_network :: string
  in_aliases :: "string list"
  in_restart :: string
  in_health :: string
  in_ports :: "(nat \<times> string option) list"
  in_running :: bool
  in_privileged :: bool
  in_no_new_privileges :: bool
  in_cap_drop :: "string list"
  in_cap_add :: "string list"

section \<open>The environment of the provider\<close>

record secret_mounts =
  am_generation :: string
  am_raw_password :: string
  am_pgpass :: string

datatype read_result = ReadText string | ReadMissing | ReadFailed

text \<open>\<open>px_polls\<close> is the number of polls a readiness loop starts before its timeout, in seconds; the
  loop sleeps two seconds between them.  \<open>px_read\<close> gives the text of a file, decoded.\<close>

record 'w pg_env =
  px_installation :: string
  px_network :: string
  px_services_root :: string
  px_storage :: bool
  px_rootful :: "'w \<Rightarrow> bool"
  px_mounts :: "'w \<Rightarrow> instance_id \<Rightarrow> string + secret_mounts"
  px_create_dir :: "'w \<Rightarrow> string \<Rightarrow> 'w \<times> dir_result"
  px_read :: "'w \<Rightarrow> string \<Rightarrow> read_result"
  px_write_new :: "'w \<Rightarrow> string \<Rightarrow> string \<Rightarrow> 'w \<times> bool"
  px_rename :: "'w \<Rightarrow> string \<Rightarrow> string \<Rightarrow> 'w \<times> bool"
  px_unlink :: "'w \<Rightarrow> string \<Rightarrow> 'w"
  px_fsync :: "'w \<Rightarrow> string \<Rightarrow> 'w \<times> bool"
  px_pgdata :: "'w \<Rightarrow> string \<Rightarrow> string \<Rightarrow> 'w \<times> (string + string)"
  px_revalidate :: "'w \<Rightarrow> string \<Rightarrow> string option"
  px_pull :: "'w \<Rightarrow> string \<Rightarrow> string \<Rightarrow> 'w \<times> bool"
  px_create :: "'w \<Rightarrow> service_container_spec \<Rightarrow> 'w \<times> string option"
  px_inspect :: "'w \<Rightarrow> string \<Rightarrow> 'w \<times> (string + service_inspect)"
  px_probe :: "'w \<Rightarrow> string \<Rightarrow> string list \<Rightarrow> (string \<times> string) list \<Rightarrow> 'w \<times> bool"
  px_stdin :: "'w \<Rightarrow> string \<Rightarrow> string list \<Rightarrow> (string \<times> string) list \<Rightarrow> string \<Rightarrow> 'w \<times> bool"
  px_start :: "'w \<Rightarrow> string \<Rightarrow> 'w \<times> bool"
  px_stop_remove :: "'w \<Rightarrow> string \<Rightarrow> 'w \<times> bool"
  px_polls :: "'w \<Rightarrow> nat \<Rightarrow> nat"
  px_sha :: "string \<Rightarrow> string"
  px_print :: "json \<Rightarrow> string"
  px_parse :: "string \<Rightarrow> string + json"

definition then_w :: "'w \<times> ('e + 'a) \<Rightarrow> ('w \<Rightarrow> 'a \<Rightarrow> 'w \<times> ('e + 'b)) \<Rightarrow> 'w \<times> ('e + 'b)" where
  "then_w m k = (case m of (w, Inl e) \<Rightarrow> (w, Inl e) | (w, Inr x) \<Rightarrow> k w x)"

text \<open>A request that succeeds or not, with the error of its failure.\<close>

definition or_fail :: "'w \<times> bool \<Rightarrow> 'e \<Rightarrow> 'w \<times> ('e + unit)" where
  "or_fail m e = (fst m, if snd m then Inr () else Inl e)"

section \<open>Capabilities and labels\<close>

definition pg_cap_add :: "string list" where
  "pg_cap_add = [''CHOWN'', ''DAC_OVERRIDE'', ''SETUID'', ''SETGID'']"

definition pg_healthcheck_test :: "string list" where
  "pg_healthcheck_test = [''CMD'', ''pg_isready'', ''-h'', ''127.0.0.1'', ''-U'', ''postgres'', ''-d'', ''postgres'']"

definition pgdata_subdir :: string where "pgdata_subdir = ''pgdata''"

definition normalize_cap_name :: "string \<Rightarrow> string option" where
  "normalize_cap_name s =
     (let upper = ascii_uppercase s;
          stripped = (case strip_prefix ''CAP_'' upper of Some r \<Rightarrow> r | None \<Rightarrow> upper)
      in if stripped = [] then None else Some stripped)"

datatype cap_fault = CapEmpty string | CapUnknown string | CapDuplicate string

text \<open>The loop of both normalisers: \<open>approved\<close> is the test for a known capability.\<close>

fun collect_caps :: "(string \<Rightarrow> bool) \<Rightarrow> string list \<Rightarrow> string list \<Rightarrow> cap_fault + string list" where
  "collect_caps approved seen [] = Inr (sort seen)"
| "collect_caps approved seen (c # cs) =
     (case normalize_cap_name c of
        None \<Rightarrow> Inl (CapEmpty c)
      | Some n \<Rightarrow>
          if \<not> approved n then Inl (CapUnknown n)
          else if n \<in> set seen then Inl (CapDuplicate n)
          else collect_caps approved (seen @ [n]) cs)"

definition normalize_cap_set :: "string list \<Rightarrow> cap_fault + string list" where
  "normalize_cap_set caps = collect_caps (\<lambda>n. n \<in> set pg_cap_add) [] caps"

definition normalize_cap_drop_set :: "string list \<Rightarrow> cap_fault + string list" where
  "normalize_cap_drop_set caps = collect_caps (\<lambda>_. True) [] caps"

fun cap_fault_text :: "cap_fault \<Rightarrow> string" where
  "cap_fault_text (CapEmpty c) = ''empty capability name after normalization: '' @ [CHR 0x27] @ c @ [CHR 0x27]"
| "cap_fault_text (CapUnknown n) = ''unknown or unapproved capability: '' @ [CHR 0x27] @ n @ [CHR 0x27]"
| "cap_fault_text (CapDuplicate n) = ''duplicate capability: '' @ [CHR 0x27] @ n @ [CHR 0x27]"

fun cap_drop_fault_text :: "cap_fault \<Rightarrow> string" where
  "cap_drop_fault_text (CapEmpty c) = ''empty capability name in cap_drop: '' @ [CHR 0x27] @ c @ [CHR 0x27]"
| "cap_drop_fault_text (CapUnknown n) = n"
| "cap_drop_fault_text (CapDuplicate n) = ''duplicate in cap_drop: '' @ [CHR 0x27] @ n @ [CHR 0x27]"

definition ownership_labels :: "string \<Rightarrow> string \<Rightarrow> string \<Rightarrow> string \<Rightarrow> string \<Rightarrow> (string \<times> string) list" where
  "ownership_labels installation inst name spec_hash generation =
     [(''slip.installation'', installation), (''slip.label-schema'', ''1''), (''slip.managed'', ''true''),
      (''slip.service.instance'', inst), (''slip.service.name'', name), (''slip.service.provider'', ''postgres''),
      (''slip.service.secret-generation'', generation), (''slip.service.spec-hash'', spec_hash)]"

section \<open>The bootstrap marker\<close>

datatype marker_phase = MkInitializing | MkComplete

fun marker_phase_str :: "marker_phase \<Rightarrow> string" where
  "marker_phase_str MkInitializing = ''initializing''"
| "marker_phase_str MkComplete = ''complete''"

definition marker_phase_parse :: "string \<Rightarrow> marker_phase option" where
  "marker_phase_parse s =
     (if s = ''initializing'' then Some MkInitializing else if s = ''complete'' then Some MkComplete else None)"

record bootstrap_marker =
  bm_installation :: string
  bm_instance :: string
  bm_provider :: string
  bm_data_major :: int
  bm_layout :: string
  bm_generation :: string
  bm_phase :: marker_phase

definition i64_json :: "int \<Rightarrow> json" where
  "i64_json n = JNum (if n < 0 then CHR ''-'' # show_nat (nat (- n)) else show_nat (nat n))"

definition json_i64 :: "json \<Rightarrow> int option" where
  "json_i64 j = (case j of JNum s \<Rightarrow> if s = ''-0'' then None else parse_i64 s | _ \<Rightarrow> None)"

definition marker_json :: "bootstrap_marker \<Rightarrow> json" where
  "marker_json m =
     jobj [(''installation_id'', JStr (bm_installation m)), (''instance_id'', JStr (bm_instance m)),
       (''provider'', JStr (bm_provider m)), (''data_major'', i64_json (bm_data_major m)),
       (''layout'', JStr (bm_layout m)), (''generation'', JStr (bm_generation m)),
       (''phase'', JStr (marker_phase_str (bm_phase m)))]"

definition marker_field :: "json \<Rightarrow> string \<Rightarrow> (json \<Rightarrow> 'a option) \<Rightarrow> service_error + 'a" where
  "marker_field v k p = ok_or (Option.bind (jget k v) p) (SvInternal (ProviderInternal (''marker missing '' @ k)))"

definition marker_of_json :: "json \<Rightarrow> service_error + bootstrap_marker" where
  "marker_of_json v =
     and_then (marker_field v ''installation_id'' jstr) (\<lambda>installation.
     and_then (marker_field v ''instance_id'' jstr) (\<lambda>inst.
     and_then (marker_field v ''provider'' jstr) (\<lambda>provider.
     and_then (marker_field v ''data_major'' json_i64) (\<lambda>major.
     and_then (marker_field v ''layout'' jstr) (\<lambda>layout.
     and_then (marker_field v ''generation'' jstr) (\<lambda>generation.
     and_then (marker_field v ''phase'' jstr) (\<lambda>phase_text.
     and_then (ok_or (marker_phase_parse phase_text)
        (SvInternal (ProviderInternal (''marker has unknown phase '' @ [CHR 0x27] @ phase_text @ [CHR 0x27])))) (\<lambda>phase.
       Inr \<lparr>bm_installation = installation, bm_instance = inst, bm_provider = provider, bm_data_major = major,
            bm_layout = layout, bm_generation = generation, bm_phase = phase\<rparr>))))))))"

definition marker_from_json :: "(string \<Rightarrow> string + json) \<Rightarrow> string \<Rightarrow> service_error + bootstrap_marker" where
  "marker_from_json parse s =
     (case parse s of Inl e \<Rightarrow> Inl (SvInternal (ProviderInternal e)) | Inr v \<Rightarrow> marker_of_json v)"

section \<open>Ownership\<close>

definition pg_container_name :: "string \<Rightarrow> string" where
  "pg_container_name service = ''slip-service-'' @ service"

definition normalize_repo_digest :: "string \<Rightarrow> string" where
  "normalize_repo_digest s =
     (let lower = lower_word s;
          stripped = (case strip_prefix ''index.'' lower of Some r \<Rightarrow> r | None \<Rightarrow> lower)
      in case rfind_idx (\<lambda>c. c = CHR ''@'') stripped of
           None \<Rightarrow> stripped
         | Some i \<Rightarrow>
             (let repo = take i stripped; digest = drop (i + 1) stripped in
              if repo = ''postgres'' \<or> repo = ''docker.io/postgres'' then ''docker.io/library/postgres@'' @ digest
              else case strip_prefix ''docker.io/library/'' repo of
                     Some rest \<Rightarrow> ''docker.io/library/'' @ rest @ ''@'' @ digest
                   | None \<Rightarrow> repo @ ''@'' @ digest))"

definition show_bool :: "bool \<Rightarrow> string" where
  "show_bool b = (if b then ''true'' else ''false'')"

definition mount_present :: "(string \<times> string \<times> bool) list \<Rightarrow> service_mount \<Rightarrow> bool" where
  "mount_present inspected e \<longleftrightarrow>
     list_ex (\<lambda>(src, dest, ro). src = mt_source e \<and> dest = mt_dest e \<and> ro = mt_read_only e) inspected"

definition verify_mounts ::
  "service_mount list \<Rightarrow> (string \<times> string \<times> bool) list \<Rightarrow> string \<Rightarrow> service_error + unit" where
  "verify_mounts expected inspected name =
     (case find (\<lambda>e. \<not> mount_present inspected e) expected of
        Some e \<Rightarrow> Inl (Blocked name (''mount mismatch: expected '' @ mt_source e @ '' -> '' @ mt_dest e @ '' (ro='' @
                    show_bool (mt_read_only e) @ '') not found in inspected mounts''))
      | None \<Rightarrow> if length inspected > length expected
                then Inl (Blocked name ''unexpected extra mounts detected on container'') else Inr ())"

definition pg_mounts :: "string \<Rightarrow> secret_mounts \<Rightarrow> service_mount list" where
  "pg_mounts pgdata m =
     [\<lparr>mt_source = pgdata, mt_dest = ''/var/lib/postgresql'', mt_read_only = False\<rparr>,
      \<lparr>mt_source = am_raw_password m, mt_dest = ''/run/secrets/slip-raw-password'', mt_read_only = True\<rparr>,
      \<lparr>mt_source = am_pgpass m, mt_dest = ''/run/secrets/slip-pgpass'', mt_read_only = True\<rparr>]"

definition pg_build_spec ::
  "string \<Rightarrow> pinned_image_ref \<Rightarrow> string \<Rightarrow> (string \<times> string) list \<Rightarrow> service_mount list \<Rightarrow> service_error + service_container_spec" where
  "pg_build_spec service img network labels mounts =
     (case container_spec_new (pg_container_name service) (pg_container_name service) img network [service] mounts
         [(''POSTGRES_INITDB_ARGS'', ''--auth-host=scram-sha-256 --auth-local=scram-sha-256''),
          (''POSTGRES_PASSWORD_FILE'', ''/run/secrets/slip-raw-password'')] labels
         \<lparr>hk_test = pg_healthcheck_test, hk_interval = 10, hk_timeout = 5, hk_retries = 5, hk_start = 30\<rparr>
         \<lparr>sl_memory = None, sl_cpus = None, sl_pids = None\<rparr>
         \<lparr>sy_read_only_rootfs = False, sy_tmpfs = [(''/tmp'', ''rw,noexec,nosuid,size=64m'')], sy_cap_add = pg_cap_add\<rparr> of
        Inl _ \<Rightarrow> Inl (ProvisionFailed ''container spec construction failed'')
      | Inr k \<Rightarrow> Inr k)"

definition service_labels :: "'w pg_env \<Rightarrow> service_spec \<Rightarrow> service_state \<Rightarrow> string \<Rightarrow> (string \<times> string) list" where
  "service_labels env sp st generation =
     ownership_labels (px_installation env) (instance_id_str (ss_instance st)) (service_name_str (sp_name sp))
       (spec_hash_str (effective_hash (px_sha env) (px_print env) sp)) generation"

definition pg_data_path :: "'w pg_env \<Rightarrow> service_spec \<Rightarrow> string" where
  "pg_data_path env sp = path_join (path_join (px_services_root env) (service_name_str (sp_name sp))) pgdata_subdir"

text \<open>The aliases a backend reports for the container, in no order.\<close>

definition allowed_aliases :: "string \<Rightarrow> service_inspect \<Rightarrow> service_error + string list" where
  "allowed_aliases service i =
     (if in_backend i = ''docker'' then Inr [service]
      else if in_backend i = ''podman'' then Inr [service, take 12 (in_id i), pg_container_name service]
      else Inl (Blocked service (''unknown backend '' @ [CHR 0x27] @ in_backend i @ [CHR 0x27] @ '' for alias verification'')))"

definition verify_capabilities :: "string \<Rightarrow> service_inspect \<Rightarrow> service_error + unit" where
  "verify_capabilities service i =
     and_then (case normalize_cap_set pg_cap_add of
                 Inl _ \<Rightarrow> Inl (SvInternal (ProviderInternal ''PG_CAP_ADD normalization failed'')) | Inr x \<Rightarrow> Inr x) (\<lambda>expected.
     and_then (case normalize_cap_set (in_cap_add i) of
                 Inl f \<Rightarrow> Inl (Blocked service (''cap_add normalization error: '' @ cap_fault_text f)) | Inr x \<Rightarrow> Inr x) (\<lambda>actual.
     and_then (require (actual = expected) (Blocked service ''unexpected capabilities added (cap_add set mismatch)'')) (\<lambda>_.
       if in_backend i \<noteq> ''docker'' then Inr ()
       else
         and_then (case normalize_cap_drop_set [''ALL''] of
                     Inl _ \<Rightarrow> Inl (SvInternal (ProviderInternal ''cap_drop normalization failed'')) | Inr x \<Rightarrow> Inr x) (\<lambda>all.
         and_then (case normalize_cap_drop_set (in_cap_drop i) of
                     Inl f \<Rightarrow> Inl (Blocked service (''cap_drop normalization error: '' @ cap_drop_fault_text f)) | Inr x \<Rightarrow> Inr x) (\<lambda>dropped.
           require (dropped = all) (Blocked service ''capabilities not fully dropped (cap_drop must be exactly {ALL})''))))))"

definition verify_ownership ::
  "'w pg_env \<Rightarrow> 'w \<Rightarrow> service_spec \<Rightarrow> service_state \<Rightarrow> string \<Rightarrow> pinned_image_ref \<Rightarrow> service_inspect \<Rightarrow> service_error + unit" where
  "verify_ownership env w sp st generation img i =
     (let n = service_name_str (sp_name sp) in
      and_then (require (case ss_container st of Some c \<Rightarrow> in_id i = container_id_str c | None \<Rightarrow> True)
        (Blocked n ''container ID mismatch: inspected ID does not match persisted ID'')) (\<lambda>_.
      and_then (require (in_labels i = service_labels env sp st generation) (Blocked n ''ownership label mismatch'')) (\<lambda>_.
      and_then (require (list_ex (\<lambda>d. normalize_repo_digest d = normalize_repo_digest (repo_digest img)) (in_digests i))
        (Blocked n ''image digest mismatch'')) (\<lambda>_.
      and_then (require (length (in_networks i) = 1 \<and> in_network i = px_network env)
        (Blocked n ''network mismatch: must be exactly one expected network'')) (\<lambda>_.
      and_then (require (length (in_id i) = 64 \<and> list_all is_lower_hex (in_id i))
        (Blocked n ''container ID is not a valid 64-char lowercase hex ID'')) (\<lambda>_.
      and_then (allowed_aliases n i) (\<lambda>allowed.
      and_then (require (length (remdups_adj (sort (in_aliases i))) = length (in_aliases i))
        (Blocked n ''network alias mismatch: duplicate aliases detected'')) (\<lambda>_.
      and_then (require (sort (in_aliases i) = sort allowed)
        (Blocked n ''network alias mismatch: inspected aliases do not match the allowed set'')) (\<lambda>_.
      and_then (require (in_ports i = []) (Blocked n ''unexpected host port bindings'')) (\<lambda>_.
      and_then (require (in_restart i = ''unless-stopped'') (Blocked n ''restart policy mismatch'')) (\<lambda>_.
      and_then (require (\<not> in_privileged i)
        (Blocked n (''container is privileged '' @ [CHR 0xE2, CHR 0x80, CHR 0x94] @ '' refusing to adopt''))) (\<lambda>_.
      and_then (require (in_no_new_privileges i) (Blocked n ''no-new-privileges not set'')) (\<lambda>_.
      and_then (verify_capabilities n i) (\<lambda>_.
      and_then (case px_mounts env w (ss_instance st) of
                  Inl _ \<Rightarrow> Inl (Blocked n ''secret mount tokens unavailable for mount verification'')
                | Inr m \<Rightarrow> Inr m) (\<lambda>m.
        verify_mounts (pg_mounts (pg_data_path env sp) m) (in_mounts i) n)))))))))))))))"

end
