(* ===== verification/PostgresRun.thy ===== *)
theory PostgresRun
  imports Postgres
begin

text \<open>
  The operations of the PostgreSQL provider: provision with its bootstrap marker, ensure, health, remove
  and the creation of a resource.  Every early return is the world at that point.  The environment of the
  controller built from the provider closes the loop with \<open>ServiceController\<close>.
\<close>

section \<open>Readiness\<close>

definition psql_probe :: "string list" where
  "psql_probe = [''psql'', ''-h'', ''127.0.0.1'', ''-U'', ''postgres'', ''-d'', ''postgres'', ''-w'', ''-c'', ''SELECT 1'']"

definition psql_stdin :: "string list" where
  "psql_stdin = [''psql'', ''--no-psqlrc'', ''-v'', ''ON_ERROR_STOP=1'', ''-h'', ''127.0.0.1'', ''-U'', ''postgres'',
     ''-d'', ''postgres'', ''-w'']"

definition pgpass_env :: "(string \<times> string) list" where
  "pgpass_env = [(''PGPASSFILE'', ''/run/secrets/slip-pgpass'')]"

text \<open>The polling loop: the number is that of the polls before the timeout.\<close>

fun wait_healthy :: "'w pg_env \<Rightarrow> string \<Rightarrow> nat \<Rightarrow> 'w \<Rightarrow> 'w \<times> (service_error + unit)" where
  "wait_healthy env cid 0 w = (w, Inl (ReadinessFailed ''health check timed out''))"
| "wait_healthy env cid (Suc k) w =
     (case px_inspect env w cid of
        (w1, Inl _) \<Rightarrow> (w1, Inl (ReadinessFailed ''health inspect failed''))
      | (w1, Inr i) \<Rightarrow>
          if in_health i = ''healthy'' then (w1, Inr ())
          else if in_health i = ''unhealthy'' then (w1, Inl (ReadinessFailed ''container reported unhealthy''))
          else wait_healthy env cid k w1)"

definition pg_readiness_check :: "'w pg_env \<Rightarrow> string \<Rightarrow> 'w \<Rightarrow> 'w \<times> (service_error + unit)" where
  "pg_readiness_check env cid w =
     or_fail (px_probe env w cid psql_probe pgpass_env) (ReadinessFailed ''readiness probe failed'')"

definition wait_for_readiness :: "'w pg_env \<Rightarrow> string \<Rightarrow> nat \<Rightarrow> 'w \<Rightarrow> 'w \<times> (service_error + unit)" where
  "wait_for_readiness env cid timeout w =
     then_w (wait_healthy env cid (px_polls env w timeout) w) (\<lambda>w1 _. pg_readiness_check env cid w1)"

fun pg_health_kind :: "string \<Rightarrow> health_kind" where
  "pg_health_kind s =
     (if s = ''healthy'' then health_kind.Healthy else if s = ''unhealthy'' then health_kind.Unhealthy
      else if s = ''starting'' then Starting else HkUnknown)"

definition pg_validate :: "service_spec \<Rightarrow> service_error + unit" where
  "pg_validate sp =
     (if sp_provider sp \<noteq> PkPostgres then Inl (UnknownProvider (provider_kind_str (sp_provider sp)))
      else and_then (resolve_image_for_version (sp_version sp)) (\<lambda>_. Inr ()))"

section \<open>Provision\<close>

definition active_mounts :: "'w pg_env \<Rightarrow> 'w \<Rightarrow> service_spec \<Rightarrow> service_state \<Rightarrow> service_error + secret_mounts" where
  "active_mounts env w sp st =
     (case px_mounts env w (ss_instance st) of
        Inl e \<Rightarrow> Inl (Blocked (service_name_str (sp_name sp)) (''secret mount tokens unavailable: '' @ e))
      | Inr m \<Rightarrow> Inr m)"

definition pg_marker :: "'w pg_env \<Rightarrow> service_state \<Rightarrow> secret_mounts \<Rightarrow> marker_phase \<Rightarrow> bootstrap_marker" where
  "pg_marker env st m phase =
     \<lparr>bm_installation = px_installation env, bm_instance = instance_id_str (ss_instance st), bm_provider = ''postgres'',
      bm_data_major = ss_data_major st, bm_layout = ''v1'', bm_generation = am_generation m, bm_phase = phase\<rparr>"

definition marker_path :: "service_spec \<Rightarrow> string" where
  "marker_path sp = service_name_str (sp_name sp) @ ''/.slip-bootstrap''"

definition fs_error :: "service_spec \<Rightarrow> string \<Rightarrow> service_error" where
  "fs_error sp reason = FilesystemCheck (service_name_str (sp_name sp)) reason"

definition check_marker ::
  "'w pg_env \<Rightarrow> service_spec \<Rightarrow> service_state \<Rightarrow> secret_mounts \<Rightarrow> bootstrap_marker \<Rightarrow> service_error + unit" where
  "check_marker env sp st m mk =
     (let blk = Blocked (service_name_str (sp_name sp)) in
      and_then (require (bm_instance mk = instance_id_str (ss_instance st))
        (blk ''bootstrap marker belongs to a different instance'')) (\<lambda>_.
      and_then (require (bm_installation mk = px_installation env)
        (blk ''bootstrap marker belongs to a different installation'')) (\<lambda>_.
      and_then (require (bm_provider mk = ''postgres'') (blk ''bootstrap marker has wrong provider'')) (\<lambda>_.
      and_then (require (bm_data_major mk = ss_data_major st) (blk ''bootstrap marker has wrong data major version'')) (\<lambda>_.
      and_then (require (bm_layout mk = ''v1'') (blk ''bootstrap marker has unknown layout'')) (\<lambda>_.
      and_then (require (bm_generation mk = am_generation m)
        (blk ''bootstrap marker generation does not match active secret generation'')) (\<lambda>_.
        require (bm_phase mk = MkComplete)
          (blk (''bootstrap marker is '' @ [CHR 0x27] @ ''initializing'' @ [CHR 0x27, CHR '' '', CHR 0xE2, CHR 0x80, CHR 0x94] @
             '' previous provision may have crashed; inspect and clean up the data directory manually'')))))))))"

text \<open>The classification of the data directory before anything in it is changed.\<close>

definition classify_data ::
  "'w pg_env \<Rightarrow> service_spec \<Rightarrow> service_state \<Rightarrow> secret_mounts \<Rightarrow> bool \<Rightarrow> 'w \<Rightarrow> 'w \<times> (service_error + unit)" where
  "classify_data env sp st m existed w =
     (case px_read env w (marker_path sp) of
        ReadText text \<Rightarrow> (w, and_then (marker_from_json (px_parse env) text) (check_marker env sp st m))
      | ReadMissing \<Rightarrow>
          if existed
          then (w, Inl (Blocked (service_name_str (sp_name sp))
                 (''unmarked pre-existing data directory '' @ [CHR 0xE2, CHR 0x80, CHR 0x94] @
                  '' refusing to adopt or initialize over potentially foreign data; remove the directory manually if you intend to create a fresh service'')))
          else or_fail (px_write_new env w (marker_path sp) (px_print env (marker_json (pg_marker env st m MkInitializing))))
                 (fs_error sp ''failed to write bootstrap marker'')
      | ReadFailed \<Rightarrow> (w, Inl (fs_error sp ''filesystem operation failed'')))"

definition split_digest :: "string \<Rightarrow> string \<times> string" where
  "split_digest s = (case rfind_idx (\<lambda>c. c = CHR ''@'') s of Some i \<Rightarrow> (take i s, drop (i + 1) s) | None \<Rightarrow> (s, []))"

text \<open>Pull by digest, create and wait.\<close>

definition run_postgres ::
  "'w pg_env \<Rightarrow> service_spec \<Rightarrow> service_state \<Rightarrow> secret_mounts \<Rightarrow> pinned_image_ref \<Rightarrow> string \<Rightarrow> 'w \<Rightarrow>
     'w \<times> (service_error + container_id)" where
  "run_postgres env sp st m img data w =
     then_w (or_fail (px_pull env w (fst (split_digest (repo_digest img))) (snd (split_digest (repo_digest img))))
       (ProvisionFailed ''image pull failed'')) (\<lambda>w1 _.
     then_w (w1, pg_build_spec (service_name_str (sp_name sp)) img (px_network env)
               (service_labels env sp st (am_generation m)) (pg_mounts data m)) (\<lambda>w1 k.
     then_w (case px_create env w1 k of (w2, r) \<Rightarrow> (w2, ok_or r (ProvisionFailed ''container creation failed''))) (\<lambda>w2 text.
     then_w (w2, case container_id_parse text of
                   Inl _ \<Rightarrow> Inl (ProvisionFailed ''invalid container ID returned'') | Inr c \<Rightarrow> Inr c) (\<lambda>w2 cid.
     then_w (wait_for_readiness env (container_id_str cid) 120 w2) (\<lambda>w3 _. (w3, Inr cid))))))"

text \<open>Replacing the marker: a temporary file, a rename and a sync of the directory.\<close>

definition put_marker :: "'w pg_env \<Rightarrow> string \<Rightarrow> string \<Rightarrow> bootstrap_marker \<Rightarrow> 'w \<Rightarrow> 'w \<times> (bool + unit)" where
  "put_marker env tmp target mk w =
     then_w (or_fail (px_write_new env (px_unlink env w tmp) tmp (px_print env (marker_json mk))) False) (\<lambda>w1 _.
       or_fail (px_rename env w1 tmp target) True)"

definition restore_marker :: "'w pg_env \<Rightarrow> service_spec \<Rightarrow> service_state \<Rightarrow> secret_mounts \<Rightarrow> 'w \<Rightarrow> 'w \<times> bool" where
  "restore_marker env sp st m w =
     (case then_w (put_marker env (marker_path sp @ ''.comp.tmp'') (marker_path sp) (pg_marker env st m MkInitializing) w)
            (\<lambda>w1 _. or_fail (px_fsync env w1 (service_name_str (sp_name sp))) True) of
        (w1, r) \<Rightarrow> (w1, is_ok r))"

definition finish_marker ::
  "'w pg_env \<Rightarrow> service_spec \<Rightarrow> service_state \<Rightarrow> secret_mounts \<Rightarrow> 'w \<Rightarrow> 'w \<times> (service_error + unit)" where
  "finish_marker env sp st m w =
     (case put_marker env (marker_path sp @ ''.tmp'') (marker_path sp) (pg_marker env st m MkComplete) w of
        (w1, Inl renaming) \<Rightarrow>
          (w1, Inl (fs_error sp (if renaming then ''failed to finalize bootstrap marker'' else ''failed to write marker temp file'')))
      | (w1, Inr _) \<Rightarrow>
          (case px_fsync env w1 (service_name_str (sp_name sp)) of
             (w2, True) \<Rightarrow> (w2, Inr ())
           | (w2, False) \<Rightarrow>
               (case restore_marker env sp st m w2 of
                  (w3, restored) \<Rightarrow>
                    (w3, Inl (fs_error sp
                      (''failed to fsync parent directory after marker finalize '' @ [CHR 0xE2, CHR 0x80, CHR 0x94] @
                       (if restored then '' initialization may not be durable; marker restored to initializing''
                        else '' initialization may not be durable; compensating marker restore also failed, marker may be stale'')))))))"

definition pg_data_dir :: "'w pg_env \<Rightarrow> service_spec \<Rightarrow> 'w \<Rightarrow> 'w \<times> (service_error + bool)" where
  "pg_data_dir env sp w =
     (case px_create_dir env w (service_name_str (sp_name sp)) of
        (w1, DirCreated) \<Rightarrow> (w1, Inr False)
      | (w1, DirExists) \<Rightarrow> (w1, Inr True)
      | (w1, DirFailed _) \<Rightarrow> (w1, Inl (fs_error sp ''filesystem operation failed'')))"

text \<open>The data directory of the container, checked again just before its path is used.\<close>

definition pg_data_token :: "'w pg_env \<Rightarrow> service_spec \<Rightarrow> 'w \<Rightarrow> 'w \<times> (service_error + string)" where
  "pg_data_token env sp w =
     (case px_pgdata env w (service_name_str (sp_name sp)) pgdata_subdir of
        (w1, Inl e) \<Rightarrow> (w1, Inl (fs_error sp (''pgdata validation failed: '' @ e)))
      | (w1, Inr data) \<Rightarrow>
          (case px_revalidate env w1 data of
             Some e \<Rightarrow> (w1, Inl (fs_error sp (''pgdata revalidation failed: '' @ e)))
           | None \<Rightarrow> (w1, Inr data)))"

definition pg_rootless :: "service_spec \<Rightarrow> service_error" where
  "pg_rootless sp = Blocked (service_name_str (sp_name sp)) ''services require a rootful Podman/Docker runtime''"

definition pg_provision ::
  "'w pg_env \<Rightarrow> 'w \<Rightarrow> service_spec \<Rightarrow> service_state \<Rightarrow> 'w \<times> (service_error + container_id)" where
  "pg_provision env w sp st =
     then_w (w, require (px_rootful env w) (pg_rootless sp)) (\<lambda>w _.
     then_w (w, require (px_storage env)
       (Blocked (service_name_str (sp_name sp)) ''service storage is supported on Linux only'')) (\<lambda>w _.
     then_w (w, resolve_image_for_version (sp_version sp)) (\<lambda>w img.
     then_w (w, active_mounts env w sp st) (\<lambda>w m.
     then_w (pg_data_dir env sp w) (\<lambda>w existed.
     then_w (classify_data env sp st m existed w) (\<lambda>w _.
     then_w (pg_data_token env sp w) (\<lambda>w data.
     then_w (run_postgres env sp st m img data w) (\<lambda>w cid.
     then_w (finish_marker env sp st m w) (\<lambda>w _. (w, Inr cid))))))))))"

section \<open>Ensure, health and remove\<close>

definition not_found :: "string \<Rightarrow> bool" where
  "not_found e \<longleftrightarrow> sublist ''not found'' e"

definition pg_adopt ::
  "'w pg_env \<Rightarrow> service_spec \<Rightarrow> service_state \<Rightarrow> secret_mounts \<Rightarrow> pinned_image_ref \<Rightarrow> container_id \<Rightarrow> service_inspect \<Rightarrow> 'w \<Rightarrow>
     'w \<times> (service_error + ensure_outcome)" where
  "pg_adopt env sp st m img cid i w =
     then_w (w, verify_ownership env w sp st (am_generation m) img i) (\<lambda>w _.
       if in_running i then
         (if pg_health_kind (in_health i) = Healthy
          then (w, Inr \<lparr>eo_container = cid, eo_action = EaNoop, eo_health = Some Healthy\<rparr>)
          else then_w (wait_for_readiness env (container_id_str cid) 60 w) (\<lambda>w _.
                 (w, Inr \<lparr>eo_container = cid, eo_action = EaNoop, eo_health = Some Healthy\<rparr>)))
       else
         then_w (or_fail (px_start env w (container_id_str cid)) (ProvisionFailed ''failed to start stopped container'')) (\<lambda>w _.
         then_w (wait_for_readiness env (container_id_str cid) 120 w) (\<lambda>w _.
           (w, Inr \<lparr>eo_container = cid, eo_action = EaStarted, eo_health = Some Healthy\<rparr>))))"

definition pg_recreate :: "'w pg_env \<Rightarrow> service_spec \<Rightarrow> service_state \<Rightarrow> 'w \<Rightarrow> 'w \<times> (service_error + ensure_outcome)" where
  "pg_recreate env sp st w =
     then_w (pg_provision env w sp st) (\<lambda>w cid.
       (w, Inr \<lparr>eo_container = cid, eo_action = EaRecreated, eo_health = Some Healthy\<rparr>))"

definition pg_ensure ::
  "'w pg_env \<Rightarrow> 'w \<Rightarrow> service_spec \<Rightarrow> service_state \<Rightarrow> 'w \<times> (service_error + ensure_outcome)" where
  "pg_ensure env w sp st =
     then_w (w, require (px_rootful env w) (pg_rootless sp)) (\<lambda>w _.
     then_w (w, resolve_image_for_version (sp_version sp)) (\<lambda>w img.
     then_w (w, active_mounts env w sp st) (\<lambda>w m.
       case ss_container st of
         None \<Rightarrow> pg_recreate env sp st w
       | Some cid \<Rightarrow>
           (case px_inspect env w (container_id_str cid) of
              (w1, Inr i) \<Rightarrow> pg_adopt env sp st m img cid i w1
            | (w1, Inl e) \<Rightarrow>
                if not_found e then pg_recreate env sp st w1
                else (w1, Inl (Blocked (service_name_str (sp_name sp)) ''failed to inspect container during ensure''))))))"

definition pg_health :: "'w pg_env \<Rightarrow> 'w \<Rightarrow> service_state \<Rightarrow> 'w \<times> (service_error + health_kind)" where
  "pg_health env w st =
     (case ss_container st of
        None \<Rightarrow> (w, Inl ContainerNotFound)
      | Some cid \<Rightarrow>
          (case px_inspect env w (container_id_str cid) of
             (w1, Inl _) \<Rightarrow> (w1, Inl (SvInternal (ProviderInternal ''health inspect failed'')))
           | (w1, Inr i) \<Rightarrow> (w1, Inr (pg_health_kind (in_health i)))))"

definition state_spec :: "service_state \<Rightarrow> service_error + service_spec" where
  "state_spec st = service_spec_new (ss_name st) (ss_provider st) (ss_version st) PostgresConfig"

definition pg_remove_owned ::
  "'w pg_env \<Rightarrow> service_state \<Rightarrow> container_id \<Rightarrow> service_inspect \<Rightarrow> 'w \<Rightarrow> 'w \<times> (service_error + unit)" where
  "pg_remove_owned env st cid i w =
     (let n = service_name_str (ss_name st) in
      then_w (w, require (in_id i = container_id_str cid)
        (Blocked n ''container ID mismatch: daemon returned different ID'')) (\<lambda>w _.
      then_w (w, case px_mounts env w (ss_instance st) of
                   Inl _ \<Rightarrow> Inl (Blocked n ''secret mount tokens unavailable for ownership verification'') | Inr m \<Rightarrow> Inr m) (\<lambda>w m.
      then_w (w, resolve_image_for_version (ss_version st)) (\<lambda>w img.
      then_w (w, require (ss_hash st \<noteq> None) (Blocked n ''no applied spec hash in persisted state'')) (\<lambda>w _.
      then_w (w, state_spec st) (\<lambda>w sp.
      then_w (w, verify_ownership env w sp st (am_generation m) img i) (\<lambda>w _.
      then_w (w, verify_mounts (pg_mounts (pg_data_path env sp) m) (in_mounts i) n) (\<lambda>w _.
        or_fail (px_stop_remove env w (container_id_str cid)) (ProvisionFailed ''failed to stop and remove container'')))))))))"

definition pg_remove :: "'w pg_env \<Rightarrow> 'w \<Rightarrow> service_state \<Rightarrow> 'w \<times> (service_error + unit)" where
  "pg_remove env w st =
     (case ss_container st of
        None \<Rightarrow> (w, Inr ())
      | Some cid \<Rightarrow>
          (case px_inspect env w (container_id_str cid) of
             (w1, Inl e) \<Rightarrow>
               (w1, if not_found e then Inr ()
                    else Inl (Blocked (service_name_str (ss_name st)) ''failed to inspect container before remove''))
           | (w1, Inr i) \<Rightarrow> pg_remove_owned env st cid i w1))"

end
