(* ===== verification/PostgresSql.thy ===== *)
theory PostgresSql
  imports PostgresRun
begin

text \<open>
  The resources of a PostgreSQL service: the statement that creates a role and its database, the environment
  an application gets, and the environment of the service controller built from the provider.
\<close>

section \<open>The statement\<close>

text \<open>The statement is a template with the resource id, its password and the ownership comment in it.\<close>

datatype sql_piece = SqlText string | SqlId | SqlPassword | SqlComment

definition quot :: string where "quot = [CHR 0x27]"
definition dash :: string where "dash = [CHR 0xE2, CHR 0x80, CHR 0x94]"
definition box :: "nat \<Rightarrow> string" where "box n = concat (replicate n [CHR 0xE2, CHR 0x94, CHR 0x80])"

definition sql_role :: "sql_piece list list" where
  "sql_role =
     [[SqlText ''-- slip-managed resource creation (SLIP-107)''],
      [SqlText ''-- Idempotent, restart-safe, fail-closed on foreign objects.''],
      [SqlText ''-- Role and database are NEVER dropped.''],
      [],
      [SqlText (''-- '' @ box 3 @ '' Session log suppression '' @ box 45)],
      [SqlText (''-- Suppress password SQL from the server log. log_statement='' @ quot @ ''none'' @ quot @ '' prevents'')],
      [SqlText ''-- the CREATE/ALTER ROLE PASSWORD statement from being logged. We re-assert''],
      [SqlText (''-- these after '' @ [CHR 0x5C] @ ''connect (the switch resets session GUCs).'')],
      [SqlText (''SET log_statement = '' @ quot @ ''none'' @ quot @ '';'')],
      [SqlText (''SET log_min_error_statement = '' @ quot @ ''panic'' @ quot @ '';'')],
      [],
      [SqlText (''-- '' @ box 3 @ '' Role '' @ box 64)],
      [SqlText ''-- Create the LOGIN role with the deterministic ownership comment, or adopt''],
      [SqlText ''-- an existing role whose comment matches. A role with a mismatched comment''],
      [SqlText (''-- is foreign '' @ [CHR 0xE2, CHR 0x86, CHR 0x92] @ '' raise to abort (fail-closed).'')],
      [SqlText ''DO $$''],
      [SqlText ''BEGIN''],
      [SqlText (''    IF NOT EXISTS (SELECT 1 FROM pg_roles WHERE rolname = '' @ quot), SqlId, SqlText (quot @ '') THEN'')],
      [SqlText ''        CREATE ROLE '', SqlId],
      [SqlText ''            LOGIN''],
      [SqlText ''            NOSUPERUSER''],
      [SqlText ''            NOCREATEDB''],
      [SqlText ''            NOCREATEROLE''],
      [SqlText ''            NOREPLICATION''],
      [SqlText ''            NOBYPASSRLS''],
      [SqlText (''            PASSWORD '' @ quot), SqlPassword, SqlText (quot @ '';'')],
      [SqlText ''        COMMENT ON ROLE '', SqlId, SqlText ('' IS '' @ quot), SqlComment, SqlText (quot @ '';'')],
      [SqlText ''    ELSE''],
      [SqlText ''        -- Role exists: verify ownership marker.''],
      [SqlText ''        IF NOT EXISTS (''],
      [SqlText ''            SELECT 1 FROM pg_shdescription d''],
      [SqlText ''            JOIN pg_roles r ON r.oid = d.objoid''],
      [SqlText (''            WHERE r.rolname = '' @ quot), SqlId, SqlText (quot @ '' AND d.description = '' @ quot), SqlComment, SqlText quot],
      [SqlText ''        ) THEN''],
      [SqlText (''            RAISE EXCEPTION '' @ quot @ ''foreign role ''), SqlId, SqlText ('' exists with mismatched ownership marker '' @ dash @ '' refusing adoption'' @ quot @ '';'')],
      [SqlText ''        END IF;''],
      [SqlText ''        -- Owned by us: reassert ALL privilege flags to catch drift (a role''],
      [SqlText ''        -- that was tampered to SUPERUSER must be fixed back, not silently''],
      [SqlText ''        -- kept). Then set the password to the persisted value.''],
      [SqlText ''        ALTER ROLE '', SqlId, SqlText '' NOSUPERUSER NOCREATEDB NOCREATEROLE NOREPLICATION NOBYPASSRLS;''],
      [SqlText ''        ALTER ROLE '', SqlId, SqlText ('' PASSWORD '' @ quot), SqlPassword, SqlText (quot @ '';'')],
      [SqlText ''    END IF;''],
      [SqlText ''END $$;''],
      []]"

definition sql_database :: "sql_piece list list" where
  "sql_database =
     [[SqlText (''-- '' @ box 3 @ '' Database (idempotent via '' @ [CHR 0x5C] @ ''gexec) '' @ box 38)],
      [SqlText ''-- CREATE DATABASE cannot run inside a transaction block and errors if the''],
      [SqlText (''-- db already exists. We use SELECT format() + '' @ [CHR 0x5C] @ ''gexec to conditionally emit'')],
      [SqlText ''-- the statement only when the db does not exist. This makes the second''],
      [SqlText ''-- (idempotent) apply succeed rather than failing under ON_ERROR_STOP=1.''],
      [SqlText ''--''],
      [SqlText ''-- The database is created with ALLOW_CONNECTIONS false to eliminate the''],
      [SqlText ''-- cross-connect window: no role can connect until we REVOKE PUBLIC and''],
      [SqlText ''-- GRANT CONNECT to the owner, after which we open it with''],
      [SqlText ''-- ALLOW_CONNECTIONS true.''],
      [SqlText ''DO $$''],
      [SqlText ''BEGIN''],
      [SqlText (''    IF EXISTS (SELECT 1 FROM pg_database WHERE datname = '' @ quot), SqlId, SqlText (quot @ '') THEN'')],
      [SqlText ''        -- Database exists: verify the owner is our role.''],
      [SqlText ''        IF NOT EXISTS (''],
      [SqlText ''            SELECT 1 FROM pg_database d''],
      [SqlText ''            JOIN pg_roles r ON r.oid = d.datdba''],
      [SqlText (''            WHERE d.datname = '' @ quot), SqlId, SqlText (quot @ '' AND r.rolname = '' @ quot), SqlId, SqlText quot],
      [SqlText ''        ) THEN''],
      [SqlText (''            RAISE EXCEPTION '' @ quot @ ''foreign database ''), SqlId, SqlText ('' exists with mismatched owner '' @ dash @ '' refusing adoption'' @ quot @ '';'')],
      [SqlText ''        END IF;''],
      [SqlText ''    END IF;''],
      [SqlText ''END $$;''],
      [],
      [SqlText ''-- Conditionally CREATE DATABASE with ALLOW_CONNECTIONS false (closed).''],
      [SqlText (''-- '' @ [CHR 0x5C] @ ''gexec runs the formatted statement produced by SELECT format().'')],
      [SqlText (''SELECT format('' @ quot @ ''CREATE DATABASE %I OWNER %I ALLOW_CONNECTIONS false'' @ quot @ '', '' @ quot), SqlId, SqlText (quot @ '', '' @ quot), SqlId, SqlText (quot @ '')'')],
      [SqlText (''WHERE NOT EXISTS (SELECT 1 FROM pg_database WHERE datname = '' @ quot), SqlId, SqlText (quot @ '')'' @ [CHR 0x5C] @ ''gexec'')],
      []]"

definition sql_grants :: "sql_piece list list" where
  "sql_grants =
     [[SqlText (''-- '' @ box 3 @ '' Database-level privileges (run against admin db) '' @ box 20)],
      [SqlText ''-- Revoke ALL from PUBLIC on the resource database (CONNECT, TEMP, and''],
      [SqlText ''-- CREATE on schema public via the database-level default). Grant CONNECT''],
      [SqlText ''-- only to the owning role.''],
      [SqlText ''REVOKE ALL ON DATABASE '', SqlId, SqlText '' FROM PUBLIC;''],
      [SqlText ''GRANT CONNECT ON DATABASE '', SqlId, SqlText '' TO '', SqlId, SqlText '';''],
      [],
      [SqlText ''-- Open the database for connections now that PUBLIC has no access.''],
      [SqlText ''ALTER DATABASE '', SqlId, SqlText '' ALLOW_CONNECTIONS true;''],
      [],
      [SqlText (''-- '' @ box 3 @ '' Connect to the resource database '' @ box 36)],
      [SqlText ''-- Schema and default-privilege grants must run while connected to the''],
      [SqlText (''-- resource database, NOT the admin '' @ [CHR 0x60] @ ''postgres'' @ [CHR 0x60] @ '' database. Running them'')],
      [SqlText (''-- against '' @ [CHR 0x60] @ ''postgres'' @ [CHR 0x60] @ '' would grant the resource role privileges on the'')],
      [SqlText (''-- admin database'' @ quot @ ''s public schema '' @ dash @ '' a privilege escalation.'')],
      [SqlText ([CHR 0x5C] @ ''connect ''), SqlId],
      [],
      [SqlText (''-- Re-assert log suppression after '' @ [CHR 0x5C] @ ''connect (the switch resets GUCs).'')],
      [SqlText (''SET log_statement = '' @ quot @ ''none'' @ quot @ '';'')],
      [SqlText (''SET log_min_error_statement = '' @ quot @ ''panic'' @ quot @ '';'')],
      [],
      [SqlText (''-- '' @ box 3 @ '' Public schema safe default '' @ box 42)],
      [SqlText ''-- Ensure the public schema default privileges are safe: the owner retains''],
      [SqlText ''-- full control; no new objects are world-accessible by default.''],
      [SqlText ''REVOKE ALL ON SCHEMA public FROM PUBLIC;''],
      [SqlText ''GRANT USAGE, CREATE ON SCHEMA public TO '', SqlId, SqlText '';''],
      [],
      [SqlText ''-- Ensure the owner has full schema privileges.''],
      [SqlText ''GRANT ALL ON SCHEMA public TO '', SqlId, SqlText '';''],
      [],
      [SqlText (''-- '' @ box 3 @ '' Default table privileges '' @ box 44)],
      [SqlText ''-- Revoke default PUBLIC privileges on objects created by the resource role''],
      [SqlText ''-- in the public schema. For TABLES: INSERT, SELECT, UPDATE, DELETE,''],
      [SqlText ''-- TRUNCATE, REFERENCES, TRIGGER. For SEQUENCES: USAGE, SELECT, UPDATE''],
      [SqlText (''-- (NOT INSERT '' @ dash @ '' INSERT is invalid for sequences and would error).'')],
      [SqlText ''ALTER DEFAULT PRIVILEGES FOR ROLE '', SqlId, SqlText '' IN SCHEMA public''],
      [SqlText ''    REVOKE INSERT, SELECT, UPDATE, DELETE, TRUNCATE, REFERENCES, TRIGGER ON TABLES FROM PUBLIC;''],
      [SqlText ''ALTER DEFAULT PRIVILEGES FOR ROLE '', SqlId, SqlText '' IN SCHEMA public''],
      [SqlText ''    REVOKE USAGE, SELECT, UPDATE ON SEQUENCES FROM PUBLIC;'']]"


definition sql_template :: "sql_piece list list" where
  "sql_template = sql_role @ sql_database @ sql_grants"

fun sql_fill :: "string \<Rightarrow> string \<Rightarrow> string \<Rightarrow> sql_piece \<Rightarrow> string" where
  "sql_fill i p c (SqlText t) = t"
| "sql_fill i p c SqlId = i"
| "sql_fill i p c SqlPassword = p"
| "sql_fill i p c SqlComment = c"

definition sql_line :: "string \<Rightarrow> string \<Rightarrow> string \<Rightarrow> sql_piece list \<Rightarrow> string" where
  "sql_line i p c line = concat (map (sql_fill i p c) line) @ [CHR 0x0A]"

definition build_resource_sql :: "resource_credentials \<Rightarrow> string" where
  "build_resource_sql r = concat (map (sql_line (rc_id r) (rc_password r) (role_comment (rc_id r))) sql_template)"

section \<open>Resources\<close>

definition pg_create_resource ::
  "'w pg_env \<Rightarrow> 'w \<Rightarrow> service_spec \<Rightarrow> service_state \<Rightarrow> resource_credentials \<Rightarrow> 'w \<times> (service_error + unit)" where
  "pg_create_resource env w sp st r =
     (let n = service_name_str (sp_name sp) in
      then_w (w, require (px_rootful env w) (pg_rootless sp)) (\<lambda>w _.
      then_w (w, ok_or (ss_container st)
        (Blocked n (''service has no running container '' @ dash @ '' run `slip apply` first''))) (\<lambda>w cid.
      then_w (w, resolve_image_for_version (sp_version sp)) (\<lambda>w img.
      then_w (w, active_mounts env w sp st) (\<lambda>w m.
      then_w (case px_inspect env w (container_id_str cid) of
                (w1, Inl _) \<Rightarrow> (w1, Inl (Blocked n ''failed to inspect service container'')) | (w1, Inr i) \<Rightarrow> (w1, Inr i)) (\<lambda>w i.
      then_w (w, verify_ownership env w sp st (am_generation m) img i) (\<lambda>w _.
      then_w (w, require (in_running i) (Blocked n ''service container is not running: run `slip ensure` first'')) (\<lambda>w _.
      then_w (w, require (in_health i = ''healthy'') (ReadinessFailed ''service container is not healthy'')) (\<lambda>w _.
        or_fail (px_stdin env w (container_id_str cid) psql_stdin pgpass_env (build_resource_sql r))
          (SvInternal (ProviderInternal ''resource creation SQL failed: see service logs for details'')))))))))))"

definition database_url :: "service_spec \<Rightarrow> resource_credentials \<Rightarrow> string" where
  "database_url sp r =
     ''postgresql://'' @ rc_id r @ '':'' @ rc_password r @ ''@'' @ service_name_str (sp_name sp) @ '':5432/'' @ rc_id r"

definition pg_resource_env :: "service_spec \<Rightarrow> resource_credentials \<Rightarrow> service_error + (string \<times> string) list" where
  "pg_resource_env sp r = Inr [(''DATABASE_URL'', database_url sp r)]"

section \<open>The controller over this provider\<close>

text \<open>The controller puts a deadline on \<open>ensure\<close> and on \<open>create_resource\<close>: \<open>limit\<close> is the world it finds
  when the deadline passes first.\<close>

definition within_deadline :: "('w \<Rightarrow> 'w option) \<Rightarrow> 'w \<Rightarrow> 'w \<times> 'r \<Rightarrow> 'w \<times> 'r option" where
  "within_deadline limit w m = (case limit w of Some w1 \<Rightarrow> (w1, None) | None \<Rightarrow> (fst m, Some (snd m)))"

definition postgres_env :: "'w pg_env \<Rightarrow> ('w \<Rightarrow> 'w option) \<Rightarrow> 'w service_env \<Rightarrow> 'w service_env" where
  "postgres_env px limit base =
     base\<lparr>se_rootful := px_rootful px, se_storage := px_storage px, se_validate := pg_validate,
          se_provision := pg_provision px,
          se_ensure := (\<lambda>w sp st. within_deadline limit w (pg_ensure px w sp st)),
          se_remove := pg_remove px,
          se_create_resource := (\<lambda>w sp st r. within_deadline limit w (pg_create_resource px w sp st r)),
          se_resource_env := pg_resource_env, se_sha := px_sha px, se_print := px_print px,
          se_installation := px_installation px\<rparr>"

end
