(* ===== verification/PostgresProps.thy ===== *)
theory PostgresProps
  imports PostgresSql ServiceLifeSamples "HOL-Library.Multiset"
begin

text \<open>
  What the PostgreSQL provider checks before it touches a container, what its statement can contain, what a
  provision leaves behind, and what becomes of a service when the controller runs over this provider.
\<close>

lemma then_w_simps [simp]: "then_w (w, Inl e) k = (w, Inl e)" "then_w (w, Inr x) k = k w x"
  by (simp_all add: then_w_def)

lemma or_fail_simps [simp]: "or_fail (w, True) e = (w, Inr ())" "or_fail (w, False) e = (w, Inl e)"
  by (simp_all add: or_fail_def)

lemma then_w_Inr_iff:
  "then_w m k = (w', Inr y) \<longleftrightarrow> (\<exists>w x. m = (w, Inr x) \<and> k w x = (w', Inr y))"
  by (cases m; cases "snd m") auto

section \<open>Ownership\<close>

lemma find_None: "find P xs = None \<longleftrightarrow> list_all (\<lambda>x. \<not> P x) xs"
  by (induction xs) auto

definition mount_tuple :: "service_mount \<Rightarrow> string \<times> string \<times> bool" where
  "mount_tuple e = (mt_source e, mt_dest e, mt_read_only e)"

lemma mount_present_iff: "mount_present inspected e \<longleftrightarrow> mount_tuple e \<in> set inspected"
  by (auto simp: mount_present_def mount_tuple_def list_ex_iff)

text \<open>Presence of every expected mount and a bound on the number leave no room for another one.\<close>

lemma verify_mounts_iff:
  assumes "distinct (map mount_tuple expected)"
  shows "verify_mounts expected inspected n = Inr () \<longleftrightarrow> mset inspected = mset (map mount_tuple expected)"
proof -
  let ?e = "map mount_tuple expected"
  have f: "find (\<lambda>e. \<not> mount_present inspected e) expected = None \<longleftrightarrow> set ?e \<subseteq> set inspected"
    by (auto simp: find_None mount_present_iff list_all_iff)
  have "verify_mounts expected inspected n = Inr () \<longleftrightarrow> set ?e \<subseteq> set inspected \<and> length inspected \<le> length ?e"
    by (cases "find (\<lambda>e. \<not> mount_present inspected e) expected") (use f in \<open>auto simp: verify_mounts_def\<close>)
  also have "\<dots> \<longleftrightarrow> mset inspected = mset ?e"
  proof
    assume a: "set ?e \<subseteq> set inspected \<and> length inspected \<le> length ?e"
    have "mset ?e = mset_set (set ?e)" by (rule mset_set_set[OF assms, symmetric])
    also have "\<dots> \<subseteq># mset_set (set inspected)" using a by (simp add: subset_imp_msubset_mset_set)
    also have "\<dots> \<subseteq># mset inspected" by (rule mset_set_set_mset_msubset[of "mset inspected", simplified])
    finally have "mset ?e \<subseteq># mset inspected" .
    moreover have "size (mset inspected) \<le> size (mset ?e)" using a by simp
    ultimately show "mset inspected = mset ?e" by (metis mset_subset_size nat_less_le not_less subset_mset.nless_le)
  qed (metis mset_eq_setD mset_eq_length order_refl)
  finally show ?thesis .
qed

lemma remdups_adj_sorted:
  fixes xs :: "'a::linorder list"
  shows "length (remdups_adj (sort xs)) = length xs \<longleftrightarrow> distinct xs"
proof -
  have "sorted ys \<Longrightarrow> distinct (remdups_adj ys)" for ys :: "'a list"
    by (induction ys rule: remdups_adj.induct) auto
  from distinct_card[OF this[of "sort xs"]] have "length (remdups_adj (sort xs)) = card (set xs)" by simp
  then show ?thesis using card_distinct[of xs] distinct_card[of xs] by auto
qed

lemma caps_collected:
  "collect_caps ok seen cs = Inr xs \<longleftrightarrow>
     (\<exists>ns. map normalize_cap_name cs = map Some ns \<and> (\<forall>n\<in>set ns. ok n) \<and> set ns \<inter> set seen = {} \<and> distinct ns \<and>
        xs = sort (seen @ ns))"
proof (induction ok seen cs rule: collect_caps.induct)
  case (2 ok seen c cs)
  show ?case
  proof (cases "normalize_cap_name c")
    case (Some n)
    show ?thesis
    proof (cases "ok n \<and> n \<notin> set seen")
      case True
      then have "collect_caps ok seen (c # cs) = Inr xs \<longleftrightarrow> collect_caps ok (seen @ [n]) cs = Inr xs" using Some by simp
      also have "\<dots> \<longleftrightarrow> (\<exists>ns. map normalize_cap_name cs = map Some ns \<and> (\<forall>n\<in>set ns. ok n) \<and>
          set ns \<inter> set (seen @ [n]) = {} \<and> distinct ns \<and> xs = sort ((seen @ [n]) @ ns))"
        using 2 Some True by blast
      also have "\<dots> \<longleftrightarrow> (\<exists>ms. map normalize_cap_name (c # cs) = map Some ms \<and> (\<forall>n\<in>set ms. ok n) \<and>
          set ms \<inter> set seen = {} \<and> distinct ms \<and> xs = sort (seen @ ms))"
      proof (rule iffI; elim exE conjE)
        fix ns assume "map normalize_cap_name cs = map Some ns" "\<forall>n\<in>set ns. ok n" "set ns \<inter> set (seen @ [n]) = {}"
          "distinct ns" "xs = sort ((seen @ [n]) @ ns)"
        then show "\<exists>ms. map normalize_cap_name (c # cs) = map Some ms \<and> (\<forall>n\<in>set ms. ok n) \<and>
            set ms \<inter> set seen = {} \<and> distinct ms \<and> xs = sort (seen @ ms)"
          using Some True by (intro exI[of _ "n # ns"]) auto
      next
        fix ms assume m: "map normalize_cap_name (c # cs) = map Some ms" "\<forall>n\<in>set ms. ok n" "set ms \<inter> set seen = {}"
          "distinct ms" "xs = sort (seen @ ms)"
        then obtain zs where "ms = n # zs" using Some by (cases ms) auto
        then show "\<exists>ns. map normalize_cap_name cs = map Some ns \<and> (\<forall>n\<in>set ns. ok n) \<and>
            set ns \<inter> set (seen @ [n]) = {} \<and> distinct ns \<and> xs = sort ((seen @ [n]) @ ns)"
          using m by (intro exI[of _ zs]) auto
      qed
      finally show ?thesis .
    qed (use Some in \<open>auto simp: Cons_eq_map_conv\<close>)
  qed auto
qed auto

lemma sort_eq_iff: "sort xs = sort ys \<longleftrightarrow> mset xs = mset (ys :: 'a::linorder list)"
  by (metis mset_sort properties_for_sort sorted_sort)

lemma mset_map_Some: "(\<exists>ns. map f cs = map Some ns \<and> mset ns = mset ks) \<longleftrightarrow> mset (map f cs) = mset (map Some ks)"
proof
  assume a: "mset (map f cs) = mset (map Some ks)"
  then have "set (map f cs) = set (map Some ks)" by (rule mset_eq_setD)
  then have "set (map f cs) \<subseteq> range Some" by auto
  then have "map f cs = map Some (map (\<lambda>c. the (f c)) cs)" by auto
  moreover from this a have "mset (map (\<lambda>c. the (f c)) cs) = mset ks"
    by (metis mset_map multiset.inj_map inj_Some injD)
  ultimately show "\<exists>ns. map f cs = map Some ns \<and> mset ns = mset ks" by blast
qed (metis mset_map)

lemma cap_set_iff:
  "normalize_cap_set cs = normalize_cap_set pg_cap_add \<longleftrightarrow> mset (map normalize_cap_name cs) = mset (map Some pg_cap_add)"
proof -
  have e: "normalize_cap_set pg_cap_add = Inr (sort pg_cap_add)" by code_simp
  have d: "distinct pg_cap_add" by (simp add: pg_cap_add_def)
  have "(\<forall>n\<in>set ns. n \<in> set pg_cap_add) \<and> set ns \<inter> set [] = {} \<and> distinct ns \<and> sort pg_cap_add = sort ([] @ ns)
      \<longleftrightarrow> mset ns = mset pg_cap_add" for ns
    unfolding sort_eq_iff append_Nil using mset_eq_setD[of ns pg_cap_add] mset_eq_imp_distinct_iff[of ns pg_cap_add] d
    by fastforce
  then have "normalize_cap_set cs = Inr (sort pg_cap_add) \<longleftrightarrow>
      (\<exists>ns. map normalize_cap_name cs = map Some ns \<and> mset ns = mset pg_cap_add)"
    unfolding normalize_cap_set_def caps_collected by simp
  then show ?thesis unfolding e mset_map_Some .
qed

text \<open>The container of a service as the provider accepts it.\<close>

definition reported_aliases :: "string \<Rightarrow> service_inspect \<Rightarrow> string list" where
  "reported_aliases n i = (if in_backend i = ''docker'' then [n] else [n, take 12 (in_id i), pg_container_name n])"

definition hardened :: "service_inspect \<Rightarrow> bool" where
  "hardened i \<longleftrightarrow>
     in_ports i = [] \<and> in_restart i = ''unless-stopped'' \<and> \<not> in_privileged i \<and> in_no_new_privileges i \<and>
     mset (map normalize_cap_name (in_cap_add i)) = mset (map Some pg_cap_add) \<and>
     (in_backend i = ''docker'' \<longrightarrow> map normalize_cap_name (in_cap_drop i) = [Some ''ALL''])"

definition owned_container ::
  "'w pg_env \<Rightarrow> service_spec \<Rightarrow> service_state \<Rightarrow> string \<Rightarrow> pinned_image_ref \<Rightarrow> secret_mounts \<Rightarrow> service_inspect \<Rightarrow> bool" where
  "owned_container env sp st generation img m i \<longleftrightarrow>
     (\<forall>c. ss_container st = Some c \<longrightarrow> in_id i = container_id_str c) \<and> length (in_id i) = 64 \<and> list_all is_lower_hex (in_id i) \<and>
     in_labels i = service_labels env sp st generation \<and>
     (\<exists>d\<in>set (in_digests i). normalize_repo_digest d = normalize_repo_digest (repo_digest img)) \<and>
     length (in_networks i) = 1 \<and> in_network i = px_network env \<and> in_backend i \<in> {''docker'', ''podman''} \<and>
     distinct (in_aliases i) \<and> mset (in_aliases i) = mset (reported_aliases (service_name_str (sp_name sp)) i) \<and>
     hardened i \<and> mset (in_mounts i) = mset (map mount_tuple (pg_mounts (pg_data_path env sp) m))"

lemma capabilities_iff:
  "verify_capabilities n i = Inr u \<longleftrightarrow>
     mset (map normalize_cap_name (in_cap_add i)) = mset (map Some pg_cap_add) \<and>
     (in_backend i = ''docker'' \<longrightarrow> map normalize_cap_name (in_cap_drop i) = [Some ''ALL''])"
proof -
  have e: "normalize_cap_set pg_cap_add = Inr (sort pg_cap_add)" "normalize_cap_drop_set [''ALL''] = Inr [''ALL'']"
    by code_simp+
  have "normalize_cap_drop_set cs = Inr [''ALL''] \<longleftrightarrow> map normalize_cap_name cs = [Some ''ALL'']" for cs
  proof -
    have "[''ALL''] = sort ns \<longleftrightarrow> ns = [''ALL'']" for ns
      using sort_eq_iff[of "[''ALL'']" ns] by (auto simp: mset_single_iff_right)
    then show ?thesis unfolding normalize_cap_drop_set_def caps_collected by auto
  qed
  moreover have "normalize_cap_set (in_cap_add i) = Inr (sort pg_cap_add) \<longleftrightarrow>
      mset (map normalize_cap_name (in_cap_add i)) = mset (map Some pg_cap_add)"
    using cap_set_iff[of "in_cap_add i"] unfolding e .
  moreover have "verify_capabilities n i = Inr u \<longleftrightarrow> normalize_cap_set (in_cap_add i) = Inr (sort pg_cap_add) \<and>
      (in_backend i = ''docker'' \<longrightarrow> normalize_cap_drop_set (in_cap_drop i) = Inr [''ALL''])"
    unfolding verify_capabilities_def e sum.case and_then_simps
    by (cases "normalize_cap_set (in_cap_add i)"; cases "normalize_cap_drop_set (in_cap_drop i)") (simp_all add: require_def)
  ultimately show ?thesis by simp
qed

lemma pg_mounts_distinct: "distinct (map mount_tuple (pg_mounts p m))"
  by (simp add: pg_mounts_def mount_tuple_def)

theorem verify_ownership_iff:
  assumes "px_mounts env w (ss_instance st) = Inr m"
  shows "verify_ownership env w sp st generation img i = Inr () \<longleftrightarrow> owned_container env sp st generation img m i"
proof -
  have c: "(case ss_container st of Some c \<Rightarrow> in_id i = container_id_str c | None \<Rightarrow> True) \<longleftrightarrow>
      (\<forall>c. ss_container st = Some c \<longrightarrow> in_id i = container_id_str c)" by (auto split: option.split)
  have u: "and_then r k = Inr () \<longleftrightarrow> r = Inr () \<and> k () = Inr ()" for r :: "service_error + unit" and k
    by (cases r) auto
  note rules = verify_ownership_def Let_def u require_Inr_iff capabilities_iff assms sum.case c and_then_simps
    verify_mounts_iff[OF pg_mounts_distinct] remdups_adj_sorted sort_eq_iff owned_container_def hardened_def list_ex_iff
  show ?thesis
  proof (cases "in_backend i \<in> {''docker'', ''podman''}")
    case True
    then have "allowed_aliases n i = Inr (reported_aliases n i)" for n
      by (auto simp: allowed_aliases_def reported_aliases_def)
    then show ?thesis using True by (simp only: rules) blast
  next
    case False
    then have "\<exists>e. allowed_aliases n i = Inl e" for n by (simp add: allowed_aliases_def)
    then obtain e where "allowed_aliases (service_name_str (sp_name sp)) i = Inl e" by blast
    then show ?thesis using False by (simp only: rules) blast
  qed
qed

section \<open>Own containers are recognised\<close>

text \<open>Docker names an image of Docker Hub in the familiar form, without the host and without \<open>library/\<close>;
  Podman keeps the full form.\<close>

definition familiar_digest :: "string \<Rightarrow> string" where
  "familiar_digest d =
     (case strip_prefix ''docker.io/library/'' d of
        Some r \<Rightarrow> r
      | None \<Rightarrow> (case strip_prefix ''docker.io/'' d of Some r \<Rightarrow> r | None \<Rightarrow> d))"

definition reported_digest :: "string \<Rightarrow> string \<Rightarrow> string" where
  "reported_digest backend d = (if backend = ''docker'' then familiar_digest d else d)"

lemma catalog_digest_normalized:
  assumes "resolve_image_for_version v = Inr img"
  shows "normalize_repo_digest (reported_digest b (repo_digest img)) = normalize_repo_digest (repo_digest img)"
proof -
  have "parse_catalog_ref = Inr img"
    using assms by (simp add: resolve_image_for_version_def split: if_splits)
  then have "img = projr parse_catalog_ref" by (metis sum.sel(2))
  moreover have "normalize_repo_digest (familiar_digest (repo_digest (projr parse_catalog_ref))) =
      normalize_repo_digest (repo_digest (projr parse_catalog_ref))" by code_simp
  ultimately show ?thesis by (simp add: reported_digest_def)
qed

text \<open>What a documented backend reports of a container it created from a specification.\<close>

definition reports :: "service_container_spec \<Rightarrow> service_inspect \<Rightarrow> bool" where
  "reports k i \<longleftrightarrow>
     in_labels i = kp_labels k \<and> reported_digest (in_backend i) (repo_digest (kp_image k)) \<in> set (in_digests i) \<and>
     in_networks i = [kp_network k] \<and> in_network i = kp_network k \<and> in_backend i \<in> {''docker'', ''podman''} \<and>
     length (in_id i) = 64 \<and> list_all is_lower_hex (in_id i) \<and>
     mset (in_aliases i) = mset (kp_aliases k @ (if in_backend i = ''docker'' then [] else [take 12 (in_id i), kp_name k])) \<and>
     in_ports i = [] \<and> in_restart i = (if kp_unless_stopped k then ''unless-stopped'' else ''no'') \<and>
     \<not> in_privileged i \<and> in_no_new_privileges i \<and>
     mset (map normalize_cap_name (in_cap_add i)) = mset (map normalize_cap_name (sy_cap_add (kp_security k))) \<and>
     (in_backend i = ''docker'' \<longrightarrow> in_cap_drop i = [''ALL'']) \<and>
     mset (in_mounts i) = mset (map mount_tuple (kp_mounts k))"

lemma build_spec_fields:
  assumes "pg_build_spec n img network labels mounts = Inr k"
  shows "kp_name k = pg_container_name n" "kp_image k = img" "kp_network k = network" "kp_aliases k = [n]"
    "kp_mounts k = mounts" "kp_labels k = labels" "kp_unless_stopped k" "sy_cap_add (kp_security k) = pg_cap_add"
  using assms
  by (auto simp: pg_build_spec_def container_spec_new_def split: if_splits option.splits list.splits)

text \<open>The specification is always accepted for the name of a service.\<close>

lemma build_spec_total:
  assumes "length n \<le> 63" "network \<noteq> []"
  shows "\<exists>k. pg_build_spec n img network labels mounts = Inr k"
proof -
  have "find secret_env_key [''POSTGRES_INITDB_ARGS'', ''POSTGRES_PASSWORD_FILE''] = None" by code_simp
  then show ?thesis using assms
    by (simp add: pg_build_spec_def container_spec_new_def pg_container_name_def pg_healthcheck_test_def)
qed

text \<open>C26. The container that the provider creates from the catalog image is the container it recognises: when the
  backend reports the specification it was given, with the image named the way Docker (without the host and
  \<open>library/\<close>) or Podman (in full) names it, the ownership check passes exactly if the storage handed out the data
  path that the check computes. The reported aliases are distinct, the id is the recorded one if any is recorded, and
  the secret mounts of the service are available.\<close>

theorem provisioned_is_owned:
  assumes "pg_build_spec (service_name_str (sp_name sp)) img (px_network env)
      (service_labels env sp st (am_generation m)) (pg_mounts data m) = Inr k"
    and "reports k i" "distinct (in_aliases i)" "\<forall>c. ss_container st = Some c \<longrightarrow> in_id i = container_id_str c"
    and "px_mounts env w (ss_instance st) = Inr m" "resolve_image_for_version (sp_version sp) = Inr img"
  shows "verify_ownership env w sp st (am_generation m) img i = Inr () \<longleftrightarrow> data = pg_data_path env sp"
proof -
  note f = build_spec_fields[OF assms(1)]
  have caps: "map normalize_cap_name pg_cap_add = map Some pg_cap_add" "map normalize_cap_name [''ALL''] = [Some ''ALL'']"
    by code_simp+
  have "mset (map mount_tuple (pg_mounts data m)) = mset (map mount_tuple (pg_mounts p m)) \<longleftrightarrow> data = p" for p
    by (auto simp: pg_mounts_def mount_tuple_def)
  moreover have "\<exists>d\<in>set (in_digests i). normalize_repo_digest d = normalize_repo_digest (repo_digest img)"
    using assms(2) catalog_digest_normalized[OF assms(6)] by (auto simp: reports_def f(2))
  ultimately show ?thesis
    using assms(2-4) caps unfolding verify_ownership_iff[OF assms(5)]
    by (auto simp: reports_def owned_container_def hardened_def reported_aliases_def f)
qed

section \<open>Nothing foreign is touched\<close>

text \<open>C25. No operation of the provider touches a container that is not the service's own: when the inspected
  container fails any point of the ownership check, ensuring, removing and creating a resource answer an error, and
  the inspection is the last request they made.\<close>

theorem only_owned_touched:
  assumes "ss_container st = Some cid" "px_inspect env w (container_id_str cid) = (w1, Inr i)"
    and "px_mounts env w (ss_instance st) = Inr m" "px_mounts env w1 (ss_instance st) = Inr m"
    and "state_spec st = Inr sp" "\<not> owned_container env sp st (am_generation m) (projr parse_catalog_ref) m i"
  shows "(\<exists>e. pg_remove env w st = (w1, Inl e)) \<and> (\<exists>e. pg_ensure env w sp st \<in> {(w, Inl e), (w1, Inl e)}) \<and>
    (\<exists>e. pg_create_resource env w sp st r \<in> {(w, Inl e), (w1, Inl e)})"
proof -
  obtain img where img: "parse_catalog_ref = Inr img" using catalog_ref by blast
  have res: "resolve_image_for_version v = Inr img \<or> (\<exists>e. resolve_image_for_version v = Inl e)" for v
    by (simp add: resolve_image_for_version_def img)
  have "verify_ownership env w1 sp st (am_generation m) img i \<noteq> Inr ()"
    using assms(6) unfolding img sum.sel verify_ownership_iff[OF assms(4)] .
  then obtain e where e: "verify_ownership env w1 sp st (am_generation m) img i = Inl e"
    by (cases "verify_ownership env w1 sp st (am_generation m) img i") auto
  have "\<exists>e. pg_remove env w st = (w1, Inl e)"
    using res[of "ss_version st"] e
    by (cases "in_id i = container_id_str cid"; cases "ss_hash st")
      (auto simp: pg_remove_def assms(1,2,4,5) pg_remove_owned_def Let_def)
  moreover have "\<exists>e. pg_ensure env w sp st \<in> {(w, Inl e), (w1, Inl e)}"
    using res[of "sp_version sp"] e
    by (cases "px_rootful env w") (auto simp: pg_ensure_def assms(1-3) active_mounts_def pg_adopt_def)
  moreover have "\<exists>e. pg_create_resource env w sp st r \<in> {(w, Inl e), (w1, Inl e)}"
    using res[of "sp_version sp"] e
    by (cases "px_rootful env w") (auto simp: pg_create_resource_def Let_def assms(1-3) active_mounts_def)
  ultimately show ?thesis by blast
qed

section \<open>The statement\<close>

definition ident_char :: "char \<Rightarrow> bool" where
  "ident_char c \<longleftrightarrow> is_lower_digit c \<or> c = CHR ''_''"

definition masked :: "string \<Rightarrow> string" where
  "masked s = map (\<lambda>c. if ident_char c then CHR ''x'' else c) s"

lemma masked_ident: "list_all ident_char s \<Longrightarrow> masked s = replicate (length s) (CHR ''x'')"
  by (induction s) (auto simp: masked_def)

lemma masked_append [simp]: "masked (s @ t) = masked s @ masked t" "masked (concat ss) = concat (map masked ss)"
  by (simp add: masked_def) (induction ss, simp_all add: masked_def)

lemma credentials_ident:
  assumes "resource_credentials_new i p = Inr r"
  shows "rc_id r = i" "rc_password r = p" "length i = id_total_len" "length p = password_hex_len"
    "list_all ident_char i" "list_all ident_char p"
proof -
  have v: "validate_resource_id i = Inr ()" "validate_resource_password p = Inr ()" "rc_id r = i" "rc_password r = p"
    using assms by (auto simp: resource_credentials_new_def result_simps)
  have hex: "list_all is_lower_hex s \<Longrightarrow> list_all ident_char s" for s
    by (auto simp: list_all_iff ident_char_def lower_hex_lower_digit)
  obtain h where "i = id_prefix @ h" "list_all is_lower_hex h"
    using v(1) by (auto simp: validate_resource_id_def result_simps strip_prefix_def prefix_def split: if_splits)
  moreover have "list_all ident_char id_prefix" by code_simp
  ultimately show "list_all ident_char i" using hex by simp
  show "list_all ident_char p" "length p = password_hex_len" "length i = id_total_len"
    using v(1,2) hex by (auto simp: validate_resource_password_def validate_resource_id_def split: if_splits)
qed (use assms in \<open>auto simp: resource_credentials_new_def result_simps\<close>)

text \<open>C27. A resource cannot inject SQL: two accepted credentials give statements of the same length that differ
  in identifier characters only, so every quote, backslash, semicolon, dollar sign and line break of the statement is
  the template's.\<close>

theorem sql_not_injected:
  assumes "resource_credentials_new i p = Inr r" "resource_credentials_new i' p' = Inr r'"
  shows "masked (build_resource_sql r) = masked (build_resource_sql r')"
proof -
  note a = credentials_ident[OF assms(1)] and b = credentials_ident[OF assms(2)]
  obtain pre where pre: "role_comment x = pre @ x" for x by (simp add: role_comment_def)
  have "masked (sql_fill i p (role_comment i) x) = masked (sql_fill i' p' (role_comment i') x)" for x
    using a b by (cases x) (simp_all add: masked_ident pre)
  then have "masked (sql_line i p (role_comment i) l) = masked (sql_line i' p' (role_comment i') l)" for l
    by (simp add: sql_line_def o_def)
  then show ?thesis by (simp add: build_resource_sql_def a(1,2) b(1,2) o_def)
qed

end
