(* ===== verification/PostgresLife.thy ===== *)
theory PostgresLife
  imports PostgresProps
begin

text \<open>
  What a provision leaves on disk, and what becomes of a service when the controller runs over this provider.
  The storage is documented by its view: the files and directories below the services root.
\<close>

section \<open>The storage\<close>

definition storage_documented ::
  "'w pg_env \<Rightarrow> ('w \<Rightarrow> string \<Rightarrow> string option) \<Rightarrow> ('w \<Rightarrow> string \<Rightarrow> bool) \<Rightarrow> bool" where
  "storage_documented px files dirs \<longleftrightarrow>
     (\<forall>w d w1 r. px_create_dir px w d = (w1, r) \<longrightarrow> files w1 = files w \<and> (\<forall>x. dirs w x \<longrightarrow> dirs w1 x) \<and>
        (r = DirCreated \<longrightarrow> \<not> dirs w d \<and> dirs w1 d) \<and> (r = DirExists \<longrightarrow> dirs w d)) \<and>
     (\<forall>w p t. px_read px w p = ReadText t \<longrightarrow> files w p = Some t) \<and>
     (\<forall>w p. px_read px w p = ReadMissing \<longrightarrow> files w p = None) \<and>
     (\<forall>w p t w1. px_write_new px w p t = (w1, True) \<longrightarrow> files w1 = (files w)(p \<mapsto> t) \<and> (\<forall>x. dirs w x \<longrightarrow> dirs w1 x)) \<and>
     (\<forall>w n d. files (fst (px_pgdata px w n d)) = files w \<and> (\<forall>x. dirs w x \<longrightarrow> dirs (fst (px_pgdata px w n d)) x))"

text \<open>The requests to the container runtime do not change the view.\<close>

definition runtime_apart ::
  "'w pg_env \<Rightarrow> ('w \<Rightarrow> string \<Rightarrow> string option) \<Rightarrow> ('w \<Rightarrow> string \<Rightarrow> bool) \<Rightarrow> bool" where
  "runtime_apart px files dirs \<longleftrightarrow>
     (\<forall>w a b. files (fst (px_pull px w a b)) = files w \<and> dirs (fst (px_pull px w a b)) = dirs w) \<and>
     (\<forall>w k. files (fst (px_create px w k)) = files w \<and> dirs (fst (px_create px w k)) = dirs w) \<and>
     (\<forall>w c. files (fst (px_inspect px w c)) = files w \<and> dirs (fst (px_inspect px w c)) = dirs w) \<and>
     (\<forall>w c a e. files (fst (px_probe px w c a e)) = files w \<and> dirs (fst (px_probe px w c a e)) = dirs w)"

text \<open>A marker is read back as it was written.\<close>

lemma i64_read:
  assumes "- 9223372036854775808 \<le> n" "n \<le> 9223372036854775807"
  shows "json_i64 (i64_json n) = Some n"
proof (cases "n < 0")
  case True
  then have "show_nat (nat (- n)) \<noteq> ''0''"
    using digits_val_show_nat[of "nat (- n)"] by (auto simp: digits_val_def digit_val_def)
  then show ?thesis using True assms by (simp add: json_i64_def i64_json_def parse_i64_def)
next
  case False
  obtain c cs where c: "show_nat (nat n) = c # cs" by (cases "show_nat (nat n)") simp_all
  then have "is_digit c" using show_nat_digits[of "nat n"] by simp
  then have "c \<noteq> CHR ''-''" by (auto simp: byte_class_defs less_eq_char_def)
  then have "parse_i64 (show_nat (nat n)) = map_option int (parse_uint 9223372036854775807 (show_nat (nat n)))" "show_nat (nat n) \<noteq> ''-0''"
    by (simp_all add: parse_i64_def c)
  then show ?thesis using False assms by (simp add: json_i64_def i64_json_def)
qed

lemma marker_roundtrip:
  assumes "- 9223372036854775808 \<le> bm_data_major mk" "bm_data_major mk \<le> 9223372036854775807"
  shows "marker_of_json (marker_json mk) = Inr mk"
  using i64_read[OF assms]
  by (cases "bm_phase mk") (simp_all add: marker_of_json_def marker_json_def marker_field_def jget_jobj marker_phase_parse_def)

lemma then_w_Inl_iff:
  "then_w m k = (w', Inl e) \<longleftrightarrow> m = (w', Inl e) \<or> (\<exists>w x. m = (w, Inr x) \<and> k w x = (w', Inl e))"
  by (cases m; cases "snd m") (auto simp: then_w_def)

text \<open>An error of these two kinds comes from the container, so the marker has been written before.\<close>

definition container_failure :: "service_error \<Rightarrow> bool" where
  "container_failure e \<longleftrightarrow> (\<exists>t. e = ProvisionFailed t \<or> e = ReadinessFailed t)"

lemma no_container_failure:
  "\<not> container_failure (Blocked a b)" "\<not> container_failure (FilesystemCheck a b)"
  "\<not> container_failure (InvalidVersion v)" "\<not> container_failure (SvInternal r)" "\<not> container_failure (pg_rootless sp)"
  "\<not> container_failure (fs_error sp b)"
  by (simp_all add: container_failure_def pg_rootless_def fs_error_def)

lemma setup_failures:
  "resolve_image_for_version v = Inl e \<Longrightarrow> \<not> container_failure e"
  "active_mounts px w sp st = Inl e \<Longrightarrow> \<not> container_failure e"
  "pg_data_dir px sp w = (w', Inl e) \<Longrightarrow> \<not> container_failure e"
  "marker_from_json prs text = Inl e \<Longrightarrow> \<not> container_failure e"
  "check_marker px sp st m mk = Inl e \<Longrightarrow> \<not> container_failure e"
  "finish_marker px sp st m w = (w', Inl e) \<Longrightarrow> \<not> container_failure e"
proof -
  obtain r where r: "parse_catalog_ref = Inr r" using catalog_ref by blast
  show "resolve_image_for_version v = Inl e \<Longrightarrow> \<not> container_failure e"
    unfolding resolve_image_for_version_def r by (auto simp: no_container_failure split: if_splits)
qed (auto simp: active_mounts_def pg_data_dir_def marker_from_json_def marker_of_json_def marker_field_def check_marker_def
    finish_marker_def and_then_Inl_iff require_Inl_iff ok_or_def no_container_failure Let_def
    split: sum.splits prod.splits dir_result.splits option.splits bool.splits)

lemma token_failure: "pg_data_token px sp w = (w', Inl e) \<Longrightarrow> \<not> container_failure e"
  by (auto simp: pg_data_token_def no_container_failure split: prod.splits sum.splits option.splits)

lemma classify_failure: "classify_data px sp st m existed w = (w', Inl e) \<Longrightarrow> \<not> container_failure e"
  by (auto simp: classify_data_def or_fail_def and_then_Inl_iff no_container_failure dest: setup_failures
      split: read_result.splits if_splits)

locale service_files =
  fixes px :: "'w pg_env"
    and files :: "'w \<Rightarrow> string \<Rightarrow> string option"
    and dirs :: "'w \<Rightarrow> string \<Rightarrow> bool"
  assumes storage: "storage_documented px files dirs"
    and apart: "runtime_apart px files dirs"
begin

lemma view_kept:
  "files (fst (px_pull px w a b)) = files w" "dirs (fst (px_pull px w a b)) = dirs w"
  "files (fst (px_create px w k)) = files w" "dirs (fst (px_create px w k)) = dirs w"
  "files (fst (px_inspect px w c)) = files w" "dirs (fst (px_inspect px w c)) = dirs w"
  "files (fst (px_probe px w c ar e)) = files w" "dirs (fst (px_probe px w c ar e)) = dirs w"
  using apart by (simp_all add: runtime_apart_def)

lemma wait_healthy_view: "files (fst (wait_healthy px cid k w)) = files w \<and> dirs (fst (wait_healthy px cid k w)) = dirs w"
proof (induction k arbitrary: w)
  case (Suc k)
  then show ?case using view_kept(5,6)[of w cid]
    by (cases "px_inspect px w cid"; cases "snd (px_inspect px w cid)") auto
qed simp

lemma readiness_view:
  "files (fst (wait_for_readiness px cid t w)) = files w \<and> dirs (fst (wait_for_readiness px cid t w)) = dirs w"
  using wait_healthy_view[of cid "px_polls px w t" w] view_kept(7,8)
  by (cases "wait_healthy px cid (px_polls px w t) w"; cases "snd (wait_healthy px cid (px_polls px w t) w)")
    (auto simp: wait_for_readiness_def pg_readiness_check_def or_fail_def)

lemma then_view:
  assumes "files (fst m) = files w \<and> dirs (fst m) = dirs w"
    and "\<And>w1 x. files w1 = files w \<and> dirs w1 = dirs w \<Longrightarrow> files (fst (k w1 x)) = files w \<and> dirs (fst (k w1 x)) = dirs w"
  shows "files (fst (then_w m k)) = files w \<and> dirs (fst (then_w m k)) = dirs w"
  using assms by (cases m; cases "snd m") (auto simp: then_w_def)

lemma run_view: "files (fst (run_postgres px sp st m img data w)) = files w \<and> dirs (fst (run_postgres px sp st m img data w)) = dirs w"
  unfolding run_postgres_def
  by (intro then_view) (auto simp: or_fail_def view_kept readiness_view split: prod.split dest!: arg_cong[of _ _ fst])

lemma classify_fresh:
  assumes "files w (marker_path sp) = None" "classify_data px sp st m False w = (w1, Inr u)"
  shows "files w1 (marker_path sp) = Some (px_print px (marker_json (pg_marker px st m MkInitializing))) \<and>
    (\<forall>x. dirs w x \<longrightarrow> dirs w1 x)"
proof (cases "px_read px w (marker_path sp)")
  case (ReadText t)
  then show ?thesis using storage assms(1) by (auto simp: storage_documented_def)
next
  case ReadMissing
  let ?t = "px_print px (marker_json (pg_marker px st m MkInitializing))"
  have "px_write_new px w (marker_path sp) ?t = (w1, True)"
    using assms(2) ReadMissing
    by (cases "px_write_new px w (marker_path sp) ?t"; cases "snd (px_write_new px w (marker_path sp) ?t)")
      (auto simp: classify_data_def or_fail_def)
  then have "files w1 = (files w)(marker_path sp \<mapsto> ?t) \<and> (\<forall>x. dirs w x \<longrightarrow> dirs w1 x)"
    using storage by (simp add: storage_documented_def)
  then show ?thesis by simp
qed (use assms(2) in \<open>simp add: classify_data_def\<close>)

lemma failed_provision_marks:
  assumes fresh: "\<not> dirs w (service_name_str (sp_name sp))" "files w (marker_path sp) = None"
    and run: "pg_provision px w sp st = (w1, Inl e)" and e: "container_failure e"
  shows "\<exists>m img. px_mounts px w (ss_instance st) = Inr m \<and> resolve_image_for_version (sp_version sp) = Inr img \<and>
    files w1 (marker_path sp) = Some (px_print px (marker_json (pg_marker px st m MkInitializing))) \<and>
    dirs w1 (service_name_str (sp_name sp))"
proof -
  have "\<exists>img m existed wd wc wp data u. resolve_image_for_version (sp_version sp) = Inr img \<and>
    active_mounts px w sp st = Inr m \<and> pg_data_dir px sp w = (wd, Inr existed) \<and>
    classify_data px sp st m existed wd = (wc, Inr u) \<and> pg_data_token px sp wc = (wp, Inr data) \<and>
    run_postgres px sp st m img data wp = (w1, Inl e)"
    using run e unfolding pg_provision_def then_w_Inl_iff
    by (auto simp: require_Inl_iff no_container_failure dest: setup_failures classify_failure token_failure)
  then obtain img m existed wd wc wp data u where
    img: "resolve_image_for_version (sp_version sp) = Inr img" and m: "active_mounts px w sp st = Inr m"
    and d: "pg_data_dir px sp w = (wd, Inr existed)" and c: "classify_data px sp st m existed wd = (wc, Inr u)"
    and p: "pg_data_token px sp wc = (wp, Inr data)"
    and r: "run_postgres px sp st m img data wp = (w1, Inl e)" by blast
  let ?n = "service_name_str (sp_name sp)" and ?M = "marker_path sp"
  obtain wr res where cr: "px_create_dir px w ?n = (wr, res)" by fastforce
  then have "files wr = files w" "res = DirCreated \<longrightarrow> dirs wr ?n" "res = DirExists \<longrightarrow> dirs w ?n"
    using storage unfolding storage_documented_def by blast+
  then have d': "files wd = files w" "dirs wd ?n" "existed = False"
    using d cr fresh(1) by (auto simp: pg_data_dir_def split: dir_result.splits)
  then have c': "files wc ?M = Some (px_print px (marker_json (pg_marker px st m MkInitializing)))" "dirs wc ?n"
    using classify_fresh[of wd sp st m wc u] c fresh(2) by auto
  have "wp = fst (px_pgdata px wc ?n pgdata_subdir)"
    using p by (auto simp: pg_data_token_def split: prod.splits sum.splits option.splits)
  then have "files wp = files wc \<and> (\<forall>x. dirs wc x \<longrightarrow> dirs wp x)"
    using storage by (simp add: storage_documented_def)
  moreover have "files w1 = files wp \<and> dirs w1 = dirs wp" using run_view[of sp st m img data wp] r by simp
  moreover have "px_mounts px w (ss_instance st) = Inr m" using m by (simp add: active_mounts_def split: sum.splits)
  ultimately show ?thesis using img c' by auto
qed

text \<open>From then on every provision is refused before it changes anything.\<close>

lemma marked_provision_refused:
  assumes view: "files w (marker_path sp) = Some (px_print px (marker_json mk))" "dirs w (service_name_str (sp_name sp))"
    and json: "px_parse px (px_print px (marker_json mk)) = Inr (marker_json mk)"
    and major: "- 9223372036854775808 \<le> bm_data_major mk" "bm_data_major mk \<le> 9223372036854775807"
    and mk: "bm_phase mk = MkInitializing" and img: "resolve_image_for_version (sp_version sp) = Inr img"
  shows "\<exists>e. is_permanent e \<and> pg_provision px w sp st \<in> {(w, Inl e), (fst (px_create_dir px w (service_name_str (sp_name sp))), Inl e)}"
proof -
  let ?n = "service_name_str (sp_name sp)" and ?M = "marker_path sp"
  have perm: "is_permanent (Blocked a b)" "is_permanent (fs_error sp b)" "is_permanent (pg_rootless sp)" for a b
    by (simp_all add: is_permanent_def fs_error_def pg_rootless_def)
  obtain wd res where cr: "px_create_dir px w ?n = (wd, res)" by fastforce
  have wd: "files wd = files w" "res \<noteq> DirCreated"
    using storage cr view(2) unfolding storage_documented_def by blast+
  have read: "px_read px wd ?M \<noteq> ReadMissing" "px_read px wd ?M = ReadText t \<Longrightarrow> t = px_print px (marker_json mk)" for t
  proof -
    show "px_read px wd ?M \<noteq> ReadMissing" using storage view(1) wd(1) unfolding storage_documented_def by fastforce
    show "px_read px wd ?M = ReadText t \<Longrightarrow> t = px_print px (marker_json mk)"
      using storage view(1) wd(1) unfolding storage_documented_def by fastforce
  qed
  have "\<exists>e. is_permanent e \<and> check_marker px sp st m mk = Inl e" for m
    using mk by (auto simp: check_marker_def Let_def require_def perm)
  then obtain f where f: "\<And>m. is_permanent (f m) \<and> check_marker px sp st m mk = Inl (f m)" by metis
  have cl: "\<exists>e. is_permanent e \<and> classify_data px sp st m True wd = (wd, Inl e)" for m
    using read f[of m] perm
    by (cases "px_read px wd ?M") (auto simp: classify_data_def marker_from_json_def json marker_roundtrip[OF major])
  consider "\<not> px_rootful px w" | "\<not> px_storage px" "px_rootful px w"
    | e where "active_mounts px w sp st = Inl e" "px_rootful px w" "px_storage px"
    | m where "active_mounts px w sp st = Inr m" "px_rootful px w" "px_storage px"
    by (cases "active_mounts px w sp st") auto
  then show ?thesis
  proof cases
    case (3 e)
    then have "is_permanent e" by (auto simp: active_mounts_def perm split: sum.splits)
    then show ?thesis using 3 img by (auto simp: pg_provision_def)
  next
    case (4 m)
    show ?thesis
    proof (cases res)
      case DirExists
      obtain e where "is_permanent e" "classify_data px sp st m True wd = (wd, Inl e)" using cl by blast
      then show ?thesis using 4 img cr DirExists by (auto simp: pg_provision_def pg_data_dir_def)
    qed (use 4 img cr wd(2) perm in \<open>auto simp: pg_provision_def pg_data_dir_def\<close>)
  qed (use img perm in \<open>auto simp: pg_provision_def\<close>)
qed

end

text \<open>C24. A first provision that fails once its container is involved, and be it because the registry was
  out of reach for a moment, closes the service for good: the bootstrap marker stays behind as \<open>initializing\<close>, and
  every later provision of the service, whatever its state, is refused with a permanent error before anything else is
  tried.\<close>

theorem failed_provision_wedges:
  assumes doc: "storage_documented px files dirs" "runtime_apart px files dirs"
    and fresh: "\<not> dirs w (service_name_str (sp_name sp))" "files w (marker_path sp) = None"
    and st: "0 < ss_data_major st" "ss_data_major st < 100000"
    and json: "\<And>m. px_mounts px w (ss_instance st) = Inr m \<Longrightarrow>
      px_parse px (px_print px (marker_json (pg_marker px st m MkInitializing))) = Inr (marker_json (pg_marker px st m MkInitializing))"
    and run: "pg_provision px w sp st = (w1, Inl e)" "container_failure e"
    and later: "files w2 = files w1" "\<forall>d. dirs w1 d \<longrightarrow> dirs w2 d"
  shows "\<exists>e'. is_permanent e' \<and>
    pg_provision px w2 sp st2 \<in> {(w2, Inl e'), (fst (px_create_dir px w2 (service_name_str (sp_name sp))), Inl e')}"
proof -
  have loc: "service_files px files dirs" using doc by (rule service_files.intro)
  obtain m img where m: "px_mounts px w (ss_instance st) = Inr m" "resolve_image_for_version (sp_version sp) = Inr img"
    "files w1 (marker_path sp) = Some (px_print px (marker_json (pg_marker px st m MkInitializing)))"
    "dirs w1 (service_name_str (sp_name sp))"
    using service_files.failed_provision_marks[OF loc fresh run] by blast
  show ?thesis
    by (rule service_files.marked_provision_refused[OF loc _ _ json[OF m(1)], of w2 sp])
      (use m st later in \<open>auto simp: pg_marker_def\<close>)
qed

section \<open>The controller over this provider\<close>

lemma postgres_env_simps:
  "se_codec (postgres_env px lm base) = se_codec base" "se_validate (postgres_env px lm base) = pg_validate"
  "se_remove (postgres_env px lm base) = pg_remove px" "se_rootful (postgres_env px lm base) = px_rootful px"
  "se_ensure (postgres_env px lm base) w sp st = within_deadline lm w (pg_ensure px w sp st)"
  by (simp_all add: postgres_env_def)

text \<open>The provider meets what the controller relies on: every container it reports has a full id.\<close>

lemma full_id: "container_valid c \<longleftrightarrow> length (container_id_str c) = 64 \<and> list_all is_lower_hex (container_id_str c)"
  by (cases c) (auto simp: container_valid_def container_id_parse_def result_simps check_hex_def)

lemma pg_provision_container:
  assumes "pg_provision px w sp st = (w1, Inr cid)"
  shows "container_valid cid"
proof -
  obtain img m data w2 w3 where "run_postgres px sp st m img data w2 = (w3, Inr cid)"
    using assms by (auto simp: pg_provision_def then_w_Inr_iff)
  then obtain out where "container_id_parse out = Inr cid"
    by (auto simp: run_postgres_def then_w_Inr_iff split: sum.splits) (metis sum.exhaust)
  then show ?thesis by (auto simp: container_id_parse_def result_simps check_hex_def full_id split: if_splits)
qed

lemma verified_full_id:
  assumes "verify_ownership px w sp st g img i = Inr ()" "ss_container st = Some cid"
  shows "container_valid cid"
  using assms by (auto simp: verify_ownership_def Let_def result_simps full_id)

lemma pg_adopt_container:
  assumes "pg_adopt px sp st m img cid i w = (w1, Inr eo)" "ss_container st = Some cid"
  shows "container_valid (eo_container eo)"
proof -
  have "verify_ownership px w sp st (am_generation m) img i = Inr ()"
    using assms(1) by (auto simp: pg_adopt_def then_w_Inr_iff)
  moreover have "eo_container eo = cid"
    using assms(1) unfolding pg_adopt_def then_w_Inr_iff by (auto split: if_splits simp: then_w_Inr_iff)
  ultimately show ?thesis using verified_full_id[OF _ assms(2)] by metis
qed

lemma pg_recreate_container: "pg_recreate px sp st w = (w1, Inr eo) \<Longrightarrow> container_valid (eo_container eo)"
  by (auto simp: pg_recreate_def then_w_Inr_iff dest: pg_provision_container)

lemma pg_ensure_container:
  assumes "pg_ensure px w sp st = (w1, Inr eo)"
  shows "container_valid (eo_container eo)"
proof (cases "ss_container st")
  case None
  then show ?thesis using assms by (auto simp: pg_ensure_def then_w_Inr_iff dest: pg_recreate_container)
next
  case (Some cid)
  obtain w2 r where r: "px_inspect px w (container_id_str cid) = (w2, r)" by fastforce
  show ?thesis
    using assms Some r
    by (cases r) (auto simp: pg_ensure_def then_w_Inr_iff dest: pg_recreate_container pg_adopt_container split: if_splits)
qed

lemma postgres_env_ok:
  assumes "repo_codec_ok (se_codec base)" "\<And>x. hash_valid (SpecHash (px_sha px x))"
    and "\<And>w w' h. se_random base w = (w', Some h) \<Longrightarrow> length h = 32 \<and> list_all is_lower_hex h"
  shows "env_ok (postgres_env px lm base)"
proof -
  have "snd (pg_ensure px w sp st) = Inr eo \<Longrightarrow> container_valid (eo_container eo)" for w sp st eo
    using pg_ensure_container[of px w sp st "fst (pg_ensure px w sp st)" eo] by (simp add: prod_eq_iff)
  then show ?thesis
    using assms pg_provision_container unfolding env_ok_def
    by (auto simp: postgres_env_def within_deadline_def split: option.splits prod.splits)
qed

lemma pg_remove_unhashed:
  assumes "ss_hash st = None" "ss_container st = Some cid" "px_inspect px w (container_id_str cid) = (w1, Inr i)"
  shows "\<exists>e. pg_remove px w st = (w1, Inl e)"
proof -
  have "\<exists>e. then_w (w1, r) (\<lambda>w _. (w, Inl x)) = (w1, Inl e)" for r :: "service_error + 'c" and x :: service_error
    by (cases r) auto
  then show ?thesis
    using assms
    by (cases "in_id i = container_id_str cid"; cases "px_mounts px w1 (ss_instance st)"; cases "resolve_image_for_version (ss_version st)")
      (simp_all add: pg_remove_def pg_remove_owned_def Let_def)
qed

text \<open>C22. After one successful convergence, the one at the start of the daemon included, a service cannot be removed
  while its container exists: the convergence erases the recorded specification hash, and the provider refuses to remove
  a container without it, whatever the generation, the bindings and the force flag are.\<close>

theorem ensured_never_removed:
  fixes px :: "'w pg_env"
  assumes env: "env_ok (postgres_env px lm base)"
    and reach: "(ctl_step (postgres_env px lm base))\<^sup>*\<^sup>* \<lparr>sc_db = empty_db, sc_world = w0\<rparr> c"
    and row: "get_service (se_codec base) (sc_db c) n = Inr (Some row)"
    and s: "get_state (se_codec base) (sc_db c) n = Inr (Some s)" "ss_phase s \<noteq> PhBlocked"
    and val: "pg_validate (projr (row_to_spec row)) = Inr ()" and now: "time_ok now"
    and pa: "provider_answer (postgres_env px lm base) (sc_world c) row s = (w, Some (Inr eo))"
    and r: "ensure_one (postgres_env px lm base) now n c = (c', res)"
    and later: "px_inspect px w' (container_id_str (eo_container eo)) = (w'', Inr i)"
  shows "\<exists>e. service_remove (postgres_env px lm base) now' users n g force (c'\<lparr>sc_world := w'\<rparr>) \<in>
      {(c'\<lparr>sc_world := w'\<rparr>, Inl e), (c'\<lparr>sc_world := w''\<rparr>, Inl e)}"
proof -
  let ?env = "postgres_env px lm base" and ?c = "c'\<lparr>sc_world := w'\<rparr>" and ?s = "ensured_state now eo s"
  obtain t where t: "keeps_ledger ?env c' t" "desired t n = Some row" "control t n = Some ?s"
    using active_ensure[OF env reach _ _ s(2) _ now pa r] row s val by (auto simp: postgres_env_simps)
  have k: "keeps_ledger ?env ?c t" using t(1) by simp
  note rd = reads[OF env t(1), unfolded postgres_env_simps]
  have st: "ss_hash ?s = None" "ss_container ?s = Some (eo_container eo)"
    by (simp_all add: ensured_state_def cas_state_def)
  obtain e where e: "pg_remove px w' ?s = (w'', Inl e)" using pg_remove_unhashed[OF st later] by blast
  have "from_validated ?s = Inr x \<Longrightarrow> x = ?s" for x by (auto simp: from_validated_def split: if_splits)
  then show ?thesis
    using e t(2,3)
    by (auto simp: service_remove_def Let_def rd postgres_env_simps result_simps split: sum.split)
qed

text \<open>C23. One inspection that fails for a moment blocks a running service for good and forgets its container: the
  convergence records the service as Blocked without a container, and the removal that an operator is left with reports
  success without asking the runtime to stop anything.\<close>

theorem failed_inspection_orphans:
  fixes px :: "'w pg_env"
  assumes env: "env_ok (postgres_env px lm base)"
    and reach: "(ctl_step (postgres_env px lm base))\<^sup>*\<^sup>* \<lparr>sc_db = empty_db, sc_world = w0\<rparr> c"
    and row: "get_service (se_codec base) (sc_db c) n = Inr (Some row)"
    and s: "get_state (se_codec base) (sc_db c) n = Inr (Some s)" "ss_phase s \<noteq> PhBlocked"
    and val: "pg_validate (projr (row_to_spec row)) = Inr ()" and now: "time_ok now" "time_ok now'"
    and up: "px_rootful px (sc_world c)" "px_mounts px (sc_world c) (ss_instance s) = Inr m" "lm (sc_world c) = None"
      "build_context (postgres_env px lm base) (sc_world c) s = Inr ()"
    and failed: "ss_container s = Some cid" "px_inspect px (sc_world c) (container_id_str cid) = (w1, Inl msg)" "\<not> not_found msg"
    and r: "ensure_one (postgres_env px lm base) now n c = (c', res)"
    and later: "px_rootful px w'" "build_context (postgres_env px lm base) w' s = Inr ()"
  shows "(\<exists>s'. get_state (se_codec base) (sc_db c') n = Inr (Some s') \<and> ss_phase s' = PhBlocked \<and> ss_container s' = None) \<and>
    (\<exists>db'. service_remove (postgres_env px lm base) now' users n (ss_generation s + 1) True (c'\<lparr>sc_world := w'\<rparr>) =
       (c'\<lparr>sc_world := w', sc_db := db'\<rparr>, Inr (removal_done n users)))"
proof -
  let ?env = "postgres_env px lm base" and ?c = "c'\<lparr>sc_world := w'\<rparr>"
  obtain nm reason where x: "pg_ensure px (sc_world c) (projr (row_to_spec row)) s = (w1, Inl (Blocked nm reason))"
  proof -
    obtain img where "resolve_image_for_version (sp_version (projr (row_to_spec row))) = Inr img"
      using val by (auto simp: pg_validate_def result_simps split: if_splits)
    then show ?thesis using up(1,2) failed that by (simp add: pg_ensure_def active_mounts_def)
  qed
  let ?s = "failed_state now (Blocked nm reason) s"
  have pa: "provider_answer ?env (sc_world c) row s = (w1, Some (Inl (Blocked nm reason)))"
    using x up(3,4) by (simp add: provider_answer_def postgres_env_simps within_deadline_def)
  obtain t where t: "keeps_ledger ?env c' t" "desired t n = Some row" "control t n = Some ?s"
    using active_ensure[OF env reach _ _ s(2) _ now(1) pa r] row s val by (auto simp: postgres_env_simps)
  have k: "keeps_ledger ?env ?c t" using t(1) by simp
  have f: "ss_phase ?s = PhBlocked" "ss_container ?s = None" "ss_generation ?s = ss_generation s + 1"
    "ss_instance ?s = ss_instance s" "ss_name ?s = ss_name s"
    by (simp_all add: failed_state_def is_permanent_def cas_state_def)
  have "build_context ?env w' ?s = build_context ?env w' s"
    by (simp add: build_context_def make_secret_capability_def provider_context_def f)
  then obtain db' where "service_remove ?env now' users n (ss_generation ?s) True ?c =
      (?c\<lparr>sc_world := w', sc_db := db'\<rparr>, Inr (removal_done n users))"
    using remove_succeeds[OF env k now(2) t(2,3), of users True "()" w' "()"] later val
    by (auto simp: f postgres_env_simps pg_remove_def)
  then show ?thesis
    using reads(1)[OF env t(1), of n] t(3) f by (auto simp: postgres_env_simps)
qed

end
