(* ===== verification/PostgresSamples.thy ===== *)
theory PostgresSamples
  imports PostgresLife
begin

text \<open>
  A machine for the PostgreSQL provider: a disk, a registry that may be out of reach, and a container that
  Docker reports as it was specified.  It satisfies the documented laws, and the theorems about the provider apply to it.
\<close>

record pg_world =
  pw_files :: "string \<Rightarrow> string option"
  pw_dirs :: "string \<Rightarrow> bool"
  pw_registry :: bool
  pw_daemon :: bool
  pw_container :: "service_inspect option"

definition sample_mounts :: secret_mounts where
  "sample_mounts = \<lparr>am_generation = ''g1'', am_raw_password = ''/s/raw'', am_pgpass = ''/s/pgpass''\<rparr>"

definition docker_report :: "service_container_spec \<Rightarrow> service_inspect" where
  "docker_report k =
     \<lparr>in_backend = ''docker'', in_id = container_id_str sample_container, in_labels = kp_labels k,
      in_digests = [familiar_digest (repo_digest (kp_image k))],
      in_mounts = map (\<lambda>e. (mt_source e, mt_dest e, mt_read_only e)) (kp_mounts k), in_networks = [kp_network k],
      in_network = kp_network k, in_aliases = kp_aliases k, in_restart = ''unless-stopped'', in_health = ''healthy'',
      in_ports = [], in_running = True, in_privileged = False, in_no_new_privileges = True, in_cap_drop = [''ALL''],
      in_cap_add = sy_cap_add (kp_security k)\<rparr>"

text \<open>The two markers of the sample service, printed by their phase.\<close>

definition sample_marker :: "marker_phase \<Rightarrow> bootstrap_marker" where
  "sample_marker phase =
     \<lparr>bm_installation = ''i'', bm_instance = concat (replicate 8 ''0af9''), bm_provider = ''postgres'', bm_data_major = 18,
      bm_layout = ''v1'', bm_generation = ''g1'', bm_phase = phase\<rparr>"

definition sample_pg :: "pg_world pg_env" where
  "sample_pg =
     \<lparr>px_installation = ''i'', px_network = ''slip'', px_services_root = ''/srv'', px_storage = True,
      px_rootful = (\<lambda>_. True), px_mounts = (\<lambda>_ _. Inr sample_mounts),
      px_create_dir = (\<lambda>w d. if pw_dirs w d then (w, DirExists) else (w\<lparr>pw_dirs := (pw_dirs w)(d := True)\<rparr>, DirCreated)),
      px_read = (\<lambda>w p. case pw_files w p of Some t \<Rightarrow> ReadText t | None \<Rightarrow> ReadMissing),
      px_write_new = (\<lambda>w p t. if pw_files w p = None then (w\<lparr>pw_files := (pw_files w)(p \<mapsto> t)\<rparr>, True) else (w, False)),
      px_rename = (\<lambda>w p q. (w\<lparr>pw_files := (pw_files w)(q := pw_files w p, p := None)\<rparr>, True)),
      px_unlink = (\<lambda>w p. w\<lparr>pw_files := (pw_files w)(p := None)\<rparr>), px_fsync = (\<lambda>w _. (w, True)),
      px_pgdata = (\<lambda>w n d. (w, Inr (path_join (path_join ''/srv'' n) d))), px_revalidate = (\<lambda>_ _. None),
      px_pull = (\<lambda>w _ _. (w, pw_registry w)),
      px_create = (\<lambda>w k. (w\<lparr>pw_container := Some (docker_report k)\<rparr>, Some (container_id_str sample_container))),
      px_inspect = (\<lambda>w _. (w, if pw_daemon w then (case pw_container w of Some i \<Rightarrow> Inr i | None \<Rightarrow> Inl ''container not found'')
                               else Inl ''timeout'')),
      px_probe = (\<lambda>w _ _ _. (w, True)), px_stdin = (\<lambda>w _ _ _ _. (w, True)), px_start = (\<lambda>w _. (w, True)),
      px_stop_remove = (\<lambda>w _. (w\<lparr>pw_container := None\<rparr>, True)), px_polls = (\<lambda>_ t. t div 2),
      px_sha = (\<lambda>_. concat (replicate 16 ''1be8'')),
      px_print = (\<lambda>j. if jget ''phase'' j = Some (JStr ''complete'') then ''C'' else ''I''),
      px_parse = (\<lambda>s. Inr (marker_json (sample_marker (if s = ''C'' then MkComplete else MkInitializing))))\<rparr>"

definition empty_machine :: pg_world where
  "empty_machine = \<lparr>pw_files = (\<lambda>_. None), pw_dirs = (\<lambda>_. False), pw_registry = True, pw_daemon = True, pw_container = None\<rparr>"

lemma sample_storage: "storage_documented sample_pg pw_files pw_dirs"
  by (auto simp: storage_documented_def sample_pg_def split: if_splits option.splits)

lemma sample_apart: "runtime_apart sample_pg pw_files pw_dirs"
  by (simp add: runtime_apart_def sample_pg_def)

interpretation sample_files: service_files sample_pg pw_files pw_dirs
  by unfold_locales (rule sample_storage sample_apart)+

text \<open>The rest of the outside of the controller, on the same machine.\<close>

definition sample_base :: "pg_world service_env" where
  "sample_base =
     \<lparr>se_codec = sample_repo_codec, se_rootful = (\<lambda>_. True), se_storage = True,
      se_create_dir = (\<lambda>w _. (w, DirCreated)), se_bundle = (\<lambda>_ _. True), se_pointer = (\<lambda>_ _. PointerMissing),
      se_generate = (\<lambda>w _. (w, True)), se_random = (\<lambda>w. (w, Some (concat (replicate 8 ''0af9'')))),
      se_password = (\<lambda>w. (w, None)), se_validate = (\<lambda>_. Inr ()),
      se_provision = (\<lambda>w _ _. (w, Inl ForeignContainer)), se_ensure = (\<lambda>w _ _. (w, None)), se_remove = (\<lambda>w _. (w, Inr ())),
      se_create_resource = (\<lambda>w _ _ _. (w, None)), se_resource_env = (\<lambda>_ _. Inr []), se_sha = (\<lambda>x. x), se_print = (\<lambda>_. []),
      se_installation = [], se_resource_hash = (\<lambda>x. x), se_hex = (\<lambda>x. x)\<rparr>"

definition pg_controller :: "pg_world service_env" where
  "pg_controller = postgres_env sample_pg (\<lambda>_. None) sample_base"


section \<open>The theorems on this machine\<close>

definition sample_id :: string where
  "sample_id = id_prefix @ concat (replicate 12 ''0af9'')"

theorem sql_not_injected_witness:
  "masked (build_resource_sql \<lparr>rc_id = sample_id, rc_password = concat (replicate 16 ''0af9'')\<rparr>) =
     masked (build_resource_sql \<lparr>rc_id = sample_id, rc_password = concat (replicate 16 ''1be8'')\<rparr>)"
proof (rule sql_not_injected)
  show "resource_credentials_new sample_id (concat (replicate 16 ''0af9'')) =
      Inr \<lparr>rc_id = sample_id, rc_password = concat (replicate 16 ''0af9'')\<rparr>" by code_simp
  show "resource_credentials_new sample_id (concat (replicate 16 ''1be8'')) =
      Inr \<lparr>rc_id = sample_id, rc_password = concat (replicate 16 ''1be8'')\<rparr>" by code_simp
qed

text \<open>The catalog image and the specification of the container.\<close>

definition pg_image :: pinned_image_ref where
  "pg_image = projr parse_catalog_ref"

lemma sample_image: "resolve_image_for_version (sp_version sample_spec) = Inr pg_image"
proof -
  obtain r where r: "parse_catalog_ref = Inr r" using catalog_ref by blast
  show ?thesis unfolding resolve_image_for_version_def sample_version supported_major_def pg_image_def r by simp
qed

lemma sample_name: "service_name_str (sp_name sample_spec) = ''main-db''"
  by (simp add: sample_spec_def)

definition sample_state :: service_state where
  "sample_state = sample_service_state\<lparr>ss_container := Some sample_container\<rparr>"

definition sample_labels :: "(string \<times> string) list" where
  "sample_labels = service_labels sample_pg sample_spec sample_state ''g1''"

definition sample_container_spec :: service_container_spec where
  "sample_container_spec =
     projr (pg_build_spec ''main-db'' pg_image ''slip'' sample_labels (pg_mounts (pg_data_path sample_pg sample_spec) sample_mounts))"

lemma sample_built:
  "pg_build_spec ''main-db'' pg_image ''slip'' sample_labels (pg_mounts (pg_data_path sample_pg sample_spec) sample_mounts) =
     Inr sample_container_spec"
proof -
  obtain k where k: "pg_build_spec ''main-db'' pg_image ''slip'' sample_labels (pg_mounts (pg_data_path sample_pg sample_spec) sample_mounts) = Inr k"
    using build_spec_total[of "''main-db''" "''slip''"] by fastforce
  then show ?thesis by (simp add: sample_container_spec_def)
qed

lemmas sample_fields = build_spec_fields[OF sample_built]

lemma sample_id64: "length (container_id_str sample_container) = 64 \<and> list_all is_lower_hex (container_id_str sample_container)"
  by code_simp

lemma sample_reports: "reports sample_container_spec (docker_report sample_container_spec)"
  using sample_id64 by (simp add: reports_def docker_report_def reported_digest_def sample_fields mount_tuple_def[abs_def])

theorem provisioned_is_owned_witness:
  "verify_ownership sample_pg empty_machine sample_spec sample_state ''g1'' pg_image (docker_report sample_container_spec) = Inr ()"
proof -
  have m: "am_generation sample_mounts = ''g1''" by (simp add: sample_mounts_def)
  have "pg_build_spec (service_name_str (sp_name sample_spec)) pg_image (px_network sample_pg)
      (service_labels sample_pg sample_spec sample_state (am_generation sample_mounts))
      (pg_mounts (pg_data_path sample_pg sample_spec) sample_mounts) = Inr sample_container_spec"
    using sample_built unfolding m sample_name sample_labels_def by (simp add: sample_pg_def)
  moreover have "distinct (in_aliases (docker_report sample_container_spec))"
    by (simp add: docker_report_def sample_fields)
  moreover have "\<forall>c. ss_container sample_state = Some c \<longrightarrow> in_id (docker_report sample_container_spec) = container_id_str c"
    by (simp add: sample_state_def docker_report_def)
  moreover have "px_mounts sample_pg empty_machine (ss_instance sample_state) = Inr sample_mounts" by (simp add: sample_pg_def)
  ultimately show ?thesis
    using provisioned_is_owned[OF _ sample_reports, of sample_spec pg_image sample_pg sample_state sample_mounts
        "pg_data_path sample_pg sample_spec" empty_machine] sample_image by (simp add: m)
qed

text \<open>A container of somebody else that has taken the place of the service's one.\<close>

definition foreign_container :: service_inspect where
  "foreign_container = (docker_report sample_container_spec)\<lparr>in_privileged := True\<rparr>"

definition foreign_machine :: pg_world where
  "foreign_machine = empty_machine\<lparr>pw_container := Some foreign_container\<rparr>"

theorem only_owned_touched_witness:
  "\<exists>e. pg_remove sample_pg foreign_machine sample_state = (foreign_machine, Inl e)"
proof -
  have i: "px_inspect sample_pg foreign_machine (container_id_str sample_container) = (foreign_machine, Inr foreign_container)"
    by (simp add: sample_pg_def foreign_machine_def empty_machine_def)
  have m: "px_mounts sample_pg foreign_machine x = Inr sample_mounts" for x by (simp add: sample_pg_def)
  have s: "ss_container sample_state = Some sample_container" "state_spec sample_state = Inr sample_spec"
    by (simp_all add: sample_state_def state_spec_def service_spec_new_def sample_service_state_def sample_spec_def)
  have "\<not> owned_container sample_pg sample_spec sample_state g img sample_mounts foreign_container" for g img
    by (simp add: owned_container_def hardened_def foreign_container_def)
  then show ?thesis using only_owned_touched[OF s(1) i m m s(2)] by blast
qed

section \<open>Provisioning on this machine\<close>

lemma sample_pg_simps:
  "px_rootful sample_pg w" "px_storage sample_pg" "px_mounts sample_pg w x = Inr sample_mounts"
  "px_create_dir sample_pg w d = (if pw_dirs w d then (w, DirExists) else (w\<lparr>pw_dirs := (pw_dirs w)(d := True)\<rparr>, DirCreated))"
  "px_read sample_pg w p = (case pw_files w p of Some t \<Rightarrow> ReadText t | None \<Rightarrow> ReadMissing)"
  "px_write_new sample_pg w p t = (if pw_files w p = None then (w\<lparr>pw_files := (pw_files w)(p \<mapsto> t)\<rparr>, True) else (w, False))"
  "px_rename sample_pg w p q = (w\<lparr>pw_files := (pw_files w)(q := pw_files w p, p := None)\<rparr>, True)"
  "px_unlink sample_pg w p = w\<lparr>pw_files := (pw_files w)(p := None)\<rparr>" "px_fsync sample_pg w d = (w, True)"
  "px_pgdata sample_pg w n d = (w, Inr (path_join (path_join ''/srv'' n) d))" "px_revalidate sample_pg w data = None"
  "px_pull sample_pg w a b = (w, pw_registry w)"
  "px_create sample_pg w k = (w\<lparr>pw_container := Some (docker_report k)\<rparr>, Some (container_id_str sample_container))"
  "px_inspect sample_pg w c = (w, if pw_daemon w then (case pw_container w of Some i \<Rightarrow> Inr i | None \<Rightarrow> Inl ''container not found'')
                               else Inl ''timeout'')"
  "px_probe sample_pg w c ar e = (w, True)" "px_polls sample_pg w seconds = seconds div 2" "px_network sample_pg = ''slip''"
  by (simp_all add: sample_pg_def)

lemma sample_postgres_run:
  assumes "pw_registry w" "pw_daemon w"
  shows "\<exists>w1. run_postgres sample_pg sample_spec s m pg_image data w = (w1, Inr sample_container) \<and>
    pw_files w1 = pw_files w \<and> pw_dirs w1 = pw_dirs w"
proof -
  obtain k where k: "pg_build_spec ''main-db'' pg_image ''slip'' (service_labels sample_pg sample_spec s (am_generation m)) (pg_mounts data m) = Inr k"
    using build_spec_total[of "''main-db''" "''slip''"] by fastforce
  have c: "container_id_parse (container_id_str sample_container) = Inr sample_container" by code_simp
  have h: "wait_healthy sample_pg cid (Suc n) v = (v, Inr ())" if "pw_daemon v" "pw_container v = Some (docker_report k)" for cid n v
    using that by (simp add: sample_pg_simps docker_report_def)
  have "wait_healthy sample_pg cid 60 v = (v, Inr ())" if "pw_daemon v" "pw_container v = Some (docker_report k)" for cid v
    using h[of v cid 59] that by (simp add: eval_nat_numeral)
  then show ?thesis
    by (simp add: run_postgres_def sample_pg_simps assms sample_name k c wait_for_readiness_def pg_readiness_check_def)
qed

lemma sample_fresh:
  "classify_data sample_pg sample_spec s m False w =
     (case pw_files w (marker_path sample_spec) of
        None \<Rightarrow> (w\<lparr>pw_files := (pw_files w)(marker_path sample_spec \<mapsto>
            px_print sample_pg (marker_json (pg_marker sample_pg s m MkInitializing)))\<rparr>, Inr ())
      | Some t \<Rightarrow> classify_data sample_pg sample_spec s m False w)"
  by (simp add: classify_data_def sample_pg_simps split: option.split)

lemma sample_finish: "\<exists>w1. finish_marker sample_pg sample_spec s m w = (w1, Inr ())"
  by (simp add: finish_marker_def put_marker_def sample_pg_simps)

lemma sample_classified:
  "\<exists>w v. pg_data_dir sample_pg sample_spec (empty_machine\<lparr>pw_registry := up\<rparr>) = (w, Inr False) \<and>
     classify_data sample_pg sample_spec s sample_mounts False w = (v, Inr ()) \<and> pw_registry v = up \<and> pw_daemon v"
proof -
  let ?w = "empty_machine\<lparr>pw_registry := up, pw_dirs := (pw_dirs empty_machine)(''main-db'' := True)\<rparr>"
  have "pg_data_dir sample_pg sample_spec (empty_machine\<lparr>pw_registry := up\<rparr>) = (?w, Inr False)"
    by (simp add: pg_data_dir_def sample_pg_simps sample_name empty_machine_def)
  moreover have "pw_files ?w (marker_path sample_spec) = None" by (simp add: empty_machine_def)
  ultimately show ?thesis using sample_fresh[of s sample_mounts ?w] by (simp add: empty_machine_def)
qed

lemma sample_token:
  "pg_data_token sample_pg sample_spec w = (w, Inr (path_join (path_join ''/srv'' ''main-db'') pgdata_subdir))"
  by (simp add: pg_data_token_def sample_pg_simps sample_name)

lemma sample_provision:
  "\<exists>w1. pg_provision sample_pg (empty_machine\<lparr>pw_registry := up\<rparr>) sample_spec s =
     (w1, if up then Inr sample_container else Inl (ProvisionFailed ''image pull failed''))"
proof -
  obtain w v where c: "pg_data_dir sample_pg sample_spec (empty_machine\<lparr>pw_registry := up\<rparr>) = (w, Inr False)"
    "classify_data sample_pg sample_spec s sample_mounts False w = (v, Inr ())" "pw_registry v = up" "pw_daemon v"
    using sample_classified by blast
  let ?r = "run_postgres sample_pg sample_spec s sample_mounts pg_image (path_join (path_join ''/srv'' ''main-db'') pgdata_subdir) v"
  have p: "pg_provision sample_pg (empty_machine\<lparr>pw_registry := up\<rparr>) sample_spec s =
      then_w ?r (\<lambda>w cid. then_w (finish_marker sample_pg sample_spec s sample_mounts w) (\<lambda>w _. (w, Inr cid)))"
    by (simp add: pg_provision_def sample_pg_simps(1-3) require_def sample_image active_mounts_def c sample_token)
  show ?thesis
  proof (cases up)
    case True
    then obtain w1 where "?r = (w1, Inr sample_container)" using sample_postgres_run[of v] c by blast
    then show ?thesis unfolding p using True sample_finish[of s sample_mounts w1] by auto
  next
    case False
    then have "?r = (v, Inl (ProvisionFailed ''image pull failed''))" using c(3) by (simp add: run_postgres_def sample_pg_simps)
    then show ?thesis unfolding p using False by simp
  qed
qed

text \<open>The registry is out of reach for a moment; it is back, and the service stays closed.\<close>

theorem failed_provision_wedges_witness:
  "\<exists>w1 e'. pg_provision sample_pg (empty_machine\<lparr>pw_registry := False\<rparr>) sample_spec sample_service_state =
      (w1, Inl (ProvisionFailed ''image pull failed'')) \<and> is_permanent e' \<and>
     snd (pg_provision sample_pg (w1\<lparr>pw_registry := True\<rparr>) sample_spec sample_state) = Inl e'"
proof -
  let ?w = "empty_machine\<lparr>pw_registry := False\<rparr>"
  obtain w1 where r: "pg_provision sample_pg ?w sample_spec sample_service_state = (w1, Inl (ProvisionFailed ''image pull failed''))"
    using sample_provision[of False sample_service_state] by auto
  have st: "0 < ss_data_major sample_service_state" "ss_data_major sample_service_state < 100000"
    by (simp_all add: sample_service_state_def)
  have fresh: "\<not> pw_dirs ?w (service_name_str (sp_name sample_spec))" "pw_files ?w (marker_path sample_spec) = None"
    by (simp_all add: empty_machine_def)
  have mk: "pg_marker sample_pg sample_service_state sample_mounts MkInitializing = sample_marker MkInitializing"
    by (simp add: pg_marker_def sample_marker_def sample_pg_def sample_service_state_def sample_instance_def sample_mounts_def)
  have "px_print sample_pg (marker_json (sample_marker MkInitializing)) = ''I''" by code_simp
  then have json: "px_parse sample_pg (px_print sample_pg (marker_json (pg_marker sample_pg sample_service_state m MkInitializing))) =
      Inr (marker_json (pg_marker sample_pg sample_service_state m MkInitializing))"
    if "px_mounts sample_pg ?w (ss_instance sample_service_state) = Inr m" for m
    using that unfolding sample_pg_simps(3) by (simp add: mk) (simp add: sample_pg_def)
  have "container_failure (ProvisionFailed ''image pull failed'')" by (simp add: container_failure_def)
  from failed_provision_wedges[OF sample_storage sample_apart fresh st json r this, of "w1\<lparr>pw_registry := True\<rparr>" sample_state]
  obtain e' where "is_permanent e'" "snd (pg_provision sample_pg (w1\<lparr>pw_registry := True\<rparr>) sample_spec sample_state) = Inl e'"
    by auto
  then show ?thesis using r by blast
qed

section \<open>The controller on this machine\<close>

lemma pg_controller_ok: "env_ok pg_controller"
  unfolding pg_controller_def
proof (rule postgres_env_ok)
  show "repo_codec_ok (se_codec sample_base)" using sample_repo_codec_ok by (simp add: sample_base_def)
  show "hash_valid (SpecHash (px_sha sample_pg x))" for x
    using sample_args_valid(2) by (simp add: sample_pg_def sample_hash_def)
  show "se_random sample_base w = (w', Some h) \<Longrightarrow> length h = 32 \<and> list_all is_lower_hex h" for w w' h
    using sample_hex by (auto simp: sample_base_def)
qed

lemma pg_base_simps:
  "se_codec pg_controller = sample_repo_codec" "se_storage pg_controller" "se_random pg_controller w = (w, Some (concat (replicate 8 ''0af9'')))"
  "se_create_dir pg_controller w i = (w, DirCreated)" "se_bundle pg_controller w i" "se_pointer pg_controller w i = PointerMissing"
  "se_generate pg_controller w i = (w, True)" "se_provision pg_controller = pg_provision sample_pg"
  "se_validate pg_controller = pg_validate" "se_rootful pg_controller w"
  by (simp_all add: pg_controller_def postgres_env_def sample_base_def sample_pg_simps)

lemma sample_validated: "pg_validate sample_spec = Inr ()"
  unfolding pg_validate_def sample_image by (simp add: sample_spec_def)

lemma machine_up: "empty_machine\<lparr>pw_registry := True\<rparr> = empty_machine"
  by (simp add: empty_machine_def)

lemma pg_outside: "outside_ready pg_controller sample_spec empty_machine"
  using sample_provision[of True, unfolded machine_up]
  by (fastforce simp: outside_ready_def pg_base_simps sample_validated)

lemma pg_context: "build_context pg_controller w s = Inr ()"
  by (simp add: build_context_def make_secret_capability_def provider_context_def pg_base_simps)

text \<open>The service is added and the machine is replaced by an empty one; the convergence creates the container again.\<close>

definition pg_start :: "pg_world service_ctl" where
  "pg_start = \<lparr>sc_db = empty_db, sc_world = empty_machine\<rparr>"

definition pg_moved :: "pg_world service_ctl" where
  "pg_moved = (fst (service_add pg_controller 7 sample_spec pg_start))\<lparr>sc_world := empty_machine\<rparr>"

lemma pg_moved_ok:
  "(ctl_step pg_controller)\<^sup>*\<^sup>* pg_start pg_moved"
  "\<exists>s row. get_state sample_repo_codec (sc_db pg_moved) (sp_name sample_spec) = Inr (Some s) \<and> ss_phase s = Ready \<and>
     get_service sample_repo_codec (sc_db pg_moved) (sp_name sample_spec) = Inr (Some row) \<and> row_to_spec row = Inr sample_spec"
proof -
  obtain c s row where c: "service_add pg_controller 7 sample_spec pg_start = (c, Inr ())"
    "get_state sample_repo_codec (sc_db c) (sp_name sample_spec) = Inr (Some s)" "ss_phase s = Ready"
    "get_service sample_repo_codec (sc_db c) (sp_name sample_spec) = Inr (Some row)" "row_to_spec row = Inr sample_spec"
    using add_makes_ready[OF pg_controller_ok sample_spec_valid sample_version sample_args_valid(3) pg_outside]
    unfolding pg_base_simps pg_start_def by blast
  have m: "pg_moved = c\<lparr>sc_world := empty_machine\<rparr>" by (simp add: pg_moved_def c(1))
  have "ctl_step pg_controller pg_start c" using c(1) by (rule ctl_step.add[OF sample_spec_valid sample_args_valid(3)])
  moreover have "ctl_step pg_controller c pg_moved" unfolding m by (rule ctl_step.world)
  ultimately show "(ctl_step pg_controller)\<^sup>*\<^sup>* pg_start pg_moved" by (meson converse_rtranclp_into_rtranclp rtranclp.rtrancl_refl)
  show "\<exists>s row. get_state sample_repo_codec (sc_db pg_moved) (sp_name sample_spec) = Inr (Some s) \<and> ss_phase s = Ready \<and>
     get_service sample_repo_codec (sc_db pg_moved) (sp_name sample_spec) = Inr (Some row) \<and> row_to_spec row = Inr sample_spec"
    using c by (simp add: m)
qed

lemma pg_recreated:
  assumes "row_to_spec row = Inr sample_spec"
  shows "\<exists>w. provider_answer pg_controller empty_machine row s =
     (w, Some (Inr \<lparr>eo_container = sample_container, eo_action = EaRecreated, eo_health = Some Healthy\<rparr>))"
proof -
  obtain w where p: "pg_provision sample_pg empty_machine sample_spec s = (w, Inr sample_container)"
    using sample_provision[of True s] unfolding machine_up by auto
  have "px_inspect sample_pg empty_machine c = (empty_machine, Inl ''container not found'')" for c
    by (simp add: sample_pg_simps) (simp add: empty_machine_def)
  moreover have "not_found ''container not found''" by code_simp
  ultimately have "pg_ensure sample_pg empty_machine sample_spec s =
      (w, Inr \<lparr>eo_container = sample_container, eo_action = EaRecreated, eo_health = Some Healthy\<rparr>)"
    using p by (cases "ss_container s")
      (simp_all add: pg_ensure_def sample_pg_simps(1,2,3) require_def sample_image active_mounts_def pg_recreate_def)
  then show ?thesis
    by (simp add: provider_answer_def pg_context assms) (simp add: pg_controller_def postgres_env_simps within_deadline_def)
qed

definition pg_ensured :: "pg_world service_ctl" where
  "pg_ensured = fst (ensure_one pg_controller 9 (sp_name sample_spec) pg_moved)"

theorem ensured_never_removed_witness:
  "\<forall>g. \<exists>e. snd (service_remove pg_controller 9 [] (sp_name sample_spec) g True
     (pg_ensured\<lparr>sc_world := empty_machine\<lparr>pw_container := Some (docker_report sample_container_spec)\<rparr>\<rparr>)) = Inl e"
proof
  fix g
  let ?w = "empty_machine\<lparr>pw_container := Some (docker_report sample_container_spec)\<rparr>"
  obtain s row where s: "get_state sample_repo_codec (sc_db pg_moved) (sp_name sample_spec) = Inr (Some s)" "ss_phase s \<noteq> PhBlocked"
    "get_service sample_repo_codec (sc_db pg_moved) (sp_name sample_spec) = Inr (Some row)" "row_to_spec row = Inr sample_spec"
    using pg_moved_ok(2) by fastforce
  obtain w where pa: "provider_answer pg_controller empty_machine row s =
     (w, Some (Inr \<lparr>eo_container = sample_container, eo_action = EaRecreated, eo_health = Some Healthy\<rparr>))"
    using pg_recreated[OF s(4)] by blast
  obtain res where r: "ensure_one pg_controller 9 (sp_name sample_spec) pg_moved = (pg_ensured, res)"
    by (metis pg_ensured_def prod.collapse)
  have w: "sc_world pg_moved = empty_machine" by (simp add: pg_moved_def)
  have "px_inspect sample_pg ?w (container_id_str sample_container) = (?w, Inr (docker_report sample_container_spec))"
    by (simp add: sample_pg_simps empty_machine_def)
  then show "\<exists>e. snd (service_remove pg_controller 9 [] (sp_name sample_spec) g True (pg_ensured\<lparr>sc_world := ?w\<rparr>)) = Inl e"
    using ensured_never_removed[OF pg_controller_ok[unfolded pg_controller_def] pg_moved_ok(1)[unfolded pg_controller_def pg_start_def]
        _ _ s(2) _ sample_args_valid(4) _ r[unfolded pg_controller_def], of row w _ ?w ?w _ 9 "[]" g True] s pa
    by (fastforce simp: w pg_controller_def sample_base_def postgres_env_simps sample_validated)
qed

text \<open>The service after that convergence.\<close>

lemma pg_ensured_ok:
  "(ctl_step pg_controller)\<^sup>*\<^sup>* pg_start pg_ensured"
  "\<exists>s row. get_state sample_repo_codec (sc_db pg_ensured) (sp_name sample_spec) = Inr (Some s) \<and> ss_phase s = Ready \<and>
     ss_container s = Some sample_container \<and>
     get_service sample_repo_codec (sc_db pg_ensured) (sp_name sample_spec) = Inr (Some row) \<and> row_to_spec row = Inr sample_spec"
proof -
  obtain s row where s: "get_state (se_codec pg_controller) (sc_db pg_moved) (sp_name sample_spec) = Inr (Some s)" "ss_phase s \<noteq> PhBlocked"
    "get_service (se_codec pg_controller) (sc_db pg_moved) (sp_name sample_spec) = Inr (Some row)" "row_to_spec row = Inr sample_spec"
    using pg_moved_ok(2) by (fastforce simp: pg_base_simps)
  let ?eo = "\<lparr>eo_container = sample_container, eo_action = EaRecreated, eo_health = Some Healthy\<rparr>"
  have "sc_world pg_moved = empty_machine" by (simp add: pg_moved_def)
  then obtain w where pa: "provider_answer pg_controller (sc_world pg_moved) row s = (w, Some (Inr ?eo))"
    using pg_recreated[OF s(4)] by auto
  obtain res where r: "ensure_one pg_controller 9 (sp_name sample_spec) pg_moved = (pg_ensured, res)"
    by (metis pg_ensured_def prod.collapse)
  obtain t where t: "keeps_ledger pg_controller pg_ensured t" "desired t (sp_name sample_spec) = Some row"
    "control t (sp_name sample_spec) = Some (ensured_state 9 ?eo s)"
    using active_ensure[OF pg_controller_ok pg_moved_ok(1)[unfolded pg_start_def] s(3,1,2) _ sample_args_valid(4) pa r]
    by (auto simp: pg_base_simps s(4) sample_validated)
  show "(ctl_step pg_controller)\<^sup>*\<^sup>* pg_start pg_ensured"
    using pg_moved_ok(1) ctl_step.ensure[OF sample_args_valid(4) r] by (rule rtranclp.rtrancl_into_rtrancl)
  have "ss_phase (ensured_state 9 ?eo s) = Ready" "ss_container (ensured_state 9 ?eo s) = Some sample_container"
    by (simp_all add: ensured_state_def cas_state_def)
  then show "\<exists>s row. get_state sample_repo_codec (sc_db pg_ensured) (sp_name sample_spec) = Inr (Some s) \<and> ss_phase s = Ready \<and>
     ss_container s = Some sample_container \<and>
     get_service sample_repo_codec (sc_db pg_ensured) (sp_name sample_spec) = Inr (Some row) \<and> row_to_spec row = Inr sample_spec"
    using reads[OF pg_controller_ok t(1)] t(2,3) s(4) by (auto simp: pg_base_simps)
qed

text \<open>The daemon times out once; afterwards it is reachable and the container still runs.\<close>

definition pg_down :: "pg_world service_ctl" where
  "pg_down = pg_ensured\<lparr>sc_world := empty_machine\<lparr>pw_daemon := False\<rparr>\<rparr>"

theorem failed_inspection_orphans_witness:
  "\<exists>c' c'' s' g users res. ensure_one pg_controller 9 (sp_name sample_spec) pg_down = (c', res) \<and>
     get_state sample_repo_codec (sc_db c') (sp_name sample_spec) = Inr (Some s') \<and> ss_container s' = None \<and>
     service_remove pg_controller 9 users (sp_name sample_spec) g True
       (c'\<lparr>sc_world := empty_machine\<lparr>pw_container := Some (docker_report sample_container_spec)\<rparr>\<rparr>) =
       (c'', Inr (removal_done (sp_name sample_spec) users)) \<and>
     pw_container (sc_world c'') \<noteq> None"
proof -
  let ?n = "sp_name sample_spec" and ?w = "empty_machine\<lparr>pw_container := Some (docker_report sample_container_spec)\<rparr>"
  obtain s row where s: "get_state sample_repo_codec (sc_db pg_down) ?n = Inr (Some s)" "ss_phase s \<noteq> PhBlocked"
    "ss_container s = Some sample_container"
    "get_service sample_repo_codec (sc_db pg_down) ?n = Inr (Some row)" "row_to_spec row = Inr sample_spec"
    using pg_ensured_ok(2) by (fastforce simp: pg_down_def)
  have reach: "(ctl_step pg_controller)\<^sup>*\<^sup>* pg_start pg_down"
    unfolding pg_down_def by (rule rtranclp.rtrancl_into_rtrancl[OF pg_ensured_ok(1) ctl_step.world])
  obtain c' res where r: "ensure_one pg_controller 9 ?n pg_down = (c', res)" by fastforce
  have i: "px_inspect sample_pg (sc_world pg_down) (container_id_str sample_container) = (sc_world pg_down, Inl ''timeout'')"
    by (simp add: pg_down_def sample_pg_simps)
  have nf: "\<not> not_found ''timeout''" by code_simp
  have v: "pg_validate (projr (row_to_spec row)) = Inr ()" unfolding s(5) sum.sel by (rule sample_validated)
  have b: "se_codec sample_base = sample_repo_codec" by (simp add: sample_base_def)
  have "(\<exists>s'. get_state (se_codec sample_base) (sc_db c') ?n = Inr (Some s') \<and> ss_phase s' = PhBlocked \<and> ss_container s' = None) \<and>
    (\<exists>db'. service_remove (postgres_env sample_pg (\<lambda>_. None) sample_base) 9 [] ?n (ss_generation s + 1) True (c'\<lparr>sc_world := ?w\<rparr>) =
       (c'\<lparr>sc_world := ?w, sc_db := db'\<rparr>, Inr (removal_done ?n [])))"
    by (rule failed_inspection_orphans[OF pg_controller_ok[unfolded pg_controller_def] reach[unfolded pg_controller_def pg_start_def]
        _ _ s(2) v sample_args_valid(4,4) sample_pg_simps(1,3) refl _ s(3) i nf r[unfolded pg_controller_def] sample_pg_simps(1)])
      (use s in \<open>simp_all add: b pg_context[unfolded pg_controller_def]\<close>)
  then obtain s' db' where "get_state sample_repo_codec (sc_db c') ?n = Inr (Some s')" "ss_container s' = None"
    "service_remove pg_controller 9 [] ?n (ss_generation s + 1) True (c'\<lparr>sc_world := ?w\<rparr>) =
       (c'\<lparr>sc_world := ?w, sc_db := db'\<rparr>, Inr (removal_done ?n []))"
    by (auto simp: pg_controller_def sample_base_def)
  then show ?thesis
    using r by (intro exI[of _ c'] exI[of _ "c'\<lparr>sc_world := ?w, sc_db := db'\<rparr>"] exI[of _ s'] exI[of _ "ss_generation s + 1"] exI[of _ "[]"] exI[of _ res]) simp
qed

end
