(* ===== verification/Spec2Isabelle.thy ===== *)
theory Spec2Isabelle
  imports ImageRef Validate Registry Health Reconcile DeployFaults DockerProps ServiceLifeSamples PreviewSamples RenewProps ApiStatusProps DoctorProps ApplyProps
    PostgresSamples
begin

text \<open>
  A verification development for \<open>slip\<close>, a deployment daemon for a single host.  The program is the Rust
  workspace \<open>crates/\<close>: the library \<open>slip-core\<close>, the daemon \<open>slipd\<close> and the client \<open>slip-cli\<close>.  All file
  names below are relative to \<open>crates/slip-core/src\<close> unless they say otherwise.

  \<^bold>\<open>The parts and how they interact.\<close>  The daemon loads its configuration and one file per application,
  connects to a container runtime and to Caddy, verifies what it persisted, re-registers the routes and
  then serves an HTTP API.  A signed deploy request takes the lock of its application and spawns a task:
  the orchestrator pulls the image, reads the configuration it carries, merges it with the configuration
  of the server, starts the new version, waits for its health check, switches the route and stops the old
  version.  Previews go through an orchestrator of their own, with a limit, a lifetime and a reaper.
  Managed services are rows of a database that a controller keeps in step with containers, storage and
  secret bundles.  A periodic loop re-applies the routes to Caddy.

  \<^bold>\<open>Which theory models what.\<close>
  \<^item> \<open>Prelude\<close>, \<open>Json\<close>: strings as their UTF-8 bytes, results as sums, the string functions of the standard
    library, JSON values with their accessors.
  \<^item> \<open>Names\<close> (\<open>services/name.rs\<close>, \<open>services/resource.rs\<close>), \<open>ImageRef\<close> (\<open>services/image_ref.rs\<close>), \<open>Needs\<close>
    (\<open>needs.rs\<close>), \<open>StatusExpect\<close> (\<open>status_expectation.rs\<close>): the small languages of names, pinned images,
    needs and status ranges, with their parsers and printers.
  \<^item> \<open>Config\<close>, \<open>ConfigLoad\<close> (\<open>config.rs\<close>, \<open>repo_config.rs\<close>): the types, the duration grammar, placeholders, the
    loading pipeline.  \<open>Merge\<close> (\<open>merge.rs\<close>) combines server and repository, \<open>Validate\<close> (\<open>validate.rs\<close>) checks
    both, \<open>Manifest\<close> (\<open>manifest.rs\<close>) renders a pod manifest in eight steps.
  \<^item> \<open>Secrets\<close>, \<open>Registry\<close>, \<open>Bindings\<close> (\<open>secrets.rs\<close>, \<open>auth.rs\<close>, \<open>registry.rs\<close>, \<open>services/bindings.rs\<close>): the
    store with its reserved namespaces, signatures, pull credentials, binding records.
  \<^item> \<open>Caddy\<close>, \<open>CaddyTable\<close>, \<open>CaddyProps\<close> (\<open>caddy.rs\<close>): the client of the admin API over a record of server
    operations; the effect the server documents; the contract of the proxy as a locale over the abstract
    route table, discharged for the client.  \<open>TlsRenew\<close>, \<open>RenewProps\<close>: certificate renewal.
  \<^item> \<open>Health\<close> (\<open>health.rs\<close>), \<open>State\<close>, \<open>Reconcile\<close> (\<open>state.rs\<close>, \<open>reconcile.rs\<close>): the polling check, persistence,
    the startup and periodic passes.
  \<^item> \<open>DeployTypes\<close>, \<open>Deploy\<close>, \<open>DeployPod\<close>, \<open>DeployRun\<close> (\<open>deploy.rs\<close>): the orchestrator over a record of runtime
    operations and a record of proxy operations; a run is a function on the world, an early return is the
    world at that point.  \<open>DeployFrame\<close>: what each step leaves alone and how every run ends.  \<open>Runtime\<close>: the
    contract of the container runtime as a locale, and a reference runtime.  \<open>DeployProps\<close>, \<open>DeployFaults\<close>:
    the guarantees and the places where the code falls short.  \<open>Docker\<close>, \<open>DockerProps\<close> (\<open>docker.rs\<close>): the
    Docker backend and the proof that it meets the contract over a documented engine.
  \<^item> \<open>Preview\<close>, \<open>PreviewRun\<close> (\<open>preview.rs\<close>): previews; \<open>PreviewProps\<close>, \<open>PreviewLimit\<close>, \<open>PreviewOps\<close>,
    \<open>PreviewSamples\<close>: their properties and sample runs.
  \<^item> \<open>ServiceSpec\<close>, \<open>ServiceRepo\<close>, \<open>ServiceController\<close> (\<open>services/spec.rs\<close>, \<open>repository.rs\<close>, \<open>controller.rs\<close>):
    values, tables and operations of managed services; \<open>ServiceRepoProps\<close>, \<open>ServiceLedger\<close>, \<open>ServiceSteps\<close>: the
    tables refine a ledger of typed rows, as a step relation; \<open>ServiceControlProps\<close>, \<open>ServiceLife\<close>: the
    controller over it; \<open>ServiceSamples\<close>, \<open>ServiceLifeSamples\<close>: a codec and an outside that satisfy the laws.
  \<^item> \<open>Postgres\<close>, \<open>PostgresRun\<close>, \<open>PostgresSql\<close> (\<open>services/postgres.rs\<close>, the service containers of \<open>runtime.rs\<close>): the
    PostgreSQL provider over a record of requests to the runtime, the storage and the secrets: specification and
    ownership check, provision with its bootstrap marker, ensure, remove, the statement that creates a resource.
    \<open>postgres_env\<close> makes it the provider of the controller.  \<open>PostgresProps\<close>: what the ownership check accepts, that
    nothing else is touched, and that no resource injects SQL; \<open>PostgresLife\<close>: failed provisions, and what becomes of
    a service when the controller runs over the provider; \<open>PostgresSamples\<close>: a machine for both.
  \<^item> \<open>ApiTypes\<close>, \<open>Api\<close>, \<open>ApiDeploy\<close>, \<open>ApiStatus\<close> (\<open>api.rs\<close>), \<open>DeployHistory\<close> (\<open>db.rs\<close>), \<open>Daemon\<close>
    (\<open>slipd/src/main.rs\<close>): handlers, deploy history, start.  \<open>ApiSteps\<close>: the daemon as a transition system
    of requests and finished tasks with its invariants; \<open>ApiSamples\<close>, \<open>ApiProps\<close>, \<open>ApiRestart\<close>,
    \<open>ApiDeployProps\<close>, \<open>ApiStatusProps\<close>: what it guarantees, and what a restart finds.
  \<^item> \<open>Apply\<close>, \<open>ApplyRequest\<close>, \<open>ApplyProps\<close> (\<open>diff.rs\<close>): the comparison and payloads of \<open>slip apply\<close>, the reading
    of the request, and when the two converge.  \<open>Doctor\<close>, \<open>DoctorProps\<close> (\<open>doctor.rs\<close>, \<open>tailscale.rs\<close>): the
    host checks.

  \<^bold>\<open>Interfaces.\<close>  What one part relies on in another is a locale: \<open>name_policy\<close> for the validators of names,
  \<open>secret_store\<close>, \<open>caddy_admin\<close> for a documented Caddy server and its extension \<open>caddy_reliable\<close> for one that refuses no PATCH
  but with 404 (an idealisation, used for sequences of fault-free calls), \<open>reverse_proxy\<close> for what the orchestrator asks of the proxy, \<open>renewal_server\<close>, \<open>container_runtime\<close>, \<open>docker_engine_spec\<close>,
  \<open>service_files\<close> for the storage that the PostgreSQL provider writes its marker to.
  Each is interpreted on the model of the code that provides it; where the provider is not part of the
  program (Caddy, Docker), the laws state its documented behaviour and a reference implementation shows
  that they can hold.  The JSON codec of the service rows and the outside of the service controller
  (containers, storage, secret bundles, provider) are records with their laws as predicates, which
  \<open>ServiceSamples\<close> and \<open>ServiceLifeSamples\<close> show to be satisfiable.

  \<^bold>\<open>Bounds and fuel.\<close> No definition needs fuel. A retried request is tried a number of
  times that is an argument (at most three retries, as the retry library is configured); a polling loop runs
  over the list of answers it gets before its deadline, or over the number of polls that fit into it. Ports
  are below 65536, retries below \<open>2 ^ 32\<close>, milliseconds and minutes are parsed as 64-bit
  numbers and multiplied with wrap-around, sizes keep the limits of SQLite's signed 64-bit integers. The
  generations of service rows are unbounded integers, 64-bit in the program: a row reaches that limit after
  \<open>2 ^ 63 - 1\<close> operations on it (lemma \<open>generation_bounded\<close> in \<open>ServiceSteps\<close>). At most 1000 services are listed, address masks are words of their width with the shift count
  taken modulo the width, as a build without overflow checks does. A date that the \<open>chrono\<close>
  crate cannot represent is a panic, which is a value of its own; so is the container name of a tag whose
  twelfth byte lies inside a character. \<open>str::to_lowercase\<close> is modelled on ASCII letters for hosts, and where its
  result is compared with ASCII words also on the one other character that becomes such a letter (\<open>fold_kelvin\<close>).

  \<^bold>\<open>What is not modelled, and why.\<close>  The parsers and printers of TOML, YAML, JSON and \<open>f64\<close>, hashes and HMAC,
  the JSON patch crate, Caddy, Docker, the random generator and the clock are not part of the source; they
  are arguments, with what the code relies on as hypotheses.  I/O errors of SQLite are not modelled, and
  of the file system only those that change what the program does next.  The Podman backend and the
  directory handling of service secrets and storage are sequences of requests to other programs and to the
  operating system, whose effect is the contract the modelled parts use.  The client's argument parsing,
  prompts and printing, the HTTP server, log streaming, logging and signal handling are I/O.  A spawned
  deploy shows its effect in one step, when it ends. The requests that take its lock are refused until then,
  so they cannot see the difference; the requests without a lock (status, listings, setting the deploy key)
  could see the record, the history or the routes of a deploy that is still running, and the model does not
  show those intermediate states. The insert of a deploy's first history row is a spawned task without a
  lock; it is a step of its own, which may fail and may come after the deploy has ended.  The Linux build is
  the one modelled.
\<close>

end
